(* ===== verification/Prelude.thy ===== *)
theory Prelude
  imports Main "HOL-Library.Multiset" "HOL-Library.Monad_Syntax"
begin

text \<open>
  Shared ground of the development: the container helpers of como/utils/algorithm.h with the
  facts that let the simplifier replace them by the list library's own operations, a bounded
  fold over lists in the option monad (the shape of every loop whose body may fail), and the
  collections of lemmas the component theories feed.

  Conventions used everywhere:
  \<^item> a run that leaves the defined behaviour of C++ (a failed assert, an at() out of range, a
    violated precondition of the standard library) or that does not return is the value None;
  \<^item> a container is a list, an iterator into it is an index, end() is its length;
  \<^item> a pointer to an object is a natural number, the objects live in a function from pointers.
\<close>

named_theorems algo_simps "container helpers in terms of the list library"
named_theorems frame_simps "what an operation leaves alone"

section \<open>The container helpers of utils/algorithm.h\<close>

text \<open>std::find: the index of the first element equal to the argument, the length if none is.\<close>

fun std_find :: "'a list \<Rightarrow> 'a \<Rightarrow> nat" where
  "std_find [] a = 0"
| "std_find (x # xs) a = (if x = a then 0 else Suc (std_find xs a))"

fun std_find_if :: "'a list \<Rightarrow> ('a \<Rightarrow> bool) \<Rightarrow> nat" where
  "std_find_if [] f = 0"
| "std_find_if (x # xs) f = (if f x then 0 else Suc (std_find_if xs f))"

definition find_it :: "'a list \<Rightarrow> 'a \<Rightarrow> nat" where
  "find_it container arg = std_find container arg"

definition index_of :: "'a list \<Rightarrow> 'a \<Rightarrow> int" where
  "index_of container arg =
     (let it = std_find container arg
      in if it = length container then -1 else int it)"

definition contains :: "'a list \<Rightarrow> 'a \<Rightarrow> bool" where
  "contains container arg \<longleftrightarrow> std_find container arg \<noteq> length container"

definition contains_if :: "'a list \<Rightarrow> ('a \<Rightarrow> bool) \<Rightarrow> bool" where
  "contains_if container f \<longleftrightarrow> std_find_if container f \<noteq> length container"

text \<open>std::rotate on the range from f to l with the new first element m, and its result.\<close>

definition std_rotate :: "nat \<Rightarrow> nat \<Rightarrow> nat \<Rightarrow> 'a list \<Rightarrow> 'a list \<times> nat" where
  "std_rotate f m l xs =
     (take f xs @ drop m (take l xs) @ drop f (take m xs) @ drop l xs, f + (l - m))"

definition slide :: "nat \<Rightarrow> nat \<Rightarrow> nat \<Rightarrow> 'a list \<Rightarrow> 'a list \<times> nat \<times> nat" where
  "slide f l p xs =
     (if p < f then let (ys, e) = std_rotate p f l xs in (ys, p, e)
      else if l < p then let (ys, b) = std_rotate f l p xs in (ys, b, p)
      else (xs, f, l))"

definition move_to_back :: "'a list \<Rightarrow> 'a \<Rightarrow> bool \<times> 'a list" where
  "move_to_back container arg =
     (let it = find_it container arg
      in if it = length container then (False, container)
         else let one_item = it + 1
              in (True, fst (slide it one_item (length container) container)))"

definition move_to_front :: "'a list \<Rightarrow> 'a \<Rightarrow> bool \<times> 'a list" where
  "move_to_front container arg =
     (let it = find_it container arg
      in if it = length container then (False, container)
         else let one_item = it + 1
              in (True, fst (slide it one_item 0 container)))"

text \<open>The erase-remove idiom keeps the elements that differ from the argument, in order.\<close>

definition remove_all :: "'a list \<Rightarrow> 'a \<Rightarrow> 'a list" where
  "remove_all container arg = filter (\<lambda>x. x \<noteq> arg) container"

definition remove_all_if :: "'a list \<Rightarrow> ('a \<Rightarrow> bool) \<Rightarrow> 'a list" where
  "remove_all_if container f = filter (\<lambda>x. \<not> f x) container"

text \<open>container.insert(it, x) puts x in front of the element at index it.\<close>

definition insert_at :: "nat \<Rightarrow> 'a \<Rightarrow> 'a list \<Rightarrow> 'a list" where
  "insert_at i x xs = take i xs @ x # drop i xs"

subsection \<open>The helpers in terms of the list library\<close>

lemma std_find_le: "std_find xs a \<le> length xs"
  by (induction xs) auto

lemma std_find_eq_length [simp]: "std_find xs a = length xs \<longleftrightarrow> a \<notin> set xs"
  by (induction xs) auto

lemma std_find_less [simp]: "std_find xs a < length xs \<longleftrightarrow> a \<in> set xs"
  by (induction xs) auto

lemma nth_std_find [simp]: "a \<in> set xs \<Longrightarrow> xs ! std_find xs a = a"
  by (induction xs) auto

lemma take_std_find: "a \<notin> set (take (std_find xs a) xs)"
  by (induction xs) auto

lemma std_find_split:
  "a \<in> set xs \<Longrightarrow> xs = take (std_find xs a) xs @ a # drop (Suc (std_find xs a)) xs"
  by (induction xs) auto

lemma std_find_if_le: "std_find_if xs f \<le> length xs"
  by (induction xs) auto

lemma std_find_if_eq_length [simp]:
  "std_find_if xs f = length xs \<longleftrightarrow> (\<forall>x\<in>set xs. \<not> f x)"
  by (induction xs) auto

lemma contains_iff [simp, algo_simps]: "contains xs a \<longleftrightarrow> a \<in> set xs"
  by (simp add: contains_def)

lemma contains_if_iff [simp, algo_simps]: "contains_if xs f \<longleftrightarrow> (\<exists>x\<in>set xs. f x)"
  by (auto simp: contains_if_def)

lemma index_of_neg [simp]: "index_of xs a = -1 \<longleftrightarrow> a \<notin> set xs"
  by (simp add: index_of_def Let_def)

lemma index_of_nth:
  "a \<in> set xs \<Longrightarrow> 0 \<le> index_of xs a \<and> nat (index_of xs a) < length xs
     \<and> xs ! nat (index_of xs a) = a"
  by (auto simp: index_of_def Let_def std_find_eq_length)

lemma remove1_std_find:
  "a \<in> set xs \<Longrightarrow> remove1 a xs = take (std_find xs a) xs @ drop (Suc (std_find xs a)) xs"
  by (induction xs) auto

lemma move_to_back_eq [algo_simps]:
  "move_to_back xs a = (a \<in> set xs, if a \<in> set xs then remove1 a xs @ [a] else xs)"
proof (cases "a \<in> set xs")
  case True
  let ?i = "std_find xs a"
  have lt: "?i < length xs" using True by simp
  have d: "drop ?i (take (Suc ?i) xs) = [a]"
    using True lt by (simp add: take_Suc_conv_app_nth)
  show ?thesis
  proof (cases "Suc ?i < length xs")
    case inner: True
    then show ?thesis
      using True d by (simp add: move_to_back_def find_it_def slide_def std_rotate_def Let_def
          remove1_std_find)
  next
    case False
    then have "Suc ?i = length xs" using lt by linarith
    then show ?thesis
      using True std_find_split [of a xs] remove1_std_find [of a xs]
      by (simp add: move_to_back_def find_it_def slide_def Let_def)
  qed
qed (simp add: move_to_back_def find_it_def Let_def)

lemma move_to_front_eq [algo_simps]:
  "move_to_front xs a = (a \<in> set xs, if a \<in> set xs then a # remove1 a xs else xs)"
proof (cases "a \<in> set xs")
  case True
  let ?i = "std_find xs a"
  have lt: "?i < length xs" using True by simp
  have d: "drop ?i (take (Suc ?i) xs) = [a]"
    using True lt by (simp add: take_Suc_conv_app_nth)
  show ?thesis
  proof (cases "0 < ?i")
    case inner: True
    then show ?thesis
      using True d by (simp add: move_to_front_def find_it_def slide_def std_rotate_def Let_def
          remove1_std_find)
  next
    case False
    then have "?i = 0" by simp
    moreover have "xs \<noteq> []" using True by auto
    ultimately show ?thesis
      using True std_find_split [of a xs] remove1_std_find [of a xs]
      by (simp add: move_to_front_def find_it_def slide_def Let_def)
  qed
qed (simp add: move_to_front_def find_it_def Let_def)

lemma remove_all_eq [algo_simps]: "remove_all xs a = removeAll a xs"
  by (induction xs) (auto simp: remove_all_def)

lemma set_remove_all [simp]: "set (remove_all xs a) = set xs - {a}"
  by (auto simp: remove_all_def)

lemma distinct_remove_all [simp]: "distinct xs \<Longrightarrow> distinct (remove_all xs a)"
  by (simp add: remove_all_def)

lemma remove_all_idle [simp]: "a \<notin> set xs \<Longrightarrow> remove_all xs a = xs"
  by (induction xs) (auto simp: remove_all_def)

lemma remove_all_append [simp]: "remove_all (xs @ ys) a = remove_all xs a @ remove_all ys a"
  by (simp add: remove_all_def)

lemma remove_all_Nil [simp]: "remove_all [] a = []"
  by (simp add: remove_all_def)

lemma remove_all_Cons [simp]:
  "remove_all (x # xs) a = (if x = a then remove_all xs a else x # remove_all xs a)"
  by (simp add: remove_all_def)

lemma set_insert_at [simp]: "set (insert_at i x xs) = insert x (set xs)"
proof -
  have "set (take i xs) \<union> set (drop i xs) = set xs"
    by (metis append_take_drop_id set_append)
  then show ?thesis by (auto simp: insert_at_def)
qed

lemma mset_insert_at [simp]: "mset (insert_at i x xs) = add_mset x (mset xs)"
proof -
  have "mset xs = mset (take i xs) + mset (drop i xs)"
    by (metis append_take_drop_id mset_append)
  then show ?thesis by (simp add: insert_at_def)
qed

lemma distinct_insert_at [simp]: "distinct (insert_at i x xs) \<longleftrightarrow> distinct xs \<and> x \<notin> set xs"
  using mset_insert_at [of i x xs]
  by (metis distinct.simps(2) mset.simps(2) mset_eq_imp_distinct_iff)

lemma length_insert_at [simp]: "length (insert_at i x xs) = Suc (length xs)"
  using mset_insert_at [of i x xs] by (metis size_add_mset size_mset)

lemma remove1_distinct: "distinct xs \<Longrightarrow> remove1 a xs = remove_all xs a"
  by (simp add: remove_all_eq distinct_remove1_removeAll)

section \<open>Loops whose body may fail\<close>

fun ofold :: "('a \<Rightarrow> 's \<Rightarrow> 's option) \<Rightarrow> 'a list \<Rightarrow> 's \<Rightarrow> 's option" where
  "ofold f [] s = Some s"
| "ofold f (x # xs) s = Option.bind (f x s) (ofold f xs)"

lemma ofold_append [simp]: "ofold f (xs @ ys) s = Option.bind (ofold f xs s) (ofold f ys)"
  by (induction xs arbitrary: s) (auto split: bind_splits)

text \<open>An invariant of the body is an invariant of the loop; a body that always returns under
  the invariant makes a loop that returns.\<close>

lemma ofold_invariant:
  assumes "ofold f xs s = Some t" "I s"
    and "\<And>x s t. x \<in> set xs \<Longrightarrow> I s \<Longrightarrow> f x s = Some t \<Longrightarrow> I t"
  shows "I t"
  using assms
proof (induction xs arbitrary: s)
  case Nil
  then show ?case by simp
next
  case (Cons x xs)
  from Cons.prems(1) obtain u where u: "f x s = Some u" "ofold f xs u = Some t"
    by (auto simp: bind_eq_Some_conv)
  have "I u" using Cons.prems(2,3) u(1) by (meson list.set_intros(1))
  then show ?case
    using Cons.IH [OF u(2)] Cons.prems(3) by (meson list.set_intros(2))
qed

lemma ofold_total:
  assumes "I s"
    and "\<And>x s. x \<in> set xs \<Longrightarrow> I s \<Longrightarrow> \<exists>t. f x s = Some t \<and> I t"
  shows "\<exists>t. ofold f xs s = Some t \<and> I t"
  using assms
proof (induction xs arbitrary: s)
  case Nil
  then show ?case by simp
next
  case (Cons x xs)
  from Cons.prems obtain u where u: "f x s = Some u" "I u"
    by (meson list.set_intros(1))
  from Cons.IH [OF u(2)] Cons.prems(2) obtain t where "ofold f xs u = Some t" "I t"
    by (meson list.set_intros(2))
  with u show ?case by auto
qed

text \<open>A loop whose rounds each achieve something the later rounds keep.\<close>

lemma ofold_each:
  assumes "I s"
    and "\<And>x s. x \<in> set xs \<Longrightarrow> I s \<Longrightarrow>
           \<exists>t. f x s = Some t \<and> I t \<and> Q x t \<and> (\<forall>y. Q y s \<longrightarrow> Q y t)"
  shows "\<exists>t. ofold f xs s = Some t \<and> I t \<and> (\<forall>x\<in>set xs. Q x t) \<and> (\<forall>y. Q y s \<longrightarrow> Q y t)"
  using assms
proof (induction xs arbitrary: s)
  case (Cons x xs)
  obtain u where u: "f x s = Some u" "I u" "Q x u" "\<forall>y. Q y s \<longrightarrow> Q y u"
    using Cons.prems(2) [of x s] Cons.prems(1) by auto
  have "\<exists>t. ofold f xs u = Some t \<and> I t \<and> (\<forall>x\<in>set xs. Q x t) \<and> (\<forall>y. Q y u \<longrightarrow> Q y t)"
    by (rule Cons.IH [OF u(2)]) (rule Cons.prems(2), simp_all)
  with u show ?case by auto
qed simp

lemma ofold_cong [fundef_cong]:
  "xs = ys \<Longrightarrow> s = t \<Longrightarrow> (\<And>x s. x \<in> set ys \<Longrightarrow> f x s = g x s) \<Longrightarrow> ofold f xs s = ofold g ys t"
proof (induction ys arbitrary: xs s t)
  case (Cons y ys)
  have "f y t = g y t" and "\<And>u. ofold f ys u = ofold g ys u"
    using Cons.prems(3) Cons.IH by auto
  then show ?case using Cons.prems(1,2) by (simp cong: Option.bind_cong)
qed simp

lemma ofold_mono:
  assumes "ofold f xs s = Some t"
    and "\<And>x s t. x \<in> set xs \<Longrightarrow> f x s = Some t \<Longrightarrow> g x s = Some t"
  shows "ofold g xs s = Some t"
  using assms
proof (induction xs arbitrary: s)
  case (Cons x xs)
  from Cons.prems(1) obtain u where u: "f x s = Some u" "ofold f xs u = Some t"
    by (auto simp: bind_eq_Some_conv)
  have "g x s = Some u" using Cons.prems(2) u(1) by simp
  moreover have "ofold g xs u = Some t" using Cons.IH [OF u(2)] Cons.prems(2) by simp
  ultimately show ?case by simp
qed simp

text \<open>The first element of a search whose test may fail, in container order.\<close>

fun ofind :: "('a \<Rightarrow> bool option) \<Rightarrow> 'a list \<Rightarrow> 'a option option" where
  "ofind p [] = Some None"
| "ofind p (x # xs) =
     Option.bind (p x) (\<lambda>b. if b then Some (Some x) else ofind p xs)"

text \<open>std::any_of and a transformation of a container with a callable that may fail.\<close>

fun oexists :: "('a \<Rightarrow> bool option) \<Rightarrow> 'a list \<Rightarrow> bool option" where
  "oexists p [] = Some False"
| "oexists p (x # xs) = Option.bind (p x) (\<lambda>b. if b then Some True else oexists p xs)"

fun omap :: "('a \<Rightarrow> 'b option) \<Rightarrow> 'a list \<Rightarrow> 'b list option" where
  "omap f [] = Some []"
| "omap f (x # xs) = Option.bind (f x) (\<lambda>y. Option.bind (omap f xs) (\<lambda>ys. Some (y # ys)))"

lemma oexists_some:
  "(\<And>x. x \<in> set xs \<Longrightarrow> p x = Some (q x)) \<Longrightarrow> oexists p xs = Some (\<exists>x\<in>set xs. q x)"
  by (induction xs) auto

lemma omap_some:
  "(\<And>x. x \<in> set xs \<Longrightarrow> f x = Some (g x)) \<Longrightarrow> omap f xs = Some (map g xs)"
  by (induction xs) auto

text \<open>These loops may appear in the body of a function that need not return.\<close>

lemma oexists_pf_mono [partial_function_mono]:
  "(\<And>x. mono_option (\<lambda>f. g f x)) \<Longrightarrow> mono_option (\<lambda>f. oexists (g f) xs)"
proof (induction xs)
  case (Cons x xs)
  then show ?case by (simp, intro partial_function_mono) simp_all
qed (simp add: option.const_mono)

lemma omap_pf_mono [partial_function_mono]:
  "(\<And>x. mono_option (\<lambda>f. g f x)) \<Longrightarrow> mono_option (\<lambda>f. omap (g f) xs)"
proof (induction xs)
  case (Cons x xs)
  then show ?case by (simp, intro partial_function_mono) simp_all
qed (simp add: option.const_mono)

lemma ofold_pf_mono [partial_function_mono]:
  "(\<And>x s. mono_option (\<lambda>f. g f x s)) \<Longrightarrow> mono_option (\<lambda>f. ofold (g f) xs s)"
proof (induction xs arbitrary: s)
  case (Cons x xs)
  show ?case by (simp, intro partial_function_mono) (use Cons in simp_all)
qed (simp add: option.const_mono)

section \<open>Reverse searches\<close>

lemma find_rev_None: "List.find P (rev xs) = None \<longleftrightarrow> (\<forall>v\<in>set xs. \<not> P v)"
  by (auto simp: find_None_iff)

lemma find_rev_Some:
  "List.find P (rev xs) = Some w \<Longrightarrow> \<exists>older newer. xs = older @ w # newer \<and> P w \<and> (\<forall>v\<in>set newer. \<not> P v)"
proof (induction xs rule: rev_induct)
  case (snoc x xs)
  show ?case
  proof (cases "P x")
    case True
    with snoc.prems have "xs @ [x] = xs @ w # [] \<and> P w" by simp
    then show ?thesis by (metis empty_iff list.set(1))
  next
    case False
    with snoc obtain older newer where "xs = older @ w # newer" "P w" "\<forall>v\<in>set newer. \<not> P v" by auto
    then have "xs @ [x] = older @ w # (newer @ [x])" "P w" "\<forall>v\<in>set (newer @ [x]). \<not> P v"
      using False by auto
    then show ?thesis by blast
  qed
qed simp

section \<open>Relative order in a list\<close>

text \<open>x stands before y in xs: some occurrence of y has an occurrence of x in front of it.\<close>

fun before :: "'a list \<Rightarrow> 'a \<Rightarrow> 'a \<Rightarrow> bool" where
  "before [] x y = False"
| "before (z # zs) x y = ((z = x \<and> y \<in> set zs) \<or> before zs x y)"

lemma before_append:
  "before (xs @ ys) x y \<longleftrightarrow> before xs x y \<or> before ys x y \<or> (x \<in> set xs \<and> y \<in> set ys)"
  by (induction xs) auto

lemma before_in_set: "before xs x y \<Longrightarrow> x \<in> set xs \<and> y \<in> set xs"
  by (induction xs) auto

lemma before_filter:
  "P x \<Longrightarrow> P y \<Longrightarrow> before (filter P xs) x y = before xs x y"
  by (induction xs) auto

lemma before_remove_all:
  "x \<noteq> a \<Longrightarrow> y \<noteq> a \<Longrightarrow> before (remove_all xs a) x y = before xs x y"
  by (simp add: remove_all_def before_filter)

lemma before_distinct_asym: "distinct xs \<Longrightarrow> before xs x y \<Longrightarrow> \<not> before xs y x"
  by (induction xs) (auto dest: before_in_set)

lemma before_total:
  "x \<in> set xs \<Longrightarrow> y \<in> set xs \<Longrightarrow> x \<noteq> y \<Longrightarrow> before xs x y \<or> before xs y x"
  by (induction xs) auto

lemma before_conv_nth:
  "before xs x y \<longleftrightarrow> (\<exists>i j. i < j \<and> j < length xs \<and> xs ! i = x \<and> xs ! j = y)"
proof (induction xs)
  case Nil
  then show ?case by simp
next
  case (Cons z zs)
  show ?case (is "?l = (\<exists>i j. ?p i j)")
  proof
    assume ?l
    then consider "z = x" "y \<in> set zs" | "before zs x y" by auto
    then show "\<exists>i j. ?p i j"
    proof cases
      case 1
      then obtain j where "j < length zs" "zs ! j = y" by (auto simp: in_set_conv_nth)
      with 1 have "?p 0 (Suc j)" by simp
      then show ?thesis by blast
    next
      case 2
      with Cons.IH obtain i j where "i < j" "j < length zs" "zs ! i = x" "zs ! j = y" by blast
      then have "?p (Suc i) (Suc j)" by simp
      then show ?thesis by blast
    qed
  next
    assume "\<exists>i j. ?p i j"
    then obtain i j where ij: "?p i j" by blast
    then obtain j' where j': "j = Suc j'" by (cases j) auto
    show ?l
    proof (cases i)
      case 0
      with ij j' show ?thesis by (auto simp: in_set_conv_nth)
    next
      case (Suc i')
      with ij j' have "i' < j' \<and> j' < length zs \<and> zs ! i' = x \<and> zs ! j' = y" by simp
      with Cons.IH show ?thesis by auto
    qed
  qed
qed

end
