(* ===== verification/Win_Types.thy ===== *)
theory Win_Types
  imports Prelude "HOL-Library.Word"
begin

text \<open>
  The vocabulary of the windowing code: the enumerations of como/win/types.h and
  como/win/rules/types.h, the bit-flag enumerations of como/utils/flags.h as 32-bit words, and
  the window-type predicates of como/win/net.h that depend on the type alone.

  A plain enumeration is a datatype whose constructors carry the enumeration's name in front
  (several enumerations share enumerator names); enum_index of utils/algorithm.h, the cast to
  the underlying integer, is one function per enumeration the code casts. An enumeration with
  ENUM_FLAGS is a word, its enumerators are constants, and the operators act bitwise.
\<close>

unbundle bit_operations_syntax

section \<open>Bit flags (utils/flags.h)\<close>

type_synonym flag = "32 word"

definition flag_or :: "flag \<Rightarrow> flag \<Rightarrow> flag" where
  "flag_or lhs rhs = (lhs OR rhs)"

definition flag_and :: "flag \<Rightarrow> flag \<Rightarrow> flag" where
  "flag_and lhs rhs = (lhs AND rhs)"

definition flag_xor :: "flag \<Rightarrow> flag \<Rightarrow> flag" where
  "flag_xor lhs rhs = (lhs XOR rhs)"

definition flag_not :: "flag \<Rightarrow> flag" where
  "flag_not rhs = NOT rhs"

definition flag_is_zero :: "flag \<Rightarrow> bool" where
  "flag_is_zero rhs \<longleftrightarrow> rhs = 0"

definition flags_any :: "flag \<Rightarrow> bool" where
  "flags_any v \<longleftrightarrow> v \<noteq> 0"

definition flags_none :: "flag \<Rightarrow> bool" where
  "flags_none v \<longleftrightarrow> v = 0"

definition flags_any_of :: "flag \<Rightarrow> flag \<Rightarrow> bool" where
  "flags_any_of v msk \<longleftrightarrow> flag_and v msk \<noteq> 0"

definition flags_all_of :: "flag \<Rightarrow> flag \<Rightarrow> bool" where
  "flags_all_of v msk \<longleftrightarrow> flag_and v msk = msk"

definition flags_none_of :: "flag \<Rightarrow> flag \<Rightarrow> bool" where
  "flags_none_of v msk \<longleftrightarrow> flag_and v msk = 0"

definition flags_any_except :: "flag \<Rightarrow> flag \<Rightarrow> bool" where
  "flags_any_except v msk \<longleftrightarrow> flag_and v (flag_not msk) \<noteq> 0"

definition flags_none_except :: "flag \<Rightarrow> flag \<Rightarrow> bool" where
  "flags_none_except v msk \<longleftrightarrow> flag_and v (flag_not msk) = 0"

lemmas flag_defs = flag_or_def flag_and_def flag_xor_def flag_not_def flag_is_zero_def
  flags_any_def flags_none_def flags_any_of_def flags_all_of_def flags_none_of_def
  flags_any_except_def flags_none_except_def

text \<open>Two sets of flags agree when they agree on a mask and on its complement.\<close>

lemma flag_split_mask: "flag_or (flag_and v msk) (flag_and v (flag_not msk)) = v"
  by (rule bit_word_eqI) (auto simp: flag_defs bit_simps)

lemma flags_all_of_subset: "flags_all_of v msk \<longleftrightarrow> flags_none_except msk v"
proof
  assume "flags_all_of v msk"
  then have "v AND msk = msk" by (simp add: flag_defs)
  then have "msk AND NOT v = (v AND msk) AND NOT v" by simp
  also have "\<dots> = 0" by (rule bit_word_eqI) (auto simp: bit_simps)
  finally show "flags_none_except msk v" by (simp add: flag_defs)
next
  assume "flags_none_except msk v"
  then have z: "msk AND NOT v = 0" by (simp add: flag_defs)
  have "v AND msk = msk"
  proof (rule bit_word_eqI)
    fix n assume "n < LENGTH(32)"
    have "\<not> bit (msk AND NOT v) n" using z by simp
    then show "bit (v AND msk) n = bit msk n"
      using \<open>n < LENGTH(32)\<close> by (auto simp: bit_simps)
  qed
  then show "flags_all_of v msk" by (simp add: flag_defs)
qed

section \<open>Enumerations (win/types.h)\<close>

datatype win_layer =
  layer_unknown | layer_desktop | layer_below | layer_normal | layer_above
  | layer_notification | layer_active | layer_popup | layer_critical_notification
  | layer_on_screen_display | layer_unmanaged

fun layer_index :: "win_layer \<Rightarrow> int" where
  "layer_index layer_unknown = -1"
| "layer_index layer_desktop = 0"
| "layer_index layer_below = 1"
| "layer_index layer_normal = 2"
| "layer_index layer_above = 3"
| "layer_index layer_notification = 4"
| "layer_index layer_active = 5"
| "layer_index layer_popup = 6"
| "layer_index layer_critical_notification = 7"
| "layer_index layer_on_screen_display = 8"
| "layer_index layer_unmanaged = 9"

text \<open>layer::first and layer::count.\<close>

definition layer_first :: int where "layer_first = 0"
definition layer_count :: int where "layer_count = 10"

lemma layer_index_inj: "layer_index a = layer_index b \<longleftrightarrow> a = b"
  by (cases a; cases b) simp_all

lemma layer_index_range:
  "l \<noteq> layer_unknown \<Longrightarrow> layer_first \<le> layer_index l \<and> layer_index l < layer_count"
  by (cases l) (simp_all add: layer_first_def layer_count_def)

text \<open>Enumerators compare by their underlying values.\<close>

instantiation win_layer :: linorder
begin

definition less_eq_win_layer :: "win_layer \<Rightarrow> win_layer \<Rightarrow> bool" where
  "less_eq_win_layer a b \<longleftrightarrow> layer_index a \<le> layer_index b"

definition less_win_layer :: "win_layer \<Rightarrow> win_layer \<Rightarrow> bool" where
  "less_win_layer a b \<longleftrightarrow> layer_index a < layer_index b"

instance
  by standard (auto simp: less_eq_win_layer_def less_win_layer_def layer_index_inj)

end

datatype focus_chain_change = make_first | make_last | chain_update

datatype win_type =
  wt_unknown | wt_normal | wt_desktop | wt_dock | wt_toolbar | wt_menu | wt_dialog
  | wt_override | wt_top_menu | wt_utility | wt_splash | wt_dropdown_menu | wt_popup_menu
  | wt_tooltip | wt_notification | wt_combo_box | wt_dnd_icon | wt_on_screen_display
  | wt_critical_notification | wt_applet_popup

fun win_type_index :: "win_type \<Rightarrow> int" where
  "win_type_index wt_unknown = -1"
| "win_type_index wt_normal = 0"
| "win_type_index wt_desktop = 1"
| "win_type_index wt_dock = 2"
| "win_type_index wt_toolbar = 3"
| "win_type_index wt_menu = 4"
| "win_type_index wt_dialog = 5"
| "win_type_index wt_override = 6"
| "win_type_index wt_top_menu = 7"
| "win_type_index wt_utility = 8"
| "win_type_index wt_splash = 9"
| "win_type_index wt_dropdown_menu = 10"
| "win_type_index wt_popup_menu = 11"
| "win_type_index wt_tooltip = 12"
| "win_type_index wt_notification = 13"
| "win_type_index wt_combo_box = 14"
| "win_type_index wt_dnd_icon = 15"
| "win_type_index wt_on_screen_display = 16"
| "win_type_index wt_critical_notification = 17"
| "win_type_index wt_applet_popup = 18"

lemma win_type_index_inj: "win_type_index a = win_type_index b \<longleftrightarrow> a = b"
  by (cases a; cases b) simp_all

text \<open>window_type_mask: an unsigned flag enumeration.\<close>

definition mask_normal :: flag where "mask_normal = push_bit 0 1"
definition mask_desktop :: flag where "mask_desktop = push_bit 1 1"
definition mask_dock :: flag where "mask_dock = push_bit 2 1"
definition mask_toolbar :: flag where "mask_toolbar = push_bit 3 1"
definition mask_menu :: flag where "mask_menu = push_bit 4 1"
definition mask_dialog :: flag where "mask_dialog = push_bit 5 1"
definition mask_override :: flag where "mask_override = push_bit 6 1"
definition mask_top_menu :: flag where "mask_top_menu = push_bit 7 1"
definition mask_utility :: flag where "mask_utility = push_bit 8 1"
definition mask_splash :: flag where "mask_splash = push_bit 9 1"
definition mask_dropdown_menu :: flag where "mask_dropdown_menu = push_bit 10 1"
definition mask_popup_menu :: flag where "mask_popup_menu = push_bit 11 1"
definition mask_tooltip :: flag where "mask_tooltip = push_bit 12 1"
definition mask_notification :: flag where "mask_notification = push_bit 13 1"
definition mask_combo_box :: flag where "mask_combo_box = push_bit 14 1"
definition mask_dnd_icon :: flag where "mask_dnd_icon = push_bit 15 1"
definition mask_on_screen_display :: flag where "mask_on_screen_display = push_bit 16 1"
definition mask_critical_notification :: flag where "mask_critical_notification = push_bit 17 1"
definition mask_applet_popup :: flag where "mask_applet_popup = push_bit 18 1"
definition mask_all_types :: flag where "mask_all_types = 0xffffffff"

lemmas mask_defs = mask_normal_def mask_desktop_def mask_dock_def mask_toolbar_def mask_menu_def
  mask_dialog_def mask_override_def mask_top_menu_def mask_utility_def mask_splash_def
  mask_dropdown_menu_def mask_popup_menu_def mask_tooltip_def mask_notification_def
  mask_combo_box_def mask_dnd_icon_def mask_on_screen_display_def
  mask_critical_notification_def mask_applet_popup_def

text \<open>type_matches_mask of win/net.h, one case per CHECK_TYPE_MASK.\<close>

fun type_matches_mask :: "win_type \<Rightarrow> flag \<Rightarrow> bool" where
  "type_matches_mask wt_normal m = flags_any (flag_and m mask_normal)"
| "type_matches_mask wt_desktop m = flags_any (flag_and m mask_desktop)"
| "type_matches_mask wt_dock m = flags_any (flag_and m mask_dock)"
| "type_matches_mask wt_toolbar m = flags_any (flag_and m mask_toolbar)"
| "type_matches_mask wt_menu m = flags_any (flag_and m mask_menu)"
| "type_matches_mask wt_dialog m = flags_any (flag_and m mask_dialog)"
| "type_matches_mask wt_override m = flags_any (flag_and m mask_override)"
| "type_matches_mask wt_top_menu m = flags_any (flag_and m mask_top_menu)"
| "type_matches_mask wt_utility m = flags_any (flag_and m mask_utility)"
| "type_matches_mask wt_splash m = flags_any (flag_and m mask_splash)"
| "type_matches_mask wt_dropdown_menu m = flags_any (flag_and m mask_dropdown_menu)"
| "type_matches_mask wt_popup_menu m = flags_any (flag_and m mask_popup_menu)"
| "type_matches_mask wt_tooltip m = flags_any (flag_and m mask_tooltip)"
| "type_matches_mask wt_notification m = flags_any (flag_and m mask_notification)"
| "type_matches_mask wt_combo_box m = flags_any (flag_and m mask_combo_box)"
| "type_matches_mask wt_dnd_icon m = flags_any (flag_and m mask_dnd_icon)"
| "type_matches_mask wt_on_screen_display m = flags_any (flag_and m mask_on_screen_display)"
| "type_matches_mask wt_critical_notification m =
     flags_any (flag_and m mask_critical_notification)"
| "type_matches_mask wt_applet_popup m = flags_any (flag_and m mask_applet_popup)"
| "type_matches_mask wt_unknown m = False"

lemma flags_any_push_bit: "flags_any (flag_and m (push_bit n 1)) \<longleftrightarrow> bit m n" for m :: flag
proof -
  have "bit m n \<longleftrightarrow> \<not> push_bit n 1 AND m = 0" for m :: flag
    by (auto simp: bit_iff_and_push_bit_not_eq_0 and.commute)
  then show ?thesis by (simp add: flag_defs and.commute)
qed

text \<open>The mask test is the test of the bit whose number is the type's index.\<close>

lemma type_matches_mask_bit:
  "t \<noteq> wt_unknown \<Longrightarrow> type_matches_mask t m \<longleftrightarrow> bit m (nat (win_type_index t))"
  by (cases t; simp only: type_matches_mask.simps mask_defs flags_any_push_bit; simp)

text \<open>maximize_mode, strut_area and same_client_check.\<close>

definition maximize_restore :: flag where "maximize_restore = 0x0"
definition maximize_vertical :: flag where "maximize_vertical = 0x1"
definition maximize_horizontal :: flag where "maximize_horizontal = 0x2"
definition maximize_full :: flag where
  "maximize_full = flag_or maximize_vertical maximize_horizontal"

lemmas maximize_defs = maximize_restore_def maximize_vertical_def maximize_horizontal_def
  maximize_full_def

definition relaxed_for_active :: flag where "relaxed_for_active = 0x1"
definition allow_cross_process :: flag where "allow_cross_process = 0x2"

datatype placement =
  placement_no_placement | placement_global_default | placement_unknown | placement_random
  | placement_smart | placement_centered | placement_zero_cornered | placement_under_mouse
  | placement_on_main_window | placement_maximizing

fun placement_index :: "placement \<Rightarrow> int" where
  "placement_index placement_no_placement = 0"
| "placement_index placement_global_default = 1"
| "placement_index placement_unknown = 2"
| "placement_index placement_random = 3"
| "placement_index placement_smart = 4"
| "placement_index placement_centered = 5"
| "placement_index placement_zero_cornered = 6"
| "placement_index placement_under_mouse = 7"
| "placement_index placement_on_main_window = 8"
| "placement_index placement_maximizing = 9"

definition placement_count :: int where "placement_count = 10"

datatype fsp_level = fsp_none | fsp_low | fsp_medium | fsp_high | fsp_extreme

fun fsp_index :: "fsp_level \<Rightarrow> int" where
  "fsp_index fsp_none = 0"
| "fsp_index fsp_low = 1"
| "fsp_index fsp_medium = 2"
| "fsp_index fsp_high = 3"
| "fsp_index fsp_extreme = 4"

instantiation fsp_level :: linorder
begin

definition less_eq_fsp_level :: "fsp_level \<Rightarrow> fsp_level \<Rightarrow> bool" where
  "less_eq_fsp_level a b \<longleftrightarrow> fsp_index a \<le> fsp_index b"

definition less_fsp_level :: "fsp_level \<Rightarrow> fsp_level \<Rightarrow> bool" where
  "less_fsp_level a b \<longleftrightarrow> fsp_index a < fsp_index b"

instance
proof
  fix a b :: fsp_level
  show "a \<le> b \<Longrightarrow> b \<le> a \<Longrightarrow> a = b" by (cases a; cases b) (simp_all add: less_eq_fsp_level_def)
qed (auto simp: less_eq_fsp_level_def less_fsp_level_def)

end

datatype swipe_direction = swipe_invalid | swipe_up | swipe_down | swipe_left | swipe_right

datatype pinch_direction = pinch_expanding | pinch_contracting

text \<open>The casts back from an integer, defined on the values the enumeration names.\<close>

fun placement_of_index :: "int \<Rightarrow> placement option" where
  "placement_of_index i =
     List.find (\<lambda>p. placement_index p = i)
       [placement_no_placement, placement_global_default, placement_unknown, placement_random,
        placement_smart, placement_centered, placement_zero_cornered, placement_under_mouse,
        placement_on_main_window, placement_maximizing]"

fun fsp_of_index :: "int \<Rightarrow> fsp_level option" where
  "fsp_of_index i =
     List.find (\<lambda>l. fsp_index l = i) [fsp_none, fsp_low, fsp_medium, fsp_high, fsp_extreme]"

lemma placement_of_index_inverse [simp]: "placement_of_index (placement_index p) = Some p"
  by (cases p) simp_all

lemma fsp_of_index_inverse [simp]: "fsp_of_index (fsp_index l) = Some l"
  by (cases l) simp_all

lemma placement_of_index_Some:
  "(\<exists>p. placement_of_index i = Some p) \<longleftrightarrow> 0 \<le> i \<and> i < placement_count"
  by (simp add: placement_count_def split: if_splits) presburger

lemma fsp_of_index_Some:
  "(\<exists>l. fsp_of_index i = Some l) \<longleftrightarrow> fsp_index fsp_none \<le> i \<and> i \<le> fsp_index fsp_extreme"
  by (auto split: if_splits)

end
