(* ===== verification/Subspace_Grid.thy ===== *)
theory Subspace_Grid
  imports Win_Types
begin

text \<open>
  The grid of subspaces (como/win/subspace_grid.cpp): its layout from a size and an
  orientation, the lookup of a cell and of a subspace's coordinates, and the fact that the two
  are inverse for the subspaces the grid has room for. A subspace is its pointer.

  The coordinates of a grid cell are QPoint values, pairs of int. The calls m_grid.at(y) and
  row.at(x) throw out of range; a negative int converted to size_t is out of range.
\<close>

record grid =
  m_size :: "int \<times> int"
  m_grid :: "nat list list"

datatype orientation = Horizontal | Vertical

definition subspace_grid_init :: grid where
  "subspace_grid_init = \<lparr>m_size = (1, 2), m_grid = [[], []]\<rparr>"

text \<open>The conversion of an int to uint.\<close>

definition uint_of_int :: "int \<Rightarrow> nat" where
  "uint_of_int i = nat (i mod 2 ^ 32)"

lemma uint_of_int_small: "0 \<le> i \<Longrightarrow> i < 2 ^ 32 \<Longrightarrow> uint_of_int i = nat i"
  by (simp add: uint_of_int_def)

section \<open>update\<close>

text \<open>The inner loop of the horizontal case: at most width elements, as long as there are any.\<close>

fun fill_row :: "nat \<Rightarrow> 'a list \<Rightarrow> 'a list \<Rightarrow> 'a list \<times> 'a list" where
  "fill_row (Suc x) row (s # it) = fill_row x (row @ [s]) it"
| "fill_row x row it = (row, it)"

fun fill_rows :: "nat \<Rightarrow> nat \<Rightarrow> 'a list \<Rightarrow> 'a list list" where
  "fill_rows 0 width it = []"
| "fill_rows (Suc y) width it =
     (let (row, it') = fill_row width [] it in row # fill_rows y width it')"

text \<open>The vertical case: column by column, one element per row; the first argument of
  \<open>fill_column\<close> counts the rows still to visit, the second is y.\<close>

fun fill_column :: "nat \<Rightarrow> nat \<Rightarrow> 'a list list \<Rightarrow> 'a list \<Rightarrow> 'a list list \<times> 'a list" where
  "fill_column (Suc k) y rows (s # it) = fill_column k (Suc y) (rows[y := rows ! y @ [s]]) it"
| "fill_column k y rows it = (rows, it)"

fun fill_columns :: "nat \<Rightarrow> nat \<Rightarrow> 'a list list \<Rightarrow> 'a list \<Rightarrow> 'a list list" where
  "fill_columns 0 height rows it = rows"
| "fill_columns (Suc x) height rows it =
     (let (rows', it') = fill_column height 0 rows it in fill_columns x height rows' it')"

definition grid_update :: "int \<times> int \<Rightarrow> orientation \<Rightarrow> nat list \<Rightarrow> grid" where
  "grid_update sz orient subs =
     (let width = uint_of_int (fst sz); height = uint_of_int (snd sz)
      in \<lparr>m_size = sz,
          m_grid = (case orient of
             Horizontal \<Rightarrow> fill_rows height width subs
           | Vertical \<Rightarrow> fill_columns width height (replicate height []) subs)\<rparr>)"

section \<open>Lookup\<close>

fun coords_in_row :: "nat list \<Rightarrow> nat \<Rightarrow> nat \<Rightarrow> nat option" where
  "coords_in_row [] x vd = None"
| "coords_in_row (c # cs) x vd = (if c = vd then Some x else coords_in_row cs (Suc x) vd)"

fun coords_from :: "nat list list \<Rightarrow> nat \<Rightarrow> nat \<Rightarrow> int \<times> int" where
  "coords_from [] y vd = (-1, -1)"
| "coords_from (r # rs) y vd =
     (case coords_in_row r 0 vd of
        Some x \<Rightarrow> (int x, int y)
      | None \<Rightarrow> coords_from rs (Suc y) vd)"

definition gridCoords :: "grid \<Rightarrow> nat \<Rightarrow> int \<times> int" where
  "gridCoords g vd = coords_from (m_grid g) 0 vd"

text \<open>\<open>grid_at\<close> is None where at() throws, \<open>Some None\<close> for a null pointer.\<close>

definition grid_at :: "grid \<Rightarrow> int \<times> int \<Rightarrow> nat option option" where
  "grid_at g coords =
     (let (x, y) = coords
      in if y \<ge> int (length (m_grid g)) then Some None
         else if y < 0 then None
         else let row = m_grid g ! nat y
              in if x \<ge> int (length row) then Some None
                 else if x < 0 then None
                 else Some (Some (row ! nat x)))"

definition grid_width :: "grid \<Rightarrow> int" where
  "grid_width g = fst (m_size g)"

definition grid_height :: "grid \<Rightarrow> int" where
  "grid_height g = snd (m_size g)"

section \<open>The layout in closed form\<close>

lemma fill_row_eq: "fill_row x row it = (row @ take x it, drop x it)"
  by (induction x row it rule: fill_row.induct) auto

lemma fill_rows_eq:
  "fill_rows h w it = map (\<lambda>y. take w (drop (y * w) it)) [0..<h]"
proof (induction h arbitrary: it)
  case (Suc h)
  have "map (\<lambda>y. take w (drop (y * w) it)) [0..<Suc h]
      = take w it # map (\<lambda>y. take w (drop (Suc y * w) it)) [0..<h]"
    by (simp add: upt_conv_Cons map_Suc_upt [symmetric] del: upt_Suc)
  then show ?case
    by (simp add: fill_row_eq Suc add.commute)
qed simp

lemma fill_column_length: "length (fst (fill_column k y rows it)) = length rows"
  by (induction k y rows it rule: fill_column.induct) auto

lemma fill_column_snd: "snd (fill_column k y rows it) = drop k it"
  by (induction k y rows it rule: fill_column.induct) auto

lemma fill_column_nth:
  "y + k \<le> length rows \<Longrightarrow> j < length rows \<Longrightarrow>
     fst (fill_column k y rows it) ! j =
       rows ! j @ (if y \<le> j \<and> j < y + k \<and> j - y < length it then [it ! (j - y)] else [])"
proof (induction k y rows it rule: fill_column.induct)
  case (1 k y rows s it)
  show ?case
  proof (cases "j = y")
    case True
    with 1 show ?thesis by simp
  next
    case False
    show ?thesis
    proof (cases "y < j")
      case True
      then obtain d where d: "j = Suc (y + d)" by (auto simp: less_iff_Suc_add)
      with 1 show ?thesis by (simp add: nth_list_update)
    next
      case False
      with \<open>j \<noteq> y\<close> 1 show ?thesis by simp
    qed
  qed
qed auto

text \<open>Row j of the vertical layout holds every height-th element, starting with the j-th.\<close>

lemma fill_columns_length: "length (fill_columns w h rows it) = length rows"
  by (induction w arbitrary: rows it) (simp_all add: split_beta fill_column_length)

lemma fill_columns_nth:
  "length rows = h \<Longrightarrow> j < h \<Longrightarrow>
     fill_columns w h rows it ! j =
       rows ! j @ map (\<lambda>x. it ! (x * h + j)) (filter (\<lambda>x. x * h + j < length it) [0..<w])"
proof (induction w arbitrary: rows it)
  case (Suc w)
  let ?rows = "fst (fill_column h 0 rows it)"
  have len: "length ?rows = h" using Suc.prems by (simp add: fill_column_length)
  have row: "?rows ! j = rows ! j @ (if j < length it then [it ! j] else [])"
    using fill_column_nth [of 0 h rows j it] Suc.prems by simp
  have sp: "[0..<Suc w] = 0 # map Suc [0..<w]"
    by (simp add: upt_conv_Cons map_Suc_upt del: upt_Suc)
  have tl: "map (\<lambda>x. drop h it ! (x * h + j)) (filter (\<lambda>x. x * h + j < length (drop h it)) [0..<w])
      = map (\<lambda>x. it ! (x * h + j)) (filter (\<lambda>x. x * h + j < length it) (map Suc [0..<w]))"
    by (auto simp: filter_map o_def less_diff_conv algebra_simps intro!: map_cong filter_cong)
  have "fill_columns (Suc w) h rows it = fill_columns w h ?rows (drop h it)"
    by (simp add: split_beta fill_column_snd)
  also have "\<dots> ! j = ?rows ! j @
      map (\<lambda>x. drop h it ! (x * h + j)) (filter (\<lambda>x. x * h + j < length (drop h it)) [0..<w])"
    using Suc.IH [OF len Suc.prems(2)] by simp
  finally show ?case
    using row by (simp only: sp tl) (auto simp: filter_map)
qed simp

section \<open>Coordinates and cells are inverse\<close>

text \<open>The cell at row y and column x, as natural numbers.\<close>

definition cell :: "grid \<Rightarrow> nat \<Rightarrow> nat \<Rightarrow> nat option" where
  "cell g x y =
     (if y < length (m_grid g) \<and> x < length (m_grid g ! y) then Some (m_grid g ! y ! x) else None)"

lemma grid_at_nat: "grid_at g (int x, int y) = Some (cell g x y)"
  by (auto simp: grid_at_def cell_def)

lemma coords_in_row_Some:
  "coords_in_row r k s = Some x \<Longrightarrow> k \<le> x \<and> x - k < length r \<and> r ! (x - k) = s"
proof (induction r k s rule: coords_in_row.induct)
  case (2 c cs k s)
  show ?case
  proof (cases "c = s")
    case False
    with 2 have "Suc k \<le> x \<and> x - Suc k < length cs \<and> cs ! (x - Suc k) = s" by simp
    then show ?thesis by (auto simp: nth_Cons' Suc_diff_le)
  qed (use 2 in auto)
qed simp

lemma coords_in_row_None: "coords_in_row r k s = None \<longleftrightarrow> s \<notin> set r"
  by (induction r k s rule: coords_in_row.induct) auto

lemma coords_from_cell:
  "s \<in> set (concat rs) \<Longrightarrow> \<exists>x y. coords_from rs k s = (int x, int (k + y))
     \<and> y < length rs \<and> x < length (rs ! y) \<and> rs ! y ! x = s"
proof (induction rs k s rule: coords_from.induct)
  case (2 r rs k s)
  show ?case
  proof (cases "coords_in_row r 0 s")
    case None
    then have "s \<notin> set r" by (simp add: coords_in_row_None)
    with 2 None obtain x y where "coords_from rs (Suc k) s = (int x, int (Suc k + y))"
      "y < length rs" "x < length (rs ! y)" "rs ! y ! x = s" by auto
    with None have "coords_from (r # rs) k s = (int x, int (k + Suc y)) \<and> Suc y < length (r # rs)
        \<and> x < length ((r # rs) ! Suc y) \<and> (r # rs) ! Suc y ! x = s" by simp
    then show ?thesis by blast
  next
    case (Some x)
    then have "coords_from (r # rs) k s = (int x, int (k + 0)) \<and> 0 < length (r # rs)
        \<and> x < length ((r # rs) ! 0) \<and> (r # rs) ! 0 ! x = s"
      using coords_in_row_Some [of r 0 s x] by simp
    then show ?thesis by blast
  qed
qed simp

definition grid_subs :: "grid \<Rightarrow> nat list" where
  "grid_subs g = concat (m_grid g)"

lemma gridCoords_cell:
  assumes "s \<in> set (grid_subs g)"
  obtains x y where "gridCoords g s = (int x, int y)" "cell g x y = Some s"
  using coords_from_cell [of s "m_grid g" 0] assms
  by (auto simp: gridCoords_def cell_def grid_subs_def)

lemma gridCoords_missing: "s \<notin> set (grid_subs g) \<Longrightarrow> gridCoords g s = (-1, -1)"
proof -
  have "s \<notin> set (concat rs) \<Longrightarrow> coords_from rs k s = (-1, -1)" for rs k
    by (induction rs k s rule: coords_from.induct) (auto simp: coords_in_row_None [THEN iffD2])
  then show "s \<notin> set (grid_subs g) \<Longrightarrow> gridCoords g s = (-1, -1)"
    by (simp add: gridCoords_def grid_subs_def)
qed

lemma distinct_concat_cell:
  "distinct (concat rs) \<Longrightarrow> y < length rs \<Longrightarrow> x < length (rs ! y) \<Longrightarrow>
   y' < length rs \<Longrightarrow> x' < length (rs ! y') \<Longrightarrow> rs ! y ! x = rs ! y' ! x' \<Longrightarrow> x = x' \<and> y = y'"
proof (induction rs arbitrary: y y')
  case (Cons r rs)
  have notin: "rs ! b ! a \<notin> set r" if "b < length rs" "a < length (rs ! b)" for a b
  proof -
    have "rs ! b ! a \<in> set (concat rs)" using that by (auto intro!: bexI [of _ "rs ! b"])
    then show ?thesis using Cons.prems(1) by auto
  qed
  show ?case
  proof (cases y)
    case 0
    note y0 = this
    show ?thesis
    proof (cases y')
      case 0
      with y0 Cons.prems show ?thesis by (simp add: nth_eq_iff_index_eq)
    next
      case (Suc b)
      with y0 Cons.prems notin [of b x'] show ?thesis by (metis length_Cons nth_Cons_0 nth_Cons_Suc
            nth_mem Suc_less_eq)
    qed
  next
    case (Suc a)
    note ya = this
    show ?thesis
    proof (cases y')
      case 0
      with ya Cons.prems notin [of a x] show ?thesis by (metis length_Cons nth_Cons_0 nth_Cons_Suc
            nth_mem Suc_less_eq)
    next
      case (Suc b)
      with ya Cons.prems Cons.IH [of a b] show ?thesis by simp
    qed
  qed
qed simp

lemma cell_inj:
  assumes "distinct (grid_subs g)" "cell g x y = Some s" "cell g x' y' = Some s"
  shows "x = x' \<and> y = y'"
  using distinct_concat_cell [of "m_grid g" y x y' x'] assms
  by (auto simp: cell_def grid_subs_def split: if_splits)

lemma cell_in_subs: "cell g x y = Some s \<Longrightarrow> s \<in> set (grid_subs g)"
  by (auto simp: cell_def grid_subs_def split: if_splits intro!: bexI [of _ "m_grid g ! y"])

lemma gridCoords_of_cell:
  assumes "distinct (grid_subs g)" "cell g x y = Some s"
  shows "gridCoords g s = (int x, int y)"
proof -
  from assms(2) have "s \<in> set (grid_subs g)" by (rule cell_in_subs)
  then obtain x' y' where "gridCoords g s = (int x', int y')" "cell g x' y' = Some s"
    by (rule gridCoords_cell)
  with cell_inj [OF assms] show ?thesis by auto
qed

section \<open>Where update puts the subspaces\<close>

lemma grid_update_cell_horizontal:
  assumes "w < 2 ^ 32" "h < 2 ^ 32" "i < length subs" "i < w * h"
  shows "cell (grid_update (int w, int h) Horizontal subs) (i mod w) (i div w) = Some (subs ! i)"
proof -
  have w: "0 < w" using assms(4) by (cases w) auto
  have d: "i div w < h" using assms(4) w by (simp add: div_less_iff_less_mult mult.commute)
  have m: "i mod w < w" using w by simp
  have e: "i div w * w + i mod w = i" by simp
  then have "i mod w < length subs - i div w * w" using assms(3) by linarith
  moreover have "i div w * w \<le> length subs" using e assms(3) by linarith
  then have "take w (drop (i div w * w) subs) ! (i mod w) = subs ! i"
    using m e by simp
  ultimately show ?thesis
    using assms d m by (simp add: cell_def grid_update_def fill_rows_eq uint_of_int_def Let_def)
qed

lemma upt_filter_prefix: "filter (\<lambda>x. x * h + j < n) [0..<w] = [0..<min w (card {x. x * h + j < n})]"
  if "0 < h" for h :: nat
proof -
  have dc: "x \<le> y \<Longrightarrow> y * h + j < n \<Longrightarrow> x * h + j < n" for x y
    by (meson add_le_mono1 le_trans mult_le_mono1 not_less)
  have fin: "finite {x. x * h + j < n}"
  proof (rule finite_subset)
    show "{x. x * h + j < n} \<subseteq> {..<n}"
    proof
      fix x assume "x \<in> {x. x * h + j < n}"
      then have "x * h + j < n" by simp
      moreover have "x \<le> x * h" using that by simp
      ultimately have "x < n" by linarith
      then show "x \<in> {..<n}" by simp
    qed
  qed simp
  obtain k where k: "{x. x * h + j < n} = {..<k}"
  proof (cases "{x. x * h + j < n} = {}")
    case True
    then show ?thesis using that [of 0] by simp
  next
    case False
    let ?m = "Max {x. x * h + j < n}"
    have "{x. x * h + j < n} = {..<Suc ?m}"
      using Max_in [OF fin False] Max_ge [OF fin] dc by (auto simp: less_Suc_eq_le)
    then show ?thesis using that by blast
  qed
  then have c: "card {x. x * h + j < n} = k" by simp
  have mem: "x * h + j < n \<longleftrightarrow> x < k" for x using k by blast
  have "filter (\<lambda>x. x < k) [0..<w] = [0..<min w k]"
    by (induction w) (auto simp: min_def not_less_eq_eq dest: le_antisym)
  then have "filter (\<lambda>x. x * h + j < n) [0..<w] = [0..<min w k]" by (simp only: mem)
  then show ?thesis by (simp only: c)
qed

lemma grid_update_cell_vertical:
  assumes "w < 2 ^ 32" "h < 2 ^ 32" "i < length subs" "i < w * h"
  shows "cell (grid_update (int w, int h) Vertical subs) (i div h) (i mod h) = Some (subs ! i)"
proof -
  have h: "0 < h" using assms(4) by (cases h) auto
  have d: "i div h < w" using assms(4) h by (simp add: div_less_iff_less_mult)
  have m: "i mod h < h" using h by simp
  let ?p = "\<lambda>x. x * h + i mod h < length subs"
  let ?k = "min w (card {x. ?p x})"
  have f: "filter ?p [0..<w] = [0..<?k]" by (rule upt_filter_prefix [OF h])
  have "i div h \<in> set (filter ?p [0..<w])" using d assms(3) by simp
  then have lt: "i div h < ?k" unfolding f by simp
  have row: "fill_columns w h (replicate h []) subs ! (i mod h)
      = map (\<lambda>x. subs ! (x * h + i mod h)) [0..<?k]"
    using m by (simp add: fill_columns_nth f)
  show ?thesis
    using assms(1,2) m lt by (simp add: cell_def grid_update_def uint_of_int_def Let_def
        fill_columns_length row)
qed

end
