(* ===== verification/Cyclic_Search.thy ===== *)
theory Cyclic_Search
  imports Prelude
begin

text \<open>
  The search behind the directional navigation of the subspaces: step until a test holds. Two
  step functions that undo each other on a ring of positions give searches that undo each
  other, and a search from a position where the test holds ends after one round at most. The
  interface is the locale \<open>cyclic_steps\<close>; its instances are the two directions along
  a ring of integers that the grid navigation uses.
\<close>

fun search :: "nat \<Rightarrow> ('a \<Rightarrow> 'a) \<Rightarrow> ('a \<Rightarrow> bool) \<Rightarrow> 'a \<Rightarrow> 'a option" where
  "search 0 f P y = None"
| "search (Suc n) f P y = (if P (f y) then Some (f y) else search n f P (f y))"

lemma search_funpow:
  "0 < k \<Longrightarrow> k \<le> n \<Longrightarrow> P ((f ^^ k) y) \<Longrightarrow> (\<And>j. 0 < j \<Longrightarrow> j < k \<Longrightarrow> \<not> P ((f ^^ j) y)) \<Longrightarrow>
     search n f P y = Some ((f ^^ k) y)"
proof (induction n arbitrary: k y)
  case (Suc n)
  show ?case
  proof (cases "k = 1")
    case True
    with Suc.prems show ?thesis by simp
  next
    case False
    then obtain k' where k: "k = Suc k'" "0 < k'" using Suc.prems(1) by (cases k) auto
    have shift: "(f ^^ j) (f y) = (f ^^ Suc j) y" for j by (simp add: funpow_swap1)
    have "\<not> P (f y)" using Suc.prems(4) [of 1] k by simp
    moreover have "search n f P (f y) = Some ((f ^^ k') (f y))"
    proof (rule Suc.IH)
      show "0 < k'" by (rule k(2))
      show "k' \<le> n" using Suc.prems(2) k by simp
      show "P ((f ^^ k') (f y))" using Suc.prems(3) k shift by simp
      show "\<not> P ((f ^^ j) (f y))" if "0 < j" "j < k'" for j
        using Suc.prems(4) [of "Suc j"] that k shift by simp
    qed
    ultimately show ?thesis using k shift by simp
  qed
qed simp

locale cyclic_steps =
  fixes fwd bwd :: "'a \<Rightarrow> 'a" and ring :: "'a set" and period :: "'a \<Rightarrow> nat"
  assumes fwd_ring: "y \<in> ring \<Longrightarrow> fwd y \<in> ring"
    and bwd_fwd: "y \<in> ring \<Longrightarrow> bwd (fwd y) = y"
    and period_pos: "y \<in> ring \<Longrightarrow> 0 < period y"
    and period_fwd: "y \<in> ring \<Longrightarrow> period (fwd y) = period y"
    and round_trip: "y \<in> ring \<Longrightarrow> (fwd ^^ period y) y = y"
begin

lemma funpow_ring: "y \<in> ring \<Longrightarrow> (fwd ^^ k) y \<in> ring"
  by (induction k) (auto intro: fwd_ring)

lemma bwd_funpow: "y \<in> ring \<Longrightarrow> j \<le> k \<Longrightarrow> (bwd ^^ j) ((fwd ^^ k) y) = (fwd ^^ (k - j)) y"
proof (induction j)
  case (Suc j)
  then have "(bwd ^^ Suc j) ((fwd ^^ k) y) = bwd ((fwd ^^ (k - j)) y)" by simp
  also have "k - j = Suc (k - Suc j)" using Suc.prems by simp
  finally show ?case using Suc.prems by (simp add: bwd_fwd funpow_ring)
qed simp

lemma period_funpow: "y \<in> ring \<Longrightarrow> period ((fwd ^^ k) y) = period y"
  by (induction k) (simp_all add: period_fwd funpow_ring)

text \<open>From a position where the test holds, the search ends within one round, at a position of
  the ring where the test holds, and the search the other way comes back.\<close>

lemma search_there_and_back:
  assumes y: "y \<in> ring" "P y" and n: "period y \<le> n"
  obtains z where "search n fwd P y = Some z" "search n bwd P z = Some y" "z \<in> ring" "P z"
    "period z = period y"
proof -
  let ?Q = "\<lambda>k. 0 < k \<and> P ((fwd ^^ k) y)"
  define k where "k = (LEAST k. ?Q k)"
  have ex: "?Q (period y)" using y period_pos round_trip by simp
  have k: "?Q k" unfolding k_def using ex by (rule LeastI)
  have le: "k \<le> period y" unfolding k_def using ex by (rule Least_le)
  have least: "\<not> P ((fwd ^^ j) y)" if "0 < j" "j < k" for j
    using not_less_Least [of j ?Q] that unfolding k_def by blast
  let ?z = "(fwd ^^ k) y"
  have there: "search n fwd P y = Some ?z"
    using k le n least by (intro search_funpow) auto
  have "search n bwd P ?z = Some ((bwd ^^ k) ?z)"
  proof (rule search_funpow)
    show "0 < k" using k by blast
    show "k \<le> n" using le n by simp
    show "P ((bwd ^^ k) ?z)" using y by (simp add: bwd_funpow)
    show "\<not> P ((bwd ^^ j) ?z)" if "0 < j" "j < k" for j
      using least [of "k - j"] that y by (simp add: bwd_funpow)
  qed
  then have home: "search n bwd P ?z = Some y" using y by (simp add: bwd_funpow)
  show ?thesis
    by (rule that [OF there home funpow_ring [OF y(1)] _ period_funpow [OF y(1)]]) (use k in blast)
qed

end

text \<open>A position on a ring: the ring's length and the index.\<close>

definition ring_next :: "int \<times> int \<Rightarrow> int \<times> int" where
  "ring_next p = (fst p, if snd p + 1 \<ge> fst p then 0 else snd p + 1)"

definition ring_prev :: "int \<times> int \<Rightarrow> int \<times> int" where
  "ring_prev p = (fst p, if snd p - 1 < 0 then fst p - 1 else snd p - 1)"

definition ring_positions :: "(int \<times> int) set" where
  "ring_positions = {p. 0 \<le> snd p \<and> snd p < fst p}"

lemma ring_next_mod:
  "p \<in> ring_positions \<Longrightarrow> ring_next p = (fst p, (snd p + 1) mod fst p)"
proof (cases "snd p + 1 = fst p")
  case True
  then show ?thesis by (simp add: ring_next_def)
next
  case False
  moreover assume "p \<in> ring_positions"
  ultimately show ?thesis by (auto simp: ring_next_def ring_positions_def)
qed

lemma ring_prev_mod:
  "p \<in> ring_positions \<Longrightarrow> ring_prev p = (fst p, (snd p - 1) mod fst p)"
proof (cases "snd p = 0")
  case True
  moreover assume "p \<in> ring_positions"
  ultimately show ?thesis by (auto simp: ring_prev_def ring_positions_def zmod_minus1)
next
  case False
  moreover assume "p \<in> ring_positions"
  ultimately show ?thesis by (auto simp: ring_prev_def ring_positions_def)
qed

lemma funpow_mod:
  fixes d :: int
  assumes "\<And>p. p \<in> ring_positions \<Longrightarrow> f p = (fst p, (snd p + d) mod fst p)"
    and "p \<in> ring_positions"
  shows "(f ^^ k) p = (fst p, (snd p + int k * d) mod fst p) \<and> (f ^^ k) p \<in> ring_positions"
proof (induction k)
  case 0
  then show ?case using assms(2) by (auto simp: ring_positions_def prod_eq_iff)
next
  case (Suc k)
  have "0 < fst p" using assms(2) by (auto simp: ring_positions_def)
  then show ?case
    using Suc assms(1) [of "(f ^^ k) p"]
    by (auto simp: ring_positions_def mod_simps algebra_simps)
qed

interpretation nav_next: cyclic_steps ring_next ring_prev ring_positions "\<lambda>p. nat (fst p)"
proof unfold_locales
  fix p :: "int \<times> int" assume p: "p \<in> ring_positions"
  have pow: "(ring_next ^^ k) p = (fst p, (snd p + int k * 1) mod fst p)" for k
    using funpow_mod [of ring_next 1 p k] p ring_next_mod by auto
  show "(ring_next ^^ nat (fst p)) p = p"
    using p by (simp add: pow) (auto simp: ring_positions_def)
qed (auto simp: ring_next_def ring_prev_def ring_positions_def)

interpretation nav_prev: cyclic_steps ring_prev ring_next ring_positions "\<lambda>p. nat (fst p)"
proof unfold_locales
  fix p :: "int \<times> int" assume p: "p \<in> ring_positions"
  have pow: "(ring_prev ^^ k) p = (fst p, (snd p + int k * (- 1)) mod fst p)" for k
    using funpow_mod [of ring_prev "- 1" p k] p ring_prev_mod by auto
  show "(ring_prev ^^ nat (fst p)) p = p"
    using p by (simp add: pow) (auto simp: ring_positions_def)
qed (auto simp: ring_next_def ring_prev_def ring_positions_def)

end
