(* ===== verification/Subspaces.thy ===== *)
theory Subspaces
  imports Subspace_Grid Cyclic_Search
begin

text \<open>
  The subspaces (virtual desktops) and their manager: como/win/subspace.cpp (the object),
  subspaces_get.h (lookup and navigation), subspaces_set.h (the current subspace). The
  operations that create, remove and arrange subspaces are in Subspace_Manager.

  A subspace object lives in \<open>sub_heap\<close> under its pointer. Qt signals are
  appended to \<open>signals\<close> in the order they are emitted; a slot the code connects
  runs at the emission. The X11 manager has a backend whose root_info data may be null, the
  Wayland manager has no backend member.
\<close>

record subspace =
  m_id :: string
  m_name :: string
  m_x11DesktopNumber :: nat

datatype manager_signal =
    Name_Changed nat
  | X11_Number_Changed nat
  | Current_Changed "nat option" "nat option"
  | Current_Changing_Cancelled
  | Nav_Wraps_Changed
  | Layout_Changed nat nat
  | Rows_Changed nat
  | Subspace_Created nat
  | Subspace_Removed nat
  | Count_Changed nat nat

text \<open>The part of net::root_info the backend of the X11 manager reads and writes.\<close>

record root_data =
  desktop_names :: "nat \<Rightarrow> string option"
  layout_orientation :: orientation
  layout_columns :: int
  layout_rows :: int
  number_of_desktops :: nat
  viewport :: "nat \<Rightarrow> int \<times> int"

datatype backend = No_Backend | Backend "root_data option"

text \<open>The group "Desktops" of the configuration, one field per key or family of keys.\<close>

record desktops_config =
  cfg_number :: "int option"
  cfg_rows :: "int option"
  cfg_id :: "nat \<Rightarrow> string option"
  cfg_name :: "nat \<Rightarrow> string option"

record manager =
  sub_heap :: "nat \<Rightarrow> subspace"
  next_pointer :: nat
  subspaces :: "nat list"
  rows :: nat
  manager_grid :: grid
  current :: "nat option"
  nav_wraps :: bool
  name_connected :: "nat set"
  manager_backend :: backend
  config :: "desktops_config option"
  signals :: "manager_signal list"

definition emit :: "manager_signal \<Rightarrow> manager \<Rightarrow> manager" where
  "emit s mgr = mgr\<lparr>signals := signals mgr @ [s]\<rparr>"

definition sub_x11id :: "manager \<Rightarrow> nat \<Rightarrow> nat" where
  "sub_x11id mgr p = m_x11DesktopNumber (sub_heap mgr p)"

definition sub_name :: "manager \<Rightarrow> nat \<Rightarrow> string" where
  "sub_name mgr p = m_name (sub_heap mgr p)"

definition sub_id :: "manager \<Rightarrow> nat \<Rightarrow> string" where
  "sub_id mgr p = m_id (sub_heap mgr p)"

section \<open>The subspace object\<close>

text \<open>The constructor; the argument \<open>uuid\<close> is the text of a fresh UUID.\<close>

definition new_subspace :: "string \<Rightarrow> string \<Rightarrow> subspace" where
  "new_subspace uuid ident =
     \<lparr>m_id = (if ident = [] then uuid else ident), m_name = [], m_x11DesktopNumber = 0\<rparr>"

definition setX11DesktopNumber :: "manager \<Rightarrow> nat \<Rightarrow> nat \<Rightarrow> manager" where
  "setX11DesktopNumber mgr p number =
     (if sub_x11id mgr p = number then mgr
      else let mgr' = mgr\<lparr>sub_heap := (sub_heap mgr)
                 (p := (sub_heap mgr p)\<lparr>m_x11DesktopNumber := number\<rparr>)\<rparr>
           in if number \<noteq> 0 then emit (X11_Number_Changed p) mgr' else mgr')"

text \<open>setName without the slots of nameChanged; the second component tells whether the signal
  was emitted.\<close>

definition setName :: "manager \<Rightarrow> nat \<Rightarrow> string \<Rightarrow> manager \<times> bool" where
  "setName mgr p name =
     (if sub_name mgr p = name then (mgr, False)
      else (emit (Name_Changed p) (mgr\<lparr>sub_heap := (sub_heap mgr)
              (p := (sub_heap mgr p)\<lparr>m_name := name\<rparr>)\<rparr>), True))"

section \<open>Lookup (subspaces_get.h)\<close>

definition subspaces_get_current_x11id :: "manager \<Rightarrow> nat" where
  "subspaces_get_current_x11id mgr =
     (case current mgr of None \<Rightarrow> 0 | Some c \<Rightarrow> sub_x11id mgr c)"

definition subspaces_get_for_x11id :: "manager \<Rightarrow> nat \<Rightarrow> nat option" where
  "subspaces_get_for_x11id mgr ident =
     (if ident = 0 \<or> ident > length (subspaces mgr) then None
      else Some (subspaces mgr ! (ident - 1)))"

definition subspaces_get_for_id :: "manager \<Rightarrow> string \<Rightarrow> nat option" where
  "subspaces_get_for_id mgr ident = List.find (\<lambda>desk. sub_id mgr desk = ident) (subspaces mgr)"

subsection \<open>The neighbours on the grid\<close>

text \<open>The while loops, with a bound on the iterations: None when the bound is reached, when
  at() throws, or when the subspace is not on the grid (the assert).\<close>

fun north_loop :: "nat \<Rightarrow> grid \<Rightarrow> bool \<Rightarrow> nat \<Rightarrow> int \<times> int \<Rightarrow> nat option" where
  "north_loop 0 g wrap subsp coords = None"
| "north_loop (Suc n) g wrap subsp (x, y) =
     (let y = y - 1
      in if y < 0 \<and> \<not> wrap then Some subsp
         else let y = (if y < 0 then grid_height g - 1 else y)
              in Option.bind (grid_at g (x, y)) (\<lambda>sp. case sp of
                   Some s \<Rightarrow> Some s
                 | None \<Rightarrow> north_loop n g wrap subsp (x, y)))"

fun east_loop :: "nat \<Rightarrow> grid \<Rightarrow> bool \<Rightarrow> nat \<Rightarrow> int \<times> int \<Rightarrow> nat option" where
  "east_loop 0 g wrap subsp coords = None"
| "east_loop (Suc n) g wrap subsp (x, y) =
     (let x = x + 1
      in if x \<ge> grid_width g \<and> \<not> wrap then Some subsp
         else let x = (if x \<ge> grid_width g then 0 else x)
              in Option.bind (grid_at g (x, y)) (\<lambda>sp. case sp of
                   Some s \<Rightarrow> Some s
                 | None \<Rightarrow> east_loop n g wrap subsp (x, y)))"

fun south_loop :: "nat \<Rightarrow> grid \<Rightarrow> bool \<Rightarrow> nat \<Rightarrow> int \<times> int \<Rightarrow> nat option" where
  "south_loop 0 g wrap subsp coords = None"
| "south_loop (Suc n) g wrap subsp (x, y) =
     (let y = y + 1
      in if y \<ge> grid_height g \<and> \<not> wrap then Some subsp
         else let y = (if y \<ge> grid_height g then 0 else y)
              in Option.bind (grid_at g (x, y)) (\<lambda>sp. case sp of
                   Some s \<Rightarrow> Some s
                 | None \<Rightarrow> south_loop n g wrap subsp (x, y)))"

fun west_loop :: "nat \<Rightarrow> grid \<Rightarrow> bool \<Rightarrow> nat \<Rightarrow> int \<times> int \<Rightarrow> nat option" where
  "west_loop 0 g wrap subsp coords = None"
| "west_loop (Suc n) g wrap subsp (x, y) =
     (let x = x - 1
      in if x < 0 \<and> \<not> wrap then Some subsp
         else let x = (if x < 0 then grid_width g - 1 else x)
              in Option.bind (grid_at g (x, y)) (\<lambda>sp. case sp of
                   Some s \<Rightarrow> Some s
                 | None \<Rightarrow> west_loop n g wrap subsp (x, y)))"

definition subspaces_get_north_of :: "nat \<Rightarrow> manager \<Rightarrow> nat \<Rightarrow> bool \<Rightarrow> nat option" where
  "subspaces_get_north_of n mgr subsp wrap =
     (let coords = gridCoords (manager_grid mgr) subsp
      in if fst coords \<ge> 0 then north_loop n (manager_grid mgr) wrap subsp coords else None)"

definition subspaces_get_east_of :: "nat \<Rightarrow> manager \<Rightarrow> nat \<Rightarrow> bool \<Rightarrow> nat option" where
  "subspaces_get_east_of n mgr subsp wrap =
     (let coords = gridCoords (manager_grid mgr) subsp
      in if fst coords \<ge> 0 then east_loop n (manager_grid mgr) wrap subsp coords else None)"

definition subspaces_get_south_of :: "nat \<Rightarrow> manager \<Rightarrow> nat \<Rightarrow> bool \<Rightarrow> nat option" where
  "subspaces_get_south_of n mgr subsp wrap =
     (let coords = gridCoords (manager_grid mgr) subsp
      in if fst coords \<ge> 0 then south_loop n (manager_grid mgr) wrap subsp coords else None)"

definition subspaces_get_west_of :: "nat \<Rightarrow> manager \<Rightarrow> nat \<Rightarrow> bool \<Rightarrow> nat option" where
  "subspaces_get_west_of n mgr subsp wrap =
     (let coords = gridCoords (manager_grid mgr) subsp
      in if fst coords \<ge> 0 then west_loop n (manager_grid mgr) wrap subsp coords else None)"

text \<open>std::find in the list of subspaces; the assert that it is found.\<close>

definition subspaces_get_successor_of :: "manager \<Rightarrow> nat \<Rightarrow> bool \<Rightarrow> nat option" where
  "subspaces_get_successor_of mgr subsp wrap =
     (let it = std_find (subspaces mgr) subsp
      in if it = length (subspaces mgr) then None
         else let it = it + 1
              in if it \<noteq> length (subspaces mgr) then Some (subspaces mgr ! it)
                 else if wrap then Some (hd (subspaces mgr))
                 else Some subsp)"

definition subspaces_get_predecessor_of :: "manager \<Rightarrow> nat \<Rightarrow> bool \<Rightarrow> nat option" where
  "subspaces_get_predecessor_of mgr subsp wrap =
     (let it = std_find (subspaces mgr) subsp
      in if it = length (subspaces mgr) then None
         else if it \<noteq> 0 then Some (subspaces mgr ! (it - 1))
         else if wrap then Some (last (subspaces mgr))
         else Some subsp)"

text \<open>The overloads on X11 ids: an id without subspace stands for the current one, whose
  dereference needs it to exist. The argument \<open>get\<close> is the overload on subspaces.\<close>

definition get_by_x11id :: "(nat \<Rightarrow> bool \<Rightarrow> nat option) \<Rightarrow> manager \<Rightarrow> nat \<Rightarrow> bool \<Rightarrow> nat option" where
  "get_by_x11id get mgr ident wrap =
     Option.bind (case subspaces_get_for_x11id mgr ident of
         Some s \<Rightarrow> Some s
       | None \<Rightarrow> current mgr)
       (\<lambda>s. map_option (sub_x11id mgr) (get s wrap))"

definition subspaces_get_north_of_x11id :: "nat \<Rightarrow> manager \<Rightarrow> nat \<Rightarrow> bool \<Rightarrow> nat option" where
  "subspaces_get_north_of_x11id n mgr = get_by_x11id (subspaces_get_north_of n mgr) mgr"

definition subspaces_get_east_of_x11id :: "nat \<Rightarrow> manager \<Rightarrow> nat \<Rightarrow> bool \<Rightarrow> nat option" where
  "subspaces_get_east_of_x11id n mgr = get_by_x11id (subspaces_get_east_of n mgr) mgr"

definition subspaces_get_south_of_x11id :: "nat \<Rightarrow> manager \<Rightarrow> nat \<Rightarrow> bool \<Rightarrow> nat option" where
  "subspaces_get_south_of_x11id n mgr = get_by_x11id (subspaces_get_south_of n mgr) mgr"

definition subspaces_get_west_of_x11id :: "nat \<Rightarrow> manager \<Rightarrow> nat \<Rightarrow> bool \<Rightarrow> nat option" where
  "subspaces_get_west_of_x11id n mgr = get_by_x11id (subspaces_get_west_of n mgr) mgr"

definition subspaces_get_successor_of_x11id :: "manager \<Rightarrow> nat \<Rightarrow> bool \<Rightarrow> nat option" where
  "subspaces_get_successor_of_x11id mgr = get_by_x11id (subspaces_get_successor_of mgr) mgr"

definition subspaces_get_predecessor_of_x11id :: "manager \<Rightarrow> nat \<Rightarrow> bool \<Rightarrow> nat option" where
  "subspaces_get_predecessor_of_x11id mgr = get_by_x11id (subspaces_get_predecessor_of mgr) mgr"

definition subspaces_get_north_of_current :: "nat \<Rightarrow> manager \<Rightarrow> nat option" where
  "subspaces_get_north_of_current n mgr =
     Option.bind (current mgr) (\<lambda>c. subspaces_get_north_of n mgr c (nav_wraps mgr))"

definition subspaces_get_east_of_current :: "nat \<Rightarrow> manager \<Rightarrow> nat option" where
  "subspaces_get_east_of_current n mgr =
     Option.bind (current mgr) (\<lambda>c. subspaces_get_east_of n mgr c (nav_wraps mgr))"

definition subspaces_get_south_of_current :: "nat \<Rightarrow> manager \<Rightarrow> nat option" where
  "subspaces_get_south_of_current n mgr =
     Option.bind (current mgr) (\<lambda>c. subspaces_get_south_of n mgr c (nav_wraps mgr))"

definition subspaces_get_west_of_current :: "nat \<Rightarrow> manager \<Rightarrow> nat option" where
  "subspaces_get_west_of_current n mgr =
     Option.bind (current mgr) (\<lambda>c. subspaces_get_west_of n mgr c (nav_wraps mgr))"

definition subspaces_get_successor_of_current :: "manager \<Rightarrow> nat option" where
  "subspaces_get_successor_of_current mgr =
     Option.bind (current mgr) (\<lambda>c. subspaces_get_successor_of mgr c (nav_wraps mgr))"

definition subspaces_get_predecessor_of_current :: "manager \<Rightarrow> nat option" where
  "subspaces_get_predecessor_of_current mgr =
     Option.bind (current mgr) (\<lambda>c. subspaces_get_predecessor_of mgr c (nav_wraps mgr))"

section \<open>Setting the current subspace (subspaces_set.h)\<close>

definition subspaces_set_current :: "manager \<Rightarrow> nat \<Rightarrow> manager \<times> bool" where
  "subspaces_set_current mgr subsp =
     (if current mgr = Some subsp then (mgr, False)
      else let old_subsp = current mgr; mgr' = mgr\<lparr>current := Some subsp\<rparr>
           in (emit (Current_Changed old_subsp (current mgr')) mgr', True))"

definition subspaces_set_current_x11id :: "manager \<Rightarrow> nat \<Rightarrow> manager \<times> bool" where
  "subspaces_set_current_x11id mgr x11id =
     (if x11id < 1 \<or> x11id > length (subspaces mgr) then (mgr, False)
      else case subspaces_get_for_x11id mgr x11id of
             Some subsp \<Rightarrow> subspaces_set_current mgr subsp
           | None \<Rightarrow> (mgr, False))"

text \<open>The action's data converted to uint, None when the conversion fails.\<close>

definition subspaces_set_current_action :: "manager \<Rightarrow> nat option \<Rightarrow> manager" where
  "subspaces_set_current_action mgr data =
     (case data of Some x11id \<Rightarrow> fst (subspaces_set_current_x11id mgr x11id) | None \<Rightarrow> mgr)"

end
