(* ===== verification/Subspace_Navigation.thy ===== *)
theory Subspace_Navigation
  imports Subspaces
begin

text \<open>
  The directional navigation of subspaces_get.h on a well-shaped grid: the loops end, and with
  wrap-around north and south, east and west, successor and predecessor undo each other. The
  loops are searches along a ring of coordinates, so the facts come from the instances of
  \<open>cyclic_steps\<close>.
\<close>

definition grid_shape :: "grid \<Rightarrow> bool" where
  "grid_shape g \<longleftrightarrow> distinct (grid_subs g) \<and> int (length (m_grid g)) = grid_height g
     \<and> (\<forall>row\<in>set (m_grid g). int (length row) \<le> grid_width g)"

lemma cell_bounds:
  assumes "grid_shape g" "cell g x y = Some s"
  shows "int y < grid_height g \<and> int x < grid_width g"
proof -
  from assms(2) have c: "y < length (m_grid g)" "x < length (m_grid g ! y)"
    by (auto simp: cell_def split: if_splits)
  then have "m_grid g ! y \<in> set (m_grid g)" by simp
  then have "int (length (m_grid g ! y)) \<le> grid_width g"
    using assms(1) by (simp add: grid_shape_def)
  moreover have "int (length (m_grid g)) = grid_height g" using assms(1) by (simp add: grid_shape_def)
  ultimately show ?thesis using c by linarith
qed

lemma grid_at_inside:
  "0 \<le> x \<Longrightarrow> 0 \<le> y \<Longrightarrow> grid_at g (x, y) = Some (cell g (nat x) (nat y))"
  using grid_at_nat [of g "nat x" "nat y"] by simp

section \<open>The loops as searches along a ring\<close>

text \<open>The column of x and the row of y as tests on ring positions.\<close>

definition in_column :: "grid \<Rightarrow> nat \<Rightarrow> int \<times> int \<Rightarrow> bool" where
  "in_column g x p \<longleftrightarrow> cell g x (nat (snd p)) \<noteq> None"

definition in_row :: "grid \<Rightarrow> nat \<Rightarrow> int \<times> int \<Rightarrow> bool" where
  "in_row g y p \<longleftrightarrow> cell g (nat (snd p)) y \<noteq> None"

lemma north_loop_search:
  "0 \<le> y \<Longrightarrow> y < grid_height g \<Longrightarrow> north_loop n g True s (int x, y) =
     Option.bind (search n ring_prev (in_column g x) (grid_height g, y))
       (\<lambda>p. cell g x (nat (snd p)))"
  by (induction n arbitrary: y)
     (auto simp: Let_def ring_prev_def grid_at_inside in_column_def split: option.split)

lemma south_loop_search:
  "0 \<le> y \<Longrightarrow> y < grid_height g \<Longrightarrow> south_loop n g True s (int x, y) =
     Option.bind (search n ring_next (in_column g x) (grid_height g, y))
       (\<lambda>p. cell g x (nat (snd p)))"
  by (induction n arbitrary: y)
     (auto simp: Let_def ring_next_def grid_at_inside in_column_def split: option.split)

lemma west_loop_search:
  "0 \<le> x \<Longrightarrow> x < grid_width g \<Longrightarrow> west_loop n g True s (x, int y) =
     Option.bind (search n ring_prev (in_row g y) (grid_width g, x))
       (\<lambda>p. cell g (nat (snd p)) y)"
  by (induction n arbitrary: x)
     (auto simp: Let_def ring_prev_def grid_at_inside in_row_def split: option.split)

lemma east_loop_search:
  "0 \<le> x \<Longrightarrow> x < grid_width g \<Longrightarrow> east_loop n g True s (x, int y) =
     Option.bind (search n ring_next (in_row g y) (grid_width g, x))
       (\<lambda>p. cell g (nat (snd p)) y)"
  by (induction n arbitrary: x)
     (auto simp: Let_def ring_next_def grid_at_inside in_row_def split: option.split)

section \<open>Navigation and back\<close>

lemma north_of_cell:
  "gridCoords (manager_grid mgr) s = (int x, int y) \<Longrightarrow>
     subspaces_get_north_of n mgr s wrap = north_loop n (manager_grid mgr) wrap s (int x, int y)"
  by (simp add: subspaces_get_north_of_def)

lemma south_of_cell:
  "gridCoords (manager_grid mgr) s = (int x, int y) \<Longrightarrow>
     subspaces_get_south_of n mgr s wrap = south_loop n (manager_grid mgr) wrap s (int x, int y)"
  by (simp add: subspaces_get_south_of_def)

lemma east_of_cell:
  "gridCoords (manager_grid mgr) s = (int x, int y) \<Longrightarrow>
     subspaces_get_east_of n mgr s wrap = east_loop n (manager_grid mgr) wrap s (int x, int y)"
  by (simp add: subspaces_get_east_of_def)

lemma west_of_cell:
  "gridCoords (manager_grid mgr) s = (int x, int y) \<Longrightarrow>
     subspaces_get_west_of n mgr s wrap = west_loop n (manager_grid mgr) wrap s (int x, int y)"
  by (simp add: subspaces_get_west_of_def)

lemmas neighbour_of_cell = north_of_cell south_of_cell east_of_cell west_of_cell

lemma ring_position_eq:
  "z \<in> ring_positions \<Longrightarrow> nat (fst z) = nat h \<Longrightarrow> 0 < h \<Longrightarrow> \<exists>k. z = (h, int k) \<and> int k < h"
  by (auto simp: ring_positions_def prod_eq_iff intro!: exI [of _ "nat (snd z)"])

text \<open>Along a column: one step up and one down lead back.\<close>

lemma column_there_and_back:
  assumes g: "grid_shape (manager_grid mgr)" "s \<in> set (grid_subs (manager_grid mgr))"
    and n: "nat (grid_height (manager_grid mgr)) \<le> n"
  shows "\<exists>t. subspaces_get_north_of n mgr s True = Some t
      \<and> subspaces_get_south_of n mgr t True = Some s"
    and "\<exists>t. subspaces_get_south_of n mgr s True = Some t
      \<and> subspaces_get_north_of n mgr t True = Some s"
proof -
  let ?g = "manager_grid mgr"
  let ?h = "grid_height ?g"
  obtain x y where xy: "gridCoords ?g s = (int x, int y)" "cell ?g x y = Some s"
    using g(2) by (rule gridCoords_cell)
  have y: "int y < ?h" using cell_bounds [OF g(1) xy(2)] by simp
  have start: "(?h, int y) \<in> ring_positions" "in_column ?g x (?h, int y)"
    using y xy(2) by (auto simp: ring_positions_def in_column_def)
  have per: "nat (fst (?h, int y)) \<le> n" using n by simp
  have nbr: "gridCoords ?g t = (int x, int k)" if "cell ?g x k = Some t" for k t
    using gridCoords_of_cell [OF _ that] g(1) by (simp add: grid_shape_def)
  obtain z where z: "search n ring_prev (in_column ?g x) (?h, int y) = Some z"
      "search n ring_next (in_column ?g x) z = Some (?h, int y)"
      "z \<in> ring_positions" "in_column ?g x z" "nat (fst z) = nat (fst (?h, int y))"
    using nav_prev.search_there_and_back [of "(?h, int y)" "in_column ?g x" n] start per by blast
  then obtain k where k: "z = (?h, int k)" "int k < ?h" using ring_position_eq y by fastforce
  obtain t where t: "cell ?g x k = Some t" using z(4) k by (auto simp: in_column_def)
  show "\<exists>t. subspaces_get_north_of n mgr s True = Some t
      \<and> subspaces_get_south_of n mgr t True = Some s"
    using z(1,2) k t xy y nbr [OF t]
    by (auto simp: neighbour_of_cell north_loop_search south_loop_search)
  obtain z where z: "search n ring_next (in_column ?g x) (?h, int y) = Some z"
      "search n ring_prev (in_column ?g x) z = Some (?h, int y)"
      "z \<in> ring_positions" "in_column ?g x z" "nat (fst z) = nat (fst (?h, int y))"
    using nav_next.search_there_and_back [of "(?h, int y)" "in_column ?g x" n] start per by blast
  then obtain k where k: "z = (?h, int k)" "int k < ?h" using ring_position_eq y by fastforce
  obtain t where t: "cell ?g x k = Some t" using z(4) k by (auto simp: in_column_def)
  show "\<exists>t. subspaces_get_south_of n mgr s True = Some t
      \<and> subspaces_get_north_of n mgr t True = Some s"
    using z(1,2) k t xy y nbr [OF t]
    by (auto simp: neighbour_of_cell north_loop_search south_loop_search)
qed

text \<open>Along a row: one step to the right and one to the left lead back.\<close>

lemma row_there_and_back:
  assumes g: "grid_shape (manager_grid mgr)" "s \<in> set (grid_subs (manager_grid mgr))"
    and n: "nat (grid_width (manager_grid mgr)) \<le> n"
  shows "\<exists>t. subspaces_get_west_of n mgr s True = Some t
      \<and> subspaces_get_east_of n mgr t True = Some s"
    and "\<exists>t. subspaces_get_east_of n mgr s True = Some t
      \<and> subspaces_get_west_of n mgr t True = Some s"
proof -
  let ?g = "manager_grid mgr"
  let ?w = "grid_width ?g"
  obtain x y where xy: "gridCoords ?g s = (int x, int y)" "cell ?g x y = Some s"
    using g(2) by (rule gridCoords_cell)
  have x: "int x < ?w" using cell_bounds [OF g(1) xy(2)] by simp
  have start: "(?w, int x) \<in> ring_positions" "in_row ?g y (?w, int x)"
    using x xy(2) by (auto simp: ring_positions_def in_row_def)
  have per: "nat (fst (?w, int x)) \<le> n" using n by simp
  have nbr: "gridCoords ?g t = (int k, int y)" if "cell ?g k y = Some t" for k t
    using gridCoords_of_cell [OF _ that] g(1) by (simp add: grid_shape_def)
  obtain z where z: "search n ring_prev (in_row ?g y) (?w, int x) = Some z"
      "search n ring_next (in_row ?g y) z = Some (?w, int x)"
      "z \<in> ring_positions" "in_row ?g y z" "nat (fst z) = nat (fst (?w, int x))"
    using nav_prev.search_there_and_back [of "(?w, int x)" "in_row ?g y" n] start per by blast
  then obtain k where k: "z = (?w, int k)" "int k < ?w" using ring_position_eq x by fastforce
  obtain t where t: "cell ?g k y = Some t" using z(4) k by (auto simp: in_row_def)
  show "\<exists>t. subspaces_get_west_of n mgr s True = Some t
      \<and> subspaces_get_east_of n mgr t True = Some s"
    using z(1,2) k t xy x nbr [OF t]
    by (auto simp: neighbour_of_cell west_loop_search east_loop_search)
  obtain z where z: "search n ring_next (in_row ?g y) (?w, int x) = Some z"
      "search n ring_prev (in_row ?g y) z = Some (?w, int x)"
      "z \<in> ring_positions" "in_row ?g y z" "nat (fst z) = nat (fst (?w, int x))"
    using nav_next.search_there_and_back [of "(?w, int x)" "in_row ?g y" n] start per by blast
  then obtain k where k: "z = (?w, int k)" "int k < ?w" using ring_position_eq x by fastforce
  obtain t where t: "cell ?g k y = Some t" using z(4) k by (auto simp: in_row_def)
  show "\<exists>t. subspaces_get_east_of n mgr s True = Some t
      \<and> subspaces_get_west_of n mgr t True = Some s"
    using z(1,2) k t xy x nbr [OF t]
    by (auto simp: neighbour_of_cell west_loop_search east_loop_search)
qed

section \<open>The loops end without wrap-around\<close>

lemma north_loop_ends:
  "0 \<le> x \<Longrightarrow> nat y < n \<Longrightarrow> \<exists>t. north_loop n g False s (x, y) = Some t"
  by (induction n arbitrary: y) (auto simp: Let_def grid_at_inside split: option.split)

lemma west_loop_ends:
  "0 \<le> y \<Longrightarrow> nat x < n \<Longrightarrow> \<exists>t. west_loop n g False s (x, y) = Some t"
  by (induction n arbitrary: x) (auto simp: Let_def grid_at_inside split: option.split)

lemma south_loop_ends:
  "0 \<le> x \<Longrightarrow> 0 \<le> y \<Longrightarrow> nat (grid_height g - y) < n \<Longrightarrow> \<exists>t. south_loop n g False s (x, y) = Some t"
  by (induction n arbitrary: y) (auto simp: Let_def grid_at_inside split: option.split)

lemma east_loop_ends:
  "0 \<le> y \<Longrightarrow> 0 \<le> x \<Longrightarrow> nat (grid_width g - x) < n \<Longrightarrow> \<exists>t. east_loop n g False s (x, y) = Some t"
  by (induction n arbitrary: x) (auto simp: Let_def grid_at_inside split: option.split)

section \<open>Successor and predecessor\<close>

lemma std_find_nth: "distinct xs \<Longrightarrow> i < length xs \<Longrightarrow> std_find xs (xs ! i) = i"
proof (induction xs arbitrary: i)
  case (Cons x xs)
  then show ?case by (cases i) auto
qed simp

lemma successor_nth:
  assumes "distinct (subspaces mgr)" "i < length (subspaces mgr)"
  shows "subspaces_get_successor_of mgr (subspaces mgr ! i) True
      = Some (subspaces mgr ! ((i + 1) mod length (subspaces mgr)))"
proof (cases "Suc i = length (subspaces mgr)")
  case True
  moreover have "subspaces mgr \<noteq> []" using assms(2) by auto
  ultimately show ?thesis
    using assms by (auto simp: subspaces_get_successor_of_def std_find_nth Let_def hd_conv_nth)
next
  case False
  then have "Suc i < length (subspaces mgr)" using assms(2) by simp
  then show ?thesis
    using assms by (auto simp: subspaces_get_successor_of_def std_find_nth Let_def)
qed

lemma predecessor_nth:
  assumes "distinct (subspaces mgr)" "i < length (subspaces mgr)"
  shows "subspaces_get_predecessor_of mgr (subspaces mgr ! i) True
      = Some (subspaces mgr ! ((i + length (subspaces mgr) - 1) mod length (subspaces mgr)))"
proof (cases i)
  case 0
  have "subspaces mgr \<noteq> []" using assms(2) by auto
  with 0 show ?thesis
    using assms std_find_nth [of "subspaces mgr" 0]
    by (auto simp: subspaces_get_predecessor_of_def Let_def last_conv_nth)
next
  case (Suc j)
  then have "(i + length (subspaces mgr) - 1) mod length (subspaces mgr) = j"
    using assms(2) by simp
  with Suc show ?thesis
    using assms std_find_nth [of "subspaces mgr" i]
    by (auto simp: subspaces_get_predecessor_of_def Let_def)
qed

end
