(* ===== verification/Subspace_Manager.thy ===== *)
theory Subspace_Manager
  imports Complex_Main Subspace_Navigation
begin

text \<open>
  Creating, removing, arranging, loading and saving the subspaces: como/win/subspace_manager.h
  with the backend of como/win/x11/subspace_manager.h. The functions are templates over the
  manager: \<open>No_Backend\<close> is the Wayland manager, whose type has no backend member,
  \<open>Backend d\<close> the X11 one, with the null or non-null pointer to the root info.

  None is what the C++ does not define or does not return from: a failed assert, at() or
  vector::erase out of range, a division by zero, std::clamp with an empty interval, a loop that
  does not end. The translation of "Desktop %1" and the generator of UUIDs are parameters. The
  argument of deleteLater stays in the heap: it is deleted by the event loop, later.
\<close>

definition max_count :: nat where
  "max_count = 20"

section \<open>Integers at their width\<close>

definition int_of_uint :: "nat \<Rightarrow> int" where
  "int_of_uint u = (if u < 2 ^ 31 then int u else int u - 2 ^ 32)"

lemma uint_of_int_of_uint: "u < 2 ^ 32 \<Longrightarrow> uint_of_int (int_of_uint u) = u"
proof (cases "u < 2 ^ 31")
  case False
  moreover assume "u < 2 ^ 32"
  moreover have "(int u - 2 ^ 32) mod 2 ^ 32 = int u mod 2 ^ 32" by (metis minus_mod_self2)
  ultimately show ?thesis by (simp add: int_of_uint_def uint_of_int_def)
qed (simp add: int_of_uint_def uint_of_int_def)

lemma uint_of_int_less: "uint_of_int i < 2 ^ 32"
proof -
  have "0 \<le> i mod 2 ^ 32" "i mod 2 ^ 32 < 2 ^ 32" by simp_all
  then show ?thesis unfolding uint_of_int_def by (simp add: nat_less_iff)
qed

text \<open>A nat stored in a uint, and std::clamp, undefined when the bounds are in the wrong order.\<close>

definition to_uint :: "nat \<Rightarrow> nat" where
  "to_uint u = u mod 2 ^ 32"

definition std_clamp :: "'a::linorder \<Rightarrow> 'a \<Rightarrow> 'a \<Rightarrow> 'a option" where
  "std_clamp v lo hi =
     (if hi < lo then None else Some (if v < lo then lo else if hi < v then hi else v))"

section \<open>The backend of the X11 manager\<close>

definition backend_get_subspace_name :: "root_data \<Rightarrow> nat \<Rightarrow> string" where
  "backend_get_subspace_name d x11id =
     (if x11id < 1 then [] else case desktop_names d x11id of None \<Rightarrow> [] | Some s \<Rightarrow> s)"

definition backend_get_layout ::
    "backend \<Rightarrow> nat \<times> nat \<times> orientation \<Rightarrow> nat \<times> nat \<times> orientation" where
  "backend_get_layout b lay =
     (case b of Backend (Some d) \<Rightarrow>
        (uint_of_int (layout_columns d), uint_of_int (max 1 (layout_rows d)), layout_orientation d)
      | _ \<Rightarrow> lay)"

definition backend_update_subspace_meta :: "backend \<Rightarrow> nat \<Rightarrow> string \<Rightarrow> backend" where
  "backend_update_subspace_meta b x11id name =
     (case b of Backend (Some d) \<Rightarrow>
        if x11id < 1 then b
        else Backend (Some (d\<lparr>desktop_names := (desktop_names d)(x11id := Some name)\<rparr>))
      | _ \<Rightarrow> b)"

definition backend_set_layout :: "backend \<Rightarrow> nat \<Rightarrow> nat \<Rightarrow> backend" where
  "backend_set_layout b columns rws =
     (case b of Backend (Some d) \<Rightarrow>
        Backend (Some (d\<lparr>layout_orientation := Horizontal,
                         layout_columns := int_of_uint columns,
                         layout_rows := int_of_uint rws\<rparr>))
      | _ \<Rightarrow> b)"

definition backend_update_size :: "backend \<Rightarrow> nat \<Rightarrow> backend" where
  "backend_update_size b sz =
     (case b of Backend (Some d) \<Rightarrow>
        Backend (Some (d\<lparr>number_of_desktops := sz,
          viewport := (if sz < 1 then viewport d else (viewport d)(sz := (0, 0)))\<rparr>))
      | _ \<Rightarrow> b)"

section \<open>Names and numbers\<close>

definition backend_meta :: "nat \<Rightarrow> string \<Rightarrow> manager \<Rightarrow> manager" where
  "backend_meta x11id name mgr =
     mgr\<lparr>manager_backend := backend_update_subspace_meta (manager_backend mgr) x11id name\<rparr>"

text \<open>The slot \<open>add_subspace\<close> connects to nameChanged. It calls update_subspace_meta with the
  name and number the subspace has: neither setter changes anything then, so that only the
  backend is written.\<close>

definition name_changed_slot :: "nat \<Rightarrow> manager \<Rightarrow> manager" where
  "name_changed_slot p mgr =
     (if p \<in> name_connected mgr then backend_meta (sub_x11id mgr p) (sub_name mgr p) mgr else mgr)"

definition subspace_set_name :: "nat \<Rightarrow> string \<Rightarrow> manager \<Rightarrow> manager" where
  "subspace_set_name p name mgr =
     (let (mgr', emitted) = setName mgr p name
      in if emitted then name_changed_slot p mgr' else mgr')"

definition subspace_manager_update_subspace_meta ::
    "nat \<Rightarrow> string \<Rightarrow> nat \<Rightarrow> manager \<Rightarrow> manager" where
  "subspace_manager_update_subspace_meta subsp name x11id mgr =
     (let mgr = subspace_set_name subsp name mgr;
          mgr = setX11DesktopNumber mgr subsp x11id
      in backend_meta x11id name mgr)"

definition subspace_manager_get_subspace_name ::
    "(nat \<Rightarrow> string) \<Rightarrow> manager \<Rightarrow> nat \<Rightarrow> string" where
  "subspace_manager_get_subspace_name i18n mgr sub =
     (if sub \<ge> 1 \<and> length (subspaces mgr) > sub - 1 then sub_name mgr (subspaces mgr ! (sub - 1))
      else case manager_backend mgr of
          Backend (Some d) \<Rightarrow> backend_get_subspace_name d sub
        | _ \<Rightarrow> i18n sub)"

section \<open>Adding a subspace\<close>

text \<open>The constructor call allocates the next pointer; \<open>uuid\<close> gives the text of the UUID a new
  object may generate, by its pointer.\<close>

definition alloc_subspace :: "(nat \<Rightarrow> string) \<Rightarrow> string \<Rightarrow> manager \<Rightarrow> manager \<times> nat" where
  "alloc_subspace uuid ident mgr =
     (let p = next_pointer mgr
      in (mgr\<lparr>sub_heap := (sub_heap mgr)(p := new_subspace (uuid p) ident),
              next_pointer := Suc p\<rparr>, p))"

text \<open>The loop over the displaced subspaces passes \<open>subsp\<close>, the new one, in every round.\<close>

definition subspace_manager_add_subspace ::
    "(nat \<Rightarrow> string) \<Rightarrow> nat \<Rightarrow> string \<Rightarrow> string \<Rightarrow> manager \<Rightarrow> (manager \<times> nat) option" where
  "subspace_manager_add_subspace uuid position ident name mgr =
     (let (mgr, subsp) = alloc_subspace uuid ident mgr
      in if position > length (subspaces mgr) then None
         else let mgr = mgr\<lparr>subspaces := insert_at position subsp (subspaces mgr)\<rparr>;
                  mgr = subspace_manager_update_subspace_meta subsp name (position + 1) mgr;
                  mgr = mgr\<lparr>name_connected := insert subsp (name_connected mgr)\<rparr>;
                  mgr = fold (\<lambda>i m. subspace_manager_update_subspace_meta
                                      subsp (sub_name m subsp) (i + 1) m)
                          [position + 1..<length (subspaces mgr)] mgr
              in Some (mgr, subsp))"

section \<open>The layout\<close>

text \<open>The while loop over the product, which is computed in uint. Each round changes the product
  modulo \<open>2 ^ 32\<close> by the other factor; \<open>grow_layout_total\<close> shows that one round more than there
  are subspaces is always enough.\<close>

fun grow_layout :: "nat \<Rightarrow> nat \<Rightarrow> orientation \<Rightarrow> nat \<Rightarrow> nat \<Rightarrow> (nat \<times> nat) option" where
  "grow_layout 0 sz orient columns rws = None"
| "grow_layout (Suc n) sz orient columns rws =
     (if to_uint (columns * rws) < sz
      then case orient of
          Horizontal \<Rightarrow> grow_layout n sz orient (to_uint (columns + 1)) rws
        | Vertical \<Rightarrow> grow_layout n sz orient columns (to_uint (rws + 1))
      else Some (columns, rws))"

text \<open>The size of the grid, from the number of subspaces, the rows wanted and the backend.\<close>

definition layout_default :: "nat \<Rightarrow> nat \<times> nat \<times> orientation \<Rightarrow> nat \<times> nat \<times> orientation" where
  "layout_default sz lay =
     (let (columns, rws, orient) = lay;
          (columns, rws) = (if columns = 0
                            then let r = (if sz = 1 then 1 else 2) in (sz div r, r)
                            else (columns, rws));
          (columns, rws) = (if sz = 1 then (1, 1) else (columns, rws))
      in (columns, rws, orient))"

definition layout_size :: "backend \<Rightarrow> nat \<Rightarrow> nat \<Rightarrow> (nat \<times> nat \<times> orientation) option" where
  "layout_size b sz rws =
     (let rws = min rws sz
      in if rws = 0 then None
         else let (columns, rws, orient) =
                    layout_default sz (backend_get_layout b (sz div rws, rws, Horizontal))
              in if columns = 0 \<and> rws = 0 then None
                 else let (columns, rws) =
                            (if columns = 0 \<and> rws > 0 then ((sz + rws - 1) div rws, rws)
                             else if rws = 0 \<and> columns > 0 then (columns, (sz + columns - 1) div columns)
                             else (columns, rws))
                      in do {
                        (columns, rws) \<leftarrow> grow_layout (Suc sz) sz orient columns rws;
                        Some (columns, max 1 rws, orient)
                      })"

definition subspace_manager_update_layout :: "manager \<Rightarrow> manager option" where
  "subspace_manager_update_layout mgr =
     do {
       (columns, rws, orient) \<leftarrow>
         layout_size (manager_backend mgr) (length (subspaces mgr)) (rows mgr);
       let mgr = mgr\<lparr>rows := rws,
             manager_grid := grid_update (int_of_uint columns, int_of_uint rws) orient
                               (subspaces mgr)\<rparr>;
       Some (emit (Rows_Changed rws) (emit (Layout_Changed columns rws) mgr))
     }"

definition subspace_manager_set_rows :: "nat \<Rightarrow> manager \<Rightarrow> manager option" where
  "subspace_manager_set_rows rws mgr =
     (let sz = length (subspaces mgr)
      in if rws = 0 \<or> rws > sz \<or> rws = rows mgr then Some mgr
         else let mgr = mgr\<lparr>rows := rws\<rparr>;
                  columns = sz div rws;
                  columns = (if sz mod rws > 0 then columns + 1 else columns);
                  mgr = mgr\<lparr>manager_backend := backend_set_layout (manager_backend mgr) columns rws\<rparr>
              in subspace_manager_update_layout mgr)"

definition subspace_manager_set_nav_wraps :: "bool \<Rightarrow> manager \<Rightarrow> manager" where
  "subspace_manager_set_nav_wraps enabled mgr =
     (if enabled = nav_wraps mgr then mgr
      else emit Nav_Wraps_Changed (mgr\<lparr>nav_wraps := enabled\<rparr>))"

section \<open>Removing from the end\<close>

text \<open>\<open>vector_at\<close> is vector::at.\<close>

definition vector_at :: "'a list \<Rightarrow> nat \<Rightarrow> 'a option" where
  "vector_at xs i = (if i < length xs then Some (xs ! i) else None)"

definition subspace_manager_shrink_subspaces :: "nat \<Rightarrow> manager \<Rightarrow> manager option" where
  "subspace_manager_shrink_subspaces cnt mgr =
     (if cnt \<ge> length (subspaces mgr) then Some mgr
      else let subspaces_to_remove = drop cnt (subspaces mgr);
               mgr = mgr\<lparr>subspaces := take cnt (subspaces mgr)\<rparr>
           in do {
             old_subsp \<leftarrow> current mgr;
             let old_current = subspaces_get_current_x11id mgr;
             let new_current = min old_current cnt;
             new_subsp \<leftarrow> (if new_current = 0 then None
                            else vector_at (subspaces mgr) (new_current - 1));
             let mgr = mgr\<lparr>current := Some new_subsp\<rparr>;
             let mgr = (if old_current \<noteq> new_current
                        then emit (Current_Changed (Some old_subsp) (current mgr)) mgr else mgr);
             Some (fold (\<lambda>s m. emit (Subspace_Removed s) m) subspaces_to_remove mgr)
           })"

section \<open>The configuration\<close>

definition cfg_read :: "('a \<Rightarrow> 'b option) \<Rightarrow> 'a \<Rightarrow> 'b \<Rightarrow> 'b" where
  "cfg_read m key dflt = (case m key of None \<Rightarrow> dflt | Some v \<Rightarrow> v)"

text \<open>The loop that deletes the entries of subspaces that no longer exist. It ends when a number
  without Id entry is reached; a file has finitely many.\<close>

partial_function (option) delete_stale :: "nat \<Rightarrow> desktops_config \<Rightarrow> desktops_config option" where
  "delete_stale i cfg =
     (case cfg_id cfg i of
        None \<Rightarrow> Some cfg
      | Some s \<Rightarrow> delete_stale (i + 1)
          (cfg\<lparr>cfg_id := (cfg_id cfg)(i := None), cfg_name := (cfg_name cfg)(i := None)\<rparr>))"

text \<open>One round of the loop of \<open>save\<close> on the i-th subspace, counted from 1.\<close>

definition save_entry ::
    "(nat \<Rightarrow> string) \<Rightarrow> nat \<Rightarrow> manager \<times> desktops_config \<Rightarrow> manager \<times> desktops_config" where
  "save_entry i18n i = (\<lambda>(mgr, cfg).
     let name = subspace_manager_get_subspace_name i18n mgr i;
         default_name = i18n i;
         (name, mgr) =
           (if name = []
            then (default_name, subspace_manager_update_subspace_meta
                                  (subspaces mgr ! (i - 1)) default_name i mgr)
            else (name, mgr));
         cfg = (if name \<noteq> default_name then cfg\<lparr>cfg_name := (cfg_name cfg)(i \<mapsto> name)\<rparr>
                else if cfg_read (cfg_name cfg) i [] \<noteq> default_name
                then cfg\<lparr>cfg_name := (cfg_name cfg)(i := None)\<rparr>
                else cfg)
     in (mgr, cfg\<lparr>cfg_id := (cfg_id cfg)(i \<mapsto> sub_id mgr (subspaces mgr ! (i - 1)))\<rparr>))"

definition subspace_manager_save :: "(nat \<Rightarrow> string) \<Rightarrow> manager \<Rightarrow> manager option" where
  "subspace_manager_save i18n mgr =
     (case config mgr of
        None \<Rightarrow> Some mgr
      | Some cfg \<Rightarrow> do {
          cfg \<leftarrow> delete_stale (length (subspaces mgr) + 1) cfg;
          let cfg = cfg\<lparr>cfg_number := Some (int (length (subspaces mgr)))\<rparr>;
          let (mgr, cfg) = fold (save_entry i18n) [1..<length (subspaces mgr) + 1] (mgr, cfg);
          let cfg = cfg\<lparr>cfg_rows := Some (int (rows mgr))\<rparr>;
          Some (mgr\<lparr>config := Some cfg\<rparr>)
        })"

text \<open>The lambdas set_name and get_id of load, on the index from 0.\<close>

definition load_set_name :: "(nat \<Rightarrow> string) \<Rightarrow> desktops_config \<Rightarrow> nat \<Rightarrow> manager \<Rightarrow> manager option" where
  "load_set_name i18n cfg index mgr =
     do {
       let x11id = index + 1;
       let name = cfg_read (cfg_name cfg) x11id (i18n x11id);
       subsp \<leftarrow> vector_at (subspaces mgr) index;
       Some (subspace_manager_update_subspace_meta subsp name x11id mgr)
     }"

definition load_get_id :: "desktops_config \<Rightarrow> nat \<Rightarrow> string" where
  "load_get_id cfg index = cfg_read (cfg_id cfg) (index + 1) []"

definition load_existing ::
    "(nat \<Rightarrow> string) \<Rightarrow> desktops_config \<Rightarrow> nat \<Rightarrow> manager \<Rightarrow> manager option" where
  "load_existing i18n cfg index mgr =
     (if sub_id mgr (subspaces mgr ! index) = load_get_id cfg index \<or> load_get_id cfg index = []
      then load_set_name i18n cfg index mgr else None)"

definition load_new ::
    "(nat \<Rightarrow> string) \<Rightarrow> (nat \<Rightarrow> string) \<Rightarrow> desktops_config \<Rightarrow> nat \<Rightarrow> manager \<Rightarrow> manager option" where
  "load_new uuid i18n cfg index mgr =
     do {
       (mgr, _) \<leftarrow> subspace_manager_add_subspace uuid index (load_get_id cfg index) [] mgr;
       load_set_name i18n cfg index mgr
     }"

definition emit_created :: "nat \<Rightarrow> manager \<Rightarrow> manager" where
  "emit_created index mgr = emit (Subspace_Created (subspaces mgr ! index)) mgr"

text \<open>A negative Number becomes a huge size_t, for which no memory can be had.\<close>

definition subspace_manager_load ::
    "(nat \<Rightarrow> string) \<Rightarrow> (nat \<Rightarrow> string) \<Rightarrow> manager \<Rightarrow> manager option" where
  "subspace_manager_load uuid i18n mgr =
     (case config mgr of
        None \<Rightarrow> Some mgr
      | Some cfg \<Rightarrow>
          let oldCount = length (subspaces mgr);
              number = (case cfg_number cfg of None \<Rightarrow> 1 | Some k \<Rightarrow> k)
          in if number < 0 then None
             else let cnt = nat number in do {
               mgr \<leftarrow> subspace_manager_shrink_subspaces cnt mgr;
               mgr \<leftarrow> ofold (load_existing i18n cfg) [1..<min oldCount cnt] mgr;
               mgr \<leftarrow> ofold (load_new uuid i18n cfg) [oldCount..<cnt] mgr;
               if cnt \<noteq> length (subspaces mgr) then None else do {
                 let mgr = mgr\<lparr>manager_backend :=
                       backend_update_size (manager_backend mgr) (length (subspaces mgr))\<rparr>;
                 mgr \<leftarrow> subspace_manager_update_layout mgr;
                 let mgr = fold emit_created [oldCount..<length (subspaces mgr)] mgr;
                 let mgr = emit (Count_Changed oldCount (length (subspaces mgr))) mgr;
                 rws \<leftarrow> std_clamp 1 (case cfg_rows cfg of None \<Rightarrow> 2 | Some r \<Rightarrow> r)
                           (int (length (subspaces mgr)));
                 Some (mgr\<lparr>rows := uint_of_int rws\<rparr>)
               }
             })"

section \<open>Creating, removing, counting\<close>

text \<open>The outer None is an undefined call, the inner one the null pointer.\<close>

definition subspace_manager_create_subspace ::
    "(nat \<Rightarrow> string) \<Rightarrow> (nat \<Rightarrow> string) \<Rightarrow> nat \<Rightarrow> string \<Rightarrow> manager \<Rightarrow> (manager \<times> nat option) option"
where
  "subspace_manager_create_subspace uuid i18n position name mgr =
     (if length (subspaces mgr) = max_count then Some (mgr, None)
      else do {
        position \<leftarrow> std_clamp 0 position (length (subspaces mgr));
        let desktopName = (if name = [] then i18n (position + 1) else name);
        (mgr, vd) \<leftarrow> subspace_manager_add_subspace uuid position [] desktopName mgr;
        mgr \<leftarrow> subspace_manager_save i18n mgr;
        let mgr = mgr\<lparr>manager_backend :=
              backend_update_size (manager_backend mgr) (length (subspaces mgr))\<rparr>;
        mgr \<leftarrow> subspace_manager_update_layout mgr;
        let mgr = emit (Subspace_Created vd) mgr;
        Some (emit (Count_Changed (length (subspaces mgr) - 1) (length (subspaces mgr))) mgr,
              Some vd)
      })"

definition renumber_from :: "nat \<Rightarrow> manager \<Rightarrow> manager" where
  "renumber_from i mgr =
     fold (\<lambda>j m. subspace_manager_update_subspace_meta (subspaces m ! j)
                   (sub_name m (subspaces m ! j)) (j + 1) m)
       [i..<length (subspaces mgr)] mgr"

definition subspace_manager_remove_subspace ::
    "(nat \<Rightarrow> string) \<Rightarrow> nat \<Rightarrow> manager \<Rightarrow> manager option" where
  "subspace_manager_remove_subspace i18n sub mgr =
     (if length (subspaces mgr) = 1 then Some mgr
      else do {
        old_subsp \<leftarrow> current mgr;
        let oldCurrent = sub_x11id mgr old_subsp;
        let number = sub_x11id mgr sub;
        if number = 0 \<or> number - 1 \<ge> length (subspaces mgr) then None
        else do {
          let i = number - 1;
          let mgr = mgr\<lparr>subspaces := take i (subspaces mgr) @ drop (Suc i) (subspaces mgr)\<rparr>;
          let mgr = renumber_from i mgr;
          let newCurrent = min oldCurrent (length (subspaces mgr));
          new_subsp \<leftarrow> (if newCurrent = 0 then None
                         else vector_at (subspaces mgr) (newCurrent - 1));
          let mgr = mgr\<lparr>current := Some new_subsp\<rparr>;
          let mgr = (if oldCurrent \<noteq> newCurrent
                     then emit (Current_Changed (Some old_subsp) (current mgr)) mgr else mgr);
          let mgr = mgr\<lparr>manager_backend :=
                backend_update_size (manager_backend mgr) (length (subspaces mgr))\<rparr>;
          mgr \<leftarrow> subspace_manager_update_layout mgr;
          mgr \<leftarrow> subspace_manager_save i18n mgr;
          let mgr = emit (Subspace_Removed sub) mgr;
          Some (emit (Count_Changed (length (subspaces mgr) + 1) (length (subspaces mgr))) mgr)
        }
      })"

text \<open>The while loop that appends subspaces runs once for each missing one.\<close>

definition append_default ::
    "(nat \<Rightarrow> string) \<Rightarrow> (nat \<Rightarrow> string) \<Rightarrow> nat \<Rightarrow> manager \<Rightarrow> manager option" where
  "append_default uuid i18n position mgr =
     map_option fst (subspace_manager_add_subspace uuid position [] (i18n (position + 1)) mgr)"

definition subspace_manager_set_count ::
    "(nat \<Rightarrow> string) \<Rightarrow> (nat \<Rightarrow> string) \<Rightarrow> nat \<Rightarrow> manager \<Rightarrow> manager option" where
  "subspace_manager_set_count uuid i18n cnt mgr =
     do {
       cnt \<leftarrow> std_clamp 1 cnt max_count;
       if cnt = length (subspaces mgr) then Some mgr
       else do {
         let oldCount = length (subspaces mgr);
         mgr \<leftarrow> subspace_manager_shrink_subspaces cnt mgr;
         mgr \<leftarrow> ofold (append_default uuid i18n) [length (subspaces mgr)..<cnt] mgr;
         let mgr = mgr\<lparr>manager_backend :=
               backend_update_size (manager_backend mgr) (length (subspaces mgr))\<rparr>;
         mgr \<leftarrow> subspace_manager_update_layout mgr;
         mgr \<leftarrow> subspace_manager_save i18n mgr;
         let mgr = fold emit_created [oldCount..<length (subspaces mgr)] mgr;
         Some (emit (Count_Changed oldCount (length (subspaces mgr))) mgr)
       }
     }"

section \<open>The end of a swipe gesture\<close>

text \<open>The slots of released_x and released_y; \<open>current_desktop_offset\<close> is passed and returned. A
  finite double is a rational number.\<close>

definition gesture_switch_threshold :: rat where
  "gesture_switch_threshold = 1 / 4"

definition gesture_finish ::
    "nat option \<Rightarrow> manager \<Rightarrow> manager \<times> (rat \<times> rat)" where
  "gesture_finish target mgr =
     ((if current mgr \<noteq> target
       then case target of Some t \<Rightarrow> fst (subspaces_set_current mgr t) | None \<Rightarrow> mgr
       else emit Current_Changing_Cancelled mgr), (0, 0))"

definition released_x :: "nat \<Rightarrow> rat \<times> rat \<Rightarrow> manager \<Rightarrow> (manager \<times> (rat \<times> rat)) option" where
  "released_x n offset mgr =
     do {
       target \<leftarrow> (if fst offset \<le> - gesture_switch_threshold
                   then map_option Some (subspaces_get_west_of_current n mgr)
                   else if fst offset \<ge> gesture_switch_threshold
                   then map_option Some (subspaces_get_east_of_current n mgr)
                   else Some (current mgr));
       Some (gesture_finish target mgr)
     }"

definition released_y :: "nat \<Rightarrow> rat \<times> rat \<Rightarrow> manager \<Rightarrow> (manager \<times> (rat \<times> rat)) option" where
  "released_y n offset mgr =
     do {
       target \<leftarrow> (if snd offset \<le> - gesture_switch_threshold
                   then map_option Some (subspaces_get_north_of_current n mgr)
                   else if snd offset \<ge> gesture_switch_threshold
                   then map_option Some (subspaces_get_south_of_current n mgr)
                   else Some (current mgr));
       Some (gesture_finish target mgr)
     }"

section \<open>The operations the singleton interface offers\<close>

definition singleton_create ::
    "(nat \<Rightarrow> string) \<Rightarrow> (nat \<Rightarrow> string) \<Rightarrow> nat \<Rightarrow> string \<Rightarrow> manager \<Rightarrow> (manager \<times> nat option) option"
where
  "singleton_create uuid i18n pos name mgr = subspace_manager_create_subspace uuid i18n pos name mgr"

definition singleton_remove :: "(nat \<Rightarrow> string) \<Rightarrow> string \<Rightarrow> manager \<Rightarrow> manager option" where
  "singleton_remove i18n ident mgr =
     (case subspaces_get_for_id mgr ident of
        Some sub \<Rightarrow> subspace_manager_remove_subspace i18n sub mgr
      | None \<Rightarrow> Some mgr)"

end
