(* ===== verification/Subspace_Manager_Props.thy ===== *)
theory Subspace_Manager_Props
  imports Subspace_Manager
begin

text \<open>
  What the operations on the subspaces keep and achieve: the numbering of the subspaces, the
  current one, the grid that has room for all of them, and what the configuration stores.
\<close>

section \<open>The fields an operation leaves alone\<close>

lemma emit_fields [simp]:
  "sub_heap (emit s m) = sub_heap m" "next_pointer (emit s m) = next_pointer m"
  "subspaces (emit s m) = subspaces m" "rows (emit s m) = rows m"
  "manager_grid (emit s m) = manager_grid m" "current (emit s m) = current m"
  "nav_wraps (emit s m) = nav_wraps m" "name_connected (emit s m) = name_connected m"
  "manager_backend (emit s m) = manager_backend m" "config (emit s m) = config m"
  "signals (emit s m) = signals m @ [s]"
  by (simp_all add: emit_def)

lemma emit_lookup [simp]:
  "sub_x11id (emit s m) p = sub_x11id m p" "sub_name (emit s m) p = sub_name m p"
  "sub_id (emit s m) p = sub_id m p"
  by (simp_all add: sub_x11id_def sub_name_def sub_id_def)

text \<open>The layout of the manager without the subspace objects, the backend and the signals.\<close>

definition skeleton :: "manager \<Rightarrow> nat \<times> nat list \<times> nat \<times> grid \<times> nat option \<times> bool \<times> nat set
    \<times> desktops_config option" where
  "skeleton m = (next_pointer m, subspaces m, rows m, manager_grid m, current m, nav_wraps m,
     name_connected m, config m)"

lemma skeleton_fields:
  assumes "skeleton m' = skeleton m"
  shows "next_pointer m' = next_pointer m" "subspaces m' = subspaces m" "rows m' = rows m"
    "manager_grid m' = manager_grid m" "current m' = current m" "nav_wraps m' = nav_wraps m"
    "name_connected m' = name_connected m" "config m' = config m"
  using assms by (simp_all add: skeleton_def)

lemma backend_meta_fields [simp]:
  "skeleton (backend_meta x nm m) = skeleton m" "sub_heap (backend_meta x nm m) = sub_heap m"
  by (simp_all add: backend_meta_def skeleton_def)

lemma name_changed_slot_fields [simp]:
  "skeleton (name_changed_slot p m) = skeleton m" "sub_heap (name_changed_slot p m) = sub_heap m"
  by (simp_all add: name_changed_slot_def)

lemma subspace_set_name_fields:
  "skeleton (subspace_set_name p nm m) = skeleton m"
  "sub_heap (subspace_set_name p nm m) = (sub_heap m)(p := (sub_heap m p)\<lparr>m_name := nm\<rparr>)"
  by (auto simp: subspace_set_name_def setName_def Let_def skeleton_def sub_name_def
      name_changed_slot_def backend_meta_def)

lemma setX11DesktopNumber_fields:
  "skeleton (setX11DesktopNumber m p k) = skeleton m"
  "sub_heap (setX11DesktopNumber m p k)
     = (sub_heap m)(p := (sub_heap m p)\<lparr>m_x11DesktopNumber := k\<rparr>)"
  by (auto simp: setX11DesktopNumber_def Let_def skeleton_def sub_x11id_def)

lemma update_meta_heap:
  "sub_heap (subspace_manager_update_subspace_meta p nm k m) =
     (sub_heap m)(p := (sub_heap m p)\<lparr>m_name := nm, m_x11DesktopNumber := k\<rparr>)"
  by (simp add: subspace_manager_update_subspace_meta_def Let_def subspace_set_name_fields
      setX11DesktopNumber_fields)

lemma update_meta_skeleton [simp]:
  "skeleton (subspace_manager_update_subspace_meta p nm k m) = skeleton m"
  by (simp add: subspace_manager_update_subspace_meta_def Let_def subspace_set_name_fields
      setX11DesktopNumber_fields)

lemmas update_meta_fields [simp] = update_meta_skeleton [THEN skeleton_fields(1)]
  update_meta_skeleton [THEN skeleton_fields(2)] update_meta_skeleton [THEN skeleton_fields(3)]
  update_meta_skeleton [THEN skeleton_fields(4)] update_meta_skeleton [THEN skeleton_fields(5)]
  update_meta_skeleton [THEN skeleton_fields(6)] update_meta_skeleton [THEN skeleton_fields(7)]
  update_meta_skeleton [THEN skeleton_fields(8)]

lemma update_meta_lookup [simp]:
  "sub_x11id (subspace_manager_update_subspace_meta p nm k m) q
     = (if q = p then k else sub_x11id m q)"
  "sub_name (subspace_manager_update_subspace_meta p nm k m) q
     = (if q = p then nm else sub_name m q)"
  "sub_id (subspace_manager_update_subspace_meta p nm k m) q = sub_id m q"
  by (simp_all add: sub_x11id_def sub_name_def sub_id_def update_meta_heap)

section \<open>The numbering\<close>

definition numbered :: "manager \<Rightarrow> bool" where
  "numbered m \<longleftrightarrow> (\<forall>i<length (subspaces m). sub_x11id m (subspaces m ! i) = i + 1)"

text \<open>The invariant: the subspaces are distinct objects, numbered by their position, and the
  current one is among them.\<close>

definition manager_ok :: "manager \<Rightarrow> bool" where
  "manager_ok m \<longleftrightarrow> distinct (subspaces m) \<and> (\<forall>p\<in>set (subspaces m). p < next_pointer m)
     \<and> numbered m \<and> (\<forall>c. current m = Some c \<longrightarrow> c \<in> set (subspaces m))"

text \<open>Renumbering one subspace after the other, each with its own name.\<close>

lemma fold_renumber:
  assumes "distinct (subspaces m)" "n \<le> length (subspaces m)"
  defines "step \<equiv> \<lambda>j m. subspace_manager_update_subspace_meta (subspaces m ! j)
                   (sub_name m (subspaces m ! j)) (j + 1) m"
  shows "skeleton (fold step [i..<n] m) = skeleton m
    \<and> sub_id (fold step [i..<n] m) = sub_id m \<and> sub_name (fold step [i..<n] m) = sub_name m
    \<and> (\<forall>j<length (subspaces m). sub_x11id (fold step [i..<n] m) (subspaces m ! j)
         = (if i \<le> j \<and> j < n then j + 1 else sub_x11id m (subspaces m ! j)))"
  using assms(2)
proof (induction n)
  case (Suc n)
  show ?case
  proof (cases "i \<le> n")
    case True
    define m1 where "m1 = fold step [i..<n] m"
    have IH: "skeleton m1 = skeleton m" "sub_id m1 = sub_id m" "sub_name m1 = sub_name m"
      "\<And>j. j < length (subspaces m) \<Longrightarrow> sub_x11id m1 (subspaces m ! j)
         = (if i \<le> j \<and> j < n then j + 1 else sub_x11id m (subspaces m ! j))"
      using Suc by (auto simp: m1_def)
    have s: "subspaces m1 = subspaces m" using IH(1) by (rule skeleton_fields)
    have f: "fold step [i..<Suc n] m = subspace_manager_update_subspace_meta (subspaces m ! n)
        (sub_name m (subspaces m ! n)) (n + 1) m1"
      using True by (simp add: m1_def [symmetric]) (simp add: step_def s IH(3))
    show ?thesis
      unfolding f using IH True Suc.prems assms(1)
      by (auto simp: fun_eq_iff nth_eq_iff_index_eq)
  qed auto
qed auto

text \<open>The loop of add_subspace, which goes over numbers but always with the new subspace.\<close>

lemma fold_same_subspace:
  "skeleton (fold (\<lambda>i m. subspace_manager_update_subspace_meta p (sub_name m p) (i + 1) m)
       [k..<n] m) = skeleton m
   \<and> sub_id (fold (\<lambda>i m. subspace_manager_update_subspace_meta p (sub_name m p) (i + 1) m)
       [k..<n] m) = sub_id m
   \<and> sub_name (fold (\<lambda>i m. subspace_manager_update_subspace_meta p (sub_name m p) (i + 1) m)
       [k..<n] m) = sub_name m
   \<and> sub_x11id (fold (\<lambda>i m. subspace_manager_update_subspace_meta p (sub_name m p) (i + 1) m)
       [k..<n] m) = (if k < n then (sub_x11id m)(p := n) else sub_x11id m)"
  by (induction n) (auto simp: fun_eq_iff)

lemma add_subspace_result:
  assumes "position \<le> length (subspaces m)"
  defines "p \<equiv> next_pointer m"
  obtains m' where
    "subspace_manager_add_subspace uuid position ident name m = Some (m', p)"
    "next_pointer m' = Suc p" "subspaces m' = insert_at position p (subspaces m)"
    "rows m' = rows m" "manager_grid m' = manager_grid m" "current m' = current m"
    "nav_wraps m' = nav_wraps m" "config m' = config m"
    "sub_id m' = (sub_id m)(p := if ident = [] then uuid p else ident)"
    "sub_name m' = (sub_name m)(p := name)"
    "sub_x11id m' = (sub_x11id m)(p := Suc (length (subspaces m)))"
proof -
  let ?m0 = "m\<lparr>sub_heap := (sub_heap m)(p := new_subspace (uuid p) ident), next_pointer := Suc p,
    subspaces := insert_at position p (subspaces m)\<rparr>"
  let ?m1 = "subspace_manager_update_subspace_meta p name (position + 1) ?m0"
  let ?m2 = "?m1\<lparr>name_connected := insert p (name_connected ?m1)\<rparr>"
  let ?m3 = "fold (\<lambda>i m. subspace_manager_update_subspace_meta p (sub_name m p) (i + 1) m)
               [position + 1..<Suc (length (subspaces m))] ?m2"
  have f: "skeleton ?m3 = skeleton ?m2" "sub_id ?m3 = sub_id ?m2" "sub_name ?m3 = sub_name ?m2"
    "sub_x11id ?m3 = (if position + 1 < Suc (length (subspaces m))
        then (sub_x11id ?m2)(p := Suc (length (subspaces m))) else sub_x11id ?m2)"
    using fold_same_subspace [of p "position + 1" "Suc (length (subspaces m))" ?m2] by blast+
  have e: "subspace_manager_add_subspace uuid position ident name m = Some (?m3, p)"
    using assms by (simp add: subspace_manager_add_subspace_def alloc_subspace_def Let_def)
  have l: "sub_id ?m2 = sub_id ?m1" "sub_name ?m2 = sub_name ?m1" "sub_x11id ?m2 = sub_x11id ?m1"
    by (simp_all add: sub_id_def sub_name_def sub_x11id_def fun_eq_iff)
  have o: "sub_id ?m0 = (sub_id m)(p := if ident = [] then uuid p else ident)"
    "q \<noteq> p \<Longrightarrow> sub_name ?m0 q = sub_name m q" "q \<noteq> p \<Longrightarrow> sub_x11id ?m0 q = sub_x11id m q" for q
    by (simp_all add: sub_id_def sub_name_def sub_x11id_def new_subspace_def fun_eq_iff)
  show thesis
  proof (rule that [OF e])
    show "sub_id ?m3 = (sub_id m)(p := if ident = [] then uuid p else ident)"
      using f(2) l(1) o(1) by (auto simp: fun_eq_iff)
    show "sub_name ?m3 = (sub_name m)(p := name)"
      using f(3) l(2) o(2) by (auto simp: fun_eq_iff)
    show "sub_x11id ?m3 = (sub_x11id m)(p := Suc (length (subspaces m)))"
      using f(4) l(3) o(3) assms by (auto simp: fun_eq_iff split: if_splits)
  qed (use f(1) [THEN skeleton_fields(1)] f(1) [THEN skeleton_fields(2)]
      f(1) [THEN skeleton_fields(3)] f(1) [THEN skeleton_fields(4)] f(1) [THEN skeleton_fields(5)]
      f(1) [THEN skeleton_fields(6)] f(1) [THEN skeleton_fields(8)] in \<open>simp_all\<close>)
qed

section \<open>The layout\<close>

lemma to_uint_small [simp]: "u < 2 ^ 32 \<Longrightarrow> to_uint u = u"
  by (simp add: to_uint_def)

lemma to_uint_less [simp]: "to_uint u < 2 ^ 32"
  by (simp add: to_uint_def)

lemma to_uint_le: "to_uint u \<le> u"
  by (simp add: to_uint_def)

lemma to_uint_step: "to_uint (to_uint (c + 1) * r) = to_uint (to_uint (c * r) + r)"
  unfolding to_uint_def
  by (simp only: mod_mult_left_eq mod_add_left_eq add_mult_distrib mult_1)

lemma grow_layout_swap:
  "grow_layout n sz Vertical c r = map_option (\<lambda>(a, b). (b, a)) (grow_layout n sz Horizontal r c)"
  by (induction n arbitrary: r) (simp_all add: mult.commute)

text \<open>The loop ends: the product grows by r in each round, or, when r is so large that the sum
  wraps around, shrinks until it jumps over the number of subspaces.\<close>

lemma grow_layout_returns:
  assumes "0 < r" "r < 2 ^ 32" "sz < 2 ^ 31"
  shows "0 < n \<Longrightarrow> (to_uint (c * r) < sz \<longrightarrow>
       (if r \<le> 2 ^ 32 - sz then sz - to_uint (c * r) else to_uint (c * r) + 1) < n) \<Longrightarrow>
     grow_layout n sz Horizontal c r \<noteq> None"
proof (induction n arbitrary: c)
  case (Suc n)
  let ?p = "to_uint (c * r)" let ?q = "to_uint (to_uint (c + 1) * r)"
  show ?case
  proof (cases "?p < sz")
    case True
    have q: "?q = to_uint (?p + r)" by (rule to_uint_step)
    have "0 < n \<and> (?q < sz \<longrightarrow> (if r \<le> 2 ^ 32 - sz then sz - ?q else ?q + 1) < n)"
    proof (cases "r \<le> 2 ^ 32 - sz")
      case True
      then have "?q = ?p + r" using q \<open>?p < sz\<close> by (simp add: to_uint_def)
      then show ?thesis using True \<open>?p < sz\<close> Suc.prems assms(1) by auto
    next
      case False
      show ?thesis
      proof (cases "?p + r < 2 ^ 32")
        case True
        then have "?q = ?p + r" using q by simp
        then show ?thesis using False \<open>?p < sz\<close> Suc.prems assms by auto
      next
        case not_small: False
        have "?p + r - 2 ^ 32 < 2 ^ 32" using assms(2) to_uint_less [of "c * r"] by linarith
        then have "?q = ?p + r - 2 ^ 32" using q not_small
          by (simp add: to_uint_def le_mod_geq)
        then have "?q < ?p" using not_small assms(2) by linarith
        then show ?thesis using False \<open>?p < sz\<close> Suc.prems by auto
      qed
    qed
    with True show ?thesis using Suc.IH [of "to_uint (c + 1)"] by simp
  qed simp
qed simp

lemma grow_layout_total:
  assumes "0 < c" "0 < r" "c < 2 ^ 32" "r < 2 ^ 32" "sz < 2 ^ 31"
  shows "grow_layout (Suc sz) sz orient c r \<noteq> None"
proof -
  have "grow_layout (Suc sz) sz Horizontal a b \<noteq> None" if "0 < b" "b < 2 ^ 32" for a b
    by (rule grow_layout_returns [OF that assms(5)]) (use assms(5) in auto)
  then show ?thesis using assms by (cases orient) (auto simp: grow_layout_swap)
qed

lemma grow_layout_room:
  "grow_layout n sz orient c r = Some (c', r') \<Longrightarrow> sz \<le> c' * r'"
  by (induction n sz orient c r rule: grow_layout.induct)
     (auto split: if_splits orientation.splits intro: order_trans [OF _ to_uint_le] simp: not_less)

lemma grow_layout_bounds:
  "grow_layout n sz orient c r = Some (c', r') \<Longrightarrow> 0 < c \<Longrightarrow> 0 < r \<Longrightarrow> c \<le> 2 ^ 15 \<Longrightarrow> r \<le> 2 ^ 15 \<Longrightarrow>
     sz \<le> 2 ^ 15 \<Longrightarrow> 0 < c' \<and> 0 < r' \<and> c' \<le> 2 ^ 15 \<and> r' \<le> 2 ^ 15"
proof (induction n sz orient c r rule: grow_layout.induct)
  case (2 n sz orient c r)
  have "c * r \<le> 2 ^ 15 * 2 ^ 15" using 2 by (intro mult_le_mono)
  then have p: "to_uint (c * r) = c * r" by simp
  show ?case
  proof (cases "c * r < sz")
    case True
    have "c \<le> c * r" "r \<le> c * r" using 2 by simp_all
    then have "c + 1 \<le> 2 ^ 15" "r + 1 \<le> 2 ^ 15" using True 2 by linarith+
    with 2 p True show ?thesis by (cases orient) simp_all
  qed (use 2 p in simp)
qed simp

text \<open>What a backend may say about the layout: between 0 and \<open>2 ^ 15\<close> columns and rows.\<close>

definition backend_layout_small :: "backend \<Rightarrow> bool" where
  "backend_layout_small b \<longleftrightarrow> (case b of
     Backend (Some d) \<Rightarrow> 0 \<le> layout_columns d \<and> layout_columns d \<le> 2 ^ 15 \<and> layout_rows d \<le> 2 ^ 15
   | _ \<Rightarrow> True)"

lemma backend_get_layout_small:
  assumes "backend_layout_small b" "lay = (c, r, orient)" "c \<le> 2 ^ 15" "0 < r" "r \<le> 2 ^ 15"
  obtains c' r' o' where "backend_get_layout b lay = (c', r', o')" "c' \<le> 2 ^ 15" "0 < r'" "r' \<le> 2 ^ 15"
proof (cases "\<exists>d. b = Backend (Some d)")
  case True
  then obtain d where d: "b = Backend (Some d)" by blast
  then have s: "0 \<le> layout_columns d" "layout_columns d \<le> 2 ^ 15" "layout_rows d \<le> 2 ^ 15"
    using assms(1) by (simp_all add: backend_layout_small_def)
  show ?thesis
  proof (rule that)
    show "backend_get_layout b lay = (uint_of_int (layout_columns d),
        uint_of_int (max 1 (layout_rows d)), layout_orientation d)"
      by (simp add: backend_get_layout_def d)
  qed (use s in \<open>auto simp: uint_of_int_small\<close>)
next
  case False
  then have "backend_get_layout b lay = lay"
    by (auto simp: backend_get_layout_def split: backend.split option.split)
  with assms that show ?thesis by blast
qed

lemma layout_size_some:
  assumes "backend_layout_small b" "0 < sz" "sz \<le> 2 ^ 15" "0 < rws"
  obtains c r orient where "layout_size b sz rws = Some (c, r, orient)"
    "0 < c" "0 < r" "c \<le> 2 ^ 15" "r \<le> 2 ^ 15" "sz \<le> c * r"
proof -
  let ?r = "min rws sz"
  have r: "0 < ?r" "?r \<le> 2 ^ 15" "sz div ?r \<le> 2 ^ 15"
    using assms div_le_dividend [of sz ?r] by linarith+
  from backend_get_layout_small [OF assms(1) refl r(3) r(1) r(2), of Horizontal]
  obtain c1 r1 o1 where l1: "backend_get_layout b (sz div ?r, ?r, Horizontal) = (c1, r1, o1)"
    "c1 \<le> 2 ^ 15" "0 < r1" "r1 \<le> 2 ^ 15" by blast
  obtain c2 r2 where l2: "layout_default sz (c1, r1, o1) = (c2, r2, o1)" "0 < c2" "0 < r2"
    "c2 \<le> 2 ^ 15" "r2 \<le> 2 ^ 15"
    using l1 assms(2,3) by (cases "sz = 1"; cases "c1 = 0")
      (simp_all add: layout_default_def Let_def div_greater_zero_iff)
  obtain c3 r3 where l3: "grow_layout (Suc sz) sz o1 c2 r2 = Some (c3, r3)"
    using grow_layout_total [of c2 r2 sz o1] l2 assms(3) by fastforce
  have b: "0 < c3 \<and> 0 < r3 \<and> c3 \<le> 2 ^ 15 \<and> r3 \<le> 2 ^ 15"
    by (rule grow_layout_bounds [OF l3 l2(2,3,4,5) assms(3)])
  then have "layout_size b sz rws = Some (c3, r3, o1)"
    using l1(1) l2 l3 r(1) by (simp add: layout_size_def Let_def)
  then show thesis using b grow_layout_room [OF l3] that by blast
qed

section \<open>The grid has room for every subspace\<close>

lemma concat_rows: "concat (map (\<lambda>y. take w (drop (y * w) xs)) [0..<h]) = take (h * w) xs"
proof (induction h)
  case (Suc h)
  then show ?case by (simp add: add.commute [of w] take_add)
qed simp

lemma distinct_columns:
  fixes xs :: "'a list" and w :: nat
  assumes "distinct xs" "h \<le> k" "0 < k"
  defines "row \<equiv> \<lambda>j. map (\<lambda>x. xs ! (x * k + j)) (filter (\<lambda>x. x * k + j < length xs) [0..<w])"
  shows "distinct (concat (map row [0..<h]))
    \<and> set (concat (map row [0..<h])) \<subseteq> (\<lambda>i. xs ! i) ` {i. i < length xs \<and> i mod k < h}"
  using assms(2)
proof (induction h)
  case (Suc h)
  have m: "(x * k + h) mod k = h" for x using Suc.prems by simp
  have row: "distinct (row h)" "set (row h) \<subseteq> (\<lambda>i. xs ! i) ` {i. i < length xs \<and> i mod k = h}"
    using assms(1,3) m by (auto simp: row_def distinct_map inj_on_def nth_eq_iff_index_eq)
  let ?A = "\<lambda>P. (\<lambda>i. xs ! i) ` {i. i < length xs \<and> P (i mod k)}"
  have IH: "distinct (concat (map row [0..<h]))" "set (concat (map row [0..<h])) \<subseteq> ?A (\<lambda>j. j < h)"
    using Suc by simp_all
  have "?A (\<lambda>j. j < h) \<inter> ?A (\<lambda>j. j = h) = {}"
    using assms(1) by (auto simp: nth_eq_iff_index_eq)
  then have disj: "set (concat (map row [0..<h])) \<inter> set (row h) = {}" using IH(2) row(2) by blast
  have sub: "?A (\<lambda>j. j < h) \<subseteq> ?A (\<lambda>j. j < Suc h)" "?A (\<lambda>j. j = h) \<subseteq> ?A (\<lambda>j. j < Suc h)"
    by auto
  have e: "concat (map row [0..<Suc h]) = concat (map row [0..<h]) @ row h" by simp
  show ?case
    unfolding e distinct_append set_append
    using IH row disj sub by (simp only: simp_thms Un_subset_iff) (meson subset_trans)
qed simp

lemma grid_update_shape:
  assumes "distinct subs" "0 < c" "0 < r" "c < 2 ^ 31" "r < 2 ^ 31"
  shows "grid_shape (grid_update (int c, int r) orient subs)"
proof -
  have u: "uint_of_int (int c) = c" "uint_of_int (int r) = r"
    using assms by (simp_all add: uint_of_int_def)
  show ?thesis
  proof (cases orient)
    case Horizontal
    then show ?thesis using assms
      by (auto simp: grid_shape_def grid_update_def u fill_rows_eq grid_subs_def concat_rows
          grid_height_def grid_width_def)
  next
    case Vertical
    let ?row = "\<lambda>j. map (\<lambda>x. subs ! (x * r + j)) (filter (\<lambda>x. x * r + j < length subs) [0..<c])"
    have g: "fill_columns c r (replicate r []) subs = map ?row [0..<r]"
      by (rule nth_equalityI) (simp_all add: fill_columns_length fill_columns_nth)
    have "length (?row j) \<le> c" for j
      using length_filter_le [of _ "[0..<c]"] by simp
    then show ?thesis using distinct_columns [OF assms(1) order_refl assms(3), of c] Vertical
      by (auto simp: grid_shape_def grid_update_def u g grid_subs_def grid_height_def grid_width_def)
  qed
qed

lemma grid_update_all:
  assumes "c < 2 ^ 31" "r < 2 ^ 31" "length subs \<le> c * r" "s \<in> set subs"
  shows "s \<in> set (grid_subs (grid_update (int c, int r) orient subs))"
proof -
  obtain i where i: "i < length subs" "s = subs ! i" using assms(4) by (auto simp: in_set_conv_nth)
  have "i < c * r" using i assms(3) by linarith
  with assms i grid_update_cell_horizontal [of c r i subs] grid_update_cell_vertical [of c r i subs]
  show ?thesis by (cases orient) (auto intro: cell_in_subs)
qed

text \<open>The state after update_layout.\<close>

definition layout_ok :: "manager \<Rightarrow> bool" where
  "layout_ok m \<longleftrightarrow> grid_shape (manager_grid m) \<and> set (subspaces m) \<subseteq> set (grid_subs (manager_grid m))
     \<and> 0 < rows m"

lemma update_layout_result:
  assumes "distinct (subspaces m)" "subspaces m \<noteq> []" "length (subspaces m) \<le> 2 ^ 15" "0 < rows m"
    "backend_layout_small (manager_backend m)"
  obtains g c r where "subspace_manager_update_layout m = Some (emit (Rows_Changed r)
       (emit (Layout_Changed c r) (m\<lparr>rows := r, manager_grid := g\<rparr>)))"
    "0 < r" "grid_shape g" "set (subspaces m) \<subseteq> set (grid_subs g)"
proof -
  obtain c r orient where l: "layout_size (manager_backend m) (length (subspaces m)) (rows m)
      = Some (c, r, orient)" "0 < c" "0 < r" "c \<le> 2 ^ 15" "r \<le> 2 ^ 15"
      "length (subspaces m) \<le> c * r"
    using layout_size_some [OF assms(5) _ assms(3,4)] assms(2) by (metis length_greater_0_conv)
  have u: "int_of_uint c = int c" "int_of_uint r = int r" using l(4,5) by (simp_all add: int_of_uint_def)
  show thesis
  proof (rule that)
    show "subspace_manager_update_layout m = Some (emit (Rows_Changed r)
       (emit (Layout_Changed c r) (m\<lparr>rows := r,
          manager_grid := grid_update (int c, int r) orient (subspaces m)\<rparr>)))"
      using l(1) u by (simp add: subspace_manager_update_layout_def Let_def)
    show "grid_shape (grid_update (int c, int r) orient (subspaces m))"
      using assms(1) l by (intro grid_update_shape) simp_all
    show "set (subspaces m) \<subseteq> set (grid_subs (grid_update (int c, int r) orient (subspaces m)))"
      using grid_update_all [of c r "subspaces m" _ orient] l by auto
  qed (use l in simp)
qed

section \<open>Saving\<close>

lemma delete_stale_result:
  assumes "finite (dom (cfg_id cfg))"
  shows "\<exists>cfg'. delete_stale i cfg = Some cfg' \<and> cfg_number cfg' = cfg_number cfg
     \<and> cfg_rows cfg' = cfg_rows cfg \<and> dom (cfg_id cfg') \<subseteq> dom (cfg_id cfg)
     \<and> (\<forall>k<i. cfg_id cfg' k = cfg_id cfg k \<and> cfg_name cfg' k = cfg_name cfg k)
     \<and> cfg_id cfg' i = None"
  using assms
proof (induction "card (dom (cfg_id cfg))" arbitrary: i cfg)
  case 0
  then have "cfg_id cfg i = None" by auto
  then show ?case by (simp add: delete_stale.simps)
next
  case (Suc n)
  show ?case
  proof (cases "cfg_id cfg i")
    case None
    then show ?thesis by (simp add: delete_stale.simps)
  next
    case (Some v)
    let ?cfg = "cfg\<lparr>cfg_id := (cfg_id cfg)(i := None), cfg_name := (cfg_name cfg)(i := None)\<rparr>"
    have d: "dom (cfg_id ?cfg) = dom (cfg_id cfg) - {i}" by auto
    have i: "i \<in> dom (cfg_id cfg)" using Some by blast
    then have "card (dom (cfg_id ?cfg)) = n" using Suc.hyps(2) Suc.prems unfolding d by simp
    then obtain cfg' where "delete_stale (i + 1) ?cfg = Some cfg'"
      "cfg_number cfg' = cfg_number ?cfg" "cfg_rows cfg' = cfg_rows ?cfg"
      "dom (cfg_id cfg') \<subseteq> dom (cfg_id ?cfg)"
      "\<forall>k<i + 1. cfg_id cfg' k = cfg_id ?cfg k \<and> cfg_name cfg' k = cfg_name ?cfg k"
      using Suc.hyps(1) [of ?cfg "i + 1"] Suc.prems unfolding d by auto
    then show ?thesis using Some d
      by (intro exI [of _ cfg']) (auto simp: delete_stale.simps [of i cfg])
  qed
qed

definition filled_name :: "(nat \<Rightarrow> string) \<Rightarrow> manager \<Rightarrow> nat \<Rightarrow> string" where
  "filled_name i18n m j =
     (let nm = sub_name m (subspaces m ! j) in if nm = [] then i18n (j + 1) else nm)"

lemma save_entry_result:
  assumes "n < length (subspaces m)" "sub_x11id m (subspaces m ! n) = n + 1"
    "save_entry i18n (n + 1) (m, cfg) = (m', cfg')"
  shows "skeleton m' = skeleton m" "sub_id m' = sub_id m" "sub_x11id m' = sub_x11id m"
    "sub_name m' = (sub_name m)(subspaces m ! n := filled_name i18n m n)"
    "cfg_id cfg' = (cfg_id cfg)(n + 1 \<mapsto> sub_id m (subspaces m ! n))"
    "cfg_read (cfg_name cfg') k (i18n k) =
       (if k = n + 1 then filled_name i18n m n else cfg_read (cfg_name cfg) k (i18n k))"
    "cfg_number cfg' = cfg_number cfg" "cfg_rows cfg' = cfg_rows cfg"
  using assms
  by (auto simp: save_entry_def Let_def subspace_manager_get_subspace_name_def filled_name_def
      fun_eq_iff cfg_read_def split: if_splits option.splits)

lemma save_entries_result:
  assumes "manager_ok m" "n \<le> length (subspaces m)"
    "fold (save_entry i18n) [1..<n + 1] (m, cfg) = (m', cfg')"
  shows "skeleton m' = skeleton m \<and> sub_id m' = sub_id m \<and> sub_x11id m' = sub_x11id m
    \<and> (\<forall>j<length (subspaces m). sub_name m' (subspaces m ! j)
        = (if j < n then filled_name i18n m j else sub_name m (subspaces m ! j)))
    \<and> (\<forall>k. cfg_id cfg' k = (if 0 < k \<and> k \<le> n then Some (sub_id m (subspaces m ! (k - 1)))
                         else cfg_id cfg k))
    \<and> (\<forall>k. 0 < k \<longrightarrow> k \<le> n \<longrightarrow> cfg_read (cfg_name cfg') k (i18n k) = filled_name i18n m (k - 1))
    \<and> cfg_number cfg' = cfg_number cfg \<and> cfg_rows cfg' = cfg_rows cfg"
  using assms(2,3)
proof (induction n arbitrary: m' cfg')
  case (Suc n)
  have d: "distinct (subspaces m)" "numbered m" using assms(1) by (simp_all add: manager_ok_def)
  obtain m1 cfg1 where f: "fold (save_entry i18n) [1..<n + 1] (m, cfg) = (m1, cfg1)" by fastforce
  then have e: "save_entry i18n (n + 1) (m1, cfg1) = (m', cfg')" using Suc.prems(2) by simp
  have IH: "skeleton m1 = skeleton m" "sub_id m1 = sub_id m" "sub_x11id m1 = sub_x11id m"
    "\<And>j. j < length (subspaces m) \<Longrightarrow> sub_name m1 (subspaces m ! j)
        = (if j < n then filled_name i18n m j else sub_name m (subspaces m ! j))"
    "\<And>k. cfg_id cfg1 k = (if 0 < k \<and> k \<le> n then Some (sub_id m (subspaces m ! (k - 1)))
                         else cfg_id cfg k)"
    "\<And>k. 0 < k \<Longrightarrow> k \<le> n \<Longrightarrow> cfg_read (cfg_name cfg1) k (i18n k) = filled_name i18n m (k - 1)"
    "cfg_number cfg1 = cfg_number cfg" "cfg_rows cfg1 = cfg_rows cfg"
    using Suc.IH [OF _ f] Suc.prems(1) by simp_all
  have s: "subspaces m1 = subspaces m" using IH(1) by (rule skeleton_fields)
  have n: "n < length (subspaces m1)" "sub_x11id m1 (subspaces m1 ! n) = n + 1"
    using Suc.prems(1) d(2) IH(3) by (simp_all add: s numbered_def)
  note r = save_entry_result [OF n e]
  have fn: "filled_name i18n m1 n = filled_name i18n m n"
    using IH(4) [of n] n(1) by (simp add: filled_name_def s)
  have nm: "sub_name m' (subspaces m ! j)
        = (if j < Suc n then filled_name i18n m j else sub_name m (subspaces m ! j))"
    if "j < length (subspaces m)" for j
    using that r(4) IH(4) [OF that] fn d(1) n(1) by (auto simp: s nth_eq_iff_index_eq)
  have rd: "cfg_read (cfg_name cfg') k (i18n k) = filled_name i18n m (k - 1)"
    if "0 < k" "k \<le> Suc n" for k
    using that r(6) [of k] IH(6) [of k] fn by (cases "k = n + 1") auto
  have ids: "cfg_id cfg' k = (if 0 < k \<and> k \<le> Suc n then Some (sub_id m (subspaces m ! (k - 1)))
                         else cfg_id cfg k)" for k
    unfolding r(5) using IH(2) IH(5) [of k] by (auto simp: s)
  show ?case using nm rd ids r(1,2,3,7,8) IH(1,2,3,7,8) by simp
qed (auto simp: cfg_read_def)

text \<open>What save leaves in the manager and in the configuration.\<close>

lemma save_result:
  assumes "manager_ok m" "config m = Some cfg" "finite (dom (cfg_id cfg))"
  obtains m' cfg' where "subspace_manager_save i18n m = Some (m'\<lparr>config := Some cfg'\<rparr>)"
    "skeleton m' = skeleton m" "sub_id m' = sub_id m" "sub_x11id m' = sub_x11id m"
    "\<And>j. j < length (subspaces m) \<Longrightarrow> sub_name m' (subspaces m ! j) = filled_name i18n m j"
    "cfg_number cfg' = Some (int (length (subspaces m)))" "cfg_rows cfg' = Some (int (rows m))"
    "\<And>j. j < length (subspaces m) \<Longrightarrow> cfg_id cfg' (j + 1) = Some (sub_id m (subspaces m ! j))"
    "\<And>j. j < length (subspaces m) \<Longrightarrow>
       cfg_read (cfg_name cfg') (j + 1) (i18n (j + 1)) = filled_name i18n m j"
    "cfg_id cfg' (length (subspaces m) + 1) = None" "finite (dom (cfg_id cfg'))"
proof -
  let ?n = "length (subspaces m)"
  obtain cfg1 where c1: "delete_stale (?n + 1) cfg = Some cfg1"
    "dom (cfg_id cfg1) \<subseteq> dom (cfg_id cfg)" "cfg_id cfg1 (?n + 1) = None"
    using delete_stale_result [OF assms(3), of "?n + 1"] by blast
  let ?cfg = "cfg1\<lparr>cfg_number := Some (int ?n)\<rparr>"
  obtain m' cfg2 where c2: "fold (save_entry i18n) [1..<?n + 1] (m, ?cfg) = (m', cfg2)" by fastforce
  note c3 = save_entries_result [OF assms(1) order_refl c2]
  have ids: "cfg_id cfg2 k = (if 0 < k \<and> k \<le> ?n then Some (sub_id m (subspaces m ! (k - 1)))
      else cfg_id cfg1 k)" for k using c3 by simp
  have r: "rows m' = rows m" using c3 by (auto dest: skeleton_fields)
  have "dom (cfg_id cfg2) \<subseteq> {..?n} \<union> dom (cfg_id cfg1)"
    by (auto simp: ids split: if_splits)
  then have f: "finite (dom (cfg_id cfg2))"
    using assms(3) c1(2) by (meson finite_Un finite_atMost finite_subset)
  show thesis
  proof (rule that)
    show "subspace_manager_save i18n m
        = Some (m'\<lparr>config := Some (cfg2\<lparr>cfg_rows := Some (int (rows m))\<rparr>)\<rparr>)"
      using c1(1) c2 r by (simp add: subspace_manager_save_def assms(2) Let_def del: upt_Suc)
    show "cfg_read (cfg_name (cfg2\<lparr>cfg_rows := Some (int (rows m))\<rparr>)) (j + 1) (i18n (j + 1))
        = filled_name i18n m j" if "j < ?n" for j
      using that c3 by simp
  qed (use c1(3) c3 f ids in simp_all)
qed

section \<open>The invariant of the manager\<close>

text \<open>What an operation needs, and what it leaves: moreover a grid that covers all subspaces.\<close>

definition manager_ready :: "manager \<Rightarrow> bool" where
  "manager_ready m \<longleftrightarrow> manager_ok m \<and> subspaces m \<noteq> [] \<and> length (subspaces m) \<le> max_count
     \<and> 0 < rows m \<and> current m \<noteq> None \<and> backend_layout_small (manager_backend m)
     \<and> (\<forall>cfg. config m = Some cfg \<longrightarrow> finite (dom (cfg_id cfg)))"

definition manager_inv :: "manager \<Rightarrow> bool" where
  "manager_inv m \<longleftrightarrow> manager_ready m \<and> layout_ok m"

definition same_subs :: "manager \<Rightarrow> manager \<Rightarrow> bool" where
  "same_subs m' m \<longleftrightarrow> subspaces m' = subspaces m \<and> current m' = current m
     \<and> next_pointer m' = next_pointer m \<and> sub_x11id m' = sub_x11id m \<and> sub_id m' = sub_id m"

lemma same_subs_refl [simp]: "same_subs m m"
  by (simp add: same_subs_def)

lemma same_subs_trans: "same_subs m2 m1 \<Longrightarrow> same_subs m1 m \<Longrightarrow> same_subs m2 m"
  by (simp add: same_subs_def)

lemma same_subs_ok: "same_subs m' m \<Longrightarrow> manager_ok m' = manager_ok m"
  by (simp add: same_subs_def manager_ok_def numbered_def)

lemma emit_inv [simp]:
  "manager_ok (emit s m) = manager_ok m" "manager_ready (emit s m) = manager_ready m"
  "layout_ok (emit s m) = layout_ok m" "manager_inv (emit s m) = manager_inv m"
  by (simp_all add: manager_ok_def numbered_def manager_ready_def layout_ok_def manager_inv_def)

lemma emit_same_subs [simp]:
  "same_subs (emit s m') m = same_subs m' m" "same_subs m' (emit s m) = same_subs m' m"
  by (simp_all add: same_subs_def fun_eq_iff)

lemma fold_emit_inv:
  "(\<And>x m. P (g x m) = P m) \<Longrightarrow> P (fold g xs m) = P m" for P :: "'a \<Rightarrow> bool"
  by (induction xs arbitrary: m) simp_all

lemma backend_meta_layout:
  "backend_layout_small (backend_update_subspace_meta b x nm) = backend_layout_small b"
  "backend_layout_small (backend_update_size b k) = backend_layout_small b"
  by (auto simp: backend_update_subspace_meta_def backend_update_size_def backend_layout_small_def
      split: backend.split option.split)

lemma update_meta_layout [simp]:
  "backend_layout_small (manager_backend (subspace_manager_update_subspace_meta p nm k m))
     = backend_layout_small (manager_backend m)"
proof -
  have "manager_backend (setX11DesktopNumber m' q j) = manager_backend m'" for m' q j
    by (simp add: setX11DesktopNumber_def Let_def)
  then show ?thesis
    by (simp add: subspace_manager_update_subspace_meta_def Let_def backend_meta_def
        backend_meta_layout subspace_set_name_def setName_def name_changed_slot_def)
qed

lemma fold_layout_small:
  "(\<And>x m. backend_layout_small (manager_backend (g x m)) = backend_layout_small (manager_backend m))
   \<Longrightarrow> backend_layout_small (manager_backend (fold g xs m)) = backend_layout_small (manager_backend m)"
  by (induction xs arbitrary: m) simp_all

lemma add_subspace_layout:
  "subspace_manager_add_subspace uuid i ident nm m = Some (m', p) \<Longrightarrow>
     backend_layout_small (manager_backend m') = backend_layout_small (manager_backend m)"
  by (auto simp: subspace_manager_add_subspace_def alloc_subspace_def Let_def fold_layout_small
      split: if_splits)

lemma save_entry_layout:
  "backend_layout_small (manager_backend (fst (fold (save_entry i18n) xs (m, cfg))))
     = backend_layout_small (manager_backend m)"
proof (induction xs arbitrary: m cfg)
  case (Cons x xs)
  obtain m1 cfg1 where e: "save_entry i18n x (m, cfg) = (m1, cfg1)" by fastforce
  then have "backend_layout_small (manager_backend m1) = backend_layout_small (manager_backend m)"
    by (auto simp: save_entry_def Let_def split: if_splits)
  with Cons e show ?case by simp
qed simp

lemma save_layout:
  assumes "subspace_manager_save i18n m = Some m'"
  shows "backend_layout_small (manager_backend m') = backend_layout_small (manager_backend m)"
proof (cases "config m")
  case (Some cfg)
  with assms obtain cfg1 where "delete_stale (length (subspaces m) + 1) cfg = Some cfg1"
    by (auto simp: subspace_manager_save_def bind_eq_Some_conv)
  moreover obtain m1 cfg2 where f: "fold (save_entry i18n) [1..<length (subspaces m) + 1]
      (m, cfg1\<lparr>cfg_number := Some (int (length (subspaces m)))\<rparr>) = (m1, cfg2)" by fastforce
  ultimately have "manager_backend m' = manager_backend m1"
    using assms Some by (auto simp: subspace_manager_save_def simp del: upt_Suc)
  then show ?thesis using save_entry_layout [of i18n "[1..<length (subspaces m) + 1]" m] f
    by (metis fst_conv)
qed (use assms in \<open>simp add: subspace_manager_save_def\<close>)

lemma save_keeps:
  assumes "manager_ready m"
  obtains m' where "subspace_manager_save i18n m = Some m'" "manager_ready m'" "same_subs m' m"
    "rows m' = rows m" "manager_grid m' = manager_grid m" "layout_ok m' = layout_ok m"
proof (cases "config m")
  case None
  then show ?thesis using that [of m] assms by (simp add: subspace_manager_save_def)
next
  case (Some cfg)
  have ok: "manager_ok m" "finite (dom (cfg_id cfg))"
    using assms Some by (simp_all add: manager_ready_def)
  obtain m1 cfg' where s: "subspace_manager_save i18n m = Some (m1\<lparr>config := Some cfg'\<rparr>)"
    "skeleton m1 = skeleton m" "sub_id m1 = sub_id m" "sub_x11id m1 = sub_x11id m"
    "finite (dom (cfg_id cfg'))"
    by (rule save_result [OF ok(1) Some ok(2), of i18n]) (rule that; assumption)
  let ?m' = "m1\<lparr>config := Some cfg'\<rparr>"
  have ss: "same_subs ?m' m" using s(2,3,4)
    by (simp add: same_subs_def skeleton_def sub_id_def sub_x11id_def fun_eq_iff)
  have f: "rows ?m' = rows m" "manager_grid ?m' = manager_grid m" using s(2) by (simp_all add: skeleton_def)
  have e: "subspaces ?m' = subspaces m" "current ?m' = current m"
    using ss by (simp_all only: same_subs_def)
  have c: "config ?m' = Some cfg'" by simp
  have r: "manager_ready ?m'"
    using assms s(5)
    unfolding manager_ready_def same_subs_ok [OF ss] save_layout [OF s(1)] e f c by simp
  have l: "layout_ok ?m' = layout_ok m" unfolding layout_ok_def e f by (rule refl)
  show ?thesis by (rule that [OF s(1) r ss f l])
qed

lemma update_layout_keeps:
  assumes "manager_ready m"
  obtains m' where "subspace_manager_update_layout m = Some m'" "manager_inv m'" "same_subs m' m"
    "sub_name m' = sub_name m" "config m' = config m"
proof -
  have "distinct (subspaces m)" "subspaces m \<noteq> []" "length (subspaces m) \<le> 2 ^ 15" "0 < rows m"
    "backend_layout_small (manager_backend m)"
    using assms by (simp_all add: manager_ready_def manager_ok_def max_count_def)
  then obtain g c r where u: "subspace_manager_update_layout m = Some (emit (Rows_Changed r)
       (emit (Layout_Changed c r) (m\<lparr>rows := r, manager_grid := g\<rparr>)))"
    "0 < r" "grid_shape g" "set (subspaces m) \<subseteq> set (grid_subs g)"
    by (rule update_layout_result)
  let ?m = "m\<lparr>rows := r, manager_grid := g\<rparr>"
  have ss: "same_subs ?m m" by (simp add: same_subs_def sub_id_def sub_x11id_def fun_eq_iff)
  have "manager_inv ?m" using assms u same_subs_ok [OF ss]
    by (simp add: manager_inv_def manager_ready_def layout_ok_def)
  moreover have "sub_name ?m = sub_name m" by (simp add: sub_name_def fun_eq_iff)
  moreover have "config ?m = config m" by simp
  moreover have "sub_name (emit x (emit y ?m)) = sub_name ?m" for x y by (simp add: fun_eq_iff)
  ultimately show ?thesis using ss by (intro that [OF u(1)]) simp_all
qed

lemma update_size_keeps [simp]:
  "manager_ready (m\<lparr>manager_backend := backend_update_size (manager_backend m) k\<rparr>) = manager_ready m"
  "same_subs (m\<lparr>manager_backend := backend_update_size (manager_backend m) k\<rparr>) m'
     = same_subs m m'"
  by (simp_all add: manager_ready_def manager_ok_def numbered_def backend_meta_layout same_subs_def
      sub_x11id_def sub_id_def fun_eq_iff)

end
