(* ===== verification/Subspace_Operations.thy ===== *)
theory Subspace_Operations
  imports Subspace_Manager_Props
begin

text \<open>
  The operations on the list of subspaces against the invariant of the manager: shrinking,
  appending, setting the count, removing, loading.
\<close>

section \<open>Shrinking\<close>

lemma fold_removed:
  "same_subs (fold (\<lambda>s m. emit (Subspace_Removed s) m) xs m) m' = same_subs m m'"
  "manager_ready (fold (\<lambda>s m. emit (Subspace_Removed s) m) xs m) = manager_ready m"
  "sub_name (fold (\<lambda>s m. emit (Subspace_Removed s) m) xs m) = sub_name m"
  by (induction xs arbitrary: m) (simp_all add: fun_eq_iff)

lemma current_number:
  assumes "manager_ready m" "current m = Some c"
  obtains i where "i < length (subspaces m)" "subspaces m ! i = c" "sub_x11id m c = i + 1"
  using assms by (fastforce simp: manager_ready_def manager_ok_def numbered_def in_set_conv_nth)

text \<open>Shrinking keeps the first \<open>cnt\<close> subspaces; a current one that goes is replaced by the last
  one that stays.\<close>

lemma shrink_result:
  assumes "manager_ready m" "0 < cnt"
  obtains m' where "subspace_manager_shrink_subspaces cnt m = Some m'" "manager_ready m'"
    "subspaces m' = take cnt (subspaces m)" "next_pointer m' = next_pointer m"
    "sub_x11id m' = sub_x11id m" "sub_id m' = sub_id m"
proof (cases "cnt \<ge> length (subspaces m)")
  case True
  then show ?thesis using that [of m] assms by (simp add: subspace_manager_shrink_subspaces_def)
next
  case False
  obtain c where c: "current m = Some c" using assms(1) by (auto simp: manager_ready_def)
  obtain i where i: "i < length (subspaces m)" "subspaces m ! i = c" "sub_x11id m c = i + 1"
    using current_number [OF assms(1) c] by blast
  let ?m0 = "m\<lparr>subspaces := take cnt (subspaces m)\<rparr>"
  define new where "new = min (Suc i) cnt"
  define s where "s = take cnt (subspaces m) ! (new - 1)"
  have new: "0 < new" "new \<le> cnt" using assms(2) by (simp_all add: new_def)
  let ?m1 = "?m0\<lparr>current := Some s\<rparr>"
  let ?m2 = "if i + 1 \<noteq> new then emit (Current_Changed (Some c) (current ?m1)) ?m1 else ?m1"
  let ?m3 = "fold (\<lambda>s m. emit (Subspace_Removed s) m) (drop cnt (subspaces m)) ?m2"
  have x: "subspaces_get_current_x11id ?m0 = i + 1"
    using c i(3) by (simp add: subspaces_get_current_x11id_def sub_x11id_def)
  have at: "vector_at (take cnt (subspaces m)) (new - 1) = Some s"
    using False new by (auto simp: vector_at_def s_def)
  have e: "subspace_manager_shrink_subspaces cnt m = Some ?m3"
    using False c x at new by (simp add: subspace_manager_shrink_subspaces_def Let_def new_def [symmetric])
  have s: "s \<in> set (take cnt (subspaces m))"
    unfolding s_def using False new by (intro nth_mem) auto
  have r1: "manager_ready ?m1"
    using assms False s by (auto simp: manager_ready_def manager_ok_def numbered_def sub_x11id_def
        dest: in_set_takeD)
  have ss: "same_subs ?m3 ?m1" by (simp add: fold_removed)
  show ?thesis
  proof (rule that [OF e])
    show "manager_ready ?m3" using r1 by (simp add: fold_removed)
  qed (use ss in \<open>simp_all only: same_subs_def\<close>, simp_all add: sub_x11id_def sub_id_def fun_eq_iff)
qed

section \<open>Appending\<close>

lemma add_last_keeps:
  assumes "manager_ok m"
  obtains m' where
    "subspace_manager_add_subspace uuid (length (subspaces m)) ident name m
       = Some (m', next_pointer m)"
    "manager_ok m'" "subspaces m' = subspaces m @ [next_pointer m]"
    "next_pointer m' = Suc (next_pointer m)" "current m' = current m" "rows m' = rows m"
    "config m' = config m" "nav_wraps m' = nav_wraps m"
    "sub_id m' = (sub_id m)(next_pointer m := if ident = [] then uuid (next_pointer m) else ident)"
    "sub_name m' = (sub_name m)(next_pointer m := name)"
    "sub_x11id m' = (sub_x11id m)(next_pointer m := Suc (length (subspaces m)))"
    "backend_layout_small (manager_backend m') = backend_layout_small (manager_backend m)"
proof -
  let ?p = "next_pointer m"
  obtain m' where r: "subspace_manager_add_subspace uuid (length (subspaces m)) ident name m = Some (m', ?p)"
    "next_pointer m' = Suc ?p" "subspaces m' = insert_at (length (subspaces m)) ?p (subspaces m)"
    "rows m' = rows m" "manager_grid m' = manager_grid m" "current m' = current m"
    "nav_wraps m' = nav_wraps m" "config m' = config m"
    "sub_id m' = (sub_id m)(?p := if ident = [] then uuid ?p else ident)"
    "sub_name m' = (sub_name m)(?p := name)"
    "sub_x11id m' = (sub_x11id m)(?p := Suc (length (subspaces m)))"
    by (rule add_subspace_result [OF order_refl])
  have s: "subspaces m' = subspaces m @ [?p]" using r(3) by (simp add: insert_at_def)
  have p: "?p \<notin> set (subspaces m)" using assms by (auto simp: manager_ok_def)
  then have q: "i < length (subspaces m) \<Longrightarrow> subspaces m ! i \<noteq> ?p" for i using nth_mem by metis
  have "manager_ok m'"
    using assms p q unfolding manager_ok_def numbered_def r(2,6,11) s
    by (auto simp: nth_append less_Suc_eq)
  then show ?thesis
    by (rule that [OF r(1) _ s r(2) r(6) r(4) r(8) r(7) r(9) r(10) r(11) add_subspace_layout [OF r(1)]])
qed

lemma append_default_keeps:
  assumes "manager_ready m" "length (subspaces m) < max_count"
  obtains m' where "append_default uuid i18n (length (subspaces m)) m = Some m'" "manager_ready m'"
    "subspaces m' = subspaces m @ [next_pointer m]"
proof -
  have ok: "manager_ok m" using assms by (simp add: manager_ready_def)
  obtain m' where r: "subspace_manager_add_subspace uuid (length (subspaces m)) []
      (i18n (length (subspaces m) + 1)) m = Some (m', next_pointer m)"
    "manager_ok m'" "subspaces m' = subspaces m @ [next_pointer m]" "current m' = current m"
    "rows m' = rows m" "config m' = config m"
    "backend_layout_small (manager_backend m') = backend_layout_small (manager_backend m)"
    by (rule add_last_keeps [OF ok]) (rule that; assumption)
  have "manager_ready m'"
    using assms r(2) unfolding manager_ready_def r(3-7) by simp
  moreover have "append_default uuid i18n (length (subspaces m)) m = Some m'"
    using r(1) by (simp add: append_default_def)
  ultimately show ?thesis using r(3) by (intro that)
qed

lemma append_defaults_keeps:
  assumes "manager_ready m" "length (subspaces m) \<le> n" "n \<le> max_count"
  shows "\<exists>m'. ofold (append_default uuid i18n) [length (subspaces m)..<n] m = Some m'
    \<and> manager_ready m' \<and> length (subspaces m') = n
    \<and> take (length (subspaces m)) (subspaces m') = subspaces m"
  using assms(2,3)
proof (induction n rule: dec_induct)
  case (step n)
  then obtain m1 where m1: "ofold (append_default uuid i18n) [length (subspaces m)..<n] m = Some m1"
    "manager_ready m1" "length (subspaces m1) = n"
    "take (length (subspaces m)) (subspaces m1) = subspaces m" by auto
  have lt: "length (subspaces m1) < max_count" using m1(3) step by simp
  obtain m2 where "append_default uuid i18n (length (subspaces m1)) m1 = Some m2" "manager_ready m2"
    "subspaces m2 = subspaces m1 @ [next_pointer m1]"
    by (rule append_default_keeps [OF m1(2) lt])
  with m1 step show ?case by simp
qed (use assms(1) in simp)

section \<open>Removing\<close>

lemma renumber_result:
  assumes "distinct (subspaces m)"
  shows "skeleton (renumber_from i m) = skeleton m" "sub_id (renumber_from i m) = sub_id m"
    "sub_name (renumber_from i m) = sub_name m"
    "j < length (subspaces m) \<Longrightarrow> sub_x11id (renumber_from i m) (subspaces m ! j)
       = (if i \<le> j then j + 1 else sub_x11id m (subspaces m ! j))"
  using fold_renumber [OF assms order_refl, of i] by (simp_all add: renumber_from_def)

lemma renumber_layout:
  "backend_layout_small (manager_backend (renumber_from i m)) = backend_layout_small (manager_backend m)"
  by (simp add: renumber_from_def fold_layout_small)

text \<open>The list and the current subspace after remove_subspace.\<close>

lemma remove_result:
  assumes "manager_ready m" "sub \<in> set (subspaces m)" "length (subspaces m) \<noteq> 1"
    "current m = Some c"
  obtains m' where "subspace_manager_remove_subspace i18n sub m = Some m'" "manager_inv m'"
    "subspaces m' = remove_all (subspaces m) sub"
    "current m' = Some (remove_all (subspaces m) sub
        ! (min (sub_x11id m c) (length (subspaces m) - 1) - 1))"
proof -
  let ?subs = "subspaces m"
  have ok: "manager_ok m" and len: "2 \<le> length ?subs" "length ?subs \<le> max_count" and rws: "0 < rows m"
    using assms(1,3) by (cases ?subs; auto simp: manager_ready_def Suc_le_eq)+
  obtain i where i: "i < length ?subs" "?subs ! i = sub" "sub_x11id m sub = i + 1"
    using assms(2) ok by (auto simp: manager_ok_def numbered_def in_set_conv_nth)
  obtain k where k: "k < length ?subs" "?subs ! k = c" "sub_x11id m c = k + 1"
    using current_number [OF assms(1,4)] by blast
  define xs where "xs = take i ?subs @ drop (Suc i) ?subs"
  have d: "distinct ?subs" using ok by (simp add: manager_ok_def)
  have xs: "xs = remove_all ?subs sub"
  proof -
    have split: "?subs = take i ?subs @ sub # drop (Suc i) ?subs"
      using i(1,2) by (metis id_take_nth_drop)
    then have "remove_all ?subs sub = remove_all (take i ?subs @ sub # drop (Suc i) ?subs) sub" by simp
    moreover have "sub \<notin> set (take i ?subs)" "sub \<notin> set (drop (Suc i) ?subs)"
      using d split by (metis distinct.simps(2) distinct_append disjoint_iff list.set_intros(1))+
    ultimately show ?thesis by (simp add: xs_def)
  qed
  have xlen: "length xs = length ?subs - 1" using i(1) by (simp add: xs_def)
  have xnth: "j < length xs \<Longrightarrow> xs ! j = ?subs ! (if j < i then j else Suc j)" for j
    using i(1) by (auto simp: xs_def nth_append)
  let ?m1 = "m\<lparr>subspaces := xs\<rparr>"
  define m2 where "m2 = renumber_from i ?m1"
  have dx: "distinct (subspaces ?m1)" using d by (simp add: xs)
  note r = renumber_result [OF dx, where i = i, folded m2_def]
  have s2: "subspaces m2 = xs" "next_pointer m2 = next_pointer m" "rows m2 = rows m"
    "config m2 = config m" using r(1) by (simp_all add: skeleton_def)
  have num: "sub_x11id m2 (xs ! j) = j + 1" if "j < length xs" for j
    using that r(4) [of j] xnth [OF that] xlen ok i(1)
    by (auto simp: manager_ok_def numbered_def sub_x11id_def)
  define new where "new = min (Suc k) (length xs)"
  define s where "s = xs ! (new - 1)"
  define m3 where "m3 = (if k + 1 \<noteq> new
     then emit (Current_Changed (Some c) (Some s)) (m2\<lparr>current := Some s\<rparr>)
     else m2\<lparr>current := Some s\<rparr>)"
  have new: "0 < new" "new \<le> length xs" using len xlen by (auto simp: new_def)
  have s_in: "s \<in> set xs" unfolding s_def using new by (intro nth_mem) simp
  have r3: "manager_ready (m2\<lparr>current := Some s\<rparr>)"
  proof -
    have "set xs \<subseteq> set ?subs" by (auto simp: xs)
    moreover have "backend_layout_small (manager_backend m2)"
      using assms(1) by (simp add: m2_def renumber_layout manager_ready_def)
    moreover have "xs \<noteq> []" using len xlen by auto
    ultimately show ?thesis
      using assms(1) s2 num dx s_in xlen
      by (auto simp: manager_ready_def manager_ok_def numbered_def sub_x11id_def)
  qed
  then have ready: "manager_ready m3" by (simp add: m3_def)
  have m3: "subspaces m3 = xs" "current m3 = Some s" by (simp_all add: m3_def s2)
  define m4 where "m4 = m3\<lparr>manager_backend := backend_update_size (manager_backend m3) (length xs)\<rparr>"
  have m4: "manager_ready m4" "same_subs m4 m3" using ready by (simp_all add: m4_def)
  obtain m5 where m5: "subspace_manager_update_layout m4 = Some m5" "manager_inv m5" "same_subs m5 m4"
    by (rule update_layout_keeps [OF m4(1)])
  obtain m6 where m6: "subspace_manager_save i18n m5 = Some m6" "manager_ready m6" "same_subs m6 m5"
    "layout_ok m6 = layout_ok m5"
    using save_keeps [of m5 i18n] m5(2) unfolding manager_inv_def by metis
  have at: "vector_at xs (new - 1) = Some s" using new by (auto simp: vector_at_def s_def)
  let ?m' = "emit (Count_Changed (length (subspaces m6) + 1) (length (subspaces m6)))
       (emit (Subspace_Removed sub) m6)"
  have e: "subspace_manager_remove_subspace i18n sub m = Some ?m'"
    using assms(3,4) i k new at m5(1) [unfolded m4_def m3_def] m6(1)
    by (cases "Suc k = new")
      (simp_all add: subspace_manager_remove_subspace_def Let_def xs_def [symmetric]
        m2_def [symmetric] s2 new_def [symmetric])
  have inv: "manager_inv ?m'" using m6 m5(2) by (simp add: manager_inv_def)
  have ss: "same_subs ?m' m3"
    using m6(3) m5(3) m4(2) by (simp add: same_subs_def fun_eq_iff)
  show ?thesis
    by (rule that [OF e inv]) (use ss m3 xs xlen k(3) in \<open>simp_all add: same_subs_def s_def new_def\<close>)
qed

section \<open>Setting the count\<close>

lemma fold_created:
  "same_subs (fold emit_created xs m) m' = same_subs m m'"
  "manager_inv (fold emit_created xs m) = manager_inv m"
  "rows (fold emit_created xs m) = rows m"
  "config (fold emit_created xs m) = config m"
  "sub_name (fold emit_created xs m) = sub_name m"
  by (induction xs arbitrary: m) (simp_all add: emit_created_def fun_eq_iff)

lemma fold_created_subspaces [simp]: "subspaces (fold emit_created xs m) = subspaces m"
  by (induction xs arbitrary: m) (simp_all add: emit_created_def)

lemma set_count_result:
  assumes "manager_inv m" "0 < cnt" "cnt \<le> max_count"
  obtains m' where "subspace_manager_set_count uuid i18n cnt m = Some m'" "manager_inv m'"
    "length (subspaces m') = cnt"
    "take (min cnt (length (subspaces m))) (subspaces m') = take cnt (subspaces m)"
proof -
  have cl: "std_clamp 1 cnt max_count = Some cnt"
    using assms(2,3) by (simp add: std_clamp_def)
  have ready: "manager_ready m" using assms(1) by (simp add: manager_inv_def)
  show thesis
  proof (cases "cnt = length (subspaces m)")
    case True
    then have "subspace_manager_set_count uuid i18n cnt m = Some m"
      using cl by (simp add: subspace_manager_set_count_def)
    then show thesis by (rule that) (use True assms in simp_all)
  next
    case False
    obtain m1 where m1: "subspace_manager_shrink_subspaces cnt m = Some m1" "manager_ready m1"
      "subspaces m1 = take cnt (subspaces m)"
      by (rule shrink_result [OF ready assms(2)]) (rule that; assumption)
    have le: "length (subspaces m1) \<le> cnt" by (simp add: m1(3))
    obtain m2 where m2: "ofold (append_default uuid i18n) [length (subspaces m1)..<cnt] m1 = Some m2"
      "manager_ready m2" "length (subspaces m2) = cnt"
      "take (length (subspaces m1)) (subspaces m2) = subspaces m1"
      using append_defaults_keeps [OF m1(2) le assms(3)] by blast
    define m3 where "m3 = m2\<lparr>manager_backend := backend_update_size (manager_backend m2) (length (subspaces m2))\<rparr>"
    have m3: "manager_ready m3" "same_subs m3 m2" using m2(2) by (simp_all add: m3_def)
    obtain m4 where m4: "subspace_manager_update_layout m3 = Some m4" "manager_inv m4" "same_subs m4 m3"
      by (rule update_layout_keeps [OF m3(1)])
    have r4: "manager_ready m4" using m4(2) by (simp add: manager_inv_def)
    obtain m5 where m5: "subspace_manager_save i18n m4 = Some m5" "manager_ready m5" "same_subs m5 m4"
      "layout_ok m5 = layout_ok m4"
      by (rule save_keeps [OF r4]) (rule that; assumption)
    let ?m' = "emit (Count_Changed (length (subspaces m)) (length (subspaces m5)))
       (fold emit_created [length (subspaces m)..<length (subspaces m5)] m5)"
    have e: "subspace_manager_set_count uuid i18n cnt m = Some ?m'"
      using cl False m1(1) m2(1) m4(1) m5(1)
      by (simp add: subspace_manager_set_count_def Let_def m3_def)
    have "manager_inv m5" using m4(2) m5(2,4) by (simp add: manager_inv_def)
    then have inv: "manager_inv ?m'" by (simp add: fold_created)
    have "subspaces m5 = subspaces m2"
      using m5(3) m4(3) m3(2) by (simp add: same_subs_def)
    then show thesis
      by (intro that [OF e inv]) (use m2(3,4) m1(3) in \<open>simp_all add: min.commute\<close>)
  qed
qed

section \<open>Loading\<close>

text \<open>One more subspace from the configuration.\<close>

lemma load_new_keeps:
  assumes "manager_ok m"
  obtains m' where "load_new uuid i18n cfg (length (subspaces m)) m = Some m'" "manager_ok m'"
    "subspaces m' = subspaces m @ [next_pointer m]" "current m' = current m" "rows m' = rows m"
    "config m' = config m"
    "backend_layout_small (manager_backend m') = backend_layout_small (manager_backend m)"
    "map (sub_id m') (subspaces m') = map (sub_id m) (subspaces m) @
       [if load_get_id cfg (length (subspaces m)) = [] then uuid (next_pointer m)
        else load_get_id cfg (length (subspaces m))]"
    "map (sub_name m') (subspaces m') = map (sub_name m) (subspaces m) @
       [cfg_read (cfg_name cfg) (length (subspaces m) + 1) (i18n (length (subspaces m) + 1))]"
proof -
  let ?k = "length (subspaces m)" let ?p = "next_pointer m"
  let ?nm = "cfg_read (cfg_name cfg) (?k + 1) (i18n (?k + 1))"
  obtain m1 where r: "subspace_manager_add_subspace uuid ?k (load_get_id cfg ?k) [] m = Some (m1, ?p)"
    "manager_ok m1" "subspaces m1 = subspaces m @ [?p]" "current m1 = current m" "rows m1 = rows m"
    "config m1 = config m"
    "sub_id m1 = (sub_id m)(?p := if load_get_id cfg ?k = [] then uuid ?p else load_get_id cfg ?k)"
    "sub_name m1 = (sub_name m)(?p := [])"
    "sub_x11id m1 = (sub_x11id m)(?p := Suc ?k)"
    "backend_layout_small (manager_backend m1) = backend_layout_small (manager_backend m)"
    by (rule add_last_keeps [OF assms]) (rule that; assumption)
  let ?m2 = "subspace_manager_update_subspace_meta ?p ?nm (?k + 1) m1"
  have at: "vector_at (subspaces m1) ?k = Some ?p" by (simp add: r(3) vector_at_def)
  have e: "load_new uuid i18n cfg ?k m = Some ?m2"
    using r(1) at by (simp add: load_new_def load_set_name_def Let_def)
  have p: "?p \<notin> set (subspaces m)" using assms by (auto simp: manager_ok_def)
  have x: "sub_x11id ?m2 = sub_x11id m1" using r(9) by (auto simp: fun_eq_iff)
  have ok: "manager_ok ?m2" using r(2) unfolding manager_ok_def numbered_def x by simp
  show thesis
    by (rule that [OF e ok]) (use p in \<open>auto simp: r\<close>)
qed

lemma load_all_new:
  assumes "manager_ok m" "subspaces m = []"
  shows "\<exists>m'. ofold (load_new uuid i18n cfg) [0..<n] m = Some m' \<and> manager_ok m'
    \<and> length (subspaces m') = n \<and> current m' = current m \<and> rows m' = rows m \<and> config m' = config m
    \<and> backend_layout_small (manager_backend m') = backend_layout_small (manager_backend m)
    \<and> (\<forall>i<n. load_get_id cfg i \<noteq> [] \<longrightarrow> sub_id m' (subspaces m' ! i) = load_get_id cfg i)
    \<and> (\<forall>i<n. sub_name m' (subspaces m' ! i) = cfg_read (cfg_name cfg) (i + 1) (i18n (i + 1)))"
proof (induction n)
  case 0
  then show ?case using assms by simp
next
  case (Suc n)
  then obtain m1 where IH: "ofold (load_new uuid i18n cfg) [0..<n] m = Some m1" "manager_ok m1"
    "length (subspaces m1) = n" "current m1 = current m" "rows m1 = rows m" "config m1 = config m"
    "backend_layout_small (manager_backend m1) = backend_layout_small (manager_backend m)"
    "\<forall>i<n. load_get_id cfg i \<noteq> [] \<longrightarrow> sub_id m1 (subspaces m1 ! i) = load_get_id cfg i"
    "\<forall>i<n. sub_name m1 (subspaces m1 ! i) = cfg_read (cfg_name cfg) (i + 1) (i18n (i + 1))"
    by blast
  obtain m2 where m2: "load_new uuid i18n cfg (length (subspaces m1)) m1 = Some m2" "manager_ok m2"
    "subspaces m2 = subspaces m1 @ [next_pointer m1]" "current m2 = current m1" "rows m2 = rows m1"
    "config m2 = config m1"
    "backend_layout_small (manager_backend m2) = backend_layout_small (manager_backend m1)"
    "map (sub_id m2) (subspaces m2) = map (sub_id m1) (subspaces m1) @
       [if load_get_id cfg (length (subspaces m1)) = [] then uuid (next_pointer m1)
        else load_get_id cfg (length (subspaces m1))]"
    "map (sub_name m2) (subspaces m2) = map (sub_name m1) (subspaces m1) @
       [cfg_read (cfg_name cfg) (length (subspaces m1) + 1) (i18n (length (subspaces m1) + 1))]"
    by (rule load_new_keeps [OF IH(2)]) (rule that; assumption)
  have len: "length (subspaces m2) = Suc n" using m2(3) IH(3) by simp
  have ids: "sub_id m2 (subspaces m2 ! i) = (map (sub_id m1) (subspaces m1) @
       [if load_get_id cfg n = [] then uuid (next_pointer m1) else load_get_id cfg n]) ! i"
    if "i < Suc n" for i
    using that m2(8) len IH(3) by (metis nth_map)
  have nms: "sub_name m2 (subspaces m2 ! i) = (map (sub_name m1) (subspaces m1) @
       [cfg_read (cfg_name cfg) (n + 1) (i18n (n + 1))]) ! i"
    if "i < Suc n" for i
    using that m2(9) len IH(3) by (metis nth_map)
  have "ofold (load_new uuid i18n cfg) [0..<Suc n] m = Some m2"
    using IH(1,3) m2(1) by simp
  then show ?case
    using m2(2,4-7) IH len ids nms by (auto simp: nth_append less_Suc_eq)
qed

text \<open>Loading into a manager that has no subspaces yet.\<close>

lemma load_fresh:
  assumes "manager_ok f" "subspaces f = []" "config f = Some cfg" "0 < rows f"
    "backend_layout_small (manager_backend f)"
    "cfg_number cfg = Some (int n)" "0 < n" "n \<le> 2 ^ 15"
    "cfg_rows cfg = Some (int r)" "0 < r" "r \<le> n"
  obtains m' where "subspace_manager_load uuid i18n f = Some m'" "manager_ok m'" "layout_ok m'"
    "length (subspaces m') = n" "rows m' = r"
    "\<And>i. i < n \<Longrightarrow> load_get_id cfg i \<noteq> [] \<Longrightarrow> sub_id m' (subspaces m' ! i) = load_get_id cfg i"
    "\<And>i. i < n \<Longrightarrow> sub_name m' (subspaces m' ! i) = cfg_read (cfg_name cfg) (i + 1) (i18n (i + 1))"
proof -
  obtain m1 where m1: "ofold (load_new uuid i18n cfg) [0..<n] f = Some m1" "manager_ok m1"
    "length (subspaces m1) = n" "rows m1 = rows f"
    "backend_layout_small (manager_backend m1) = backend_layout_small (manager_backend f)"
    "\<forall>i<n. load_get_id cfg i \<noteq> [] \<longrightarrow> sub_id m1 (subspaces m1 ! i) = load_get_id cfg i"
    "\<forall>i<n. sub_name m1 (subspaces m1 ! i) = cfg_read (cfg_name cfg) (i + 1) (i18n (i + 1))"
    using load_all_new [OF assms(1,2), of uuid i18n cfg n] by blast
  define m2 where "m2 = m1\<lparr>manager_backend := backend_update_size (manager_backend m1) n\<rparr>"
  have "distinct (subspaces m2)" "subspaces m2 \<noteq> []" "length (subspaces m2) \<le> 2 ^ 15" "0 < rows m2"
    "backend_layout_small (manager_backend m2)"
    using m1 assms by (auto simp: m2_def manager_ok_def backend_meta_layout)
  then obtain g c k where u: "subspace_manager_update_layout m2 = Some (emit (Rows_Changed k)
       (emit (Layout_Changed c k) (m2\<lparr>rows := k, manager_grid := g\<rparr>)))"
    "0 < k" "grid_shape g" "set (subspaces m2) \<subseteq> set (grid_subs g)"
    by (rule update_layout_result)
  define m3 where "m3 = emit (Rows_Changed k) (emit (Layout_Changed c k)
      (m2\<lparr>rows := k, manager_grid := g\<rparr>))"
  define m4 where "m4 = emit (Count_Changed 0 n) (fold emit_created [0..<n] m3)"
  have cl: "std_clamp 1 (int r) (int n) = Some (int r)"
    using assms by (auto simp: std_clamp_def)
  have ur: "uint_of_int (int r) = r" using assms by (simp add: uint_of_int_def)
  have s3: "subspaces m3 = subspaces m1" by (simp add: m3_def m2_def)
  have e: "subspace_manager_load uuid i18n f = Some (m4\<lparr>rows := r\<rparr>)"
    using assms(2,3,6,9) m1(1,3) u(1) cl ur s3
    by (simp add: subspace_manager_load_def subspace_manager_shrink_subspaces_def Let_def
        m2_def [symmetric] m3_def [symmetric] m4_def)
  have ss: "same_subs m4 m1" "sub_name m4 = sub_name m1"
    by (simp_all add: m4_def m3_def m2_def fold_created fun_eq_iff)
      (simp_all add: same_subs_def sub_x11id_def sub_id_def sub_name_def fun_eq_iff)
  have g4: "manager_grid m4 = g"
  proof -
    have "manager_grid (fold emit_created xs m) = manager_grid m" for xs m
      by (induction xs arbitrary: m) (simp_all add: emit_created_def)
    then show ?thesis by (simp add: m4_def m3_def)
  qed
  let ?m' = "m4\<lparr>rows := r\<rparr>"
  have ss': "same_subs ?m' m1" "sub_name ?m' = sub_name m1"
    using ss by (simp_all add: same_subs_def sub_x11id_def sub_id_def sub_name_def fun_eq_iff)
  have ok: "manager_ok ?m'" using same_subs_ok [OF ss'(1)] m1(2) by simp
  have lay: "layout_ok ?m'"
    using u(3,4) assms(10) ss'(1) by (simp add: layout_ok_def g4 same_subs_def m2_def)
  show thesis
    by (rule that [OF e ok lay]) (use m1 ss' in \<open>simp_all add: same_subs_def\<close>)
qed

end
