(* ===== verification/Subspace_Theorems.thy ===== *)
theory Subspace_Theorems
  imports Subspace_Operations
begin

text \<open>
  The properties of the subspaces and their manager, with an example of three subspaces in one
  row on which each of them is applied.
\<close>

definition three_desktops :: manager where
  "three_desktops =
     \<lparr>sub_heap = (\<lambda>p. \<lparr>m_id = replicate p (CHR ''i''), m_name = replicate p (CHR ''n''),
                      m_x11DesktopNumber = p\<rparr>),
      next_pointer = 4, subspaces = [1, 2, 3], rows = 1,
      manager_grid = grid_update (3, 1) Horizontal [1, 2, 3], current = Some 2, nav_wraps = True,
      name_connected = {}, manager_backend = No_Backend,
      config = Some \<lparr>cfg_number = None, cfg_rows = None, cfg_id = (\<lambda>k. None), cfg_name = (\<lambda>k. None)\<rparr>,
      signals = []\<rparr>"

lemma three_desktops_grid:
  "manager_grid three_desktops = \<lparr>m_size = (3, 1), m_grid = [[1, 2, 3]]\<rparr>"
  by (simp add: three_desktops_def grid_update_def uint_of_int_def fill_rows_eq Let_def)

lemma three_desktops_fields:
  "subspaces three_desktops = [1, 2, 3]" "rows three_desktops = 1" "current three_desktops = Some 2"
  "config three_desktops = Some \<lparr>cfg_number = None, cfg_rows = None, cfg_id = (\<lambda>k. None),
     cfg_name = (\<lambda>k. None)\<rparr>"
  "sub_x11id three_desktops p = p" "sub_id three_desktops p = replicate p (CHR ''i'')"
  "sub_name three_desktops p = replicate p (CHR ''n'')" "manager_backend three_desktops = No_Backend"
  "next_pointer three_desktops = 4" "nav_wraps three_desktops" "signals three_desktops = []"
  by (simp_all add: three_desktops_def sub_x11id_def sub_id_def sub_name_def)

lemma three_desktops_grid_shape:
  "grid_shape (manager_grid three_desktops)"
  "set (grid_subs (manager_grid three_desktops)) = {1, 2, 3}"
  by (simp_all add: three_desktops_grid grid_shape_def grid_subs_def grid_height_def grid_width_def)

lemma three_desktops_inv: "manager_inv three_desktops"
  by (simp add: manager_inv_def manager_ready_def manager_ok_def numbered_def layout_ok_def
      three_desktops_fields three_desktops_grid_shape backend_layout_small_def max_count_def
      less_Suc_eq nth_Cons' eval_nat_numeral)

section \<open>The list of subspaces\<close>

text \<open>C12. set_count to a number between 1 and max_count returns, leaves exactly that many
  subspaces, keeps those at the front, and keeps the invariant: distinct objects numbered by
  their position, a current one among them, a grid that covers all of them.\<close>

theorem set_count_correct:
  assumes "manager_inv m" "1 \<le> cnt" "cnt \<le> max_count"
  shows "\<exists>m'. subspace_manager_set_count uuid i18n cnt m = Some m' \<and> manager_inv m'
    \<and> length (subspaces m') = cnt
    \<and> take (min cnt (length (subspaces m))) (subspaces m') = take cnt (subspaces m)"
proof -
  have "0 < cnt" using assms(2) by simp
  then show ?thesis by (rule set_count_result [OF assms(1) _ assms(3)]) blast
qed

theorem set_count_correct_witness:
  "\<exists>m'. subspace_manager_set_count (\<lambda>p. ''u'') (\<lambda>k. ''Desktop'') 5 three_desktops = Some m'
     \<and> manager_inv m' \<and> length (subspaces m') = 5 \<and> take (length [1, 2, 3 :: nat]) (subspaces m') = [1, 2, 3]"
  using set_count_correct [OF three_desktops_inv, of 5 "\<lambda>p. ''u''" "\<lambda>k. ''Desktop''"]
  by (simp add: max_count_def three_desktops_fields)

text \<open>C13. remove_subspace takes exactly the given subspace out of the list, renumbers those behind
  it and keeps the invariant, so the list never becomes empty.\<close>

theorem remove_subspace_exact:
  assumes "manager_inv m" "sub \<in> set (subspaces m)" "length (subspaces m) \<noteq> 1"
  shows "\<exists>m'. subspace_manager_remove_subspace i18n sub m = Some m' \<and> manager_inv m'
    \<and> subspaces m' = remove_all (subspaces m) sub"
proof -
  have ready: "manager_ready m" using assms(1) by (simp add: manager_inv_def)
  then obtain c where "current m = Some c" by (auto simp: manager_ready_def)
  then show ?thesis by (rule remove_result [OF ready assms(2,3)]) blast
qed

theorem remove_subspace_exact_witness:
  "\<exists>m'. subspace_manager_remove_subspace (\<lambda>k. ''Desktop'') 2 three_desktops = Some m'
     \<and> manager_inv m' \<and> subspaces m' = [1, 3]"
  using remove_subspace_exact [OF three_desktops_inv, of 2 "\<lambda>k. ''Desktop''"]
  by (simp add: three_desktops_fields)

subsection \<open>The signals about the current subspace\<close>

definition current_signals :: "manager \<Rightarrow> manager_signal list" where
  "current_signals m = filter (\<lambda>s. case s of Current_Changed a b \<Rightarrow> True | _ \<Rightarrow> False) (signals m)"

lemma emit_current_signals:
  "current_signals (emit s m) = current_signals m @
     (case s of Current_Changed a b \<Rightarrow> [s] | _ \<Rightarrow> [])"
  by (cases s) (simp_all add: current_signals_def emit_def)

lemma signals_current_signals: "signals m' = signals m \<Longrightarrow> current_signals m' = current_signals m"
  by (simp add: current_signals_def)

lemma update_meta_current_signals [simp]:
  "current_signals (subspace_manager_update_subspace_meta p nm k m) = current_signals m"
  by (simp add: subspace_manager_update_subspace_meta_def Let_def subspace_set_name_def setName_def
      setX11DesktopNumber_def name_changed_slot_def backend_meta_def current_signals_def emit_def)

lemma fold_current_signals:
  "(\<And>x m. current_signals (g x m) = current_signals m) \<Longrightarrow>
     current_signals (fold g xs m) = current_signals m"
  by (induction xs arbitrary: m) simp_all

lemma save_entry_current_signals:
  "current_signals (fst (fold (save_entry i18n) xs (m, cfg))) = current_signals m"
proof (induction xs arbitrary: m cfg)
  case (Cons x xs)
  obtain m1 cfg1 where e: "save_entry i18n x (m, cfg) = (m1, cfg1)" by fastforce
  then have "current_signals m1 = current_signals m"
    by (auto simp: save_entry_def Let_def split: if_splits)
  with Cons e show ?case by simp
qed simp

lemma save_current_signals:
  assumes "subspace_manager_save i18n m = Some m'"
  shows "current_signals m' = current_signals m"
proof (cases "config m")
  case (Some cfg)
  with assms obtain cfg1 where "delete_stale (length (subspaces m) + 1) cfg = Some cfg1"
    by (auto simp: subspace_manager_save_def bind_eq_Some_conv)
  moreover obtain m1 cfg2 where f: "fold (save_entry i18n) [1..<length (subspaces m) + 1]
      (m, cfg1\<lparr>cfg_number := Some (int (length (subspaces m)))\<rparr>) = (m1, cfg2)" by fastforce
  ultimately have "signals m' = signals m1"
    using assms Some by (auto simp: subspace_manager_save_def simp del: upt_Suc)
  then show ?thesis using save_entry_current_signals [of i18n "[1..<length (subspaces m) + 1]" m] f
    by (metis fst_conv signals_current_signals)
qed (use assms in \<open>simp add: subspace_manager_save_def\<close>)

lemma update_layout_current_signals:
  "subspace_manager_update_layout m = Some m' \<Longrightarrow> current_signals m' = current_signals m"
  by (auto simp: subspace_manager_update_layout_def Let_def bind_eq_Some_conv emit_current_signals)
    (simp add: current_signals_def)

lemma remove_current_signals:
  assumes "subspace_manager_remove_subspace i18n sub m = Some m'" "length (subspaces m) \<noteq> 1"
    "current m = Some c" "sub_x11id m c < length (subspaces m)" "sub_x11id m sub \<le> length (subspaces m)"
  shows "current_signals m' = current_signals m"
proof -
  have "sub_x11id m sub \<noteq> 0"
  proof
    assume "sub_x11id m sub = 0"
    then have "subspace_manager_remove_subspace i18n sub m = None"
      using assms(2,3) by (simp add: subspace_manager_remove_subspace_def)
    with assms(1) show False by simp
  qed
  then obtain i where i: "sub_x11id m sub = Suc i" by (cases "sub_x11id m sub") auto
  define m1 where "m1 = renumber_from i (m\<lparr>subspaces := take i (subspaces m) @ drop (Suc i) (subspaces m)\<rparr>)"
  have s1: "current_signals m1 = current_signals m"
    unfolding m1_def renumber_from_def
    by (subst fold_current_signals) (simp, simp add: current_signals_def)
  have "skeleton (fold (\<lambda>j m. subspace_manager_update_subspace_meta (subspaces m ! j)
          (sub_name m (subspaces m ! j)) (j + 1) m) xs x) = skeleton x" for xs x
    by (induction xs arbitrary: x) simp_all
  then have "skeleton m1 = skeleton (m\<lparr>subspaces := take i (subspaces m) @ drop (Suc i) (subspaces m)\<rparr>)"
    by (simp add: m1_def renumber_from_def)
  then have "length (subspaces m1) = length (subspaces m) - 1"
    using i assms(5) by (auto simp: skeleton_def)
  then have mn: "min (sub_x11id m c) (length (subspaces m1)) = sub_x11id m c" using assms(4) by simp
  have signals: "current_signals (m1\<lparr>current := x, manager_backend := b\<rparr>) = current_signals m1" for x b
    by (simp add: current_signals_def)
  from assms(1,2,3) i obtain x m2 m3 where "subspace_manager_update_layout (m1\<lparr>current := Some x,
      manager_backend := backend_update_size (manager_backend m1) (length (subspaces m1))\<rparr>) = Some m2"
    "subspace_manager_save i18n m2 = Some m3"
    "m' = emit (Count_Changed (length (subspaces m3) + 1) (length (subspaces m3)))
       (emit (Subspace_Removed sub) m3)"
    by (auto simp: subspace_manager_remove_subspace_def Let_def m1_def [symmetric] mn
        bind_eq_Some_conv split: if_splits)
  then show ?thesis
    by (auto simp: emit_current_signals s1 signals
        dest!: save_current_signals update_layout_current_signals)
qed

text \<open>Removing a subspace in front of the current one, when one follows the current one, makes
  that follower current, and no current_changed is emitted about the switch.\<close>

theorem remove_before_current_switches_silently:
  assumes "manager_inv m" "i < k" "Suc k < length (subspaces m)" "current m = Some (subspaces m ! k)"
  shows "\<exists>m'. subspace_manager_remove_subspace i18n (subspaces m ! i) m = Some m'
    \<and> current m' = Some (subspaces m ! Suc k) \<and> subspaces m ! Suc k \<noteq> subspaces m ! k
    \<and> current_signals m' = current_signals m"
proof -
  have ready: "manager_ready m" and d: "distinct (subspaces m)" and num: "numbered m"
    using assms(1) by (simp_all add: manager_inv_def manager_ready_def manager_ok_def)
  have ids: "sub_x11id m (subspaces m ! k) = k + 1" "sub_x11id m (subspaces m ! i) = i + 1"
    using num assms(2,3) by (simp_all add: numbered_def)
  have mem: "subspaces m ! i \<in> set (subspaces m)" "length (subspaces m) \<noteq> 1" using assms(2,3) by auto
  have split: "subspaces m = take i (subspaces m) @ subspaces m ! i # drop (Suc i) (subspaces m)"
    using assms(2,3) by (intro id_take_nth_drop) simp
  have "subspaces m ! i \<notin> set (take i (subspaces m)) \<union> set (drop (Suc i) (subspaces m))"
    using d split by (metis Un_iff distinct.simps(2) distinct_append disjoint_iff list.set_intros(1))
  then have "remove_all (subspaces m) (subspaces m ! i)
      = take i (subspaces m) @ drop (Suc i) (subspaces m)"
    by (subst split) simp
  then have "remove_all (subspaces m) (subspaces m ! i) ! k = subspaces m ! Suc k"
    using assms(2,3) by (simp add: nth_append)
  moreover obtain m' where m': "subspace_manager_remove_subspace i18n (subspaces m ! i) m = Some m'"
    "current m' = Some (remove_all (subspaces m) (subspaces m ! i)
        ! (min (sub_x11id m (subspaces m ! k)) (length (subspaces m) - 1) - 1))"
    by (rule remove_result [OF ready mem assms(4)]) (rule that; assumption)
  moreover have "current_signals m' = current_signals m"
    using remove_current_signals [OF m'(1) mem(2) assms(4)] ids assms(2,3) by simp
  ultimately show ?thesis using ids assms(2,3) d by (auto simp: nth_eq_iff_index_eq)
qed

theorem remove_before_current_switches_silently_witness:
  "\<exists>m'. subspace_manager_remove_subspace (\<lambda>k. ''Desktop'') 1 three_desktops = Some m'
     \<and> current m' = Some 3 \<and> current_signals m' = []"
  using remove_before_current_switches_silently [OF three_desktops_inv, of 0 1 "\<lambda>k. ''Desktop''"]
  by (simp add: three_desktops_fields) (simp add: current_signals_def three_desktops_def)

text \<open>create_subspace at the end appends one subspace with a fresh number and keeps the
  invariant; when the maximum is reached it does nothing and returns null.\<close>

theorem create_subspace_at_end:
  assumes "manager_inv m"
  shows "\<exists>m' r. subspace_manager_create_subspace uuid i18n (length (subspaces m)) name m = Some (m', r)
    \<and> manager_inv m'
    \<and> (if length (subspaces m) = max_count then r = None \<and> m' = m
       else r = Some (next_pointer m) \<and> subspaces m' = subspaces m @ [next_pointer m])"
proof (cases "length (subspaces m) = max_count")
  case True
  then show ?thesis using assms by (simp add: subspace_manager_create_subspace_def)
next
  case False
  have ready: "manager_ready m" and ok: "manager_ok m"
    using assms by (simp_all add: manager_inv_def manager_ready_def)
  let ?n = "length (subspaces m)" let ?p = "next_pointer m"
  let ?nm = "if name = [] then i18n (?n + 1) else name"
  obtain m1 where m1: "subspace_manager_add_subspace uuid ?n [] ?nm m = Some (m1, ?p)"
    "manager_ok m1" "subspaces m1 = subspaces m @ [?p]" "current m1 = current m" "rows m1 = rows m"
    "config m1 = config m"
    "backend_layout_small (manager_backend m1) = backend_layout_small (manager_backend m)"
    by (rule add_last_keeps [OF ok]) (rule that; assumption)
  have r1: "manager_ready m1"
    using ready False m1(2) unfolding manager_ready_def m1(3-7) by simp
  obtain m2 where m2: "subspace_manager_save i18n m1 = Some m2" "manager_ready m2" "same_subs m2 m1"
    by (rule save_keeps [OF r1]) (rule that; assumption)
  let ?m3 = "m2\<lparr>manager_backend := backend_update_size (manager_backend m2) (length (subspaces m2))\<rparr>"
  have m3: "manager_ready ?m3" "same_subs ?m3 m2" using m2(2) by simp_all
  obtain m4 where m4: "subspace_manager_update_layout ?m3 = Some m4" "manager_inv m4" "same_subs m4 ?m3"
    by (rule update_layout_keeps [OF m3(1)])
  have s: "subspaces m4 = subspaces m @ [?p]"
    using m4(3) m3(2) m2(3) m1(3) by (simp add: same_subs_def)
  have cl: "std_clamp 0 ?n ?n = Some ?n" by (simp add: std_clamp_def)
  have "subspace_manager_create_subspace uuid i18n ?n name m
      = Some (emit (Count_Changed ?n (Suc ?n)) (emit (Subspace_Created ?p) m4), Some ?p)"
    using False m1(1) m2(1) m4(1) s
    by (cases "name = []") (simp_all add: subspace_manager_create_subspace_def cl)
  then show ?thesis using False m4(2) s by simp
qed

theorem create_subspace_at_end_witness:
  "\<exists>m' r. subspace_manager_create_subspace (\<lambda>p. ''u'') (\<lambda>k. ''Desktop'') (length [1, 2, 3 :: nat]) []
       three_desktops
     = Some (m', r) \<and> manager_inv m' \<and> r = Some 4 \<and> subspaces m' = [1, 2, 3, 4]"
  using create_subspace_at_end [OF three_desktops_inv, of "\<lambda>p. ''u''" "\<lambda>k. ''Desktop''" "[]"]
  by (simp add: three_desktops_fields max_count_def)

text \<open>add_subspace in front of other subspaces misnumbers: the new subspace gets the number of
  the last place and the displaced ones keep their old numbers, so that no number agrees with the
  position from the insertion on.\<close>

theorem add_subspace_in_the_middle_misnumbers:
  assumes "manager_ok m" "position < length (subspaces m)"
  shows "\<exists>m' p. subspace_manager_add_subspace uuid position ident name m = Some (m', p)
    \<and> subspaces m' ! position = p
    \<and> (\<forall>i\<le>length (subspaces m). i < position \<longleftrightarrow> sub_x11id m' (subspaces m' ! i) = i + 1)"
proof -
  let ?p = "next_pointer m" let ?n = "length (subspaces m)"
  obtain m' where m': "subspace_manager_add_subspace uuid position ident name m = Some (m', ?p)"
    "subspaces m' = insert_at position ?p (subspaces m)"
    "sub_x11id m' = (sub_x11id m)(?p := Suc ?n)"
    by (rule add_subspace_result [OF less_imp_le [OF assms(2)]]) (rule that; assumption)
  have at: "subspaces m' ! i = (if i < position then subspaces m ! i else if i = position then ?p
      else subspaces m ! (i - 1))" if "i \<le> ?n" for i
    using that assms(2) by (auto simp: m'(2) insert_at_def nth_append nth_Cons')
  have old: "sub_x11id m' (subspaces m ! i) = i + 1" if "i < ?n" for i
  proof -
    have "subspaces m ! i \<noteq> ?p" using assms(1) that unfolding manager_ok_def
      by (metis less_irrefl nth_mem)
    then show ?thesis using assms(1) that by (simp add: m'(3) manager_ok_def numbered_def)
  qed
  have "i < position \<longleftrightarrow> sub_x11id m' (subspaces m' ! i) = i + 1" if "i \<le> ?n" for i
  proof -
    consider "i < position" | "i = position" | "position < i" by linarith
    then show ?thesis
    proof cases
      case 1
      then have "i < ?n" using assms(2) by simp
      with 1 show ?thesis using at [OF that] old by simp
    next
      case 2
      then show ?thesis using at [OF that] assms(2) by (simp add: m'(3))
    next
      case 3
      then have "i - 1 < ?n" using that by simp
      from old [OF this] 3 show ?thesis using at [OF that] by simp
    qed
  qed
  then show ?thesis using m'(1) at [of position] assms(2) by auto
qed

theorem add_subspace_in_the_middle_misnumbers_witness:
  "\<exists>m' p. subspace_manager_add_subspace (\<lambda>p. ''u'') 1 [] ''x'' three_desktops = Some (m', p)
    \<and> subspaces m' ! 1 = p
    \<and> (\<forall>i\<le>length [1, 2, 3 :: nat]. i < 1 \<longleftrightarrow> sub_x11id m' (subspaces m' ! i) = i + 1)"
  using add_subspace_in_the_middle_misnumbers
    [of three_desktops 1 "\<lambda>p. ''u''" "[]" "''x''"] three_desktops_inv
  by (simp add: three_desktops_fields manager_inv_def manager_ready_def)

section \<open>The layout and the directions\<close>

text \<open>C14. update_layout returns whatever the backend's layout is within its bounds, and every
  subspace is found on the grid: its coordinates are not negative and the grid holds it there.\<close>

theorem update_layout_covers:
  assumes "manager_ready m"
  shows "\<exists>m'. subspace_manager_update_layout m = Some m' \<and> manager_inv m'
    \<and> subspaces m' = subspaces m
    \<and> (\<forall>s\<in>set (subspaces m). fst (gridCoords (manager_grid m') s) \<ge> 0
          \<and> grid_at (manager_grid m') (gridCoords (manager_grid m') s) = Some (Some s))"
proof -
  obtain m' where m': "subspace_manager_update_layout m = Some m'" "manager_inv m'" "same_subs m' m"
    by (rule update_layout_keeps [OF assms])
  have "fst (gridCoords (manager_grid m') s) \<ge> 0
      \<and> grid_at (manager_grid m') (gridCoords (manager_grid m') s) = Some (Some s)"
    if "s \<in> set (subspaces m)" for s
  proof -
    have "s \<in> set (grid_subs (manager_grid m'))"
      using that m'(2,3) by (auto simp: manager_inv_def layout_ok_def same_subs_def)
    then obtain x y where "gridCoords (manager_grid m') s = (int x, int y)"
      "cell (manager_grid m') x y = Some s" by (rule gridCoords_cell)
    then show ?thesis by (simp add: grid_at_nat)
  qed
  with m' show ?thesis by (auto simp: same_subs_def)
qed

theorem update_layout_covers_witness:
  "\<exists>m'. subspace_manager_update_layout three_desktops = Some m' \<and> manager_inv m'
     \<and> grid_at (manager_grid m') (gridCoords (manager_grid m') 2) = Some (Some 2)"
  using update_layout_covers [of three_desktops] three_desktops_inv
  by (auto simp: manager_inv_def [of three_desktops] three_desktops_fields)

text \<open>With wrap-around, going north and then south leads back, and so do south and north, east
  and west, west and east; none of the loops runs more rounds than the grid is high or wide.\<close>

theorem directions_are_inverse:
  assumes "manager_inv m" "s \<in> set (subspaces m)"
    "nat (grid_height (manager_grid m)) \<le> n" "nat (grid_width (manager_grid m)) \<le> n"
  shows "\<exists>no so ea we. subspaces_get_north_of n m s True = Some no
    \<and> subspaces_get_south_of n m no True = Some s
    \<and> subspaces_get_south_of n m s True = Some so \<and> subspaces_get_north_of n m so True = Some s
    \<and> subspaces_get_east_of n m s True = Some ea \<and> subspaces_get_west_of n m ea True = Some s
    \<and> subspaces_get_west_of n m s True = Some we \<and> subspaces_get_east_of n m we True = Some s"
proof -
  have g: "grid_shape (manager_grid m)" "s \<in> set (grid_subs (manager_grid m))"
    using assms(1,2) by (auto simp: manager_inv_def layout_ok_def)
  show ?thesis
    using column_there_and_back [OF g assms(3)] row_there_and_back [OF g assms(4)] by blast
qed

theorem directions_are_inverse_witness:
  "\<exists>no so ea we. subspaces_get_north_of 3 three_desktops 3 True = Some no
    \<and> subspaces_get_south_of 3 three_desktops no True = Some 3
    \<and> subspaces_get_south_of 3 three_desktops 3 True = Some so
    \<and> subspaces_get_north_of 3 three_desktops so True = Some 3
    \<and> subspaces_get_east_of 3 three_desktops 3 True = Some ea
    \<and> subspaces_get_west_of 3 three_desktops ea True = Some 3
    \<and> subspaces_get_west_of 3 three_desktops 3 True = Some we
    \<and> subspaces_get_east_of 3 three_desktops we True = Some 3"
  by (rule directions_are_inverse [OF three_desktops_inv])
     (simp_all add: three_desktops_fields three_desktops_grid grid_height_def grid_width_def)

section \<open>The end of a swipe\<close>

lemma gesture_finish_result:
  assumes "current m = Some c"
  shows "current (fst (gesture_finish (Some t) m)) = Some t" "snd (gesture_finish target m) = (0, 0)"
    "signals (fst (gesture_finish (Some t) m)) = signals m @
       [if t = c then Current_Changing_Cancelled else Current_Changed (Some c) (Some t)]"
  using assms by (auto simp: gesture_finish_def subspaces_set_current_def Let_def)

lemma west_east_total:
  assumes "manager_inv m" "c \<in> set (subspaces m)" "nat (grid_width (manager_grid m)) < n"
  shows "\<exists>t. subspaces_get_west_of n m c w = Some t" "\<exists>t. subspaces_get_east_of n m c w = Some t"
proof -
  have g: "grid_shape (manager_grid m)" "c \<in> set (grid_subs (manager_grid m))"
    using assms(1,2) by (auto simp: manager_inv_def layout_ok_def)
  from g(2) obtain x y where xy: "gridCoords (manager_grid m) c = (int x, int y)"
    "cell (manager_grid m) x y = Some c" by (rule gridCoords_cell)
  have x: "nat (int x) < n" "nat (grid_width (manager_grid m) - int x) < n"
    using cell_bounds [OF g(1) xy(2)] assms(3) by linarith+
  show "\<exists>t. subspaces_get_west_of n m c w = Some t"
    using row_there_and_back(1) [OF g, of n] assms(3) west_loop_ends [of "int y" "int x" n] x(1) xy(1)
    by (cases w) (auto simp: subspaces_get_west_of_def Let_def)
  show "\<exists>t. subspaces_get_east_of n m c w = Some t"
    using row_there_and_back(2) [OF g, of n] assms(3) east_loop_ends [of "int y" "int x"] x(2) xy(1)
    by (cases w) (auto simp: subspaces_get_east_of_def Let_def)
qed

text \<open>When a horizontal swipe ends, exactly one signal is emitted: current_changed to the
  neighbour the offset asks for, if that is another subspace than the current one, otherwise
  current_changing_cancelled. The offset is always reset.\<close>

theorem horizontal_swipe_end:
  assumes "manager_inv m" "current m = Some c" "nat (grid_width (manager_grid m)) < n"
  shows "\<exists>m' t. released_x n offset m = Some (m', (0, 0)) \<and> current m' = Some t
    \<and> signals m' = signals m @
        [if t = c then Current_Changing_Cancelled else Current_Changed (Some c) (Some t)]
    \<and> (if fst offset \<le> - (1 / 4) then subspaces_get_west_of n m c (nav_wraps m) = Some t
       else if fst offset \<ge> 1 / 4 then subspaces_get_east_of n m c (nav_wraps m) = Some t
       else t = c)"
proof -
  have "c \<in> set (subspaces m)"
    using assms(1,2) by (simp add: manager_inv_def manager_ready_def manager_ok_def)
  then obtain w e where we: "subspaces_get_west_of n m c (nav_wraps m) = Some w"
    "subspaces_get_east_of n m c (nav_wraps m) = Some e"
    using west_east_total [OF assms(1) _ assms(3)] by blast
  have "\<exists>t. released_x n offset m = Some (gesture_finish (Some t) m)
    \<and> (if fst offset \<le> - (1 / 4) then t = w else if fst offset \<ge> 1 / 4 then t = e else t = c)"
    using assms(2) we
    by (auto simp: released_x_def gesture_switch_threshold_def subspaces_get_west_of_current_def
        subspaces_get_east_of_current_def)
  then obtain t where t: "released_x n offset m = Some (gesture_finish (Some t) m)"
    "if fst offset \<le> - (1 / 4) then t = w else if fst offset \<ge> 1 / 4 then t = e else t = c" by blast
  then show ?thesis
    using gesture_finish_result [OF assms(2)] we
    by - (rule exI [of _ "fst (gesture_finish (Some t) m)"], rule exI [of _ t],
        simp add: prod_eq_iff split: if_splits)
qed

theorem horizontal_swipe_end_witness:
  "\<exists>m' t. released_x 4 (1 / 2, 0) three_desktops = Some (m', (0, 0)) \<and> current m' = Some t
    \<and> signals m' = [if t = 2 then Current_Changing_Cancelled else Current_Changed (Some 2) (Some t)]
    \<and> subspaces_get_east_of 4 three_desktops 2 True = Some t"
proof -
  have "nat (grid_width (manager_grid three_desktops)) < 4"
    by (simp add: three_desktops_grid grid_width_def)
  from horizontal_swipe_end [OF three_desktops_inv three_desktops_fields(3) this, of "(1 / 2, 0)"]
  show ?thesis by (simp add: three_desktops_fields)
qed

section \<open>The configuration\<close>

text \<open>C15. What save writes, load reads back: loading the saved configuration into a manager without
  subspaces gives as many subspaces with the same ids, names and rows, numbered by their position
  and all of them on the grid. A name that was empty comes back as the default name it got by
  saving.\<close>

theorem save_load_roundtrip:
  assumes "manager_ready m" "config m = Some cfg" "\<forall>s\<in>set (subspaces m). sub_id m s \<noteq> []"
    and "rows m \<le> length (subspaces m)"
    and "manager_ok f" "subspaces f = []" "0 < rows f" "backend_layout_small (manager_backend f)"
  shows "\<exists>m' f'. subspace_manager_save i18n m = Some m'
    \<and> subspace_manager_load uuid i18n (f\<lparr>config := config m'\<rparr>) = Some f'
    \<and> map (sub_id f') (subspaces f') = map (sub_id m) (subspaces m)
    \<and> map (sub_name f') (subspaces f') = map (sub_name m') (subspaces m')
    \<and> rows f' = rows m \<and> manager_ok f' \<and> layout_ok f'"
proof -
  let ?n = "length (subspaces m)"
  have ok: "manager_ok m" "finite (dom (cfg_id cfg))" "0 < ?n" "?n \<le> 2 ^ 15" "0 < rows m"
    using assms(1,2) by (simp_all add: manager_ready_def max_count_def)
  obtain m1 cfg' where s: "subspace_manager_save i18n m = Some (m1\<lparr>config := Some cfg'\<rparr>)"
    "skeleton m1 = skeleton m" "sub_id m1 = sub_id m"
    "\<And>j. j < ?n \<Longrightarrow> sub_name m1 (subspaces m ! j) = filled_name i18n m j"
    "cfg_number cfg' = Some (int ?n)" "cfg_rows cfg' = Some (int (rows m))"
    "\<And>j. j < ?n \<Longrightarrow> cfg_id cfg' (j + 1) = Some (sub_id m (subspaces m ! j))"
    "\<And>j. j < ?n \<Longrightarrow> cfg_read (cfg_name cfg') (j + 1) (i18n (j + 1)) = filled_name i18n m j"
    by (rule save_result [OF ok(1) assms(2) ok(2), of i18n]) (rule that; assumption)
  let ?f = "f\<lparr>config := Some cfg'\<rparr>"
  have f: "manager_ok ?f" "subspaces ?f = []" "config ?f = Some cfg'" "0 < rows ?f"
    "backend_layout_small (manager_backend ?f)"
    using assms(5-8) by (simp_all add: manager_ok_def numbered_def)
  obtain f' where f': "subspace_manager_load uuid i18n ?f = Some f'" "manager_ok f'" "layout_ok f'"
    "length (subspaces f') = ?n" "rows f' = rows m"
    "\<And>i. i < ?n \<Longrightarrow> load_get_id cfg' i \<noteq> [] \<Longrightarrow> sub_id f' (subspaces f' ! i) = load_get_id cfg' i"
    "\<And>i. i < ?n \<Longrightarrow> sub_name f' (subspaces f' ! i) = cfg_read (cfg_name cfg') (i + 1) (i18n (i + 1))"
    by (rule load_fresh [OF f s(5) ok(3,4) s(6) ok(5) assms(4), of uuid i18n]) (rule that; assumption)
  have gid: "load_get_id cfg' i = sub_id m (subspaces m ! i)" if "i < ?n" for i
    using s(7) [OF that] by (simp add: load_get_id_def cfg_read_def)
  have sub: "subspaces m1 = subspaces m" using s(2) by (rule skeleton_fields)
  have ids: "map (sub_id f') (subspaces f') = map (sub_id m) (subspaces m)"
    using f'(4,6) gid assms(3) by (intro nth_equalityI) simp_all
  have nms: "map (sub_name f') (subspaces f')
      = map (sub_name (m1\<lparr>config := Some cfg'\<rparr>)) (subspaces (m1\<lparr>config := Some cfg'\<rparr>))"
    using f'(4,7) s(4,8) sub by (intro nth_equalityI) (simp_all add: sub_name_def)
  show ?thesis using s(1) f'(1,2,3,5) ids nms 
    by - (rule exI [of _ "m1\<lparr>config := Some cfg'\<rparr>"], rule exI [of _ f'], simp)
qed

theorem save_load_roundtrip_witness:
  "\<exists>m' f'. subspace_manager_save (\<lambda>k. ''Desktop'') three_desktops = Some m'
    \<and> subspace_manager_load (\<lambda>p. ''u'') (\<lambda>k. ''Desktop'')
        (three_desktops\<lparr>subspaces := [], current := None, config := config m'\<rparr>) = Some f'
    \<and> map (sub_id f') (subspaces f') = [''i'', ''ii'', ''iii'']
    \<and> map (sub_name f') (subspaces f') = map (sub_name m') (subspaces m')
    \<and> rows f' = 1 \<and> manager_ok f' \<and> layout_ok f'"
  using save_load_roundtrip [of three_desktops _ "three_desktops\<lparr>subspaces := [], current := None\<rparr>"
      "\<lambda>k. ''Desktop''" "\<lambda>p. ''u''"] three_desktops_inv
  by (simp add: three_desktops_fields manager_inv_def manager_ok_def [of "_ \<lparr>current := None\<rparr>"]
      numbered_def [of "_ \<lparr>current := None\<rparr>"] backend_layout_small_def eval_nat_numeral)

end
