(* ===== verification/Windows.thy ===== *)
theory Windows
  imports Win_Types Subspaces
begin

text \<open>
  The windows and the space that holds them: the parts of the window classes of como/win (x11,
  wayland, internal) the window manager's core reads and writes, the stacking state
  (stacking_state.h, the members of stacking_order and focus_chain), and the small predicates on
  a window in net.h, meta.h and desktop_get.h.

  A window is a pointer \<open>wid\<close> into \<open>heap\<close>; the variant of pointers the code uses compares by the
  pointer. The fields \<open>window_type\<close>, \<open>wants_input\<close>, \<open>shown\<close>, \<open>popup_end\<close>,
  \<open>lock_screen\<close> and \<open>belongs_to_desktop\<close> hold what the member functions windowType(),
  wantsInput(), isShown(), is_popup_end(), isLockScreen() and belongsToDesktop() return.
\<close>

type_synonym wid = nat

datatype win_class = X11_Window | Wayland_Window | Internal_Window

text \<open>The part of remnant::data the stacking reads, with the reference count.\<close>

record remnant_data =
  refcount :: int
  was_x11_client :: bool
  was_group_transient :: bool
  was_active :: bool
  was_popup_window :: bool

record control =
  ctl_active :: bool
  keep_above :: bool
  keep_below :: bool
  ctl_fullscreen :: bool
  ctl_minimized :: bool
  auto_raise_timer :: bool
  desktop_file_name :: string

record window =
  win_class :: win_class
  window_type :: win_type
  wants_input :: bool
  shown :: bool
  popup_end :: bool
  lock_screen :: bool
  belongs_to_desktop :: bool
  central_output :: "nat option"
  topo_subspaces :: "nat list"
  topo_layer :: win_layer
  leads :: "wid list"
  children :: "wid list"
  annexed :: bool
  m_modal :: bool
  win_remnant :: "remnant_data option"
  win_control :: "control option"
  lead_id :: nat
  xcb_client :: nat
  win_group :: "nat option"
  wm_client_leader :: nat
  win_pid :: int
  client_machine_name :: string
  res_class :: string
  window_role :: string
  surface_client :: "nat option"

datatype space_signal =
    Stacking_Changed bool
  | Stacking_Unlocked
  | Render_Restack
  | Transient_Changed wid
  | Modal_Changed wid

text \<open>An unordered_map in the order of its iteration; the keys are distinct.\<close>

type_synonym chain_map = "(nat \<times> wid list) list"

record space =
  heap :: "wid \<Rightarrow> window"
  windows :: "wid list"
  stack :: "wid list"
  pre_stack :: "wid list"
  render_overlays :: "wid list"
  render_restack_required :: bool
  block_stacking_updates :: int
  blocked_propagating_new_clients :: bool
  restacking_required :: bool
  should_get_focus :: "wid list"
  active :: "wid option"
  most_recently_raised :: "wid option"
  latest_use :: "wid list"
  chain_subspaces :: chain_map
  chain_active_window :: "wid option"
  chain_current_subspace :: nat
  has_separate_screen_focus :: bool
  showing_desktop :: bool
  subspace_manager :: manager
  root_window :: nat
  group_members :: "nat \<Rightarrow> wid list"
  space_signals :: "space_signal list"

abbreviation win :: "space \<Rightarrow> wid \<Rightarrow> window" where
  "win sp w \<equiv> heap sp w"

definition update_window :: "wid \<Rightarrow> (window \<Rightarrow> window) \<Rightarrow> space \<Rightarrow> space" where
  "update_window w f sp = sp\<lparr>heap := (heap sp)(w := f (heap sp w))\<rparr>"

definition space_emit :: "space_signal \<Rightarrow> space \<Rightarrow> space" where
  "space_emit s sp = sp\<lparr>space_signals := space_signals sp @ [s]\<rparr>"

section \<open>The window type (net.h, meta.h)\<close>

definition is_desktop :: "window \<Rightarrow> bool" where
  "is_desktop w \<longleftrightarrow> window_type w = wt_desktop"

definition is_dock :: "window \<Rightarrow> bool" where
  "is_dock w \<longleftrightarrow> window_type w = wt_dock"

definition is_menu :: "window \<Rightarrow> bool" where
  "is_menu w \<longleftrightarrow> window_type w = wt_menu"

definition is_toolbar :: "window \<Rightarrow> bool" where
  "is_toolbar w \<longleftrightarrow> window_type w = wt_toolbar"

definition is_splash :: "window \<Rightarrow> bool" where
  "is_splash w \<longleftrightarrow> window_type w = wt_splash"

definition is_utility :: "window \<Rightarrow> bool" where
  "is_utility w \<longleftrightarrow> window_type w = wt_utility"

definition is_dialog :: "window \<Rightarrow> bool" where
  "is_dialog w \<longleftrightarrow> window_type w = wt_dialog"

definition is_normal :: "window \<Rightarrow> bool" where
  "is_normal w \<longleftrightarrow> window_type w = wt_normal"

definition is_dropdown_menu :: "window \<Rightarrow> bool" where
  "is_dropdown_menu w \<longleftrightarrow> window_type w = wt_dropdown_menu"

text \<open>The X11 window has no member is_popup_end().\<close>

definition is_popup :: "window \<Rightarrow> bool" where
  "is_popup w =
     (case window_type w of
        wt_combo_box \<Rightarrow> True
      | wt_dropdown_menu \<Rightarrow> True
      | wt_popup_menu \<Rightarrow> True
      | wt_tooltip \<Rightarrow> True
      | _ \<Rightarrow> (if win_class w \<noteq> X11_Window then popup_end w
              else case win_remnant w of None \<Rightarrow> False | Some r \<Rightarrow> was_popup_window r))"

definition is_popup_menu :: "window \<Rightarrow> bool" where
  "is_popup_menu w \<longleftrightarrow> window_type w = wt_popup_menu"

definition is_tooltip :: "window \<Rightarrow> bool" where
  "is_tooltip w \<longleftrightarrow> window_type w = wt_tooltip"

definition is_notification :: "window \<Rightarrow> bool" where
  "is_notification w \<longleftrightarrow> window_type w = wt_notification"

definition is_critical_notification :: "window \<Rightarrow> bool" where
  "is_critical_notification w \<longleftrightarrow> window_type w = wt_critical_notification"

definition is_applet_popup :: "window \<Rightarrow> bool" where
  "is_applet_popup w \<longleftrightarrow> window_type w = wt_applet_popup"

definition is_on_screen_display :: "window \<Rightarrow> bool" where
  "is_on_screen_display w \<longleftrightarrow> window_type w = wt_on_screen_display"

definition is_combo_box :: "window \<Rightarrow> bool" where
  "is_combo_box w \<longleftrightarrow> window_type w = wt_combo_box"

definition is_dnd_icon :: "window \<Rightarrow> bool" where
  "is_dnd_icon w \<longleftrightarrow> window_type w = wt_dnd_icon"

definition wants_tab_focus :: "window \<Rightarrow> bool" where
  "wants_tab_focus w =
     (let suitable_type = (is_normal w \<or> is_dialog w \<or> is_applet_popup w)
      in suitable_type \<and> wants_input w)"

definition is_special_window :: "window \<Rightarrow> bool" where
  "is_special_window w \<longleftrightarrow>
     is_desktop w \<or> is_dock w \<or> is_splash w \<or> is_toolbar w \<or> is_notification w
     \<or> is_critical_notification w \<or> is_on_screen_display w"

lemmas type_defs = is_desktop_def is_dock_def is_menu_def is_toolbar_def is_splash_def
  is_utility_def is_dialog_def is_normal_def is_dropdown_menu_def is_popup_menu_def is_tooltip_def
  is_notification_def is_critical_notification_def is_applet_popup_def is_on_screen_display_def
  is_combo_box_def is_dnd_icon_def

text \<open>groupTransient(), a member of the X11 window only.\<close>

definition is_group_transient :: "space \<Rightarrow> wid \<Rightarrow> bool" where
  "is_group_transient sp w \<longleftrightarrow>
     win_class (win sp w) = X11_Window \<and> lead_id (win sp w) = root_window sp"

section \<open>The subspaces of a window (desktop_get.h)\<close>

definition x11_desktop_number_on_all :: int where
  "x11_desktop_number_on_all = -1"

definition get_subspace :: "space \<Rightarrow> wid \<Rightarrow> int" where
  "get_subspace sp w =
     (if topo_subspaces (win sp w) = [] then x11_desktop_number_on_all
      else int (sub_x11id (subspace_manager sp) (last (topo_subspaces (win sp w)))))"

definition on_all_subspaces :: "space \<Rightarrow> wid \<Rightarrow> bool" where
  "on_all_subspaces sp w \<longleftrightarrow> topo_subspaces (win sp w) = []"

text \<open>The overload on a pointer, which may be null, and the one on an X11 id. A negative int is
  a uint no subspace has.\<close>

definition on_subspace_ptr :: "space \<Rightarrow> wid \<Rightarrow> nat option \<Rightarrow> bool" where
  "on_subspace_ptr sp w sub \<longleftrightarrow>
     (case sub of Some s \<Rightarrow> contains (topo_subspaces (win sp w)) s | None \<Rightarrow> False)
     \<or> on_all_subspaces sp w"

definition on_subspace :: "space \<Rightarrow> wid \<Rightarrow> int \<Rightarrow> bool" where
  "on_subspace sp w sub =
     on_subspace_ptr sp w (subspaces_get_for_x11id (subspace_manager sp) (uint_of_int sub))"

definition on_current_subspace :: "space \<Rightarrow> wid \<Rightarrow> bool" where
  "on_current_subspace sp w = on_subspace_ptr sp w (current (subspace_manager sp))"

definition x11_subspace_ids :: "space \<Rightarrow> wid \<Rightarrow> nat list" where
  "x11_subspace_ids sp w = map (sub_x11id (subspace_manager sp)) (topo_subspaces (win sp w))"

definition subspaces_ids :: "space \<Rightarrow> wid \<Rightarrow> string list" where
  "subspaces_ids sp w = map (sub_id (subspace_manager sp)) (topo_subspaces (win sp w))"

end
