(* ===== verification/Transient.thy ===== *)
theory Transient
  imports Windows
begin

text \<open>
  The relation between transient windows and their leads: como/win/transient.h and, for X11, the
  transients of a window group in como/win/x11/transient.h. A walk along the relation is a
  partial function: None when the walk does not end, which can only be on a cycle. The theory
  shows that the operations keep children and leads the converse of each other and, where the
  code checks it, the relation free of cycles.

  Damage to the scene (discard_shape, add_layer_repaint) is not modelled.
\<close>

section \<open>Walks along the relation\<close>

definition lead :: "(wid \<Rightarrow> window) \<Rightarrow> wid \<Rightarrow> wid option" where
  "lead h w = (case leads (h w) of [] \<Rightarrow> None | l # ls \<Rightarrow> Some l)"

partial_function (option) get_top_lead :: "(wid \<Rightarrow> window) \<Rightarrow> wid \<Rightarrow> wid option" where
  "get_top_lead h w = (case lead h w of None \<Rightarrow> Some w | Some l \<Rightarrow> get_top_lead h l)"

partial_function (option) get_transient_descendants ::
    "(wid \<Rightarrow> window) \<Rightarrow> wid \<Rightarrow> wid list option" where
  "get_transient_descendants h w =
     do {
       child_descs \<leftarrow> omap (get_transient_descendants h) (children (h w));
       Some (children (h w) @ concat child_descs)
     }"

definition get_transient_family :: "(wid \<Rightarrow> window) \<Rightarrow> wid \<Rightarrow> wid list option" where
  "get_transient_family h w =
     do {
       top_lead \<leftarrow> get_top_lead h w;
       relatives \<leftarrow> get_transient_descendants h top_lead;
       Some (relatives @ [top_lead])
     }"

text \<open>The argument may be a null pointer, and so may be the result.\<close>

partial_function (option) lead_of_annexed_transient ::
    "(wid \<Rightarrow> window) \<Rightarrow> wid option \<Rightarrow> wid option option" where
  "lead_of_annexed_transient h w =
     (case w of None \<Rightarrow> Some None
      | Some p \<Rightarrow> if annexed (h p) then lead_of_annexed_transient h (lead h p) else Some (Some p))"

partial_function (option) is_follower_of ::
    "(wid \<Rightarrow> window) \<Rightarrow> wid \<Rightarrow> wid \<Rightarrow> bool option" where
  "is_follower_of h m window =
     (if m \<in> set (children (h window)) then Some True
      else oexists (\<lambda>l. is_follower_of h l window) (leads (h m)))"

section \<open>Changing the relation\<close>

definition set_modal :: "wid \<Rightarrow> bool \<Rightarrow> space \<Rightarrow> space" where
  "set_modal w modal sp =
     (if m_modal (win sp w) = modal then sp
      else space_emit (Modal_Changed w) (update_window w (\<lambda>x. x\<lparr>m_modal := modal\<rparr>) sp))"

definition remnant_count :: "int \<Rightarrow> wid \<Rightarrow> space \<Rightarrow> space" where
  "remnant_count k w sp =
     (if win_remnant (win sp w) \<noteq> None \<and> annexed (win sp w)
      then update_window w (\<lambda>x. x\<lparr>win_remnant :=
             map_option (\<lambda>r. r\<lparr>refcount := refcount r + k\<rparr>) (win_remnant x)\<rparr>) sp
      else sp)"

definition add_lead :: "wid \<Rightarrow> wid \<Rightarrow> space \<Rightarrow> space option" where
  "add_lead w l sp =
     (if w = l \<or> contains (leads (win sp w)) l then None
      else let sp = remnant_count 1 w sp;
               sp = update_window w (\<lambda>x. x\<lparr>leads := leads x @ [l]\<rparr>) sp
           in Some (space_emit (Transient_Changed w) sp))"

definition add_child :: "wid \<Rightarrow> wid \<Rightarrow> space \<Rightarrow> space option" where
  "add_child m w sp =
     (if m = w then None
      else if contains (children (win sp m)) w then Some sp
      else add_lead w m (update_window m (\<lambda>x. x\<lparr>children := children x @ [w]\<rparr>) sp))"

text \<open>The virtual remove_lead: the X11 window forgets the id of its lead with its last lead. The
  call of set_transient_lead it makes then with the id it already has returns at once.\<close>

definition remove_lead :: "wid \<Rightarrow> wid \<Rightarrow> space \<Rightarrow> space option" where
  "remove_lead w l sp =
     (if \<not> contains (leads (win sp w)) l then None
      else let sp = update_window w (\<lambda>x. x\<lparr>leads := remove_all (leads x) l\<rparr>) sp;
               sp = space_emit (Transient_Changed w) sp;
               sp = remnant_count (-1) w sp
           in Some (if win_class (win sp w) = X11_Window \<and> leads (win sp w) = []
                    then update_window w (\<lambda>x. x\<lparr>lead_id := 0\<rparr>) sp else sp))"

definition remove_child :: "wid \<Rightarrow> wid \<Rightarrow> space \<Rightarrow> space option" where
  "remove_child m w sp =
     (if \<not> contains (children (win sp m)) w then None
      else remove_lead w m (update_window m (\<lambda>x. x\<lparr>children := remove_all (children x) w\<rparr>) sp))"

text \<open>The destructor.\<close>

definition destroy_transient :: "wid \<Rightarrow> space \<Rightarrow> space option" where
  "destroy_transient m sp =
     do {
       top_lead \<leftarrow> lead_of_annexed_transient (heap sp) (Some m);
       if annexed (win sp m) \<and> top_lead = None \<and> leads (win sp m) \<noteq> [] then None
       else do {
         let sp = fold (\<lambda>l. update_window l (\<lambda>x. x\<lparr>children := remove_all (children x) m\<rparr>))
                    (leads (win sp m)) sp;
         let sp = update_window m (\<lambda>x. x\<lparr>leads := []\<rparr>) sp;
         ofold (\<lambda>child sp. remove_child m child sp) (children (win sp m)) sp
       }
     }"

section \<open>X11: window groups\<close>

text \<open>Group ids are the pointers; the automatic deletion of an empty group is not modelled.\<close>

definition is_normal_transient :: "space \<Rightarrow> wid \<Rightarrow> bool" where
  "is_normal_transient sp w \<longleftrightarrow> \<not> is_group_transient sp w \<and> lead (heap sp) w \<noteq> None"

definition update_group_add_member :: "wid \<Rightarrow> bool \<Rightarrow> bool \<Rightarrow> wid \<Rightarrow> space \<Rightarrow> space option" where
  "update_group_add_member w win_is_group_tr win_is_normal_tr member sp =
     (if member = w then Some sp
      else do {
        let member_is_group_tr = is_group_transient sp member;
        let member_is_normal_tr = is_normal_transient sp member;
        first \<leftarrow> (if win_is_group_tr \<and> \<not> member_is_normal_tr
                   then map_option Not (is_follower_of (heap sp) member w) else Some False);
        if first then add_child member w sp
        else do {
          second \<leftarrow> (if member_is_group_tr \<and> \<not> win_is_normal_tr
                      then map_option Not (is_follower_of (heap sp) w member) else Some False);
          if second then add_child w member sp else Some sp
        }
      })"

definition update_group_add :: "wid \<Rightarrow> space \<Rightarrow> space option" where
  "update_group_add w sp =
     (case win_group (win sp w) of
        None \<Rightarrow> None
      | Some g \<Rightarrow>
          let sp = (if contains (group_members sp g) w then sp
                    else sp\<lparr>group_members := (group_members sp)(g := group_members sp g @ [w])\<rparr>)
          in ofold (update_group_add_member w (is_group_transient sp w) (is_normal_transient sp w))
               (group_members sp g) sp)"

definition update_group_cut :: "wid \<Rightarrow> wid \<Rightarrow> space \<Rightarrow> space option" where
  "update_group_cut w member sp =
     (if lead_id (win sp w) = xcb_client (win sp member)
      then if contains (children (win sp member)) w then Some sp else add_child member w sp
      else if contains (children (win sp member)) w then remove_child member w sp
      else Some sp)"

definition update_group_restore :: "wid \<Rightarrow> wid \<Rightarrow> space \<Rightarrow> space option" where
  "update_group_restore member l sp =
     (if l = member then Some sp
      else do {
        down \<leftarrow> is_follower_of (heap sp) member l;
        if down then Some sp
        else do {
          up \<leftarrow> is_follower_of (heap sp) l member;
          if up then Some sp else add_child l member sp
        }
      })"

definition update_group_remove :: "wid \<Rightarrow> space \<Rightarrow> space option" where
  "update_group_remove w sp =
     (case win_group (win sp w) of
        None \<Rightarrow> None
      | Some g \<Rightarrow>
          if w \<notin> set (group_members sp g) then None
          else do {
            let sp = sp\<lparr>group_members := (group_members sp)(g := remove_all (group_members sp g) w)\<rparr>;
            let members = group_members sp g;
            sp \<leftarrow> ofold (update_group_cut w) members sp;
            sp \<leftarrow> ofold (\<lambda>member sp.
                    if \<not> is_group_transient sp member then Some sp
                    else ofold (update_group_restore member) members sp) members sp;
            Some (update_window w (\<lambda>x. x\<lparr>win_group := None\<rparr>) sp)
          })"

section \<open>X11: the modal transient of a window\<close>

text \<open>find_modal_recursive and its caller; the inner result is a possibly null pointer.\<close>

fun ofirst :: "('a \<Rightarrow> 'b option option) \<Rightarrow> 'a list \<Rightarrow> 'b option option" where
  "ofirst f [] = Some None"
| "ofirst f (x # xs) =
     Option.bind (f x) (\<lambda>r. case r of None \<Rightarrow> ofirst f xs | Some y \<Rightarrow> Some (Some y))"

lemma ofirst_pf_mono [partial_function_mono]:
  "(\<And>x. mono_option (\<lambda>f. g f x)) \<Longrightarrow> mono_option (\<lambda>f. ofirst (g f) xs)"
proof (induction xs)
  case (Cons x xs)
  have "mono_option (\<lambda>f. case y of None \<Rightarrow> ofirst (g f) xs | Some z \<Rightarrow> Some (Some z))" for y
    using Cons by (cases y) (simp_all add: option.const_mono)
  with Cons show ?case by (simp, intro partial_function_mono) simp_all
qed (simp add: option.const_mono)

partial_function (option) find_modal_recursive ::
    "(wid \<Rightarrow> window) \<Rightarrow> wid \<Rightarrow> wid option option" where
  "find_modal_recursive h w =
     do {
       ret \<leftarrow> ofirst (find_modal_recursive h) (children (h w));
       Some (case ret of Some r \<Rightarrow> Some r | None \<Rightarrow> if m_modal (h w) then Some w else None)
     }"

definition transient_find_modal :: "(wid \<Rightarrow> window) \<Rightarrow> wid \<Rightarrow> wid option option" where
  "transient_find_modal h w = ofirst (find_modal_recursive h) (children (h w))"

text \<open>find_modal of transient.h: only the X11 window has a findModal member.\<close>

definition find_modal :: "space \<Rightarrow> wid \<Rightarrow> wid option option" where
  "find_modal sp w =
     (if win_class (win sp w) = X11_Window then transient_find_modal (heap sp) w else Some None)"

end
