(* ===== verification/Transient_Props.thy ===== *)
theory Transient_Props
  imports Transient
begin

text \<open>
  The transient relation as a relation: \<open>(c, l)\<close> when l is a lead of c. The invariant says that
  children is its converse and that it is finite and acyclic; then every walk returns, and
  is_follower_of decides its transitive closure.
\<close>

definition lead_rel :: "(wid \<Rightarrow> window) \<Rightarrow> (wid \<times> wid) set" where
  "lead_rel h = {(c, l). l \<in> set (leads (h c))}"

definition converse_ok :: "(wid \<Rightarrow> window) \<Rightarrow> bool" where
  "converse_ok h \<longleftrightarrow> (\<forall>c l. l \<in> set (leads (h c)) \<longleftrightarrow> c \<in> set (children (h l)))
     \<and> (\<forall>w. distinct (leads (h w)) \<and> distinct (children (h w)))"

definition transient_ok :: "(wid \<Rightarrow> window) \<Rightarrow> bool" where
  "transient_ok h \<longleftrightarrow> converse_ok h \<and> finite (lead_rel h) \<and> acyclic (lead_rel h)"

lemma lead_rel_iff [simp]: "(c, l) \<in> lead_rel h \<longleftrightarrow> l \<in> set (leads (h c))"
  by (simp add: lead_rel_def)

lemma children_rel: "converse_ok h \<Longrightarrow> c \<in> set (children (h l)) \<longleftrightarrow> (c, l) \<in> lead_rel h"
  by (simp add: converse_ok_def)

lemma transient_ok_wf:
  assumes "transient_ok h"
  shows "wf (lead_rel h)" "wf ((lead_rel h)\<inverse>)"
  using assms by (auto simp: transient_ok_def intro: finite_acyclic_wf finite_acyclic_wf_converse)

lemma lead_some: "lead h w = Some l \<Longrightarrow> (w, l) \<in> lead_rel h"
  by (auto simp: lead_def split: list.splits)

lemma lead_none: "lead h w = None \<longleftrightarrow> leads (h w) = []"
  by (auto simp: lead_def split: list.splits)

section \<open>The walks return\<close>

lemma is_follower_of_eq:
  assumes "transient_ok h"
  shows "is_follower_of h m w = Some ((m, w) \<in> (lead_rel h)\<^sup>+)"
  using transient_ok_wf(2) [OF assms]
proof (induction m rule: wf_induct_rule)
  case (less m)
  have IH: "is_follower_of h l w = Some ((l, w) \<in> (lead_rel h)\<^sup>+)" if "l \<in> set (leads (h m))" for l
    using less that by simp
  have c: "m \<in> set (children (h w)) \<longleftrightarrow> (m, w) \<in> lead_rel h"
    using assms children_rel by (simp add: transient_ok_def)
  show ?case
  proof (cases "(m, w) \<in> lead_rel h")
    case True
    then show ?thesis using c by (subst is_follower_of.simps) auto
  next
    case False
    have "is_follower_of h m w = oexists (\<lambda>l. is_follower_of h l w) (leads (h m))"
      using False c by (subst is_follower_of.simps) simp
    also have "\<dots> = Some (\<exists>l\<in>set (leads (h m)). (l, w) \<in> (lead_rel h)\<^sup>+)"
      by (rule oexists_some) (rule IH)
    also have "(\<exists>l\<in>set (leads (h m)). (l, w) \<in> (lead_rel h)\<^sup>+) \<longleftrightarrow> (m, w) \<in> (lead_rel h)\<^sup>+"
      using False by (auto dest: tranclD intro: trancl_into_trancl2 [of m]) (metis lead_rel_iff rtranclD tranclD)
    finally show ?thesis .
  qed
qed

lemma get_top_lead_some:
  assumes "transient_ok h"
  shows "\<exists>t. get_top_lead h w = Some t \<and> lead h t = None \<and> (w, t) \<in> (lead_rel h)\<^sup>*"
  using transient_ok_wf(2) [OF assms]
proof (induction w rule: wf_induct_rule)
  case (less w)
  show ?case
  proof (cases "lead h w")
    case None
    then show ?thesis by (simp add: get_top_lead.simps)
  next
    case (Some l)
    then have l: "(w, l) \<in> lead_rel h" by (rule lead_some)
    then obtain t where "get_top_lead h l = Some t" "lead h t = None" "(l, t) \<in> (lead_rel h)\<^sup>*"
      using less [of l] by auto
    with Some l show ?thesis
      by (subst get_top_lead.simps) (auto intro: converse_rtrancl_into_rtrancl)
  qed
qed

lemma lead_of_annexed_transient_some:
  assumes "transient_ok h"
  shows "\<exists>t. lead_of_annexed_transient h (Some w) = Some t
    \<and> (\<forall>p. t = Some p \<longrightarrow> \<not> annexed (h p) \<and> (w, p) \<in> (lead_rel h)\<^sup>*)"
  using transient_ok_wf(2) [OF assms]
proof (induction w rule: wf_induct_rule)
  case (less w)
  show ?case
  proof (cases "annexed (h w)")
    case False
    then show ?thesis by (subst lead_of_annexed_transient.simps) simp
  next
    case True
    show ?thesis
    proof (cases "lead h w")
      case None
      then show ?thesis using True
        by (simp add: lead_of_annexed_transient.simps [of h "Some w"]
            lead_of_annexed_transient.simps [of h None])
    next
      case (Some l)
      then have l: "(w, l) \<in> lead_rel h" by (rule lead_some)
      then obtain t where "lead_of_annexed_transient h (Some l) = Some t"
        "\<forall>p. t = Some p \<longrightarrow> \<not> annexed (h p) \<and> (l, p) \<in> (lead_rel h)\<^sup>*"
        using less [of l] by auto
      with Some True l show ?thesis
        by (subst lead_of_annexed_transient.simps) (auto intro: converse_rtrancl_into_rtrancl)
    qed
  qed
qed

lemma get_transient_descendants_some:
  assumes "transient_ok h"
  shows "\<exists>ds. get_transient_descendants h w = Some ds \<and> set ds = {d. (d, w) \<in> (lead_rel h)\<^sup>+}"
  using transient_ok_wf(1) [OF assms]
proof (induction w rule: wf_induct_rule)
  case (less w)
  have c: "c \<in> set (children (h w)) \<longleftrightarrow> (c, w) \<in> lead_rel h" for c
    using assms children_rel by (simp add: transient_ok_def)
  define g where "g c = the (get_transient_descendants h c)" for c
  have IH: "get_transient_descendants h c = Some (g c) \<and> set (g c) = {d. (d, c) \<in> (lead_rel h)\<^sup>+}"
    if "c \<in> set (children (h w))" for c
    using less [of c] that c by (auto simp: g_def)
  have "omap (get_transient_descendants h) (children (h w)) = Some (map g (children (h w)))"
    by (rule omap_some) (use IH in blast)
  then have "get_transient_descendants h w = Some (children (h w) @ concat (map g (children (h w))))"
    by (subst get_transient_descendants.simps) simp
  moreover have "set (children (h w) @ concat (map g (children (h w)))) = {d. (d, w) \<in> (lead_rel h)\<^sup>+}"
  proof (intro set_eqI iffI)
    fix d assume "d \<in> set (children (h w) @ concat (map g (children (h w))))"
    then consider "d \<in> set (children (h w))" | c' where "c' \<in> set (children (h w))" "d \<in> set (g c')"
      by auto
    then show "d \<in> {d. (d, w) \<in> (lead_rel h)\<^sup>+}"
      using IH c by cases (auto intro: trancl_into_trancl)
  next
    fix d assume "d \<in> {d. (d, w) \<in> (lead_rel h)\<^sup>+}"
    then have "(d, w) \<in> (lead_rel h)\<^sup>+" by simp
    then consider "(d, w) \<in> lead_rel h" | c' where "(d, c') \<in> (lead_rel h)\<^sup>+" "(c', w) \<in> lead_rel h"
      by (auto elim: tranclE)
    then show "d \<in> set (children (h w) @ concat (map g (children (h w))))"
    proof cases
      case 2
      then have "c' \<in> set (children (h w))" using c by simp
      with IH 2 show ?thesis by auto
    qed (use c in simp)
  qed
  ultimately show ?case by blast
qed

text \<open>The search for a modal transient finds one if there is one.\<close>

lemma ofirst_some:
  assumes "\<And>x. x \<in> set xs \<Longrightarrow> \<exists>r. f x = Some r \<and> P x r"
  shows "\<exists>r. ofirst f xs = Some r \<and> (case r of None \<Rightarrow> \<forall>x\<in>set xs. P x None
           | Some y \<Rightarrow> \<exists>x\<in>set xs. P x (Some y))"
  using assms
proof (induction xs)
  case (Cons x xs)
  obtain r where r: "f x = Some r" "P x r" using Cons.prems by auto
  show ?case
  proof (cases r)
    case None
    obtain s where "ofirst f xs = Some s" "case s of None \<Rightarrow> \<forall>x\<in>set xs. P x None
           | Some y \<Rightarrow> \<exists>x\<in>set xs. P x (Some y)" using Cons by auto
    with r None show ?thesis by (cases s) auto
  next
    case (Some y)
    with r show ?thesis by auto
  qed
qed simp

lemma find_modal_recursive_some:
  assumes "transient_ok h"
  shows "\<exists>r. find_modal_recursive h w = Some r \<and> (case r of
      None \<Rightarrow> \<forall>d. (d, w) \<in> (lead_rel h)\<^sup>* \<longrightarrow> \<not> m_modal (h d)
    | Some d \<Rightarrow> (d, w) \<in> (lead_rel h)\<^sup>* \<and> m_modal (h d))"
  using transient_ok_wf(1) [OF assms]
proof (induction w rule: wf_induct_rule)
  case (less w)
  have c: "c \<in> set (children (h w)) \<longleftrightarrow> (c, w) \<in> lead_rel h" for c
    using assms children_rel by (simp add: transient_ok_def)
  let ?P = "\<lambda>c r. case r of None \<Rightarrow> \<forall>d. (d, c) \<in> (lead_rel h)\<^sup>* \<longrightarrow> \<not> m_modal (h d)
    | Some d \<Rightarrow> (d, c) \<in> (lead_rel h)\<^sup>* \<and> m_modal (h d)"
  have IH: "\<exists>r. find_modal_recursive h x = Some r \<and> ?P x r" if "x \<in> set (children (h w))" for x
    by (rule less) (use that c in simp)
  obtain r where r: "ofirst (find_modal_recursive h) (children (h w)) = Some r"
    "case r of None \<Rightarrow> \<forall>x\<in>set (children (h w)). ?P x None
       | Some y \<Rightarrow> \<exists>x\<in>set (children (h w)). ?P x (Some y)"
    using ofirst_some [of "children (h w)" "find_modal_recursive h" ?P, OF IH] by blast
  have f: "find_modal_recursive h w
      = Some (case r of Some d \<Rightarrow> Some d | None \<Rightarrow> if m_modal (h w) then Some w else None)"
    by (subst find_modal_recursive.simps) (simp add: r(1))
  show ?case
  proof (cases r)
    case None
    have "\<not> m_modal (h d)" if "(d, w) \<in> (lead_rel h)\<^sup>*" "d \<noteq> w" for d
    proof -
      from that obtain c' where "(d, c') \<in> (lead_rel h)\<^sup>*" "(c', w) \<in> lead_rel h"
        by (meson rtranclE)
      with r(2) None c show ?thesis by auto
    qed
    then show ?thesis unfolding f by (cases "m_modal (h w)") (auto simp: None)
  next
    case (Some d)
    with r(2) c obtain x where "(x, w) \<in> lead_rel h" "(d, x) \<in> (lead_rel h)\<^sup>*" "m_modal (h d)" by auto
    then show ?thesis unfolding f by (auto simp: Some intro: rtrancl_into_rtrancl)
  qed
qed

section \<open>Adding and removing a child\<close>

lemma update_window_heap [simp]:
  "heap (update_window w f sp) = (heap sp)(w := f (heap sp w))"
  by (simp add: update_window_def)

lemma space_emit_heap [simp]: "heap (space_emit s sp) = heap sp"
  by (simp add: space_emit_def)

lemma remnant_count_trans [simp]:
  "leads (heap (remnant_count k w sp) x) = leads (heap sp x)"
  "children (heap (remnant_count k w sp) x) = children (heap sp x)"
  "win_class (heap (remnant_count k w sp) x) = win_class (heap sp x)"
  "lead_id (heap (remnant_count k w sp) x) = lead_id (heap sp x)"
  by (simp_all add: remnant_count_def)

text \<open>What the rest of a space and of a window sees of these operations: nothing.\<close>

definition window_core :: "window \<Rightarrow> nat option \<times> win_class \<times> nat \<times> bool \<times> bool" where
  "window_core x = (win_group x, win_class x, xcb_client x, m_modal x, annexed x)"

definition trans_core where
  "trans_core sp = (group_members sp, root_window sp, windows sp, \<lambda>w. window_core (heap sp w))"

definition trans_frame :: "space \<Rightarrow> space \<Rightarrow> bool" where
  "trans_frame sp' sp \<longleftrightarrow> trans_core sp' = trans_core sp"

lemma trans_frame_refl [simp]: "trans_frame sp sp"
  by (simp add: trans_frame_def)

lemma trans_frame_trans: "trans_frame s2 s1 \<Longrightarrow> trans_frame s1 s0 \<Longrightarrow> trans_frame s2 s0"
  by (simp add: trans_frame_def)

lemma trans_frameD:
  assumes "trans_frame sp' sp"
  shows "group_members sp' = group_members sp" "root_window sp' = root_window sp"
    "windows sp' = windows sp" "win_group (heap sp' w) = win_group (heap sp w)"
    "win_class (heap sp' w) = win_class (heap sp w)" "xcb_client (heap sp' w) = xcb_client (heap sp w)"
    "m_modal (heap sp' w) = m_modal (heap sp w)" "annexed (heap sp' w) = annexed (heap sp w)"
  using assms by (auto simp: trans_frame_def trans_core_def window_core_def dest: fun_cong [of _ _ w])

lemma trans_core_update:
  "window_core (f (heap sp w)) = window_core (heap sp w) \<Longrightarrow>
     trans_core (update_window w f sp) = trans_core sp"
  by (auto simp: trans_core_def update_window_def fun_eq_iff)

lemma trans_frame_update [simp]:
  "trans_frame (update_window w (\<lambda>x. x\<lparr>leads := f x\<rparr>) sp) sp' = trans_frame sp sp'"
  "trans_frame (update_window w (\<lambda>x. x\<lparr>children := f x\<rparr>) sp) sp' = trans_frame sp sp'"
  "trans_frame (update_window w (\<lambda>x. x\<lparr>lead_id := k\<rparr>) sp) sp' = trans_frame sp sp'"
  "trans_frame (space_emit s sp) sp' = trans_frame sp sp'"
  "trans_frame (remnant_count i w sp) sp' = trans_frame sp sp'"
  by (simp_all add: trans_frame_def trans_core_update window_core_def remnant_count_def)
     (simp add: trans_core_def space_emit_def)

lemma add_child_some:
  assumes "converse_ok (heap sp)" "m \<noteq> w"
  obtains sp' where "add_child m w sp = Some sp'" "converse_ok (heap sp')"
    "lead_rel (heap sp') = insert (w, m) (lead_rel (heap sp))" "trans_frame sp' sp"
    "\<And>x. lead_id (heap sp' x) = lead_id (heap sp x)"
proof (cases "w \<in> set (children (heap sp m))")
  case True
  then have "(w, m) \<in> lead_rel (heap sp)" using assms(1) children_rel by blast
  then have "insert (w, m) (lead_rel (heap sp)) = lead_rel (heap sp)" by blast
  with True assms show ?thesis by (intro that [of sp]) (simp_all add: add_child_def)
next
  case False
  have nl: "m \<notin> set (leads (heap sp w))" using False assms(1) by (simp add: converse_ok_def)
  let ?s1 = "update_window m (\<lambda>x. x\<lparr>children := children x @ [w]\<rparr>) sp"
  let ?s2 = "space_emit (Transient_Changed w)
     (update_window w (\<lambda>x. x\<lparr>leads := leads x @ [m]\<rparr>) (remnant_count 1 w ?s1))"
  have e: "add_child m w sp = Some ?s2"
    using False nl assms(2) by (simp add: add_child_def add_lead_def Let_def)
  have l: "leads (heap ?s2 x) = (if x = w then leads (heap sp w) @ [m] else leads (heap sp x))" for x
    using assms(2) by simp
  have c: "children (heap ?s2 x) = (if x = m then children (heap sp m) @ [w] else children (heap sp x))" for x
    using assms(2) by simp
  show ?thesis
  proof (rule that [OF e])
    show "converse_ok (heap ?s2)" using assms(1) False nl unfolding converse_ok_def l c by auto
    show "lead_rel (heap ?s2) = insert (w, m) (lead_rel (heap sp))"
      by (auto simp: lead_rel_def l simp del: update_window_heap space_emit_heap split: if_splits)
    show "trans_frame ?s2 sp" by simp
    show "lead_id (heap ?s2 x) = lead_id (heap sp x)" for x by simp
  qed
qed

lemma remove_child_some:
  assumes "converse_ok (heap sp)" "w \<in> set (children (heap sp m))" "m \<noteq> w"
  obtains sp' where "remove_child m w sp = Some sp'" "converse_ok (heap sp')"
    "lead_rel (heap sp') = lead_rel (heap sp) - {(w, m)}" "trans_frame sp' sp"
    "children (heap sp' m) = remove_all (children (heap sp m)) w"
proof -
  have nl: "m \<in> set (leads (heap sp w))" using assms(1,2) by (simp add: converse_ok_def)
  let ?s1 = "update_window m (\<lambda>x. x\<lparr>children := remove_all (children x) w\<rparr>) sp"
  let ?s2 = "remnant_count (-1) w (space_emit (Transient_Changed w)
     (update_window w (\<lambda>x. x\<lparr>leads := remove_all (leads x) m\<rparr>) ?s1))"
  let ?s3 = "if win_class (win ?s2 w) = X11_Window \<and> leads (win ?s2 w) = []
     then update_window w (\<lambda>x. x\<lparr>lead_id := 0\<rparr>) ?s2 else ?s2"
  have e: "remove_child m w sp = Some ?s3"
    using assms(2,3) nl by (simp add: remove_child_def remove_lead_def Let_def)
  have l: "leads (heap ?s3 x) = (if x = w then remove_all (leads (heap sp w)) m else leads (heap sp x))" for x
    using assms(3) by simp
  have c: "children (heap ?s3 x) = (if x = m then remove_all (children (heap sp m)) w else children (heap sp x))" for x
    using assms(3) by simp
  show ?thesis
  proof (rule that [OF e])
    show "converse_ok (heap ?s3)" using assms(1) unfolding converse_ok_def l c by auto
    show "lead_rel (heap ?s3) = lead_rel (heap sp) - {(w, m)}"
      unfolding lead_rel_def l by (auto split: if_splits)
    show "trans_frame ?s3 sp" by simp
    show "children (heap ?s3 m) = remove_all (children (heap sp m)) w" unfolding c by simp
  qed
qed

text \<open>A new lead that does not follow the window itself closes no cycle.\<close>

lemma add_child_acyclic:
  assumes "transient_ok (heap sp)" "m \<noteq> w" "(m, w) \<notin> (lead_rel (heap sp))\<^sup>+"
  obtains sp' where "add_child m w sp = Some sp'" "transient_ok (heap sp')"
    "lead_rel (heap sp') = insert (w, m) (lead_rel (heap sp))" "trans_frame sp' sp"
    "\<And>x. lead_id (heap sp' x) = lead_id (heap sp x)"
proof -
  have c: "converse_ok (heap sp)" using assms(1) by (simp add: transient_ok_def)
  obtain sp' where s: "add_child m w sp = Some sp'" "converse_ok (heap sp')"
    "lead_rel (heap sp') = insert (w, m) (lead_rel (heap sp))" "trans_frame sp' sp"
    "\<And>x. lead_id (heap sp' x) = lead_id (heap sp x)"
    by (rule add_child_some [OF c assms(2)]) (rule that; assumption)
  have "(m, w) \<notin> (lead_rel (heap sp))\<^sup>*" using assms(2,3) by (auto simp: rtrancl_eq_or_trancl)
  then have "transient_ok (heap sp')"
    using assms(1) s(2,3) by (auto simp: transient_ok_def)
  then show ?thesis using s by (intro that)
qed

lemma transient_ok_subset:
  "transient_ok h \<Longrightarrow> converse_ok h' \<Longrightarrow> lead_rel h' \<subseteq> lead_rel h \<Longrightarrow> transient_ok h'"
  by (auto simp: transient_ok_def intro: finite_subset acyclic_subset)

section \<open>The transients of an X11 window group\<close>

definition related :: "space \<Rightarrow> wid \<Rightarrow> wid \<Rightarrow> bool" where
  "related sp a b \<longleftrightarrow> (a, b) \<in> (lead_rel (heap sp))\<^sup>+ \<or> (b, a) \<in> (lead_rel (heap sp))\<^sup>+"

lemma related_mono: "lead_rel (heap sp) \<subseteq> lead_rel (heap sp') \<Longrightarrow> related sp a b \<Longrightarrow> related sp' a b"
  unfolding related_def by (meson trancl_mono)

lemma related_new: "(w, m) \<in> lead_rel (heap sp) \<Longrightarrow> related sp w m \<and> related sp m w"
  by (auto simp: related_def)

text \<open>One member: afterwards it is related to the new window, unless one of them is a normal
  transient or neither is a group transient.\<close>

lemma update_group_add_member_some:
  assumes "transient_ok (heap sp)"
    and "group_tr = is_group_transient sp w"
  shows "\<exists>sp'. update_group_add_member w group_tr normal_tr member sp = Some sp'
    \<and> transient_ok (heap sp') \<and> lead_rel (heap sp) \<subseteq> lead_rel (heap sp') \<and> trans_frame sp' sp
    \<and> (\<forall>x. lead_id (heap sp' x) = lead_id (heap sp x))
    \<and> (member \<noteq> w \<and> (group_tr \<and> \<not> is_normal_transient sp member
         \<or> is_group_transient sp member \<and> \<not> normal_tr) \<longrightarrow> related sp' w member)"
proof (cases "member = w")
  case True
  then show ?thesis using assms by (simp add: update_group_add_member_def)
next
  case False
  let ?r = "lead_rel (heap sp)"
  have f: "is_follower_of (heap sp) a b = Some ((a, b) \<in> ?r\<^sup>+)" for a b
    by (rule is_follower_of_eq [OF assms(1)])
  let ?first = "group_tr \<and> \<not> is_normal_transient sp member \<and> (member, w) \<notin> ?r\<^sup>+"
  let ?second = "is_group_transient sp member \<and> \<not> normal_tr \<and> (w, member) \<notin> ?r\<^sup>+"
  have e: "update_group_add_member w group_tr normal_tr member sp
      = (if ?first then add_child member w sp else if ?second then add_child w member sp else Some sp)"
    using False by (auto simp: update_group_add_member_def f)
  consider ?first | "\<not> ?first" ?second | "\<not> ?first" "\<not> ?second" by blast
  then show ?thesis
  proof cases
    case 1
    then obtain sp' where sp': "add_child member w sp = Some sp'" "transient_ok (heap sp')"
      "lead_rel (heap sp') = insert (w, member) ?r" "trans_frame sp' sp"
      "\<And>x. lead_id (heap sp' x) = lead_id (heap sp x)"
      using add_child_acyclic [OF assms(1) False] by blast
    moreover have "related sp' w member" using sp'(3) related_new by blast
    ultimately show ?thesis using 1 unfolding e by auto
  next
    case 2
    then obtain sp' where sp': "add_child w member sp = Some sp'" "transient_ok (heap sp')"
      "lead_rel (heap sp') = insert (member, w) ?r" "trans_frame sp' sp"
      "\<And>x. lead_id (heap sp' x) = lead_id (heap sp x)"
      using add_child_acyclic [OF assms(1), of w member] False by blast
    moreover have "related sp' w member" using sp'(3) related_new by blast
    ultimately show ?thesis using 2 unfolding e by auto
  next
    case 3
    then show ?thesis unfolding e using assms(1) by (auto simp: related_def)
  qed
qed

section \<open>Destruction\<close>

lemma fold_forget_child:
  "heap (fold (\<lambda>l. update_window l (\<lambda>x. x\<lparr>children := remove_all (children x) m\<rparr>)) ls sp) y
     = (if y \<in> set ls then (heap sp y)\<lparr>children := remove_all (children (heap sp y)) m\<rparr> else heap sp y)"
proof (induction ls arbitrary: sp)
  case (Cons l ls)
  have r: "remove_all (remove_all xs a) a = remove_all xs a" for xs :: "wid list" and a
    by (simp add: remove_all_def)
  show ?case by (auto simp: Cons r)
qed simp

lemma remove_children_some:
  "converse_ok (heap sp) \<Longrightarrow> distinct cs \<Longrightarrow> set cs \<subseteq> set (children (heap sp m)) \<Longrightarrow> m \<notin> set cs \<Longrightarrow>
     \<exists>sp'. ofold (\<lambda>c s. remove_child m c s) cs sp = Some sp' \<and> converse_ok (heap sp')
       \<and> lead_rel (heap sp') = lead_rel (heap sp) - {(c, l). l = m \<and> c \<in> set cs}"
proof (induction cs arbitrary: sp)
  case (Cons c cs)
  then have c: "c \<in> set (children (heap sp m))" "m \<noteq> c" by auto
  obtain s1 where s1: "remove_child m c sp = Some s1" "converse_ok (heap s1)"
    "lead_rel (heap s1) = lead_rel (heap sp) - {(c, m)}"
    "children (heap s1 m) = remove_all (children (heap sp m)) c"
    by (rule remove_child_some [OF Cons.prems(1) c]) (rule that; assumption)
  have "set cs \<subseteq> set (children (heap s1 m))" using Cons.prems(2,3) s1(4) by auto
  then obtain s2 where "ofold (\<lambda>c s. remove_child m c s) cs s1 = Some s2" "converse_ok (heap s2)"
    "lead_rel (heap s2) = lead_rel (heap s1) - {(c, l). l = m \<and> c \<in> set cs}"
    using Cons.IH [OF s1(2)] Cons.prems by auto
  then show ?case using s1(1,3) by auto
qed auto

text \<open>After the destructor no window refers to the destroyed one.\<close>

lemma destroy_transient_some:
  assumes "transient_ok (heap sp)" "lead_of_annexed_transient (heap sp) (Some m) = Some (Some t)"
  shows "\<exists>sp'. destroy_transient m sp = Some sp' \<and> transient_ok (heap sp')
    \<and> lead_rel (heap sp') = lead_rel (heap sp) - {(c, l). c = m \<or> l = m}"
proof -
  let ?h = "heap sp"
  have c: "converse_ok ?h" and irr: "m \<notin> set (leads (?h m))"
    using assms(1) by (auto simp: transient_ok_def acyclic_def lead_rel_def)
  have mc: "m \<notin> set (children (?h m))" using c irr by (simp add: converse_ok_def)
  let ?s1 = "fold (\<lambda>l. update_window l (\<lambda>x. x\<lparr>children := remove_all (children x) m\<rparr>)) (leads (?h m)) sp"
  let ?s2 = "update_window m (\<lambda>x. x\<lparr>leads := []\<rparr>) ?s1"
  have h2: "leads (heap ?s2 x) = (if x = m then [] else leads (?h x))"
    "children (heap ?s2 x) = (if x \<in> set (leads (?h m)) then remove_all (children (?h x)) m else children (?h x))" for x
    using irr by (simp_all add: fold_forget_child)
  have c2: "converse_ok (heap ?s2)" using c mc unfolding converse_ok_def h2 by auto
  have r2: "lead_rel (heap ?s2) = lead_rel ?h - {(c, l). c = m}"
    unfolding lead_rel_def h2 by (auto split: if_splits)
  have ch: "children (heap ?s2 m) = children (?h m)" using irr by (simp only: h2) simp
  have d: "distinct (children (?h m))" using c by (simp add: converse_ok_def)
  obtain s3 where s3: "ofold (\<lambda>c s. remove_child m c s) (children (?h m)) ?s2 = Some s3"
    "converse_ok (heap s3)"
    "lead_rel (heap s3) = lead_rel (heap ?s2) - {(c, l). l = m \<and> c \<in> set (children (?h m))}"
    using remove_children_some [OF c2 d _ mc] ch by auto
  have "lead_rel (heap s3) = lead_rel ?h - {(c, l). c = m \<or> l = m}"
    using c unfolding s3(3) r2 by (auto simp: converse_ok_def)
  moreover have "destroy_transient m sp = Some s3"
    using assms(2) s3(1) ch by (simp add: destroy_transient_def Let_def)
  ultimately show ?thesis using transient_ok_subset [OF assms(1) s3(2)] by auto
qed

end
