(* ===== verification/Example_Space.thy ===== *)
theory Example_Space
  imports Transient_Props Subspace_Theorems
begin

text \<open>
  A window and a space to apply the properties of windows to: an X11 window of type normal with a
  control, on all subspaces; a space with the three subspaces of Subspace_Theorems.
\<close>

definition plain_control :: control where
  "plain_control = \<lparr>ctl_active = False, keep_above = False, keep_below = False,
     ctl_fullscreen = False, ctl_minimized = False, auto_raise_timer = False,
     desktop_file_name = []\<rparr>"

definition plain_window :: window where
  "plain_window =
     \<lparr>win_class = X11_Window, window_type = wt_normal, wants_input = True, shown = True,
      popup_end = False, lock_screen = False, belongs_to_desktop = False, central_output = Some 0,
      topo_subspaces = [], topo_layer = layer_unknown, leads = [], children = [], annexed = False,
      m_modal = False, win_remnant = None, win_control = Some plain_control, lead_id = 0,
      xcb_client = 1, win_group = Some 7, wm_client_leader = 0, win_pid = 5,
      client_machine_name = ''m'', res_class = ''c'', window_role = [],
      surface_client = None\<rparr>"

definition plain_space :: "(wid \<Rightarrow> window) \<Rightarrow> wid list \<Rightarrow> space" where
  "plain_space h ws =
     \<lparr>heap = h, windows = ws, stack = [], pre_stack = ws, render_overlays = [],
      render_restack_required = False, block_stacking_updates = 0,
      blocked_propagating_new_clients = False, restacking_required = False, should_get_focus = [],
      active = None, most_recently_raised = None, latest_use = [],
      chain_subspaces = [(1, []), (2, []), (3, [])],
      chain_active_window = None, chain_current_subspace = 2, has_separate_screen_focus = False,
      showing_desktop = False, subspace_manager = three_desktops, root_window = 99,
      group_members = (\<lambda>g. []), space_signals = []\<rparr>"

lemma plain_window_fields [simp]:
  "leads plain_window = []" "children plain_window = []" "lead_id plain_window = 0"
  "win_group plain_window = Some 7" "win_class plain_window = X11_Window"
  "m_modal plain_window = False" "annexed plain_window = False"
  "win_control plain_window = Some plain_control" "win_remnant plain_window = None"
  "window_type plain_window = wt_normal" "topo_layer plain_window = layer_unknown"
  "topo_subspaces plain_window = []" "central_output plain_window = Some 0"
  "wants_input plain_window" "shown plain_window" "lock_screen plain_window = False"
  "belongs_to_desktop plain_window = False" "popup_end plain_window = False"
  by (simp_all add: plain_window_def)

lemma plain_space_fields [simp]:
  "heap (plain_space h ws) = h" "windows (plain_space h ws) = ws" "stack (plain_space h ws) = []"
  "pre_stack (plain_space h ws) = ws" "root_window (plain_space h ws) = 99"
  "group_members (plain_space h ws) = (\<lambda>g. [])" "active (plain_space h ws) = None"
  "should_get_focus (plain_space h ws) = []" "showing_desktop (plain_space h ws) = False"
  "subspace_manager (plain_space h ws) = three_desktops"
  "block_stacking_updates (plain_space h ws) = 0" "latest_use (plain_space h ws) = []"
  "chain_current_subspace (plain_space h ws) = 2"
  "chain_active_window (plain_space h ws) = None"
  "has_separate_screen_focus (plain_space h ws) = False"
  "chain_subspaces (plain_space h ws) = [(1, []), (2, []), (3, [])]"
  by (simp_all add: plain_space_def)

text \<open>Window 2 is a transient of window 1, window 3 a group transient.\<close>

definition small_heap :: "wid \<Rightarrow> window" where
  "small_heap = (\<lambda>w. plain_window)
     (1 := plain_window\<lparr>children := [2], xcb_client := 11\<rparr>,
      2 := plain_window\<lparr>leads := [1], lead_id := 11, m_modal := True, xcb_client := 12\<rparr>,
      3 := plain_window\<lparr>lead_id := 99, xcb_client := 13\<rparr>)"

lemma small_heap_rel: "lead_rel small_heap = {(2, 1)}"
  by (auto simp: lead_rel_def small_heap_def fun_upd_def split: if_splits)

lemma small_heap_ok: "transient_ok small_heap"
proof -
  have "converse_ok small_heap" by (auto simp: converse_ok_def small_heap_def fun_upd_def split: if_splits)
  then show ?thesis by (auto simp: transient_ok_def small_heap_rel acyclic_insert intro: wf_acyclic)
qed

definition small_space :: space where
  "small_space = (plain_space small_heap [1, 2, 3])\<lparr>group_members := (\<lambda>g. [])(7 := [1, 2])\<rparr>"

lemma small_space_fields [simp]:
  "heap small_space = small_heap" "group_members small_space 7 = [1, 2]"
  "root_window small_space = 99" "windows small_space = [1, 2, 3]"
  by (simp_all add: small_space_def)

end
