(* ===== verification/Transient_Theorems.thy ===== *)
theory Transient_Theorems
  imports Example_Space
begin

text \<open>The properties of the transient relation.\<close>

text \<open>C16. is_follower_of returns and decides whether a window follows another through leads, over
  any number of steps, as long as the relation has no cycle.\<close>

theorem is_follower_of_decides:
  assumes "transient_ok h"
  shows "is_follower_of h m window = Some ((m, window) \<in> {(c, l). l \<in> set (leads (h c))}\<^sup>+)"
  using is_follower_of_eq [OF assms] by (simp add: lead_rel_def)

theorem is_follower_of_decides_witness:
  "is_follower_of small_heap 2 1 = Some True \<and> is_follower_of small_heap 1 2 = Some False"
proof -
  have r: "{(c, l). l \<in> set (leads (small_heap c))} = {(2, 1)}"
    using small_heap_rel by (simp add: lead_rel_def)
  have "(1, 2) \<notin> {(2, 1 :: nat)}\<^sup>+" by (auto dest: tranclD)
  then show ?thesis
    using is_follower_of_decides [OF small_heap_ok, of 2 1] is_follower_of_decides [OF small_heap_ok, of 1 2]
    unfolding r by auto
qed

text \<open>Adding a window to its X11 group returns, closes no cycle, and makes it related to every
  other member: a group transient to all members that are no normal transients, and every group
  transient of the group to it unless it is a normal transient itself.\<close>

theorem update_group_add_relates_members:
  assumes "transient_ok (heap sp)" "win_group (win sp w) = Some g"
  shows "\<exists>sp'. update_group_add w sp = Some sp' \<and> transient_ok (heap sp')
    \<and> w \<in> set (group_members sp' g) \<and> lead_rel (heap sp) \<subseteq> lead_rel (heap sp')
    \<and> (\<forall>member\<in>set (group_members sp g). member \<noteq> w \<and>
         (is_group_transient sp w \<and> \<not> is_normal_transient sp' member
          \<or> is_group_transient sp member \<and> \<not> is_normal_transient sp w) \<longrightarrow> related sp' w member)"
proof -
  let ?s0 = "if contains (group_members sp g) w then sp
     else sp\<lparr>group_members := (group_members sp)(g := group_members sp g @ [w])\<rparr>"
  let ?tr = "is_group_transient sp w" let ?nt = "is_normal_transient sp w"
  let ?I = "\<lambda>s. transient_ok (heap s) \<and> lead_rel (heap sp) \<subseteq> lead_rel (heap s)
     \<and> group_members s = group_members ?s0 \<and> (\<forall>x. is_group_transient s x = is_group_transient sp x)"
  let ?Q = "\<lambda>m s. m \<noteq> w \<and> (?tr \<and> \<not> is_normal_transient s m
     \<or> is_group_transient s m \<and> \<not> ?nt) \<longrightarrow> related s w m"
  have h0: "heap ?s0 = heap sp" "root_window ?s0 = root_window sp" by simp_all
  have g0: "w \<in> set (group_members ?s0 g)" "set (group_members sp g) \<subseteq> set (group_members ?s0 g)" by auto
  have step: "\<exists>s'. update_group_add_member w ?tr ?nt m s = Some s' \<and> ?I s' \<and> ?Q m s' \<and> (\<forall>y. ?Q y s \<longrightarrow> ?Q y s')"
    if I: "?I s" for m s
  proof -
    have tr: "?tr = is_group_transient s w" using I by simp
    obtain s' where s': "update_group_add_member w ?tr ?nt m s = Some s'" "transient_ok (heap s')"
      "lead_rel (heap s) \<subseteq> lead_rel (heap s')" "trans_frame s' s"
      "\<forall>x. lead_id (heap s' x) = lead_id (heap s x)"
      "m \<noteq> w \<and> (?tr \<and> \<not> is_normal_transient s m \<or> is_group_transient s m \<and> \<not> ?nt) \<longrightarrow> related s' w m"
      using update_group_add_member_some [of s ?tr w ?nt m] I tr by blast
    have gt: "is_group_transient s' x = is_group_transient s x" for x
      using trans_frameD [OF s'(4)] s'(5) by (simp add: is_group_transient_def)
    have nt: "is_normal_transient s' x" if "is_normal_transient s x" for x
    proof -
      obtain l where "l \<in> set (leads (heap s x))" and n: "\<not> is_group_transient s x"
        using \<open>is_normal_transient s x\<close>
        by (cases "leads (heap s x)") (auto simp: is_normal_transient_def lead_def)
      then have "(x, l) \<in> lead_rel (heap s)" by simp
      then have "(x, l) \<in> lead_rel (heap s')" using s'(3) by (rule subsetD [rotated])
      then have "leads (heap s' x) \<noteq> []" by auto
      then show ?thesis using n gt by (simp add: is_normal_transient_def lead_none del: not_None_eq)
    qed
    have "?I s'" using I s'(2,3) trans_frameD(1) [OF s'(4)] gt by auto
    moreover have "?Q m s'" using s'(6) nt gt by blast
    moreover have "?Q y s'" if "?Q y s" for y using that nt gt related_mono [OF s'(3)] by blast
    ultimately show ?thesis using s'(1) by blast
  qed
  have "\<exists>t. ofold (update_group_add_member w ?tr ?nt) (group_members ?s0 g) ?s0 = Some t \<and> ?I t
     \<and> (\<forall>x\<in>set (group_members ?s0 g). ?Q x t) \<and> (\<forall>y. ?Q y ?s0 \<longrightarrow> ?Q y t)"
  proof (rule ofold_each [where I = ?I and Q = ?Q])
    show "?I ?s0" using assms(1) by (simp add: is_group_transient_def)
  qed (rule step)
  then obtain t where t: "ofold (update_group_add_member w ?tr ?nt) (group_members ?s0 g) ?s0 = Some t"
    "?I t" "\<forall>x\<in>set (group_members ?s0 g). ?Q x t" by blast
  have "is_group_transient ?s0 w = ?tr" "is_normal_transient ?s0 w = ?nt"
    by (simp_all add: is_group_transient_def is_normal_transient_def)
  then have "update_group_add w sp = Some t"
    using t(1) assms(2) by (simp add: update_group_add_def Let_def)
  then show ?thesis using t(2,3) g0 by auto
qed

theorem update_group_add_relates_members_witness:
  "\<exists>sp'. update_group_add 3 small_space = Some sp' \<and> transient_ok (heap sp')
     \<and> 3 \<in> set (group_members sp' 7) \<and> (2, 1) \<in> lead_rel (heap sp')"
proof -
  have g: "win_group (win small_space 3) = Some 7" by (simp add: small_heap_def)
  have ok: "transient_ok (heap small_space)" using small_heap_ok by simp
  from update_group_add_relates_members [OF ok g] show ?thesis
    by (auto simp: small_heap_rel simp del: lead_rel_iff)
qed

text \<open>C17. Destroying the transient part of a window, whose annexed leads end at a window that is not
  annexed, leaves no window behind that has the destroyed one as lead or child; all other pairs
  stay and the relation stays consistent.\<close>

theorem destroy_transient_leaves_no_reference:
  assumes "transient_ok (heap sp)" "lead_of_annexed_transient (heap sp) (Some m) = Some (Some t)"
  shows "\<exists>sp'. destroy_transient m sp = Some sp' \<and> transient_ok (heap sp')
    \<and> (\<forall>w. m \<notin> set (leads (win sp' w)) \<and> m \<notin> set (children (win sp' w)))
    \<and> (\<forall>c l. c \<noteq> m \<and> l \<noteq> m \<longrightarrow> (l \<in> set (leads (win sp' c)) \<longleftrightarrow> l \<in> set (leads (win sp c))))"
proof -
  obtain sp' where s: "destroy_transient m sp = Some sp'" "transient_ok (heap sp')"
    "lead_rel (heap sp') = lead_rel (heap sp) - {(c, l). c = m \<or> l = m}"
    using destroy_transient_some [OF assms] by blast
  have r: "l \<in> set (leads (win sp' c)) \<longleftrightarrow> l \<in> set (leads (win sp c)) \<and> c \<noteq> m \<and> l \<noteq> m" for c l
    using s(3) by (auto simp: lead_rel_def set_eq_iff)
  have "m \<notin> set (children (win sp' w))" for w
    using s(2) r by (auto simp: transient_ok_def converse_ok_def)
  then show ?thesis using s(1,2) r by auto
qed

theorem destroy_transient_leaves_no_reference_witness:
  "\<exists>sp'. destroy_transient 1 small_space = Some sp' \<and> transient_ok (heap sp')
    \<and> (\<forall>w. 1 \<notin> set (leads (win sp' w)) \<and> 1 \<notin> set (children (win sp' w)))"
proof -
  have "lead_of_annexed_transient (heap small_space) (Some 1) = Some (Some 1)"
    by (simp add: lead_of_annexed_transient.simps small_heap_def)
  from destroy_transient_leaves_no_reference [OF _ this] show ?thesis using small_heap_ok by auto
qed

text \<open>findModal returns, and finds a modal window among the transients of a window, over any
  number of steps, exactly if there is one.\<close>

theorem transient_find_modal_finds:
  assumes "transient_ok h"
  shows "\<exists>r. transient_find_modal h w = Some r \<and> (case r of
      None \<Rightarrow> \<forall>d. (d, w) \<in> (lead_rel h)\<^sup>+ \<longrightarrow> \<not> m_modal (h d)
    | Some d \<Rightarrow> (d, w) \<in> (lead_rel h)\<^sup>+ \<and> m_modal (h d))"
proof -
  have c: "c \<in> set (children (h w)) \<longleftrightarrow> (c, w) \<in> lead_rel h" for c
    using assms children_rel by (simp add: transient_ok_def)
  let ?P = "\<lambda>c r. case r of None \<Rightarrow> \<forall>d. (d, c) \<in> (lead_rel h)\<^sup>* \<longrightarrow> \<not> m_modal (h d)
    | Some d \<Rightarrow> (d, c) \<in> (lead_rel h)\<^sup>* \<and> m_modal (h d)"
  obtain r where r: "ofirst (find_modal_recursive h) (children (h w)) = Some r"
    "case r of None \<Rightarrow> \<forall>x\<in>set (children (h w)). ?P x None
       | Some y \<Rightarrow> \<exists>x\<in>set (children (h w)). ?P x (Some y)"
    using ofirst_some [of "children (h w)" "find_modal_recursive h" ?P] find_modal_recursive_some [OF assms]
    by blast
  then show ?thesis
    using c by (cases r)
      (auto simp: transient_find_modal_def intro: rtrancl_into_trancl1 dest!: tranclD2)
qed

theorem transient_find_modal_finds_witness:
  "\<exists>d. transient_find_modal small_heap 1 = Some (Some d) \<and> m_modal (small_heap d)"
proof -
  obtain r where r: "transient_find_modal small_heap 1 = Some r" "case r of
      None \<Rightarrow> \<forall>d. (d, 1) \<in> (lead_rel small_heap)\<^sup>+ \<longrightarrow> \<not> m_modal (small_heap d)
    | Some d \<Rightarrow> (d, 1) \<in> (lead_rel small_heap)\<^sup>+ \<and> m_modal (small_heap d)"
    using transient_find_modal_finds [OF small_heap_ok, of 1] by blast
  have "(2, 1) \<in> (lead_rel small_heap)\<^sup>+" by (auto simp: small_heap_rel)
  moreover have "m_modal (small_heap 2)" by (simp add: small_heap_def)
  ultimately show ?thesis using r by (cases r) auto
qed

text \<open>An X11 window that loses its last lead is no group transient afterwards, unlike what the
  comment in remove_lead says: its lead id becomes none, which is not the root window.\<close>

theorem remove_last_lead_is_no_group_transient:
  assumes "converse_ok (heap sp)" "leads (win sp w) = [m]" "m \<noteq> w"
    and "win_class (win sp w) = X11_Window" "root_window sp \<noteq> 0"
  shows "\<exists>sp'. remove_child m w sp = Some sp' \<and> leads (win sp' w) = []
    \<and> lead_id (win sp' w) = 0 \<and> \<not> is_group_transient sp' w"
proof -
  have "m \<in> set (leads (win sp w))" using assms(2) by simp
  then have "w \<in> set (children (win sp m))" using assms(1) unfolding converse_ok_def by blast
  then show ?thesis using assms(2-5)
    by (simp add: remove_child_def remove_lead_def Let_def is_group_transient_def remnant_count_def
        space_emit_def update_window_def)
qed

theorem remove_last_lead_is_no_group_transient_witness:
  "\<exists>sp'. remove_child 1 2 small_space = Some sp' \<and> leads (win sp' 2) = []
    \<and> lead_id (win sp' 2) = 0 \<and> \<not> is_group_transient sp' 2"
proof -
  have "converse_ok (heap small_space)" using small_heap_ok by (simp add: transient_ok_def)
  then show ?thesis
    by (rule remove_last_lead_is_no_group_transient) (simp_all add: small_heap_def)
qed

end
