(* ===== verification/Same_Application.thy ===== *)
theory Same_Application
  imports Transient_Props
begin

text \<open>
  Whether two windows belong to the same application: belong_to_same_application of
  como/win/x11/meta.h, belongsToSameApplication of the Wayland and the internal windows, and
  belong_to_same_client of como/win/util.h, which compares windows of the same class only.
\<close>

definition index_of_char :: "string \<Rightarrow> char \<Rightarrow> int" where
  "index_of_char s c = index_of s c"

definition get_wm_client_leader :: "window \<Rightarrow> nat" where
  "get_wm_client_leader w = (if wm_client_leader w \<noteq> 0 then wm_client_leader w else xcb_client w)"

text \<open>The part of same_app_window_role_match behind the walks to the top leads.\<close>

definition window_roles_match :: "space \<Rightarrow> wid \<Rightarrow> wid \<Rightarrow> bool \<Rightarrow> bool option" where
  "window_roles_match sp c1 c2 active_hack =
     (let pos1 = index_of_char (window_role (win sp c1)) (CHR ''#'');
          pos2 = index_of_char (window_role (win sp c2)) (CHR ''#'')
      in if pos1 \<ge> 0 \<and> pos2 \<ge> 0
         then if \<not> active_hack then Some (c1 = c2)
              else do {
                ctl1 \<leftarrow> win_control (win sp c1);
                if ctl_active ctl1 then Some True
                else do {
                  ctl2 \<leftarrow> win_control (win sp c2);
                  Some (if \<not> ctl_active ctl2 then c1 = c2 else True)
                }
              }
         else Some True)"

definition same_app_window_role_match :: "space \<Rightarrow> wid \<Rightarrow> wid \<Rightarrow> bool \<Rightarrow> bool option" where
  "same_app_window_role_match sp c1 c2 active_hack =
     do {
       top1 \<leftarrow> get_top_lead (heap sp) c1;
       if lead (heap sp) c1 \<noteq> None \<and> is_group_transient sp top1
       then Some (win_group (win sp top1) = win_group (win sp c2))
       else do {
         top2 \<leftarrow> get_top_lead (heap sp) c2;
         if lead (heap sp) c2 \<noteq> None \<and> is_group_transient sp top2
         then Some (win_group (win sp top1) = win_group (win sp top2))
         else window_roles_match sp top1 top2 active_hack
       }
     }"

definition x11_belong_to_same_application :: "space \<Rightarrow> wid \<Rightarrow> wid \<Rightarrow> flag \<Rightarrow> bool option" where
  "x11_belong_to_same_application sp c1 c2 checks =
     (let w1 = win sp c1; w2 = win sp c2;
          cross = flags_any (flag_and checks allow_cross_process)
      in if c1 = c2 then Some True
         else do {
           f1 \<leftarrow> (if lead (heap sp) c1 \<noteq> None then is_follower_of (heap sp) c1 c2 else Some False);
           if f1 then Some True
           else do {
             f2 \<leftarrow> (if lead (heap sp) c2 \<noteq> None then is_follower_of (heap sp) c2 c1 else Some False);
             if f2 then Some True
             else if win_group w1 = win_group w2 then Some True
             else if get_wm_client_leader w1 = get_wm_client_leader w2
                     \<and> get_wm_client_leader w1 \<noteq> xcb_client w1
                     \<and> get_wm_client_leader w2 \<noteq> xcb_client w2 then Some True
             else if (win_pid w1 \<noteq> win_pid w2 \<and> \<not> cross)
                     \<or> client_machine_name w1 \<noteq> client_machine_name w2 then Some False
             else if get_wm_client_leader w1 \<noteq> get_wm_client_leader w2
                     \<and> get_wm_client_leader w1 \<noteq> xcb_client w1
                     \<and> get_wm_client_leader w2 \<noteq> xcb_client w2 \<and> \<not> cross then Some False
             else if res_class w1 \<noteq> res_class w2 then Some False
             else do {
               m \<leftarrow> same_app_window_role_match sp c1 c2 (flags_any (flag_and checks relaxed_for_active));
               Some (if \<not> m \<and> \<not> cross then False
                     else if win_pid w1 = 0 \<or> win_pid w2 = 0 then False
                     else True)
             }
           }
         })"

definition wayland_belongs_to_same_application :: "space \<Rightarrow> wid \<Rightarrow> wid \<Rightarrow> flag \<Rightarrow> bool option" where
  "wayland_belongs_to_same_application sp this other checks =
     do {
       same_file \<leftarrow> (if flags_any (flag_and checks allow_cross_process)
          then do {
            c2 \<leftarrow> win_control (win sp other);
            c1 \<leftarrow> win_control (win sp this);
            Some (desktop_file_name c2 = desktop_file_name c1)
          }
          else Some False);
       if same_file then Some True
       else case surface_client (win sp other) of
           None \<Rightarrow> Some False
         | Some c \<Rightarrow> do { c1 \<leftarrow> surface_client (win sp this); Some (c = c1) }
     }"

definition belong_to_same_client :: "space \<Rightarrow> wid \<Rightarrow> wid \<Rightarrow> flag \<Rightarrow> bool option" where
  "belong_to_same_client sp win1 win2 checks =
     (if win_class (win sp win1) \<noteq> win_class (win sp win2) then Some False
      else case win_class (win sp win1) of
          X11_Window \<Rightarrow> x11_belong_to_same_application sp win1 win2 checks
        | Wayland_Window \<Rightarrow> wayland_belongs_to_same_application sp win1 win2 checks
        | Internal_Window \<Rightarrow> Some True)"

text \<open>The default argument of belong_to_same_client: no flag.\<close>

definition same_client :: "space \<Rightarrow> wid \<Rightarrow> wid \<Rightarrow> bool option" where
  "same_client sp win1 win2 = belong_to_same_client sp win1 win2 0"

section \<open>Termination, reflexivity, transients\<close>

lemma window_roles_match_some:
  "win_control (win sp c1) \<noteq> None \<Longrightarrow> win_control (win sp c2) \<noteq> None \<Longrightarrow>
     window_roles_match sp c1 c2 hack \<noteq> None"
  by (auto simp: window_roles_match_def Let_def simp del: not_None_eq)

lemma same_app_window_role_match_some:
  assumes "transient_ok (heap sp)" "hack \<longrightarrow> (\<forall>w. win_control (win sp w) \<noteq> None)"
  shows "same_app_window_role_match sp c1 c2 hack \<noteq> None"
proof -
  obtain t1 t2 where "get_top_lead (heap sp) c1 = Some t1" "get_top_lead (heap sp) c2 = Some t2"
    using get_top_lead_some [OF assms(1)] by blast
  moreover have "window_roles_match sp t1 t2 hack \<noteq> None"
    using assms(2) window_roles_match_some by (cases hack) (auto simp: window_roles_match_def Let_def)
  ultimately show ?thesis by (simp add: same_app_window_role_match_def)
qed

lemma flags_zero [simp]: "flags_any (flag_and 0 v) = False"
  by (simp add: flags_any_def flag_and_def)

text \<open>The test whether the first window follows the second, where it has a lead.\<close>

lemma lead_follower_test:
  assumes "transient_ok (heap sp)"
  shows "(if lead (heap sp) a \<noteq> None then is_follower_of (heap sp) a b else Some False)
     = Some ((a, b) \<in> (lead_rel (heap sp))\<^sup>+)"
proof (cases "lead (heap sp) a")
  case None
  then have "(a, b) \<notin> (lead_rel (heap sp))\<^sup>+"
    by (auto simp: lead_none dest: tranclD)
  with None show ?thesis by simp
qed (simp add: is_follower_of_eq [OF assms])

lemma x11_same_application_some:
  assumes "transient_ok (heap sp)"
  shows "x11_belong_to_same_application sp c1 c2 0 \<noteq> None"
proof -
  obtain m where "same_app_window_role_match sp c1 c2 False = Some m"
    using same_app_window_role_match_some [OF assms, of False] by auto
  note m = this
  show ?thesis
    unfolding x11_belong_to_same_application_def Let_def lead_follower_test [OF assms] flags_zero
      not_False_eq_True
    by (simp only: m Option.bind.bind_lunit if_distrib [of Some, symmetric] option.distinct
        not_False_eq_True)
qed

lemma x11_same_application_follower:
  assumes "transient_ok (heap sp)"
    and "(c1, c2) \<in> (lead_rel (heap sp))\<^sup>+ \<or> (c2, c1) \<in> (lead_rel (heap sp))\<^sup>+"
  shows "x11_belong_to_same_application sp c1 c2 checks = Some True"
  using assms(2)
proof (elim disjE)
  assume "(c1, c2) \<in> (lead_rel (heap sp))\<^sup>+"
  then show ?thesis
    unfolding x11_belong_to_same_application_def Let_def lead_follower_test [OF assms(1)]
    by (simp only: Option.bind.bind_lunit if_True if_cancel)
next
  assume "(c2, c1) \<in> (lead_rel (heap sp))\<^sup>+"
  then show ?thesis
    unfolding x11_belong_to_same_application_def Let_def lead_follower_test [OF assms(1)]
    by (simp only: Option.bind.bind_lunit if_True if_cancel)
qed

lemma same_client_refl:
  assumes "win_class (win sp w) = Wayland_Window \<Longrightarrow> surface_client (win sp w) \<noteq> None"
  shows "same_client sp w w = Some True"
  using assms by (cases "win_class (win sp w)")
    (auto simp: same_client_def belong_to_same_client_def x11_belong_to_same_application_def Let_def
      wayland_belongs_to_same_application_def)

definition clients_known :: "space \<Rightarrow> bool" where
  "clients_known sp \<longleftrightarrow> transient_ok (heap sp)
     \<and> (\<forall>w. win_class (win sp w) = Wayland_Window \<longrightarrow> surface_client (win sp w) \<noteq> None)"

lemma same_client_some:
  assumes "clients_known sp"
  shows "same_client sp a b \<noteq> None"
proof -
  have ok: "transient_ok (heap sp)" and sc: "win_class (win sp w) = Wayland_Window \<Longrightarrow>
      surface_client (win sp w) \<noteq> None" for w using assms by (simp_all add: clients_known_def)
  show ?thesis
    using x11_same_application_some [OF ok, of a b] sc [of a]
    by (cases "win_class (win sp a)")
      (auto simp: same_client_def belong_to_same_client_def wayland_belongs_to_same_application_def
        split: option.split)
qed

lemma same_client_self: "clients_known sp \<Longrightarrow> same_client sp w w = Some True"
  by (rule same_client_refl) (simp add: clients_known_def)

end
