(* ===== verification/Focus_Chain.thy ===== *)
theory Focus_Chain
  imports Same_Application
begin

text \<open>
  The focus chains: como/win/focus_chain.h, focus_chain_edit.h and focus_chain_find.h. A chain is
  a list with the most recently used window last. The chains of the subspaces are an unordered
  map from X11 ids; no operation depends on the order of its iteration, since each round changes
  one chain by that chain alone.
\<close>

definition map_chains :: "(nat \<Rightarrow> wid list \<Rightarrow> wid list) \<Rightarrow> chain_map \<Rightarrow> chain_map" where
  "map_chains f cs = map (\<lambda>(key, chain). (key, f key chain)) cs"

section \<open>Editing (focus_chain_edit.h)\<close>

definition focus_chain_remove :: "wid \<Rightarrow> space \<Rightarrow> space" where
  "focus_chain_remove w sp =
     sp\<lparr>chain_subspaces := map_chains (\<lambda>key chain. remove_all chain w) (chain_subspaces sp),
        latest_use := remove_all (latest_use sp) w\<rparr>"

definition chain_insert :: "nat \<Rightarrow> chain_map \<Rightarrow> chain_map" where
  "chain_insert i cs = (if i \<in> fst ` set cs then cs else cs @ [(i, [])])"

definition chain_erase :: "nat \<Rightarrow> chain_map \<Rightarrow> chain_map" where
  "chain_erase i cs = filter (\<lambda>p. fst p \<noteq> i) cs"

definition focus_chain_resize :: "nat \<Rightarrow> nat \<Rightarrow> space \<Rightarrow> space" where
  "focus_chain_resize prev_size next_size sp =
     (let cs = fold chain_insert [prev_size + 1..<next_size + 1] (chain_subspaces sp);
          cs = fold chain_erase (rev [next_size + 1..<prev_size + 1]) cs
      in sp\<lparr>chain_subspaces := cs\<rparr>)"

definition focus_chain_at_subspace_contains :: "space \<Rightarrow> wid \<Rightarrow> nat \<Rightarrow> bool" where
  "focus_chain_at_subspace_contains sp w subsp =
     (case map_of (chain_subspaces sp) subsp of
        None \<Rightarrow> False
      | Some chain \<Rightarrow> contains chain w)"

definition focus_chain_insert_window_into_chain :: "wid \<Rightarrow> wid list \<Rightarrow> wid option \<Rightarrow> wid list" where
  "focus_chain_insert_window_into_chain w chain active_window =
     (if contains chain w then chain
      else if active_window \<noteq> None \<and> active_window \<noteq> Some w \<and> chain \<noteq> []
              \<and> Some (last chain) = active_window
      then butlast chain @ [w, last chain]
      else chain @ [w])"

definition focus_chain_make_first_in_chain :: "wid \<Rightarrow> wid list \<Rightarrow> wid list" where
  "focus_chain_make_first_in_chain w chain = remove_all chain w @ [w]"

definition focus_chain_make_last_in_chain :: "wid \<Rightarrow> wid list \<Rightarrow> wid list" where
  "focus_chain_make_last_in_chain w chain = w # remove_all chain w"

definition focus_chain_update_window_in_chain ::
    "wid \<Rightarrow> focus_chain_change \<Rightarrow> wid list \<Rightarrow> wid option \<Rightarrow> wid list" where
  "focus_chain_update_window_in_chain w change chain active_window =
     (if change = make_first then focus_chain_make_first_in_chain w chain
      else if change = make_last then focus_chain_make_last_in_chain w chain
      else focus_chain_insert_window_into_chain w chain active_window)"

definition focus_chain_update :: "wid \<Rightarrow> focus_chain_change \<Rightarrow> space \<Rightarrow> space" where
  "focus_chain_update w change sp =
     (if \<not> wants_tab_focus (win sp w) then focus_chain_remove w sp
      else let cs = (if on_all_subspaces sp w
             then map_chains (\<lambda>key chain.
               if key = chain_current_subspace sp \<and> (change = make_first \<or> change = make_last)
               then if change = make_first then focus_chain_make_first_in_chain w chain
                    else focus_chain_make_last_in_chain w chain
               else focus_chain_insert_window_into_chain w chain (chain_active_window sp))
               (chain_subspaces sp)
             else map_chains (\<lambda>key chain.
               if on_subspace sp w (int key)
               then focus_chain_update_window_in_chain w change chain (chain_active_window sp)
               else remove_all chain w) (chain_subspaces sp))
      in sp\<lparr>chain_subspaces := cs,
            latest_use := focus_chain_update_window_in_chain w change (latest_use sp)
                            (chain_active_window sp)\<rparr>)"

definition focus_chain_first_latest_use :: "space \<Rightarrow> wid option" where
  "focus_chain_first_latest_use sp =
     (case latest_use sp of [] \<Rightarrow> None | w # ws \<Rightarrow> Some w)"

definition focus_chain_next_latest_use :: "space \<Rightarrow> wid \<Rightarrow> wid option" where
  "focus_chain_next_latest_use sp reference =
     (let latest_chain = latest_use sp
      in if latest_chain = [] then None
         else let it = find_it latest_chain reference
              in if it = length latest_chain then Some (hd latest_chain)
                 else if it = 0 then Some (last latest_chain)
                 else Some (latest_chain ! (it - 1)))"

text \<open>The loop from the back: the index of the last element the test accepts.\<close>

fun find_from_back :: "('a \<Rightarrow> bool option) \<Rightarrow> 'a list \<Rightarrow> nat \<Rightarrow> nat option option" where
  "find_from_back p xs 0 = Some None"
| "find_from_back p xs (Suc i) =
     Option.bind (p (xs ! i)) (\<lambda>b. if b then Some (Some i) else find_from_back p xs i)"

definition focus_chain_move_window_after_in_chain ::
    "space \<Rightarrow> wid \<Rightarrow> wid \<Rightarrow> wid list \<Rightarrow> wid list option" where
  "focus_chain_move_window_after_in_chain sp w reference chain =
     (if \<not> contains chain reference then Some chain
      else do {
        let chain = remove_all chain w;
        same \<leftarrow> same_client sp reference w;
        if same then Some (insert_at (find_it chain reference) w chain)
        else do {
          it \<leftarrow> find_from_back (same_client sp reference) chain (length chain);
          Some (case it of None \<Rightarrow> chain | Some i \<Rightarrow> insert_at i w chain)
        }
      })"

definition focus_chain_move_window_after :: "wid \<Rightarrow> wid \<Rightarrow> space \<Rightarrow> space option" where
  "focus_chain_move_window_after w reference sp =
     (if \<not> wants_tab_focus (win sp w) then Some sp
      else do {
        cs \<leftarrow> omap (\<lambda>(key, chain).
                if \<not> on_subspace sp w (int key) then Some (key, chain)
                else map_option (Pair key) (focus_chain_move_window_after_in_chain sp w reference chain))
              (chain_subspaces sp);
        latest \<leftarrow> focus_chain_move_window_after_in_chain sp w reference (latest_use sp);
        Some (sp\<lparr>chain_subspaces := cs, latest_use := latest\<rparr>)
      })"

section \<open>Finding (focus_chain_find.h)\<close>

text \<open>The reverse loop over a chain; \<open>on_scr\<close> stands for on_screen, which compares the geometry of
  a window with the one of an output, and outputs are pointers that may be null.\<close>

definition focus_chain_get_for_activation :: "space \<Rightarrow> nat \<Rightarrow> nat option \<Rightarrow> wid option" where
  "focus_chain_get_for_activation sp subsp output =
     (case map_of (chain_subspaces sp) subsp of
        None \<Rightarrow> None
      | Some chain \<Rightarrow>
          List.find (\<lambda>w. if \<not> shown (win sp w) then False
                         else if has_separate_screen_focus sp \<and> central_output (win sp w) \<noteq> output
                         then False else True) (rev chain))"

definition focus_chain_get_for_activation_on_current_output ::
    "(space \<Rightarrow> nat option) \<Rightarrow> space \<Rightarrow> nat \<Rightarrow> wid option" where
  "focus_chain_get_for_activation_on_current_output get_current_output sp subsp =
     focus_chain_get_for_activation sp subsp (get_current_output sp)"

definition focus_chain_is_usable_focus_candidate ::
    "(wid \<Rightarrow> nat option \<Rightarrow> bool) \<Rightarrow> space \<Rightarrow> wid \<Rightarrow> nat option \<Rightarrow> bool" where
  "focus_chain_is_usable_focus_candidate on_scr sp w output =
     (if \<not> shown (win sp w) \<or> \<not> on_current_subspace sp w then False
      else if \<not> has_separate_screen_focus sp then True
      else on_scr w output)"

definition focus_chain_next ::
    "(wid \<Rightarrow> nat option \<Rightarrow> bool) \<Rightarrow> space \<Rightarrow> wid option \<Rightarrow> nat \<Rightarrow> nat option \<Rightarrow> wid option" where
  "focus_chain_next on_scr sp reference subsp output =
     (case map_of (chain_subspaces sp) subsp of
        None \<Rightarrow> None
      | Some chain \<Rightarrow>
          List.find (\<lambda>w. \<not> (reference \<noteq> None \<and> Some w = reference)
                         \<and> focus_chain_is_usable_focus_candidate on_scr sp w output) (rev chain))"

end
