(* ===== verification/Focus_Chain_Theorems.thy ===== *)
theory Focus_Chain_Theorems
  imports Focus_Chain Example_Space
begin

text \<open>The properties of the focus chains.\<close>

section \<open>One chain\<close>

definition others :: "wid \<Rightarrow> wid list \<Rightarrow> wid list" where
  "others w chain = filter (\<lambda>v. v \<noteq> w) chain"

lemma others_idle: "w \<notin> set chain \<Longrightarrow> others w chain = chain"
  by (auto simp: others_def filter_id_conv)

lemma insert_window_result:
  "w \<in> set (focus_chain_insert_window_into_chain w chain act)"
  "others w (focus_chain_insert_window_into_chain w chain act) = others w chain"
  "distinct chain \<Longrightarrow> distinct (focus_chain_insert_window_into_chain w chain act)"
proof -
  show "w \<in> set (focus_chain_insert_window_into_chain w chain act)"
    by (simp add: focus_chain_insert_window_into_chain_def)
  show "others w (focus_chain_insert_window_into_chain w chain act) = others w chain"
    by (cases chain rule: rev_cases) (auto simp: focus_chain_insert_window_into_chain_def others_def)
  show "distinct chain \<Longrightarrow> distinct (focus_chain_insert_window_into_chain w chain act)"
    by (cases chain rule: rev_cases) (auto simp: focus_chain_insert_window_into_chain_def)
qed

lemma update_window_result:
  "w \<in> set (focus_chain_update_window_in_chain w change chain act)"
  "others w (focus_chain_update_window_in_chain w change chain act) = others w chain"
  "distinct chain \<Longrightarrow> distinct (focus_chain_update_window_in_chain w change chain act)"
  using insert_window_result
  by (auto simp: focus_chain_update_window_in_chain_def focus_chain_make_first_in_chain_def
      focus_chain_make_last_in_chain_def others_def remove_all_def)

lemma remove_all_result:
  "w \<notin> set (remove_all chain w)" "others w (remove_all chain w) = others w chain"
  by (simp_all add: others_def remove_all_def)

lemma map_of_map_chains: "map_of (map_chains f cs) k = map_option (f k) (map_of cs k)"
  by (induction cs) (auto simp: map_chains_def)

section \<open>Updating\<close>

text \<open>What a change may do to one chain: w is in it afterwards exactly if the flag says so, the
  other windows keep their order, and no window appears twice.\<close>

definition chain_updated :: "wid \<Rightarrow> bool \<Rightarrow> wid list \<Rightarrow> wid list \<Rightarrow> bool" where
  "chain_updated w present chain chain' \<longleftrightarrow> (w \<in> set chain' \<longleftrightarrow> present)
     \<and> others w chain' = others w chain \<and> (distinct chain \<longrightarrow> distinct chain')"

lemma chain_updated_cases:
  "chain_updated w True chain (focus_chain_insert_window_into_chain w chain act)"
  "chain_updated w True chain (focus_chain_update_window_in_chain w change chain act)"
  "chain_updated w True chain (focus_chain_make_first_in_chain w chain)"
  "chain_updated w True chain (focus_chain_make_last_in_chain w chain)"
  "chain_updated w False chain (remove_all chain w)"
proof -
  have u: "chain_updated w True chain (focus_chain_update_window_in_chain w ch chain act)" for ch
    by (simp add: chain_updated_def update_window_result)
  then show "chain_updated w True chain (focus_chain_update_window_in_chain w change chain act)" .
  show "chain_updated w True chain (focus_chain_insert_window_into_chain w chain act)"
    by (simp add: chain_updated_def insert_window_result)
  show "chain_updated w True chain (focus_chain_make_first_in_chain w chain)"
    "chain_updated w True chain (focus_chain_make_last_in_chain w chain)"
    using u [of make_first] u [of make_last] by (simp_all add: focus_chain_update_window_in_chain_def)
  show "chain_updated w False chain (remove_all chain w)"
    by (simp add: chain_updated_def remove_all_result)
qed

text \<open>C18. focus_chain_update leaves a window in the chain of a subspace exactly if the window wants
  tab focus and is on that subspace, and in the chain of all windows exactly if it wants tab
  focus. In every chain the other windows keep their order and no window appears twice.\<close>

theorem focus_chain_update_membership:
  assumes "map_of (chain_subspaces sp) k = Some chain"
  shows "\<exists>chain'. map_of (chain_subspaces (focus_chain_update w change sp)) k = Some chain'
    \<and> chain_updated w (wants_tab_focus (win sp w) \<and> on_subspace sp w (int k)) chain chain'
    \<and> chain_updated w (wants_tab_focus (win sp w)) (latest_use sp)
        (latest_use (focus_chain_update w change sp))"
proof (cases "wants_tab_focus (win sp w)")
  case False
  then show ?thesis using assms chain_updated_cases(5)
    by (simp add: focus_chain_update_def focus_chain_remove_def map_of_map_chains)
next
  case True
  show ?thesis
  proof (cases "on_all_subspaces sp w")
    case all: True
    then have "on_subspace sp w i" for i by (simp add: on_subspace_def on_subspace_ptr_def)
    with True all assms chain_updated_cases show ?thesis
      by (simp add: focus_chain_update_def map_of_map_chains Let_def)
  next
    case False
    with True assms chain_updated_cases show ?thesis
      by (simp add: focus_chain_update_def map_of_map_chains Let_def)
  qed
qed

theorem focus_chain_update_membership_witness:
  "\<exists>chain'. map_of (chain_subspaces (focus_chain_update 1 make_first small_space)) 3 = Some chain'
    \<and> chain_updated 1 True [] chain' \<and> chain_updated 1 True [] (latest_use (focus_chain_update 1 make_first small_space))"
proof -
  have m: "map_of (chain_subspaces small_space) 3 = Some []" by (simp add: small_space_def)
  have w: "wants_tab_focus (win small_space 1)" "on_subspace small_space 1 (int 3)"
    by (simp_all add: wants_tab_focus_def is_normal_def small_heap_def on_subspace_def
        on_subspace_ptr_def on_all_subspaces_def Let_def)
  have l: "latest_use small_space = []" by (simp add: small_space_def)
  from focus_chain_update_membership [OF m, of 1 make_first] w l show ?thesis by simp
qed

text \<open>A window made the first is the most recently used one afterwards: it is last in the chain
  of all windows and in the chain of the current subspace, if it is there.\<close>

theorem focus_chain_make_first_is_last:
  assumes "wants_tab_focus (win sp w)" "on_subspace sp w (int (chain_current_subspace sp))"
    and "map_of (chain_subspaces sp) (chain_current_subspace sp) = Some chain"
  shows "last (latest_use (focus_chain_update w make_first sp)) = w
    \<and> (\<exists>chain'. map_of (chain_subspaces (focus_chain_update w make_first sp)) (chain_current_subspace sp)
          = Some chain' \<and> last chain' = w)"
  using assms
  by (simp add: focus_chain_update_def map_of_map_chains focus_chain_update_window_in_chain_def
      focus_chain_make_first_in_chain_def Let_def)

theorem focus_chain_make_first_is_last_witness:
  "last (latest_use (focus_chain_update 1 make_first small_space)) = 1
    \<and> (\<exists>chain'. map_of (chain_subspaces (focus_chain_update 1 make_first small_space)) 2
          = Some chain' \<and> last chain' = 1)"
proof -
  have c: "chain_current_subspace small_space = 2" by (simp add: small_space_def)
  have "wants_tab_focus (win small_space 1)"
    "on_subspace small_space 1 (int (chain_current_subspace small_space))"
    "map_of (chain_subspaces small_space) (chain_current_subspace small_space) = Some []"
    by (simp_all add: wants_tab_focus_def is_normal_def small_heap_def on_subspace_def
        on_subspace_ptr_def on_all_subspaces_def Let_def c) (simp add: small_space_def)
  from focus_chain_make_first_is_last [OF this] show ?thesis by (simp only: c)
qed

section \<open>Resizing\<close>

lemma fold_chain_insert:
  "map_of (fold chain_insert ks cs) k = (case map_of cs k of Some c \<Rightarrow> Some c
     | None \<Rightarrow> if k \<in> set ks then Some [] else None)"
proof (induction ks arbitrary: cs)
  case (Cons i ks)
  have "map_of (chain_insert i cs) k = (case map_of cs k of Some c \<Rightarrow> Some c
     | None \<Rightarrow> if k = i then Some [] else None)"
  proof (cases "i \<in> fst ` set cs")
    case True
    then have "map_of cs i \<noteq> None" by (simp add: map_of_eq_None_iff)
    then show ?thesis using True by (auto simp: chain_insert_def split: option.split)
  qed (simp add: chain_insert_def map_add_def split: option.split)
  with Cons show ?case by (auto split: option.splits)
qed (simp split: option.split)

lemma fold_chain_erase:
  "map_of (fold chain_erase ks cs) k = (if k \<in> set ks then None else map_of cs k)"
proof (induction ks arbitrary: cs)
  case (Cons i ks)
  have "map_of (chain_erase i cs) k = (if k = i then None else map_of cs k)"
    by (induction cs) (auto simp: chain_erase_def)
  with Cons show ?case by auto
qed simp

text \<open>Resizing from the chains of subspaces 1 to m to n subspaces gives exactly the chains of 1
  to n; the chains of the subspaces that stay are kept, new ones are empty.\<close>

theorem focus_chain_resize_keys:
  assumes "\<forall>k. map_of (chain_subspaces sp) k \<noteq> None \<longleftrightarrow> 1 \<le> k \<and> k \<le> m"
  shows "map_of (chain_subspaces (focus_chain_resize m n sp)) k
    = (if 1 \<le> k \<and> k \<le> n
       then (if k \<le> m then map_of (chain_subspaces sp) k else Some [])
       else None)"
proof -
  have a: "map_of (chain_subspaces sp) k = None" if "\<not> (1 \<le> k \<and> k \<le> m)"
    using assms that by blast
  show ?thesis
  proof (cases "1 \<le> k \<and> k \<le> m")
    case True
    then obtain c where "map_of (chain_subspaces sp) k = Some c" using assms by blast
    with True show ?thesis
      by (auto simp: focus_chain_resize_def Let_def fold_chain_erase fold_chain_insert simp del: upt_Suc)
  next
    case False
    then show ?thesis using a
      by (auto simp: focus_chain_resize_def Let_def fold_chain_erase fold_chain_insert simp del: upt_Suc)
  qed
qed

theorem focus_chain_resize_keys_witness:
  "map_of (chain_subspaces (focus_chain_resize 3 2 small_space)) 3 = None
    \<and> map_of (chain_subspaces (focus_chain_resize 3 5 small_space)) 5 = Some []"
proof -
  have "\<forall>k. map_of (chain_subspaces small_space) k \<noteq> None \<longleftrightarrow> 1 \<le> k \<and> k \<le> 3"
    by (auto simp: small_space_def split: if_splits)
  from focus_chain_resize_keys [OF this, of 2 3] focus_chain_resize_keys [OF this, of 5 5]
  show ?thesis by simp
qed

section \<open>Moving after another window\<close>

lemma find_from_back_some:
  assumes "\<And>x. p x = Some (q x)"
  shows "find_from_back p xs n = Some (if \<exists>i<n. q (xs ! i) then Some (GREATEST i. i < n \<and> q (xs ! i)) else None)"
proof (induction n)
  case (Suc n)
  show ?case
  proof (cases "q (xs ! n)")
    case True
    then have "(GREATEST i. i < Suc n \<and> q (xs ! i)) = n" by (intro Greatest_equality) auto
    with True assms show ?thesis by auto
  next
    case False
    then have "i < Suc n \<and> q (xs ! i) \<longleftrightarrow> i < n \<and> q (xs ! i)" for i by (auto simp: less_Suc_eq)
    with False Suc assms show ?thesis by simp
  qed
qed simp

text \<open>Moving a window after a reference window that is in the chain returns, puts the window
  right in front of, that is less recent than, a window of the reference's client, and leaves the
  others in their order: in front of the reference itself if the window belongs to the same
  client, otherwise of the most recent window of the client.\<close>

theorem focus_chain_move_after_position:
  assumes "clients_known sp" "reference \<in> set chain" "w \<noteq> reference" "distinct chain"
  shows "\<exists>i rest. focus_chain_move_window_after_in_chain sp w reference chain
      = Some (take i rest @ w # drop i rest)
    \<and> rest = others w chain \<and> i < length rest \<and> same_client sp reference (rest ! i) = Some True
    \<and> (if same_client sp reference w = Some True then rest ! i = reference
       else \<forall>j<length rest. i < j \<longrightarrow> same_client sp reference (rest ! j) = Some False)"
proof -
  let ?rest = "others w chain"
  have rest: "remove_all chain w = ?rest" by (simp add: remove_all_def others_def)
  have mem: "reference \<in> set ?rest" using assms(2,3) by (simp add: others_def)
  define q where "q x = the (same_client sp reference x)" for x
  have q: "same_client sp reference x = Some (q x)" for x
    using same_client_some [OF assms(1), of reference x] by (auto simp: q_def)
  have qr: "q reference" using same_client_self [OF assms(1), of reference] by (simp add: q_def)
  show ?thesis
  proof (cases "q w")
    case True
    have i: "std_find ?rest reference < length ?rest" "?rest ! std_find ?rest reference = reference"
      using mem by simp_all
    have "focus_chain_move_window_after_in_chain sp w reference chain
        = Some (take (std_find ?rest reference) ?rest @ w # drop (std_find ?rest reference) ?rest)"
      using assms(2) True rest
      by (simp add: focus_chain_move_window_after_in_chain_def q Let_def find_it_def insert_at_def)
    then show ?thesis using i True q qr by metis
  next
    case False
    let ?P = "\<lambda>i. i < length ?rest \<and> q (?rest ! i)"
    obtain j where j: "?P j" using mem qr by (auto simp: in_set_conv_nth)
    define i where "i = (GREATEST i. ?P i)"
    have i: "?P i" unfolding i_def by (rule GreatestI_nat [where P = ?P, OF j, of "length ?rest"]) simp
    have above: "k \<le> i" if "?P k" for k
      unfolding i_def by (rule Greatest_le_nat [where P = ?P, OF that, of "length ?rest"]) simp
    have "find_from_back (same_client sp reference) ?rest (length ?rest) = Some (Some i)"
      using find_from_back_some [of "same_client sp reference" q ?rest "length ?rest", OF q] j
      by (auto simp: i_def)
    then have "focus_chain_move_window_after_in_chain sp w reference chain
        = Some (take i ?rest @ w # drop i ?rest)"
      using assms(2) False rest
      by (simp add: focus_chain_move_window_after_in_chain_def q Let_def insert_at_def)
    moreover have "\<forall>j<length ?rest. i < j \<longrightarrow> same_client sp reference (?rest ! j) = Some False"
      using above q by (metis not_less)
    ultimately show ?thesis using i q False by auto
  qed
qed

theorem focus_chain_move_after_position_witness:
  "\<exists>i rest. focus_chain_move_window_after_in_chain small_space 3 1 [3, 1, 2]
      = Some (take i rest @ 3 # drop i rest) \<and> rest = [1, 2] \<and> i < 2"
proof -
  have "win_class (small_heap w) = X11_Window" for w by (auto simp: small_heap_def)
  then have "clients_known small_space" using small_heap_ok by (simp add: clients_known_def)
  from focus_chain_move_after_position [OF this, of 1 "[3, 1, 2]" 3] show ?thesis
    by (auto simp: others_def)
qed

section \<open>The window to activate\<close>

text \<open>C19. The window to activate on a subspace is the most recently used one of its chain that is
  shown and, with separate screen focus, on the output; there is none exactly if no window of the
  chain is eligible.\<close>

theorem focus_chain_get_for_activation_most_recent:
  assumes "map_of (chain_subspaces sp) subsp = Some chain"
  shows "case focus_chain_get_for_activation sp subsp output of
      None \<Rightarrow> \<forall>v\<in>set chain. \<not> shown (win sp v)
        \<or> has_separate_screen_focus sp \<and> central_output (win sp v) \<noteq> output
    | Some w \<Rightarrow> (\<exists>older newer. chain = older @ w # newer
        \<and> shown (win sp w) \<and> (has_separate_screen_focus sp \<longrightarrow> central_output (win sp w) = output)
        \<and> (\<forall>v\<in>set newer. \<not> shown (win sp v)
             \<or> has_separate_screen_focus sp \<and> central_output (win sp v) \<noteq> output))"
proof -
  let ?P = "\<lambda>w. if \<not> shown (win sp w) then False
                 else if has_separate_screen_focus sp \<and> central_output (win sp w) \<noteq> output
                 then False else True"
  have f: "focus_chain_get_for_activation sp subsp output = List.find ?P (rev chain)"
    using assms by (simp add: focus_chain_get_for_activation_def)
  show ?thesis
  proof (cases "List.find ?P (rev chain)")
    case None
    then have "\<forall>v\<in>set chain. \<not> ?P v" by (simp only: find_rev_None)
    then show ?thesis unfolding f None by (auto split: if_splits)
  next
    case (Some w)
    then have "\<exists>older newer. chain = older @ w # newer \<and> ?P w \<and> (\<forall>v\<in>set newer. \<not> ?P v)"
      by (rule find_rev_Some)
    then show ?thesis unfolding f Some option.case by (elim exE conjE) (auto split: if_splits)
  qed
qed

theorem focus_chain_get_for_activation_most_recent_witness:
  "\<exists>w. focus_chain_get_for_activation (small_space\<lparr>chain_subspaces := [(1, [2, 3])]\<rparr>) 1 None = Some w"
proof (rule ccontr)
  let ?sp = "small_space\<lparr>chain_subspaces := [(1, [2, 3])]\<rparr>"
  assume "\<nexists>w. focus_chain_get_for_activation ?sp 1 None = Some w"
  then have "focus_chain_get_for_activation ?sp 1 None = None" by auto
  moreover have "map_of (chain_subspaces ?sp) 1 = Some [2, 3]" by simp
  ultimately have "\<forall>v\<in>set [2, 3]. \<not> shown (win ?sp v)
      \<or> has_separate_screen_focus ?sp \<and> central_output (win ?sp v) \<noteq> None"
    using focus_chain_get_for_activation_most_recent [of ?sp 1 "[2, 3]" None] by simp
  then show False by (simp add: small_space_def small_heap_def)
qed

end
