(* ===== verification/Layers.thy ===== *)
theory Layers
  imports Transient_Props
begin

text \<open>
  The layer of a window: como/win/layers.h up to invalidate_layer. get_layer caches what
  belong_to_layer says in the window; the theory shows that the cache cannot be observed: every
  later get_layer returns what it would have returned before.

  None is the dereference of a control a window does not have.
\<close>

definition most_recently_activated_window :: "space \<Rightarrow> wid option" where
  "most_recently_activated_window sp =
     (let candidates = should_get_focus sp
      in if length candidates > 0 then Some (last candidates) else active sp)"

definition is_active_fullscreen :: "space \<Rightarrow> wid \<Rightarrow> bool option" where
  "is_active_fullscreen sp w =
     do {
       ctl \<leftarrow> win_control (win sp w);
       if \<not> ctl_fullscreen ctl then Some False
       else case most_recently_activated_window sp of
           None \<Rightarrow> Some False
         | Some act_win \<Rightarrow>
             Some (if win_class (win sp act_win) \<noteq> win_class (win sp w)
                   then central_output (win sp act_win) \<noteq> central_output (win sp w)
                   else act_win = w
                     \<or> central_output (win sp act_win) \<noteq> central_output (win sp w)
                     \<or> contains (leads (win sp act_win)) w)
     }"

definition belong_to_layer :: "space \<Rightarrow> wid \<Rightarrow> win_layer option" where
  "belong_to_layer sp w =
     (let x = win sp w
      in if win_class x = Internal_Window then Some layer_unmanaged
         else if win_class x = Wayland_Window \<and> lock_screen x then Some layer_unmanaged
         else if is_desktop x then Some (if showing_desktop sp then layer_above else layer_desktop)
         else if is_splash x then Some layer_normal
         else if is_popup x then Some layer_popup
         else if is_dock x \<or> is_applet_popup x
         then Some (if showing_desktop sp then layer_notification else layer_above)
         else if is_on_screen_display x then Some layer_on_screen_display
         else if is_notification x then Some layer_notification
         else if is_critical_notification x then Some layer_critical_notification
         else if showing_desktop sp \<and> belongs_to_desktop x then Some layer_above
         else do {
           ctl \<leftarrow> win_control x;
           if keep_below ctl then Some layer_below
           else do {
             act \<leftarrow> is_active_fullscreen sp w;
             Some (if act then layer_active
                   else if keep_above ctl then layer_above
                   else layer_normal)
           }
         })"

partial_function (option) get_layer :: "wid \<Rightarrow> space \<Rightarrow> (space \<times> win_layer) option" where
  "get_layer w sp =
     (if lead (heap sp) w \<noteq> None \<and> annexed (win sp w)
      then get_layer (the (lead (heap sp) w)) sp
      else if topo_layer (win sp w) = layer_unknown
      then do {
        lay \<leftarrow> belong_to_layer sp w;
        Some (update_window w (\<lambda>x. x\<lparr>topo_layer := lay\<rparr>) sp, lay)
      }
      else Some (sp, topo_layer (win sp w)))"

definition invalidate_layer :: "wid \<Rightarrow> space \<Rightarrow> space" where
  "invalidate_layer w sp = update_window w (\<lambda>x. x\<lparr>topo_layer := layer_unknown\<rparr>) sp"

section \<open>The layer as a value\<close>

lemma belong_to_layer_known: "belong_to_layer sp w \<noteq> Some layer_unknown"
  by (auto simp: belong_to_layer_def Let_def bind_eq_Some_conv)

text \<open>What get_layer returns, without the cache being written.\<close>

definition base_layer :: "space \<Rightarrow> wid \<Rightarrow> win_layer option" where
  "base_layer sp w =
     (if topo_layer (win sp w) = layer_unknown then belong_to_layer sp w
      else Some (topo_layer (win sp w)))"

partial_function (option) layer_value :: "space \<Rightarrow> wid \<Rightarrow> win_layer option" where
  "layer_value sp w =
     (if lead (heap sp) w \<noteq> None \<and> annexed (win sp w)
      then layer_value sp (the (lead (heap sp) w)) else base_layer sp w)"

text \<open>A space that differs at most in cached layers.\<close>

definition forget_layer :: "window \<Rightarrow> window" where
  "forget_layer x = x\<lparr>topo_layer := layer_unknown\<rparr>"

definition layer_blind :: "space \<Rightarrow> space \<Rightarrow> bool" where
  "layer_blind sp' sp \<longleftrightarrow> sp' = sp\<lparr>heap := heap sp'\<rparr>
     \<and> (\<forall>w. forget_layer (heap sp' w) = forget_layer (heap sp w))"

definition cached :: "space \<Rightarrow> space \<Rightarrow> bool" where
  "cached sp' sp \<longleftrightarrow> layer_blind sp' sp \<and> (\<forall>w. base_layer sp' w = base_layer sp w)"

lemma cached_refl [simp]: "cached sp sp"
  by (simp add: cached_def layer_blind_def)

lemma cached_trans:
  assumes "cached s2 s1" "cached s1 s0"
  shows "cached s2 s0"
proof -
  have e: "s2 = s1\<lparr>heap := heap s2\<rparr>" "s1 = s0\<lparr>heap := heap s1\<rparr>"
    using assms by (simp_all add: cached_def layer_blind_def)
  have "s2 = (s0\<lparr>heap := heap s1\<rparr>)\<lparr>heap := heap s2\<rparr>" using e by metis
  then have "s2 = s0\<lparr>heap := heap s2\<rparr>" by simp
  then show ?thesis using assms by (simp add: cached_def layer_blind_def)
qed

lemma blind_window:
  assumes "layer_blind sp' sp"
  shows "leads (win sp' w) = leads (win sp w)" "children (win sp' w) = children (win sp w)"
    "annexed (win sp' w) = annexed (win sp w)" "win_remnant (win sp' w) = win_remnant (win sp w)"
    "win_class (win sp' w) = win_class (win sp w)" "window_type (win sp' w) = window_type (win sp w)"
    "m_modal (win sp' w) = m_modal (win sp w)" "lead_id (win sp' w) = lead_id (win sp w)"
    "win_control (win sp' w) = win_control (win sp w)" "win_group (win sp' w) = win_group (win sp w)"
    "central_output (win sp' w) = central_output (win sp w)"
    "popup_end (win sp' w) = popup_end (win sp w)" "topo_subspaces (win sp' w) = topo_subspaces (win sp w)"
    "lock_screen (win sp' w) = lock_screen (win sp w)"
    "belongs_to_desktop (win sp' w) = belongs_to_desktop (win sp w)"
proof -
  have e: "forget_layer (heap sp' w) = forget_layer (heap sp w)" using assms by (simp add: layer_blind_def)
  show "leads (win sp' w) = leads (win sp w)" "children (win sp' w) = children (win sp w)"
    "annexed (win sp' w) = annexed (win sp w)" "win_remnant (win sp' w) = win_remnant (win sp w)"
    "win_class (win sp' w) = win_class (win sp w)" "window_type (win sp' w) = window_type (win sp w)"
    "m_modal (win sp' w) = m_modal (win sp w)" "lead_id (win sp' w) = lead_id (win sp w)"
    "win_control (win sp' w) = win_control (win sp w)" "win_group (win sp' w) = win_group (win sp w)"
    "central_output (win sp' w) = central_output (win sp w)"
    "popup_end (win sp' w) = popup_end (win sp w)" "topo_subspaces (win sp' w) = topo_subspaces (win sp w)"
    "lock_screen (win sp' w) = lock_screen (win sp w)"
    "belongs_to_desktop (win sp' w) = belongs_to_desktop (win sp w)"
    using arg_cong [OF e, of leads] arg_cong [OF e, of children] arg_cong [OF e, of annexed]
      arg_cong [OF e, of win_remnant] arg_cong [OF e, of win_class] arg_cong [OF e, of window_type]
      arg_cong [OF e, of m_modal] arg_cong [OF e, of lead_id] arg_cong [OF e, of win_control]
      arg_cong [OF e, of win_group] arg_cong [OF e, of central_output] arg_cong [OF e, of popup_end]
      arg_cong [OF e, of topo_subspaces] arg_cong [OF e, of lock_screen]
      arg_cong [OF e, of belongs_to_desktop]
    by (simp_all add: forget_layer_def)
qed

lemma blind_space:
  assumes "layer_blind sp' sp"
  shows "stack sp' = stack sp" "pre_stack sp' = pre_stack sp" "root_window sp' = root_window sp"
    "windows sp' = windows sp" "block_stacking_updates sp' = block_stacking_updates sp"
    "restacking_required sp' = restacking_required sp" "space_signals sp' = space_signals sp"
    "subspace_manager sp' = subspace_manager sp" "showing_desktop sp' = showing_desktop sp"
    "should_get_focus sp' = should_get_focus sp" "active sp' = active sp"
proof -
  have e: "sp' = sp\<lparr>heap := heap sp'\<rparr>" using assms by (simp add: layer_blind_def)
  show "stack sp' = stack sp" "pre_stack sp' = pre_stack sp" "root_window sp' = root_window sp"
    "windows sp' = windows sp" "block_stacking_updates sp' = block_stacking_updates sp"
    "restacking_required sp' = restacking_required sp" "space_signals sp' = space_signals sp"
    "subspace_manager sp' = subspace_manager sp" "showing_desktop sp' = showing_desktop sp"
    "should_get_focus sp' = should_get_focus sp" "active sp' = active sp"
    by (subst e, simp)+
qed

text \<open>No predicate on windows and no layer a window belongs to depends on a cached layer.\<close>

lemma blind_types:
  assumes "layer_blind sp' sp"
  shows "is_desktop (win sp' w) = is_desktop (win sp w)" "is_splash (win sp' w) = is_splash (win sp w)"
    "is_popup (win sp' w) = is_popup (win sp w)" "is_dock (win sp' w) = is_dock (win sp w)"
    "is_applet_popup (win sp' w) = is_applet_popup (win sp w)"
    "is_on_screen_display (win sp' w) = is_on_screen_display (win sp w)"
    "is_notification (win sp' w) = is_notification (win sp w)"
    "is_critical_notification (win sp' w) = is_critical_notification (win sp w)"
    "is_dialog (win sp' w) = is_dialog (win sp w)"
  by (simp_all only: type_defs is_popup_def blind_window [OF assms])

lemma belong_to_layer_blind:
  assumes "layer_blind sp' sp"
  shows "belong_to_layer sp' w = belong_to_layer sp w"
proof -
  have "is_active_fullscreen sp' w = is_active_fullscreen sp w"
    by (simp only: is_active_fullscreen_def most_recently_activated_window_def
        blind_window [OF assms] blind_space [OF assms])
  then show ?thesis
    by (simp only: belong_to_layer_def Let_def blind_window [OF assms] blind_space [OF assms]
        blind_types [OF assms])
qed

lemmas cached_blind = cached_def [THEN iffD1, THEN conjunct1]
lemmas cached_window = blind_window [OF cached_blind]
lemmas cached_space = blind_space [OF cached_blind]
lemmas cached_belong = belong_to_layer_blind [OF cached_blind]

lemma cached_lead: "cached sp' sp \<Longrightarrow> lead (heap sp') w = lead (heap sp) w"
  by (simp add: lead_def cached_window)

lemma cached_transient_ok: "cached sp' sp \<Longrightarrow> transient_ok (heap sp') = transient_ok (heap sp)"
  by (simp add: transient_ok_def converse_ok_def lead_rel_def cached_window)

lemma cached_lead_rel: "cached sp' sp \<Longrightarrow> lead_rel (heap sp') = lead_rel (heap sp)"
  by (simp add: lead_rel_def cached_window)

lemma layer_value_cached:
  assumes "cached sp' sp" "transient_ok (heap sp)"
  shows "layer_value sp' w = layer_value sp w"
  using transient_ok_wf(2) [OF assms(2)]
proof (induction w rule: wf_induct_rule)
  case (less w)
  have b: "base_layer sp' w = base_layer sp w" using assms(1) by (simp add: cached_def)
  show ?case
  proof (cases "lead (heap sp) w")
    case None
    then show ?thesis using b
      by (simp add: layer_value.simps [of sp' w] layer_value.simps [of sp w] cached_lead [OF assms(1)])
  next
    case (Some l)
    then have "layer_value sp' l = layer_value sp l" using less lead_some by fastforce
    with Some b show ?thesis
      by (simp add: layer_value.simps [of sp' w] layer_value.simps [of sp w]
          cached_lead [OF assms(1)] cached_window [OF assms(1)])
  qed
qed

text \<open>Writing the layer a window belongs to into its cache.\<close>

lemma cached_update:
  assumes "topo_layer (win sp w) = layer_unknown" "belong_to_layer sp w = Some lay"
  shows "cached (update_window w (\<lambda>x. x\<lparr>topo_layer := lay\<rparr>) sp) sp"
proof -
  have "lay \<noteq> layer_unknown" using assms(2) belong_to_layer_known by blast
  moreover have b: "layer_blind (update_window w (\<lambda>x. x\<lparr>topo_layer := lay\<rparr>) sp) sp"
    by (auto simp: layer_blind_def update_window_def forget_layer_def)
  ultimately show ?thesis using assms
    unfolding cached_def base_layer_def belong_to_layer_blind [OF b] by auto
qed

lemma get_layer_some:
  assumes "transient_ok (heap sp)" "layer_value sp w = Some lay"
  obtains sp' where "get_layer w sp = Some (sp', lay)" "cached sp' sp"
proof -
  have "\<exists>sp'. get_layer w sp = Some (sp', lay) \<and> cached sp' sp"
    using transient_ok_wf(2) [OF assms(1)] assms(2)
  proof (induction w rule: wf_induct_rule)
    case (less w)
    show ?case
    proof (cases "lead (heap sp) w \<noteq> None \<and> annexed (win sp w)")
      case True
      then obtain l where l: "lead (heap sp) w = Some l" by blast
      then have "layer_value sp l = Some lay" using True less.prems layer_value.simps [of sp w] by simp
      then have "\<exists>sp'. get_layer l sp = Some (sp', lay) \<and> cached sp' sp"
        using less.IH [of l] lead_some [OF l] by simp
      then show ?thesis using True l by (subst get_layer.simps) simp
    next
      case False
      then have b: "base_layer sp w = Some lay" using less.prems layer_value.simps [of sp w]
        by (metis (full_types))
      show ?thesis
      proof (cases "topo_layer (win sp w) = layer_unknown")
        case True
        then have bl: "belong_to_layer sp w = Some lay" using b by (simp add: base_layer_def)
        have e: "get_layer w sp = Some (update_window w (\<lambda>x. x\<lparr>topo_layer := lay\<rparr>) sp, lay)"
          using False True bl by (subst get_layer.simps) auto
        show ?thesis using e cached_update [OF True bl] by blast
      next
        case known: False
        then have "get_layer w sp = Some (sp, lay)" using False b
          by (subst get_layer.simps) (auto simp: base_layer_def)
        then show ?thesis by auto
      qed
    qed
  qed
  then show ?thesis using that by blast
qed

text \<open>Every window has a cached layer or the control its type needs for one.\<close>

definition layers_known :: "space \<Rightarrow> bool" where
  "layers_known sp \<longleftrightarrow> transient_ok (heap sp) \<and> (\<forall>w. base_layer sp w \<noteq> None)"

lemma layer_value_known:
  assumes "layers_known sp"
  shows "\<exists>lay. layer_value sp w = Some lay \<and> lay \<noteq> layer_unknown"
proof -
  have ok: "transient_ok (heap sp)" using assms by (simp add: layers_known_def)
  show ?thesis
    using transient_ok_wf(2) [OF ok]
  proof (induction w rule: wf_induct_rule)
    case (less w)
    have b: "\<exists>lay. base_layer sp w = Some lay \<and> lay \<noteq> layer_unknown"
    proof -
      obtain lay where "base_layer sp w = Some lay" using assms by (auto simp: layers_known_def)
      then show ?thesis using belong_to_layer_known [of sp w]
        by (auto simp: base_layer_def split: if_splits)
    qed
    show ?case
    proof (cases "lead (heap sp) w \<noteq> None \<and> annexed (win sp w)")
      case True
      then obtain l where "lead (heap sp) w = Some l" by blast
      with True less lead_some [OF this] show ?thesis by (subst layer_value.simps) auto
    next
      case False
      then show ?thesis using b by (subst layer_value.simps) auto
    qed
  qed
qed

lemma cached_layers_known: "cached sp' sp \<Longrightarrow> layers_known sp \<Longrightarrow> layers_known sp'"
  by (simp add: layers_known_def cached_transient_ok) (simp add: cached_def)

text \<open>get_layer as the other theories use it: the value, and a space that differs in the cache.\<close>

definition layer_of :: "space \<Rightarrow> wid \<Rightarrow> win_layer" where
  "layer_of sp w = the (layer_value sp w)"

lemma get_layer_layer_of:
  assumes "layers_known sp"
  obtains sp' where "get_layer w sp = Some (sp', layer_of sp w)" "cached sp' sp" "layers_known sp'"
proof -
  obtain lay where lay: "layer_value sp w = Some lay" using layer_value_known [OF assms] by blast
  have ok: "transient_ok (heap sp)" using assms by (simp add: layers_known_def)
  obtain sp' where "get_layer w sp = Some (sp', lay)" "cached sp' sp"
    by (rule get_layer_some [OF ok lay])
  then show ?thesis using that cached_layers_known [OF _ assms] lay by (simp add: layer_of_def)
qed

lemma layer_of_cached: "cached sp' sp \<Longrightarrow> layers_known sp \<Longrightarrow> layer_of sp' w = layer_of sp w"
  by (simp add: layer_of_def layer_value_cached layers_known_def)

end
