(* ===== verification/Stacking_Order.thy ===== *)
theory Stacking_Order
  imports Layers
begin

text \<open>
  The constrained stacking order: como/win/stacking_order.h with transient_stacking.h, and the
  two functions of stacking.h it is built from (sort_windows_by_layer,
  ensure_stacking_order_in_list), then update_layer of layers.h, which takes the lock of the
  order.

  Every call of get_layer may write a cache, so the space is threaded through.
\<close>

section \<open>Whether a child is kept above its lead (transient_stacking.h)\<close>

definition keep_transient_above :: "space \<Rightarrow> wid \<Rightarrow> wid \<Rightarrow> bool" where
  "keep_transient_above sp mainwindow child =
     (if annexed (win sp child) then True
      else if is_splash (win sp child) \<and> is_dialog (win sp mainwindow) then False
      else if is_dialog (win sp child) \<and> \<not> m_modal (win sp child) \<and> is_group_transient sp child
      then False
      else if is_dock (win sp mainwindow) then False
      else True)"

definition keep_deleted_transient_above :: "space \<Rightarrow> wid \<Rightarrow> wid \<Rightarrow> bool option" where
  "keep_deleted_transient_above sp mainWindow child =
     do {
       r \<leftarrow> win_remnant (win sp child);
       Some (if is_splash (win sp child) \<and> is_dialog (win sp mainWindow) then False
             else if was_x11_client r
             then if was_group_transient r \<and> was_active r then True
                  else if was_group_transient r \<and> is_dialog (win sp child)
                          \<and> \<not> m_modal (win sp child) then False
                  else if is_dock (win sp mainWindow) then False
                  else True
             else True)
     }"

definition needs_child_restack :: "wid \<Rightarrow> wid \<Rightarrow> space \<Rightarrow> (space \<times> bool) option" where
  "needs_child_restack l child sp =
     do {
       (sp, lead_layer) \<leftarrow> get_layer l sp;
       (sp, child_layer) \<leftarrow> get_layer child sp;
       if lead_layer < child_layer then Some (sp, False)
       else if win_remnant (win sp child) \<noteq> None
       then do { b \<leftarrow> keep_deleted_transient_above sp l child; Some (sp, b) }
       else Some (sp, keep_transient_above sp l child)
     }"

section \<open>The helpers of stacking.h\<close>

text \<open>The elements of the list have the type of the list; a window of another type in the order is
  not among them.\<close>

definition ensure_stacking_order_in_list :: "wid list \<Rightarrow> wid list \<Rightarrow> wid list" where
  "ensure_stacking_order_in_list order list =
     (case list of
        [] \<Rightarrow> []
      | [w] \<Rightarrow> [w]
      | _ \<Rightarrow> fold (\<lambda>w result. snd (move_to_back result w)) order list)"

text \<open>The first loop of sort_windows_by_layer: the layer each window is put in. The map from an
  output and a top lead to a layer is a function.\<close>

type_synonym lead_layers = "nat option \<times> wid \<Rightarrow> win_layer option"

definition effective_layer ::
    "wid \<Rightarrow> space \<times> lead_layers \<Rightarrow> (space \<times> lead_layers \<times> win_layer) option" where
  "effective_layer w = (\<lambda>(sp, lead_layers). do {
     (sp, lay) \<leftarrow> get_layer w sp;
     top_lead \<leftarrow> get_top_lead (heap sp) w;
     let key = (central_output (win sp w), top_lead);
     let lay = (case lead_layers key of
                  Some found \<Rightarrow>
                    (if found = layer_active \<and> layer_index lay > layer_index layer_below
                     then layer_active else lay)
                | None \<Rightarrow> lay);
     Some (sp, lead_layers(key \<mapsto> lay), lay)
   })"

text \<open>The array of queues is a function of the index; pushing to the index of layer::unknown,
  which is negative, is undefined.\<close>

definition layer_buckets ::
    "wid \<Rightarrow> space \<times> lead_layers \<times> (int \<Rightarrow> wid list) \<Rightarrow> (space \<times> lead_layers \<times> (int \<Rightarrow> wid list)) option" where
  "layer_buckets w = (\<lambda>(sp, lead_layers, layers). do {
     (sp, lead_layers, lay) \<leftarrow> effective_layer w (sp, lead_layers);
     let i = layer_index lay;
     if i < layer_first \<or> i \<ge> layer_count then None
     else Some (sp, lead_layers, layers(i := layers i @ [w]))
   })"

definition sort_windows_by_layer :: "wid list \<Rightarrow> space \<Rightarrow> (space \<times> wid list) option" where
  "sort_windows_by_layer list sp =
     do {
       (sp, _, layers) \<leftarrow> ofold layer_buckets list (sp, (\<lambda>k. None), (\<lambda>i. []));
       Some (sp, concat (map layers [layer_first..layer_count - 1]))
     }"

section \<open>Sorting (stacking_order.h)\<close>

text \<open>The loop of append_children over the children in stacking order; its state is the space, the
  caller's list and the list \<open>stacked\<close>.\<close>

partial_function (option) append_children ::
    "wid \<Rightarrow> wid list \<Rightarrow> space \<Rightarrow> (space \<times> wid list) option" where
  "append_children w list sp =
     (if children (win sp w) = [] then Some (sp, list)
      else do {
        (sp, list, stacked) \<leftarrow> ofold (\<lambda>child st. case st of (sp, list, stacked) \<Rightarrow> do {
            (sp, b) \<leftarrow> needs_child_restack w child sp;
            if \<not> b then Some (sp, list, stacked)
            else do {
              let list = remove_all list child;
              (sp, stacked) \<leftarrow> append_children child (stacked @ [child]) sp;
              Some (sp, list, stacked)
            }
          }) (ensure_stacking_order_in_list (stack sp) (children (win sp w))) (sp, list, []);
        Some (sp, list @ stacked)
      })"

text \<open>std::find_if over the leads.\<close>

fun any_lead_needs_restack :: "wid list \<Rightarrow> wid \<Rightarrow> space \<Rightarrow> (space \<times> bool) option" where
  "any_lead_needs_restack [] w sp = Some (sp, False)"
| "any_lead_needs_restack (l # ls) w sp =
     do {
       (sp, b) \<leftarrow> needs_child_restack l w sp;
       if b then Some (sp, True) else any_lead_needs_restack ls w sp
     }"

definition sort_window :: "wid \<Rightarrow> space \<times> wid list \<Rightarrow> (space \<times> wid list) option" where
  "sort_window w = (\<lambda>(sp, stck). do {
     (sp, b) \<leftarrow> any_lead_needs_restack (leads (win sp w)) w sp;
     if b then Some (sp, stck)
     else if contains stck w then None
     else append_children w (stck @ [w]) sp
   })"

definition stacking_sort :: "space \<Rightarrow> (space \<times> bool) option" where
  "stacking_sort sp =
     do {
       (sp, pre_order) \<leftarrow> sort_windows_by_layer (pre_stack sp) sp;
       (sp, new_stack) \<leftarrow> ofold sort_window pre_order (sp, []);
       let order_changed = (stack sp \<noteq> new_stack);
       Some (sp\<lparr>stack := new_stack\<rparr>, order_changed)
     }"

definition process_change :: "space \<Rightarrow> space" where
  "process_change sp = sp\<lparr>restacking_required := False, render_restack_required := True\<rparr>"

definition update_order :: "space \<Rightarrow> space option" where
  "update_order sp =
     (if block_stacking_updates sp > 0 then Some sp
      else do {
        (sp, changed) \<leftarrow> stacking_sort sp;
        Some (if changed \<or> restacking_required sp
              then space_emit (Stacking_Changed False) (process_change sp) else sp)
      })"

definition update_count :: "space \<Rightarrow> space option" where
  "update_count sp =
     (if block_stacking_updates sp > 0
      then Some (sp\<lparr>blocked_propagating_new_clients := True\<rparr>)
      else do {
        (sp, _) \<leftarrow> stacking_sort sp;
        Some (space_emit (Stacking_Changed True) (process_change sp))
      })"

definition stacking_lock :: "space \<Rightarrow> space" where
  "stacking_lock sp =
     (let sp = (if block_stacking_updates sp = 0
                then sp\<lparr>blocked_propagating_new_clients := False\<rparr> else sp)
      in sp\<lparr>block_stacking_updates := block_stacking_updates sp + 1\<rparr>)"

definition stacking_unlock :: "space \<Rightarrow> space option" where
  "stacking_unlock sp =
     (let sp = sp\<lparr>block_stacking_updates := block_stacking_updates sp - 1\<rparr>
      in if block_stacking_updates sp = 0
         then do {
           sp \<leftarrow> (if blocked_propagating_new_clients sp then update_count sp else update_order sp);
           Some (space_emit Stacking_Unlocked sp)
         }
         else Some sp)"

definition force_restacking :: "space \<Rightarrow> space option" where
  "force_restacking sp = stacking_unlock (stacking_lock (sp\<lparr>restacking_required := True\<rparr>))"

text \<open>The slots of render_restack, which fill the overlays again, are a parameter.\<close>

definition render_stack :: "(space \<Rightarrow> space) \<Rightarrow> space \<Rightarrow> space \<times> wid list" where
  "render_stack slots sp =
     (let sp = (if render_restack_required sp
                then slots (space_emit Render_Restack
                       (sp\<lparr>render_restack_required := False, render_overlays := []\<rparr>))
                else sp)
      in (sp, stack sp @ render_overlays sp))"

section \<open>Updating the layer of a window (layers.h)\<close>

partial_function (option) update_layer :: "wid \<Rightarrow> space \<Rightarrow> space option" where
  "update_layer w sp =
     (if win_remnant (win sp w) \<noteq> None then Some sp
      else do {
        (sp, lay) \<leftarrow> get_layer w sp;
        belongs \<leftarrow> belong_to_layer sp w;
        if lay = belongs then Some sp
        else do {
          let sp = stacking_lock sp;
          let sp = invalidate_layer w sp;
          sp \<leftarrow> ofold (\<lambda>child sp. if annexed (win sp child) then Some sp else update_layer child sp)
                 (children (win sp w)) sp;
          stacking_unlock sp
        }
      })"

end
