(* ===== verification/Stacking_Sort.thy ===== *)
theory Stacking_Sort
  imports Stacking_Order
begin

text \<open>
  What the sorting of the stacking order achieves. The threaded definitions are related to
  predicates on the space the sorting starts from: \<open>pulled sp l c\<close> says that the child c has to
  be right above its lead l, \<open>pull_rel\<close> collects these pairs. For windows with at most one lead
  each the new stack is a permutation of the unconstrained order with every pulled child above its
  lead.
\<close>

section \<open>The test of a child against a lead\<close>

definition pulled :: "space \<Rightarrow> wid \<Rightarrow> wid \<Rightarrow> bool" where
  "pulled sp l c \<longleftrightarrow> \<not> layer_of sp l < layer_of sp c
     \<and> (if win_remnant (win sp c) \<noteq> None then keep_deleted_transient_above sp l c = Some True
        else keep_transient_above sp l c)"

definition pull_rel :: "space \<Rightarrow> (wid \<times> wid) set" where
  "pull_rel sp = {(c, l). l \<in> set (leads (win sp c)) \<and> pulled sp l c}"

lemma keep_above_cached:
  assumes "cached sp' sp"
  shows "keep_transient_above sp' l c = keep_transient_above sp l c"
    "keep_deleted_transient_above sp' l c = keep_deleted_transient_above sp l c"
  by (simp_all only: keep_transient_above_def keep_deleted_transient_above_def is_group_transient_def
      cached_window [OF assms] cached_space [OF assms] blind_types [OF cached_blind [OF assms]])

lemma pulled_cached:
  "cached sp' sp \<Longrightarrow> layers_known sp \<Longrightarrow> pulled sp' l c = pulled sp l c"
  by (simp add: pulled_def layer_of_cached keep_above_cached cached_window)

lemma pull_rel_cached: "cached sp' sp \<Longrightarrow> layers_known sp \<Longrightarrow> pull_rel sp' = pull_rel sp"
  by (simp add: pull_rel_def pulled_cached cached_window)

lemma needs_child_restack_pulled:
  assumes "layers_known sp"
  obtains sp' where "needs_child_restack l c sp = Some (sp', pulled sp l c)" "cached sp' sp"
proof -
  obtain s1 where s1: "get_layer l sp = Some (s1, layer_of sp l)" "cached s1 sp" "layers_known s1"
    by (rule get_layer_layer_of [OF assms])
  obtain s2 where s2: "get_layer c s1 = Some (s2, layer_of s1 c)" "cached s2 s1"
    by (rule get_layer_layer_of [OF s1(3)])
  have c: "cached s2 sp" by (rule cached_trans [OF s2(2) s1(2)])
  have l: "layer_of s1 c = layer_of sp c" by (rule layer_of_cached [OF s1(2) assms])
  have "needs_child_restack l c sp = Some (s2, pulled sp l c)"
  proof (cases "win_remnant (win sp c)")
    case None
    then show ?thesis using s1(1) s2(1) l
      by (simp add: needs_child_restack_def pulled_def keep_above_cached [OF c] cached_window [OF c])
  next
    case (Some r)
    then obtain b where "keep_deleted_transient_above sp l c = Some b"
      by (simp add: keep_deleted_transient_above_def)
    then show ?thesis using s1(1) s2(1) l Some
      by (simp add: needs_child_restack_def pulled_def keep_above_cached [OF c] cached_window [OF c])
  qed
  then show ?thesis using that c by blast
qed

lemma any_lead_needs_restack_some:
  "layers_known sp \<Longrightarrow> \<exists>sp'. any_lead_needs_restack ls w sp = Some (sp', \<exists>l\<in>set ls. pulled sp l w)
     \<and> cached sp' sp"
proof (induction ls arbitrary: sp)
  case (Cons l ls)
  obtain s1 where s1: "needs_child_restack l w sp = Some (s1, pulled sp l w)" "cached s1 sp"
    by (rule needs_child_restack_pulled [OF Cons.prems])
  have k: "layers_known s1" by (rule cached_layers_known [OF s1(2) Cons.prems])
  obtain s2 where s2: "any_lead_needs_restack ls w s1 = Some (s2, \<exists>l\<in>set ls. pulled s1 l w)" "cached s2 s1"
    using Cons.IH [OF k] by blast
  show ?case using s1 s2 cached_trans [OF s2(2) s1(2)] pulled_cached [OF s1(2) Cons.prems] by auto
qed simp

section \<open>The children in stacking order\<close>

lemma move_to_back_mset: "mset (snd (move_to_back xs a)) = mset xs"
  by (simp add: move_to_back_eq)

lemma fold_move_to_back_mset:
  "mset (fold (\<lambda>w result. snd (move_to_back result w)) order xs) = mset xs"
  by (induction order arbitrary: xs) (simp_all add: move_to_back_mset)

lemma ensure_stacking_order_mset: "mset (ensure_stacking_order_in_list order xs) = mset xs"
  by (auto simp: ensure_stacking_order_in_list_def fold_move_to_back_mset simp del: fold_simps
      split: list.split)

lemma ensure_stacking_order_set: "set (ensure_stacking_order_in_list order xs) = set xs"
  by (rule mset_eq_setD) (rule ensure_stacking_order_mset)

lemma ensure_stacking_order_distinct:
  "distinct (ensure_stacking_order_in_list order xs) = distinct xs"
  by (rule mset_eq_imp_distinct_iff) (rule ensure_stacking_order_mset)

text \<open>In closed form: first the elements the order does not have, then the others in its order.\<close>

lemma fold_move_to_back_eq:
  "distinct xs \<Longrightarrow> distinct order \<Longrightarrow>
     fold (\<lambda>w result. snd (move_to_back result w)) order xs
       = filter (\<lambda>x. x \<notin> set order) xs @ filter (\<lambda>x. x \<in> set xs) order"
proof (induction order arbitrary: xs)
  case (Cons a order)
  show ?case
  proof (cases "a \<in> set xs")
    case True
    have e: "snd (move_to_back xs a) = remove1 a xs @ [a]" using True by (simp add: move_to_back_eq)
    have s: "set (remove1 a xs @ [a]) = set xs" using True Cons.prems by auto
    have d: "distinct (remove1 a xs @ [a])" using Cons.prems(1) by simp
    have f: "filter (\<lambda>x. x \<notin> set order) (remove1 a xs) = filter (\<lambda>x. x \<notin> set (a # order)) xs"
      using Cons.prems(1) by (auto simp: distinct_remove1_removeAll removeAll_filter_not_eq intro: filter_cong)
    have g: "filter (\<lambda>x. x \<in> set (remove1 a xs @ [a])) order = filter (\<lambda>x. x \<in> set xs) order"
      unfolding s by (rule refl)
    show ?thesis
      using Cons.IH [OF d] Cons.prems(2) True f unfolding g by (simp add: e)
  next
    case False
    then have e: "snd (move_to_back xs a) = xs" by (simp add: move_to_back_eq)
    have "filter (\<lambda>x. x \<notin> set order) xs = filter (\<lambda>x. x \<notin> set (a # order)) xs"
      using False by (auto intro: filter_cong)
    then show ?thesis using Cons.IH [OF Cons.prems(1)] Cons.prems(2) False by (simp add: e)
  qed
qed simp

lemma ensure_stacking_order_eq:
  assumes "distinct xs" "distinct order"
  shows "ensure_stacking_order_in_list order xs
    = filter (\<lambda>x. x \<notin> set order) xs @ filter (\<lambda>x. x \<in> set xs) order"
proof (cases "length xs < 2")
  case True
  then consider "xs = []" | a where "xs = [a]" by (cases xs; cases "tl xs") auto
  then show ?thesis
  proof cases
    case (2 a)
    have "filter (\<lambda>x. x = a) order = (if a \<in> set order then [a] else [])"
      using assms(2) by (induction order) auto
    with 2 show ?thesis by (simp add: ensure_stacking_order_in_list_def eq_commute)
  qed (simp add: ensure_stacking_order_in_list_def)
next
  case False
  then obtain a b zs where "xs = a # b # zs" by (cases xs; cases "tl xs") auto
  then show ?thesis
    using fold_move_to_back_eq [OF assms] by (simp only: ensure_stacking_order_in_list_def list.case)
qed

section \<open>The subtree below a window\<close>

definition down :: "space \<Rightarrow> wid \<Rightarrow> wid set" where
  "down sp w = {d. (d, w) \<in> (pull_rel sp)\<^sup>+}"

definition down_refl :: "space \<Rightarrow> wid \<Rightarrow> wid set" where
  "down_refl sp w = {d. (d, w) \<in> (pull_rel sp)\<^sup>*}"

lemma down_refl_eq: "down_refl sp w = insert w (down sp w)"
  by (auto simp: down_refl_def down_def rtrancl_eq_or_trancl)

lemma pull_rel_sub: "pull_rel sp \<subseteq> lead_rel (heap sp)"
  by (auto simp: pull_rel_def)

definition forest :: "space \<Rightarrow> bool" where
  "forest sp \<longleftrightarrow> (\<forall>w. length (leads (win sp w)) \<le> 1)"

lemma forest_single_valued: "forest sp \<Longrightarrow> single_valued (lead_rel (heap sp))"
proof (rule single_valuedI)
  fix x y z assume "forest sp" "(x, y) \<in> lead_rel (heap sp)" "(x, z) \<in> lead_rel (heap sp)"
  then show "y = z" by (cases "leads (win sp x)") (auto simp: forest_def dest: spec [of _ x])
qed

lemma down_children:
  assumes "transient_ok (heap sp)"
  shows "down sp w = (\<Union>c\<in>{c \<in> set (children (win sp w)). pulled sp w c}. down_refl sp c)"
proof (intro set_eqI iffI)
  have c: "c \<in> set (children (win sp w)) \<longleftrightarrow> w \<in> set (leads (win sp c))" for c
    using assms by (simp add: transient_ok_def converse_ok_def)
  fix d
  {
    assume "d \<in> down sp w"
    then obtain c' where "(d, c') \<in> (pull_rel sp)\<^sup>*" "(c', w) \<in> pull_rel sp"
      by (auto simp: down_def dest: tranclD2)
    with c show "d \<in> (\<Union>c\<in>{c \<in> set (children (win sp w)). pulled sp w c}. down_refl sp c)"
      by (auto simp: pull_rel_def down_refl_def)
  next
    assume "d \<in> (\<Union>c\<in>{c \<in> set (children (win sp w)). pulled sp w c}. down_refl sp c)"
    then obtain c' where "(d, c') \<in> (pull_rel sp)\<^sup>*" "(c', w) \<in> pull_rel sp"
      using c by (auto simp: pull_rel_def down_refl_def)
    then show "d \<in> down sp w" by (simp add: down_def rtrancl_into_trancl1)
  }
qed

lemma subtrees_disjoint:
  assumes "transient_ok (heap sp)" "forest sp" "c1 \<noteq> c2"
    and "w \<in> set (leads (win sp c1))" "w \<in> set (leads (win sp c2))"
  shows "down_refl sp c1 \<inter> down_refl sp c2 = {}"
proof -
  let ?r = "lead_rel (heap sp)"
  have False if "(a, b) \<in> ?r\<^sup>*" "a \<noteq> b" "w \<in> set (leads (win sp a))" "w \<in> set (leads (win sp b))" for a b
  proof -
    from that(1,2) obtain y where y: "(a, y) \<in> ?r" "(y, b) \<in> ?r\<^sup>*" by (auto elim: converse_rtranclE)
    have "y = w" using forest_single_valued [OF assms(2)] y(1) that(3) by (auto dest: single_valuedD)
    then have "(w, w) \<in> ?r\<^sup>+" using y(2) that(4) by (auto intro: rtrancl_into_trancl1)
    then show False using assms(1) by (simp add: transient_ok_def acyclic_def)
  qed
  moreover have "(c1, c2) \<in> ?r\<^sup>* \<or> (c2, c1) \<in> ?r\<^sup>*" if "x \<in> down_refl sp c1 \<inter> down_refl sp c2" for x
    using that single_valued_confluent [OF forest_single_valued [OF assms(2)], of x c1 c2]
      rtrancl_mono [OF pull_rel_sub [of sp]] by (auto simp: down_refl_def)
  ultimately show ?thesis using assms(3-5) by (metis disjoint_iff Int_iff)
qed

lemma not_below_itself: "transient_ok (heap sp) \<Longrightarrow> w \<notin> down sp w"
  using trancl_mono [OF _ pull_rel_sub] by (auto simp: down_def transient_ok_def acyclic_def)

text \<open>The leads come before their children.\<close>

definition leads_first :: "space \<Rightarrow> wid list \<Rightarrow> bool" where
  "leads_first sp xs \<longleftrightarrow> (\<forall>(c, l)\<in>pull_rel sp. l \<in> set xs \<longrightarrow> c \<in> set xs \<longrightarrow> before xs l c)"

lemma leads_first_Nil [simp]: "leads_first sp []"
  by (simp add: leads_first_def)

lemma leads_first_append:
  assumes "leads_first sp xs" "leads_first sp ys"
    and "\<And>c l. (c, l) \<in> pull_rel sp \<Longrightarrow> l \<in> set ys \<Longrightarrow> c \<notin> set xs"
  shows "leads_first sp (xs @ ys)"
  using assms by (fastforce simp: leads_first_def before_append)

lemma leads_first_Cons_down:
  assumes "leads_first sp ds" "set ds = down sp w" "transient_ok (heap sp)"
  shows "leads_first sp (w # ds)"
proof -
  have "(w, l) \<notin> pull_rel sp" if "l \<in> set (w # ds)" for l
  proof
    assume a: "(w, l) \<in> pull_rel sp"
    have "(l, w) \<in> (pull_rel sp)\<^sup>*" using that assms(2) by (auto simp: down_def)
    with a have "(w, w) \<in> (pull_rel sp)\<^sup>+" by (rule rtrancl_into_trancl2)
    then show False using not_below_itself [OF assms(3), of w] by (simp add: down_def)
  qed
  then show ?thesis using assms(1) by (auto simp: leads_first_def)
qed

end
