(* ===== verification/Stacking_Sort_Props.thy ===== *)
theory Stacking_Sort_Props
  imports Stacking_Sort
begin

text \<open>
  The sorting returns, and its result: append_children appends the subtree below a window, the
  loop over the windows in layer order yields a permutation of them.
\<close>

section \<open>append_children\<close>

definition child_step where
  "child_step w = (\<lambda>child st. case st of (sp, list, stacked) \<Rightarrow> do {
     (sp, b) \<leftarrow> needs_child_restack w child sp;
     if \<not> b then Some (sp, list, stacked)
     else do {
       let list = remove_all list child;
       (sp, stacked) \<leftarrow> append_children child (stacked @ [child]) sp;
       Some (sp, list, stacked)
     }
   })"

lemma append_children_unfold:
  "append_children w list sp =
     (if children (win sp w) = [] then Some (sp, list)
      else do {
        (sp, list, stacked) \<leftarrow> ofold (child_step w)
           (ensure_stacking_order_in_list (stack sp) (children (win sp w))) (sp, list, []);
        Some (sp, list @ stacked)
      })"
  unfolding child_step_def by (subst append_children.simps) (rule refl)

text \<open>What the loop achieves for the children still to come, given what the recursion achieves for
  each of them.\<close>

lemma child_loop:
  assumes known: "layers_known sp0" "forest sp0"
    and rec: "\<And>c sp list. c \<in> set (children (win sp0 w)) \<Longrightarrow> cached sp sp0 \<Longrightarrow>
        set list \<inter> down sp0 c = {} \<Longrightarrow>
        \<exists>sp' ds. append_children c list sp = Some (sp', list @ ds) \<and> cached sp' sp0 \<and> distinct ds
          \<and> set ds = down sp0 c \<and> leads_first sp0 ds"
  shows "distinct cs \<Longrightarrow> set cs \<subseteq> set (children (win sp0 w)) \<Longrightarrow> cached sp sp0 \<Longrightarrow>
     (set list \<union> set stacked) \<inter> (\<Union>c\<in>{c \<in> set cs. pulled sp0 w c}. down_refl sp0 c) = {} \<Longrightarrow>
     \<exists>sp' ds. ofold (child_step w) cs (sp, list, stacked) = Some (sp', list, stacked @ ds)
       \<and> cached sp' sp0 \<and> distinct ds \<and> leads_first sp0 ds
       \<and> set ds = (\<Union>c\<in>{c \<in> set cs. pulled sp0 w c}. down_refl sp0 c)"
proof (induction cs arbitrary: sp stacked)
  case (Cons c cs)
  have ok: "transient_ok (heap sp0)" using known(1) by (simp add: layers_known_def)
  have k: "layers_known sp" by (rule cached_layers_known [OF Cons.prems(3) known(1)])
  obtain s1 where s1: "needs_child_restack w c sp = Some (s1, pulled sp w c)" "cached s1 sp"
    by (rule needs_child_restack_pulled [OF k])
  have c1: "cached s1 sp0" by (rule cached_trans [OF s1(2) Cons.prems(3)])
  have p: "pulled sp w c = pulled sp0 w c" by (rule pulled_cached [OF Cons.prems(3) known(1)])
  have d: "distinct cs" "set cs \<subseteq> set (children (win sp0 w))" using Cons.prems(1,2) by simp_all
  show ?case
  proof (cases "pulled sp0 w c")
    case False
    have sub: "{x \<in> set (c # cs). pulled sp0 w x} = {x \<in> set cs. pulled sp0 w x}" using False by auto
    have "\<exists>sp' ds. ofold (child_step w) cs (s1, list, stacked) = Some (sp', list, stacked @ ds)
       \<and> cached sp' sp0 \<and> distinct ds \<and> leads_first sp0 ds
       \<and> set ds = (\<Union>c\<in>{c \<in> set cs. pulled sp0 w c}. down_refl sp0 c)"
      by (rule Cons.IH [OF d c1]) (use Cons.prems(4) sub in simp)
    moreover have "child_step w c (sp, list, stacked) = Some (s1, list, stacked)"
      using s1(1) p False by (simp add: child_step_def)
    ultimately show ?thesis unfolding sub by simp
  next
    case True
    have cc: "c \<in> set (children (win sp0 w))" using Cons.prems(2) by simp
    have split: "(\<Union>x\<in>{x \<in> set (c # cs). pulled sp0 w x}. down_refl sp0 x)
        = down_refl sp0 c \<union> (\<Union>x\<in>{x \<in> set cs. pulled sp0 w x}. down_refl sp0 x)"
      using True by auto
    have dis: "(set list \<union> set stacked) \<inter> down_refl sp0 c = {}"
      "(set list \<union> set stacked) \<inter> (\<Union>x\<in>{x \<in> set cs. pulled sp0 w x}. down_refl sp0 x) = {}"
      using Cons.prems(4) unfolding split by blast+
    have lead: "x \<in> set (children (win sp0 w)) \<Longrightarrow> w \<in> set (leads (win sp0 x))" for x
      using ok by (simp add: transient_ok_def converse_ok_def)
    have rest: "down_refl sp0 c \<inter> down_refl sp0 x = {}" if "x \<in> set cs" for x
      by (rule subtrees_disjoint [OF ok known(2)]) (use that Cons.prems(1,2) lead in auto)
    have "c \<notin> set list" using dis(1) by (auto simp: down_refl_eq)
    then have rm: "remove_all list c = list" by simp
    have pre: "set (stacked @ [c]) \<inter> down sp0 c = {}"
      using dis(1) not_below_itself [OF ok, of c] by (auto simp: down_refl_eq)
    obtain s2 ds1 where s2: "append_children c (stacked @ [c]) s1 = Some (s2, (stacked @ [c]) @ ds1)"
      "cached s2 sp0" "distinct ds1" "set ds1 = down sp0 c" "leads_first sp0 ds1"
      using rec [OF cc c1 pre] by blast
    have set1: "set (c # ds1) = down_refl sp0 c" using s2(4) by (simp add: down_refl_eq)
    have pre2: "(set list \<union> set (stacked @ c # ds1)) \<inter> (\<Union>x\<in>{x \<in> set cs. pulled sp0 w x}. down_refl sp0 x) = {}"
      using dis(2) rest unfolding set_append set1 by blast
    obtain s3 ds2 where s3: "ofold (child_step w) cs (s2, list, stacked @ c # ds1)
        = Some (s3, list, (stacked @ c # ds1) @ ds2)"
      "cached s3 sp0" "distinct ds2" "leads_first sp0 ds2"
      "set ds2 = (\<Union>x\<in>{x \<in> set cs. pulled sp0 w x}. down_refl sp0 x)"
      using Cons.IH [OF d s2(2) pre2] by (elim exE conjE) (rule that; assumption)
    have "child_step w c (sp, list, stacked) = Some (s2, list, stacked @ c # ds1)"
      using s1(1) p True rm s2(1) by (simp add: child_step_def)
    then have e: "ofold (child_step w) (c # cs) (sp, list, stacked)
        = Some (s3, list, stacked @ (c # ds1) @ ds2)" using s3(1) by simp
    have dj: "set (c # ds1) \<inter> set ds2 = {}" unfolding set1 s3(5) using rest by blast
    have "c \<notin> set ds1" using s2(4) not_below_itself [OF ok] by simp
    then have "distinct ((c # ds1) @ ds2)" using s2(3) s3(3) dj by simp
    moreover have "leads_first sp0 ((c # ds1) @ ds2)"
    proof (rule leads_first_append)
      show "leads_first sp0 (c # ds1)" by (rule leads_first_Cons_down [OF s2(5,4) ok])
      fix a b assume ab: "(a, b) \<in> pull_rel sp0" "b \<in> set ds2"
      then obtain x where x: "x \<in> set cs" "(b, x) \<in> (pull_rel sp0)\<^sup>*" unfolding s3(5)
        by (auto simp: down_refl_def)
      then have "a \<in> down_refl sp0 x" using ab(1) by (auto simp: down_refl_def intro: converse_rtrancl_into_rtrancl)
      then show "a \<notin> set (c # ds1)" unfolding set1 using rest [OF x(1)] by blast
    qed (rule s3(4))
    ultimately show ?thesis using e s3(2,5) set1 split by auto
  qed
qed auto

lemma append_children_some:
  assumes known: "layers_known sp0" "forest sp0"
  shows "cached sp sp0 \<Longrightarrow> set list \<inter> down sp0 w = {} \<Longrightarrow>
    \<exists>sp' ds. append_children w list sp = Some (sp', list @ ds) \<and> cached sp' sp0 \<and> distinct ds
      \<and> set ds = down sp0 w \<and> leads_first sp0 ds"
proof -
  have ok: "transient_ok (heap sp0)" using known(1) by (simp add: layers_known_def)
  show "cached sp sp0 \<Longrightarrow> set list \<inter> down sp0 w = {} \<Longrightarrow>
    \<exists>sp' ds. append_children w list sp = Some (sp', list @ ds) \<and> cached sp' sp0 \<and> distinct ds
      \<and> set ds = down sp0 w \<and> leads_first sp0 ds"
    using transient_ok_wf(1) [OF ok]
  proof (induction w arbitrary: sp list rule: wf_induct_rule)
    case (less w)
    have ch: "children (win sp w) = children (win sp0 w)" by (rule cached_window [OF less.prems(1)])
    have cr: "(c, w) \<in> lead_rel (heap sp0)" if "c \<in> set (children (win sp0 w))" for c
      using that ok children_rel by (simp add: transient_ok_def)
    show ?case
    proof (cases "children (win sp0 w) = []")
      case True
      then have "down sp0 w = {}" using down_children [OF ok, of w] by simp
      moreover have "append_children w list sp = Some (sp, list @ [])"
        using True ch by (subst append_children_unfold) simp
      ultimately show ?thesis using less.prems(1) by (metis distinct.simps(1) leads_first_Nil list.set(1))
    next
      case False
      let ?cs = "ensure_stacking_order_in_list (stack sp) (children (win sp0 w))"
      have cs: "distinct ?cs" "set ?cs = set (children (win sp0 w))"
        using ok by (simp_all add: ensure_stacking_order_distinct ensure_stacking_order_set
            transient_ok_def converse_ok_def)
      have dn: "(\<Union>c\<in>{c \<in> set ?cs. pulled sp0 w c}. down_refl sp0 c) = down sp0 w"
        unfolding cs(2) by (rule down_children [OF ok, symmetric])
      have "\<exists>sp' ds. ofold (child_step w) ?cs (sp, list, []) = Some (sp', list, [] @ ds)
         \<and> cached sp' sp0 \<and> distinct ds \<and> leads_first sp0 ds
         \<and> set ds = (\<Union>c\<in>{c \<in> set ?cs. pulled sp0 w c}. down_refl sp0 c)"
      proof (rule child_loop [OF known _ cs(1) _ less.prems(1)])
        fix c sp list assume "c \<in> set (children (win sp0 w))" "cached sp sp0" "set list \<inter> down sp0 c = {}"
        then show "\<exists>sp' ds. append_children c list sp = Some (sp', list @ ds) \<and> cached sp' sp0 \<and> distinct ds
          \<and> set ds = down sp0 c \<and> leads_first sp0 ds"
          using less.IH [OF cr] by blast
      qed (use cs(2) dn less.prems(2) in simp_all)
      then obtain sp' ds where r: "ofold (child_step w) ?cs (sp, list, []) = Some (sp', list, ds)"
        "cached sp' sp0" "distinct ds" "leads_first sp0 ds" "set ds = down sp0 w"
        unfolding dn by auto
      have "append_children w list sp = Some (sp', list @ ds)"
        using False ch r(1) by (subst append_children_unfold) simp
      then show ?thesis using r by blast
    qed
  qed
qed

section \<open>Sorting by layer\<close>

text \<open>The layers the first loop puts the windows in, as a function of the space the loop starts
  from.\<close>

fun effective_layers :: "space \<Rightarrow> lead_layers \<Rightarrow> wid list \<Rightarrow> win_layer list" where
  "effective_layers sp tab [] = []"
| "effective_layers sp tab (w # ws) =
     (let key = (central_output (win sp w), the (get_top_lead (heap sp) w));
          lay = (case tab key of
                   Some found \<Rightarrow> if found = layer_active \<and> layer_below < layer_of sp w
                                  then layer_active else layer_of sp w
                 | None \<Rightarrow> layer_of sp w)
      in lay # effective_layers sp (tab(key \<mapsto> lay)) ws)"

lemma effective_layers_length [simp]: "length (effective_layers sp tab ws) = length ws"
  by (induction ws arbitrary: tab) (simp_all add: Let_def)

lemma get_top_lead_cached:
  assumes "cached sp' sp" "transient_ok (heap sp)"
  shows "get_top_lead (heap sp') w = get_top_lead (heap sp) w"
  using transient_ok_wf(2) [OF assms(2)]
proof (induction w rule: wf_induct_rule)
  case (less w)
  show ?case
  proof (cases "lead (heap sp) w")
    case None
    then show ?thesis by (simp add: get_top_lead.simps [of _ w] cached_lead [OF assms(1)])
  next
    case (Some l)
    then show ?thesis using less [of l] lead_some [OF Some]
      by (simp add: get_top_lead.simps [of _ w] cached_lead [OF assms(1)])
  qed
qed

lemma layer_of_known: "layers_known sp \<Longrightarrow> layer_of sp w \<noteq> layer_unknown"
  using layer_value_known [of sp w] by (auto simp: layer_of_def)

lemma layer_buckets_loop:
  assumes "layers_known sp0"
  shows "cached sp sp0 \<Longrightarrow> \<exists>sp' tab' lays'. ofold layer_buckets ws (sp, tab, lays) = Some (sp', tab', lays')
    \<and> cached sp' sp0
    \<and> (\<forall>i. lays' i = lays i @ map snd (filter (\<lambda>p. layer_index (fst p) = i)
         (zip (effective_layers sp0 tab ws) ws)))
    \<and> (\<forall>lay\<in>set (effective_layers sp0 tab ws). lay \<noteq> layer_unknown)"
proof (induction ws arbitrary: sp tab lays)
  case (Cons w ws)
  have ok: "transient_ok (heap sp0)" using assms by (simp add: layers_known_def)
  have k: "layers_known sp" by (rule cached_layers_known [OF Cons.prems assms])
  obtain s1 where s1: "get_layer w sp = Some (s1, layer_of sp w)" "cached s1 sp"
    by (rule get_layer_layer_of [OF k])
  have c1: "cached s1 sp0" by (rule cached_trans [OF s1(2) Cons.prems])
  have lo: "layer_of sp w = layer_of sp0 w" by (rule layer_of_cached [OF Cons.prems assms])
  obtain t where t: "get_top_lead (heap sp0) w = Some t" using get_top_lead_some [OF ok] by blast
  let ?key = "(central_output (win sp0 w), t)"
  define lay where "lay = (case tab ?key of
       Some found \<Rightarrow> if found = layer_active \<and> layer_below < layer_of sp0 w
                      then layer_active else layer_of sp0 w
     | None \<Rightarrow> layer_of sp0 w)"
  have lu: "lay \<noteq> layer_unknown" using layer_of_known [OF assms, of w] by (auto simp: lay_def split: option.split)
  have e: "effective_layer w (sp, tab) = Some (s1, tab(?key \<mapsto> lay), lay)"
    using s1(1) t lo
    by (auto simp: effective_layer_def get_top_lead_cached [OF c1 ok] cached_window [OF c1] lay_def
        less_win_layer_def Let_def split: option.split)
  have b: "layer_buckets w (sp, tab, lays)
      = Some (s1, tab(?key \<mapsto> lay), lays(layer_index lay := lays (layer_index lay) @ [w]))"
    using layer_index_range [OF lu] e by (simp add: layer_buckets_def not_less not_le Let_def)
  have el: "effective_layers sp0 tab (w # ws) = lay # effective_layers sp0 (tab(?key \<mapsto> lay)) ws"
    by (simp add: t lay_def Let_def)
  obtain s2 tab2 lays2 where "ofold layer_buckets ws (s1, tab(?key \<mapsto> lay),
        lays(layer_index lay := lays (layer_index lay) @ [w])) = Some (s2, tab2, lays2)"
    "cached s2 sp0"
    "\<forall>i. lays2 i = (lays(layer_index lay := lays (layer_index lay) @ [w])) i
       @ map snd (filter (\<lambda>p. layer_index (fst p) = i) (zip (effective_layers sp0 (tab(?key \<mapsto> lay)) ws) ws))"
    "\<forall>l\<in>set (effective_layers sp0 (tab(?key \<mapsto> lay)) ws). l \<noteq> layer_unknown"
    using Cons.IH [OF c1] by blast
  then show ?case using b lu unfolding el by auto
qed simp

text \<open>Collecting buckets is sorting by key, stably.\<close>

lemma concat_buckets_sort_key:
  fixes f :: "'a \<Rightarrow> int"
  assumes "\<forall>x\<in>set xs. a \<le> f x \<and> f x \<le> b"
  shows "concat (map (\<lambda>i. filter (\<lambda>x. f x = i) xs) [a..b]) = sort_key f xs"
proof (rule properties_for_sort_key [symmetric])
  have count: "count (mset (concat (map (\<lambda>i. filter (\<lambda>x. f x = i) xs) [a..b]))) x
      = (if a \<le> f x \<and> f x \<le> b then count (mset xs) x else 0)" for x
  proof (induction "nat (b + 1 - a)" arbitrary: b)
    case 0
    then have "[a..b] = []" by simp
    with 0 show ?case by (auto simp: not_le)
  next
    case (Suc n)
    then have "a \<le> b" by simp
    then have s: "[a..b] = [a..b - 1] @ [b]" by (rule upto_rec2)
    have "n = nat (b - 1 + 1 - a)" using Suc(2) by linarith
    note IH = Suc(1) [OF this]
    have "count (mset (filter (\<lambda>x. f x = b) xs)) x = (if f x = b then count (mset xs) x else 0)"
      by (simp add: count_mset)
    then show ?case using IH by (simp add: s \<open>a \<le> b\<close>)
  qed
  show "mset (concat (map (\<lambda>i. filter (\<lambda>x. f x = i) xs) [a..b])) = mset xs"
    by (rule multiset_eqI) (use count assms in \<open>auto simp: count_eq_zero_iff\<close>)
  show "sorted (map f (concat (map (\<lambda>i. filter (\<lambda>x. f x = i) xs) [a..b])))"
  proof (induction "nat (b + 1 - a)" arbitrary: b)
    case (Suc n)
    then have "a \<le> b" by simp
    then have s: "[a..b] = [a..b - 1] @ [b]" by (rule upto_rec2)
    have "n = nat (b - 1 + 1 - a)" using Suc(2) by linarith
    note IH = Suc(1) [OF this]
    have "map f (filter (\<lambda>x. f x = b) xs) = replicate (length (filter (\<lambda>x. f x = b) xs)) b"
      by (induction xs) auto
    with IH show ?case by (auto simp: s sorted_append)
  qed simp
  fix k assume "k \<in> set (concat (map (\<lambda>i. filter (\<lambda>x. f x = i) xs) [a..b]))"
  then have r: "a \<le> f k" "f k \<le> b" by auto
  have "filter (\<lambda>x. f k = f x) (concat (map (\<lambda>i. filter (\<lambda>x. f x = i) xs) is))
      = (if f k \<in> set is then filter (\<lambda>x. f k = f x) xs else [])" if "distinct is" for "is"
    using that
  proof (induction "is")
    case (Cons i ks)
    have "filter (\<lambda>x. f k = f x) (filter (\<lambda>x. f x = i) xs)
        = (if f k = i then filter (\<lambda>x. f k = f x) xs else [])"
      by (auto intro: filter_cong)
    with Cons show ?case by auto
  qed simp
  from this [of "[a..b]"] show "filter (\<lambda>x. f k = f x) (concat (map (\<lambda>i. filter (\<lambda>x. f x = i) xs) [a..b]))
      = filter (\<lambda>x. f k = f x) xs" using r by simp
qed

lemma sort_windows_by_layer_some:
  assumes "layers_known sp"
  obtains sp' where "sort_windows_by_layer ws sp = Some (sp', map snd (sort_key (\<lambda>p. layer_index (fst p))
      (zip (effective_layers sp (\<lambda>k. None) ws) ws)))" "cached sp' sp"
proof -
  let ?z = "zip (effective_layers sp (\<lambda>k. None) ws) ws"
  obtain sp' tab lays where l: "ofold layer_buckets ws (sp, (\<lambda>k. None), (\<lambda>i. [])) = Some (sp', tab, lays)"
    "cached sp' sp" "\<forall>i. lays i = map snd (filter (\<lambda>p. layer_index (fst p) = i) ?z)"
    "\<forall>lay\<in>set (effective_layers sp (\<lambda>k. None) ws). lay \<noteq> layer_unknown"
    using layer_buckets_loop [OF assms cached_refl, of ws "\<lambda>k. None" "\<lambda>i. []"] by auto
  have "\<forall>p\<in>set ?z. layer_first \<le> layer_index (fst p) \<and> layer_index (fst p) \<le> layer_count - 1"
    using l(4) layer_index_range by (fastforce dest: set_zip_leftD)
  note sorted = concat_buckets_sort_key [OF this]
  have "map snd (concat (map (\<lambda>i. filter (\<lambda>p. layer_index (fst p) = i) ?z) is)) = concat (map lays is)" for "is"
    using l(3) by (induction "is") simp_all
  then have "concat (map lays [layer_first..layer_count - 1]) = map snd (sort_key (\<lambda>p. layer_index (fst p)) ?z)"
    unfolding sorted [symmetric] by (rule sym)
  then show ?thesis using that l(1,2) by (simp add: sort_windows_by_layer_def)
qed

lemma sort_by_layer_mset:
  "mset (map snd (sort_key f (zip (effective_layers sp tab ws) ws))) = mset ws"
proof -
  have "mset (map snd (sort_key f (zip (effective_layers sp tab ws) ws)))
      = image_mset snd (mset (zip (effective_layers sp tab ws) ws))" by simp
  also have "\<dots> = mset (map snd (zip (effective_layers sp tab ws) ws))" by (simp only: mset_map)
  finally show ?thesis by simp
qed

section \<open>The sorting of the whole stack\<close>

text \<open>A window none of whose leads pulls it up.\<close>

definition stack_root :: "space \<Rightarrow> wid \<Rightarrow> bool" where
  "stack_root sp w \<longleftrightarrow> \<not> (\<exists>l\<in>set (leads (win sp w)). pulled sp l w)"

lemma stack_root_rel: "stack_root sp w \<longleftrightarrow> (\<forall>l. (w, l) \<notin> pull_rel sp)"
  by (auto simp: stack_root_def pull_rel_def)

lemma root_trees_disjoint:
  assumes "forest sp" "stack_root sp r1" "stack_root sp r2" "r1 \<noteq> r2"
  shows "down_refl sp r1 \<inter> down_refl sp r2 = {}"
proof -
  have sv: "single_valued (pull_rel sp)"
    using forest_single_valued [OF assms(1)] pull_rel_sub by (rule single_valued_subset [rotated])
  have False if "(a, b) \<in> (pull_rel sp)\<^sup>*" "a \<noteq> b" "stack_root sp a" for a b
    using that by (auto simp: stack_root_rel elim: converse_rtranclE)
  moreover have "(r1, r2) \<in> (pull_rel sp)\<^sup>* \<or> (r2, r1) \<in> (pull_rel sp)\<^sup>*"
    if "x \<in> down_refl sp r1 \<inter> down_refl sp r2" for x
    using that single_valued_confluent [OF sv, of x r1 r2] by (auto simp: down_refl_def)
  ultimately show ?thesis using assms(2-4) by (metis Int_iff disjoint_iff)
qed

lemma down_not_root: "d \<in> down sp w \<Longrightarrow> \<not> stack_root sp d"
  by (auto simp: down_def stack_root_rel dest: tranclD)

lemma sort_loop:
  assumes known: "layers_known sp0" "forest sp0"
  shows "cached sp sp0 \<Longrightarrow> distinct ws \<Longrightarrow>
     set stck \<inter> (\<Union>r\<in>{r \<in> set ws. stack_root sp0 r}. down_refl sp0 r) = {} \<Longrightarrow>
     \<exists>sp' ns. ofold sort_window ws (sp, stck) = Some (sp', stck @ ns) \<and> cached sp' sp0 \<and> distinct ns
       \<and> leads_first sp0 ns \<and> filter (stack_root sp0) ns = filter (stack_root sp0) ws
       \<and> set ns = (\<Union>r\<in>{r \<in> set ws. stack_root sp0 r}. down_refl sp0 r)"
proof (induction ws arbitrary: sp stck)
  case (Cons w ws)
  have ok: "transient_ok (heap sp0)" using known(1) by (simp add: layers_known_def)
  have k: "layers_known sp" by (rule cached_layers_known [OF Cons.prems(1) known(1)])
  have d: "distinct ws" using Cons.prems(2) by simp
  let ?below = "\<lambda>ws. \<Union>r\<in>{r \<in> set ws. stack_root sp0 r}. down_refl sp0 r"
  obtain s1 where s1: "any_lead_needs_restack (leads (win sp w)) w sp
      = Some (s1, \<exists>l\<in>set (leads (win sp w)). pulled sp l w)" "cached s1 sp"
    using any_lead_needs_restack_some [OF k] by blast
  have c1: "cached s1 sp0" by (rule cached_trans [OF s1(2) Cons.prems(1)])
  have b: "(\<exists>l\<in>set (leads (win sp w)). pulled sp l w) = (\<not> stack_root sp0 w)"
    by (simp add: stack_root_def pulled_cached [OF Cons.prems(1) known(1)] cached_window [OF Cons.prems(1)])
  show ?case
  proof (cases "stack_root sp0 w")
    case False
    have sub: "?below (w # ws) = ?below ws" using False by auto
    have "\<exists>sp' ns. ofold sort_window ws (s1, stck) = Some (sp', stck @ ns) \<and> cached sp' sp0 \<and> distinct ns
       \<and> leads_first sp0 ns \<and> filter (stack_root sp0) ns = filter (stack_root sp0) ws \<and> set ns = ?below ws"
      by (rule Cons.IH [OF c1 d]) (use Cons.prems(3) sub in simp)
    moreover have "sort_window w (sp, stck) = Some (s1, stck)"
      using s1(1) b False by (simp add: sort_window_def)
    ultimately show ?thesis unfolding sub using False by simp
  next
    case True
    have split: "?below (w # ws) = down_refl sp0 w \<union> ?below ws" using True by auto
    have dis: "set stck \<inter> down_refl sp0 w = {}" "set stck \<inter> ?below ws = {}"
      using Cons.prems(3) unfolding split by blast+
    have rest: "down_refl sp0 w \<inter> down_refl sp0 r = {}" if "r \<in> set ws" "stack_root sp0 r" for r
      by (rule root_trees_disjoint [OF known(2) True that(2)]) (use that Cons.prems(2) in auto)
    have nw: "w \<notin> set stck" using dis(1) by (auto simp: down_refl_eq)
    have pre: "set (stck @ [w]) \<inter> down sp0 w = {}"
      using dis(1) not_below_itself [OF ok, of w] by (auto simp: down_refl_eq)
    obtain s2 ds where s2: "append_children w (stck @ [w]) s1 = Some (s2, (stck @ [w]) @ ds)"
      "cached s2 sp0" "distinct ds" "set ds = down sp0 w" "leads_first sp0 ds"
      using append_children_some [OF known c1 pre] by blast
    have set1: "set (w # ds) = down_refl sp0 w" using s2(4) by (simp add: down_refl_eq)
    have pre2: "set (stck @ w # ds) \<inter> ?below ws = {}"
      using dis(2) rest unfolding set_append set1 by blast
    obtain s3 ns where s3: "ofold sort_window ws (s2, stck @ w # ds) = Some (s3, (stck @ w # ds) @ ns)"
      "cached s3 sp0" "distinct ns" "leads_first sp0 ns"
      "filter (stack_root sp0) ns = filter (stack_root sp0) ws" "set ns = ?below ws"
      using Cons.IH [OF s2(2) d pre2] by (elim exE conjE) (rule that; assumption)
    have "sort_window w (sp, stck) = Some (s2, stck @ w # ds)"
      using s1(1) b True nw s2(1) by (simp add: sort_window_def)
    then have e: "ofold sort_window (w # ws) (sp, stck) = Some (s3, stck @ (w # ds) @ ns)"
      using s3(1) by simp
    have "filter (stack_root sp0) ds = []" using s2(4) down_not_root by (auto simp: filter_empty_conv)
    then have f: "filter (stack_root sp0) ((w # ds) @ ns) = filter (stack_root sp0) (w # ws)"
      using True s3(5) by simp
    have dj: "set (w # ds) \<inter> set ns = {}" unfolding set1 s3(6) using rest by blast
    have "w \<notin> set ds" using s2(4) not_below_itself [OF ok] by simp
    then have dist: "distinct ((w # ds) @ ns)" using s2(3) s3(3) dj by simp
    have "leads_first sp0 ((w # ds) @ ns)"
    proof (rule leads_first_append)
      show "leads_first sp0 (w # ds)" by (rule leads_first_Cons_down [OF s2(5,4) ok])
      fix a b assume ab: "(a, b) \<in> pull_rel sp0" "b \<in> set ns"
      then obtain x where x: "x \<in> set ws" "stack_root sp0 x" "(b, x) \<in> (pull_rel sp0)\<^sup>*"
        unfolding s3(6) by (auto simp: down_refl_def)
      then have "a \<in> down_refl sp0 x" using ab(1)
        by (auto simp: down_refl_def intro: converse_rtrancl_into_rtrancl)
      then show "a \<notin> set (w # ds)" unfolding set1 using rest [OF x(1,2)] by blast
    qed (rule s3(4))
    then show ?thesis using e s3(2,6) set1 split dist f by auto
  qed
qed auto

lemma some_root:
  assumes "transient_ok (heap sp)"
  shows "\<exists>r. stack_root sp r \<and> (w, r) \<in> (pull_rel sp)\<^sup>*"
proof -
  have "wf ((pull_rel sp)\<inverse>)"
    using transient_ok_wf(2) [OF assms] pull_rel_sub by (metis converse_mono wf_subset)
  then show ?thesis
  proof (induction w rule: wf_induct_rule)
    case (less w)
    show ?case
    proof (cases "stack_root sp w")
      case False
      then obtain l where l: "(w, l) \<in> pull_rel sp" by (auto simp: stack_root_rel)
      with less [of l] obtain r where "stack_root sp r" "(l, r) \<in> (pull_rel sp)\<^sup>*" by auto
      with l show ?thesis by (blast intro: converse_rtrancl_into_rtrancl)
    qed auto
  qed
qed

text \<open>The windows of the unconstrained order come with their leads and children.\<close>

definition pre_stack_closed :: "space \<Rightarrow> bool" where
  "pre_stack_closed sp \<longleftrightarrow> distinct (pre_stack sp)
     \<and> (\<forall>w\<in>set (pre_stack sp). set (leads (win sp w)) \<subseteq> set (pre_stack sp)
          \<and> set (children (win sp w)) \<subseteq> set (pre_stack sp))"

definition layer_order :: "space \<Rightarrow> wid list" where
  "layer_order sp = map snd (sort_key (\<lambda>p. layer_index (fst p))
      (zip (effective_layers sp (\<lambda>k. None) (pre_stack sp)) (pre_stack sp)))"

lemma layer_order_set: "set (layer_order sp) = set (pre_stack sp)"
  "distinct (layer_order sp) = distinct (pre_stack sp)"
  unfolding layer_order_def
  by (rule mset_eq_setD [OF sort_by_layer_mset], rule mset_eq_imp_distinct_iff [OF sort_by_layer_mset])

lemma stacking_sort_some:
  assumes known: "layers_known sp" "forest sp" and closed: "pre_stack_closed sp"
  obtains sp' stck where "stacking_sort sp = Some (sp'\<lparr>stack := stck\<rparr>, stack sp \<noteq> stck)"
    "cached sp' sp" "distinct stck" "set stck = set (pre_stack sp)" "leads_first sp stck"
    "filter (stack_root sp) stck = filter (stack_root sp) (layer_order sp)"
proof -
  have ok: "transient_ok (heap sp)" using known(1) by (simp add: layers_known_def)
  obtain s1 where s1: "sort_windows_by_layer (pre_stack sp) sp = Some (s1, layer_order sp)" "cached s1 sp"
    unfolding layer_order_def by (rule sort_windows_by_layer_some [OF known(1)])
  have d: "distinct (layer_order sp)" using closed layer_order_set(2) by (simp add: pre_stack_closed_def)
  obtain s2 ns where s2: "ofold sort_window (layer_order sp) (s1, []) = Some (s2, ns)" "cached s2 sp"
    "distinct ns" "leads_first sp ns" "filter (stack_root sp) ns = filter (stack_root sp) (layer_order sp)"
    "set ns = (\<Union>r\<in>{r \<in> set (layer_order sp). stack_root sp r}. down_refl sp r)"
    using sort_loop [OF known s1(2) d, of "[]"] by auto
  have up: "(w, r) \<in> (pull_rel sp)\<^sup>* \<Longrightarrow> w \<in> set (pre_stack sp) \<Longrightarrow> r \<in> set (pre_stack sp)" for w r
    by (induction rule: rtrancl_induct)
      (use closed in \<open>auto simp: pre_stack_closed_def pull_rel_def\<close>)
  have dn: "(w, r) \<in> (pull_rel sp)\<^sup>* \<Longrightarrow> r \<in> set (pre_stack sp) \<Longrightarrow> w \<in> set (pre_stack sp)" for w r
  proof (induction rule: converse_rtrancl_induct)
    case (step y z)
    then have "y \<in> set (children (win sp z))"
      using ok by (simp add: pull_rel_def transient_ok_def converse_ok_def)
    with step show ?case using closed by (auto simp: pre_stack_closed_def)
  qed
  have "set ns = set (pre_stack sp)"
    unfolding s2(6) layer_order_set using up dn some_root [OF ok] by (fastforce simp: down_refl_def)
  moreover have "stacking_sort sp = Some (s2\<lparr>stack := ns\<rparr>, stack sp \<noteq> ns)"
    using s1(1) s2(1) cached_space(1) [OF s2(2)] by (simp add: stacking_sort_def Let_def)
  ultimately show ?thesis using that s2 by blast
qed

end
