(* ===== verification/Stacking.thy ===== *)
theory Stacking
  imports Stacking_Sort_Props Focus_Chain
begin

text \<open>
  Raising, lowering and restacking windows: como/win/stacking.h. The user's order is
  \<open>pre_stack\<close>, the topmost window last; the constrained order \<open>stack\<close> is computed from it when
  the last lock is released. A blocker locks where it is constructed and unlocks where it is
  destroyed.
\<close>

definition cancel_auto_raise :: "wid \<Rightarrow> space \<Rightarrow> space option" where
  "cancel_auto_raise w sp =
     do {
       ctl \<leftarrow> win_control (win sp w);
       Some (update_window w (\<lambda>x. x\<lparr>win_control := Some (ctl\<lparr>auto_raise_timer := False\<rparr>)\<rparr>) sp)
     }"

definition top_client_in_subspace ::
    "space \<Rightarrow> int \<Rightarrow> nat option \<Rightarrow> bool \<Rightarrow> bool \<Rightarrow> wid option" where
  "top_client_in_subspace sp subsp output unconstrained only_normal =
     (let list = (if unconstrained then pre_stack sp else stack sp)
      in List.find (\<lambda>w.
           if \<not> on_subspace sp w subsp then False
           else if \<not> shown (win sp w) then False
           else if output \<noteq> None \<and> central_output (win sp w) \<noteq> output then False
           else if \<not> only_normal then True
           else if wants_tab_focus (win sp w) \<and> \<not> is_special_window (win sp w) then True
           else False) (rev list))"

definition restacked_by_space_stacking_order :: "space \<Rightarrow> wid list \<Rightarrow> wid list" where
  "restacked_by_space_stacking_order sp list = ensure_stacking_order_in_list (stack sp) list"

section \<open>Lowering\<close>

text \<open>The lambda do_lower up to its return: the lock it takes is still held.\<close>

definition do_lower :: "wid \<Rightarrow> space \<Rightarrow> space option" where
  "do_lower w sp =
     do {
       sp \<leftarrow> cancel_auto_raise w sp;
       let sp = stacking_lock sp;
       let (found, ps) = move_to_front (pre_stack sp) w;
       Some (sp\<lparr>pre_stack := (if found then ps else w # pre_stack sp)\<rparr>)
     }"

definition lower_cleanup :: "wid \<Rightarrow> space \<Rightarrow> space" where
  "lower_cleanup w sp =
     (if most_recently_raised sp = Some w then sp\<lparr>most_recently_raised := None\<rparr> else sp)"

definition lower_family_member :: "wid \<Rightarrow> wid \<Rightarrow> space \<Rightarrow> space option" where
  "lower_family_member w gwin sp =
     (if gwin = w then Some sp
      else do {
        sp \<leftarrow> do_lower gwin sp;
        sp \<leftarrow> stacking_unlock sp;
        Some (lower_cleanup gwin sp)
      })"

definition lower_window :: "wid \<Rightarrow> space \<Rightarrow> space option" where
  "lower_window w sp =
     do {
       sp \<leftarrow> do_lower w sp;
       sp \<leftarrow> (if win_class (win sp w) = X11_Window \<and> lead (heap sp) w \<noteq> None
                 \<and> win_group (win sp w) \<noteq> None
               then do {
                 family \<leftarrow> get_transient_family (heap sp) w;
                 ofold (lower_family_member w) (rev (restacked_by_space_stacking_order sp family)) sp
               }
               else Some sp);
       stacking_unlock (lower_cleanup w sp)
     }"

section \<open>Raising\<close>

definition raise_prepare :: "wid \<Rightarrow> space \<Rightarrow> space option" where
  "raise_prepare w sp = do { sp \<leftarrow> cancel_auto_raise w sp; Some (stacking_lock sp) }"

definition do_raise :: "wid \<Rightarrow> space \<Rightarrow> space" where
  "do_raise w sp =
     (let (found, ps) = move_to_back (pre_stack sp) w
      in if \<not> found then sp
         else let sp = sp\<lparr>pre_stack := ps\<rparr>
              in if \<not> is_special_window (win sp w) then sp\<lparr>most_recently_raised := Some w\<rparr> else sp)"

text \<open>The inner while loop over the leads of a lead.\<close>

partial_function (option) collect_leads :: "(wid \<Rightarrow> window) \<Rightarrow> wid \<Rightarrow> wid list \<Rightarrow> wid list option" where
  "collect_leads h l acc =
     (let acc = (if contains acc l then acc else acc @ [l])
      in case lead h l of None \<Rightarrow> Some acc | Some l' \<Rightarrow> collect_leads h l' acc)"

definition raise_lead :: "wid \<Rightarrow> space \<Rightarrow> space option" where
  "raise_lead l sp =
     (if win_control (win sp l) = None then Some sp
      else do {
        sp \<leftarrow> raise_prepare l sp;
        stacking_unlock (do_raise l sp)
      })"

definition raise_window :: "wid option \<Rightarrow> space \<Rightarrow> space option" where
  "raise_window window sp =
     (case window of
        None \<Rightarrow> Some sp
      | Some w \<Rightarrow> do {
          sp \<leftarrow> raise_prepare w sp;
          sp \<leftarrow> (if lead (heap sp) w \<noteq> None
                 then do {
                   ls \<leftarrow> ofold (collect_leads (heap sp)) (leads (win sp w)) [];
                   ofold raise_lead (restacked_by_space_stacking_order sp ls) sp
                 }
                 else Some sp);
          stacking_unlock (do_raise w sp)
        })"

text \<open>The argument \<open>option_separate\<close> is the option isSeparateScreenFocus.\<close>

definition raise_or_lower_client :: "bool \<Rightarrow> wid option \<Rightarrow> space \<Rightarrow> space option" where
  "raise_or_lower_client option_separate window sp =
     (case window of
        None \<Rightarrow> Some sp
      | Some w \<Rightarrow>
          let topmost =
                (if (case most_recently_raised sp of
                       Some r \<Rightarrow> contains (stack sp) r \<and> shown (win sp r) | None \<Rightarrow> False)
                    \<and> on_current_subspace sp w
                 then most_recently_raised sp
                 else top_client_in_subspace sp
                        (if on_all_subspaces sp w
                         then int (subspaces_get_current_x11id (subspace_manager sp))
                         else get_subspace sp w)
                        (if option_separate then central_output (win sp w) else None) False True)
          in if topmost = Some w then lower_window w sp else raise_window window sp)"

section \<open>Restacking\<close>

text \<open>The loop over the unconstrained order from its top; the list is what is still to visit.\<close>

fun restack_find_under :: "wid \<Rightarrow> wid \<Rightarrow> wid list \<Rightarrow> space \<Rightarrow> (space \<times> wid) option" where
  "restack_find_under w und [] sp = Some (sp, und)"
| "restack_find_under w und (other # rest) sp =
     (if win_class (win sp other) \<noteq> win_class (win sp und)
         \<or> win_control (win sp other) = None
      then restack_find_under w und rest sp
      else do {
        (sp, other_layer) \<leftarrow> get_layer other sp;
        (sp, window_layer) \<leftarrow> get_layer w sp;
        if other_layer \<noteq> window_layer then restack_find_under w und rest sp
        else do {
          same \<leftarrow> same_client sp und other;
          if \<not> same then restack_find_under w und rest sp
          else if w = other then None
          else Some (sp, other)
        }
      })"

definition restack :: "wid \<Rightarrow> wid \<Rightarrow> bool \<Rightarrow> space \<Rightarrow> space option" where
  "restack w und force sp =
     (if \<not> contains (pre_stack sp) und then None
      else do {
        same \<leftarrow> (if force then Some True else same_client sp und w);
        (sp, und) \<leftarrow> (if \<not> force \<and> \<not> same then restack_find_under w und (rev (pre_stack sp)) sp
                        else Some (sp, und));
        let ps = remove_all (pre_stack sp) w;
        let sp = sp\<lparr>pre_stack := insert_at (find_it ps und) w ps\<rparr>;
        sp \<leftarrow> focus_chain_move_window_after w und sp;
        update_order sp
      })"

definition restack_client_under_active :: "wid \<Rightarrow> space \<Rightarrow> space option" where
  "restack_client_under_active w sp =
     (case active sp of
        None \<Rightarrow> raise_window (Some w) sp
      | Some act_win \<Rightarrow>
          if act_win = w then raise_window (Some w) sp
          else do {
            (sp, act_layer) \<leftarrow> get_layer act_win sp;
            (sp, win_layer) \<leftarrow> get_layer w sp;
            if act_layer \<noteq> win_layer then raise_window (Some w) sp
            else restack w act_win False sp
          })"

definition auto_raise :: "wid \<Rightarrow> space \<Rightarrow> space option" where
  "auto_raise w sp = do { sp \<leftarrow> raise_window (Some w) sp; cancel_auto_raise w sp }"

definition index_of_stacking_order :: "space \<Rightarrow> wid \<Rightarrow> int" where
  "index_of_stacking_order sp w = index_of (stack sp) w"

end
