(* ===== verification/Stacking_Lock.thy ===== *)
theory Stacking_Lock
  imports Stacking Example_Space
begin

text \<open>
  The lock of the stacking order as a contract. The locale \<open>update_lock\<close> says what a lock that
  counts and a view that changes only when the count drops to zero promise, and proves that what
  happens between two nested calls of the lock stays out of view. The interpretation at the end
  of the section discharges the promises for the lock of stacking_order.h; the operations of
  stacking.h and layers.h are then shown to keep the contract.
\<close>

section \<open>The contract\<close>

definition kept :: "('s \<Rightarrow> int) \<Rightarrow> ('s \<Rightarrow> 'v) \<Rightarrow> 's \<Rightarrow> 's \<Rightarrow> bool" where
  "kept depth view s s' \<longleftrightarrow> depth s' = depth s \<and> (0 < depth s \<longrightarrow> view s' = view s)"

lemma kept_refl [simp]: "kept depth view s s"
  by (simp add: kept_def)

lemma kept_trans [trans]: "kept d v s t \<Longrightarrow> kept d v t u \<Longrightarrow> kept d v s u"
  by (simp add: kept_def)

lemma kept_ofold:
  assumes "ofold f xs s = Some t" "\<And>x s t. x \<in> set xs \<Longrightarrow> f x s = Some t \<Longrightarrow> kept d v s t"
  shows "kept d v s t"
  using ofold_invariant [OF assms(1), of "kept d v s"] kept_trans assms(2) kept_refl by metis

locale update_lock =
  fixes depth :: "'s \<Rightarrow> int" and view :: "'s \<Rightarrow> 'v" and lock :: "'s \<Rightarrow> 's"
    and unlock :: "'s \<Rightarrow> 's option"
  assumes lock_depth: "depth (lock s) = depth s + 1"
    and lock_view: "0 < depth s \<Longrightarrow> view (lock s) = view s"
    and unlock_depth: "unlock s = Some s' \<Longrightarrow> depth s' = depth s - 1"
    and unlock_view: "unlock s = Some s' \<Longrightarrow> 1 < depth s \<Longrightarrow> view s' = view s"
begin

text \<open>A block that locks, keeps the contract and unlocks keeps the contract.\<close>

lemma kept_block: "kept depth view (lock s) t \<Longrightarrow> unlock t = Some u \<Longrightarrow> kept depth view s u"
  using lock_depth [of s] lock_view [of s] unlock_depth [of t u] unlock_view [of t u]
  by (auto simp: kept_def)

lemma kept_block_bind:
  "Option.bind (f (lock s)) unlock = Some u \<Longrightarrow>
     (\<And>t. f (lock s) = Some t \<Longrightarrow> kept depth view (lock s) t) \<Longrightarrow> kept depth view s u"
  by (auto simp: bind_eq_Some_conv intro: kept_block)

end

section \<open>Sorting writes nothing but cached layers\<close>

definition heap_only :: "space \<Rightarrow> space \<Rightarrow> bool" where
  "heap_only sp sp' \<longleftrightarrow> sp' = sp\<lparr>heap := heap sp'\<rparr>"

lemma heap_only_refl [simp]: "heap_only sp sp"
  by (simp add: heap_only_def)

lemma heap_only_trans:
  assumes "heap_only a b" "heap_only b c"
  shows "heap_only a c"
proof -
  have "c = (a\<lparr>heap := heap b\<rparr>)\<lparr>heap := heap c\<rparr>" using assms unfolding heap_only_def by metis
  then show ?thesis by (simp add: heap_only_def)
qed

lemma heap_only_update [simp]: "heap_only sp (update_window w f sp)"
  by (simp add: heap_only_def update_window_def)

lemma heap_only_ofold:
  assumes "ofold f xs s = Some t"
    and "\<And>x s t. x \<in> set xs \<Longrightarrow> f x s = Some t \<Longrightarrow> heap_only (g s) (g t)"
  shows "heap_only (g s) (g t)"
  using ofold_invariant [OF assms(1), of "\<lambda>u. heap_only (g s) (g u)"] heap_only_trans assms(2)
    heap_only_refl by metis

lemma get_layer_heap_only: "get_layer w sp = Some (sp', lay) \<Longrightarrow> heap_only sp sp'"
  by (drule get_layer.raw_induct [where P = "\<lambda>w sp p. heap_only sp (fst p)", rotated])
    (auto simp: bind_eq_Some_conv split: if_splits)

lemma needs_child_restack_heap_only:
  "needs_child_restack l c sp = Some (sp', b) \<Longrightarrow> heap_only sp sp'"
  by (auto simp: needs_child_restack_def bind_eq_Some_conv split: if_splits
      dest!: get_layer_heap_only intro: heap_only_trans)

lemma any_lead_needs_restack_heap_only:
  "any_lead_needs_restack ls w sp = Some (sp', b) \<Longrightarrow> heap_only sp sp'"
proof (induction ls arbitrary: sp)
  case (Cons l ls)
  then show ?case
    by (auto simp: bind_eq_Some_conv split: if_splits dest!: needs_child_restack_heap_only
        intro: heap_only_trans)
qed simp

lemma layer_buckets_heap_only:
  "layer_buckets w (sp, tab, lays) = Some (sp', tab', lays') \<Longrightarrow> heap_only sp sp'"
  by (auto simp: layer_buckets_def effective_layer_def bind_eq_Some_conv Let_def split: if_splits
      dest!: get_layer_heap_only)

lemma sort_windows_by_layer_heap_only:
  assumes "sort_windows_by_layer ws sp = Some (sp', ys)"
  shows "heap_only sp sp'"
proof -
  from assms obtain tab lays where
    "ofold layer_buckets ws (sp, (\<lambda>k. None), (\<lambda>i. [])) = Some (sp', tab, lays)"
    by (auto simp: sort_windows_by_layer_def bind_eq_Some_conv)
  from heap_only_ofold [OF this, of fst] show ?thesis
    using layer_buckets_heap_only by (metis prod.exhaust_sel fst_conv)
qed

lemma append_children_heap_only: "append_children w xs sp = Some (sp', ys) \<Longrightarrow> heap_only sp sp'"
proof (drule append_children.raw_induct [where P = "\<lambda>w xs sp p. heap_only sp (fst p)", rotated])
  fix f w and xs :: "wid list" and sp p
  let ?round = "\<lambda>child st. case st of (sp, list, stacked) \<Rightarrow> do {
            (sp, b) \<leftarrow> needs_child_restack w child sp;
            if \<not> b then Some (sp, list, stacked)
            else do {
              let list = remove_all list child;
              (sp, stacked) \<leftarrow> f child (stacked @ [child]) sp;
              Some (sp, list, stacked)
            }
          }"
  assume IH: "\<And>w xs sp p. f w xs sp = Some p \<Longrightarrow> heap_only sp (fst p)"
    and r: "(if children (win sp w) = [] then Some (sp, xs)
     else do {
        (sp, list, stacked) \<leftarrow> ofold ?round
          (ensure_stacking_order_in_list (stack sp) (children (win sp w))) (sp, xs, []);
        Some (sp, list @ stacked)
      }) = Some p"
  have round: "heap_only (fst s) (fst t)" if "?round c s = Some t" for c s t
    using that by (cases s) (auto simp: bind_eq_Some_conv Let_def split: if_splits
        dest!: IH needs_child_restack_heap_only intro: heap_only_trans)
  show "heap_only sp (fst p)"
  proof (cases "children (win sp w) = []")
    case False
    with r obtain t where o: "ofold ?round
        (ensure_stacking_order_in_list (stack sp) (children (win sp w))) (sp, xs, []) = Some t"
      and p: "fst p = fst t" by (auto simp: bind_eq_Some_conv)
    from heap_only_ofold [OF o, of fst] round p show ?thesis by simp
  qed (use r in auto)
qed simp

lemma sort_window_heap_only: "sort_window w (sp, xs) = Some (sp', ys) \<Longrightarrow> heap_only sp sp'"
  by (auto simp: sort_window_def bind_eq_Some_conv split: if_splits
      dest!: any_lead_needs_restack_heap_only append_children_heap_only intro: heap_only_trans)

text \<open>The result of the sorting: the new stack and a flag that says whether it differs.\<close>

lemma stacking_sort_frame:
  assumes "stacking_sort sp = Some (sp', changed)"
  shows "sp' = sp\<lparr>heap := heap sp', stack := stack sp'\<rparr>" "changed \<longleftrightarrow> stack sp' \<noteq> stack sp"
proof -
  from assms obtain s1 order s2 ns where s: "sort_windows_by_layer (pre_stack sp) sp = Some (s1, order)"
    "ofold sort_window order (s1, []) = Some (s2, ns)" "sp' = s2\<lparr>stack := ns\<rparr>"
    "changed = (stack s2 \<noteq> ns)"
    by (auto simp: stacking_sort_def bind_eq_Some_conv Let_def)
  have "heap_only s1 s2"
    using heap_only_ofold [OF s(2), of fst] sort_window_heap_only by (metis prod.exhaust_sel fst_conv)
  then have h: "heap_only sp s2"
    using heap_only_trans sort_windows_by_layer_heap_only [OF s(1)] by blast
  then have "stack s2 = stack sp" unfolding heap_only_def by (metis space.select_convs(3) space.surjective space.update_convs(1))
  then show "changed \<longleftrightarrow> stack sp' \<noteq> stack sp" using s(3,4) by auto
  show "sp' = sp\<lparr>heap := heap sp', stack := stack sp'\<rparr>"
    using h unfolding heap_only_def s(3) by (metis space.simps space.surjective space.update_convs)
qed

section \<open>The lock of the stacking order\<close>

text \<open>What a client of the order can see: the stack, the signals and what is still to be done.\<close>

definition order_view :: "space \<Rightarrow> wid list \<times> space_signal list \<times> bool \<times> bool" where
  "order_view sp = (stack sp, space_signals sp, blocked_propagating_new_clients sp,
     restacking_required sp)"

lemma stacking_sort_fields:
  assumes "stacking_sort sp = Some (sp', changed)"
  shows "block_stacking_updates sp' = block_stacking_updates sp" "pre_stack sp' = pre_stack sp"
    "space_signals sp' = space_signals sp" "restacking_required sp' = restacking_required sp"
    "blocked_propagating_new_clients sp' = blocked_propagating_new_clients sp"
  by (subst stacking_sort_frame(1) [OF assms], simp)+

lemma update_order_depth:
  "update_order sp = Some sp' \<Longrightarrow> block_stacking_updates sp' = block_stacking_updates sp"
  by (auto simp: update_order_def process_change_def space_emit_def bind_eq_Some_conv split: if_splits
      dest: stacking_sort_fields)

lemma update_count_depth:
  "update_count sp = Some sp' \<Longrightarrow> block_stacking_updates sp' = block_stacking_updates sp"
  by (auto simp: update_count_def process_change_def space_emit_def bind_eq_Some_conv split: if_splits
      dest: stacking_sort_fields)

lemma stacking_unlock_depth:
  "stacking_unlock sp = Some sp' \<Longrightarrow> block_stacking_updates sp' = block_stacking_updates sp - 1"
  by (auto simp: stacking_unlock_def Let_def space_emit_def bind_eq_Some_conv split: if_splits
      dest: update_order_depth update_count_depth)

interpretation order_lock: update_lock block_stacking_updates order_view stacking_lock stacking_unlock
proof
  fix s s'
  show "block_stacking_updates (stacking_lock s) = block_stacking_updates s + 1"
    by (simp add: stacking_lock_def Let_def)
  show "0 < block_stacking_updates s \<Longrightarrow> order_view (stacking_lock s) = order_view s"
    by (simp add: stacking_lock_def Let_def order_view_def)
  show "stacking_unlock s = Some s' \<Longrightarrow> block_stacking_updates s' = block_stacking_updates s - 1"
    by (rule stacking_unlock_depth)
  show "stacking_unlock s = Some s' \<Longrightarrow> 1 < block_stacking_updates s \<Longrightarrow> order_view s' = order_view s"
    by (auto simp: stacking_unlock_def Let_def order_view_def)
qed

text \<open>The contract between two spaces.\<close>

abbreviation order_kept :: "space \<Rightarrow> space \<Rightarrow> bool" where
  "order_kept \<equiv> kept block_stacking_updates order_view"

lemma heap_only_kept: "heap_only sp sp' \<Longrightarrow> order_kept sp sp'"
proof -
  assume "heap_only sp sp'"
  then have e: "sp' = sp\<lparr>heap := heap sp'\<rparr>" by (simp add: heap_only_def)
  have "order_kept sp (sp\<lparr>heap := heap sp'\<rparr>)" by (simp add: kept_def order_view_def)
  with e show ?thesis by metis
qed

lemma pre_stack_kept [simp]: "order_kept sp (sp\<lparr>pre_stack := ps\<rparr>)"
  "order_kept sp (sp\<lparr>most_recently_raised := r\<rparr>)"
  by (simp_all add: kept_def order_view_def)

lemma update_order_kept: "update_order sp = Some sp' \<Longrightarrow> order_kept sp sp'"
  by (auto simp: kept_def update_order_depth) (simp add: update_order_def)

lemma cancel_auto_raise_kept: "cancel_auto_raise w sp = Some sp' \<Longrightarrow> order_kept sp sp'"
  by (auto simp: cancel_auto_raise_def bind_eq_Some_conv intro: heap_only_kept)

lemma get_layer_kept: "get_layer w sp = Some (sp', lay) \<Longrightarrow> order_kept sp sp'"
  by (rule heap_only_kept) (rule get_layer_heap_only)

lemma focus_chain_move_window_after_kept:
  "focus_chain_move_window_after w r sp = Some sp' \<Longrightarrow> order_kept sp sp'"
  by (auto simp: focus_chain_move_window_after_def kept_def order_view_def bind_eq_Some_conv
      split: if_splits)

section \<open>The operations keep the contract\<close>

lemma do_lower_kept:
  assumes "do_lower w sp = Some t"
  obtains s where "order_kept sp s" "order_kept (stacking_lock s) t"
proof -
  from assms obtain s where s: "cancel_auto_raise w sp = Some s"
    "t = (stacking_lock s)\<lparr>pre_stack := (let (found, ps) = move_to_front (pre_stack (stacking_lock s)) w
        in if found then ps else w # pre_stack (stacking_lock s))\<rparr>"
    by (auto simp: do_lower_def bind_eq_Some_conv Let_def split_beta)
  have "order_kept (stacking_lock s) t" unfolding s(2) by (rule pre_stack_kept)
  then show ?thesis by (rule that [OF cancel_auto_raise_kept [OF s(1)]])
qed

lemma lower_cleanup_kept [simp]: "order_kept sp (lower_cleanup w sp)"
  by (simp add: lower_cleanup_def)

lemma lower_family_member_kept: "lower_family_member w g sp = Some sp' \<Longrightarrow> order_kept sp sp'"
proof (cases "g = w")
  case False
  assume "lower_family_member w g sp = Some sp'"
  with False obtain t u where t: "do_lower g sp = Some t" "stacking_unlock t = Some u"
    "sp' = lower_cleanup g u"
    by (auto simp: lower_family_member_def bind_eq_Some_conv)
  obtain s where s: "order_kept sp s" "order_kept (stacking_lock s) t" by (rule do_lower_kept [OF t(1)])
  note s(1) also note order_lock.kept_block [OF s(2) t(2)] also have "order_kept u sp'" by (simp add: t(3))
  finally show ?thesis .
qed (simp add: lower_family_member_def)

lemma lower_window_kept:
  assumes "lower_window w sp = Some sp'"
  shows "order_kept sp sp'"
proof -
  from assms obtain t u where t: "do_lower w sp = Some t"
    "(if win_class (win t w) = X11_Window \<and> lead (heap t) w \<noteq> None \<and> win_group (win t w) \<noteq> None
      then do {
        family \<leftarrow> get_transient_family (heap t) w;
        ofold (lower_family_member w) (rev (restacked_by_space_stacking_order t family)) t
      } else Some t) = Some u" "stacking_unlock (lower_cleanup w u) = Some sp'"
    by (auto simp: lower_window_def bind_eq_Some_conv)
  obtain s where s: "order_kept sp s" "order_kept (stacking_lock s) t" by (rule do_lower_kept [OF t(1)])
  have "order_kept t u"
    using t(2) by (auto simp: bind_eq_Some_conv split: if_splits
        elim!: kept_ofold intro: lower_family_member_kept)
  then have "order_kept (stacking_lock s) (lower_cleanup w u)"
    by (rule kept_trans [OF kept_trans [OF s(2)] lower_cleanup_kept])
  then show ?thesis by (rule kept_trans [OF s(1) order_lock.kept_block [OF _ t(3)]])
qed

lemma do_raise_kept [simp]: "order_kept sp (do_raise w sp)"
  by (simp add: do_raise_def kept_def order_view_def Let_def split: prod.split)

lemma raise_prepare_kept:
  assumes "raise_prepare w sp = Some t"
  obtains s where "order_kept sp s" "t = stacking_lock s"
  using assms that by (auto simp: raise_prepare_def bind_eq_Some_conv dest!: cancel_auto_raise_kept)

lemma raise_lead_kept: "raise_lead l sp = Some sp' \<Longrightarrow> order_kept sp sp'"
proof (cases "win_control (win sp l) = None")
  case False
  assume "raise_lead l sp = Some sp'"
  with False obtain t where t: "raise_prepare l sp = Some t" "stacking_unlock (do_raise l t) = Some sp'"
    by (auto simp: raise_lead_def bind_eq_Some_conv)
  obtain s where s: "order_kept sp s" "t = stacking_lock s" by (rule raise_prepare_kept [OF t(1)])
  have "order_kept (stacking_lock s) (do_raise l t)" by (simp add: s(2))
  then show ?thesis by (rule kept_trans [OF s(1) order_lock.kept_block [OF _ t(2)]])
qed (simp add: raise_lead_def)

lemma raise_window_kept:
  assumes "raise_window x sp = Some sp'"
  shows "order_kept sp sp'"
proof (cases x)
  case (Some w)
  with assms obtain t u where t: "raise_prepare w sp = Some t"
    "(if lead (heap t) w \<noteq> None
      then do {
        ls \<leftarrow> ofold (collect_leads (heap t)) (leads (win t w)) [];
        ofold raise_lead (restacked_by_space_stacking_order t ls) t
      } else Some t) = Some u" "stacking_unlock (do_raise w u) = Some sp'"
    by (auto simp: raise_window_def bind_eq_Some_conv)
  obtain s where s: "order_kept sp s" "t = stacking_lock s" by (rule raise_prepare_kept [OF t(1)])
  have "order_kept t u"
    using t(2) by (auto simp: bind_eq_Some_conv split: if_splits elim!: kept_ofold intro: raise_lead_kept)
  then have "order_kept (stacking_lock s) (do_raise w u)"
    unfolding s(2) by (rule kept_trans [OF _ do_raise_kept])
  then show ?thesis by (rule kept_trans [OF s(1) order_lock.kept_block [OF _ t(3)]])
qed (use assms in \<open>simp add: raise_window_def\<close>)

lemma raise_or_lower_client_kept: "raise_or_lower_client sep x sp = Some sp' \<Longrightarrow> order_kept sp sp'"
  by (cases x) (simp_all add: raise_or_lower_client_def Let_def lower_window_kept raise_window_kept
      split: if_splits)

lemma restack_find_under_kept: "restack_find_under w und os sp = Some (sp', u) \<Longrightarrow> order_kept sp sp'"
proof (induction os arbitrary: sp)
  case (Cons other rest)
  show ?case
  proof (cases "win_class (win sp other) \<noteq> win_class (win sp und) \<or> win_control (win sp other) = None")
    case False
    with Cons.prems obtain s1 l1 s2 l2 where g: "get_layer other sp = Some (s1, l1)"
      "get_layer w s1 = Some (s2, l2)"
      "(if l1 \<noteq> l2 then restack_find_under w und rest s2
        else do {
          same \<leftarrow> same_client s2 und other;
          if \<not> same then restack_find_under w und rest s2
          else if w = other then None else Some (s2, other)
        }) = Some (sp', u)"
      by (auto simp: bind_eq_Some_conv)
    have "order_kept sp s2" by (rule kept_trans [OF get_layer_kept [OF g(1)] get_layer_kept [OF g(2)]])
    moreover have "order_kept s2 sp'"
      using g(3) Cons.IH by (auto simp: bind_eq_Some_conv split: if_splits)
    ultimately show ?thesis by (rule kept_trans)
  qed (use Cons in auto)
qed simp

lemma restack_kept:
  assumes "restack w und force sp = Some sp'"
  shows "order_kept sp sp'"
proof -
  have "und \<in> set (pre_stack sp)" using assms by (rule contrapos_pp) (simp add: restack_def)
  with assms obtain same s1 u s2 where r:
    "(if force then Some True else same_client sp und w) = Some same"
    "(if \<not> force \<and> \<not> same then restack_find_under w und (rev (pre_stack sp)) sp
      else Some (sp, und)) = Some (s1, u)"
    "focus_chain_move_window_after w u
       (s1\<lparr>pre_stack := insert_at (find_it (remove_all (pre_stack s1) w) u) w (remove_all (pre_stack s1) w)\<rparr>)
     = Some s2" "update_order s2 = Some sp'"
    by (auto simp: restack_def bind_eq_Some_conv Let_def split del: if_split)
  have "order_kept sp s1" using r(2) restack_find_under_kept by (auto split: if_splits)
  also have "order_kept s1 s2"
    by (rule kept_trans [OF pre_stack_kept(1) focus_chain_move_window_after_kept [OF r(3)]])
  also note update_order_kept [OF r(4)]
  finally show ?thesis .
qed

lemma restack_client_under_active_kept:
  assumes "restack_client_under_active w sp = Some sp'"
  shows "order_kept sp sp'"
proof (cases "active sp = None \<or> active sp = Some w")
  case False
  with assms obtain a s1 l1 s2 l2 where g: "get_layer a sp = Some (s1, l1)"
    "get_layer w s1 = Some (s2, l2)"
    "(if l1 \<noteq> l2 then raise_window (Some w) s2 else restack w a False s2) = Some sp'"
    by (auto simp: restack_client_under_active_def bind_eq_Some_conv)
  have "order_kept sp s2" by (rule kept_trans [OF get_layer_kept [OF g(1)] get_layer_kept [OF g(2)]])
  also have "order_kept s2 sp'" using g(3) raise_window_kept restack_kept by (auto split: if_splits)
  finally show ?thesis .
qed (use assms in \<open>auto simp: restack_client_under_active_def raise_window_kept\<close>)

lemma auto_raise_kept: "auto_raise w sp = Some sp' \<Longrightarrow> order_kept sp sp'"
  by (auto simp: auto_raise_def bind_eq_Some_conv
      intro: kept_trans [OF raise_window_kept cancel_auto_raise_kept])

lemma update_layer_kept: "update_layer w sp = Some sp' \<Longrightarrow> order_kept sp sp'"
proof (drule update_layer.raw_induct [where P = "\<lambda>w sp sp'. order_kept sp sp'", rotated])
  fix f w sp sp'
  let ?round = "\<lambda>child sp. if annexed (win sp child) then Some sp else f child sp"
  assume IH: "\<And>w sp sp'. f w sp = Some sp' \<Longrightarrow> order_kept sp sp'"
    and r: "(if win_remnant (win sp w) \<noteq> None then Some sp
      else do {
        (sp, lay) \<leftarrow> get_layer w sp;
        belongs \<leftarrow> belong_to_layer sp w;
        if lay = belongs then Some sp
        else do {
          let sp = stacking_lock sp;
          let sp = invalidate_layer w sp;
          sp \<leftarrow> ofold ?round (children (win sp w)) sp;
          stacking_unlock sp
        }
      }) = Some sp'"
  show "order_kept sp sp'"
  proof (cases "win_remnant (win sp w) = None")
    case True
    with r obtain s1 lay b where g: "get_layer w sp = Some (s1, lay)"
      "(if lay = b then Some s1
        else do {
          let sp = stacking_lock s1;
          let sp = invalidate_layer w sp;
          sp \<leftarrow> ofold ?round (children (win sp w)) sp;
          stacking_unlock sp
        }) = Some sp'"
      by (auto simp: bind_eq_Some_conv)
    have "order_kept s1 sp'"
    proof (cases "lay = b")
      case False
      with g(2) obtain t where t: "ofold ?round (children (win (invalidate_layer w (stacking_lock s1)) w))
          (invalidate_layer w (stacking_lock s1)) = Some t" "stacking_unlock t = Some sp'"
        by (auto simp: bind_eq_Some_conv Let_def)
      have "order_kept (stacking_lock s1) (invalidate_layer w (stacking_lock s1))"
        by (rule heap_only_kept) (simp add: invalidate_layer_def)
      also have "order_kept (invalidate_layer w (stacking_lock s1)) t"
        by (rule kept_ofold [OF t(1)]) (auto split: if_splits intro: IH)
      finally show ?thesis using t(2) by (rule order_lock.kept_block)
    qed (use g(2) in simp)
    with get_layer_kept [OF g(1)] show ?thesis by (rule kept_trans)
  qed (use r in simp)
qed simp

end
