(* ===== verification/Stacking_Session.thy ===== *)
theory Stacking_Session
  imports Stacking_Lock
begin

text \<open>
  Sessions of the stacking order: the calls its clients make between the outermost lock and the
  matching unlock, as a relation. While the lock is held the stack stays as it was and no signal
  goes out, whatever is raised, lowered or restacked; the outermost unlock sorts once and tells.
\<close>

datatype stacking_call =
    Call_Lock
  | Call_Unlock
  | Call_Raise "wid option"
  | Call_Lower wid
  | Call_Raise_Or_Lower bool "wid option"
  | Call_Restack wid wid bool
  | Call_Restack_Under_Active wid
  | Call_Auto_Raise wid
  | Call_Update_Layer wid
  | Call_Update_Order
  | Call_Update_Count
  | Call_Force

fun perform :: "stacking_call \<Rightarrow> space \<Rightarrow> space option" where
  "perform Call_Lock sp = Some (stacking_lock sp)"
| "perform Call_Unlock sp = stacking_unlock sp"
| "perform (Call_Raise x) sp = raise_window x sp"
| "perform (Call_Lower w) sp = lower_window w sp"
| "perform (Call_Raise_Or_Lower sep x) sp = raise_or_lower_client sep x sp"
| "perform (Call_Restack w und force) sp = restack w und force sp"
| "perform (Call_Restack_Under_Active w) sp = restack_client_under_active w sp"
| "perform (Call_Auto_Raise w) sp = auto_raise w sp"
| "perform (Call_Update_Layer w) sp = update_layer w sp"
| "perform Call_Update_Order sp = update_order sp"
| "perform Call_Update_Count sp = update_count sp"
| "perform Call_Force sp = force_restacking sp"

text \<open>Calls during which the lock is held all the time.\<close>

inductive held :: "space \<Rightarrow> stacking_call list \<Rightarrow> space \<Rightarrow> bool" where
  held_Nil: "0 < block_stacking_updates sp \<Longrightarrow> held sp [] sp"
| held_Cons: "0 < block_stacking_updates sp \<Longrightarrow> perform c sp = Some sp1 \<Longrightarrow> held sp1 cs sp2 \<Longrightarrow>
     held sp (c # cs) sp2"

inductive_cases held_NilE: "held sp [] sp'"
inductive_cases held_ConsE: "held sp (c # cs) sp'"
inductive_simps held_Nil_iff [simp]: "held sp [] sp'"
inductive_simps held_Cons_iff: "held sp (c # cs) sp'"

text \<open>What one call adds to the number of locks.\<close>

fun lock_change :: "stacking_call \<Rightarrow> int" where
  "lock_change Call_Lock = 1"
| "lock_change Call_Unlock = -1"
| "lock_change _ = 0"

lemmas operation_kept = lower_window_kept raise_window_kept raise_or_lower_client_kept restack_kept
  restack_client_under_active_kept auto_raise_kept update_layer_kept update_order_kept

lemma order_keptD:
  assumes "order_kept sp sp'"
  shows "block_stacking_updates sp' = block_stacking_updates sp"
    "0 < block_stacking_updates sp \<Longrightarrow> stack sp' = stack sp"
    "0 < block_stacking_updates sp \<Longrightarrow> space_signals sp' = space_signals sp"
    "0 < block_stacking_updates sp \<Longrightarrow>
       blocked_propagating_new_clients sp' = blocked_propagating_new_clients sp"
    "0 < block_stacking_updates sp \<Longrightarrow> restacking_required sp' = restacking_required sp"
  using assms by (simp_all add: kept_def order_view_def)

lemma force_restacking_held:
  assumes "force_restacking sp = Some sp'" "0 < block_stacking_updates sp"
  shows "sp' = sp\<lparr>restacking_required := True\<rparr>"
  using assms by (auto simp: force_restacking_def stacking_lock_def stacking_unlock_def Let_def)

lemma force_restacking_depth:
  assumes "force_restacking sp = Some sp'"
  shows "block_stacking_updates sp' = block_stacking_updates sp"
  using stacking_unlock_depth [OF assms [unfolded force_restacking_def]] order_lock.lock_depth by simp

lemma perform_depth:
  assumes "perform c sp = Some sp'"
  shows "block_stacking_updates sp' = block_stacking_updates sp + lock_change c"
  using assms
  by (cases c) (auto dest!: operation_kept [THEN order_keptD(1)] simp: order_lock.lock_depth
      stacking_unlock_depth update_count_depth force_restacking_depth)

lemma perform_held:
  assumes "perform c sp = Some sp'" "0 < block_stacking_updates sp" "0 < block_stacking_updates sp'"
  shows "stack sp' = stack sp" "space_signals sp' = space_signals sp"
    "blocked_propagating_new_clients sp' \<longleftrightarrow> blocked_propagating_new_clients sp \<or> c = Call_Update_Count"
    "restacking_required sp' \<longleftrightarrow> restacking_required sp \<or> c = Call_Force"
proof -
  have "stack sp' = stack sp \<and> space_signals sp' = space_signals sp
    \<and> (blocked_propagating_new_clients sp' \<longleftrightarrow> blocked_propagating_new_clients sp \<or> c = Call_Update_Count)
    \<and> (restacking_required sp' \<longleftrightarrow> restacking_required sp \<or> c = Call_Force)"
  proof (cases "c \<in> {Call_Lock, Call_Unlock, Call_Update_Count, Call_Force}")
    case True
    then consider "c = Call_Lock" | "c = Call_Unlock" | "c = Call_Update_Count" | "c = Call_Force" by auto
    then show ?thesis
    proof cases
      case 2
      then show ?thesis using assms perform_depth [OF assms(1)]
        by (auto simp: stacking_unlock_def Let_def)
    qed (use assms in \<open>auto simp: stacking_lock_def update_count_def Let_def dest!: force_restacking_held\<close>)
  next
    case False
    then have "order_kept sp sp'" using assms(1) operation_kept by (cases c) auto
    then show ?thesis using order_keptD assms(2) False by auto
  qed
  then show "stack sp' = stack sp" "space_signals sp' = space_signals sp"
    "blocked_propagating_new_clients sp' \<longleftrightarrow> blocked_propagating_new_clients sp \<or> c = Call_Update_Count"
    "restacking_required sp' \<longleftrightarrow> restacking_required sp \<or> c = Call_Force" by auto
qed

lemma held_positive: "held sp cs sp' \<Longrightarrow> 0 < block_stacking_updates sp \<and> 0 < block_stacking_updates sp'"
  by (induction rule: held.induct) auto

lemma held_view:
  "held sp cs sp' \<Longrightarrow> stack sp' = stack sp \<and> space_signals sp' = space_signals sp
     \<and> (blocked_propagating_new_clients sp'
          \<longleftrightarrow> blocked_propagating_new_clients sp \<or> Call_Update_Count \<in> set cs)
     \<and> (restacking_required sp' \<longleftrightarrow> restacking_required sp \<or> Call_Force \<in> set cs)
     \<and> block_stacking_updates sp' = block_stacking_updates sp + sum_list (map lock_change cs)"
proof (induction rule: held.induct)
  case (held_Cons sp c sp1 cs sp2)
  have p: "0 < block_stacking_updates sp1" using held_positive [OF held_Cons.hyps(3)] by simp
  note step = perform_held [OF held_Cons.hyps(2,1) p] perform_depth [OF held_Cons.hyps(2)]
  show ?case using held_Cons.IH step by auto
qed simp

text \<open>The signals of the unlock that releases the order.\<close>

lemma final_unlock_signals:
  assumes "stacking_unlock sp = Some sp'" "block_stacking_updates sp = 1"
  shows "space_signals sp' = space_signals sp
    @ (if blocked_propagating_new_clients sp then [Stacking_Changed True]
       else if stack sp' \<noteq> stack sp \<or> restacking_required sp then [Stacking_Changed False] else [])
    @ [Stacking_Unlocked]"
proof (cases "blocked_propagating_new_clients sp")
  case True
  with assms obtain s b where "stacking_sort (sp\<lparr>block_stacking_updates := 0\<rparr>) = Some (s, b)"
    "sp' = space_emit Stacking_Unlocked (space_emit (Stacking_Changed True) (process_change s))"
    by (auto simp: stacking_unlock_def update_count_def Let_def bind_eq_Some_conv)
  with True show ?thesis by (auto simp: space_emit_def process_change_def dest!: stacking_sort_fields(3))
next
  case False
  with assms obtain s b where s: "stacking_sort (sp\<lparr>block_stacking_updates := 0\<rparr>) = Some (s, b)"
    "sp' = space_emit Stacking_Unlocked
       (if b \<or> restacking_required s then space_emit (Stacking_Changed False) (process_change s) else s)"
    by (auto simp: stacking_unlock_def update_order_def Let_def bind_eq_Some_conv)
  with False show ?thesis
    using stacking_sort_fields(3,4) [OF s(1)] stacking_sort_frame(2) [OF s(1)]
    by (auto simp: space_emit_def process_change_def)
qed

end
