(* ===== verification/Stacking_Ready.thy ===== *)
theory Stacking_Ready
  imports Stacking_Session
begin

text \<open>
  The spaces the stacking operations work on: every window has a layer or what is needed to
  compute one, no window has two leads, and the windows of the unconstrained order come with
  their leads and children. In such a space the operations return, and they keep it so. Spaces
  that agree on all the constraints look at are \<open>alike\<close>; cached layers, timers and the order
  itself are not looked at.
\<close>

section \<open>Spaces with the same constraints\<close>

definition forget :: "window \<Rightarrow> window" where
  "forget x = x\<lparr>topo_layer := layer_unknown,
     win_control := map_option (\<lambda>c. c\<lparr>auto_raise_timer := False\<rparr>) (win_control x)\<rparr>"

definition alike :: "space \<Rightarrow> space \<Rightarrow> bool" where
  "alike sp' sp \<longleftrightarrow> (\<forall>w. forget (win sp' w) = forget (win sp w) \<and> base_layer sp' w = base_layer sp w)
     \<and> showing_desktop sp' = showing_desktop sp \<and> active sp' = active sp
     \<and> should_get_focus sp' = should_get_focus sp \<and> root_window sp' = root_window sp"

lemma alike_refl [simp]: "alike sp sp"
  by (simp add: alike_def)

lemma alike_trans: "alike a b \<Longrightarrow> alike b c \<Longrightarrow> alike a c"
  by (simp add: alike_def)

lemma forget_fields:
  assumes "forget x = forget y"
  shows "leads x = leads y" "children x = children y" "annexed x = annexed y"
    "win_remnant x = win_remnant y" "win_class x = win_class y" "window_type x = window_type y"
    "m_modal x = m_modal y" "lead_id x = lead_id y" "win_group x = win_group y"
    "central_output x = central_output y" "(win_control x = None) = (win_control y = None)"
    "surface_client x = surface_client y"
  using arg_cong [OF assms, of leads] arg_cong [OF assms, of children] arg_cong [OF assms, of annexed]
    arg_cong [OF assms, of win_remnant] arg_cong [OF assms, of win_class]
    arg_cong [OF assms, of window_type] arg_cong [OF assms, of m_modal] arg_cong [OF assms, of lead_id]
    arg_cong [OF assms, of win_group] arg_cong [OF assms, of central_output]
    arg_cong [OF assms, of "\<lambda>x. win_control x = None"] arg_cong [OF assms, of surface_client]
  by (simp_all add: forget_def)

lemma alike_fields:
  assumes "alike sp' sp"
  shows "leads (win sp' w) = leads (win sp w)" "children (win sp' w) = children (win sp w)"
    "annexed (win sp' w) = annexed (win sp w)" "win_remnant (win sp' w) = win_remnant (win sp w)"
    "win_class (win sp' w) = win_class (win sp w)" "window_type (win sp' w) = window_type (win sp w)"
    "m_modal (win sp' w) = m_modal (win sp w)" "lead_id (win sp' w) = lead_id (win sp w)"
    "win_group (win sp' w) = win_group (win sp w)"
    "central_output (win sp' w) = central_output (win sp w)"
    "(win_control (win sp' w) = None) = (win_control (win sp w) = None)"
    "base_layer sp' w = base_layer sp w" "root_window sp' = root_window sp"
    "surface_client (win sp' w) = surface_client (win sp w)"
  using assms forget_fields [of "win sp' w" "win sp w"] by (simp_all add: alike_def)

lemma alike_lead: "alike sp' sp \<Longrightarrow> lead (heap sp') w = lead (heap sp) w"
  by (simp add: lead_def alike_fields)

lemma alike_lead_rel: "alike sp' sp \<Longrightarrow> lead_rel (heap sp') = lead_rel (heap sp)"
  by (simp add: lead_rel_def alike_fields)

lemma alike_transient_ok: "alike sp' sp \<Longrightarrow> transient_ok (heap sp') = transient_ok (heap sp)"
  by (simp add: transient_ok_def converse_ok_def lead_rel_def alike_fields)

lemma alike_known: "alike sp' sp \<Longrightarrow> layers_known sp' = layers_known sp"
  by (simp add: layers_known_def alike_transient_ok alike_fields)

lemma alike_forest: "alike sp' sp \<Longrightarrow> forest sp' = forest sp"
  by (simp add: forest_def alike_fields)

lemma alike_layer_of:
  assumes "alike sp' sp" "transient_ok (heap sp)"
  shows "layer_of sp' w = layer_of sp w"
proof -
  have "layer_value sp' w = layer_value sp w"
    using transient_ok_wf(2) [OF assms(2)]
  proof (induction w rule: wf_induct_rule)
    case (less w)
    show ?case
    proof (cases "lead (heap sp) w")
      case None
      then show ?thesis
        by (simp add: layer_value.simps [of sp' w] layer_value.simps [of sp w] alike_lead [OF assms(1)]
            alike_fields [OF assms(1)])
    next
      case (Some l)
      then have "layer_value sp' l = layer_value sp l" using less lead_some by fastforce
      with Some show ?thesis
        by (simp add: layer_value.simps [of sp' w] layer_value.simps [of sp w]
            alike_lead [OF assms(1)] alike_fields [OF assms(1)])
    qed
  qed
  then show ?thesis by (simp add: layer_of_def)
qed

lemma alike_keep_above:
  assumes "alike sp' sp"
  shows "keep_transient_above sp' l c = keep_transient_above sp l c"
    "keep_deleted_transient_above sp' l c = keep_deleted_transient_above sp l c"
  by (simp_all only: keep_transient_above_def keep_deleted_transient_above_def is_group_transient_def
      type_defs alike_fields [OF assms])

lemma alike_pulled: "alike sp' sp \<Longrightarrow> transient_ok (heap sp) \<Longrightarrow> pulled sp' l c = pulled sp l c"
  by (simp add: pulled_def alike_layer_of alike_keep_above alike_fields)

lemma alike_pull_rel: "alike sp' sp \<Longrightarrow> transient_ok (heap sp) \<Longrightarrow> pull_rel sp' = pull_rel sp"
  by (simp add: pull_rel_def alike_pulled alike_fields)

lemma alike_stack_root: "alike sp' sp \<Longrightarrow> transient_ok (heap sp) \<Longrightarrow> stack_root sp' = stack_root sp"
  by (rule ext) (simp add: stack_root_rel alike_pull_rel)

lemma alike_top_lead:
  assumes "alike sp' sp" "transient_ok (heap sp)"
  shows "get_top_lead (heap sp') w = get_top_lead (heap sp) w"
  using transient_ok_wf(2) [OF assms(2)]
proof (induction w rule: wf_induct_rule)
  case (less w)
  then show ?case using lead_some
    by (cases "lead (heap sp) w") (fastforce simp: get_top_lead.simps [of _ w] alike_lead [OF assms(1)])+
qed

lemma alike_effective_layers:
  assumes "alike sp' sp" "transient_ok (heap sp)"
  shows "effective_layers sp' tab ws = effective_layers sp tab ws"
proof -
  have "layer_of sp' = layer_of sp" using alike_layer_of [OF assms] by (rule ext)
  then show ?thesis
    by (induction ws arbitrary: tab)
      (simp_all add: alike_top_lead [OF assms] alike_fields [OF assms(1)]
        cong del: option.case_cong_weak if_weak_cong)
qed

lemma alike_layer_order:
  "alike sp' sp \<Longrightarrow> transient_ok (heap sp) \<Longrightarrow> pre_stack sp' = pre_stack sp \<Longrightarrow>
     layer_order sp' = layer_order sp"
  by (simp add: layer_order_def alike_effective_layers)

section \<open>What leaves the constraints alone\<close>

lemma cached_alike:
  assumes "cached sp' sp"
  shows "alike sp' sp"
proof -
  have "forget (win sp' w) = forget (win sp w)" for w
  proof -
    have "forget (forget_layer (win sp' w)) = forget (forget_layer (win sp w))"
      using cached_blind [OF assms] by (simp add: layer_blind_def)
    then show ?thesis by (simp add: forget_def forget_layer_def)
  qed
  then show ?thesis using assms cached_space [OF assms] by (simp add: alike_def cached_def)
qed

lemma same_heap_alike:
  assumes "heap sp' = heap sp" "showing_desktop sp' = showing_desktop sp" "active sp' = active sp"
    "should_get_focus sp' = should_get_focus sp" "root_window sp' = root_window sp"
  shows "alike sp' sp"
proof -
  have "is_active_fullscreen sp' = is_active_fullscreen sp"
    by (rule ext) (simp only: is_active_fullscreen_def most_recently_activated_window_def assms)
  then have "belong_to_layer sp' = belong_to_layer sp"
    by (intro ext) (simp only: belong_to_layer_def assms)
  then show ?thesis using assms by (simp add: alike_def base_layer_def)
qed

lemma cancel_auto_raise_some:
  assumes "win_control (win sp w) \<noteq> None"
  obtains sp' where "cancel_auto_raise w sp = Some sp'" "alike sp' sp" "heap_only sp sp'"
proof -
  obtain ctl where ctl: "win_control (win sp w) = Some ctl" using assms by blast
  define x where "x = (win sp w)\<lparr>win_control := Some (ctl\<lparr>auto_raise_timer := False\<rparr>)\<rparr>"
  define s2 where "s2 = update_window w (\<lambda>_. x) sp"
  have e: "cancel_auto_raise w sp = Some s2"
    by (simp add: cancel_auto_raise_def ctl update_window_def x_def s2_def)
  have f: "forget (win s2 v) = forget (win sp v)" for v
    by (simp add: x_def forget_def ctl s2_def update_window_def)
  note ff = forget_fields [OF f]
  have o: "showing_desktop s2 = showing_desktop sp" "active s2 = active sp"
    "should_get_focus s2 = should_get_focus sp" "root_window s2 = root_window sp"
    by (simp_all add: s2_def update_window_def)
  have c: "win_control (win s2 v) = (if v = w then Some (ctl\<lparr>auto_raise_timer := False\<rparr>)
      else win_control (win sp v))" for v
    by (simp add: s2_def update_window_def x_def)
  have p: "popup_end (win s2 v) = popup_end (win sp v)" "lock_screen (win s2 v) = lock_screen (win sp v)"
    "belongs_to_desktop (win s2 v) = belongs_to_desktop (win sp v)"
    "topo_layer (win s2 v) = topo_layer (win sp v)" for v
    by (simp_all add: s2_def update_window_def x_def)
  have fs: "is_active_fullscreen s2 v = is_active_fullscreen sp v" for v
    unfolding is_active_fullscreen_def most_recently_activated_window_def c ff o
    using ctl by simp
  have "belong_to_layer s2 v = belong_to_layer sp v" for v
    unfolding belong_to_layer_def fs type_defs is_popup_def c ff o p Let_def using ctl by simp
  then have "alike s2 sp" using f o by (simp add: alike_def base_layer_def p)
  then show ?thesis using that e by (simp add: s2_def)
qed

section \<open>Spaces ready for sorting\<close>

definition stacking_ready :: "space \<Rightarrow> bool" where
  "stacking_ready sp \<longleftrightarrow> layers_known sp \<and> forest sp \<and> pre_stack_closed sp"

lemma stacking_ready_ok: "stacking_ready sp \<Longrightarrow> transient_ok (heap sp)"
  by (simp add: stacking_ready_def layers_known_def)

lemma stacking_ready_change:
  assumes "alike sp' sp" "mset (pre_stack sp') = mset (pre_stack sp)"
  shows "stacking_ready sp' = stacking_ready sp"
  using mset_eq_setD [OF assms(2)] mset_eq_imp_distinct_iff [OF assms(2)]
  by (simp add: stacking_ready_def pre_stack_closed_def alike_known [OF assms(1)]
      alike_forest [OF assms(1)] alike_fields [OF assms(1)])

text \<open>What the sorting promises of the stack: it holds the windows of the unconstrained order, a
  window that has to be above its lead comes after it, and the windows no lead pulls up are in the
  order of their layers and, within a layer, in the unconstrained order.\<close>

definition constrained :: "space \<Rightarrow> bool" where
  "constrained sp \<longleftrightarrow> distinct (stack sp) \<and> set (stack sp) = set (pre_stack sp)
     \<and> leads_first sp (stack sp)
     \<and> filter (stack_root sp) (stack sp) = filter (stack_root sp) (layer_order sp)"

lemma constrained_change:
  assumes "alike sp' sp" "transient_ok (heap sp)" "stack sp' = stack sp" "pre_stack sp' = pre_stack sp"
  shows "constrained sp' = constrained sp"
  by (simp add: constrained_def leads_first_def alike_pull_rel [OF assms(1,2)] assms(3,4)
      alike_stack_root [OF assms(1,2)] alike_layer_order [OF assms(1,2,4)])

lemma stacking_sort_ready:
  assumes "stacking_ready sp"
  obtains sp' changed where "stacking_sort sp = Some (sp', changed)" "alike sp' sp" "constrained sp'"
proof -
  note r = assms [unfolded stacking_ready_def]
  have ok: "transient_ok (heap sp)" by (rule stacking_ready_ok [OF assms])
  obtain s stck where s: "stacking_sort sp = Some (s\<lparr>stack := stck\<rparr>, stack sp \<noteq> stck)"
    "cached s sp" "distinct stck" "set stck = set (pre_stack sp)" "leads_first sp stck"
    "filter (stack_root sp) stck = filter (stack_root sp) (layer_order sp)"
    using r by (auto elim: stacking_sort_some)
  have a: "alike (s\<lparr>stack := stck\<rparr>) sp"
    by (rule alike_trans [OF same_heap_alike cached_alike [OF s(2)]]) simp_all
  have p: "pre_stack (s\<lparr>stack := stck\<rparr>) = pre_stack sp" using cached_space(2) [OF s(2)] by simp
  have "constrained (s\<lparr>stack := stck\<rparr>)"
    using s(3-6) p by (simp add: constrained_def leads_first_def alike_pull_rel [OF a ok]
        alike_stack_root [OF a ok] alike_layer_order [OF a ok p])
  then show ?thesis using that s(1) a by blast
qed

lemma process_change_alike: "alike (space_emit x (process_change sp)) sp" "alike (space_emit x sp) sp"
  by (rule same_heap_alike; simp add: space_emit_def process_change_def)+

lemma update_ready:
  assumes "stacking_ready sp" "block_stacking_updates sp = 0"
  shows "\<exists>sp'. update_order sp = Some sp' \<and> alike sp' sp \<and> constrained sp' \<and> pre_stack sp' = pre_stack sp"
    "\<exists>sp'. update_count sp = Some sp' \<and> alike sp' sp \<and> constrained sp' \<and> pre_stack sp' = pre_stack sp"
proof -
  obtain s b where s: "stacking_sort sp = Some (s, b)" "alike s sp" "constrained s"
    by (rule stacking_sort_ready [OF assms(1)])
  have p: "pre_stack s = pre_stack sp" by (rule stacking_sort_fields(2) [OF s(1)])
  have ok: "transient_ok (heap s)"
    using stacking_ready_ok [OF assms(1)] alike_transient_ok [OF s(2)] by simp
  have "constrained (space_emit x (process_change s))" "pre_stack (space_emit x (process_change s)) = pre_stack sp"
    "alike (space_emit x (process_change s)) sp" for x
    using s(3) constrained_change [OF process_change_alike(1) ok, of x] alike_trans [OF process_change_alike(1) s(2)]
      p by (simp_all add: space_emit_def process_change_def)
  with s p assms(2) show
    "\<exists>sp'. update_order sp = Some sp' \<and> alike sp' sp \<and> constrained sp' \<and> pre_stack sp' = pre_stack sp"
    "\<exists>sp'. update_count sp = Some sp' \<and> alike sp' sp \<and> constrained sp' \<and> pre_stack sp' = pre_stack sp"
    by (auto simp: update_order_def update_count_def)
qed

lemma stacking_unlock_ready:
  assumes "stacking_ready sp" "0 < block_stacking_updates sp"
  obtains sp' where "stacking_unlock sp = Some sp'" "alike sp' sp" "pre_stack sp' = pre_stack sp"
    "block_stacking_updates sp = 1 \<Longrightarrow> constrained sp'"
    "1 < block_stacking_updates sp \<Longrightarrow> stack sp' = stack sp"
proof (cases "block_stacking_updates sp = 1")
  case False
  let ?s = "sp\<lparr>block_stacking_updates := block_stacking_updates sp - 1\<rparr>"
  have "stacking_unlock sp = Some ?s" using False assms(2) by (simp add: stacking_unlock_def Let_def)
  then show ?thesis by (rule that) (use False in \<open>simp_all add: same_heap_alike\<close>)
next
  case True
  let ?s = "sp\<lparr>block_stacking_updates := 0\<rparr>"
  have a: "alike ?s sp" by (rule same_heap_alike) simp_all
  have r: "stacking_ready ?s" using stacking_ready_change [OF a] assms(1) by simp
  have b: "block_stacking_updates ?s = 0" by simp
  obtain t where t: "(if blocked_propagating_new_clients ?s then update_count ?s else update_order ?s) = Some t"
    "alike t ?s" "constrained t" "pre_stack t = pre_stack ?s"
    using update_ready [OF r b] that by (cases "blocked_propagating_new_clients sp") (elim exE conjE; simp)+
  have u: "stacking_unlock sp = Some (space_emit Stacking_Unlocked t)"
    using t(1) True by (simp add: stacking_unlock_def Let_def)
  have at: "alike t sp" by (rule alike_trans [OF t(2) a])
  have "transient_ok (heap t)" using stacking_ready_ok [OF assms(1)] alike_transient_ok [OF at] by simp
  then have "constrained (space_emit Stacking_Unlocked t)"
    using t(3) constrained_change [OF process_change_alike(2), of t] by (simp add: space_emit_def)
  then show ?thesis
    by (intro that [OF u]) (use True t(4) alike_trans [OF process_change_alike(2) at] in \<open>simp_all add: space_emit_def\<close>)
qed

lemma stacking_lock_alike: "alike (stacking_lock sp) sp" "pre_stack (stacking_lock sp) = pre_stack sp"
  "stack (stacking_lock sp) = stack sp"
  by (auto simp: stacking_lock_def Let_def intro: same_heap_alike)

end
