(* ===== verification/Stacking_Returns.thy ===== *)
theory Stacking_Returns
  imports Stacking_Ready
begin

text \<open>
  That raising, lowering and restacking return in a space ready for sorting, and where they put the
  windows.
\<close>

section \<open>Raising\<close>

lemma do_raise_eq:
  "pre_stack (do_raise w sp) = snd (move_to_back (pre_stack sp) w)" "alike (do_raise w sp) sp"
  "stack (do_raise w sp) = stack sp"
  "block_stacking_updates (do_raise w sp) = block_stacking_updates sp"
  by (auto simp: do_raise_def move_to_back_eq Let_def intro: same_heap_alike)

lemma heap_only_fields:
  assumes "heap_only sp sp'"
  shows "pre_stack sp' = pre_stack sp" "stack sp' = stack sp"
    "block_stacking_updates sp' = block_stacking_updates sp"
proof -
  have e: "sp' = sp\<lparr>heap := heap sp'\<rparr>" using assms by (simp add: heap_only_def)
  show "pre_stack sp' = pre_stack sp" "stack sp' = stack sp"
    "block_stacking_updates sp' = block_stacking_updates sp" by (subst e, simp)+
qed

lemma raise_prepare_some:
  assumes "win_control (win sp w) \<noteq> None"
  obtains sp' where "raise_prepare w sp = Some sp'" "alike sp' sp" "pre_stack sp' = pre_stack sp"
    "stack sp' = stack sp" "block_stacking_updates sp' = block_stacking_updates sp + 1"
proof -
  obtain s where s: "cancel_auto_raise w sp = Some s" "alike s sp" "heap_only sp s"
    by (rule cancel_auto_raise_some [OF assms])
  show ?thesis
    by (rule that [of "stacking_lock s"])
      (use s heap_only_fields [OF s(3)] alike_trans [OF stacking_lock_alike(1) s(2)] in
        \<open>simp_all add: raise_prepare_def stacking_lock_alike order_lock.lock_depth\<close>)
qed

text \<open>The states a loop over the leads goes through: alike, the lock held, the stack as it was.\<close>

definition raising :: "space \<Rightarrow> space \<Rightarrow> bool" where
  "raising sp0 sp \<longleftrightarrow> alike sp sp0 \<and> stack sp = stack sp0
     \<and> block_stacking_updates sp = block_stacking_updates sp0
     \<and> mset (pre_stack sp) = mset (pre_stack sp0)"

definition raised_leads :: "space \<Rightarrow> wid list \<Rightarrow> wid list" where
  "raised_leads sp ls = filter (\<lambda>l. win_control (win sp l) \<noteq> None) ls"

lemma raise_lead_some:
  assumes "stacking_ready sp" "0 < block_stacking_updates sp"
  obtains sp' where "raise_lead l sp = Some sp'" "raising sp sp'"
    "pre_stack sp' = (if win_control (win sp l) = None then pre_stack sp
                      else snd (move_to_back (pre_stack sp) l))"
proof (cases "win_control (win sp l) = None")
  case False
  obtain s where s: "raise_prepare l sp = Some s" "alike s sp" "pre_stack s = pre_stack sp"
    "stack s = stack sp" "block_stacking_updates s = block_stacking_updates sp + 1"
    by (rule raise_prepare_some [OF False])
  have a: "alike (do_raise l s) sp" by (rule alike_trans [OF do_raise_eq(2) s(2)])
  have m: "mset (pre_stack (do_raise l s)) = mset (pre_stack sp)"
    by (simp add: do_raise_eq move_to_back_mset s(3))
  have r: "stacking_ready (do_raise l s)" using stacking_ready_change [OF a m] assms(1) by simp
  have b: "0 < block_stacking_updates (do_raise l s)" "1 < block_stacking_updates (do_raise l s)"
    using assms(2) s(5) by (simp_all add: do_raise_eq)
  obtain t where t: "stacking_unlock (do_raise l s) = Some t" "alike t (do_raise l s)"
    "pre_stack t = pre_stack (do_raise l s)" "stack t = stack (do_raise l s)"
    by (rule stacking_unlock_ready [OF r b(1)]) (use b(2) in simp)
  have "raise_lead l sp = Some t" using False s(1) t(1) by (auto simp: raise_lead_def)
  then show ?thesis
    by (rule that) (use False a m s t alike_trans [OF t(2) a] stacking_unlock_depth [OF t(1)]
      in \<open>auto simp: raising_def do_raise_eq\<close>)
next
  case True
  show ?thesis by (rule that [of sp]) (simp_all add: raise_lead_def raising_def True)
qed

lemma raise_leads_some:
  assumes "stacking_ready sp" "0 < block_stacking_updates sp"
  shows "\<exists>sp'. ofold raise_lead ls sp = Some sp' \<and> raising sp sp'
    \<and> pre_stack sp' = fold (\<lambda>w ps. snd (move_to_back ps w)) (raised_leads sp ls) (pre_stack sp)"
  using assms
proof (induction ls arbitrary: sp)
  case (Cons l ls)
  obtain s where s: "raise_lead l sp = Some s" "raising sp s"
    "pre_stack s = (if win_control (win sp l) = None then pre_stack sp
                    else snd (move_to_back (pre_stack sp) l))"
    by (rule raise_lead_some [OF Cons.prems])
  have a: "alike s sp" and m: "mset (pre_stack s) = mset (pre_stack sp)"
    and b: "0 < block_stacking_updates s" using s(2) Cons.prems(2) by (simp_all add: raising_def)
  have r: "stacking_ready s" using stacking_ready_change [OF a m] Cons.prems(1) by simp
  obtain t where t: "ofold raise_lead ls s = Some t" "raising s t"
    "pre_stack t = fold (\<lambda>w ps. snd (move_to_back ps w)) (raised_leads s ls) (pre_stack s)"
    using Cons.IH [OF r b] by blast
  have "raising sp t" using s(2) t(2) alike_trans by (auto simp: raising_def)
  then show ?case using s(1,3) t(1,3) by (auto simp: raised_leads_def alike_fields [OF a])
qed (simp add: raising_def raised_leads_def)

text \<open>Without windows that have two leads the leads of a window are a chain.\<close>

lemma collect_leads_some:
  assumes "transient_ok (heap sp)" "forest sp"
  shows "distinct acc \<Longrightarrow> set acc \<inter> {x. (l, x) \<in> (lead_rel (heap sp))\<^sup>*} = {} \<Longrightarrow>
    \<exists>ls. collect_leads (heap sp) l acc = Some (acc @ ls) \<and> distinct ls
      \<and> set ls = {x. (l, x) \<in> (lead_rel (heap sp))\<^sup>*}"
  using transient_ok_wf(2) [OF assms(1)]
proof (induction l arbitrary: acc rule: wf_induct_rule)
  case (less l)
  let ?r = "lead_rel (heap sp)"
  have l: "l \<notin> set acc" using less.prems(2) by auto
  show ?case
  proof (cases "lead (heap sp) l")
    case None
    then have "x = l" if "(l, x) \<in> ?r\<^sup>*" for x
      using that by (auto simp: lead_none elim: converse_rtranclE)
    then have "{x. (l, x) \<in> ?r\<^sup>*} = {l}" by auto
    with None l show ?thesis by (subst collect_leads.simps) (simp add: Let_def)
  next
    case (Some p)
    have p: "(l, x) \<in> ?r \<longleftrightarrow> x = p" for x
      using lead_some [OF Some] forest_single_valued [OF assms(2)] by (auto dest: single_valuedD)
    have "(l, x) \<in> ?r\<^sup>* \<longleftrightarrow> x = l \<or> (p, x) \<in> ?r\<^sup>*" for x
    proof
      show "(l, x) \<in> ?r\<^sup>* \<Longrightarrow> x = l \<or> (p, x) \<in> ?r\<^sup>*"
        by (erule converse_rtranclE) (simp_all only: p simp_thms)
      show "x = l \<or> (p, x) \<in> ?r\<^sup>* \<Longrightarrow> (l, x) \<in> ?r\<^sup>*"
        using p [of p] by (blast intro: converse_rtrancl_into_rtrancl)
    qed
    then have up: "{x. (l, x) \<in> ?r\<^sup>*} = insert l {x. (p, x) \<in> ?r\<^sup>*}" by blast
    have cyc: "(p, l) \<notin> ?r\<^sup>*"
    proof
      assume "(p, l) \<in> ?r\<^sup>*"
      then have "(l, l) \<in> ?r\<^sup>+" by (rule rtrancl_into_trancl2 [rotated]) (simp only: p)
      then show False using assms(1) by (simp add: transient_ok_def acyclic_def)
    qed
    have "\<exists>ls. collect_leads (heap sp) p (acc @ [l]) = Some ((acc @ [l]) @ ls) \<and> distinct ls
      \<and> set ls = {x. (p, x) \<in> ?r\<^sup>*}"
      by (rule less.IH) (use p less.prems l up cyc in auto)
    then obtain ls where "collect_leads (heap sp) p (acc @ [l]) = Some ((acc @ [l]) @ ls)"
      "distinct ls" "set ls = {x. (p, x) \<in> ?r\<^sup>*}" by blast
    note ls = this
    have "collect_leads (heap sp) l acc = Some (acc @ l # ls)"
      using ls(1) Some l by (subst collect_leads.simps) (simp add: Let_def)
    moreover have "distinct (l # ls)" using ls(2,3) cyc by simp
    moreover have "set (l # ls) = {x. (l, x) \<in> ?r\<^sup>*}" unfolding up by (simp add: ls(3))
    ultimately show ?thesis by blast
  qed
qed

lemma collect_all_leads_some:
  assumes "transient_ok (heap sp)" "forest sp"
  shows "\<exists>ls. ofold (collect_leads (heap sp)) (leads (win sp w)) [] = Some ls \<and> distinct ls
    \<and> set ls = {x. (w, x) \<in> (lead_rel (heap sp))\<^sup>+}"
proof (cases "leads (win sp w)")
  case Nil
  then have "(w, x) \<notin> (lead_rel (heap sp))\<^sup>+" for x by (auto dest: tranclD)
  with Nil show ?thesis by simp
next
  case (Cons p ps)
  then have "leads (win sp w) = [p]" using assms(2) by (auto simp: forest_def dest: spec [of _ w])
  moreover from this have "(w, x) \<in> (lead_rel (heap sp))\<^sup>+ \<longleftrightarrow> (p, x) \<in> (lead_rel (heap sp))\<^sup>*" for x
    by (auto dest: tranclD intro: rtrancl_into_trancl2)
  ultimately show ?thesis using collect_leads_some [OF assms, of "[]" p] by auto
qed

lemma raise_window_some:
  assumes "stacking_ready sp" "w \<in> set (pre_stack sp)" "win_control (win sp w) \<noteq> None"
    and "0 \<le> block_stacking_updates sp"
  shows "\<exists>sp' ls. raise_window (Some w) sp = Some sp' \<and> stacking_ready sp'
    \<and> alike sp' sp \<and> mset (pre_stack sp') = mset (pre_stack sp)
    \<and> pre_stack sp' = [x \<leftarrow> pre_stack sp. x \<notin> insert w (set ls)] @ ls @ [w]
    \<and> distinct ls
    \<and> set ls = {l. (w, l) \<in> (lead_rel (heap sp))\<^sup>+ \<and> win_control (win sp l) \<noteq> None}
    \<and> (block_stacking_updates sp = 0 \<longrightarrow> constrained sp')"
proof -
  have ok: "transient_ok (heap sp)" and forest: "forest sp" and closed: "pre_stack_closed sp"
    using assms(1) by (simp_all add: stacking_ready_def layers_known_def)
  have d: "distinct (pre_stack sp)" using closed by (simp add: pre_stack_closed_def)
  obtain s where s: "raise_prepare w sp = Some s" "alike s sp" "pre_stack s = pre_stack sp"
    "stack s = stack sp" "block_stacking_updates s = block_stacking_updates sp + 1"
    by (rule raise_prepare_some [OF assms(3)])
  have sr: "stacking_ready s" using stacking_ready_change [OF s(2)] s(3) assms(1) by simp
  have sb: "0 < block_stacking_updates s" using s(5) assms(4) by simp
  obtain cs where cs: "ofold (collect_leads (heap s)) (leads (win s w)) [] = Some cs" "distinct cs"
    "set cs = {x. (w, x) \<in> (lead_rel (heap sp))\<^sup>+}"
    using collect_all_leads_some [of s w] ok forest
    by (auto simp: alike_transient_ok [OF s(2)] alike_forest [OF s(2)] alike_lead_rel [OF s(2)])
  define os where "os = restacked_by_space_stacking_order s cs"
  define ls where "ls = raised_leads s os"
  have os: "distinct os" "set os = set cs"
    by (simp_all add: os_def restacked_by_space_stacking_order_def ensure_stacking_order_distinct
        ensure_stacking_order_set cs(2))
  have ls: "distinct ls" "set ls = {l. (w, l) \<in> (lead_rel (heap sp))\<^sup>+ \<and> win_control (win sp l) \<noteq> None}"
    using os cs(3) by (auto simp: ls_def raised_leads_def alike_fields [OF s(2)])
  have up: "(w, l) \<in> (lead_rel (heap sp))\<^sup>+ \<Longrightarrow> l \<in> set (pre_stack sp)" for l
    by (induction rule: trancl_induct) (use assms(2) closed in \<open>auto simp: pre_stack_closed_def\<close>)
  have w: "w \<notin> set ls" using ls(2) ok by (auto simp: transient_ok_def acyclic_def)
  obtain u where u: "(if lead (heap s) w \<noteq> None then ofold raise_lead os s else Some s) = Some u"
    "raising s u" "pre_stack u = fold (\<lambda>w ps. snd (move_to_back ps w)) ls (pre_stack sp)"
  proof (cases "lead (heap s) w = None")
    case True
    then have "os = []" using cs(1) by (simp add: lead_none os_def
          restacked_by_space_stacking_order_def ensure_stacking_order_in_list_def)
    then show ?thesis using that [of s] True s(3) by (simp add: raising_def ls_def raised_leads_def)
  next
    case False
    then show ?thesis using that raise_leads_some [OF sr sb, of os] s(3) by (auto simp: ls_def)
  qed
  have lsub: "set ls \<subseteq> set (pre_stack sp)" using ls(2) up by auto
  have pu: "pre_stack u = [x \<leftarrow> pre_stack sp. x \<notin> set ls] @ ls"
    using fold_move_to_back_eq [OF d ls(1)] u(3) lsub by (auto simp: filter_id_conv subset_iff)
  have pw: "pre_stack (do_raise w u) = [x \<leftarrow> pre_stack sp. x \<notin> insert w (set ls)] @ ls @ [w]"
    using assms(2) w d by (auto simp: do_raise_eq pu move_to_back_eq remove1_append remove1_filter_not
        distinct_remove1_removeAll removeAll_filter_not_eq filter_filter conj_commute eq_commute)
  have ua: "alike u sp" using u(2) s(2) alike_trans by (auto simp: raising_def)
  have a: "alike (do_raise w u) sp" by (rule alike_trans [OF do_raise_eq(2) ua])
  have m: "mset (pre_stack (do_raise w u)) = mset (pre_stack sp)"
    using u(2) s(3) by (simp add: do_raise_eq move_to_back_mset raising_def)
  have r: "stacking_ready (do_raise w u)" using stacking_ready_change [OF a m] assms(1) by simp
  have b: "block_stacking_updates (do_raise w u) = block_stacking_updates sp + 1"
    using u(2) s(5) by (simp add: do_raise_eq raising_def)
  have pos: "0 < block_stacking_updates (do_raise w u)" using b assms(4) by simp
  obtain t where t: "stacking_unlock (do_raise w u) = Some t" "alike t (do_raise w u)"
    "pre_stack t = pre_stack (do_raise w u)"
    "block_stacking_updates (do_raise w u) = 1 \<longrightarrow> constrained t"
    by (rule stacking_unlock_ready [OF r pos]) auto
  have "raise_window (Some w) sp = Some t"
    using s(1) cs(1) u(1) t(1) by (cases "lead (heap s) w") (simp_all add: raise_window_def os_def)
  moreover have "stacking_ready t" using stacking_ready_change [OF t(2)] t(3) r by simp
  moreover have "block_stacking_updates sp = 0 \<longrightarrow> constrained t" using t(4) b by simp
  moreover have "alike t sp" by (rule alike_trans [OF t(2) a])
  moreover have "mset (pre_stack t) = mset (pre_stack sp)" using t(3) m by simp
  ultimately show ?thesis using t(3) pw ls by (intro exI [of _ t] exI [of _ ls]) simp
qed

section \<open>Lowering\<close>

lemma fold_move_to_front:
  assumes "distinct ps"
  shows "\<exists>fs. fold (\<lambda>w xs. snd (move_to_front xs w)) ws ps = fs @ [x \<leftarrow> ps. x \<notin> set ws]
    \<and> distinct fs \<and> set fs = set ws \<inter> set ps"
proof (induction ws rule: rev_induct)
  case (snoc w ws)
  then obtain fs where fs: "fold (\<lambda>w xs. snd (move_to_front xs w)) ws ps = fs @ [x \<leftarrow> ps. x \<notin> set ws]"
    "distinct fs" "set fs = set ws \<inter> set ps" by blast
  have r: "removeAll w [x \<leftarrow> ps. x \<notin> set ws] = [x \<leftarrow> ps. x \<notin> set (ws @ [w])]"
    by (simp add: removeAll_filter_not_eq filter_filter) (metis)
  have e: "remove1 w (fs @ [x \<leftarrow> ps. x \<notin> set ws]) = removeAll w fs @ [x \<leftarrow> ps. x \<notin> set (ws @ [w])]"
    using fs assms unfolding r [symmetric] removeAll_append [symmetric]
    by (intro distinct_remove1_removeAll) auto
  show ?case
  proof (cases "w \<in> set ps")
    case True
    then have m: "w \<in> set (fs @ [x \<leftarrow> ps. x \<notin> set ws])" using fs(3) by auto
    show ?thesis
      by (rule exI [of _ "w # removeAll w fs"])
        (use fs m e True in \<open>auto simp: move_to_front_eq distinct_removeAll\<close>)
  next
    case False
    then have "w \<notin> set (fs @ [x \<leftarrow> ps. x \<notin> set ws])" using fs(3) by auto
    moreover have "[x \<leftarrow> ps. x \<notin> set (ws @ [w])] = [x \<leftarrow> ps. x \<notin> set ws]"
      using False by (auto intro: filter_cong)
    ultimately show ?thesis using fs False by (auto simp: move_to_front_eq)
  qed
qed simp

lemma lower_cleanup_eq:
  "pre_stack (lower_cleanup w sp) = pre_stack sp" "stack (lower_cleanup w sp) = stack sp"
  "block_stacking_updates (lower_cleanup w sp) = block_stacking_updates sp"
  "alike (lower_cleanup w sp) sp"
  by (auto simp: lower_cleanup_def intro: same_heap_alike)

lemma do_lower_some:
  assumes "win_control (win sp w) \<noteq> None" "w \<in> set (pre_stack sp)"
  obtains sp' where "do_lower w sp = Some sp'" "alike sp' sp"
    "pre_stack sp' = snd (move_to_front (pre_stack sp) w)" "stack sp' = stack sp"
    "block_stacking_updates sp' = block_stacking_updates sp + 1"
proof -
  obtain s where s: "cancel_auto_raise w sp = Some s" "alike s sp" "heap_only sp s"
    by (rule cancel_auto_raise_some [OF assms(1)])
  let ?t = "(stacking_lock s)\<lparr>pre_stack := snd (move_to_front (pre_stack sp) w)\<rparr>"
  have "do_lower w sp = Some ?t"
    using s(1) assms(2) heap_only_fields(1) [OF s(3)]
    by (simp add: do_lower_def stacking_lock_alike move_to_front_eq)
  moreover have "alike ?t (stacking_lock s)" by (rule same_heap_alike) simp_all
  ultimately show ?thesis
    by (intro that [of ?t]) (use alike_trans [OF _ alike_trans [OF stacking_lock_alike(1) s(2)]]
        heap_only_fields [OF s(3)] in \<open>simp_all add: stacking_lock_alike order_lock.lock_depth\<close>)
qed

lemma move_to_front_mset: "mset (snd (move_to_front xs a)) = mset xs"
  by (simp add: move_to_front_eq)

lemma lower_family_member_some:
  assumes "stacking_ready sp" "0 < block_stacking_updates sp" "win_control (win sp g) \<noteq> None"
    and "g \<in> set (pre_stack sp)"
  obtains sp' where "lower_family_member w g sp = Some sp'" "raising sp sp'"
    "pre_stack sp' = (if g = w then pre_stack sp else snd (move_to_front (pre_stack sp) g))"
proof (cases "g = w")
  case True
  show ?thesis by (rule that [of sp]) (simp_all add: lower_family_member_def raising_def True)
next
  case False
  obtain s where s: "do_lower g sp = Some s" "alike s sp"
    "pre_stack s = snd (move_to_front (pre_stack sp) g)" "stack s = stack sp"
    "block_stacking_updates s = block_stacking_updates sp + 1"
    by (rule do_lower_some [OF assms(3,4)])
  have m: "mset (pre_stack s) = mset (pre_stack sp)" by (simp add: s(3) move_to_front_mset)
  have r: "stacking_ready s" using stacking_ready_change [OF s(2) m] assms(1) by simp
  have b: "0 < block_stacking_updates s" "1 < block_stacking_updates s" using assms(2) s(5) by simp_all
  obtain t where t: "stacking_unlock s = Some t" "alike t s" "pre_stack t = pre_stack s"
    "stack t = stack s"
    by (rule stacking_unlock_ready [OF r b(1)]) (use b(2) in simp)
  have "alike (lower_cleanup g t) sp"
    by (rule alike_trans [OF lower_cleanup_eq(4) alike_trans [OF t(2) s(2)]])
  then show ?thesis
    by (intro that [of "lower_cleanup g t"])
      (use False s t m stacking_unlock_depth [OF t(1)] in
        \<open>simp_all add: lower_family_member_def raising_def lower_cleanup_eq\<close>)
qed

lemma lower_family_some:
  assumes "stacking_ready sp" "0 < block_stacking_updates sp"
    and "\<forall>g\<in>set gs. win_control (win sp g) \<noteq> None \<and> g \<in> set (pre_stack sp)"
  shows "\<exists>sp'. ofold (lower_family_member w) gs sp = Some sp' \<and> raising sp sp'
    \<and> pre_stack sp' = fold (\<lambda>w xs. snd (move_to_front xs w)) (filter (\<lambda>g. g \<noteq> w) gs) (pre_stack sp)"
  using assms
proof (induction gs arbitrary: sp)
  case (Cons g gs)
  have g: "win_control (win sp g) \<noteq> None" "g \<in> set (pre_stack sp)" using Cons.prems(3) by simp_all
  obtain s where s: "lower_family_member w g sp = Some s" "raising sp s"
    "pre_stack s = (if g = w then pre_stack sp else snd (move_to_front (pre_stack sp) g))"
    by (rule lower_family_member_some [OF Cons.prems(1,2) g])
  have a: "alike s sp" and m: "mset (pre_stack s) = mset (pre_stack sp)"
    and b: "0 < block_stacking_updates s" using s(2) Cons.prems(2) by (simp_all add: raising_def)
  have r: "stacking_ready s" using stacking_ready_change [OF a m] Cons.prems(1) by simp
  have c: "\<forall>g\<in>set gs. win_control (win s g) \<noteq> None \<and> g \<in> set (pre_stack s)"
    using Cons.prems(3) alike_fields(11) [OF a] mset_eq_setD [OF m] by auto
  obtain t where t: "ofold (lower_family_member w) gs s = Some t" "raising s t"
    "pre_stack t = fold (\<lambda>w xs. snd (move_to_front xs w)) (filter (\<lambda>g. g \<noteq> w) gs) (pre_stack s)"
    using Cons.IH [OF r b c] by blast
  have "raising sp t" using s(2) t(2) alike_trans by (auto simp: raising_def)
  then show ?case using s(1,3) t(1,3) by auto
qed (simp add: raising_def)

lemma get_transient_family_some:
  assumes "transient_ok h"
  shows "\<exists>t fam. get_transient_family h w = Some fam \<and> get_top_lead h w = Some t
    \<and> set fam = {x. (x, t) \<in> (lead_rel h)\<^sup>*}"
proof -
  obtain t where t: "get_top_lead h w = Some t" using get_top_lead_some [OF assms] by blast
  obtain ds where ds: "get_transient_descendants h t = Some ds" "set ds = {d. (d, t) \<in> (lead_rel h)\<^sup>+}"
    using get_transient_descendants_some [OF assms] by blast
  then have "get_transient_family h w = Some (ds @ [t])" using t by (simp add: get_transient_family_def)
  moreover have "set (ds @ [t]) = {x. (x, t) \<in> (lead_rel h)\<^sup>*}"
    using ds(2) by (auto simp: rtrancl_eq_or_trancl)
  ultimately show ?thesis using t by blast
qed

text \<open>The windows that are lowered together with a window: for an X11 window with a lead and a group
  all the transients of its top lead.\<close>

definition lowered_with :: "space \<Rightarrow> wid \<Rightarrow> wid set" where
  "lowered_with sp w =
     (if win_class (win sp w) = X11_Window \<and> leads (win sp w) \<noteq> [] \<and> win_group (win sp w) \<noteq> None
      then {x. (x, the (get_top_lead (heap sp) w)) \<in> (lead_rel (heap sp))\<^sup>*} else {w})"

lemma lower_window_some:
  assumes "stacking_ready sp" "w \<in> set (pre_stack sp)" "0 \<le> block_stacking_updates sp"
    and "\<forall>x\<in>insert w (lowered_with sp w). win_control (win sp x) \<noteq> None"
  shows "\<exists>sp' fs. lower_window w sp = Some sp' \<and> stacking_ready sp'
    \<and> alike sp' sp \<and> mset (pre_stack sp') = mset (pre_stack sp)
    \<and> pre_stack sp' = fs @ w # [x \<leftarrow> pre_stack sp. x \<notin> insert w (set fs)]
    \<and> distinct fs \<and> set fs = lowered_with sp w - {w}
    \<and> (block_stacking_updates sp = 0 \<longrightarrow> constrained sp')"
proof -
  have ok: "transient_ok (heap sp)" and closed: "pre_stack_closed sp"
    using assms(1) by (simp_all add: stacking_ready_def layers_known_def)
  have d: "distinct (pre_stack sp)" using closed by (simp add: pre_stack_closed_def)
  have cw: "win_control (win sp w) \<noteq> None" using assms(4) by simp
  obtain s where s: "do_lower w sp = Some s" "alike s sp"
    "pre_stack s = snd (move_to_front (pre_stack sp) w)" "stack s = stack sp"
    "block_stacking_updates s = block_stacking_updates sp + 1"
    by (rule do_lower_some [OF cw assms(2)])
  have ms: "mset (pre_stack s) = mset (pre_stack sp)" by (simp add: s(3) move_to_front_mset)
  have sr: "stacking_ready s" using stacking_ready_change [OF s(2) ms] assms(1) by simp
  have sb: "0 < block_stacking_updates s" using s(5) assms(3) by simp
  have ps: "pre_stack s = w # [x \<leftarrow> pre_stack sp. x \<noteq> w]"
    using assms(2) d s(3) by (simp add: move_to_front_eq distinct_remove1_removeAll removeAll_filter_not_eq eq_commute)
  let ?fam = "win_class (win s w) = X11_Window \<and> lead (heap s) w \<noteq> None \<and> win_group (win s w) \<noteq> None"
  have fam: "?fam \<longleftrightarrow> win_class (win sp w) = X11_Window \<and> leads (win sp w) \<noteq> []
      \<and> win_group (win sp w) \<noteq> None"
    by (simp add: alike_fields [OF s(2)] alike_lead [OF s(2)] lead_none del: not_None_eq)
  have sok: "transient_ok (heap s)" using ok by (simp add: alike_transient_ok [OF s(2)])
  obtain t fm where f: "get_transient_family (heap s) w = Some fm" "get_top_lead (heap s) w = Some t"
    "set fm = {x. (x, t) \<in> (lead_rel (heap s))\<^sup>*}"
    using get_transient_family_some [OF sok] by blast
  have lw: "lowered_with sp w = (if ?fam then set fm else {w})"
    using f(2) unfolding lowered_with_def fam
    by (auto simp: f(3) alike_lead_rel [OF s(2)] alike_top_lead [OF s(2) ok])
  have in_pre: "x \<in> set (pre_stack sp)" if "x \<in> set fm" for x
  proof -
    have up: "(w, y) \<in> (lead_rel (heap sp))\<^sup>* \<Longrightarrow> y \<in> set (pre_stack sp)" for y
      by (induction rule: rtrancl_induct) (use assms(2) closed in \<open>auto simp: pre_stack_closed_def\<close>)
    have c: "x \<in> set (children (win sp y)) \<longleftrightarrow> (x, y) \<in> lead_rel (heap sp)" for x y
      using ok children_rel by (simp add: transient_ok_def)
    have dn: "(x, y) \<in> (lead_rel (heap sp))\<^sup>* \<Longrightarrow> y \<in> set (pre_stack sp) \<Longrightarrow> x \<in> set (pre_stack sp)" for y
    proof (induction rule: converse_rtrancl_induct)
      case (step a b)
      then have "a \<in> set (children (win sp b))" using c by blast
      with step show ?case using closed unfolding pre_stack_closed_def by blast
    qed simp
    have "(w, t) \<in> (lead_rel (heap sp))\<^sup>*"
      using get_top_lead_some [OF sok, of w] f(2) alike_lead_rel [OF s(2)] by auto
    then show ?thesis using dn up that f(3) alike_lead_rel [OF s(2)] by simp
  qed
  define gs where "gs = (if ?fam then rev (restacked_by_space_stacking_order s fm) else [])"
  have gs: "set gs \<subseteq> lowered_with sp w" "set gs - {w} = lowered_with sp w - {w}"
    by (auto simp: gs_def lw restacked_by_space_stacking_order_def ensure_stacking_order_set)
  have gc: "\<forall>g\<in>set gs. win_control (win s g) \<noteq> None \<and> g \<in> set (pre_stack s)"
    using gs(1) assms(4) in_pre alike_fields(11) [OF s(2)] mset_eq_setD [OF ms]
    by (auto simp: gs_def restacked_by_space_stacking_order_def ensure_stacking_order_set lw)
  obtain u where u: "ofold (lower_family_member w) gs s = Some u" "raising s u"
    "pre_stack u = fold (\<lambda>w xs. snd (move_to_front xs w)) (filter (\<lambda>g. g \<noteq> w) gs) (pre_stack s)"
    using lower_family_some [OF sr sb gc] by blast
  have ds: "distinct (pre_stack s)" using d mset_eq_imp_distinct_iff [OF ms] by simp
  obtain fs where fs: "pre_stack u = fs @ [x \<leftarrow> pre_stack s. x \<notin> set (filter (\<lambda>g. g \<noteq> w) gs)]"
    "distinct fs" "set fs = set (filter (\<lambda>g. g \<noteq> w) gs) \<inter> set (pre_stack s)"
    using fold_move_to_front [OF ds] u(3) by metis
  have sf: "set fs = lowered_with sp w - {w}" "set fs = set (filter (\<lambda>g. g \<noteq> w) gs)"
    using fs(3) gc gs(2) by auto
  have pu: "pre_stack u = fs @ w # [x \<leftarrow> pre_stack sp. x \<notin> insert w (set fs)]"
    unfolding fs(1) sf(2) [symmetric] ps using sf(1) by (auto simp: filter_filter intro: filter_cong)
  have m: "mset (pre_stack (lower_cleanup w u)) = mset (pre_stack sp)"
    using u(2) ms by (simp add: lower_cleanup_eq raising_def)
  have a: "alike (lower_cleanup w u) sp"
    using u(2) alike_trans [OF lower_cleanup_eq(4) alike_trans [OF _ s(2)]] by (simp add: raising_def)
  have r: "stacking_ready (lower_cleanup w u)" using stacking_ready_change [OF a m] assms(1) by simp
  have b: "block_stacking_updates (lower_cleanup w u) = block_stacking_updates sp + 1"
    using u(2) s(5) by (simp add: lower_cleanup_eq raising_def)
  have pos: "0 < block_stacking_updates (lower_cleanup w u)" using b assms(3) by simp
  obtain v where v: "stacking_unlock (lower_cleanup w u) = Some v" "alike v (lower_cleanup w u)"
    "pre_stack v = pre_stack (lower_cleanup w u)"
    "block_stacking_updates (lower_cleanup w u) = 1 \<longrightarrow> constrained v"
    by (rule stacking_unlock_ready [OF r pos]) auto
  have "lower_window w sp = Some v"
    using s(1) f(1) u(1) v(1) unfolding lower_window_def gs_def
    by (cases "lead (heap s) w"; cases "win_group (win s w)"; cases "win_class (win s w) = X11_Window")
      simp_all
  moreover have "stacking_ready v" using stacking_ready_change [OF v(2)] v(3) r by simp
  moreover have "block_stacking_updates sp = 0 \<longrightarrow> constrained v" using v(4) b by simp
  moreover have "alike v sp" by (rule alike_trans [OF v(2) a])
  moreover have "mset (pre_stack v) = mset (pre_stack sp)" using v(3) m by simp
  ultimately show ?thesis
    using v(3) pu fs(2) sf(1) by (intro exI [of _ v] exI [of _ fs]) (simp add: lower_cleanup_eq)
qed

section \<open>Restacking\<close>

lemma alike_clients: "alike sp' sp \<Longrightarrow> clients_known sp' = clients_known sp"
  by (simp add: clients_known_def alike_transient_ok alike_fields)

text \<open>The walks of the code follow fields that alike spaces share.\<close>

lemma get_layer_alike:
  assumes "stacking_ready sp"
  obtains sp' where "get_layer w sp = Some (sp', layer_of sp w)" "alike sp' sp" "heap_only sp sp'"
proof -
  have k: "layers_known sp" using assms by (simp add: stacking_ready_def)
  obtain sp' where g: "get_layer w sp = Some (sp', layer_of sp w)" "cached sp' sp"
    by (rule get_layer_layer_of [OF k])
  show ?thesis by (rule that [OF g(1) cached_alike [OF g(2)] get_layer_heap_only [OF g(1)]])
qed

text \<open>Whether two windows belong to the same client does not depend on cached layers.\<close>

lemma cached_client_fields:
  assumes "cached sp' sp"
  shows "wm_client_leader (win sp' w) = wm_client_leader (win sp w)"
    "xcb_client (win sp' w) = xcb_client (win sp w)" "win_pid (win sp' w) = win_pid (win sp w)"
    "client_machine_name (win sp' w) = client_machine_name (win sp w)"
    "res_class (win sp' w) = res_class (win sp w)" "window_role (win sp' w) = window_role (win sp w)"
    "surface_client (win sp' w) = surface_client (win sp w)"
proof -
  have e: "forget_layer (win sp' w) = forget_layer (win sp w)"
    using cached_blind [OF assms] by (simp add: layer_blind_def)
  show "wm_client_leader (win sp' w) = wm_client_leader (win sp w)"
    "xcb_client (win sp' w) = xcb_client (win sp w)" "win_pid (win sp' w) = win_pid (win sp w)"
    "client_machine_name (win sp' w) = client_machine_name (win sp w)"
    "res_class (win sp' w) = res_class (win sp w)" "window_role (win sp' w) = window_role (win sp w)"
    "surface_client (win sp' w) = surface_client (win sp w)"
    using arg_cong [OF e, of wm_client_leader] arg_cong [OF e, of xcb_client] arg_cong [OF e, of win_pid]
      arg_cong [OF e, of client_machine_name] arg_cong [OF e, of res_class]
      arg_cong [OF e, of window_role] arg_cong [OF e, of surface_client]
    by (simp_all add: forget_layer_def)
qed

lemma same_client_cached:
  assumes "cached sp' sp" "transient_ok (heap sp)"
  shows "same_client sp' a b = same_client sp a b"
proof -
  note ok' = cached_transient_ok [OF assms(1), THEN iffD2, OF assms(2)]
  note f = cached_window [OF assms(1)] cached_client_fields [OF assms(1)] cached_space(3) [OF assms(1)]
  have fo: "is_follower_of (heap sp') x y = is_follower_of (heap sp) x y" for x y
    by (simp only: is_follower_of_eq [OF ok'] is_follower_of_eq [OF assms(2)] cached_lead_rel [OF assms(1)])
  show ?thesis
    unfolding same_client_def belong_to_same_client_def x11_belong_to_same_application_def
      wayland_belongs_to_same_application_def same_app_window_role_match_def window_roles_match_def
      is_group_transient_def get_wm_client_leader_def Let_def
    unfolding f cached_lead [OF assms(1)]
      get_top_lead_cached [OF assms] fo by (rule refl)
qed

text \<open>The window the search of restack finds: the topmost one of the client of the given window,
  of its class, with a control and in the layer of the window that is moved.\<close>

definition restack_target :: "space \<Rightarrow> wid \<Rightarrow> wid \<Rightarrow> wid \<Rightarrow> bool" where
  "restack_target sp w und x \<longleftrightarrow> win_class (win sp x) = win_class (win sp und)
     \<and> win_control (win sp x) \<noteq> None \<and> layer_of sp x = layer_of sp w
     \<and> same_client sp und x = Some True"

lemma restack_find_under_some:
  assumes "layers_known sp0" "clients_known sp0" "same_client sp0 und w = Some False"
  shows "cached sp sp0 \<Longrightarrow> \<exists>sp'. restack_find_under w und os sp
    = Some (sp', case List.find (restack_target sp0 w und) os of None \<Rightarrow> und | Some x \<Rightarrow> x)
    \<and> cached sp' sp0"
proof (induction os arbitrary: sp)
  case (Cons x os)
  have ok: "transient_ok (heap sp0)" using assms(1) by (simp add: layers_known_def)
  note f = cached_window [OF Cons.prems]
  have k: "layers_known sp" by (rule cached_layers_known [OF Cons.prems assms(1)])
  show ?case
  proof (cases "win_class (win sp x) \<noteq> win_class (win sp und) \<or> win_control (win sp x) = None")
    case True
    then have "\<not> restack_target sp0 w und x" by (auto simp: restack_target_def f)
    then show ?thesis using Cons.IH [OF Cons.prems] True by auto
  next
    case False
    obtain s1 where s1: "get_layer x sp = Some (s1, layer_of sp x)" "cached s1 sp" "layers_known s1"
      by (rule get_layer_layer_of [OF k])
    obtain s2 where s2: "get_layer w s1 = Some (s2, layer_of s1 w)" "cached s2 s1"
      by (rule get_layer_layer_of [OF s1(3)])
    have c1: "cached s1 sp0" by (rule cached_trans [OF s1(2) Cons.prems])
    have c2: "cached s2 sp0" by (rule cached_trans [OF s2(2) c1])
    have lo: "layer_of sp x = layer_of sp0 x" "layer_of s1 w = layer_of sp0 w"
      using layer_of_cached [OF Cons.prems assms(1)] layer_of_cached [OF c1 assms(1)] by simp_all
    obtain b where b: "same_client sp0 und x = Some b"
      using same_client_some [OF assms(2), of und x] by auto
    have sc: "same_client s2 und x = Some b" using same_client_cached [OF c2 ok] b by simp
    have t: "restack_target sp0 w und x \<longleftrightarrow> layer_of sp0 x = layer_of sp0 w \<and> b"
      using False b by (simp add: restack_target_def f)
    have "w \<noteq> x" if b using that b assms(3) by auto
    then have e: "restack_find_under w und (x # os) sp
        = (if restack_target sp0 w und x then Some (s2, x) else restack_find_under w und os s2)"
      using False s1(1) s2(1) lo sc unfolding t by auto
    show ?thesis unfolding e using Cons.IH [OF c2] c2 by (auto split: option.split)
  qed
qed auto

text \<open>Moving in the focus chain returns and leaves the constraints alone.\<close>

lemma focus_chain_move_in_chain_some:
  assumes "clients_known sp"
  shows "focus_chain_move_window_after_in_chain sp w r chain \<noteq> None"
proof -
  have q: "same_client sp r x = Some (the (same_client sp r x))" for x
    using same_client_some [OF assms, of r x] by auto
  have f: "find_from_back (same_client sp r) xs n \<noteq> None" for xs n
  proof (induction n)
    case (Suc n)
    then show ?case by (subst find_from_back.simps, subst q) simp
  qed simp
  show ?thesis
    using f [of "remove_all chain w" "length (remove_all chain w)"] unfolding focus_chain_move_window_after_in_chain_def Let_def
    by (subst q) auto
qed

lemma omap_total: "(\<And>x. x \<in> set xs \<Longrightarrow> f x \<noteq> None) \<Longrightarrow> omap f xs \<noteq> None"
  using omap_some [of xs f "\<lambda>x. the (f x)"] by auto

lemma focus_chain_move_some:
  assumes "clients_known sp"
  obtains sp' where "focus_chain_move_window_after w r sp = Some sp'" "alike sp' sp"
    "pre_stack sp' = pre_stack sp" "stack sp' = stack sp"
    "block_stacking_updates sp' = block_stacking_updates sp"
proof (cases "wants_tab_focus (win sp w)")
  case True
  let ?f = "\<lambda>(key, chain). if \<not> on_subspace sp w (int key) then Some (key, chain)
      else map_option (Pair key) (focus_chain_move_window_after_in_chain sp w r chain)"
  have "omap ?f (chain_subspaces sp) \<noteq> None"
    by (rule omap_total) (use focus_chain_move_in_chain_some [OF assms] in \<open>auto split: if_splits\<close>)
  then obtain cs where cs: "omap ?f (chain_subspaces sp) = Some cs" by blast
  obtain l where l: "focus_chain_move_window_after_in_chain sp w r (latest_use sp) = Some l"
    using focus_chain_move_in_chain_some [OF assms, of w r "latest_use sp"] by blast
  have "focus_chain_move_window_after w r sp = Some (sp\<lparr>chain_subspaces := cs, latest_use := l\<rparr>)"
    using True cs l by (simp add: focus_chain_move_window_after_def)
  then show ?thesis by (rule that) (simp_all add: same_heap_alike)
next
  case False
  show ?thesis by (rule that [of sp]) (simp_all add: focus_chain_move_window_after_def False)
qed

lemma insert_at_find_it:
  assumes "u \<in> set xs"
  shows "\<exists>ys zs. insert_at (find_it xs u) w xs = ys @ w # u # zs \<and> xs = ys @ u # zs"
proof -
  have i: "std_find xs u < length xs" "xs ! std_find xs u = u" using assms by simp_all
  then have "xs = take (std_find xs u) xs @ u # drop (Suc (std_find xs u)) xs"
    by (metis id_take_nth_drop)
  moreover have "drop (std_find xs u) xs = u # drop (Suc (std_find xs u)) xs"
    using i by (metis Cons_nth_drop_Suc)
  ultimately show ?thesis by (auto simp: insert_at_def find_it_def)
qed

text \<open>The window that \<open>w\<close> is put right below.\<close>

definition restack_below :: "space \<Rightarrow> wid \<Rightarrow> wid \<Rightarrow> bool \<Rightarrow> wid" where
  "restack_below sp w und force =
     (if force \<or> same_client sp und w = Some True then und
      else case List.find (restack_target sp w und) (rev (pre_stack sp)) of None \<Rightarrow> und | Some x \<Rightarrow> x)"

lemma find_SomeD: "List.find P xs = Some x \<Longrightarrow> x \<in> set xs \<and> P x"
  by (auto simp: find_Some_iff)

lemma restack_below_other:
  assumes "w \<noteq> und" "und \<in> set (pre_stack sp)"
  shows "restack_below sp w und force \<noteq> w \<and> restack_below sp w und force \<in> set (pre_stack sp)"
proof (cases "force \<or> same_client sp und w = Some True")
  case False
  note f = this
  show ?thesis
  proof (cases "List.find (restack_target sp w und) (rev (pre_stack sp))")
    case (Some x)
    from find_SomeD [OF this] have "x \<in> set (pre_stack sp)" "same_client sp und x = Some True"
      by (simp_all add: restack_target_def)
    with f Some show ?thesis by (auto simp: restack_below_def)
  qed (use f assms in \<open>simp add: restack_below_def\<close>)
qed (use assms in \<open>simp add: restack_below_def\<close>)

lemma mset_insert_back:
  assumes "distinct ps" "w \<in> set ps" "[x \<leftarrow> ps. x \<noteq> w] = xs @ ys"
  shows "mset (xs @ w # ys) = mset ps"
proof -
  have "remove1 w ps = xs @ ys"
    using assms(1,3) by (simp add: distinct_remove1_removeAll removeAll_filter_not_eq eq_commute [of w])
  then have "mset ps - {#w#} = mset (xs @ ys)" by (metis mset_remove1)
  moreover have "add_mset w (mset ps - {#w#}) = mset ps" using assms(2) by (simp add: insert_DiffM)
  ultimately show ?thesis by simp
qed

lemma restack_some:
  assumes "stacking_ready sp" "clients_known sp" "w \<in> set (pre_stack sp)" "und \<in> set (pre_stack sp)"
    and "w \<noteq> und" "0 \<le> block_stacking_updates sp"
  shows "\<exists>sp' below above. restack w und force sp = Some sp' \<and> stacking_ready sp'
    \<and> alike sp' sp \<and> mset (pre_stack sp') = mset (pre_stack sp)
    \<and> pre_stack sp' = below @ w # restack_below sp w und force # above
    \<and> [x \<leftarrow> pre_stack sp. x \<noteq> w] = below @ restack_below sp w und force # above
    \<and> (block_stacking_updates sp = 0 \<longrightarrow> constrained sp')"
proof -
  have k: "layers_known sp" and d: "distinct (pre_stack sp)"
    using assms(1) by (simp_all add: stacking_ready_def pre_stack_closed_def)
  obtain b where b: "same_client sp und w = Some b" using same_client_some [OF assms(2), of und w] by auto
  let ?u = "restack_below sp w und force"
  obtain s where s: "(if \<not> force \<and> \<not> b then restack_find_under w und (rev (pre_stack sp)) sp
      else Some (sp, und)) = Some (s, ?u)" "cached s sp"
    using restack_find_under_some [OF k assms(2) _ cached_refl, of und w "rev (pre_stack sp)"] b
    by (cases "\<not> force \<and> \<not> b") (auto simp: restack_below_def)
  have ps: "pre_stack s = pre_stack sp" by (rule cached_space(2) [OF s(2)])
  have rm: "remove_all (pre_stack sp) w = [x \<leftarrow> pre_stack sp. x \<noteq> w]" by (simp add: remove_all_def)
  have u: "?u \<in> set (remove_all (pre_stack sp) w)"
    using restack_below_other [OF assms(5,4), of force] by (simp add: rm)
  obtain below above where ba: "insert_at (find_it (remove_all (pre_stack sp) w) ?u) w (remove_all (pre_stack sp) w)
      = below @ w # ?u # above" "remove_all (pre_stack sp) w = below @ ?u # above"
    using insert_at_find_it [OF u] by blast
  let ?s = "s\<lparr>pre_stack := below @ w # ?u # above\<rparr>"
  have a: "alike ?s sp" by (rule alike_trans [OF same_heap_alike cached_alike [OF s(2)]]) simp_all
  have cl: "clients_known ?s" using assms(2) by (simp add: alike_clients [OF a])
  obtain t where t: "focus_chain_move_window_after w ?u ?s = Some t" "alike t ?s"
    "pre_stack t = pre_stack ?s" "stack t = stack ?s"
    "block_stacking_updates t = block_stacking_updates ?s"
    by (rule focus_chain_move_some [OF cl])
  have at: "alike t sp" by (rule alike_trans [OF t(2) a])
  have "mset (below @ w # ?u # above) = mset (pre_stack sp)"
    by (rule mset_insert_back [OF d assms(3)]) (use ba(2) rm in simp)
  then have m: "mset (pre_stack t) = mset (pre_stack sp)" using t(3) by simp
  have r: "stacking_ready t" using stacking_ready_change [OF at m] assms(1) by simp
  have blk: "block_stacking_updates t = block_stacking_updates sp"
    using t(5) cached_space(5) [OF s(2)] by simp
  obtain v where v: "update_order t = Some v" "alike v t" "pre_stack v = pre_stack t"
    "block_stacking_updates sp = 0 \<longrightarrow> constrained v"
    using update_ready(1) [OF r] blk assms(6) by (cases "block_stacking_updates sp = 0")
      (auto simp: update_order_def)
  have e: "(if force then Some True else same_client sp und w) = Some (force \<or> b)"
    using b by simp
  have f: "(if \<not> force \<and> \<not> (force \<or> b) then restack_find_under w und (rev (pre_stack sp)) sp
      else Some (sp, und)) = Some (s, ?u)"
  proof -
    have "(\<not> force \<and> \<not> (force \<or> b)) = (\<not> force \<and> \<not> b)" by blast
    then show ?thesis using s(1) by (simp only:)
  qed
  have c: "contains (pre_stack sp) und" using assms(4) by simp
  have "restack w und force sp = Some v"
    unfolding restack_def e Option.bind.bind_lunit f Let_def prod.case ps ba(1) t(1) v(1) by (simp only: c)
      simp
  moreover have "stacking_ready v" using stacking_ready_change [OF v(2)] v(3) r by simp
  moreover have "alike v sp" by (rule alike_trans [OF v(2) at])
  moreover have "mset (pre_stack v) = mset (pre_stack sp)" using v(3) m by simp
  ultimately show ?thesis
    using v(3,4) t(3) ba(2) rm by (intro exI [of _ v] exI [of _ below] exI [of _ above]) simp
qed

end
