(* ===== verification/Stacking_Progress.thy ===== *)
theory Stacking_Progress
  imports Stacking_Returns
begin

text \<open>
  The invariant of the stacking order over all calls of its clients: as long as the calls name
  windows of the order, every call returns, and whenever the lock is free the stack satisfies the
  constraints.
\<close>

section \<open>Updating layers\<close>

text \<open>Spaces that agree on what the layer a window belongs to is computed from.\<close>

definition kin :: "space \<Rightarrow> space \<Rightarrow> bool" where
  "kin sp' sp \<longleftrightarrow> (\<forall>w. forget (win sp' w) = forget (win sp w))
     \<and> showing_desktop sp' = showing_desktop sp \<and> active sp' = active sp
     \<and> should_get_focus sp' = should_get_focus sp \<and> root_window sp' = root_window sp"

lemma kin_refl [simp]: "kin sp sp"
  by (simp add: kin_def)

lemma kin_trans: "kin a b \<Longrightarrow> kin b c \<Longrightarrow> kin a c"
  by (simp add: kin_def)

lemma alike_kin: "alike sp' sp \<Longrightarrow> kin sp' sp"
  by (simp add: alike_def kin_def)

lemma forget_control:
  assumes "forget x = forget y"
  shows "map_option keep_below (win_control x) = map_option keep_below (win_control y)"
    "map_option keep_above (win_control x) = map_option keep_above (win_control y)"
    "map_option ctl_fullscreen (win_control x) = map_option ctl_fullscreen (win_control y)"
    "popup_end x = popup_end y" "lock_screen x = lock_screen y"
    "belongs_to_desktop x = belongs_to_desktop y"
  using arg_cong [OF assms, of "\<lambda>x. map_option keep_below (win_control x)"]
    arg_cong [OF assms, of "\<lambda>x. map_option keep_above (win_control x)"]
    arg_cong [OF assms, of "\<lambda>x. map_option ctl_fullscreen (win_control x)"]
    arg_cong [OF assms, of popup_end] arg_cong [OF assms, of lock_screen]
    arg_cong [OF assms, of belongs_to_desktop]
  by (simp_all add: forget_def option.map_comp comp_def)

lemma kin_belong:
  assumes "kin sp' sp"
  shows "belong_to_layer sp' w = belong_to_layer sp w"
proof -
  have f: "forget (win sp' v) = forget (win sp v)" for v using assms by (simp add: kin_def)
  have o: "showing_desktop sp' = showing_desktop sp" "active sp' = active sp"
    "should_get_focus sp' = should_get_focus sp" using assms by (simp_all add: kin_def)
  note ff = forget_fields [OF f] and fc = forget_control [OF f]
  have fs: "is_active_fullscreen sp' w = is_active_fullscreen sp w"
  proof (cases "win_control (win sp w)")
    case (Some c)
    with ff(11) [of w] obtain c' where c': "win_control (win sp' w) = Some c'" by fastforce
    have "ctl_fullscreen c' = ctl_fullscreen c" using fc(3) [of w] Some c' by simp
    then show ?thesis using Some c'
      unfolding is_active_fullscreen_def most_recently_activated_window_def ff(1,5,10) o by simp
  qed (use ff(11) [of w] in \<open>simp add: is_active_fullscreen_def\<close>)
  have "do { ctl \<leftarrow> win_control (win sp' w);
             if keep_below ctl then Some layer_below
             else do { act \<leftarrow> is_active_fullscreen sp w;
                       Some (if act then layer_active else if keep_above ctl then layer_above
                             else layer_normal) } }
      = do { ctl \<leftarrow> win_control (win sp w);
             if keep_below ctl then Some layer_below
             else do { act \<leftarrow> is_active_fullscreen sp w;
                       Some (if act then layer_active else if keep_above ctl then layer_above
                             else layer_normal) } }"
  proof (cases "win_control (win sp w)")
    case (Some c)
    with ff(11) [of w] obtain c' where c': "win_control (win sp' w) = Some c'" by fastforce
    have "keep_below c' = keep_below c" "keep_above c' = keep_above c" using fc(1,2) [of w] Some c' by simp_all
    then show ?thesis using Some c' by simp
  qed (use ff(11) [of w] in simp)
  then show ?thesis
    unfolding belong_to_layer_def Let_def type_defs is_popup_def ff(1-10) fc(4-6) o fs by simp
qed

text \<open>A space in which every layer can be computed again.\<close>

definition layers_computable :: "space \<Rightarrow> bool" where
  "layers_computable sp \<longleftrightarrow> (\<forall>w. belong_to_layer sp w \<noteq> None)"

lemma kin_ready:
  assumes "kin sp' sp" "layers_computable sp" "stacking_ready sp" "pre_stack sp' = pre_stack sp"
  shows "stacking_ready sp'"
proof -
  have f: "forget (win sp' v) = forget (win sp v)" for v using assms(1) by (simp add: kin_def)
  note ff = forget_fields [OF f]
  have "base_layer sp' w \<noteq> None" for w
    using assms(2) kin_belong [OF assms(1)] by (simp add: base_layer_def layers_computable_def)
  moreover have "transient_ok (heap sp') = transient_ok (heap sp)"
    unfolding transient_ok_def converse_ok_def lead_rel_def ff(1,2) by (rule refl)
  moreover have "forest sp' = forest sp" by (simp add: forest_def ff(1))
  moreover have "pre_stack_closed sp' = pre_stack_closed sp"
    by (simp only: pre_stack_closed_def ff(1,2) assms(4))
  ultimately show ?thesis using assms(3) by (simp add: stacking_ready_def layers_known_def)
qed

lemma kin_computable: "kin sp' sp \<Longrightarrow> layers_computable sp' = layers_computable sp"
  by (simp add: layers_computable_def kin_belong)

lemma kin_children: "kin sp' sp \<Longrightarrow> children (win sp' w) = children (win sp w)"
  unfolding kin_def by (blast intro: forget_fields(2))

text \<open>What a step of updating layers keeps.\<close>

definition relayered :: "space \<Rightarrow> space \<Rightarrow> bool" where
  "relayered sp sp' \<longleftrightarrow> kin sp' sp \<and> pre_stack sp' = pre_stack sp
     \<and> block_stacking_updates sp' = block_stacking_updates sp
     \<and> (block_stacking_updates sp = 0 \<longrightarrow> constrained sp \<longrightarrow> constrained sp')"

lemma relayered_trans: "relayered a b \<Longrightarrow> relayered b c \<Longrightarrow> relayered a c"
  unfolding relayered_def by (auto intro: kin_trans)

lemma update_layer_some:
  assumes ok: "transient_ok h"
  shows "stacking_ready sp \<Longrightarrow> layers_computable sp \<Longrightarrow> 0 \<le> block_stacking_updates sp \<Longrightarrow>
    (\<forall>w. children (win sp w) = children (h w)) \<Longrightarrow>
    \<exists>sp'. update_layer w sp = Some sp' \<and> relayered sp sp'"
  using transient_ok_wf(1) [OF ok]
proof (induction w arbitrary: sp rule: wf_induct_rule)
  case (less w)
  note ready = less.prems(1)
  obtain s1 where s1: "get_layer w sp = Some (s1, layer_of sp w)" "alike s1 sp" "heap_only sp s1"
    by (rule get_layer_alike [OF ready])
  have k1: "kin s1 sp" by (rule alike_kin [OF s1(2)])
  have c1: "layers_computable s1" using less.prems(2) kin_computable [OF k1] by simp
  obtain b where b: "belong_to_layer s1 w = Some b" using c1 by (auto simp: layers_computable_def)
  have r1: "relayered sp s1"
    using k1 heap_only_fields [OF s1(3)] constrained_change [OF s1(2) stacking_ready_ok [OF ready]]
    by (simp add: relayered_def)
  show ?case
  proof (cases "win_remnant (win sp w) = None")
    case False
    then have "update_layer w sp = Some sp" by (subst update_layer.simps) simp
    then show ?thesis by (simp add: relayered_def)
  next
    case live: True
    show ?thesis
    proof (cases "layer_of sp w = b")
      case True
      then have "update_layer w sp = Some s1" using live s1(1) b by (subst update_layer.simps) simp
      then show ?thesis using r1 by blast
    next
      case False
      define s2 where "s2 = invalidate_layer w (stacking_lock s1)"
      have h2: "heap s2 = (heap s1)(w := (heap s1 w)\<lparr>topo_layer := layer_unknown\<rparr>)"
        by (simp add: s2_def invalidate_layer_def update_window_def stacking_lock_def Let_def)
      have "forget (win s2 v) = forget (win s1 v)" for v by (simp add: h2 forget_def)
      then have k2: "kin s2 s1"
        by (simp add: kin_def s2_def invalidate_layer_def update_window_def stacking_lock_def Let_def)
      have p2: "pre_stack s2 = pre_stack sp" "block_stacking_updates s2 = block_stacking_updates sp + 1"
        using heap_only_fields [OF s1(3)]
        by (simp_all add: s2_def invalidate_layer_def update_window_def stacking_lock_alike order_lock.lock_depth)
      have k20: "kin s2 sp" by (rule kin_trans [OF k2 k1])
      let ?round = "\<lambda>child sp. if annexed (win sp child) then Some sp else update_layer child sp"
      let ?I = "\<lambda>s. kin s sp \<and> pre_stack s = pre_stack sp
        \<and> block_stacking_updates s = block_stacking_updates sp + 1"
      have round: "\<exists>t. ?round c s = Some t \<and> ?I t"
        if "c \<in> set (children (win s2 w))" "?I s" for c s
      proof (cases "annexed (win s c)")
        case False
        have "(c, w) \<in> lead_rel h"
          using that(1) less.prems(4) ok children_rel kin_children [OF k20]
          by (simp add: transient_ok_def)
        moreover have "stacking_ready s" using kin_ready [OF _ less.prems(2) ready] that(2) by blast
        moreover have "layers_computable s" using kin_computable that(2) less.prems(2) by blast
        moreover have "\<forall>w. children (win s w) = children (h w)"
          using that(2) kin_children [of s sp] less.prems(4) by simp
        ultimately have "\<exists>t. update_layer c s = Some t \<and> relayered s t"
          using less.IH [of c s] that(2) less.prems(3) by simp
        then show ?thesis using False that(2) by (auto simp: relayered_def intro: kin_trans)
      qed (use that in simp)
      obtain s3 where s3: "ofold ?round (children (win s2 w)) s2 = Some s3" "?I s3"
        using ofold_total [of ?I s2 "children (win s2 w)" ?round] round k20 p2 by blast
      have r3: "stacking_ready s3" using kin_ready [OF _ less.prems(2) ready] s3(2) by blast
      have pos: "0 < block_stacking_updates s3" using s3(2) less.prems(3) by simp
      obtain s4 where s4: "stacking_unlock s3 = Some s4" "alike s4 s3" "pre_stack s4 = pre_stack s3"
        "block_stacking_updates s3 = 1 \<longrightarrow> constrained s4"
        by (rule stacking_unlock_ready [OF r3 pos]) auto
      have u: "update_layer w sp = Some s4"
        using live s1(1) b False s3(1) s4(1) by (subst update_layer.simps) (simp add: Let_def s2_def)
      have "kin s4 sp" using s3(2) kin_trans [OF alike_kin [OF s4(2)]] by blast
      then have "relayered sp s4"
        using s3(2) s4(3,4) stacking_unlock_depth [OF s4(1)] by (simp add: relayered_def)
      with u show ?thesis by blast
    qed
  qed
qed

section \<open>The invariant\<close>

definition order_ok :: "space \<Rightarrow> bool" where
  "order_ok sp \<longleftrightarrow> stacking_ready sp \<and> clients_known sp \<and> layers_computable sp
     \<and> 0 \<le> block_stacking_updates sp \<and> (block_stacking_updates sp = 0 \<longrightarrow> constrained sp)"

definition in_order :: "space \<Rightarrow> wid \<Rightarrow> bool" where
  "in_order sp w \<longleftrightarrow> w \<in> set (pre_stack sp) \<and> win_control (win sp w) \<noteq> None"

definition may_lower :: "space \<Rightarrow> wid \<Rightarrow> bool" where
  "may_lower sp w \<longleftrightarrow> w \<in> set (pre_stack sp)
     \<and> (\<forall>x\<in>insert w (lowered_with sp w). win_control (win sp x) \<noteq> None)"

text \<open>The calls a client may make: no unlock without a lock, and only windows of the order, with the
  controls that are dereferenced.\<close>

fun admissible :: "space \<Rightarrow> stacking_call \<Rightarrow> bool" where
  "admissible sp Call_Unlock = (0 < block_stacking_updates sp)"
| "admissible sp (Call_Raise (Some w)) = in_order sp w"
| "admissible sp (Call_Lower w) = may_lower sp w"
| "admissible sp (Call_Raise_Or_Lower sep (Some w)) = (in_order sp w \<and> may_lower sp w)"
| "admissible sp (Call_Restack w und force) =
     (w \<in> set (pre_stack sp) \<and> und \<in> set (pre_stack sp) \<and> w \<noteq> und)"
| "admissible sp (Call_Restack_Under_Active w) =
     (in_order sp w \<and> (\<forall>a. active sp = Some a \<longrightarrow> a \<in> set (pre_stack sp)))"
| "admissible sp (Call_Auto_Raise w) = in_order sp w"
| "admissible sp _ = True"

text \<open>What a call that returns achieves.\<close>

definition ordered :: "space \<Rightarrow> space \<Rightarrow> bool" where
  "ordered sp sp' \<longleftrightarrow> kin sp' sp \<and> mset (pre_stack sp') = mset (pre_stack sp)
     \<and> block_stacking_updates sp' \<ge> 0 \<and> (block_stacking_updates sp' = 0 \<longrightarrow> constrained sp')"

lemma kin_clients: "kin sp' sp \<Longrightarrow> clients_known sp' = clients_known sp"
proof -
  assume "kin sp' sp"
  then have f: "forget (win sp' v) = forget (win sp v)" for v by (simp add: kin_def)
  note ff = forget_fields [OF f]
  show ?thesis
    unfolding clients_known_def transient_ok_def converse_ok_def lead_rel_def ff(1,2,5,12) by (rule refl)
qed

lemma kin_stacking_ready:
  assumes "kin sp' sp" "layers_computable sp" "stacking_ready sp" "mset (pre_stack sp') = mset (pre_stack sp)"
  shows "stacking_ready sp'"
proof -
  let ?s = "sp'\<lparr>pre_stack := pre_stack sp\<rparr>"
  have a: "alike ?s sp'" by (rule same_heap_alike) simp_all
  have "stacking_ready ?s"
    by (rule kin_ready [OF kin_trans [OF alike_kin [OF a] assms(1)] assms(2,3)]) simp
  then show ?thesis using stacking_ready_change [OF a] assms(4) by simp
qed

lemma ordered_ok: "order_ok sp \<Longrightarrow> ordered sp sp' \<Longrightarrow> order_ok sp'"
  using kin_stacking_ready [of sp' sp] kin_clients [of sp' sp] kin_computable [of sp' sp]
  by (simp add: order_ok_def ordered_def)

lemma alike_ordered:
  assumes "order_ok sp" "alike sp' sp" "mset (pre_stack sp') = mset (pre_stack sp)"
    "block_stacking_updates sp' \<ge> 0" "block_stacking_updates sp' = 0 \<Longrightarrow> constrained sp'"
  shows "ordered sp sp'"
  using assms alike_kin by (simp add: ordered_def)

lemma in_order_ordered:
  assumes "order_ok sp" "ordered sp sp'" "in_order sp w"
  shows "in_order sp' w"
proof -
  have f: "forget (win sp' w) = forget (win sp w)" using assms(2) by (simp add: ordered_def kin_def)
  have "set (pre_stack sp') = set (pre_stack sp)" using assms(2) by (auto simp: ordered_def dest: mset_eq_setD)
  then show ?thesis using assms(3) forget_fields(11) [OF f] by (simp add: in_order_def)
qed

lemma raise_ordered:
  assumes "order_ok sp" "in_order sp w"
  obtains sp' where "raise_window (Some w) sp = Some sp'" "ordered sp sp'"
    "block_stacking_updates sp' = block_stacking_updates sp"
proof -
  obtain sp' where s: "raise_window (Some w) sp = Some sp'" "alike sp' sp"
    "mset (pre_stack sp') = mset (pre_stack sp)" "block_stacking_updates sp = 0 \<longrightarrow> constrained sp'"
    using raise_window_some [of sp w] assms by (auto simp: order_ok_def in_order_def)
  have b: "block_stacking_updates sp' = block_stacking_updates sp"
    by (rule order_keptD(1) [OF raise_window_kept [OF s(1)]])
  have "ordered sp sp'"
    by (rule alike_ordered [OF assms(1) s(2,3)]) (use b s(4) assms(1) in \<open>simp_all add: order_ok_def\<close>)
  with s(1) b show ?thesis using that by blast
qed

lemma lower_ordered:
  assumes "order_ok sp" "may_lower sp w"
  obtains sp' where "lower_window w sp = Some sp'" "ordered sp sp'"
proof -
  obtain sp' where s: "lower_window w sp = Some sp'" "alike sp' sp"
    "mset (pre_stack sp') = mset (pre_stack sp)" "block_stacking_updates sp = 0 \<longrightarrow> constrained sp'"
    using lower_window_some [of sp w] assms by (auto simp: order_ok_def may_lower_def)
  have b: "block_stacking_updates sp' = block_stacking_updates sp"
    by (rule order_keptD(1) [OF lower_window_kept [OF s(1)]])
  have "ordered sp sp'"
    by (rule alike_ordered [OF assms(1) s(2,3)]) (use b s(4) assms(1) in \<open>simp_all add: order_ok_def\<close>)
  with s(1) show ?thesis using that by blast
qed

lemma restack_ordered:
  assumes "order_ok sp" "w \<in> set (pre_stack sp)" "und \<in> set (pre_stack sp)" "w \<noteq> und"
  obtains sp' where "restack w und force sp = Some sp'" "ordered sp sp'"
proof -
  obtain sp' where s: "restack w und force sp = Some sp'" "alike sp' sp"
    "mset (pre_stack sp') = mset (pre_stack sp)" "block_stacking_updates sp = 0 \<longrightarrow> constrained sp'"
    using restack_some [of sp w und force] assms by (auto simp: order_ok_def)
  have b: "block_stacking_updates sp' = block_stacking_updates sp"
    by (rule order_keptD(1) [OF restack_kept [OF s(1)]])
  have "ordered sp sp'"
    by (rule alike_ordered [OF assms(1) s(2,3)]) (use b s(4) assms(1) in \<open>simp_all add: order_ok_def\<close>)
  with s(1) show ?thesis using that by blast
qed

lemma cancel_ordered:
  assumes "order_ok sp" "in_order sp w"
  obtains sp' where "cancel_auto_raise w sp = Some sp'" "ordered sp sp'"
proof -
  obtain s where s: "cancel_auto_raise w sp = Some s" "alike s sp" "heap_only sp s"
    using assms(2) cancel_auto_raise_some [of sp w] by (auto simp: in_order_def)
  note h = heap_only_fields [OF s(3)]
  have "ordered sp s"
    by (rule alike_ordered [OF assms(1) s(2)])
      (use h assms(1) constrained_change [OF s(2) stacking_ready_ok] in \<open>simp_all add: order_ok_def\<close>)
  with s(1) show ?thesis using that by blast
qed

lemma get_layer_ordered:
  assumes "order_ok sp"
  obtains sp' where "get_layer w sp = Some (sp', layer_of sp w)" "ordered sp sp'" "heap_only sp sp'"
proof -
  have r: "stacking_ready sp" using assms by (simp add: order_ok_def)
  obtain s where s: "get_layer w sp = Some (s, layer_of sp w)" "alike s sp" "heap_only sp s"
    by (rule get_layer_alike [OF r])
  note h = heap_only_fields [OF s(3)]
  have "ordered sp s"
    by (rule alike_ordered [OF assms s(2)])
      (use h assms constrained_change [OF s(2) stacking_ready_ok] in \<open>simp_all add: order_ok_def\<close>)
  with s(1,3) show ?thesis using that by blast
qed

lemma unlock_ordered:
  assumes "stacking_ready sp" "0 < block_stacking_updates sp"
  obtains sp' where "stacking_unlock sp = Some sp'" "ordered sp sp'"
proof -
  obtain sp' where s: "stacking_unlock sp = Some sp'" "alike sp' sp" "pre_stack sp' = pre_stack sp"
    "block_stacking_updates sp = 1 \<longrightarrow> constrained sp'"
    by (rule stacking_unlock_ready [OF assms]) auto
  then have "ordered sp sp'"
    using stacking_unlock_depth [OF s(1)] assms(2) alike_kin [OF s(2)] by (simp add: ordered_def)
  with s(1) show ?thesis using that by blast
qed

lemma restack_under_active_ordered:
  assumes "order_ok sp" "in_order sp w" "\<forall>a. active sp = Some a \<longrightarrow> a \<in> set (pre_stack sp)"
  obtains sp' where "restack_client_under_active w sp = Some sp'" "ordered sp sp'"
proof (cases "active sp = None \<or> active sp = Some w")
  case True
  obtain sp' where "raise_window (Some w) sp = Some sp'" "ordered sp sp'"
    by (rule raise_ordered [OF assms(1,2)])
  with True that show ?thesis by (auto simp: restack_client_under_active_def)
next
  case False
  then obtain a where a: "active sp = Some a" "a \<noteq> w" by auto
  obtain s1 where s1: "get_layer a sp = Some (s1, layer_of sp a)" "ordered sp s1" "heap_only sp s1"
    by (rule get_layer_ordered [OF assms(1)])
  have o1: "order_ok s1" by (rule ordered_ok [OF assms(1) s1(2)])
  obtain s2 where s2: "get_layer w s1 = Some (s2, layer_of s1 w)" "ordered s1 s2" "heap_only s1 s2"
    by (rule get_layer_ordered [OF o1])
  have o2: "order_ok s2" by (rule ordered_ok [OF o1 s2(2)])
  have i2: "in_order s2 w"
    by (rule in_order_ordered [OF o1 s2(2) in_order_ordered [OF assms(1) s1(2) assms(2)]])
  have p: "pre_stack s2 = pre_stack sp" using heap_only_fields(1) s1(3) s2(3) by simp
  have m: "a \<in> set (pre_stack s2)" "w \<in> set (pre_stack s2)" "w \<noteq> a"
    using assms(3) a i2 p by (auto simp: in_order_def)
  obtain t1 where t1: "raise_window (Some w) s2 = Some t1" "ordered s2 t1" by (rule raise_ordered [OF o2 i2])
  obtain t2 where t2: "restack w a False s2 = Some t2" "ordered s2 t2"
    by (rule restack_ordered [OF o2 m(2,1,3)])
  obtain sp' where t: "(if layer_of sp a \<noteq> layer_of s1 w then raise_window (Some w) s2
      else restack w a False s2) = Some sp'" "ordered s2 sp'"
    using t1 t2 by (cases "layer_of sp a = layer_of s1 w") auto
  have "ordered sp sp'"
    using s1(2) s2(2) t(2) unfolding ordered_def by (auto intro: kin_trans)
  moreover have "restack_client_under_active w sp = Some sp'"
    using a s1(1) s2(1) t(1) by (simp add: restack_client_under_active_def)
  ultimately show ?thesis using that by blast
qed

lemma perform_ordered:
  assumes ok: "order_ok sp" and adm: "admissible sp c"
  shows "\<exists>sp'. perform c sp = Some sp' \<and> ordered sp sp'"
proof -
  have ready: "stacking_ready sp" and pos: "0 \<le> block_stacking_updates sp"
    and con: "block_stacking_updates sp = 0 \<Longrightarrow> constrained sp"
    using ok by (simp_all add: order_ok_def)
  have self: "ordered sp sp" using ok by (simp add: ordered_def order_ok_def)
  show ?thesis
  proof (cases c)
    case Call_Lock
    then show ?thesis using pos
      by (auto simp: order_lock.lock_depth stacking_lock_alike intro!: alike_ordered [OF ok])
  next
    case Call_Unlock
    then obtain sp' where "stacking_unlock sp = Some sp'" "ordered sp sp'"
      using adm by (auto elim: unlock_ordered [OF ready])
    then show ?thesis using Call_Unlock by simp
  next
    case (Call_Raise x)
    then show ?thesis using adm self raise_ordered [OF ok] by (cases x) (auto simp: raise_window_def)
  next
    case (Call_Lower w)
    then show ?thesis using adm by (auto elim: lower_ordered [OF ok])
  next
    case (Call_Raise_Or_Lower sep x)
    show ?thesis
    proof (cases x)
      case None
      then show ?thesis using Call_Raise_Or_Lower self by (auto simp: raise_or_lower_client_def)
    next
      case (Some w)
      obtain s1 where s1: "raise_window (Some w) sp = Some s1" "ordered sp s1"
        using adm Some Call_Raise_Or_Lower by (auto elim: raise_ordered [OF ok])
      obtain s2 where s2: "lower_window w sp = Some s2" "ordered sp s2"
        using adm Some Call_Raise_Or_Lower by (auto elim: lower_ordered [OF ok])
      show ?thesis using Some Call_Raise_Or_Lower s1 s2
        by (simp add: raise_or_lower_client_def Let_def)
    qed
  next
    case (Call_Restack w und force)
    then show ?thesis using adm by (auto elim: restack_ordered [OF ok])
  next
    case (Call_Restack_Under_Active w)
    then show ?thesis using adm by (auto elim: restack_under_active_ordered [OF ok])
  next
    case (Call_Auto_Raise w)
    then have i: "in_order sp w" using adm by simp
    obtain s1 where s1: "raise_window (Some w) sp = Some s1" "ordered sp s1"
      by (rule raise_ordered [OF ok i])
    have ok1: "order_ok s1" by (rule ordered_ok [OF ok s1(2)])
    obtain s2 where s2: "cancel_auto_raise w s1 = Some s2" "ordered s1 s2"
      by (rule cancel_ordered [OF ok1 in_order_ordered [OF ok s1(2) i]])
    have "ordered sp s2" using s1(2) s2(2) unfolding ordered_def by (auto intro: kin_trans)
    then show ?thesis using Call_Auto_Raise s1(1) s2(1) by (simp add: auto_raise_def)
  next
    case (Call_Update_Layer w)
    have "\<exists>sp'. update_layer w sp = Some sp' \<and> relayered sp sp'"
      by (rule update_layer_some [of "heap sp"])
        (use ok stacking_ready_ok [OF ready] in \<open>simp_all add: order_ok_def\<close>)
    then show ?thesis using Call_Update_Layer pos con by (auto simp: relayered_def ordered_def)
  next
    case Call_Update_Order
    show ?thesis
    proof (cases "block_stacking_updates sp = 0")
      case True
      with update_ready(1) [OF ready] obtain sp' where "update_order sp = Some sp'" "alike sp' sp"
        "constrained sp'" "pre_stack sp' = pre_stack sp" by blast
      then show ?thesis using Call_Update_Order pos update_order_depth
        by (auto intro!: alike_ordered [OF ok])
    qed (use Call_Update_Order pos self in \<open>simp add: update_order_def\<close>)
  next
    case Call_Update_Count
    show ?thesis
    proof (cases "block_stacking_updates sp = 0")
      case True
      with update_ready(2) [OF ready] obtain sp' where "update_count sp = Some sp'" "alike sp' sp"
        "constrained sp'" "pre_stack sp' = pre_stack sp" by blast
      then show ?thesis using Call_Update_Count pos update_count_depth
        by (auto intro!: alike_ordered [OF ok])
    next
      case False
      have "ordered sp (sp\<lparr>blocked_propagating_new_clients := True\<rparr>)"
        by (rule alike_ordered [OF ok same_heap_alike]) (use pos False in simp_all)
      with False pos Call_Update_Count show ?thesis by (simp add: update_count_def)
    qed
  next
    case Call_Force
    let ?s = "stacking_lock (sp\<lparr>restacking_required := True\<rparr>)"
    have a: "alike ?s sp" "pre_stack ?s = pre_stack sp"
      by (auto simp: stacking_lock_def Let_def intro: same_heap_alike)
    have b: "0 < block_stacking_updates ?s" using pos by (simp add: order_lock.lock_depth)
    have r: "stacking_ready ?s" using stacking_ready_change [OF a(1)] a(2) ready by simp
    obtain sp' where s: "stacking_unlock ?s = Some sp'" "ordered ?s sp'"
      by (rule unlock_ordered [OF r b])
    have "ordered sp sp'" using s(2) a alike_kin [OF a(1)] unfolding ordered_def by (auto intro: kin_trans)
    with s(1) Call_Force show ?thesis by (simp add: force_restacking_def)
  qed
qed

text \<open>The spaces reached from a space by admissible calls.\<close>

inductive reached :: "space \<Rightarrow> space \<Rightarrow> bool" where
  reached_start: "reached sp sp"
| reached_call: "reached sp sp1 \<Longrightarrow> admissible sp1 c \<Longrightarrow> perform c sp1 = Some sp2 \<Longrightarrow> reached sp sp2"

lemma reached_order_ok: "reached sp sp' \<Longrightarrow> order_ok sp \<Longrightarrow> order_ok sp'"
proof (induction rule: reached.induct)
  case (reached_call sp sp1 c sp2)
  from perform_ordered [OF _ reached_call.hyps(2)] reached_call have "ordered sp1 sp2" by auto
  then show ?case using reached_call ordered_ok by blast
qed

lemma reached_pre_stack: "reached sp sp' \<Longrightarrow> order_ok sp \<Longrightarrow> mset (pre_stack sp') = mset (pre_stack sp)"
proof (induction rule: reached.induct)
  case (reached_call sp sp1 c sp2)
  have "order_ok sp1" using reached_call.hyps(1) reached_call.prems by (rule reached_order_ok)
  from perform_ordered [OF this reached_call.hyps(2)] reached_call show ?case by (auto simp: ordered_def)
qed simp

end
