(* ===== verification/Stacking_Theorems.thy ===== *)
theory Stacking_Theorems
  imports Stacking_Progress
begin

text \<open>
  The properties of the stacking order: what the sorting achieves, where raised, lowered and
  restacked windows end up, that the operations return, and that changes are batched.
\<close>

section \<open>A space ready for sorting\<close>

lemma small_window_types:
  "win_control (small_heap w) = Some plain_control" "window_type (small_heap w) = wt_normal"
  "win_class (small_heap w) = X11_Window" "topo_layer (small_heap w) = layer_unknown"
  "win_remnant (small_heap w) = None" "annexed (small_heap w) = False"
  by (simp_all add: small_heap_def)

lemma small_belong: "belong_to_layer small_space w = Some layer_normal"
proof -
  have "is_active_fullscreen small_space w = Some False"
    by (simp add: is_active_fullscreen_def small_window_types plain_control_def)
  moreover have "showing_desktop small_space = False" by (simp add: small_space_def)
  ultimately show ?thesis
    by (simp add: belong_to_layer_def small_window_types type_defs is_popup_def plain_control_def)
qed

lemma small_space_ready: "stacking_ready small_space"
proof -
  have "base_layer small_space w \<noteq> None" for w by (simp add: base_layer_def small_belong)
  moreover have "forest small_space" by (simp add: forest_def small_heap_def)
  moreover have "pre_stack_closed small_space"
    by (simp add: pre_stack_closed_def small_space_def small_heap_def)
  ultimately show ?thesis using small_heap_ok by (simp add: stacking_ready_def layers_known_def)
qed

lemma small_ancestors: "(2, l) \<in> (lead_rel small_heap)\<^sup>+ \<longleftrightarrow> l = 1"
proof -
  have "(x, y) \<in> {(2, 1)}\<^sup>+ \<Longrightarrow> (x, y) = (2, 1)" for x y :: nat
    by (induction rule: trancl_induct) auto
  then show ?thesis by (auto simp: small_heap_rel)
qed

lemma small_space_pre [simp]: "pre_stack small_space = [1, 2, 3]" "block_stacking_updates small_space = 0"
  "stack small_space = []" "space_signals small_space = []" "\<not> restacking_required small_space"
  by (simp_all add: small_space_def plain_space_def)

section \<open>The properties\<close>

text \<open>C10. Sorting. In a space ready for sorting the sorting returns. The new stack consists of the
  windows of the unconstrained order, each once; a window that has to be right above one of its
  leads comes after that lead; the windows no lead pulls up are in the order of the layers and, within
  a layer, as in the unconstrained order. The result says whether the stack changed.\<close>

theorem stacking_sort_constrains:
  assumes "stacking_ready sp"
  shows "\<exists>sp' changed. stacking_sort sp = Some (sp', changed)
    \<and> pre_stack sp' = pre_stack sp \<and> (changed \<longleftrightarrow> stack sp' \<noteq> stack sp)
    \<and> distinct (stack sp') \<and> set (stack sp') = set (pre_stack sp)
    \<and> (\<forall>c\<in>set (stack sp'). \<forall>l\<in>set (leads (win sp c)). pulled sp l c \<longrightarrow> before (stack sp') l c)
    \<and> filter (stack_root sp) (stack sp') = filter (stack_root sp) (layer_order sp)"
proof -
  obtain sp' changed where s: "stacking_sort sp = Some (sp', changed)" "alike sp' sp" "constrained sp'"
    by (rule stacking_sort_ready [OF assms])
  note ok = stacking_ready_ok [OF assms] and p = stacking_sort_fields(2) [OF s(1)]
  have c: "distinct (stack sp')" "set (stack sp') = set (pre_stack sp)" "leads_first sp (stack sp')"
    "filter (stack_root sp) (stack sp') = filter (stack_root sp) (layer_order sp)"
    using s(3) unfolding constrained_def leads_first_def alike_pull_rel [OF s(2) ok]
      alike_stack_root [OF s(2) ok] alike_layer_order [OF s(2) ok p] p by blast+
  have closed: "pre_stack_closed sp" using assms by (simp add: stacking_ready_def)
  have "before (stack sp') l c"
    if "c \<in> set (stack sp')" "l \<in> set (leads (win sp c))" "pulled sp l c" for l c
  proof -
    have "(c, l) \<in> pull_rel sp" using that by (simp add: pull_rel_def)
    moreover have "l \<in> set (stack sp')" using that(1,2) c(2) closed by (auto simp: pre_stack_closed_def)
    ultimately show ?thesis using c(3) that(1) by (auto simp: leads_first_def)
  qed
  then show ?thesis using s(1) p c stacking_sort_frame(2) [OF s(1)] by blast
qed

theorem stacking_sort_constrains_witness:
  "\<exists>sp'. stacking_sort small_space = Some (sp', True) \<and> distinct (stack sp')
    \<and> set (stack sp') = {1, 2, 3} \<and> before (stack sp') 1 2"
proof -
  obtain sp' changed where s: "stacking_sort small_space = Some (sp', changed)"
    "changed \<longleftrightarrow> stack sp' \<noteq> []" "distinct (stack sp')" "set (stack sp') = {1, 2, 3}"
    "\<forall>c\<in>set (stack sp'). \<forall>l\<in>set (leads (win small_space c)). pulled small_space l c
       \<longrightarrow> before (stack sp') l c"
    using stacking_sort_constrains [OF small_space_ready] by auto
  have "layer_of small_space 1 = layer_normal" "layer_of small_space 2 = layer_normal"
    by (simp_all add: layer_of_def layer_value.simps base_layer_def small_belong small_window_types)
  then have "pulled small_space 1 2"
    by (simp add: pulled_def keep_transient_above_def small_window_types type_defs)
  then have "before (stack sp') 1 2" using s(4,5) by (simp add: small_heap_def)
  moreover have "changed" using s(2,4) by auto
  ultimately show ?thesis using s by auto
qed

text \<open>C3. Raising. In a space ready for sorting, raising a window that is in the unconstrained order
  returns. The window is the topmost one of the unconstrained order afterwards, right below it are
  all its direct and indirect leads that have a control, and the order of all other windows
  is unchanged. If the order was not locked, the stack has then been sorted by the constraints.\<close>

theorem raise_window_on_top:
  assumes "stacking_ready sp" "w \<in> set (pre_stack sp)" "win_control (win sp w) \<noteq> None"
    and "0 \<le> block_stacking_updates sp"
  shows "\<exists>sp' ls. raise_window (Some w) sp = Some sp' \<and> stacking_ready sp'
    \<and> pre_stack sp' = [x \<leftarrow> pre_stack sp. x \<notin> insert w (set ls)] @ ls @ [w]
    \<and> distinct ls
    \<and> set ls = {l. (w, l) \<in> (lead_rel (heap sp))\<^sup>+ \<and> win_control (win sp l) \<noteq> None}
    \<and> (block_stacking_updates sp = 0 \<longrightarrow> constrained sp')"
  using raise_window_some [OF assms] by blast

theorem raise_window_on_top_witness:
  "\<exists>sp'. raise_window (Some 2) small_space = Some sp' \<and> pre_stack sp' = [3, 1, 2] \<and> constrained sp'"
proof -
  have c: "2 \<in> set (pre_stack small_space)" "win_control (win small_space 2) \<noteq> None"
    "0 \<le> block_stacking_updates small_space" by (simp_all add: small_window_types)
  have up: "{l. (2, l) \<in> (lead_rel (heap small_space))\<^sup>+ \<and> win_control (win small_space l) \<noteq> None} = {1}"
    by (auto simp: small_window_types small_ancestors)
  obtain sp' ls where s: "raise_window (Some 2) small_space = Some sp'"
    "pre_stack sp' = [x \<leftarrow> pre_stack small_space. x \<notin> insert 2 (set ls)] @ ls @ [2]" "distinct ls"
    "set ls = {1}" "constrained sp'"
    using raise_window_on_top [OF small_space_ready c] unfolding up by auto
  then have "ls = [1]" by (cases ls; cases "tl ls") auto
  with s show ?thesis by simp
qed

text \<open>Lowering. In a space ready for sorting, lowering a window that is in the unconstrained order
  returns. At the bottom of the unconstrained order are afterwards the windows that are lowered with
  it, the window itself being the topmost of them, and the order of all other windows is unchanged. If
  the order was not locked, the stack has then been sorted by the constraints.\<close>

theorem lower_window_to_bottom:
  assumes "stacking_ready sp" "w \<in> set (pre_stack sp)" "0 \<le> block_stacking_updates sp"
    and "\<forall>x\<in>insert w (lowered_with sp w). win_control (win sp x) \<noteq> None"
  shows "\<exists>sp' fs. lower_window w sp = Some sp' \<and> stacking_ready sp'
    \<and> pre_stack sp' = fs @ w # [x \<leftarrow> pre_stack sp. x \<notin> insert w (set fs)]
    \<and> distinct fs \<and> set fs = lowered_with sp w - {w}
    \<and> (block_stacking_updates sp = 0 \<longrightarrow> constrained sp')"
  using lower_window_some [OF assms] by blast

theorem lower_window_to_bottom_witness:
  "\<exists>sp'. lower_window 3 small_space = Some sp' \<and> pre_stack sp' = [3, 1, 2] \<and> constrained sp'"
proof -
  have l: "lowered_with small_space 3 = {3}" by (simp add: lowered_with_def small_heap_def)
  obtain sp' fs where s: "lower_window 3 small_space = Some sp'"
    "pre_stack sp' = fs @ 3 # [x \<leftarrow> [1, 2, 3]. x \<notin> insert 3 (set fs)]"
    "set fs = lowered_with small_space 3 - {3}" "constrained sp'"
    using lower_window_to_bottom [OF small_space_ready, of 3] by (auto simp: small_window_types l)
  then show ?thesis using l by simp
qed

text \<open>C20. Restacking. In a space ready for sorting, putting a window of the unconstrained order below
  another one returns. It is put right below the other window if that is forced or both belong to the
  same client; otherwise right below the topmost window of the other window's client that has the
  same class, a control and the layer of the moved window, and below the other window itself if there
  is none. The order of all other windows is unchanged.\<close>

theorem restack_position:
  assumes "stacking_ready sp" "clients_known sp" "w \<in> set (pre_stack sp)" "und \<in> set (pre_stack sp)"
    and "w \<noteq> und" "0 \<le> block_stacking_updates sp"
  shows "\<exists>sp' u below above. restack w und force sp = Some sp'
    \<and> pre_stack sp' = below @ w # u # above \<and> [x \<leftarrow> pre_stack sp. x \<noteq> w] = below @ u # above
    \<and> (if force \<or> same_client sp und w = Some True then u = und
       else u = und \<and> (\<forall>x\<in>set (pre_stack sp). \<not> restack_target sp w und x)
         \<or> restack_target sp w und u \<and> (\<forall>x\<in>set above. \<not> restack_target sp w und x))
    \<and> (block_stacking_updates sp = 0 \<longrightarrow> constrained sp')"
proof -
  let ?u = "restack_below sp w und force" and ?P = "restack_target sp w und"
  obtain sp' below above where s: "restack w und force sp = Some sp'"
    "pre_stack sp' = below @ w # ?u # above" "[x \<leftarrow> pre_stack sp. x \<noteq> w] = below @ ?u # above"
    "block_stacking_updates sp = 0 \<longrightarrow> constrained sp'"
    using restack_some [OF assms] by blast
  have d: "distinct (below @ ?u # above)"
    using assms(1) s(3) [symmetric] by (simp add: stacking_ready_def pre_stack_closed_def)
  have "if force \<or> same_client sp und w = Some True then ?u = und
      else ?u = und \<and> (\<forall>x\<in>set (pre_stack sp). \<not> ?P x) \<or> ?P ?u \<and> (\<forall>x\<in>set above. \<not> ?P x)"
  proof (cases "force \<or> same_client sp und w = Some True")
    case False
    note f = this
    show ?thesis
    proof (cases "List.find ?P (rev (pre_stack sp))")
      case None
      then have "\<forall>x\<in>set (pre_stack sp). \<not> ?P x" by (simp add: find_None_iff)
      then show ?thesis using f None by (simp add: restack_below_def)
    next
      case (Some x)
      then have u: "?u = x" using f by (simp add: restack_below_def)
      obtain older newer where on: "pre_stack sp = older @ x # newer" "?P x" "\<forall>v\<in>set newer. \<not> ?P v"
        using find_rev_Some [OF Some] by blast
      have "x \<noteq> w" using restack_below_other [OF assms(5,4), of force] u by simp
      then have e: "below @ x # above = [x \<leftarrow> older. x \<noteq> w] @ x # [x \<leftarrow> newer. x \<noteq> w]"
        using s(3) on(1) u by simp
      have "distinct (below @ x # above)" using d unfolding u .
      then have n: "x \<notin> set below" "x \<notin> set above" by simp_all
      have "above = [x \<leftarrow> newer. x \<noteq> w]" using e unfolding append_Cons_eq_iff [OF n] by blast
      then show ?thesis using on u f by simp
    qed
  qed (simp add: restack_below_def)
  then show ?thesis using s by blast
qed

theorem restack_position_witness:
  "\<exists>sp'. restack 1 3 True small_space = Some sp' \<and> pre_stack sp' = [2, 1, 3]"
proof -
  have k: "clients_known small_space"
    using small_heap_ok by (simp add: clients_known_def small_window_types)
  have c: "1 \<in> set (pre_stack small_space)" "3 \<in> set (pre_stack small_space)" "(1::wid) \<noteq> 3"
    "0 \<le> block_stacking_updates small_space" by simp_all
  obtain sp' u below above where s: "restack 1 3 True small_space = Some sp'"
    "pre_stack sp' = below @ 1 # u # above" "[x \<leftarrow> pre_stack small_space. x \<noteq> 1] = below @ u # above" "u = 3"
    using restack_position [OF small_space_ready k c, of True] by (simp only: simp_thms if_True) blast
  have "[2, 3] = below @ 3 # above" using s(3,4) by simp
  then have "below = [2] \<and> above = []" by (auto simp: Cons_eq_append_conv)
  then show ?thesis using s by simp
qed

text \<open>A space with the lock taken that satisfies the invariant.\<close>

lemma locked_small_ok: "order_ok (stacking_lock small_space)"
proof -
  have a: "alike (stacking_lock small_space) small_space" by (rule stacking_lock_alike)
  have "clients_known small_space" using small_heap_ok by (simp add: clients_known_def small_window_types)
  moreover have "layers_computable small_space" by (simp add: layers_computable_def small_belong)
  ultimately show ?thesis
    using small_space_ready stacking_ready_change [OF a]
    by (simp add: order_ok_def stacking_lock_alike alike_clients [OF a] kin_computable [OF alike_kin [OF a]]
        order_lock.lock_depth)
qed




text \<open>C11. No call gets stuck. In every space reached by admissible calls every admissible call returns,
  in a space that again satisfies the invariant.\<close>

theorem admissible_calls_return:
  assumes "order_ok sp" "reached sp sp'" "admissible sp' call"
  shows "\<exists>sp''. perform call sp' = Some sp'' \<and> order_ok sp''"
proof -
  have ok: "order_ok sp'" by (rule reached_order_ok [OF assms(2,1)])
  from perform_ordered [OF ok assms(3)] ordered_ok [OF ok] show ?thesis by blast
qed

theorem admissible_calls_return_witness:
  "\<exists>sp'. perform (Call_Restack 1 3 False) (stacking_lock small_space) = Some sp' \<and> order_ok sp'"
proof -
  have "admissible (stacking_lock small_space) (Call_Restack 1 3 False)" by (simp add: stacking_lock_alike)
  from admissible_calls_return [OF locked_small_ok reached_start this] show ?thesis .
qed

text \<open>C2. Changes of the order are batched. Between the outermost lock and the matching unlock,
  whatever is raised, lowered, restacked, locked and unlocked in between, the stack stays as it was and
  no signal is emitted. The outermost unlock then emits the change once, saying that the number of
  windows changed exactly if an update of the count was asked for meanwhile, and saying nothing if
  the order is the same and no restacking was forced; unlocked comes last.\<close>

theorem held_changes_are_batched:
  assumes "block_stacking_updates sp = 0" "held (stacking_lock sp) calls sp1"
    and "block_stacking_updates sp1 = 1" "stacking_unlock sp1 = Some sp2"
  shows "stack sp1 = stack sp \<and> space_signals sp1 = space_signals sp
    \<and> space_signals sp2 = space_signals sp
      @ (if Call_Update_Count \<in> set calls then [Stacking_Changed True]
         else if stack sp2 \<noteq> stack sp \<or> restacking_required sp \<or> Call_Force \<in> set calls
         then [Stacking_Changed False] else [])
      @ [Stacking_Unlocked]"
proof -
  have l: "stack (stacking_lock sp) = stack sp" "space_signals (stacking_lock sp) = space_signals sp"
    "\<not> blocked_propagating_new_clients (stacking_lock sp)"
    "restacking_required (stacking_lock sp) = restacking_required sp"
    using assms(1) by (simp_all add: stacking_lock_def)
  note v = held_view [OF assms(2), unfolded l]
  show ?thesis
    unfolding final_unlock_signals [OF assms(4,3)] using v l(3) by (simp del: append.simps)
qed

theorem held_changes_are_batched_witness:
  "\<exists>sp1 sp2. held (stacking_lock small_space) [Call_Raise (Some 2), Call_Update_Count] sp1
    \<and> stacking_unlock sp1 = Some sp2 \<and> stack sp1 = []
    \<and> space_signals sp2 = [Stacking_Changed True, Stacking_Unlocked]"
proof -
  have i: "in_order (stacking_lock small_space) 2"
    using alike_fields(11) [OF stacking_lock_alike(1), of small_space 2]
    by (simp add: in_order_def stacking_lock_alike small_window_types)
  obtain s1 where s1: "raise_window (Some 2) (stacking_lock small_space) = Some s1"
    "ordered (stacking_lock small_space) s1"
    "block_stacking_updates s1 = block_stacking_updates (stacking_lock small_space)"
    by (rule raise_ordered [OF locked_small_ok i])
  define s2 where "s2 = s1\<lparr>blocked_propagating_new_clients := True\<rparr>"
  have b: "block_stacking_updates s1 = 1" "block_stacking_updates s2 = 1"
    using s1(3) by (simp_all add: order_lock.lock_depth s2_def)
  have h: "held (stacking_lock small_space) [Call_Raise (Some 2), Call_Update_Count] s2"
    using s1(1) b by (simp add: held_Cons_iff update_count_def order_lock.lock_depth s2_def)
  have a: "alike s2 s1" by (rule same_heap_alike) (simp_all add: s2_def)
  have "stacking_ready s1" using ordered_ok [OF locked_small_ok s1(2)] by (simp add: order_ok_def)
  then have r: "stacking_ready s2" using stacking_ready_change [OF a] by (simp add: s2_def)
  obtain s3 where s3: "stacking_unlock s2 = Some s3" by (rule unlock_ordered [OF r]) (use b in simp_all)
  have "block_stacking_updates small_space = 0" by simp
  from held_changes_are_batched [OF this h b(2) s3] show ?thesis using h s3 by auto
qed

section \<open>Windows with two leads\<close>

text \<open>A window 5 with two group transients 6 and 7, the second of which has both others as leads, as
  update_group makes it.\<close>

definition grouped_heap :: "wid \<Rightarrow> window" where
  "grouped_heap = (\<lambda>w. plain_window\<lparr>topo_layer := layer_normal\<rparr>)
     (5 := plain_window\<lparr>topo_layer := layer_normal, children := [6, 7]\<rparr>,
      6 := plain_window\<lparr>topo_layer := layer_normal, lead_id := 99, leads := [5], children := [7]\<rparr>,
      7 := plain_window\<lparr>topo_layer := layer_normal, lead_id := 99, leads := [5, 6]\<rparr>)"

lemma grouped_window:
  "topo_layer (grouped_heap w) = layer_normal" "annexed (grouped_heap w) = False"
  "win_remnant (grouped_heap w) = None" "window_type (grouped_heap w) = wt_normal"
  "central_output (grouped_heap w) = Some 0"
  "leads (grouped_heap 5) = []" "leads (grouped_heap 6) = [5]" "leads (grouped_heap 7) = [5, 6]"
  "children (grouped_heap 5) = [6, 7]" "children (grouped_heap 6) = [7]" "children (grouped_heap 7) = []"
  by (simp_all add: grouped_heap_def)

lemma grouped_layer: "heap sp = grouped_heap \<Longrightarrow> get_layer w sp = Some (sp, layer_normal)"
  by (subst get_layer.simps) (simp add: grouped_window)

lemma grouped_restack: "heap sp = grouped_heap \<Longrightarrow> needs_child_restack l c sp = Some (sp, True)"
  by (simp add: needs_child_restack_def grouped_layer grouped_window keep_transient_above_def type_defs)

lemma grouped_append:
  assumes "heap sp = grouped_heap" "stack sp = []"
  shows "append_children 7 xs sp = Some (sp, xs)"
    "append_children 6 xs sp = Some (sp, remove_all xs 7 @ [7])"
    "append_children 5 xs sp = Some (sp, remove_all (remove_all xs 6) 7 @ [6, 7, 7])"
proof -
  have a: "append_children 7 xs sp = Some (sp, xs)" for xs
    by (subst append_children.simps) (simp add: assms(1) grouped_window)
  have b: "append_children 6 xs sp = Some (sp, remove_all xs 7 @ [7])" for xs
    by (subst append_children.simps)
      (simp add: assms grouped_window a grouped_restack ensure_stacking_order_in_list_def Let_def)
  have c: "append_children 5 xs sp = Some (sp, remove_all (remove_all xs 6) 7 @ [6, 7, 7])" for xs
    by (subst append_children.simps)
      (simp add: assms grouped_window a b grouped_restack ensure_stacking_order_in_list_def Let_def
        remove_all_def)
  show "append_children 7 xs sp = Some (sp, xs)"
    "append_children 6 xs sp = Some (sp, remove_all xs 7 @ [7])"
    "append_children 5 xs sp = Some (sp, remove_all (remove_all xs 6) 7 @ [6, 7, 7])" by (rule a b c)+
qed

lemma grouped_top: "get_top_lead grouped_heap 5 = Some 5" "get_top_lead grouped_heap 6 = Some 5"
  "get_top_lead grouped_heap 7 = Some 5"
  by (simp_all add: get_top_lead.simps lead_def grouped_window)

text \<open>A window with two leads, one of which is itself pulled above the other, is stacked twice: the
  second append takes the window out of the caller's list, not out of the list it is in.\<close>

theorem two_leads_stack_twice:
  "map_option (stack \<circ> fst) (stacking_sort (plain_space grouped_heap [5, 6, 7])) = Some [5, 6, 7, 7]"
proof -
  let ?sp = "plain_space grouped_heap [5, 6, 7]"
  have h: "heap ?sp = grouped_heap" "stack ?sp = []" by simp_all
  have e: "effective_layer w (?sp, tab) = Some (?sp, tab((Some 0, 5) \<mapsto> layer_normal), layer_normal)"
    if "w \<in> {5, 6, 7}" "tab (Some 0, 5) \<in> {None, Some layer_normal}" for w tab
    using that by (auto simp: effective_layer_def grouped_layer [OF h(1)] grouped_top grouped_window Let_def)
  have l: "ofold layer_buckets [5, 6, 7] (?sp, (\<lambda>k. None), (\<lambda>i. []))
      = Some (?sp, (\<lambda>k. None)((Some 0, 5) \<mapsto> layer_normal), (\<lambda>i. [])(2 := [5, 6, 7]))"
    by (simp add: layer_buckets_def e layer_first_def layer_count_def fun_upd_def)
      (auto simp: fun_eq_iff)
  have s: "sort_windows_by_layer [5, 6, 7] ?sp = Some (?sp, [5, 6, 7])"
    unfolding sort_windows_by_layer_def l by (simp add: layer_first_def layer_count_def upto.simps)
  have "ofold sort_window [5, 6, 7] (?sp, []) = Some (?sp, [5, 6, 7, 7])"
    by (simp add: sort_window_def grouped_window grouped_restack grouped_append [OF h] remove_all_def)
  then show ?thesis using s by (simp add: stacking_sort_def)
qed

end
