(* ===== verification/Rules.thy ===== *)
theory Rules
  imports Windows
begin

text \<open>
  Window rules: como/win/rules, the classes ruling (one rule of the user: what it matches and what
  it sets) and window (the rules that match a window, in the order of the book).

  Every attribute of a rule has data and an action; set_rule and force_rule are the integers they
  are cast from. The settings object is generated from kconfig/rules_settings.kcfg: a store of one
  value per entry, with the defaults of that file. Bytes and strings are both \<open>string\<close>; what Qt
  does with them (toLower, the conversions, regular expressions, QFileInfo, QStandardPaths) is the
  parameter \<open>qt\<close>. A point and a size are pairs of int.
\<close>

section \<open>Types (rules/types.h)\<close>

datatype rule_action =
  action_unused | action_dont_affect | action_force | action_apply | action_remember
  | action_apply_now | action_force_temporarily

fun action_index :: "rule_action \<Rightarrow> int" where
  "action_index action_unused = 0"
| "action_index action_dont_affect = 1"
| "action_index action_force = 2"
| "action_index action_apply = 3"
| "action_index action_remember = 4"
| "action_index action_apply_now = 5"
| "action_index action_force_temporarily = 6"

text \<open>set_rule::unused and force_rule::unused.\<close>

abbreviation rule_unused :: int where "rule_unused \<equiv> 0"

definition name_match_unimportant :: int where "name_match_unimportant = 0"
definition name_match_exact :: int where "name_match_exact = 1"
definition name_match_substring :: int where "name_match_substring = 2"
definition name_match_regex :: int where "name_match_regex = 3"

lemmas name_match_defs = name_match_unimportant_def name_match_exact_def name_match_substring_def
  name_match_regex_def

text \<open>The enumeration rules::type, a set of flags that select attributes.\<close>

definition rtype_position :: flag where "rtype_position = push_bit 0 1"
definition rtype_size :: flag where "rtype_size = push_bit 1 1"
definition rtype_desktops :: flag where "rtype_desktops = push_bit 2 1"
definition rtype_maximize_vert :: flag where "rtype_maximize_vert = push_bit 3 1"
definition rtype_maximize_horiz :: flag where "rtype_maximize_horiz = push_bit 4 1"
definition rtype_minimize :: flag where "rtype_minimize = push_bit 5 1"
definition rtype_skip_taskbar :: flag where "rtype_skip_taskbar = push_bit 7 1"
definition rtype_skip_pager :: flag where "rtype_skip_pager = push_bit 8 1"
definition rtype_skip_switcher :: flag where "rtype_skip_switcher = push_bit 9 1"
definition rtype_above :: flag where "rtype_above = push_bit 10 1"
definition rtype_below :: flag where "rtype_below = push_bit 11 1"
definition rtype_fullscreen :: flag where "rtype_fullscreen = push_bit 12 1"
definition rtype_no_border :: flag where "rtype_no_border = push_bit 13 1"
definition rtype_screen :: flag where "rtype_screen = push_bit 17 1"
definition rtype_desktop_file :: flag where "rtype_desktop_file = push_bit 18 1"
definition rtype_all :: flag where "rtype_all = 0xffffffff"

section \<open>The records (ruling.h)\<close>

record 'a set_ruler =
  set_data :: 'a
  set_rule :: int

record 'a force_ruler =
  force_data :: 'a
  force_rule :: int

record name_matching =
  match_data :: string
  match_kind :: int

type_synonym qpoint = "int \<times> int"
type_synonym qsize = "int \<times> int"

record qrect =
  rect_pos :: qpoint
  rect_size :: qsize

definition invalid_point :: qpoint where
  "invalid_point = (- 2147483648, - 2147483648)"

definition size_is_empty :: "qsize \<Rightarrow> bool" where
  "size_is_empty s \<longleftrightarrow> fst s < 1 \<or> snd s < 1"

definition size_is_valid :: "qsize \<Rightarrow> bool" where
  "size_is_valid s \<longleftrightarrow> fst s \<ge> 0 \<and> snd s \<ge> 0"

text \<open>The attributes of a ruling, in three groups: what it matches, the set rulers and the force
  rulers.\<close>

record rule_matching =
  wmclass :: name_matching
  windowrole :: name_matching
  clientmachine :: name_matching
  match_title :: name_matching
  wmclasscomplete :: bool
  match_types :: flag

record rule_sets =
  set_above :: "bool set_ruler"
  set_below :: "bool set_ruler"
  set_ignoregeometry :: "bool set_ruler"
  set_desktops :: "string list set_ruler"
  set_desktopfile :: "string set_ruler"
  set_fullscreen :: "bool set_ruler"
  set_maximizehoriz :: "bool set_ruler"
  set_maximizevert :: "bool set_ruler"
  set_minimize :: "bool set_ruler"
  set_noborder :: "bool set_ruler"
  set_position :: "qpoint set_ruler"
  set_screen :: "int set_ruler"
  set_shortcut :: "string set_ruler"
  set_size :: "qsize set_ruler"
  set_skippager :: "bool set_ruler"
  set_skipswitcher :: "bool set_ruler"
  set_skiptaskbar :: "bool set_ruler"

record rule_forces =
  force_acceptfocus :: "bool force_ruler"
  force_autogroup :: "bool force_ruler"
  force_autogroupfg :: "bool force_ruler"
  force_autogroupid :: "string force_ruler"
  force_blockcompositing :: "bool force_ruler"
  force_closeable :: "bool force_ruler"
  force_decocolor :: "string force_ruler"
  force_disableglobalshortcuts :: "bool force_ruler"
  force_fpplevel :: "int force_ruler"
  force_fsplevel :: "int force_ruler"
  force_maxsize :: "qsize force_ruler"
  force_minsize :: "qsize force_ruler"
  force_opacityactive :: "int force_ruler"
  force_opacityinactive :: "int force_ruler"
  force_placement :: "int force_ruler"
  force_strictgeometry :: "bool force_ruler"
  force_type :: "win_type force_ruler"

record ruling =
  description :: string
  matching :: rule_matching
  sets :: rule_sets
  forces :: rule_forces

section \<open>What Qt does\<close>

record qt =
  to_lower :: "string \<Rightarrow> string"
  to_latin1 :: "string \<Rightarrow> string"
  from_utf8 :: "string \<Rightarrow> string"
  regex_has_match :: "string \<Rightarrow> string \<Rightarrow> bool"
  locate_color_scheme :: "string \<Rightarrow> string"
  base_name :: "string \<Rightarrow> string"

section \<open>The settings\<close>

text \<open>One pair of data and match kind, or of data and rule, for each pair of entries; the legacy key
  of the description is an entry of its own.\<close>

record setting_matching =
  s_wmclass :: "string \<times> int"
  s_windowrole :: "string \<times> int"
  s_clientmachine :: "string \<times> int"
  s_title :: "string \<times> int"
  s_wmclasscomplete :: bool
  s_types :: flag

record setting_sets =
  s_above :: "bool \<times> int"
  s_below :: "bool \<times> int"
  s_ignoregeometry :: "bool \<times> int"
  s_desktops :: "string list \<times> int"
  s_desktopfile :: "string \<times> int"
  s_fullscreen :: "bool \<times> int"
  s_maximizehoriz :: "bool \<times> int"
  s_maximizevert :: "bool \<times> int"
  s_minimize :: "bool \<times> int"
  s_noborder :: "bool \<times> int"
  s_position :: "qpoint \<times> int"
  s_screen :: "int \<times> int"
  s_shortcut :: "string \<times> int"
  s_size :: "qsize \<times> int"
  s_skippager :: "bool \<times> int"
  s_skipswitcher :: "bool \<times> int"
  s_skiptaskbar :: "bool \<times> int"

record setting_forces =
  s_acceptfocus :: "bool \<times> int"
  s_autogroup :: "bool \<times> int"
  s_autogroupfg :: "bool \<times> int"
  s_autogroupid :: "string \<times> int"
  s_blockcompositing :: "bool \<times> int"
  s_closeable :: "bool \<times> int"
  s_decocolor :: "string \<times> int"
  s_disableglobalshortcuts :: "bool \<times> int"
  s_fpplevel :: "int \<times> int"
  s_fsplevel :: "int \<times> int"
  s_maxsize :: "qsize \<times> int"
  s_minsize :: "qsize \<times> int"
  s_opacityactive :: "int \<times> int"
  s_opacityinactive :: "int \<times> int"
  s_placement :: "int \<times> int"
  s_strictgeometry :: "bool \<times> int"
  s_type :: "int \<times> int"

record rule_settings =
  s_description :: string
  s_description_legacy :: string
  s_matching :: setting_matching
  s_sets :: setting_sets
  s_forces :: setting_forces

text \<open>setDefaults(): the defaults of the schema.\<close>

definition default_matching :: setting_matching where
  "default_matching =
     \<lparr>s_wmclass = ([], name_match_unimportant), s_windowrole = ([], name_match_unimportant),
      s_clientmachine = ([], name_match_unimportant), s_title = ([], name_match_unimportant),
      s_wmclasscomplete = False, s_types = mask_all_types\<rparr>"

definition default_sets :: setting_sets where
  "default_sets =
     \<lparr>s_above = (False, 0), s_below = (False, 0), s_ignoregeometry = (False, 0),
      s_desktops = ([], 0), s_desktopfile = ([], 0), s_fullscreen = (False, 0),
      s_maximizehoriz = (False, 0), s_maximizevert = (False, 0), s_minimize = (False, 0),
      s_noborder = (False, 0), s_position = (invalid_point, 0), s_screen = (0, 0),
      s_shortcut = ([], 0), s_size = ((-1, -1), 0), s_skippager = (False, 0),
      s_skipswitcher = (False, 0), s_skiptaskbar = (False, 0)\<rparr>"

definition default_forces :: setting_forces where
  "default_forces =
     \<lparr>s_acceptfocus = (False, 0), s_autogroup = (False, 0), s_autogroupfg = (True, 0),
      s_autogroupid = ([], 0), s_blockcompositing = (False, 0), s_closeable = (False, 0),
      s_decocolor = ([], 0), s_disableglobalshortcuts = (False, 0), s_fpplevel = (0, 0),
      s_fsplevel = (0, 0), s_maxsize = ((-1, -1), 0), s_minsize = ((-1, -1), 0),
      s_opacityactive = (100, 0), s_opacityinactive = (100, 0),
      s_placement = (placement_index placement_smart, 0), s_strictgeometry = (False, 0),
      s_type = (win_type_index wt_unknown, 0)\<rparr>"

definition default_settings :: rule_settings where
  "default_settings =
     \<lparr>s_description = [], s_description_legacy = [], s_matching = default_matching,
      s_sets = default_sets, s_forces = default_forces\<rparr>"

section \<open>Reading (ruling::readFromSettings)\<close>

definition get_deco_color :: "qt \<Rightarrow> string \<Rightarrow> string" where
  "get_deco_color qt themeName = (if themeName = [] then [] else locate_color_scheme qt themeName)"

definition read_bytes_match :: "qt \<Rightarrow> string \<Rightarrow> int \<Rightarrow> name_matching" where
  "read_bytes_match qt data m = \<lparr>match_data = to_latin1 qt data, match_kind = m\<rparr>"

definition read_string_match :: "string \<Rightarrow> int \<Rightarrow> name_matching" where
  "read_string_match data m = \<lparr>match_data = data, match_kind = m\<rparr>"

definition read_set_rule :: "'a \<times> int \<Rightarrow> 'a set_ruler" where
  "read_set_rule e = \<lparr>set_data = fst e, set_rule = snd e\<rparr>"

definition read_force_rule :: "'a \<times> int \<Rightarrow> 'a force_ruler" where
  "read_force_rule e = \<lparr>force_data = fst e, force_rule = snd e\<rparr>"

definition read_matching :: "qt \<Rightarrow> setting_matching \<Rightarrow> rule_matching" where
  "read_matching qt s =
     \<lparr>wmclass = read_bytes_match qt (fst (s_wmclass s)) (snd (s_wmclass s)),
      windowrole = read_bytes_match qt (fst (s_windowrole s)) (snd (s_windowrole s)),
      clientmachine = read_bytes_match qt (to_lower qt (fst (s_clientmachine s)))
                        (snd (s_clientmachine s)),
      match_title = read_string_match (fst (s_title s)) (snd (s_title s)),
      wmclasscomplete = s_wmclasscomplete s,
      match_types = s_types s\<rparr>"

definition read_size :: "qsize \<times> int \<Rightarrow> qsize set_ruler" where
  "read_size e =
     (let r = read_set_rule e
      in if size_is_empty (set_data r) \<and> set_rule r \<noteq> action_index action_remember
         then r\<lparr>set_rule := rule_unused\<rparr> else r)"

definition read_sets :: "setting_sets \<Rightarrow> rule_sets" where
  "read_sets s =
     \<lparr>set_above = read_set_rule (s_above s), set_below = read_set_rule (s_below s),
      set_ignoregeometry = read_set_rule (s_ignoregeometry s),
      set_desktops = read_set_rule (s_desktops s),
      set_desktopfile = read_set_rule (s_desktopfile s),
      set_fullscreen = read_set_rule (s_fullscreen s),
      set_maximizehoriz = read_set_rule (s_maximizehoriz s),
      set_maximizevert = read_set_rule (s_maximizevert s),
      set_minimize = read_set_rule (s_minimize s), set_noborder = read_set_rule (s_noborder s),
      set_position = read_set_rule (s_position s), set_screen = read_set_rule (s_screen s),
      set_shortcut = read_set_rule (s_shortcut s), set_size = read_size (s_size s),
      set_skippager = read_set_rule (s_skippager s),
      set_skipswitcher = read_set_rule (s_skipswitcher s),
      set_skiptaskbar = read_set_rule (s_skiptaskbar s)\<rparr>"

definition read_decocolor :: "qt \<Rightarrow> string \<times> int \<Rightarrow> string force_ruler" where
  "read_decocolor qt e =
     (let r = read_force_rule (get_deco_color qt (fst e), snd e)
      in if force_data r = [] then r\<lparr>force_rule := rule_unused\<rparr> else r)"

definition read_maxsize :: "qsize \<times> int \<Rightarrow> qsize force_ruler" where
  "read_maxsize e =
     (let r = read_force_rule e
      in if size_is_empty (force_data r) then r\<lparr>force_data := (32767, 32767)\<rparr> else r)"

definition read_minsize :: "qsize \<times> int \<Rightarrow> qsize force_ruler" where
  "read_minsize e =
     (let r = read_force_rule e
      in if \<not> size_is_valid (force_data r) then r\<lparr>force_data := (1, 1)\<rparr> else r)"

text \<open>The cast of an integer to win_type, for the integers the enumeration names; the schema bounds
  the entry to these.\<close>

fun win_type_of_index :: "int \<Rightarrow> win_type option" where
  "win_type_of_index i =
     List.find (\<lambda>t. win_type_index t = i)
       [wt_unknown, wt_normal, wt_desktop, wt_dock, wt_toolbar, wt_menu, wt_dialog, wt_override,
        wt_top_menu, wt_utility, wt_splash, wt_dropdown_menu, wt_popup_menu, wt_tooltip,
        wt_notification, wt_combo_box, wt_dnd_icon, wt_on_screen_display,
        wt_critical_notification, wt_applet_popup]"

definition read_type :: "int \<times> int \<Rightarrow> win_type force_ruler option" where
  "read_type e =
     do {
       t \<leftarrow> win_type_of_index (fst e);
       let r = read_force_rule (t, snd e);
       Some (if force_data r = wt_unknown then r\<lparr>force_rule := rule_unused\<rparr> else r)
     }"

definition read_forces :: "qt \<Rightarrow> setting_forces \<Rightarrow> rule_forces option" where
  "read_forces qt s =
     do {
       t \<leftarrow> read_type (s_type s);
       Some \<lparr>force_acceptfocus = read_force_rule (s_acceptfocus s),
         force_autogroup = read_force_rule (s_autogroup s),
         force_autogroupfg = read_force_rule (s_autogroupfg s),
         force_autogroupid = read_force_rule (s_autogroupid s),
         force_blockcompositing = read_force_rule (s_blockcompositing s),
         force_closeable = read_force_rule (s_closeable s),
         force_decocolor = read_decocolor qt (s_decocolor s),
         force_disableglobalshortcuts = read_force_rule (s_disableglobalshortcuts s),
         force_fpplevel = read_force_rule (s_fpplevel s),
         force_fsplevel = read_force_rule (s_fsplevel s),
         force_maxsize = read_maxsize (s_maxsize s),
         force_minsize = read_minsize (s_minsize s),
         force_opacityactive = read_force_rule (s_opacityactive s),
         force_opacityinactive = read_force_rule (s_opacityinactive s),
         force_placement = read_force_rule (s_placement s),
         force_strictgeometry = read_force_rule (s_strictgeometry s),
         force_type = t\<rparr>
     }"

definition readFromSettings :: "qt \<Rightarrow> rule_settings \<Rightarrow> ruling option" where
  "readFromSettings qt s =
     do {
       f \<leftarrow> read_forces qt (s_forces s);
       Some \<lparr>description =
               (if s_description s = [] then s_description_legacy s else s_description s),
             matching = read_matching qt (s_matching s), sets = read_sets (s_sets s), forces = f\<rparr>
     }"

end
