(* ===== verification/Ruling.thy ===== *)
theory Ruling
  imports Rules
begin

text \<open>
  The operations of one rule: como/win/rules/ruling.cpp after the reading. A reference argument is
  returned beside the result, as (value, result).
\<close>

section \<open>Writing (ruling::write)\<close>

text \<open>The lambdas of write: what becomes of an entry's old pair.\<close>

definition write_string :: "string \<Rightarrow> int \<Rightarrow> bool \<Rightarrow> string \<times> int \<Rightarrow> string \<times> int" where
  "write_string str m forced e = (if str \<noteq> [] \<or> forced then str else fst e, m)"

definition write_set :: "'a set_ruler \<Rightarrow> 'a \<times> int \<Rightarrow> 'a \<times> int" where
  "write_set ruler e =
     (if set_rule ruler \<noteq> rule_unused then set_data ruler else fst e, set_rule ruler)"

definition write_force :: "'a force_ruler \<Rightarrow> 'a \<times> int \<Rightarrow> 'a \<times> int" where
  "write_force ruler e =
     (if force_rule ruler \<noteq> rule_unused then force_data ruler else fst e, force_rule ruler)"

definition convert_write_force ::
    "'a force_ruler \<Rightarrow> ('a \<Rightarrow> 'b) \<Rightarrow> 'b \<times> int \<Rightarrow> 'b \<times> int" where
  "convert_write_force ruler converter e =
     (if force_rule ruler \<noteq> rule_unused then converter (force_data ruler) else fst e,
      force_rule ruler)"

definition ends_with :: "string \<Rightarrow> string \<Rightarrow> bool" where
  "ends_with s suffix \<longleftrightarrow>
     length suffix \<le> length s \<and> drop (length s - length suffix) s = suffix"

definition color_to_string :: "qt \<Rightarrow> string \<Rightarrow> string" where
  "color_to_string qt value = (if ends_with value ''.colors'' then base_name qt value else value)"

text \<open>The bytes are converted to the string of the setter by Qt, as UTF-8; whether they are empty
  is asked before.\<close>

definition write_bytes :: "qt \<Rightarrow> name_matching \<Rightarrow> bool \<Rightarrow> string \<times> int \<Rightarrow> string \<times> int" where
  "write_bytes qt str forced e =
     (if match_data str \<noteq> [] \<or> forced then from_utf8 qt (match_data str) else fst e,
      match_kind str)"

definition write_matching :: "qt \<Rightarrow> rule_matching \<Rightarrow> setting_matching \<Rightarrow> setting_matching" where
  "write_matching qt r s =
     \<lparr>s_wmclass = write_bytes qt (wmclass r) True (s_wmclass s),
      s_windowrole = write_bytes qt (windowrole r) False (s_windowrole s),
      s_clientmachine = write_bytes qt (clientmachine r) False (s_clientmachine s),
      s_title = write_string (match_data (match_title r)) (match_kind (match_title r)) False
                  (s_title s),
      s_wmclasscomplete = wmclasscomplete r,
      s_types = match_types r\<rparr>"

definition write_sets :: "rule_sets \<Rightarrow> setting_sets \<Rightarrow> setting_sets" where
  "write_sets r s =
     \<lparr>s_above = write_set (set_above r) (s_above s),
      s_below = write_set (set_below r) (s_below s),
      s_ignoregeometry = write_set (set_ignoregeometry r) (s_ignoregeometry s),
      s_desktops = write_set (set_desktops r) (s_desktops s),
      s_desktopfile = write_set (set_desktopfile r) (s_desktopfile s),
      s_fullscreen = write_set (set_fullscreen r) (s_fullscreen s),
      s_maximizehoriz = write_set (set_maximizehoriz r) (s_maximizehoriz s),
      s_maximizevert = write_set (set_maximizevert r) (s_maximizevert s),
      s_minimize = write_set (set_minimize r) (s_minimize s),
      s_noborder = write_set (set_noborder r) (s_noborder s),
      s_position = write_set (set_position r) (s_position s),
      s_screen = write_set (set_screen r) (s_screen s),
      s_shortcut = write_set (set_shortcut r) (s_shortcut s),
      s_size = write_set (set_size r) (s_size s),
      s_skippager = write_set (set_skippager r) (s_skippager s),
      s_skipswitcher = write_set (set_skipswitcher r) (s_skipswitcher s),
      s_skiptaskbar = write_set (set_skiptaskbar r) (s_skiptaskbar s)\<rparr>"

definition write_forces :: "qt \<Rightarrow> rule_forces \<Rightarrow> setting_forces \<Rightarrow> setting_forces" where
  "write_forces qt r s =
     \<lparr>s_acceptfocus = write_force (force_acceptfocus r) (s_acceptfocus s),
      s_autogroup = write_force (force_autogroup r) (s_autogroup s),
      s_autogroupfg = write_force (force_autogroupfg r) (s_autogroupfg s),
      s_autogroupid = write_force (force_autogroupid r) (s_autogroupid s),
      s_blockcompositing = write_force (force_blockcompositing r) (s_blockcompositing s),
      s_closeable = write_force (force_closeable r) (s_closeable s),
      s_decocolor = convert_write_force (force_decocolor r) (color_to_string qt) (s_decocolor s),
      s_disableglobalshortcuts =
        write_force (force_disableglobalshortcuts r) (s_disableglobalshortcuts s),
      s_fpplevel = write_force (force_fpplevel r) (s_fpplevel s),
      s_fsplevel = write_force (force_fsplevel r) (s_fsplevel s),
      s_maxsize = write_force (force_maxsize r) (s_maxsize s),
      s_minsize = write_force (force_minsize r) (s_minsize s),
      s_opacityactive = write_force (force_opacityactive r) (s_opacityactive s),
      s_opacityinactive = write_force (force_opacityinactive r) (s_opacityinactive s),
      s_placement = write_force (force_placement r) (s_placement s),
      s_strictgeometry = write_force (force_strictgeometry r) (s_strictgeometry s),
      s_type = convert_write_force (force_type r) win_type_index (s_type s)\<rparr>"

definition ruling_write :: "qt \<Rightarrow> ruling \<Rightarrow> rule_settings \<Rightarrow> rule_settings" where
  "ruling_write qt r s =
     s\<lparr>s_description := description r,
       s_matching := write_matching qt (matching r) (s_matching s),
       s_sets := write_sets (sets r) (s_sets s),
       s_forces := write_forces qt (forces r) (s_forces s)\<rparr>"

section \<open>Empty rules and the guards\<close>

definition unused_s :: "'a set_ruler \<Rightarrow> bool" where
  "unused_s ruler \<longleftrightarrow> set_rule ruler = rule_unused"

definition unused_f :: "'a force_ruler \<Rightarrow> bool" where
  "unused_f ruler \<longleftrightarrow> force_rule ruler = rule_unused"

definition sets_empty :: "rule_sets \<Rightarrow> bool" where
  "sets_empty r \<longleftrightarrow>
     unused_s (set_position r) \<and> unused_s (set_size r) \<and> unused_s (set_desktopfile r)
     \<and> unused_s (set_ignoregeometry r) \<and> unused_s (set_desktops r) \<and> unused_s (set_screen r)
     \<and> unused_s (set_maximizevert r) \<and> unused_s (set_maximizehoriz r) \<and> unused_s (set_minimize r)
     \<and> unused_s (set_skiptaskbar r) \<and> unused_s (set_skippager r) \<and> unused_s (set_skipswitcher r)
     \<and> unused_s (set_above r) \<and> unused_s (set_below r) \<and> unused_s (set_fullscreen r)
     \<and> unused_s (set_noborder r) \<and> unused_s (set_shortcut r)"

definition forces_empty :: "rule_forces \<Rightarrow> bool" where
  "forces_empty r \<longleftrightarrow>
     unused_f (force_decocolor r) \<and> unused_f (force_blockcompositing r)
     \<and> unused_f (force_fsplevel r) \<and> unused_f (force_fpplevel r)
     \<and> unused_f (force_acceptfocus r) \<and> unused_f (force_closeable r)
     \<and> unused_f (force_autogroup r) \<and> unused_f (force_autogroupfg r)
     \<and> unused_f (force_autogroupid r) \<and> unused_f (force_strictgeometry r)
     \<and> unused_f (force_disableglobalshortcuts r) \<and> unused_f (force_minsize r)
     \<and> unused_f (force_maxsize r) \<and> unused_f (force_opacityactive r)
     \<and> unused_f (force_opacityinactive r) \<and> unused_f (force_placement r)
     \<and> unused_f (force_type r)"

definition ruling_isEmpty :: "ruling \<Rightarrow> bool" where
  "ruling_isEmpty r \<longleftrightarrow> sets_empty (sets r) \<and> forces_empty (forces r)"

definition convertForceRule :: "int \<Rightarrow> int" where
  "convertForceRule v =
     (if v = action_index action_dont_affect \<or> v = action_index action_force
         \<or> v = action_index action_force_temporarily then v else rule_unused)"

definition checkSetRule :: "int \<Rightarrow> bool \<Rightarrow> bool" where
  "checkSetRule r init =
     (if r > action_index action_dont_affect
      then r = action_index action_force \<or> r = action_index action_apply_now
        \<or> r = action_index action_force_temporarily \<or> init
      else False)"

definition checkForceRule :: "int \<Rightarrow> bool" where
  "checkForceRule r \<longleftrightarrow> r = action_index action_force \<or> r = action_index action_force_temporarily"

definition checkSetStop :: "int \<Rightarrow> bool" where
  "checkSetStop r \<longleftrightarrow> r \<noteq> rule_unused"

definition checkForceStop :: "int \<Rightarrow> bool" where
  "checkForceStop r \<longleftrightarrow> r \<noteq> rule_unused"

section \<open>Matching\<close>

definition is_substring :: "string \<Rightarrow> string \<Rightarrow> bool" where
  "is_substring s sub \<longleftrightarrow>
     list_ex (\<lambda>i. take (length sub) (drop i s) = sub) [0..<Suc (length s)]"

definition matchType :: "ruling \<Rightarrow> win_type \<Rightarrow> bool" where
  "matchType r match_type =
     (if match_types (matching r) \<noteq> mask_all_types
      then let match_type = (if match_type = wt_unknown then wt_normal else match_type)
           in if \<not> type_matches_mask match_type (match_types (matching r)) then False else True
      else True)"

text \<open>The three tests every kind of name goes through, on the pattern and subject as the regular
  expression engine gets them and on the raw ones.\<close>

definition name_matches :: "(string \<Rightarrow> string \<Rightarrow> bool) \<Rightarrow> name_matching \<Rightarrow> string \<Rightarrow> bool" where
  "name_matches regex m subject =
     (if match_kind m = name_match_regex \<and> \<not> regex (match_data m) subject then False
      else if match_kind m = name_match_exact \<and> match_data m \<noteq> subject then False
      else if match_kind m = name_match_substring \<and> \<not> is_substring subject (match_data m) then False
      else True)"

definition bytes_regex :: "qt \<Rightarrow> string \<Rightarrow> string \<Rightarrow> bool" where
  "bytes_regex qt pat subject = regex_has_match qt (from_utf8 qt pat) (from_utf8 qt subject)"

definition matchWMClass :: "qt \<Rightarrow> ruling \<Rightarrow> string \<Rightarrow> string \<Rightarrow> bool" where
  "matchWMClass qt r match_class match_name =
     (let m = wmclass (matching r)
      in if match_kind m \<noteq> name_match_unimportant
         then let cwmclass = (if wmclasscomplete (matching r) then match_name @ '' '' else [])
                             @ match_class
              in name_matches (bytes_regex qt) m cwmclass
         else True)"

definition matchRole :: "qt \<Rightarrow> ruling \<Rightarrow> string \<Rightarrow> bool" where
  "matchRole qt r match_role =
     (let m = windowrole (matching r)
      in if match_kind m \<noteq> name_match_unimportant then name_matches (bytes_regex qt) m match_role
         else True)"

definition matchTitle :: "qt \<Rightarrow> ruling \<Rightarrow> string \<Rightarrow> bool" where
  "matchTitle qt r title =
     (let m = match_title (matching r)
      in if match_kind m \<noteq> name_match_unimportant then name_matches (regex_has_match qt) m title
         else True)"

text \<open>The recursive call is on ''localhost'', which does not recurse.\<close>

definition matchClientMachine_once :: "qt \<Rightarrow> ruling \<Rightarrow> string \<Rightarrow> bool" where
  "matchClientMachine_once qt r match_machine =
     name_matches (bytes_regex qt) (clientmachine (matching r)) match_machine"

definition matchClientMachine :: "qt \<Rightarrow> ruling \<Rightarrow> string \<Rightarrow> bool \<Rightarrow> bool" where
  "matchClientMachine qt r match_machine is_local =
     (if match_kind (clientmachine (matching r)) \<noteq> name_match_unimportant
      then if match_machine \<noteq> ''localhost'' \<and> is_local \<and> matchClientMachine_once qt r ''localhost''
           then True
           else matchClientMachine_once qt r match_machine
      else True)"

section \<open>Applying\<close>

definition apply_set :: "'a \<Rightarrow> 'a set_ruler \<Rightarrow> bool \<Rightarrow> 'a \<times> bool" where
  "apply_set target ruler init =
     (if checkSetRule (set_rule ruler) init then set_data ruler else target,
      checkSetStop (set_rule ruler))"

definition apply_force :: "'a \<Rightarrow> 'a force_ruler \<Rightarrow> 'a \<times> bool" where
  "apply_force target ruler =
     (if checkForceRule (force_rule ruler) then force_data ruler else target,
      checkForceStop (force_rule ruler))"

definition applyPosition :: "ruling \<Rightarrow> qpoint \<Rightarrow> bool \<Rightarrow> qpoint \<times> bool" where
  "applyPosition r pos init =
     (let p = set_position (sets r)
      in (if set_data p \<noteq> invalid_point \<and> checkSetRule (set_rule p) init then set_data p else pos,
          checkSetStop (set_rule p)))"

definition applySize :: "ruling \<Rightarrow> qsize \<Rightarrow> bool \<Rightarrow> qsize \<times> bool" where
  "applySize r s init =
     (let z = set_size (sets r)
      in (if size_is_valid (set_data z) \<and> checkSetRule (set_rule z) init then set_data z else s,
          checkSetStop (set_rule z)))"

definition applyGeometry :: "ruling \<Rightarrow> qrect \<Rightarrow> bool \<Rightarrow> qrect \<times> bool" where
  "applyGeometry r rect init =
     (let (p, bp) = applyPosition r (rect_pos rect) init;
          (s, bs) = applySize r (rect_size rect) init;
          rect = (if bp then rect\<lparr>rect_pos := p\<rparr> else rect);
          rect = (if bs then rect\<lparr>rect_size := s\<rparr> else rect)
      in (rect, bp \<or> bs))"

definition applyDesktops :: "manager \<Rightarrow> ruling \<Rightarrow> nat list \<Rightarrow> bool \<Rightarrow> nat list \<times> bool" where
  "applyDesktops mgr r vds init =
     (let d = set_desktops (sets r)
      in (if checkSetRule (set_rule d) init
          then fold (\<lambda>ident vds. case subspaces_get_for_id mgr ident of
                        Some vd \<Rightarrow> vds @ [vd] | None \<Rightarrow> vds) (set_data d) []
          else vds,
          checkSetStop (set_rule d)))"

definition applyMinimize :: "ruling \<Rightarrow> bool \<Rightarrow> bool \<Rightarrow> bool \<times> bool" where
  "applyMinimize r minimize init = apply_set minimize (set_minimize (sets r)) init"

definition applySkipTaskbar :: "ruling \<Rightarrow> bool \<Rightarrow> bool \<Rightarrow> bool \<times> bool" where
  "applySkipTaskbar r skip init = apply_set skip (set_skiptaskbar (sets r)) init"

definition applySkipPager :: "ruling \<Rightarrow> bool \<Rightarrow> bool \<Rightarrow> bool \<times> bool" where
  "applySkipPager r skip init = apply_set skip (set_skippager (sets r)) init"

definition applySkipSwitcher :: "ruling \<Rightarrow> bool \<Rightarrow> bool \<Rightarrow> bool \<times> bool" where
  "applySkipSwitcher r skip init = apply_set skip (set_skipswitcher (sets r)) init"

definition applyKeepAbove :: "ruling \<Rightarrow> bool \<Rightarrow> bool \<Rightarrow> bool \<times> bool" where
  "applyKeepAbove r abv init = apply_set abv (set_above (sets r)) init"

definition applyKeepBelow :: "ruling \<Rightarrow> bool \<Rightarrow> bool \<Rightarrow> bool \<times> bool" where
  "applyKeepBelow r blw init = apply_set blw (set_below (sets r)) init"

definition applyFullScreen :: "ruling \<Rightarrow> bool \<Rightarrow> bool \<Rightarrow> bool \<times> bool" where
  "applyFullScreen r fs init = apply_set fs (set_fullscreen (sets r)) init"

definition applyScreen :: "ruling \<Rightarrow> int \<Rightarrow> bool \<Rightarrow> int \<times> bool" where
  "applyScreen r screen init = apply_set screen (set_screen (sets r)) init"

definition applyNoBorder :: "ruling \<Rightarrow> bool \<Rightarrow> bool \<Rightarrow> bool \<times> bool" where
  "applyNoBorder r noborder init = apply_set noborder (set_noborder (sets r)) init"

definition applyShortcut :: "ruling \<Rightarrow> string \<Rightarrow> bool \<Rightarrow> string \<times> bool" where
  "applyShortcut r shortcut init = apply_set shortcut (set_shortcut (sets r)) init"

definition applyDesktopFile :: "ruling \<Rightarrow> string \<Rightarrow> bool \<Rightarrow> string \<times> bool" where
  "applyDesktopFile r desktopFile init = apply_set desktopFile (set_desktopfile (sets r)) init"

definition applyIgnoreGeometry :: "ruling \<Rightarrow> bool \<Rightarrow> bool \<Rightarrow> bool \<times> bool" where
  "applyIgnoreGeometry r ignore init = apply_set ignore (set_ignoregeometry (sets r)) init"


text \<open>A value out of the bounds of the enumeration leaves the reference alone and lets the next rule
  apply. The cast to the enumeration is total on the values that pass the guard.\<close>

definition applyPlacement :: "ruling \<Rightarrow> placement \<Rightarrow> placement \<times> bool" where
  "applyPlacement r p =
     (let (setting, stop) = apply_force (placement_index p) (force_placement (forces r))
      in if \<not> stop then (p, False)
         else if setting < 0 \<or> setting \<ge> placement_count then (p, False)
         else (the (placement_of_index setting), True))"

definition apply_force_enum :: "int force_ruler \<Rightarrow> fsp_level \<Rightarrow> fsp_level \<Rightarrow> fsp_level \<Rightarrow> fsp_level \<times> bool" where
  "apply_force_enum ruler app lo hi =
     (let (setting, stop) = apply_force (fsp_index app) ruler
      in if \<not> stop then (app, False)
         else if setting < fsp_index lo \<or> setting > fsp_index hi then (app, False)
         else (the (fsp_of_index setting), True))"

definition applyFSP :: "ruling \<Rightarrow> fsp_level \<Rightarrow> fsp_level \<times> bool" where
  "applyFSP r fsp = apply_force_enum (force_fsplevel (forces r)) fsp fsp_none fsp_extreme"

definition applyFPP :: "ruling \<Rightarrow> fsp_level \<Rightarrow> fsp_level \<times> bool" where
  "applyFPP r fpp = apply_force_enum (force_fpplevel (forces r)) fpp fsp_none fsp_extreme"

definition applyMinSize :: "ruling \<Rightarrow> qsize \<Rightarrow> qsize \<times> bool" where
  "applyMinSize r s = apply_force s (force_minsize (forces r))"

definition applyMaxSize :: "ruling \<Rightarrow> qsize \<Rightarrow> qsize \<times> bool" where
  "applyMaxSize r s = apply_force s (force_maxsize (forces r))"

definition applyOpacityActive :: "ruling \<Rightarrow> int \<Rightarrow> int \<times> bool" where
  "applyOpacityActive r s = apply_force s (force_opacityactive (forces r))"

definition applyOpacityInactive :: "ruling \<Rightarrow> int \<Rightarrow> int \<times> bool" where
  "applyOpacityInactive r s = apply_force s (force_opacityinactive (forces r))"

definition applyType :: "ruling \<Rightarrow> win_type \<Rightarrow> win_type \<times> bool" where
  "applyType r t = apply_force t (force_type (forces r))"

definition applyDecoColor :: "ruling \<Rightarrow> string \<Rightarrow> string \<times> bool" where
  "applyDecoColor r schemeFile = apply_force schemeFile (force_decocolor (forces r))"

definition applyBlockCompositing :: "ruling \<Rightarrow> bool \<Rightarrow> bool \<times> bool" where
  "applyBlockCompositing r block = apply_force block (force_blockcompositing (forces r))"

definition applyAcceptFocus :: "ruling \<Rightarrow> bool \<Rightarrow> bool \<times> bool" where
  "applyAcceptFocus r focus = apply_force focus (force_acceptfocus (forces r))"

definition applyCloseable :: "ruling \<Rightarrow> bool \<Rightarrow> bool \<times> bool" where
  "applyCloseable r closeable = apply_force closeable (force_closeable (forces r))"

definition applyAutogrouping :: "ruling \<Rightarrow> bool \<Rightarrow> bool \<times> bool" where
  "applyAutogrouping r autogroup = apply_force autogroup (force_autogroup (forces r))"

definition applyAutogroupInForeground :: "ruling \<Rightarrow> bool \<Rightarrow> bool \<times> bool" where
  "applyAutogroupInForeground r fg = apply_force fg (force_autogroupfg (forces r))"

definition applyAutogroupById :: "ruling \<Rightarrow> string \<Rightarrow> string \<times> bool" where
  "applyAutogroupById r ident = apply_force ident (force_autogroupid (forces r))"

definition applyStrictGeometry :: "ruling \<Rightarrow> bool \<Rightarrow> bool \<times> bool" where
  "applyStrictGeometry r strict = apply_force strict (force_strictgeometry (forces r))"

definition applyDisableGlobalShortcuts :: "ruling \<Rightarrow> bool \<Rightarrow> bool \<times> bool" where
  "applyDisableGlobalShortcuts r disable = apply_force disable (force_disableglobalshortcuts (forces r))"


definition applyMaximizeHoriz :: "ruling \<Rightarrow> flag \<Rightarrow> bool \<Rightarrow> flag \<times> bool" where
  "applyMaximizeHoriz r mode init =
     (let m = set_maximizehoriz (sets r)
      in (if checkSetRule (set_rule m) init \<and> set_data m then flag_or mode maximize_horizontal
          else mode,
          checkSetStop (set_rule m)))"

definition applyMaximizeVert :: "ruling \<Rightarrow> flag \<Rightarrow> bool \<Rightarrow> flag \<times> bool" where
  "applyMaximizeVert r mode init =
     (let m = set_maximizevert (sets r)
      in (if checkSetRule (set_rule m) init \<and> set_data m then flag_or mode maximize_vertical
          else mode,
          checkSetStop (set_rule m)))"

lemmas apply_set_defs = applyMinimize_def applySkipTaskbar_def applySkipPager_def
  applySkipSwitcher_def applyKeepAbove_def applyKeepBelow_def applyFullScreen_def applyScreen_def
  applyNoBorder_def applyShortcut_def applyDesktopFile_def applyIgnoreGeometry_def

lemmas apply_force_defs = applyMinSize_def applyMaxSize_def applyOpacityActive_def
  applyOpacityInactive_def applyType_def applyDecoColor_def applyBlockCompositing_def
  applyAcceptFocus_def applyCloseable_def applyAutogrouping_def applyAutogroupInForeground_def
  applyAutogroupById_def applyStrictGeometry_def applyDisableGlobalShortcuts_def

section \<open>Discarding what was used up\<close>

definition discard_used_set :: "bool \<Rightarrow> 'a set_ruler \<Rightarrow> bool \<Rightarrow> 'a set_ruler \<times> bool" where
  "discard_used_set withdrawn ruler changed =
     (let apply_now = (set_rule ruler = action_index action_apply_now);
          is_temp = (set_rule ruler = action_index action_force_temporarily)
      in if apply_now \<or> (is_temp \<and> withdrawn)
         then (ruler\<lparr>set_rule := rule_unused\<rparr>, True) else (ruler, changed))"

definition discard_used_force :: "bool \<Rightarrow> 'a force_ruler \<Rightarrow> bool \<Rightarrow> 'a force_ruler \<times> bool" where
  "discard_used_force withdrawn ruler changed =
     (let is_temp = (force_rule ruler = action_index action_force_temporarily)
      in if withdrawn \<and> is_temp
         then (ruler\<lparr>force_rule := rule_unused\<rparr>, True) else (ruler, changed))"

definition discard_sets :: "bool \<Rightarrow> rule_sets \<Rightarrow> bool \<Rightarrow> rule_sets \<times> bool" where
  "discard_sets w s c =
     (let (a1, c) = discard_used_set w (set_above s) c;
          (a2, c) = discard_used_set w (set_below s) c;
          (a3, c) = discard_used_set w (set_desktops s) c;
          (a4, c) = discard_used_set w (set_desktopfile s) c;
          (a5, c) = discard_used_set w (set_fullscreen s) c;
          (a6, c) = discard_used_set w (set_ignoregeometry s) c;
          (a7, c) = discard_used_set w (set_maximizehoriz s) c;
          (a8, c) = discard_used_set w (set_maximizevert s) c;
          (a9, c) = discard_used_set w (set_minimize s) c;
          (a10, c) = discard_used_set w (set_noborder s) c;
          (a11, c) = discard_used_set w (set_position s) c;
          (a12, c) = discard_used_set w (set_screen s) c;
          (a13, c) = discard_used_set w (set_shortcut s) c;
          (a14, c) = discard_used_set w (set_size s) c;
          (a15, c) = discard_used_set w (set_skippager s) c;
          (a16, c) = discard_used_set w (set_skipswitcher s) c;
          (a17, c) = discard_used_set w (set_skiptaskbar s) c
      in (\<lparr>set_above = a1, set_below = a2, set_ignoregeometry = a6, set_desktops =
           a3, set_desktopfile = a4, set_fullscreen = a5, set_maximizehoriz = a7,
           set_maximizevert = a8, set_minimize = a9, set_noborder = a10,
           set_position = a11, set_screen = a12, set_shortcut = a13, set_size = a14,
           set_skippager = a15, set_skipswitcher = a16, set_skiptaskbar = a17\<rparr>, c))"

definition discard_forces :: "bool \<Rightarrow> rule_forces \<Rightarrow> bool \<Rightarrow> rule_forces \<times> bool" where
  "discard_forces w s c =
     (let (a1, c) = discard_used_force w (force_acceptfocus s) c;
          (a2, c) = discard_used_force w (force_autogroup s) c;
          (a3, c) = discard_used_force w (force_autogroupfg s) c;
          (a4, c) = discard_used_force w (force_autogroupid s) c;
          (a5, c) = discard_used_force w (force_blockcompositing s) c;
          (a6, c) = discard_used_force w (force_closeable s) c;
          (a7, c) = discard_used_force w (force_decocolor s) c;
          (a8, c) = discard_used_force w (force_disableglobalshortcuts s) c;
          (a9, c) = discard_used_force w (force_fpplevel s) c;
          (a10, c) = discard_used_force w (force_fsplevel s) c;
          (a11, c) = discard_used_force w (force_maxsize s) c;
          (a12, c) = discard_used_force w (force_minsize s) c;
          (a13, c) = discard_used_force w (force_opacityactive s) c;
          (a14, c) = discard_used_force w (force_opacityinactive s) c;
          (a15, c) = discard_used_force w (force_placement s) c;
          (a16, c) = discard_used_force w (force_strictgeometry s) c;
          (a17, c) = discard_used_force w (force_type s) c
      in (\<lparr>force_acceptfocus = a1, force_autogroup = a2, force_autogroupfg = a3,
           force_autogroupid = a4, force_blockcompositing = a5, force_closeable =
           a6, force_decocolor = a7, force_disableglobalshortcuts = a8,
           force_fpplevel = a9, force_fsplevel = a10, force_maxsize = a11,
           force_minsize = a12, force_opacityactive = a13, force_opacityinactive =
           a14, force_placement = a15, force_strictgeometry = a16, force_type = a17\<rparr>, c))"

definition discardUsed :: "bool \<Rightarrow> ruling \<Rightarrow> ruling \<times> bool" where
  "discardUsed withdrawn r =
     (let (s, changed) = discard_sets withdrawn (sets r) False;
          (f, changed) = discard_forces withdrawn (forces r) changed
      in (r\<lparr>sets := s, forces := f\<rparr>, changed))"

end
