(* ===== verification/Rule_Book.thy ===== *)
theory Rule_Book
  imports Ruling
begin

text \<open>
  The rules of a window and the book of all rules: como/win/rules/window.h and window.cpp,
  update.h, find.h, book_edit.h and the state of book.cpp. A rule is a pointer \<open>rid\<close>; the objects
  are a function from pointers; a deleted rule is one the book no longer lists.
\<close>

type_synonym rid = nat
type_synonym ruling_heap = "rid \<Rightarrow> ruling"

section \<open>What the rules say of an attribute (rules/window.h, rules/window.cpp)\<close>

definition window_contains :: "rid list \<Rightarrow> rid \<Rightarrow> bool" where
  "window_contains rules r = contains rules r"

definition window_remove :: "rid list \<Rightarrow> rid \<Rightarrow> rid list" where
  "window_remove rules r = remove_all rules r"

text \<open>The loop of check_set and check_force, left when a rule applies.\<close>

fun check_loop :: "('r \<Rightarrow> 'a \<Rightarrow> 'a \<times> bool) \<Rightarrow> 'r list \<Rightarrow> 'a \<Rightarrow> 'a" where
  "check_loop f [] data = data"
| "check_loop f (r # rs) data =
     (let (data, stop) = f r data in if stop then data else check_loop f rs data)"

definition check_set ::
    "ruling_heap \<Rightarrow> rid list \<Rightarrow> 'a \<Rightarrow> bool \<Rightarrow> (ruling \<Rightarrow> 'a \<Rightarrow> bool \<Rightarrow> 'a \<times> bool) \<Rightarrow> 'a" where
  "check_set h rules data init apply_call =
     (if length rules = 0 then data
      else check_loop (\<lambda>r d. apply_call (h r) d init) rules data)"

definition check_force ::
    "ruling_heap \<Rightarrow> rid list \<Rightarrow> 'a \<Rightarrow> (ruling \<Rightarrow> 'a \<Rightarrow> 'a \<times> bool) \<Rightarrow> 'a" where
  "check_force h rules data apply_call =
     (if length rules = 0 then data else check_loop (\<lambda>r d. apply_call (h r) d) rules data)"

definition checkPosition :: "ruling_heap \<Rightarrow> rid list \<Rightarrow> qpoint \<Rightarrow> bool \<Rightarrow> qpoint" where
  "checkPosition h rules x init = check_set h rules x init applyPosition"

definition checkSize :: "ruling_heap \<Rightarrow> rid list \<Rightarrow> qsize \<Rightarrow> bool \<Rightarrow> qsize" where
  "checkSize h rules x init = check_set h rules x init applySize"

definition checkIgnoreGeometry :: "ruling_heap \<Rightarrow> rid list \<Rightarrow> bool \<Rightarrow> bool \<Rightarrow> bool" where
  "checkIgnoreGeometry h rules x init = check_set h rules x init applyIgnoreGeometry"

definition checkMinimize :: "ruling_heap \<Rightarrow> rid list \<Rightarrow> bool \<Rightarrow> bool \<Rightarrow> bool" where
  "checkMinimize h rules x init = check_set h rules x init applyMinimize"

definition checkSkipTaskbar :: "ruling_heap \<Rightarrow> rid list \<Rightarrow> bool \<Rightarrow> bool \<Rightarrow> bool" where
  "checkSkipTaskbar h rules x init = check_set h rules x init applySkipTaskbar"

definition checkSkipPager :: "ruling_heap \<Rightarrow> rid list \<Rightarrow> bool \<Rightarrow> bool \<Rightarrow> bool" where
  "checkSkipPager h rules x init = check_set h rules x init applySkipPager"

definition checkSkipSwitcher :: "ruling_heap \<Rightarrow> rid list \<Rightarrow> bool \<Rightarrow> bool \<Rightarrow> bool" where
  "checkSkipSwitcher h rules x init = check_set h rules x init applySkipSwitcher"

definition checkKeepAbove :: "ruling_heap \<Rightarrow> rid list \<Rightarrow> bool \<Rightarrow> bool \<Rightarrow> bool" where
  "checkKeepAbove h rules x init = check_set h rules x init applyKeepAbove"

definition checkKeepBelow :: "ruling_heap \<Rightarrow> rid list \<Rightarrow> bool \<Rightarrow> bool \<Rightarrow> bool" where
  "checkKeepBelow h rules x init = check_set h rules x init applyKeepBelow"

definition checkFullScreen :: "ruling_heap \<Rightarrow> rid list \<Rightarrow> bool \<Rightarrow> bool \<Rightarrow> bool" where
  "checkFullScreen h rules x init = check_set h rules x init applyFullScreen"

definition checkNoBorder :: "ruling_heap \<Rightarrow> rid list \<Rightarrow> bool \<Rightarrow> bool \<Rightarrow> bool" where
  "checkNoBorder h rules x init = check_set h rules x init applyNoBorder"

definition checkShortcut :: "ruling_heap \<Rightarrow> rid list \<Rightarrow> string \<Rightarrow> bool \<Rightarrow> string" where
  "checkShortcut h rules x init = check_set h rules x init applyShortcut"

definition checkDesktopFile :: "ruling_heap \<Rightarrow> rid list \<Rightarrow> string \<Rightarrow> bool \<Rightarrow> string" where
  "checkDesktopFile h rules x init = check_set h rules x init applyDesktopFile"

definition checkPlacement :: "ruling_heap \<Rightarrow> rid list \<Rightarrow> placement \<Rightarrow> placement" where
  "checkPlacement h rules x = check_force h rules x applyPlacement"

definition checkMinSize :: "ruling_heap \<Rightarrow> rid list \<Rightarrow> qsize \<Rightarrow> qsize" where
  "checkMinSize h rules x = check_force h rules x applyMinSize"

definition checkMaxSize :: "ruling_heap \<Rightarrow> rid list \<Rightarrow> qsize \<Rightarrow> qsize" where
  "checkMaxSize h rules x = check_force h rules x applyMaxSize"

definition checkOpacityActive :: "ruling_heap \<Rightarrow> rid list \<Rightarrow> int \<Rightarrow> int" where
  "checkOpacityActive h rules x = check_force h rules x applyOpacityActive"

definition checkOpacityInactive :: "ruling_heap \<Rightarrow> rid list \<Rightarrow> int \<Rightarrow> int" where
  "checkOpacityInactive h rules x = check_force h rules x applyOpacityInactive"

definition checkType :: "ruling_heap \<Rightarrow> rid list \<Rightarrow> win_type \<Rightarrow> win_type" where
  "checkType h rules x = check_force h rules x applyType"

definition checkDecoColor :: "ruling_heap \<Rightarrow> rid list \<Rightarrow> string \<Rightarrow> string" where
  "checkDecoColor h rules x = check_force h rules x applyDecoColor"

definition checkBlockCompositing :: "ruling_heap \<Rightarrow> rid list \<Rightarrow> bool \<Rightarrow> bool" where
  "checkBlockCompositing h rules x = check_force h rules x applyBlockCompositing"

definition checkFSP :: "ruling_heap \<Rightarrow> rid list \<Rightarrow> fsp_level \<Rightarrow> fsp_level" where
  "checkFSP h rules x = check_force h rules x applyFSP"

definition checkFPP :: "ruling_heap \<Rightarrow> rid list \<Rightarrow> fsp_level \<Rightarrow> fsp_level" where
  "checkFPP h rules x = check_force h rules x applyFPP"

definition checkAcceptFocus :: "ruling_heap \<Rightarrow> rid list \<Rightarrow> bool \<Rightarrow> bool" where
  "checkAcceptFocus h rules x = check_force h rules x applyAcceptFocus"

definition checkCloseable :: "ruling_heap \<Rightarrow> rid list \<Rightarrow> bool \<Rightarrow> bool" where
  "checkCloseable h rules x = check_force h rules x applyCloseable"

definition checkAutogrouping :: "ruling_heap \<Rightarrow> rid list \<Rightarrow> bool \<Rightarrow> bool" where
  "checkAutogrouping h rules x = check_force h rules x applyAutogrouping"

definition checkAutogroupInForeground :: "ruling_heap \<Rightarrow> rid list \<Rightarrow> bool \<Rightarrow> bool" where
  "checkAutogroupInForeground h rules x = check_force h rules x applyAutogroupInForeground"

definition checkAutogroupById :: "ruling_heap \<Rightarrow> rid list \<Rightarrow> string \<Rightarrow> string" where
  "checkAutogroupById h rules x = check_force h rules x applyAutogroupById"

definition checkStrictGeometry :: "ruling_heap \<Rightarrow> rid list \<Rightarrow> bool \<Rightarrow> bool" where
  "checkStrictGeometry h rules x = check_force h rules x applyStrictGeometry"

definition checkDisableGlobalShortcuts :: "ruling_heap \<Rightarrow> rid list \<Rightarrow> bool \<Rightarrow> bool" where
  "checkDisableGlobalShortcuts h rules x = check_force h rules x applyDisableGlobalShortcuts"


definition checkGeometry :: "ruling_heap \<Rightarrow> rid list \<Rightarrow> qrect \<Rightarrow> bool \<Rightarrow> qrect" where
  "checkGeometry h rules rect init =
     \<lparr>rect_pos = checkPosition h rules (rect_pos rect) init,
      rect_size = checkSize h rules (rect_size rect) init\<rparr>"

definition checkDesktops :: "manager \<Rightarrow> ruling_heap \<Rightarrow> rid list \<Rightarrow> nat list \<Rightarrow> bool \<Rightarrow> nat list" where
  "checkDesktops mgr h rules vds init = check_loop (\<lambda>r d. applyDesktops mgr (h r) d init) rules vds"

text \<open>The outputs of the base; get_output_index is the number of outputs for one not among them.\<close>

definition get_output_index :: "nat list \<Rightarrow> nat \<Rightarrow> nat" where
  "get_output_index outputs out = std_find outputs out"

definition get_output :: "nat list \<Rightarrow> int \<Rightarrow> nat option" where
  "get_output outputs index =
     (if index \<ge> int (length outputs) \<or> index < 0 then None else Some (outputs ! nat index))"

definition checkScreen ::
    "nat list \<Rightarrow> ruling_heap \<Rightarrow> rid list \<Rightarrow> nat option \<Rightarrow> bool \<Rightarrow> nat option" where
  "checkScreen outputs h rules output init =
     (if length rules = 0 then output
      else let index = (case output of Some o' \<Rightarrow> int (get_output_index outputs o') | None \<Rightarrow> 0);
               index = check_loop (\<lambda>r d. applyScreen (h r) d init) rules index
           in get_output outputs index)"

definition checkMaximizeVert :: "ruling_heap \<Rightarrow> rid list \<Rightarrow> flag \<Rightarrow> bool \<Rightarrow> flag" where
  "checkMaximizeVert h rules mode init = check_set h rules mode init applyMaximizeVert"

definition checkMaximizeHoriz :: "ruling_heap \<Rightarrow> rid list \<Rightarrow> flag \<Rightarrow> bool \<Rightarrow> flag" where
  "checkMaximizeHoriz h rules mode init = check_set h rules mode init applyMaximizeHoriz"

definition checkMaximize :: "ruling_heap \<Rightarrow> rid list \<Rightarrow> flag \<Rightarrow> bool \<Rightarrow> flag" where
  "checkMaximize h rules mode init =
     (let vert = flag_and (checkMaximizeVert h rules mode init) maximize_vertical;
          horiz = flag_and (checkMaximizeHoriz h rules mode init) maximize_horizontal
      in flag_or vert horiz)"

section \<open>The window a rule is matched with and remembers\<close>

text \<open>What match_rule and update_rule read of a window: \<open>rw_machine\<close> is the host name with is_local()
  for a window class that has a client machine and one is set; \<open>rw_output\<close> the index of the central
  output, 0 without one.\<close>

record ref_window =
  rw_type :: win_type
  rw_res_class :: string
  rw_res_name :: string
  rw_role :: string
  rw_machine :: "(string \<times> bool) option"
  rw_caption :: string
  rw_keep_above :: bool
  rw_keep_below :: bool
  rw_subspaces_ids :: "string list"
  rw_desktop_file_name :: string
  rw_fullscreen :: bool
  rw_maximize_mode :: flag
  rw_minimized :: bool
  rw_no_border :: bool
  rw_pos :: qpoint
  rw_size :: qsize
  rw_output :: int
  rw_skip_pager :: bool
  rw_skip_switcher :: bool
  rw_skip_taskbar :: bool

definition match_rule :: "qt \<Rightarrow> ruling \<Rightarrow> ref_window \<Rightarrow> bool" where
  "match_rule qt r w =
     (if \<not> matchType r (rw_type w) then False
      else if \<not> matchWMClass qt r (rw_res_class w) (rw_res_name w) then False
      else if \<not> matchRole qt r (to_lower qt (rw_role w)) then False
      else if (case rw_machine w of
                 Some (host, is_local) \<Rightarrow> \<not> matchClientMachine qt r host is_local
               | None \<Rightarrow> False) then False
      else matchTitle qt r (rw_caption w))"

text \<open>Whether the window's caption is from now on watched to match again.\<close>

definition tracks_title :: "qt \<Rightarrow> ruling \<Rightarrow> ref_window \<Rightarrow> bool" where
  "tracks_title qt r w \<longleftrightarrow>
     matchType r (rw_type w) \<and> matchWMClass qt r (rw_res_class w) (rw_res_name w)
     \<and> matchRole qt r (to_lower qt (rw_role w))
     \<and> (case rw_machine w of Some (host, is_local) \<Rightarrow> matchClientMachine qt r host is_local
        | None \<Rightarrow> True)
     \<and> match_kind (match_title (matching r)) \<noteq> name_match_unimportant"

record rule_book =
  m_rules :: "rid list"
  ruling_at :: ruling_heap
  update_timer :: bool
  updates_disabled :: bool

fun find_window_loop :: "qt \<Rightarrow> rule_book \<Rightarrow> ref_window \<Rightarrow> rid list \<Rightarrow> rid list \<Rightarrow> rid list" where
  "find_window_loop qt b w [] ret = ret"
| "find_window_loop qt b w (it # rest) ret =
     (if match_rule qt (ruling_at b it) w then find_window_loop qt b w rest (ret @ [it])
      else find_window_loop qt b w rest ret)"

definition find_window :: "qt \<Rightarrow> rule_book \<Rightarrow> ref_window \<Rightarrow> rid list" where
  "find_window qt b w = find_window_loop qt b w (m_rules b) []"

section \<open>Remembering the state of a window (update.h)\<close>

definition remember :: "flag \<Rightarrow> 'a set_ruler \<Rightarrow> flag \<Rightarrow> bool" where
  "remember selection ruler t \<longleftrightarrow>
     flags_any (flag_and selection t) \<and> set_rule ruler = action_index action_remember"

text \<open>One if statement of update_rule: the data becomes what the window has.\<close>

definition remember_data ::
    "flag \<Rightarrow> flag \<Rightarrow> 'a \<Rightarrow> 'a set_ruler \<Rightarrow> bool \<Rightarrow> 'a set_ruler \<times> bool" where
  "remember_data selection t val ruler updated =
     (if remember selection ruler t
      then (ruler\<lparr>set_data := val\<rparr>, updated \<or> set_data ruler \<noteq> val) else (ruler, updated))"

definition remember_position ::
    "flag \<Rightarrow> ref_window \<Rightarrow> qpoint set_ruler \<Rightarrow> bool \<Rightarrow> qpoint set_ruler \<times> bool" where
  "remember_position selection w ruler updated =
     (if remember selection ruler rtype_position \<and> \<not> rw_fullscreen w
      then let new_pos = set_data ruler;
               new_pos = (if \<not> flags_any (flag_and (rw_maximize_mode w) maximize_horizontal)
                          then (fst (rw_pos w), snd new_pos) else new_pos);
               new_pos = (if \<not> flags_any (flag_and (rw_maximize_mode w) maximize_vertical)
                          then (fst new_pos, snd (rw_pos w)) else new_pos)
           in (ruler\<lparr>set_data := new_pos\<rparr>, updated \<or> set_data ruler \<noteq> new_pos)
      else (ruler, updated))"

definition remember_size ::
    "flag \<Rightarrow> ref_window \<Rightarrow> qsize set_ruler \<Rightarrow> bool \<Rightarrow> qsize set_ruler \<times> bool" where
  "remember_size selection w ruler updated =
     (if remember selection ruler rtype_size \<and> \<not> rw_fullscreen w
      then let new_size = set_data ruler;
               new_size = (if \<not> flags_any (flag_and (rw_maximize_mode w) maximize_horizontal)
                           then (fst (rw_size w), snd new_size) else new_size);
               new_size = (if \<not> flags_any (flag_and (rw_maximize_mode w) maximize_vertical)
                           then (fst new_size, snd (rw_size w)) else new_size)
           in (ruler\<lparr>set_data := new_size\<rparr>, updated \<or> set_data ruler \<noteq> new_size)
      else (ruler, updated))"

definition update_sets :: "rule_sets \<Rightarrow> ref_window \<Rightarrow> flag \<Rightarrow> rule_sets \<times> bool" where
  "update_sets s w sel =
     (let (a1, u) = remember_data sel rtype_above (rw_keep_above w) (set_above s) False;
          (a2, u) = remember_data sel rtype_below (rw_keep_below w) (set_below s) u;
          (a3, u) = remember_data sel rtype_desktops (rw_subspaces_ids w) (set_desktops s) u;
          (a4, u) = remember_data sel rtype_desktop_file (rw_desktop_file_name w)
                     (set_desktopfile s) u;
          (a5, u) = remember_data sel rtype_fullscreen (rw_fullscreen w) (set_fullscreen s) u;
          (a6, u) = remember_data sel rtype_maximize_horiz
                     (flags_any (flag_and (rw_maximize_mode w) maximize_horizontal))
                     (set_maximizehoriz s) u;
          (a7, u) = remember_data sel rtype_maximize_vert
                     (flags_any (flag_and (rw_maximize_mode w) maximize_vertical))
                     (set_maximizevert s) u;
          (a8, u) = remember_data sel rtype_minimize (rw_minimized w) (set_minimize s) u;
          (a9, u) = remember_data sel rtype_no_border (rw_no_border w) (set_noborder s) u;
          (a10, u) = remember_position sel w (set_position s) u;
          (a11, u) = remember_data sel rtype_screen (rw_output w) (set_screen s) u;
          (a12, u) = remember_size sel w (set_size s) u;
          (a13, u) = remember_data sel rtype_skip_pager (rw_skip_pager w) (set_skippager s) u;
          (a14, u) = remember_data sel rtype_skip_switcher (rw_skip_switcher w)
                     (set_skipswitcher s) u;
          (a15, u) = remember_data sel rtype_skip_taskbar (rw_skip_taskbar w) (set_skiptaskbar s) u
      in (\<lparr>set_above = a1, set_below = a2, set_ignoregeometry = set_ignoregeometry
           s, set_desktops = a3, set_desktopfile = a4, set_fullscreen = a5,
           set_maximizehoriz = a6, set_maximizevert = a7, set_minimize = a8,
           set_noborder = a9, set_position = a10, set_screen = a11, set_shortcut =
           set_shortcut s, set_size = a12, set_skippager = a13, set_skipswitcher =
           a14, set_skiptaskbar = a15\<rparr>, u))"

definition update_rule :: "ruling \<Rightarrow> ref_window \<Rightarrow> flag \<Rightarrow> ruling \<times> bool" where
  "update_rule r w selection =
     (let (s, updated) = update_sets (sets r) w selection in (r\<lparr>sets := s\<rparr>, updated))"

section \<open>The book (book.cpp, book_edit.h)\<close>

definition requestDiskStorage :: "rule_book \<Rightarrow> rule_book" where
  "requestDiskStorage b = b\<lparr>update_timer := True\<rparr>"

definition setUpdatesDisabled :: "bool \<Rightarrow> rule_book \<Rightarrow> rule_book \<times> bool" where
  "setUpdatesDisabled disable b = (b\<lparr>updates_disabled := disable\<rparr>, \<not> disable)"

fun update_window_loop :: "rid list \<Rightarrow> ref_window \<Rightarrow> flag \<Rightarrow> ruling_heap \<Rightarrow> bool \<Rightarrow> ruling_heap \<times> bool" where
  "update_window_loop [] w selection h updated = (h, updated)"
| "update_window_loop (r # rs) w selection h updated =
     (let (r', u) = update_rule (h r) w selection
      in update_window_loop rs w selection (h(r := r')) (updated \<or> u))"

definition rules_update_window :: "rid list \<Rightarrow> ref_window \<Rightarrow> flag \<Rightarrow> rule_book \<Rightarrow> rule_book" where
  "rules_update_window rules w selection b =
     (let (h, updated) = update_window_loop rules w selection (ruling_at b) False;
          b = b\<lparr>ruling_at := h\<rparr>
      in if updated then requestDiskStorage b else b)"

text \<open>The loop over the book: the pointers kept, the objects, the rules of the window, and whether a
  rule changed.\<close>

fun discard_loop ::
    "bool \<Rightarrow> rid list \<Rightarrow> ruling_heap \<Rightarrow> rid list \<Rightarrow> bool \<Rightarrow> rid list \<times> ruling_heap \<times> rid list \<times> bool" where
  "discard_loop withdrawn [] h rules updated = ([], h, rules, updated)"
| "discard_loop withdrawn (it # rest) h rules updated =
     (if window_contains rules it
      then let (r, u) = discardUsed withdrawn (h it);
               h = h(it := r);
               updated = (if u then True else updated)
           in if ruling_isEmpty r
              then discard_loop withdrawn rest h (window_remove rules it) updated
              else let (kept, res) = discard_loop withdrawn rest h rules updated
                   in (it # kept, res)
      else let (kept, res) = discard_loop withdrawn rest h rules updated in (it # kept, res))"

definition discard_used_rules :: "rid list \<Rightarrow> bool \<Rightarrow> rule_book \<Rightarrow> rule_book \<times> rid list" where
  "discard_used_rules rules withdrawn b =
     (let (kept, h, rules, updated) = discard_loop withdrawn (m_rules b) (ruling_at b) rules False;
          b = b\<lparr>m_rules := kept, ruling_at := h\<rparr>
      in (if updated then requestDiskStorage b else b, rules))"

end
