(* ===== verification/Rule_Props.thy ===== *)
theory Rule_Props
  imports Rule_Book
begin

text \<open>
  Lemmas on the window rules: the loop of a check as a search for the first rule in use, the
  rulers an operation leaves alone, and the closed forms of discarding and remembering.
\<close>

section \<open>Checking\<close>

lemma check_loop_first:
  assumes "\<And>r d. f r d = (if stop r then g r d else d, stop r)"
  shows "check_loop f rs d = (case List.find stop rs of None \<Rightarrow> d | Some r \<Rightarrow> g r d)"
  by (induction rs arbitrary: d) (simp_all add: assms)

text \<open>The value an attribute gets: that of the first rule that uses the attribute, when its action
  takes effect.\<close>

definition first_set ::
    "ruling_heap \<Rightarrow> rid list \<Rightarrow> (ruling \<Rightarrow> 'a set_ruler) \<Rightarrow> 'a \<Rightarrow> bool \<Rightarrow> 'a" where
  "first_set h rules ruler x init =
     (case List.find (\<lambda>r. set_rule (ruler (h r)) \<noteq> rule_unused) rules of
        None \<Rightarrow> x
      | Some r \<Rightarrow> if checkSetRule (set_rule (ruler (h r))) init then set_data (ruler (h r)) else x)"

definition first_force :: "ruling_heap \<Rightarrow> rid list \<Rightarrow> (ruling \<Rightarrow> 'a force_ruler) \<Rightarrow> 'a \<Rightarrow> 'a" where
  "first_force h rules ruler x =
     (case List.find (\<lambda>r. force_rule (ruler (h r)) \<noteq> rule_unused) rules of
        None \<Rightarrow> x
      | Some r \<Rightarrow> if checkForceRule (force_rule (ruler (h r))) then force_data (ruler (h r)) else x)"

text \<open>For the attributes that hold an index of an enumeration a rule whose value is out of bounds is
  passed over.\<close>

definition first_enum ::
    "ruling_heap \<Rightarrow> rid list \<Rightarrow> (ruling \<Rightarrow> int force_ruler) \<Rightarrow> (int \<Rightarrow> 'e option) \<Rightarrow> 'e \<Rightarrow> 'e" where
  "first_enum h rules ruler of_index x =
     (case List.find (\<lambda>r. force_rule (ruler (h r)) \<noteq> rule_unused
                        \<and> (checkForceRule (force_rule (ruler (h r)))
                           \<longrightarrow> of_index (force_data (ruler (h r))) \<noteq> None)) rules of
        None \<Rightarrow> x
      | Some r \<Rightarrow> if checkForceRule (force_rule (ruler (h r)))
                  then the (of_index (force_data (ruler (h r)))) else x)"

lemma checkSetRule_unused [simp]: "\<not> checkSetRule rule_unused init"
  by (simp add: checkSetRule_def)

lemma checkForceRule_unused [simp]: "\<not> checkForceRule rule_unused"
  by (simp add: checkForceRule_def)

lemma checkSetRule_action:
  "checkSetRule (action_index a) init \<longleftrightarrow>
     a \<in> {action_force, action_apply_now, action_force_temporarily}
     \<or> init \<and> a \<in> {action_apply, action_remember}"
  by (cases a) (simp_all add: checkSetRule_def)

lemma check_set_first:
  assumes "\<And>r d. app r d init = apply_set d (ruler r) init"
  shows "check_set h rules x init app = first_set h rules ruler x init"
proof -
  let ?stop = "\<lambda>r. set_rule (ruler (h r)) \<noteq> rule_unused"
  have "check_loop (\<lambda>r d. app (h r) d init) rules x
      = (case List.find ?stop rules of None \<Rightarrow> x
         | Some r \<Rightarrow> if checkSetRule (set_rule (ruler (h r))) init then set_data (ruler (h r)) else x)"
    by (rule check_loop_first) (auto simp: assms apply_set_def checkSetStop_def)
  then show ?thesis by (cases rules) (simp_all add: check_set_def first_set_def)
qed

lemma check_force_first:
  assumes "\<And>r d. app r d = apply_force d (ruler r)"
  shows "check_force h rules x app = first_force h rules ruler x"
proof -
  let ?stop = "\<lambda>r. force_rule (ruler (h r)) \<noteq> rule_unused"
  have "check_loop (\<lambda>r d. app (h r) d) rules x
      = (case List.find ?stop rules of None \<Rightarrow> x
         | Some r \<Rightarrow> if checkForceRule (force_rule (ruler (h r))) then force_data (ruler (h r)) else x)"
    by (rule check_loop_first) (auto simp: assms apply_force_def checkForceStop_def)
  then show ?thesis by (cases rules) (simp_all add: check_force_def first_force_def)
qed

lemma check_enum_first:
  assumes a: "\<And>r d. app r d =
      (let (s, stop) = apply_force (index d) (ruler r)
       in if \<not> stop then (d, False) else if bad s then (d, False)
          else (the (of_index s), True))"
    and ok: "\<And>i. bad i \<longleftrightarrow> of_index i = None" and inv: "\<And>d. of_index (index d) = Some d"
  shows "check_force h rules x app = first_enum h rules ruler of_index x"
proof -
  let ?stop = "\<lambda>r. force_rule (ruler (h r)) \<noteq> rule_unused
      \<and> (checkForceRule (force_rule (ruler (h r))) \<longrightarrow> of_index (force_data (ruler (h r))) \<noteq> None)"
  have "check_loop (\<lambda>r d. app (h r) d) rules x
      = (case List.find ?stop rules of None \<Rightarrow> x
         | Some r \<Rightarrow> if checkForceRule (force_rule (ruler (h r)))
                     then the (of_index (force_data (ruler (h r)))) else x)"
    by (rule check_loop_first)
      (auto simp: a ok inv apply_force_def checkForceStop_def checkForceRule_def)
  then show ?thesis by (cases rules) (simp_all add: check_force_def first_enum_def)
qed

lemma placement_in_range: "i < 0 \<or> i \<ge> placement_count \<longleftrightarrow> placement_of_index i = None"
  using placement_of_index_Some [of i] by (auto simp del: placement_of_index.simps)

lemma fsp_in_range:
  "i < fsp_index fsp_none \<or> i > fsp_index fsp_extreme \<longleftrightarrow> fsp_of_index i = None"
  using fsp_of_index_Some [of i] by (auto simp del: fsp_of_index.simps)

lemma checkPlacement_first:
  "checkPlacement h rules p
   = first_enum h rules (\<lambda>r. force_placement (forces r)) placement_of_index p"
  unfolding checkPlacement_def
  by (rule check_enum_first [OF applyPlacement_def placement_in_range placement_of_index_inverse])

lemma checkFSP_first:
  "checkFSP h rules l = first_enum h rules (\<lambda>r. force_fsplevel (forces r)) fsp_of_index l"
  unfolding checkFSP_def
  by (rule check_enum_first [OF applyFSP_def [unfolded apply_force_enum_def] fsp_in_range
        fsp_of_index_inverse])

lemma checkFPP_first:
  "checkFPP h rules l = first_enum h rules (\<lambda>r. force_fpplevel (forces r)) fsp_of_index l"
  unfolding checkFPP_def
  by (rule check_enum_first [OF applyFPP_def [unfolded apply_force_enum_def] fsp_in_range
        fsp_of_index_inverse])

section \<open>Maximizing\<close>

lemma check_loop_keeps:
  assumes "\<And>r d. P d \<Longrightarrow> P (fst (f r d))" "P d"
  shows "P (check_loop f rs d)"
  using assms(2)
proof (induction rs arbitrary: d)
  case (Cons r rs)
  obtain d' s where e: "f r d = (d', s)" by (cases "f r d")
  have "P d'" using assms(1) [OF Cons.prems, of r] e by simp
  then show ?case using Cons.IH e by simp
qed simp

section \<open>Discarding\<close>

definition used_up :: "bool \<Rightarrow> int \<Rightarrow> bool" where
  "used_up withdrawn r \<longleftrightarrow> r = action_index action_apply_now
     \<or> r = action_index action_force_temporarily \<and> withdrawn"

definition used_up_force :: "bool \<Rightarrow> int \<Rightarrow> bool" where
  "used_up_force withdrawn r \<longleftrightarrow> withdrawn \<and> r = action_index action_force_temporarily"

definition clear_set :: "bool \<Rightarrow> 'a set_ruler \<Rightarrow> 'a set_ruler" where
  "clear_set w r = (if used_up w (set_rule r) then r\<lparr>set_rule := rule_unused\<rparr> else r)"

definition clear_force :: "bool \<Rightarrow> 'a force_ruler \<Rightarrow> 'a force_ruler" where
  "clear_force w r = (if used_up_force w (force_rule r) then r\<lparr>force_rule := rule_unused\<rparr> else r)"

lemma discard_used_set_eq:
  "discard_used_set w r c = (clear_set w r, c \<or> used_up w (set_rule r))"
  by (auto simp: discard_used_set_def clear_set_def used_up_def Let_def)

lemma discard_used_force_eq:
  "discard_used_force w r c = (clear_force w r, c \<or> used_up_force w (force_rule r))"
  by (auto simp: discard_used_force_def clear_force_def used_up_force_def Let_def)

text \<open>The actions of all attributes.\<close>

definition set_actions :: "rule_sets \<Rightarrow> int list" where
  "set_actions s =
     [set_rule (set_above s), set_rule (set_below s), set_rule (set_desktops s),
      set_rule (set_desktopfile s), set_rule (set_fullscreen s), set_rule (set_ignoregeometry s),
      set_rule (set_maximizehoriz s), set_rule (set_maximizevert s), set_rule (set_minimize s),
      set_rule (set_noborder s), set_rule (set_position s), set_rule (set_screen s),
      set_rule (set_shortcut s), set_rule (set_size s), set_rule (set_skippager s),
      set_rule (set_skipswitcher s), set_rule (set_skiptaskbar s)]"

definition force_actions :: "rule_forces \<Rightarrow> int list" where
  "force_actions f =
     [force_rule (force_acceptfocus f), force_rule (force_autogroup f),
      force_rule (force_autogroupfg f), force_rule (force_autogroupid f),
      force_rule (force_blockcompositing f), force_rule (force_closeable f),
      force_rule (force_decocolor f), force_rule (force_disableglobalshortcuts f),
      force_rule (force_fpplevel f), force_rule (force_fsplevel f), force_rule (force_maxsize f),
      force_rule (force_minsize f), force_rule (force_opacityactive f),
      force_rule (force_opacityinactive f), force_rule (force_placement f),
      force_rule (force_strictgeometry f), force_rule (force_type f)]"

lemma ruling_isEmpty_iff:
  "ruling_isEmpty r \<longleftrightarrow> set (set_actions (sets r)) \<subseteq> {rule_unused}
     \<and> set (force_actions (forces r)) \<subseteq> {rule_unused}"
  by (auto simp: ruling_isEmpty_def sets_empty_def forces_empty_def unused_s_def unused_f_def
      set_actions_def force_actions_def)

lemma set_rule_clear [simp]:
  "set_rule (clear_set w r) = (if used_up w (set_rule r) then rule_unused else set_rule r)"
  by (simp add: clear_set_def)

lemma force_rule_clear [simp]:
  "force_rule (clear_force w r)
   = (if used_up_force w (force_rule r) then rule_unused else force_rule r)"
  by (simp add: clear_force_def)

lemma discard_sets_eq:
  "discard_sets w s c =
     (\<lparr>set_above = clear_set w (set_above s), set_below = clear_set w (set_below s),
       set_ignoregeometry = clear_set w (set_ignoregeometry s), set_desktops = clear_set
       w (set_desktops s), set_desktopfile = clear_set w (set_desktopfile s),
       set_fullscreen = clear_set w (set_fullscreen s), set_maximizehoriz = clear_set w
       (set_maximizehoriz s), set_maximizevert = clear_set w (set_maximizevert s),
       set_minimize = clear_set w (set_minimize s), set_noborder = clear_set w
       (set_noborder s), set_position = clear_set w (set_position s), set_screen =
       clear_set w (set_screen s), set_shortcut = clear_set w (set_shortcut s), set_size
       = clear_set w (set_size s), set_skippager = clear_set w (set_skippager s),
       set_skipswitcher = clear_set w (set_skipswitcher s), set_skiptaskbar = clear_set
       w (set_skiptaskbar s)\<rparr>,
      c \<or> (\<exists>a\<in>set (set_actions s). used_up w a))"
  by (simp add: discard_sets_def discard_used_set_eq set_actions_def)

lemma discard_sets_actions:
  assumes "discard_sets w s c = (s', c')"
  shows "set_actions s' = map (\<lambda>a. if used_up w a then rule_unused else a) (set_actions s)"
    "c' \<longleftrightarrow> c \<or> (\<exists>a\<in>set (set_actions s). used_up w a)"
proof -
  have e: "s' = fst (discard_sets w s c)" "c' = snd (discard_sets w s c)"
    using assms by simp_all
  show "set_actions s' = map (\<lambda>a. if used_up w a then rule_unused else a) (set_actions s)"
    by (simp add: e discard_sets_eq set_actions_def split del: if_split)
  show "c' \<longleftrightarrow> c \<or> (\<exists>a\<in>set (set_actions s). used_up w a)"
    by (simp add: e discard_sets_eq)
qed

lemma discard_forces_eq:
  "discard_forces w s c =
     (\<lparr>force_acceptfocus = clear_force w (force_acceptfocus s), force_autogroup =
       clear_force w (force_autogroup s), force_autogroupfg = clear_force w
       (force_autogroupfg s), force_autogroupid = clear_force w (force_autogroupid s),
       force_blockcompositing = clear_force w (force_blockcompositing s),
       force_closeable = clear_force w (force_closeable s), force_decocolor =
       clear_force w (force_decocolor s), force_disableglobalshortcuts = clear_force w
       (force_disableglobalshortcuts s), force_fpplevel = clear_force w (force_fpplevel
       s), force_fsplevel = clear_force w (force_fsplevel s), force_maxsize =
       clear_force w (force_maxsize s), force_minsize = clear_force w (force_minsize s),
       force_opacityactive = clear_force w (force_opacityactive s),
       force_opacityinactive = clear_force w (force_opacityinactive s), force_placement
       = clear_force w (force_placement s), force_strictgeometry = clear_force w
       (force_strictgeometry s), force_type = clear_force w (force_type s)\<rparr>,
      c \<or> (\<exists>a\<in>set (force_actions s). used_up_force w a))"
  by (simp add: discard_forces_def discard_used_force_eq force_actions_def)

lemma discard_forces_actions:
  assumes "discard_forces w s c = (s', c')"
  shows "force_actions s' = map (\<lambda>a. if used_up_force w a then rule_unused else a) (force_actions s)"
    "c' \<longleftrightarrow> c \<or> (\<exists>a\<in>set (force_actions s). used_up_force w a)"
proof -
  have e: "s' = fst (discard_forces w s c)" "c' = snd (discard_forces w s c)"
    using assms by simp_all
  show "force_actions s' = map (\<lambda>a. if used_up_force w a then rule_unused else a) (force_actions s)"
    by (simp add: e discard_forces_eq force_actions_def split del: if_split)
  show "c' \<longleftrightarrow> c \<or> (\<exists>a\<in>set (force_actions s). used_up_force w a)"
    by (simp add: e discard_forces_eq)
qed

lemma not_used_up_unused [simp]: "\<not> used_up w rule_unused" "\<not> used_up_force w rule_unused"
  by (simp_all add: used_up_def used_up_force_def)

definition discarded :: "bool \<Rightarrow> ruling \<Rightarrow> ruling" where
  "discarded w r = fst (discardUsed w r)"

definition discards :: "bool \<Rightarrow> ruling \<Rightarrow> bool" where
  "discards w r \<longleftrightarrow>
     (\<exists>a\<in>set (set_actions (sets r)). used_up w a)
     \<or> (\<exists>a\<in>set (force_actions (forces r)). used_up_force w a)"

lemma discardUsed_eq: "discardUsed w r = (discarded w r, discards w r)"
  by (auto simp: discarded_def discards_def discardUsed_def discard_sets_eq discard_forces_eq Let_def)

lemma discarded_set_actions:
  "set_actions (sets (discarded w r))
   = map (\<lambda>a. if used_up w a then rule_unused else a) (set_actions (sets r))"
  using discard_sets_actions(1) [of w "sets r" False]
  by (simp add: discarded_def discardUsed_def case_prod_beta prod_eq_iff Let_def)

lemma discarded_force_actions:
  "force_actions (forces (discarded w r))
   = map (\<lambda>a. if used_up_force w a then rule_unused else a) (force_actions (forces r))"
  using discard_forces_actions(1) [of w "forces r"]
  by (simp add: discarded_def discardUsed_def case_prod_beta prod_eq_iff Let_def)

lemma discarded_none: "\<not> discards w (discarded w r)"
  by (auto simp: discards_def discarded_set_actions discarded_force_actions)

text \<open>The data an attribute still in use has is the data it had.\<close>

lemma discarded_matching [simp]:
  "matching (discarded w r) = matching r" "description (discarded w r) = description r"
  by (simp_all add: discarded_def discardUsed_def case_prod_beta Let_def)

lemma discard_loop_eq:
  assumes "distinct todo"
  shows "discard_loop w todo h rules u =
    (filter (\<lambda>r. \<not> (r \<in> set rules \<and> ruling_isEmpty (discarded w (h r)))) todo,
     (\<lambda>r. if r \<in> set todo \<and> r \<in> set rules then discarded w (h r) else h r),
     filter (\<lambda>r. \<not> (r \<in> set todo \<and> ruling_isEmpty (discarded w (h r)))) rules,
     u \<or> (\<exists>r\<in>set todo \<inter> set rules. discards w (h r)))"
  using assms
proof (induction todo arbitrary: h rules u)
  case (Cons it rest)
  have d: "it \<notin> set rest" "distinct rest" using Cons.prems by simp_all
  show ?case
  proof (cases "it \<in> set rules")
    case False
    have "discard_loop w (it # rest) h rules u =
        (let (kept, res) = discard_loop w rest h rules u in (it # kept, res))"
      using False by (simp add: window_contains_def)
    then show ?thesis
      using False d by (auto simp: Cons.IH fun_eq_iff intro!: filter_cong)
  next
    case True
    let ?h = "h(it := discarded w (h it))"
    have hd: "\<And>r. r \<noteq> it \<Longrightarrow> ?h r = h r" by simp
    show ?thesis
    proof (cases "ruling_isEmpty (discarded w (h it))")
      case e: True
      have "discard_loop w (it # rest) h rules u
          = discard_loop w rest ?h (window_remove rules it) (u \<or> discards w (h it))"
        using True e by (simp add: window_contains_def discardUsed_eq)
      also have "\<dots> = (filter (\<lambda>r. \<not> (r \<in> set (window_remove rules it)
            \<and> ruling_isEmpty (discarded w (?h r)))) rest,
          (\<lambda>r. if r \<in> set rest \<and> r \<in> set (window_remove rules it) then discarded w (?h r) else ?h r),
          filter (\<lambda>r. \<not> (r \<in> set rest \<and> ruling_isEmpty (discarded w (?h r))))
            (window_remove rules it),
          (u \<or> discards w (h it))
            \<or> (\<exists>r\<in>set rest \<inter> set (window_remove rules it). discards w (?h r)))"
        by (rule Cons.IH [OF d(2)])
      finally show ?thesis
        using True e d
        by (auto simp: window_remove_def remove_all_def fun_eq_iff intro!: filter_cong)
    next
      case e: False
      have "discard_loop w (it # rest) h rules u
          = (let (kept, res) = discard_loop w rest ?h rules (u \<or> discards w (h it))
             in (it # kept, res))"
        using True e by (simp add: window_contains_def discardUsed_eq)
      then show ?thesis
        using True e d by (auto simp: Cons.IH fun_eq_iff intro!: filter_cong)
    qed
  qed
qed simp

section \<open>Remembering\<close>

definition remembered :: "flag \<Rightarrow> flag \<Rightarrow> 'a \<Rightarrow> 'a set_ruler \<Rightarrow> 'a set_ruler" where
  "remembered sel t v r = (if remember sel r t then r\<lparr>set_data := v\<rparr> else r)"

text \<open>The components of the old pair stay in the directions in which the window is maximized.\<close>

definition merge_pair :: "ref_window \<Rightarrow> int \<times> int \<Rightarrow> int \<times> int \<Rightarrow> int \<times> int" where
  "merge_pair w new old =
     (if flags_any (flag_and (rw_maximize_mode w) maximize_horizontal) then fst old else fst new,
      if flags_any (flag_and (rw_maximize_mode w) maximize_vertical) then snd old else snd new)"

definition remembered_pair ::
    "flag \<Rightarrow> ref_window \<Rightarrow> flag \<Rightarrow> int \<times> int \<Rightarrow> (int \<times> int) set_ruler \<Rightarrow> (int \<times> int) set_ruler" where
  "remembered_pair sel w t v r =
     (if rw_fullscreen w then r else remembered sel t (merge_pair w v (set_data r)) r)"

lemma set_data_update_same: "r\<lparr>set_data := v\<rparr> = r \<longleftrightarrow> set_data r = v"
  by (cases r) auto

lemma remember_data_eq:
  "remember_data sel t v r u = (remembered sel t v r, u \<or> remembered sel t v r \<noteq> r)"
  by (auto simp: remember_data_def remembered_def set_data_update_same)

lemma remember_position_eq:
  "remember_position sel w r u
   = (remembered_pair sel w rtype_position (rw_pos w) r,
      u \<or> remembered_pair sel w rtype_position (rw_pos w) r \<noteq> r)"
  by (auto simp: remember_position_def remembered_pair_def remembered_def merge_pair_def Let_def
      set_data_update_same)

lemma remember_size_eq:
  "remember_size sel w r u
   = (remembered_pair sel w rtype_size (rw_size w) r,
      u \<or> remembered_pair sel w rtype_size (rw_size w) r \<noteq> r)"
  by (auto simp: remember_size_def remembered_pair_def remembered_def merge_pair_def Let_def
      set_data_update_same)

lemma remember_update [simp]:
  "remember sel (r\<lparr>set_data := v\<rparr>) t = remember sel r t"
  by (simp add: remember_def)

lemma remembered_idem [simp]: "remembered sel t v (remembered sel t v r) = remembered sel t v r"
  by (simp add: remembered_def)

lemma merge_pair_idem [simp]: "merge_pair w v (merge_pair w v p) = merge_pair w v p"
  by (simp add: merge_pair_def)

lemma remembered_pair_idem [simp]:
  "remembered_pair sel w t v (remembered_pair sel w t v r) = remembered_pair sel w t v r"
  by (simp add: remembered_pair_def remembered_def)

definition updated_sets :: "ref_window \<Rightarrow> flag \<Rightarrow> rule_sets \<Rightarrow> rule_sets" where
  "updated_sets w sel s =
     \<lparr>set_above = remembered sel rtype_above (rw_keep_above w) (set_above s),
      set_below = remembered sel rtype_below (rw_keep_below w) (set_below s),
      set_ignoregeometry = set_ignoregeometry s,
      set_desktops = remembered sel rtype_desktops (rw_subspaces_ids w) (set_desktops s),
      set_desktopfile = remembered sel rtype_desktop_file (rw_desktop_file_name w)
        (set_desktopfile s),
      set_fullscreen = remembered sel rtype_fullscreen (rw_fullscreen w) (set_fullscreen s),
      set_maximizehoriz = remembered sel rtype_maximize_horiz
        (flags_any (flag_and (rw_maximize_mode w) maximize_horizontal)) (set_maximizehoriz s),
      set_maximizevert = remembered sel rtype_maximize_vert
        (flags_any (flag_and (rw_maximize_mode w) maximize_vertical)) (set_maximizevert s),
      set_minimize = remembered sel rtype_minimize (rw_minimized w) (set_minimize s),
      set_noborder = remembered sel rtype_no_border (rw_no_border w) (set_noborder s),
      set_position = remembered_pair sel w rtype_position (rw_pos w) (set_position s),
      set_screen = remembered sel rtype_screen (rw_output w) (set_screen s),
      set_shortcut = set_shortcut s,
      set_size = remembered_pair sel w rtype_size (rw_size w) (set_size s),
      set_skippager = remembered sel rtype_skip_pager (rw_skip_pager w) (set_skippager s),
      set_skipswitcher = remembered sel rtype_skip_switcher (rw_skip_switcher w)
        (set_skipswitcher s),
      set_skiptaskbar = remembered sel rtype_skip_taskbar (rw_skip_taskbar w)
        (set_skiptaskbar s)\<rparr>"

lemma update_sets_eq: "update_sets s w sel = (updated_sets w sel s, updated_sets w sel s \<noteq> s)"
proof -
  have "updated_sets w sel s \<noteq> s \<longleftrightarrow> snd (update_sets s w sel)"
    by (cases s) (simp add: update_sets_def updated_sets_def remember_data_eq remember_position_eq
        remember_size_eq)
  moreover have "fst (update_sets s w sel) = updated_sets w sel s"
    by (simp add: update_sets_def updated_sets_def remember_data_eq remember_position_eq
        remember_size_eq)
  ultimately show ?thesis by (simp add: prod_eq_iff)
qed

lemma updated_sets_idem: "updated_sets w sel (updated_sets w sel s) = updated_sets w sel s"
  by (simp add: updated_sets_def)

lemma update_rule_eq:
  "update_rule r w sel
   = (r\<lparr>sets := updated_sets w sel (sets r)\<rparr>, updated_sets w sel (sets r) \<noteq> sets r)"
  by (simp add: update_rule_def update_sets_eq)

section \<open>Reading what was written\<close>

lemma read_write_set:
  assumes "set_rule r = rule_unused \<longrightarrow> set_data r = fst e"
  shows "read_set_rule (write_set r e) = r"
  using assms by (cases r) (simp add: read_set_rule_def write_set_def)

text \<open>A ruler that is not used may have any data.\<close>

definition same_set :: "'a set_ruler \<Rightarrow> 'a set_ruler \<Rightarrow> bool" where
  "same_set r r' \<longleftrightarrow> set_rule r = set_rule r'
     \<and> (set_rule r \<noteq> rule_unused \<longrightarrow> set_data r = set_data r')"

definition same_force :: "'a force_ruler \<Rightarrow> 'a force_ruler \<Rightarrow> bool" where
  "same_force r r' \<longleftrightarrow> force_rule r = force_rule r'
     \<and> (force_rule r \<noteq> rule_unused \<longrightarrow> force_data r = force_data r')"

lemma same_read_write_set: "same_set (read_set_rule (write_set r e)) r"
  by (simp add: same_set_def read_set_rule_def write_set_def)

lemma same_read_write_force: "same_force (read_force_rule (write_force r e)) r"
  by (simp add: same_force_def read_force_rule_def write_force_def)

lemma apply_same_set: "same_set r r' \<Longrightarrow> apply_set x r init = apply_set x r' init"
  by (auto simp: same_set_def apply_set_def)

lemma apply_same_force: "same_force r r' \<Longrightarrow> apply_force x r = apply_force x r'"
  by (auto simp: same_force_def apply_force_def)

end
