(* ===== verification/Example_Rules.thy ===== *)
theory Example_Rules
  imports Rule_Book
begin

text \<open>
  A rule that says nothing, for the applications of the properties to concrete states, and the
  functions of Qt it is read with.
\<close>

definition quiet_matching :: rule_matching where
  "quiet_matching =
     \<lparr>wmclass = \<lparr>match_data = ''app'', match_kind = name_match_exact\<rparr>,
      windowrole = \<lparr>match_data = [], match_kind = name_match_unimportant\<rparr>,
      clientmachine = \<lparr>match_data = [], match_kind = name_match_unimportant\<rparr>,
      match_title = \<lparr>match_data = [], match_kind = name_match_unimportant\<rparr>,
      wmclasscomplete = False, match_types = mask_all_types\<rparr>"

definition quiet_ruling :: "qt \<Rightarrow> ruling" where
  "quiet_ruling qt =
     (case readFromSettings qt default_settings of Some r \<Rightarrow> r\<lparr>matching := quiet_matching\<rparr>)"

definition plain_qt :: qt where
  "plain_qt = \<lparr>to_lower = id, to_latin1 = id, from_utf8 = id, regex_has_match = (=),
     locate_color_scheme = (\<lambda>n. n @ ''.colors''), base_name = (\<lambda>p. take (length p - 7) p)\<rparr>"

lemma plain_qt_fields [simp]:
  "to_lower plain_qt = id" "to_latin1 plain_qt = id" "from_utf8 plain_qt = id"
  "locate_color_scheme plain_qt = (\<lambda>n. n @ ''.colors'')"
  "base_name plain_qt = (\<lambda>p. take (length p - 7) p)" "regex_has_match plain_qt = (=)"
  by (simp_all add: plain_qt_def)

end
