(* ===== verification/Rule_Theorems.thy ===== *)
theory Rule_Theorems
  imports Rule_Props Example_Rules
begin

text \<open>
  The properties of the window rules: which rule decides an attribute, what storing a rule keeps,
  what a discarded and a remembered rule is afterwards, and two places where the code does not do
  what it means to.
\<close>

section \<open>A rule that says nothing, and its variants\<close>

lemmas read_defs = readFromSettings_def read_forces_def read_sets_def read_matching_def
  read_type_def read_decocolor_def read_maxsize_def read_minsize_def read_size_def
  read_set_rule_def read_force_rule_def read_bytes_match_def read_string_match_def
  get_deco_color_def Let_def

lemma read_default_forces:
  "read_forces qt default_forces =
     Some \<lparr>force_acceptfocus = \<lparr>force_data = False, force_rule = 0\<rparr>,
       force_autogroup = \<lparr>force_data = False, force_rule = 0\<rparr>,
       force_autogroupfg = \<lparr>force_data = True, force_rule = 0\<rparr>,
       force_autogroupid = \<lparr>force_data = [], force_rule = 0\<rparr>,
       force_blockcompositing = \<lparr>force_data = False, force_rule = 0\<rparr>,
       force_closeable = \<lparr>force_data = False, force_rule = 0\<rparr>,
       force_decocolor = \<lparr>force_data = [], force_rule = 0\<rparr>,
       force_disableglobalshortcuts = \<lparr>force_data = False, force_rule = 0\<rparr>,
       force_fpplevel = \<lparr>force_data = 0, force_rule = 0\<rparr>,
       force_fsplevel = \<lparr>force_data = 0, force_rule = 0\<rparr>,
       force_maxsize = \<lparr>force_data = (32767, 32767), force_rule = 0\<rparr>,
       force_minsize = \<lparr>force_data = (1, 1), force_rule = 0\<rparr>,
       force_opacityactive = \<lparr>force_data = 100, force_rule = 0\<rparr>,
       force_opacityinactive = \<lparr>force_data = 100, force_rule = 0\<rparr>,
       force_placement = \<lparr>force_data = 4, force_rule = 0\<rparr>,
       force_strictgeometry = \<lparr>force_data = False, force_rule = 0\<rparr>,
       force_type = \<lparr>force_data = wt_unknown, force_rule = 0\<rparr>\<rparr>"
  by (simp add: read_defs default_forces_def size_is_empty_def size_is_valid_def)

lemma quiet_sets: "sets (quiet_ruling qt) = read_sets default_sets"
  by (simp add: quiet_ruling_def readFromSettings_def default_settings_def read_default_forces)

lemma quiet_forces: "forces (quiet_ruling qt) = the (read_forces qt default_forces)"
  by (simp add: quiet_ruling_def readFromSettings_def default_settings_def read_default_forces)

lemma quiet_match [simp]:
  "matching (quiet_ruling qt) = quiet_matching" "description (quiet_ruling qt) = []"
  by (simp_all add: quiet_ruling_def readFromSettings_def default_settings_def read_default_forces)

lemma quiet_set_actions: "set_actions (sets (quiet_ruling qt)) = replicate 17 0"
  by (simp add: quiet_sets set_actions_def read_sets_def default_sets_def read_size_def
      read_set_rule_def Let_def action_index.simps numeral_eq_Suc)

lemma quiet_force_actions: "force_actions (forces (quiet_ruling qt)) = replicate 17 0"
  by (simp add: quiet_forces force_actions_def read_default_forces numeral_eq_Suc)

section \<open>Which rule decides\<close>

text \<open>C31. Of the rules that match a window the first one that uses an attribute decides
  it, in the order of the book: when its action takes effect (force, apply now and force
  temporarily always, apply and remember when the window is mapped) the attribute gets the rule's
  value, otherwise it keeps the window's own, and no later rule is asked.\<close>

theorem first_rule_decides:
  "checkMinimize h rules b init = first_set h rules (\<lambda>r. set_minimize (sets r)) b init
   \<and> checkSkipTaskbar h rules b init = first_set h rules (\<lambda>r. set_skiptaskbar (sets r)) b init
   \<and> checkSkipPager h rules b init = first_set h rules (\<lambda>r. set_skippager (sets r)) b init
   \<and> checkSkipSwitcher h rules b init = first_set h rules (\<lambda>r. set_skipswitcher (sets r)) b init
   \<and> checkKeepAbove h rules b init = first_set h rules (\<lambda>r. set_above (sets r)) b init
   \<and> checkKeepBelow h rules b init = first_set h rules (\<lambda>r. set_below (sets r)) b init
   \<and> checkFullScreen h rules b init = first_set h rules (\<lambda>r. set_fullscreen (sets r)) b init
   \<and> checkNoBorder h rules b init = first_set h rules (\<lambda>r. set_noborder (sets r)) b init
   \<and> checkIgnoreGeometry h rules b init = first_set h rules (\<lambda>r. set_ignoregeometry (sets r)) b init
   \<and> checkShortcut h rules s init = first_set h rules (\<lambda>r. set_shortcut (sets r)) s init
   \<and> checkDesktopFile h rules s init = first_set h rules (\<lambda>r. set_desktopfile (sets r)) s init"
  unfolding checkMinimize_def checkSkipTaskbar_def checkSkipPager_def checkSkipSwitcher_def
    checkKeepAbove_def checkKeepBelow_def checkFullScreen_def checkNoBorder_def
    checkIgnoreGeometry_def checkShortcut_def checkDesktopFile_def
  by (intro conjI; rule check_set_first; simp add: apply_set_defs)

text \<open>For the attributes that are only ever forced the first rule in use decides as
  well; for the placement and the two focus levels, which are stored as integers, a rule that
  forces a value outside the enumeration is passed over in favour of the next.\<close>

theorem first_forcing_rule_decides:
  "checkMinSize h rules z = first_force h rules (\<lambda>r. force_minsize (forces r)) z
   \<and> checkMaxSize h rules z = first_force h rules (\<lambda>r. force_maxsize (forces r)) z
   \<and> checkOpacityActive h rules i = first_force h rules (\<lambda>r. force_opacityactive (forces r)) i
   \<and> checkOpacityInactive h rules i = first_force h rules (\<lambda>r. force_opacityinactive (forces r)) i
   \<and> checkType h rules t = first_force h rules (\<lambda>r. force_type (forces r)) t
   \<and> checkBlockCompositing h rules b = first_force h rules (\<lambda>r. force_blockcompositing (forces r)) b
   \<and> checkAcceptFocus h rules b = first_force h rules (\<lambda>r. force_acceptfocus (forces r)) b
   \<and> checkCloseable h rules b = first_force h rules (\<lambda>r. force_closeable (forces r)) b
   \<and> checkStrictGeometry h rules b = first_force h rules (\<lambda>r. force_strictgeometry (forces r)) b
   \<and> checkPlacement h rules p
       = first_enum h rules (\<lambda>r. force_placement (forces r)) placement_of_index p
   \<and> checkFSP h rules l = first_enum h rules (\<lambda>r. force_fsplevel (forces r)) fsp_of_index l
   \<and> checkFPP h rules l = first_enum h rules (\<lambda>r. force_fpplevel (forces r)) fsp_of_index l"
proof -
  have e: "checkPlacement h rules p
       = first_enum h rules (\<lambda>r. force_placement (forces r)) placement_of_index p"
    "checkFSP h rules l = first_enum h rules (\<lambda>r. force_fsplevel (forces r)) fsp_of_index l"
    "checkFPP h rules l = first_enum h rules (\<lambda>r. force_fpplevel (forces r)) fsp_of_index l"
    by (rule checkPlacement_first checkFSP_first checkFPP_first)+
  show ?thesis
    unfolding e checkMinSize_def checkMaxSize_def checkOpacityActive_def checkOpacityInactive_def
      checkType_def checkBlockCompositing_def checkAcceptFocus_def checkCloseable_def
      checkStrictGeometry_def
    by (intro conjI refl; rule check_force_first; simp add: apply_force_defs)
qed

section \<open>No rule takes maximization away\<close>

lemma flag_and_or_keeps: "flags_all_of m k \<Longrightarrow> flags_all_of (flag_or m x) k"
proof -
  assume "flags_all_of m k"
  then have e: "m AND k = k" by (simp add: flag_defs)
  have "(m OR x) AND k = (m AND k) OR (x AND k)" by (rule bit_word_eqI) (auto simp: bit_simps)
  also have "\<dots> = k" unfolding e by (rule bit_word_eqI) (auto simp: bit_simps)
  finally show ?thesis by (simp add: flag_defs)
qed

text \<open>The rules only ever add to the maximize mode: whatever a rule says, even one that
  forces a window not to be maximized in a direction, a window maximized in that direction stays
  so. The value "no" of the two maximize attributes has no effect.\<close>

theorem rules_never_unmaximize:
  assumes "flags_all_of mode k" "k = maximize_vertical \<or> k = maximize_horizontal"
  shows "flags_all_of (checkMaximize h rules mode init) k"
proof -
  have v: "flags_all_of (checkMaximizeVert h rules mode init) k"
    unfolding checkMaximizeVert_def check_set_def
    using check_loop_keeps [of "\<lambda>d. flags_all_of d k"
        "\<lambda>r d. applyMaximizeVert (h r) d init" mode rules] assms(1)
    by (simp add: applyMaximizeVert_def Let_def flag_and_or_keeps)
  have hz: "flags_all_of (checkMaximizeHoriz h rules mode init) k"
    unfolding checkMaximizeHoriz_def check_set_def
    using check_loop_keeps [of "\<lambda>d. flags_all_of d k"
        "\<lambda>r d. applyMaximizeHoriz (h r) d init" mode rules] assms(1)
    by (simp add: applyMaximizeHoriz_def Let_def flag_and_or_keeps)
  have a: "(x AND k) AND k = k" if "flags_all_of x k" for x :: flag
    using that by (simp add: flag_defs ac_simps)
  from assms(2) show ?thesis
  proof
    assume k: "k = maximize_vertical"
    have "flags_all_of (flag_and (checkMaximizeVert h rules mode init) maximize_vertical) k"
      using a [OF v] k by (simp add: flag_defs)
    then show ?thesis unfolding checkMaximize_def Let_def by (rule flag_and_or_keeps)
  next
    assume k: "k = maximize_horizontal"
    have "flags_all_of (flag_and (checkMaximizeHoriz h rules mode init) maximize_horizontal) k"
      using a [OF hz] k by (simp add: flag_defs)
    then have "flags_all_of (flag_or
        (flag_and (checkMaximizeHoriz h rules mode init) maximize_horizontal)
        (flag_and (checkMaximizeVert h rules mode init) maximize_vertical)) k"
      by (rule flag_and_or_keeps)
    then show ?thesis by (simp add: checkMaximize_def Let_def flag_defs or.commute)
  qed
qed

definition forced_restored :: ruling where
  "forced_restored = quiet_ruling plain_qt
     \<lparr>sets := (sets (quiet_ruling plain_qt))
       \<lparr>set_maximizevert := \<lparr>set_data = False, set_rule = action_index action_force\<rparr>\<rparr>\<rparr>"

theorem rules_never_unmaximize_witness:
  "flags_all_of (checkMaximize (\<lambda>_. forced_restored) [1] maximize_full False) maximize_vertical"
  by (rule rules_never_unmaximize) (simp_all add: flag_defs maximize_defs)

section \<open>Discarding\<close>


text \<open>Rule 5 applies once, rule 6 keeps the window above until it is withdrawn and its border away
  for good.\<close>

definition once_rule :: ruling where
  "once_rule = quiet_ruling plain_qt
     \<lparr>sets := (sets (quiet_ruling plain_qt))
       \<lparr>set_above := \<lparr>set_data = True, set_rule = action_index action_apply_now\<rparr>\<rparr>\<rparr>"

definition temporary_rule :: ruling where
  "temporary_rule = quiet_ruling plain_qt
     \<lparr>sets := (sets (quiet_ruling plain_qt))
       \<lparr>set_above := \<lparr>set_data = True, set_rule = action_index action_force_temporarily\<rparr>,
        set_noborder := \<lparr>set_data = True, set_rule = action_index action_force\<rparr>\<rparr>\<rparr>"

definition two_rules :: rule_book where
  "two_rules = \<lparr>m_rules = [5, 6], ruling_at = (\<lambda>r. if r = 5 then once_rule else temporary_rule),
     update_timer = False, updates_disabled = False\<rparr>"

lemma once_rule_empty: "ruling_isEmpty (discarded w once_rule)"
  unfolding ruling_isEmpty_iff discarded_set_actions discarded_force_actions
  by (simp add: once_rule_def quiet_sets quiet_forces read_default_forces set_actions_def
      force_actions_def read_sets_def default_sets_def read_size_def read_set_rule_def Let_def
      used_up_def)



text \<open>The rules belong to the book and several windows point to the same rule. When one
  window uses a rule up, the rule is deleted and taken from that window only: every other window
  that had it keeps a pointer to a rule that is gone from the book.\<close>

theorem discarded_rule_dangles:
  assumes "distinct (m_rules b)" "r \<in> set (m_rules b)" "r \<in> set rules" "r \<in> set other_rules"
    and "ruling_isEmpty (discarded withdrawn (ruling_at b r))"
    and "discard_used_rules rules withdrawn b = (b', rules')"
  shows "r \<notin> set (m_rules b') \<and> \<not> window_contains rules' r \<and> window_contains other_rules r"
proof -
  have "b' = fst (discard_used_rules rules withdrawn b)"
    "rules' = snd (discard_used_rules rules withdrawn b)" using assms(6) by simp_all
  then show ?thesis
    using assms(2-5)
    by (simp add: discard_used_rules_def discard_loop_eq [OF assms(1)] window_contains_def
        requestDiskStorage_def Let_def)
qed

theorem discarded_rule_dangles_witness:
  "5 \<notin> set (m_rules (fst (discard_used_rules [5] False two_rules)))
   \<and> window_contains [5, 6] (5::nat)"
proof -
  obtain b' rules' where e: "discard_used_rules [5] False two_rules = (b', rules')"
    by (cases "discard_used_rules [5] False two_rules")
  have "5 \<notin> set (m_rules b') \<and> \<not> window_contains rules' 5 \<and> window_contains [5, 6] (5::nat)"
    by (rule discarded_rule_dangles [OF _ _ _ _ _ e])
      (simp_all add: two_rules_def once_rule_empty)
  then show ?thesis unfolding e fst_conv by blast
qed

section \<open>Storing a rule\<close>





lemma win_type_of_index_inverse [simp]: "win_type_of_index (win_type_index t) = Some t"
  by (cases t) simp_all










text \<open>A rule for windows of the class "app": kept above by force, opened maximized, with the color
  scheme Dark and a position to remember.\<close>

definition stored_rule :: ruling where
  "stored_rule = quiet_ruling plain_qt
     \<lparr>sets := (sets (quiet_ruling plain_qt))
       \<lparr>set_above := \<lparr>set_data = True, set_rule = action_index action_force\<rparr>,
        set_maximizevert := \<lparr>set_data = True, set_rule = action_index action_apply\<rparr>,
        set_position := \<lparr>set_data = (10, 20), set_rule = action_index action_remember\<rparr>\<rparr>,
      forces := (forces (quiet_ruling plain_qt))
       \<lparr>force_decocolor := \<lparr>force_data = ''Dark.colors'', force_rule = action_index action_force\<rparr>\<rparr>\<rparr>"



section \<open>Remembering\<close>

text \<open>Letting a rule remember the state of a window reports a change exactly when
  the rule changed, keeps everything but the data of its remembering attributes, and a second call
  on the same window changes nothing.\<close>

theorem update_rule_once:
  assumes "update_rule r w selection = (r', updated)"
  shows "(updated \<longleftrightarrow> r' \<noteq> r) \<and> update_rule r' w selection = (r', False)
    \<and> matching r' = matching r \<and> forces r' = forces r
    \<and> set_actions (sets r') = set_actions (sets r)"
proof -
  have r': "r' = r\<lparr>sets := updated_sets w selection (sets r)\<rparr>"
    and u: "updated \<longleftrightarrow> updated_sets w selection (sets r) \<noteq> sets r"
    using assms by (simp_all add: update_rule_eq)
  have rr: "r\<lparr>sets := s\<rparr> = r \<longleftrightarrow> s = sets r" for s
    by (cases r) auto
  have a: "set_rule (remembered sel t v x) = set_rule x" for sel t and v :: 'a and x
    by (simp add: remembered_def)
  have "set_actions (updated_sets w selection (sets r)) = set_actions (sets r)"
    by (simp add: set_actions_def updated_sets_def remembered_def remembered_pair_def)
  then show ?thesis
    by (simp add: r' u update_rule_eq updated_sets_idem rr)
qed

text \<open>A window kept above, at (5, 6), of size 70 times 80.\<close>

definition seen_window :: ref_window where
  "seen_window =
     \<lparr>rw_type = wt_normal, rw_res_class = ''app'', rw_res_name = ''app'', rw_role = [],
      rw_machine = None, rw_caption = [], rw_keep_above = True, rw_keep_below = False,
      rw_subspaces_ids = [], rw_desktop_file_name = [], rw_fullscreen = False,
      rw_maximize_mode = maximize_restore, rw_minimized = False, rw_no_border = False,
      rw_pos = (5, 6), rw_size = (70, 80), rw_output = 0, rw_skip_pager = False,
      rw_skip_switcher = False, rw_skip_taskbar = False\<rparr>"

theorem update_rule_once_witness:
  "\<exists>r' u. update_rule stored_rule seen_window rtype_all = (r', u)
     \<and> update_rule r' seen_window rtype_all = (r', False)"
proof -
  obtain r' u where e: "update_rule stored_rule seen_window rtype_all = (r', u)"
    by (cases "update_rule stored_rule seen_window rtype_all")
  show ?thesis using update_rule_once [OF e] e by blast
qed




end
