(* ===== verification/Focus_Stealing.thy ===== *)
theory Focus_Stealing
  imports Same_Application Layers Rule_Props
begin

text \<open>
  Focus stealing prevention: como/win/x11/focus_stealing.h with user_time.h and timestampCompare of
  net/win_info.cpp. A timestamp is a 32-bit word; the largest one means no time.

  None is the dereference of a control a window does not have, or the failed assert that an X11
  window has a group.
\<close>

type_synonym timestamp = "32 word"

definition no_time :: timestamp where "no_time = -1"

definition timestampCompare :: "timestamp \<Rightarrow> timestamp \<Rightarrow> int" where
  "timestampCompare time1 time2 =
     (if time1 = time2 then 0 else if time1 - time2 < 0x7fffffff then 1 else -1)"

text \<open>What the decisions read beside the space: the option and the session state, the rules of the
  windows, the times of windows and groups, and the window that was active last.\<close>

record focus_env =
  prevention_level :: fsp_level
  session_saving :: bool
  rules_of :: "wid \<Rightarrow> rid list"
  rules_heap :: ruling_heap
  win_user_time :: "wid \<Rightarrow> timestamp"
  group_user_time :: "nat \<Rightarrow> timestamp"
  net_user_time :: "wid \<Rightarrow> timestamp"
  last_active :: "wid option"

definition has_user_time_support :: "focus_env \<Rightarrow> wid \<Rightarrow> bool" where
  "has_user_time_support env w \<longleftrightarrow> net_user_time env w \<noteq> no_time"

text \<open>user_time of user_time.h, what userTime() of an X11 window returns; the other window classes
  return 0.\<close>

definition x11_user_time :: "focus_env \<Rightarrow> space \<Rightarrow> wid \<Rightarrow> timestamp option" where
  "x11_user_time env sp w =
     (let time = win_user_time env w
      in if time = 0 then Some 0
         else do {
           g \<leftarrow> win_group (win sp w);
           Some (if time = no_time
                    \<or> (group_user_time env g \<noteq> no_time
                       \<and> timestampCompare (group_user_time env g) time > 0)
                 then group_user_time env g else time)
         })"

definition userTime :: "focus_env \<Rightarrow> space \<Rightarrow> wid \<Rightarrow> timestamp option" where
  "userTime env sp w =
     (if win_class (win sp w) = X11_Window then x11_user_time env sp w else Some 0)"

definition window_fsp :: "focus_env \<Rightarrow> space \<Rightarrow> wid \<Rightarrow> fsp_level option" where
  "window_fsp env sp w =
     do {
       _ \<leftarrow> win_control (win sp w);
       Some (checkFSP (rules_heap env) (rules_of env w) (prevention_level env))
     }"

definition window_fpp :: "focus_env \<Rightarrow> space \<Rightarrow> wid \<Rightarrow> fsp_level option" where
  "window_fpp env sp w =
     do {
       _ \<leftarrow> win_control (win sp w);
       Some (checkFPP (rules_heap env) (rules_of env w) fsp_medium)
     }"

text \<open>The part of allow_window_activation after the protection of the active window is known.\<close>

definition activation_decision ::
    "focus_env \<Rightarrow> space \<Rightarrow> wid \<Rightarrow> timestamp \<Rightarrow> bool \<Rightarrow> fsp_level \<Rightarrow> fsp_level \<Rightarrow> wid option \<Rightarrow> bool option" where
  "activation_decision env sp w time ignore_subspace level protection ac =
     (if level = fsp_none \<or> protection = fsp_none then Some True
      else if level = fsp_extreme \<or> protection = fsp_extreme then Some False
      else if \<not> ignore_subspace \<and> \<not> on_current_subspace sp w then Some False
      else case ac of
          None \<Rightarrow> Some True
        | Some a \<Rightarrow>
            if is_desktop (win sp a) then Some True
            else do {
              same \<leftarrow> belong_to_same_client sp w a relaxed_for_active;
              if same \<and> protection < fsp_high then Some True
              else if \<not> on_current_subspace sp w then Some False
              else if level > fsp_medium \<and> protection > fsp_low then Some False
              else if time = no_time then Some (level < fsp_medium \<and> protection < fsp_high)
              else do {
                user_time \<leftarrow> userTime env sp a;
                Some (timestampCompare time user_time \<ge> 0)
              }
            })"

definition allow_window_activation ::
    "focus_env \<Rightarrow> space \<Rightarrow> wid \<Rightarrow> timestamp \<Rightarrow> bool \<Rightarrow> bool \<Rightarrow> bool option" where
  "allow_window_activation env sp w time focus_in ignore_subspace =
     do {
       time \<leftarrow> (if time = no_time then userTime env sp w else Some time);
       level \<leftarrow> window_fsp env sp w;
       if session_saving env \<and> fsp_index level \<le> fsp_index fsp_medium then Some True
       else if focus_in \<and> contains (should_get_focus sp) w then Some True
       else do {
         let ac = (if focus_in then last_active env else most_recently_activated_window sp);
         if time = 0 \<and> \<not> checkAcceptFocus (rules_heap env) (rules_of env w) False then Some False
         else do {
           protection \<leftarrow> (case ac of Some a \<Rightarrow> window_fpp env sp a | None \<Rightarrow> Some fsp_none);
           activation_decision env sp w time ignore_subspace level protection ac
         }
       }
     }"

text \<open>The part of allow_full_window_raising after the session state is checked.\<close>

definition raising_decision ::
    "focus_env \<Rightarrow> space \<Rightarrow> wid \<Rightarrow> timestamp \<Rightarrow> fsp_level \<Rightarrow> bool option" where
  "raising_decision env sp w time level =
     (if level = fsp_none then Some True
      else if level = fsp_extreme then Some False
      else case most_recently_activated_window sp of
          None \<Rightarrow> Some True
        | Some ac \<Rightarrow>
            if is_desktop (win sp ac) then Some True
            else do {
              same \<leftarrow> belong_to_same_client sp w ac relaxed_for_active;
              if same then Some True
              else if level = fsp_high then Some False
              else do {
                user_time \<leftarrow> userTime env sp ac;
                Some (timestampCompare time user_time \<ge> 0)
              }
            })"

definition allow_full_window_raising :: "focus_env \<Rightarrow> space \<Rightarrow> wid \<Rightarrow> timestamp \<Rightarrow> bool option" where
  "allow_full_window_raising env sp w time =
     do {
       level \<leftarrow> window_fsp env sp w;
       if session_saving env \<and> fsp_index level \<le> fsp_index fsp_medium then Some True
       else raising_decision env sp w time level
     }"

section \<open>Updating the user time (user_time.h, group.h)\<close>

text \<open>The clock is the argument \<open>now\<close>; 0 is XCB_TIME_CURRENT_TIME.\<close>

definition group_updateUserTime :: "timestamp \<Rightarrow> nat \<Rightarrow> timestamp \<Rightarrow> focus_env \<Rightarrow> focus_env" where
  "group_updateUserTime now g time env =
     (let time = (if time = 0 then now else time)
      in if time \<noteq> no_time
            \<and> (group_user_time env g = 0 \<or> timestampCompare time (group_user_time env g) > 0)
         then env\<lparr>group_user_time := (group_user_time env)(g := time)\<rparr> else env)"

definition update_user_time :: "timestamp \<Rightarrow> space \<Rightarrow> wid \<Rightarrow> timestamp \<Rightarrow> focus_env \<Rightarrow> focus_env option" where
  "update_user_time now sp w time env =
     (let time = (if time = 0 then now else time);
          env = (if time \<noteq> no_time
                    \<and> (win_user_time env w = 0 \<or> timestampCompare time (win_user_time env w) > 0)
                 then env\<lparr>win_user_time := (win_user_time env)(w := time)\<rparr> else env)
      in do {
        g \<leftarrow> win_group (win sp w);
        Some (group_updateUserTime now g (win_user_time env w) env)
      })"

section \<open>Lemmas\<close>

lemma first_enum_option:
  "(\<exists>v. \<forall>x. first_enum h rules ruler of_index x = v)
   \<or> (\<forall>x. first_enum h rules ruler of_index x = x)"
  by (auto simp: first_enum_def split: option.split)

lemma checkFSP_mono: "a \<le> b \<Longrightarrow> checkFSP h rules a \<le> checkFSP h rules b"
  using first_enum_option [of h rules "\<lambda>r. force_fsplevel (forces r)" fsp_of_index]
  by (auto simp: checkFSP_first)

lemma fsp_bounds: "fsp_none \<le> l" "l \<le> fsp_extreme" for l :: fsp_level
  by (cases l; simp add: less_eq_fsp_level_def)+

lemma fsp_order_simps [simp]:
  "(fsp_none \<le> l) = True" "(l \<le> fsp_extreme) = True"
  "(l \<le> fsp_none) = (l = fsp_none)" "(fsp_extreme \<le> l) = (l = fsp_extreme)"
  by (cases l; simp add: less_eq_fsp_level_def)+

end
