(* ===== verification/Focus_Stealing_Theorems.thy ===== *)
theory Focus_Stealing_Theorems
  imports Focus_Stealing Example_Space Rule_Theorems
begin

text \<open>
  The properties of focus stealing prevention: the order of timestamps across the wrap-around, that
  a higher level of prevention never allows more, and what the highest level still allows.
\<close>

lemma word_diff_less:
  fixes a b :: timestamp
  shows "a - b \<noteq> 0 \<Longrightarrow> uint (b - a) = 4294967296 - uint (a - b)"
proof -
  assume "a - b \<noteq> 0"
  then have "uint (a - b) \<noteq> 0" by (simp add: uint_0_iff)
  then have p: "0 < uint (a - b)" using uint_ge_0 [of "a - b"] by linarith
  have "b - a = - (a - b)" by simp
  then have "uint (b - a) = (- uint (a - b)) mod 4294967296"
    using uint_word_ariths(4) [of "a - b"] by simp
  also have "\<dots> = 4294967296 - uint (a - b)"
    using p uint_lt2p [of "a - b"] by (simp add: zmod_zminus1_eq_if)
  finally show ?thesis .
qed

text \<open>Timestamps are compared on the circle of 32-bit values: shifting both changes
  nothing, a time up to 0x7ffffffe ticks later is later also across the wrap-around, and swapping
  the arguments swaps the answer, except for times about half the circle apart, where the first
  argument is the earlier one either way.\<close>

theorem timestampCompare_on_circle:
  fixes t1 t2 d :: timestamp
  shows "timestampCompare (t1 + d) (t2 + d) = timestampCompare t1 t2
    \<and> (0 < d \<and> d < 0x7fffffff \<longrightarrow> timestampCompare (t1 + d) t1 = 1)
    \<and> (if t1 - t2 \<in> {0x7fffffff, 0x80000000, 0x80000001}
       then timestampCompare t1 t2 = -1 \<and> timestampCompare t2 t1 = -1
       else timestampCompare t2 t1 = - timestampCompare t1 t2)"
proof -
  have shift: "timestampCompare (t1 + d) (t2 + d) = timestampCompare t1 t2"
    by (simp add: timestampCompare_def)
  have later: "timestampCompare (t1 + d) t1 = 1" if "0 < d \<and> d < 0x7fffffff"
    using that by (auto simp: timestampCompare_def)
  have swap: "if t1 - t2 \<in> {0x7fffffff, 0x80000000, 0x80000001}
       then timestampCompare t1 t2 = -1 \<and> timestampCompare t2 t1 = -1
       else timestampCompare t2 t1 = - timestampCompare t1 t2"
  proof (cases "t1 = t2")
    case True
    then show ?thesis by (simp add: timestampCompare_def)
  next
    case False
    then have nz: "t1 - t2 \<noteq> 0" by simp
    let ?u = "uint (t1 - t2)"
    have v: "uint (t2 - t1) = 4294967296 - ?u" by (rule word_diff_less [OF nz])
    have "t1 - t2 \<in> {0x7fffffff, 0x80000000, 0x80000001}
        \<longleftrightarrow> ?u \<in> {2147483647, 2147483648, 2147483649}"
      by (simp add: word_uint_eq_iff)
    moreover have "t1 - t2 < 0x7fffffff \<longleftrightarrow> ?u < 2147483647" by (simp add: word_less_def)
    moreover have "t2 - t1 < 0x7fffffff \<longleftrightarrow> 4294967296 - ?u < 2147483647"
      by (simp add: word_less_def v)
    ultimately show ?thesis
      using False by (auto simp: timestampCompare_def)
  qed
  show ?thesis using shift later swap by blast
qed

theorem timestampCompare_on_circle_witness:
  "timestampCompare 5 (0xfffffff0 :: timestamp) = 1"
proof -
  have e: "(5 :: timestamp) = 0xfffffff0 + 21" by simp
  have d: "0 < (21 :: timestamp) \<and> (21 :: timestamp) < 0x7fffffff" by simp
  show ?thesis
    unfolding e
    using timestampCompare_on_circle [of "0xfffffff0" 21 0, THEN conjunct2, THEN conjunct1] d
    by blast
qed

section \<open>Monotonicity\<close>

lemma belong_same_total:
  assumes "belong_to_same_client sp w a c = Some b"
  shows "belong_to_same_client sp w a c \<noteq> None"
  using assms by simp

lemma window_fsp_level:
  "window_fsp (env\<lparr>prevention_level := l\<rparr>) sp w
   = (case win_control (win sp w) of None \<Rightarrow> None
      | Some _ \<Rightarrow> Some (checkFSP (rules_heap env) (rules_of env w) l))"
  by (simp add: window_fsp_def split: option.split)

lemma window_fpp_level [simp]:
  "window_fpp (env\<lparr>prevention_level := l\<rparr>) sp w = window_fpp env sp w"
  by (simp add: window_fpp_def)

lemma userTime_level [simp]:
  "userTime (env\<lparr>prevention_level := l\<rparr>) sp w = userTime env sp w"
  by (simp add: userTime_def x11_user_time_def Let_def cong: if_cong)

lemma decision_level [simp]:
  "activation_decision (env\<lparr>prevention_level := l\<rparr>) sp w t i lev p ac
   = activation_decision env sp w t i lev p ac"
  "raising_decision (env\<lparr>prevention_level := l\<rparr>) sp w t lev = raising_decision env sp w t lev"
  unfolding activation_decision_def raising_decision_def userTime_level by (rule refl)+

lemma fsp_cases_below:
  fixes k1 k2 :: fsp_level
  assumes "k1 \<le> k2" "k2 \<noteq> k1" "k1 \<noteq> fsp_none"
  shows "k2 \<noteq> fsp_none" "k1 \<noteq> fsp_extreme" "k1 \<noteq> fsp_high \<or> k2 = fsp_extreme"
  using assms by (cases k1; cases k2; simp add: less_eq_fsp_level_def)+

lemma raising_decision_mono:
  assumes "k1 \<le> k2" "raising_decision env sp w time k2 = Some True"
  shows "raising_decision env sp w time k1 = Some True"
proof (cases "k1 = fsp_none \<or> k2 = k1")
  case False
  then have l: "k1 \<noteq> fsp_none" "k2 \<noteq> fsp_none" "k1 \<noteq> fsp_extreme" "k1 \<noteq> fsp_high \<or> k2 = fsp_extreme"
    using fsp_cases_below [OF assms(1)] by blast+
  have x: "k2 \<noteq> fsp_extreme" using assms(2) by (auto simp: raising_decision_def)
  show ?thesis
  proof (cases "most_recently_activated_window sp")
    case None
    then show ?thesis using l by (simp add: raising_decision_def)
  next
    case (Some ac)
    have h: "k2 \<noteq> fsp_high \<Longrightarrow> k1 \<noteq> fsp_high" using l x by blast
    show ?thesis
    proof (cases "belong_to_same_client sp w ac relaxed_for_active")
      case None
      then show ?thesis using assms(2) l x Some by (simp add: raising_decision_def split: if_splits)
    next
      case (Some same)
      then show ?thesis
        using assms(2) l x h \<open>most_recently_activated_window sp = Some ac\<close>
        by (cases same; cases "k2 = fsp_high") (simp_all add: raising_decision_def split: if_splits)
    qed
  qed
qed (use assms in \<open>auto simp: raising_decision_def\<close>)

text \<open>A window allowed to raise itself above the active one at some level of focus
  stealing prevention is allowed to at every lower level.\<close>

theorem raising_prevention_monotone:
  assumes "l1 \<le> l2"
    and "allow_full_window_raising (env\<lparr>prevention_level := l2\<rparr>) sp w time = Some True"
  shows "allow_full_window_raising (env\<lparr>prevention_level := l1\<rparr>) sp w time = Some True"
proof -
  obtain ctl where c: "win_control (win sp w) = Some ctl"
    using assms(2) by (auto simp: allow_full_window_raising_def window_fsp_level split: option.splits)
  let ?k1 = "checkFSP (rules_heap env) (rules_of env w) l1"
  let ?k2 = "checkFSP (rules_heap env) (rules_of env w) l2"
  have k: "?k1 \<le> ?k2" by (rule checkFSP_mono [OF assms(1)])
  then have i: "fsp_index ?k1 \<le> fsp_index ?k2" by (simp add: less_eq_fsp_level_def)
  show ?thesis
    using assms(2) i
    by (auto simp: allow_full_window_raising_def window_fsp_level c
        intro: raising_decision_mono [OF k] split: if_splits)
qed

lemma activation_decision_mono:
  assumes "k1 \<le> k2" "activation_decision env sp w time i k2 p ac = Some True"
  shows "activation_decision env sp w time i k1 p ac = Some True"
proof (cases "k1 = fsp_none \<or> k2 = k1 \<or> p = fsp_none")
  case False
  then have l: "k1 \<noteq> fsp_none" "k2 \<noteq> fsp_none" "k1 \<noteq> fsp_extreme" "p \<noteq> fsp_none"
    using fsp_cases_below [OF assms(1)] by blast+
  have x: "k2 \<noteq> fsp_extreme" "p \<noteq> fsp_extreme"
    using assms(2) l by (auto simp: activation_decision_def split: if_splits)
  have m: "k2 < fsp_medium \<Longrightarrow> k1 < fsp_medium" "k1 > fsp_medium \<Longrightarrow> k2 > fsp_medium"
    using assms(1) by auto
  show ?thesis
  proof (cases ac)
    case None
    then show ?thesis
      using assms(2) l x by (simp add: activation_decision_def split: if_splits)
  next
    case (Some a)
    show ?thesis
      using assms(2) l x m Some
      by (auto simp: activation_decision_def bind_eq_Some_conv simp del: fsp_order_simps split: if_splits)
  qed
next
  case True
  then show ?thesis
  proof (elim disjE)
    assume "k2 = k1"
    with assms(2) show ?thesis by simp
  qed (simp_all add: activation_decision_def)
qed

lemma allow_window_activation_iff:
  assumes "win_control (win sp w) = Some ctl"
  shows "allow_window_activation (env\<lparr>prevention_level := l\<rparr>) sp w time focus_in ignore = Some True
    \<longleftrightarrow> (\<exists>t. (if time = no_time then userTime env sp w else Some time) = Some t
      \<and> (session_saving env
            \<and> fsp_index (checkFSP (rules_heap env) (rules_of env w) l) \<le> fsp_index fsp_medium
         \<or> focus_in \<and> contains (should_get_focus sp) w
         \<or> \<not> (t = 0 \<and> \<not> checkAcceptFocus (rules_heap env) (rules_of env w) False)
            \<and> (\<exists>p. (case (if focus_in then last_active env else most_recently_activated_window sp) of
                    Some a \<Rightarrow> window_fpp env sp a | None \<Rightarrow> Some fsp_none) = Some p
                 \<and> activation_decision env sp w t ignore
                     (checkFSP (rules_heap env) (rules_of env w) l) p
                     (if focus_in then last_active env else most_recently_activated_window sp)
                   = Some True)))"
proof (cases "if time = no_time then userTime env sp w else Some time")
  case None
  then show ?thesis
    by (simp only: allow_window_activation_def userTime_level bind.bind_lzero option.distinct simp_thms)
next
  case (Some t)
  show ?thesis
    unfolding allow_window_activation_def window_fsp_level assms option.case Let_def
      userTime_level decision_level window_fpp_level Some bind.bind_lunit focus_env.simps
    by (simp only: bind_eq_Some_conv if_split_eq1) fastforce
qed

text \<open>C32. The same for activation: whatever the window, the time and the way the request
  came in, a level at which the window may take the focus can only be lowered without it being
  refused; with a rule that forces the level for the window the option has no influence.\<close>

theorem activation_prevention_monotone:
  assumes "l1 \<le> l2"
    and "allow_window_activation (env\<lparr>prevention_level := l2\<rparr>) sp w time focus_in ignore = Some True"
  shows "allow_window_activation (env\<lparr>prevention_level := l1\<rparr>) sp w time focus_in ignore = Some True"
proof -
  obtain ctl where c: "win_control (win sp w) = Some ctl"
    using assms(2)
    by (auto simp: allow_window_activation_def window_fsp_level bind_eq_Some_conv split: option.splits)
  let ?k1 = "checkFSP (rules_heap env) (rules_of env w) l1"
  let ?k2 = "checkFSP (rules_heap env) (rules_of env w) l2"
  have k: "?k1 \<le> ?k2" by (rule checkFSP_mono [OF assms(1)])
  then have i: "fsp_index ?k1 \<le> fsp_index ?k2" by (simp add: less_eq_fsp_level_def)
  from assms(2) show ?thesis
    unfolding allow_window_activation_iff [OF c]
    using order_trans [OF i] activation_decision_mono [OF k] by blast
qed

definition quiet_env :: focus_env where
  "quiet_env =
     \<lparr>prevention_level = fsp_medium, session_saving = False, rules_of = (\<lambda>w. []),
      rules_heap = (\<lambda>r. quiet_ruling plain_qt), win_user_time = (\<lambda>w. 100),
      group_user_time = (\<lambda>g. no_time), net_user_time = (\<lambda>w. no_time), last_active = None\<rparr>"

lemma quiet_env_fields [simp]:
  "rules_of quiet_env = (\<lambda>w. [])" "session_saving quiet_env = False"
  "win_user_time quiet_env = (\<lambda>w. 100)" "group_user_time quiet_env = (\<lambda>g. no_time)"
  by (simp_all add: quiet_env_def)

text \<open>Window 3 is active; window 1 belongs to another application.\<close>

definition busy_space :: space where
  "busy_space = (plain_space ((\<lambda>w. plain_window)
       (1 := plain_window\<lparr>xcb_client := 11, res_class := ''other'', win_group := Some 8\<rparr>,
        3 := plain_window\<lparr>xcb_client := 13\<rparr>)) [1, 3])\<lparr>active := Some 3\<rparr>"

lemma busy_facts:
  "should_get_focus busy_space = []" "active busy_space = Some 3"
  "win_control (win busy_space w) = Some plain_control"
  "window_type (win busy_space w) = wt_normal" "win_class (win busy_space w) = X11_Window"
  "topo_subspaces (win busy_space w) = []" "win_group (win busy_space 3) = Some 7"
  "lead (heap busy_space) w = None"
  by (simp_all add: busy_space_def lead_def)

lemma busy_other: "belong_to_same_client busy_space 1 3 relaxed_for_active = Some False"
proof -
  have "win_group (win busy_space 1) = Some 8" "res_class (win busy_space 1) = ''other''"
    "res_class (win busy_space 3) = ''c''" "xcb_client (win busy_space 1) = 11"
    "xcb_client (win busy_space 3) = 13" "wm_client_leader (win busy_space 1) = 0"
    "wm_client_leader (win busy_space 3) = 0"
    by (simp_all add: busy_space_def plain_window_def)
  then show ?thesis
    by (simp add: belong_to_same_client_def x11_belong_to_same_application_def busy_facts
        get_wm_client_leader_def Let_def del: One_nat_def)
qed

lemma quiet_check: "checkFSP h [] l = l" "checkFPP h [] l = l" "checkAcceptFocus h [] b = b"
  by (simp_all add: checkFSP_def checkFPP_def checkAcceptFocus_def check_force_def)

theorem raising_prevention_monotone_witness:
  "allow_full_window_raising (quiet_env\<lparr>prevention_level := fsp_low\<rparr>) busy_space 1 200 = Some True"
proof -
  have "userTime quiet_env busy_space 3 = Some 100"
    by (simp add: userTime_def x11_user_time_def busy_facts no_time_def)
  then have "allow_full_window_raising (quiet_env\<lparr>prevention_level := fsp_medium\<rparr>) busy_space 1 200
      = Some True"
    using busy_other
    by (simp add: allow_full_window_raising_def raising_decision_def window_fsp_level busy_facts quiet_check
        most_recently_activated_window_def is_desktop_def timestampCompare_def)
  then show ?thesis by (rule raising_prevention_monotone [rotated]) (simp add: less_eq_fsp_level_def)
qed

theorem activation_prevention_monotone_witness:
  "allow_window_activation (quiet_env\<lparr>prevention_level := fsp_low\<rparr>) busy_space 1 200 False False
   = Some True"
proof -
  have "userTime quiet_env busy_space 3 = Some 100"
    by (simp add: userTime_def x11_user_time_def busy_facts no_time_def)
  then have "allow_window_activation (quiet_env\<lparr>prevention_level := fsp_medium\<rparr>) busy_space 1 200
      False False = Some True"
    using busy_other
    by (simp add: allow_window_activation_def window_fsp_level window_fpp_def busy_facts quiet_check
        most_recently_activated_window_def is_desktop_def timestampCompare_def
        activation_decision_def no_time_def on_current_subspace_def on_subspace_ptr_def
        on_all_subspaces_def less_fsp_level_def)
  then show ?thesis
    by (rule activation_prevention_monotone [rotated]) (simp add: less_eq_fsp_level_def)
qed

section \<open>The highest level\<close>

text \<open>At the level extreme, where by the documentation no window gets the focus without
  the user, a window still gets it whenever no window is active: without an active window the
  protection is none, and that is asked before the level. Raising is refused in the same state.\<close>

theorem extreme_level_allows_without_active:
  assumes "win_control (win sp w) \<noteq> None" "most_recently_activated_window sp = None"
    and "checkFSP (rules_heap env) (rules_of env w) (prevention_level env) = fsp_extreme"
    and "time \<noteq> 0" "time \<noteq> no_time"
  shows "allow_window_activation env sp w time False ignore = Some True
    \<and> allow_full_window_raising env sp w time = Some False"
  using assms
  by (auto simp: allow_window_activation_def allow_full_window_raising_def raising_decision_def window_fsp_def
      activation_decision_def less_eq_fsp_level_def)

theorem extreme_level_allows_without_active_witness:
  "allow_window_activation (quiet_env\<lparr>prevention_level := fsp_extreme\<rparr>) small_space 1 200 False False
   = Some True"
proof -
  have "most_recently_activated_window small_space = None"
    by (simp add: most_recently_activated_window_def small_space_def)
  moreover have "win_control (win small_space 1) \<noteq> None" by (simp add: small_heap_def)
  ultimately show ?thesis
    using extreme_level_allows_without_active [of small_space 1
        "quiet_env\<lparr>prevention_level := fsp_extreme\<rparr>" 200 False]
    by (simp add: quiet_check no_time_def)
qed

end
