(* ===== verification/Gestures.thy ===== *)
theory Gestures
  imports Win_Types Complex_Main
begin

text \<open>
  Touchpad and touchscreen gestures: como/win/input/gestures.h and gestures.cpp. A gesture is an
  object that emits signals, the recognizer keeps the registered gestures and those that may still
  match.

  A finite qreal is a rational number. A quotient by zero is infinite, which std::min and std::clamp
  cut to 1, or NaN. A gesture is a pointer, the two classes have their own; slots that call back into
  the recognizer are not modelled. None is a failed assertion or an unreachable branch.
\<close>

section \<open>The gestures\<close>

type_synonym sizef = "rat \<times> rat"

abbreviation width :: "sizef \<Rightarrow> rat" where "width \<equiv> fst"
abbreviation height :: "sizef \<Rightarrow> rat" where "height \<equiv> snd"

datatype qreal = NaN | Num rat

record swipe_gesture =
  m_minimumFingerCountRelevant :: bool
  m_minimumFingerCount :: nat
  m_maximumFingerCountRelevant :: bool
  m_maximumFingerCount :: nat
  m_direction :: swipe_direction
  m_minimumXRelevant :: bool
  m_minimumX :: int
  m_minimumYRelevant :: bool
  m_minimumY :: int
  m_maximumXRelevant :: bool
  m_maximumX :: int
  m_maximumYRelevant :: bool
  m_maximumY :: int
  m_minimumDeltaRelevant :: bool
  m_minimumDelta :: sizef

text \<open>A default-constructed QSizeF is (-1, -1).\<close>

definition new_swipe_gesture :: swipe_gesture where
  "new_swipe_gesture =
     \<lparr>m_minimumFingerCountRelevant = False, m_minimumFingerCount = 0,
      m_maximumFingerCountRelevant = False, m_maximumFingerCount = 0, m_direction = swipe_down,
      m_minimumXRelevant = False, m_minimumX = 0, m_minimumYRelevant = False, m_minimumY = 0,
      m_maximumXRelevant = False, m_maximumX = 0, m_maximumYRelevant = False, m_maximumY = 0,
      m_minimumDeltaRelevant = False, m_minimumDelta = (-1, -1)\<rparr>"

definition setMinimumFingerCount :: "nat \<Rightarrow> swipe_gesture \<Rightarrow> swipe_gesture" where
  "setMinimumFingerCount n g = g\<lparr>m_minimumFingerCount := n, m_minimumFingerCountRelevant := True\<rparr>"

definition setMaximumFingerCount :: "nat \<Rightarrow> swipe_gesture \<Rightarrow> swipe_gesture" where
  "setMaximumFingerCount n g = g\<lparr>m_maximumFingerCount := n, m_maximumFingerCountRelevant := True\<rparr>"

definition setDirection :: "swipe_direction \<Rightarrow> swipe_gesture \<Rightarrow> swipe_gesture" where
  "setDirection d g = g\<lparr>m_direction := d\<rparr>"

definition setMinimumX :: "int \<Rightarrow> swipe_gesture \<Rightarrow> swipe_gesture" where
  "setMinimumX x g = g\<lparr>m_minimumX := x, m_minimumXRelevant := True\<rparr>"

definition setMinimumY :: "int \<Rightarrow> swipe_gesture \<Rightarrow> swipe_gesture" where
  "setMinimumY y g = g\<lparr>m_minimumY := y, m_minimumYRelevant := True\<rparr>"

definition setMaximumX :: "int \<Rightarrow> swipe_gesture \<Rightarrow> swipe_gesture" where
  "setMaximumX x g = g\<lparr>m_maximumX := x, m_maximumXRelevant := True\<rparr>"

definition setMaximumY :: "int \<Rightarrow> swipe_gesture \<Rightarrow> swipe_gesture" where
  "setMaximumY y g = g\<lparr>m_maximumY := y, m_maximumYRelevant := True\<rparr>"

text \<open>The rectangle is its position, width and height.\<close>

definition setStartGeometry :: "int \<times> int \<times> int \<times> int \<Rightarrow> swipe_gesture \<Rightarrow> swipe_gesture option" where
  "setStartGeometry = (\<lambda>(x, y, w, h) g.
     let g = setMaximumY (y + h) (setMaximumX (x + w) (setMinimumY y (setMinimumX x g)))
     in if m_maximumX g \<ge> m_minimumX g \<and> m_maximumY g \<ge> m_minimumY g then Some g else None)"

definition setMinimumDelta :: "sizef \<Rightarrow> swipe_gesture \<Rightarrow> swipe_gesture" where
  "setMinimumDelta delta g = g\<lparr>m_minimumDelta := delta, m_minimumDeltaRelevant := True\<rparr>"

text \<open>The quotient of two absolute values, cut to 1.\<close>

definition capped_ratio :: "rat \<Rightarrow> rat \<Rightarrow> qreal" where
  "capped_ratio a b =
     (if b = 0 then if a = 0 then NaN else Num 1 else Num (min (\<bar>a\<bar> / \<bar>b\<bar>) 1))"

definition at_least_one :: "qreal \<Rightarrow> bool" where
  "at_least_one v = (case v of NaN \<Rightarrow> False | Num r \<Rightarrow> r \<ge> 1)"

definition deltaToProgress :: "swipe_gesture \<Rightarrow> sizef \<Rightarrow> qreal option" where
  "deltaToProgress g delta =
     (if \<not> m_minimumDeltaRelevant g \<or> m_minimumDelta g = (0, 0) then Some (Num 1)
      else case m_direction g of
          swipe_up \<Rightarrow> Some (capped_ratio (height delta) (height (m_minimumDelta g)))
        | swipe_down \<Rightarrow> Some (capped_ratio (height delta) (height (m_minimumDelta g)))
        | swipe_left \<Rightarrow> Some (capped_ratio (width delta) (width (m_minimumDelta g)))
        | swipe_right \<Rightarrow> Some (capped_ratio (width delta) (width (m_minimumDelta g)))
        | swipe_invalid \<Rightarrow> None)"

definition minimumDeltaReached :: "swipe_gesture \<Rightarrow> sizef \<Rightarrow> bool option" where
  "minimumDeltaReached g delta = map_option at_least_one (deltaToProgress g delta)"

record pinch_gesture =
  p_minimumFingerCountRelevant :: bool
  p_minimumFingerCount :: nat
  p_maximumFingerCountRelevant :: bool
  p_maximumFingerCount :: nat
  p_direction :: pinch_direction
  p_minimumScaleDeltaRelevant :: bool
  p_minimumScaleDelta :: rat

definition DEFAULT_MINIMUM_SCALE_DELTA :: rat where
  "DEFAULT_MINIMUM_SCALE_DELTA = 2 / 10"

definition new_pinch_gesture :: pinch_gesture where
  "new_pinch_gesture =
     \<lparr>p_minimumFingerCountRelevant = False, p_minimumFingerCount = 0,
      p_maximumFingerCountRelevant = False, p_maximumFingerCount = 0,
      p_direction = pinch_expanding, p_minimumScaleDeltaRelevant = False,
      p_minimumScaleDelta = DEFAULT_MINIMUM_SCALE_DELTA\<rparr>"

definition p_setMinimumFingerCount :: "nat \<Rightarrow> pinch_gesture \<Rightarrow> pinch_gesture" where
  "p_setMinimumFingerCount n g = g\<lparr>p_minimumFingerCount := n, p_minimumFingerCountRelevant := True\<rparr>"

definition p_setMaximumFingerCount :: "nat \<Rightarrow> pinch_gesture \<Rightarrow> pinch_gesture" where
  "p_setMaximumFingerCount n g = g\<lparr>p_maximumFingerCount := n, p_maximumFingerCountRelevant := True\<rparr>"

definition p_setDirection :: "pinch_direction \<Rightarrow> pinch_gesture \<Rightarrow> pinch_gesture" where
  "p_setDirection d g = g\<lparr>p_direction := d\<rparr>"

definition setMinimumScaleDelta :: "rat \<Rightarrow> pinch_gesture \<Rightarrow> pinch_gesture" where
  "setMinimumScaleDelta d g = g\<lparr>p_minimumScaleDelta := d, p_minimumScaleDeltaRelevant := True\<rparr>"

text \<open>The minimum is not made positive; std::clamp cuts to [0, 1].\<close>

definition scaleDeltaToProgress :: "pinch_gesture \<Rightarrow> rat \<Rightarrow> qreal" where
  "scaleDeltaToProgress g scaleDelta =
     (let a = \<bar>scaleDelta - 1\<bar>; m = p_minimumScaleDelta g
      in if m = 0 then if a = 0 then NaN else Num 1 else Num (max 0 (min 1 (a / m))))"

definition minimumScaleDeltaReached :: "pinch_gesture \<Rightarrow> rat \<Rightarrow> bool" where
  "minimumScaleDeltaReached g scaleDelta = at_least_one (scaleDeltaToProgress g scaleDelta)"

section \<open>The recognizer\<close>

datatype gesture_ref = Swipe nat | Pinch nat

datatype gesture_signal =
    Started gesture_ref
  | Triggered gesture_ref
  | Cancelled gesture_ref
  | Progress gesture_ref qreal
  | Delta_Progress gesture_ref sizef

datatype swipe_axis = Axis_Horizontal | Axis_Vertical | Axis_None

datatype start_behavior = Position_Relevant | Position_Irrelevant

record recognizer =
  swipe_heap :: "nat \<Rightarrow> swipe_gesture"
  pinch_heap :: "nat \<Rightarrow> pinch_gesture"
  m_swipeGestures :: "nat list"
  m_pinchGestures :: "nat list"
  m_activeSwipeGestures :: "nat list"
  m_activePinchGestures :: "nat list"
  m_destroyConnections :: "gesture_ref list"
  m_currentDelta :: sizef
  m_currentScale :: rat
  m_currentFingerCount :: nat
  m_currentSwipeAxis :: swipe_axis
  gesture_signals :: "gesture_signal list"

definition new_recognizer :: "(nat \<Rightarrow> swipe_gesture) \<Rightarrow> (nat \<Rightarrow> pinch_gesture) \<Rightarrow> recognizer" where
  "new_recognizer sh ph =
     \<lparr>swipe_heap = sh, pinch_heap = ph, m_swipeGestures = [], m_pinchGestures = [],
      m_activeSwipeGestures = [], m_activePinchGestures = [], m_destroyConnections = [],
      m_currentDelta = (0, 0), m_currentScale = 1, m_currentFingerCount = 0,
      m_currentSwipeAxis = Axis_None, gesture_signals = []\<rparr>"

definition gesture_emit :: "gesture_signal list \<Rightarrow> recognizer \<Rightarrow> recognizer" where
  "gesture_emit ss r = r\<lparr>gesture_signals := gesture_signals r @ ss\<rparr>"

definition connect_destroyed :: "gesture_ref \<Rightarrow> recognizer \<Rightarrow> recognizer" where
  "connect_destroyed g r =
     r\<lparr>m_destroyConnections := remove_all (m_destroyConnections r) g @ [g]\<rparr>"

definition registerSwipeGesture :: "nat \<Rightarrow> recognizer \<Rightarrow> recognizer option" where
  "registerSwipeGesture g r =
     (if contains (m_swipeGestures r) g then None
      else let r = connect_destroyed (Swipe g) r
           in Some (r\<lparr>m_swipeGestures := m_swipeGestures r @ [g]\<rparr>))"

definition unregisterSwipeGesture :: "nat \<Rightarrow> recognizer \<Rightarrow> recognizer" where
  "unregisterSwipeGesture g r =
     (let r = r\<lparr>m_destroyConnections := remove_all (m_destroyConnections r) (Swipe g)\<rparr>;
          r = r\<lparr>m_swipeGestures := remove_all (m_swipeGestures r) g\<rparr>
      in if contains (m_activeSwipeGestures r) g
         then gesture_emit [Cancelled (Swipe g)]
                (r\<lparr>m_activeSwipeGestures := remove1 g (m_activeSwipeGestures r)\<rparr>)
         else r)"

definition registerPinchGesture :: "nat \<Rightarrow> recognizer \<Rightarrow> recognizer option" where
  "registerPinchGesture g r =
     (if contains (m_pinchGestures r) g then None
      else let r = connect_destroyed (Pinch g) r
           in Some (r\<lparr>m_pinchGestures := m_pinchGestures r @ [g]\<rparr>))"

definition unregisterPinchGesture :: "nat \<Rightarrow> recognizer \<Rightarrow> recognizer" where
  "unregisterPinchGesture g r =
     (let r = r\<lparr>m_destroyConnections := remove_all (m_destroyConnections r) (Pinch g)\<rparr>;
          r = r\<lparr>m_pinchGestures := remove_all (m_pinchGestures r) g\<rparr>
      in if contains (m_activePinchGestures r) g
         then gesture_emit [Cancelled (Pinch g)]
                (r\<lparr>m_activePinchGestures := remove1 g (m_activePinchGestures r)\<rparr>)
         else r)"

section \<open>Swipes\<close>

text \<open>The conditions of the loop in startSwipeGesture under which it does not continue.\<close>

definition swipe_may_start ::
    "swipe_gesture \<Rightarrow> nat \<Rightarrow> rat \<times> rat \<Rightarrow> start_behavior \<Rightarrow> swipe_axis \<Rightarrow> bool" where
  "swipe_may_start g fingerCount startPos behavior ax =
     (if m_minimumFingerCountRelevant g \<and> m_minimumFingerCount g > fingerCount then False
      else if m_maximumFingerCountRelevant g \<and> m_maximumFingerCount g < fingerCount then False
      else if behavior = Position_Relevant
              \<and> (m_minimumXRelevant g \<and> of_int (m_minimumX g) > fst startPos
                 \<or> m_maximumXRelevant g \<and> of_int (m_maximumX g) < fst startPos
                 \<or> m_minimumYRelevant g \<and> of_int (m_minimumY g) > snd startPos
                 \<or> m_maximumYRelevant g \<and> of_int (m_maximumY g) < snd startPos) then False
      else case m_direction g of
          swipe_up \<Rightarrow> ax \<noteq> Axis_Horizontal
        | swipe_down \<Rightarrow> ax \<noteq> Axis_Horizontal
        | swipe_left \<Rightarrow> ax \<noteq> Axis_Vertical
        | swipe_right \<Rightarrow> ax \<noteq> Axis_Vertical
        | swipe_invalid \<Rightarrow> False)"

definition start_swipe ::
    "nat \<Rightarrow> rat \<times> rat \<Rightarrow> start_behavior \<Rightarrow> nat \<Rightarrow> recognizer \<times> int \<Rightarrow> recognizer \<times> int" where
  "start_swipe fingerCount startPos behavior g = (\<lambda>(r, cnt).
     if \<not> swipe_may_start (swipe_heap r g) fingerCount startPos behavior (m_currentSwipeAxis r)
     then (r, cnt)
     else (gesture_emit [Started (Swipe g)]
             (r\<lparr>m_activeSwipeGestures := m_activeSwipeGestures r @ [g]\<rparr>), cnt + 1))"

definition startSwipeGesture_at ::
    "nat \<Rightarrow> rat \<times> rat \<Rightarrow> start_behavior \<Rightarrow> recognizer \<Rightarrow> recognizer \<times> int" where
  "startSwipeGesture_at fingerCount startPos behavior r =
     (let r = r\<lparr>m_currentFingerCount := fingerCount\<rparr>
      in if m_activeSwipeGestures r \<noteq> [] \<or> m_activePinchGestures r \<noteq> [] then (r, 0)
         else fold (start_swipe fingerCount startPos behavior) (m_swipeGestures r) (r, 0))"

definition startSwipeGesture :: "nat \<Rightarrow> recognizer \<Rightarrow> recognizer \<times> int" where
  "startSwipeGesture fingerCount r =
     startSwipeGesture_at fingerCount (0, 0) Position_Irrelevant r"

definition startSwipeGesture_pos :: "rat \<times> rat \<Rightarrow> recognizer \<Rightarrow> recognizer \<times> int" where
  "startSwipeGesture_pos startPos r = startSwipeGesture_at 1 startPos Position_Relevant r"

text \<open>The axis of an update, and the one that is remembered.\<close>

definition swipe_axes :: "sizef \<Rightarrow> swipe_axis \<Rightarrow> swipe_axis \<times> swipe_axis" where
  "swipe_axes delta ax =
     (if ax = Axis_None
      then let swipeAxis = (if \<bar>width delta\<bar> \<ge> \<bar>height delta\<bar> then Axis_Horizontal else Axis_Vertical)
           in (swipeAxis, if \<bar>width delta\<bar> \<ge> 5 \<or> \<bar>height delta\<bar> \<ge> 5 then swipeAxis else ax)
      else (ax, ax))"

definition swipe_direction_on :: "swipe_axis \<Rightarrow> sizef \<Rightarrow> swipe_direction option" where
  "swipe_direction_on ax delta =
     (case ax of
        Axis_Vertical \<Rightarrow> Some (if height delta < 0 then swipe_up else swipe_down)
      | Axis_Horizontal \<Rightarrow> Some (if width delta < 0 then swipe_left else swipe_right)
      | Axis_None \<Rightarrow> None)"

definition swipe_fits :: "swipe_gesture \<Rightarrow> swipe_direction \<Rightarrow> bool" where
  "swipe_fits g dir \<longleftrightarrow> m_direction g = dir
     \<or> (m_minimumXRelevant g \<and> m_maximumXRelevant g \<and> m_minimumYRelevant g \<and> m_maximumYRelevant g)"

text \<open>The loop that erases the wrong gestures, over the list it erases from.\<close>

fun erase_wrong_swipes ::
    "swipe_direction \<Rightarrow> nat list \<Rightarrow> nat list \<Rightarrow> recognizer \<Rightarrow> recognizer" where
  "erase_wrong_swipes dir kept_gestures [] r = r\<lparr>m_activeSwipeGestures := kept_gestures\<rparr>"
| "erase_wrong_swipes dir kept_gestures (g # gs) r =
     (if swipe_fits (swipe_heap r g) dir then erase_wrong_swipes dir (kept_gestures @ [g]) gs r
      else erase_wrong_swipes dir kept_gestures gs (gesture_emit [Cancelled (Swipe g)] r))"

definition eliminate_swipes :: "swipe_direction \<Rightarrow> recognizer \<Rightarrow> recognizer" where
  "eliminate_swipes dir r =
     (let r = (if m_activeSwipeGestures r = [] then fst (startSwipeGesture (m_currentFingerCount r) r)
               else r)
      in erase_wrong_swipes dir [] (m_activeSwipeGestures r) r)"

definition send_swipe_progress :: "nat \<Rightarrow> recognizer \<Rightarrow> recognizer option" where
  "send_swipe_progress g r =
     do {
       p \<leftarrow> deltaToProgress (swipe_heap r g) (m_currentDelta r);
       Some (gesture_emit [Progress (Swipe g) p, Delta_Progress (Swipe g) (m_currentDelta r)] r)
     }"

definition updateSwipeGesture :: "sizef \<Rightarrow> recognizer \<Rightarrow> recognizer option" where
  "updateSwipeGesture delta r =
     do {
       let r = r\<lparr>m_currentDelta := (width (m_currentDelta r) + width delta,
                                   height (m_currentDelta r) + height delta)\<rparr>;
       let (swipeAxis, ax) = swipe_axes (m_currentDelta r) (m_currentSwipeAxis r);
       let r = r\<lparr>m_currentSwipeAxis := ax\<rparr>;
       dir \<leftarrow> swipe_direction_on swipeAxis (m_currentDelta r);
       let r = eliminate_swipes dir (eliminate_swipes dir r);
       ofold send_swipe_progress (m_activeSwipeGestures r) r
     }"

definition cancelActiveGestures :: "recognizer \<Rightarrow> recognizer" where
  "cancelActiveGestures r =
     (let r = gesture_emit (map (Cancelled \<circ> Swipe) (m_activeSwipeGestures r)) r;
          r = gesture_emit (map (Cancelled \<circ> Pinch) (m_activePinchGestures r)) r
      in r\<lparr>m_activeSwipeGestures := [], m_activePinchGestures := [], m_currentScale := 0,
           m_currentDelta := (0, 0), m_currentSwipeAxis := Axis_None\<rparr>)"

definition cancelSwipeGesture :: "recognizer \<Rightarrow> recognizer" where
  "cancelSwipeGesture r =
     (cancelActiveGestures r)\<lparr>m_currentFingerCount := 0, m_currentDelta := (0, 0),
        m_currentSwipeAxis := Axis_None\<rparr>"

definition end_swipe :: "sizef \<Rightarrow> nat \<Rightarrow> recognizer \<Rightarrow> recognizer option" where
  "end_swipe delta g r =
     do {
       reached \<leftarrow> minimumDeltaReached (swipe_heap r g) delta;
       Some (gesture_emit [if reached then Triggered (Swipe g) else Cancelled (Swipe g)] r)
     }"

definition endSwipeGesture :: "recognizer \<Rightarrow> recognizer option" where
  "endSwipeGesture r =
     do {
       r \<leftarrow> ofold (end_swipe (m_currentDelta r)) (m_activeSwipeGestures r) r;
       Some (r\<lparr>m_activeSwipeGestures := [], m_currentFingerCount := 0, m_currentDelta := (0, 0),
               m_currentSwipeAxis := Axis_None\<rparr>)
     }"

section \<open>Pinches\<close>

definition pinch_may_start :: "pinch_gesture \<Rightarrow> nat \<Rightarrow> bool" where
  "pinch_may_start g fingerCount =
     (if p_minimumFingerCountRelevant g \<and> p_minimumFingerCount g > fingerCount then False
      else if p_maximumFingerCountRelevant g \<and> p_maximumFingerCount g < fingerCount then False
      else True)"

definition start_pinch :: "nat \<Rightarrow> nat \<Rightarrow> recognizer \<times> int \<Rightarrow> recognizer \<times> int" where
  "start_pinch fingerCount g = (\<lambda>(r, cnt).
     if \<not> pinch_may_start (pinch_heap r g) fingerCount then (r, cnt)
     else (gesture_emit [Started (Pinch g)]
             (r\<lparr>m_activePinchGestures := m_activePinchGestures r @ [g]\<rparr>), cnt + 1))"

definition startPinchGesture :: "nat \<Rightarrow> recognizer \<Rightarrow> recognizer \<times> int" where
  "startPinchGesture fingerCount r =
     (let r = r\<lparr>m_currentFingerCount := fingerCount\<rparr>
      in if m_activeSwipeGestures r \<noteq> [] \<or> m_activePinchGestures r \<noteq> [] then (r, 0)
         else fold (start_pinch fingerCount) (m_pinchGestures r) (r, 0))"

fun erase_wrong_pinches ::
    "pinch_direction \<Rightarrow> nat list \<Rightarrow> nat list \<Rightarrow> recognizer \<Rightarrow> recognizer" where
  "erase_wrong_pinches dir kept_gestures [] r = r\<lparr>m_activePinchGestures := kept_gestures\<rparr>"
| "erase_wrong_pinches dir kept_gestures (g # gs) r =
     (if p_direction (pinch_heap r g) = dir then erase_wrong_pinches dir (kept_gestures @ [g]) gs r
      else erase_wrong_pinches dir kept_gestures gs (gesture_emit [Cancelled (Pinch g)] r))"

definition eliminate_pinches :: "pinch_direction \<Rightarrow> recognizer \<Rightarrow> recognizer" where
  "eliminate_pinches dir r =
     (let r = (if m_activePinchGestures r = [] then fst (startPinchGesture (m_currentFingerCount r) r)
               else r)
      in erase_wrong_pinches dir [] (m_activePinchGestures r) r)"

text \<open>The angle and the movement of the fingers are not used.\<close>

definition updatePinchGesture :: "rat \<Rightarrow> recognizer \<Rightarrow> recognizer" where
  "updatePinchGesture scl r =
     (let r = r\<lparr>m_currentScale := scl\<rparr>;
          dir = (if scl < 1 then pinch_contracting else pinch_expanding);
          r = eliminate_pinches dir (eliminate_pinches dir r)
      in gesture_emit (map (\<lambda>g. Progress (Pinch g) (scaleDeltaToProgress (pinch_heap r g) scl))
                         (m_activePinchGestures r)) r)"

definition cancelPinchGesture :: "recognizer \<Rightarrow> recognizer" where
  "cancelPinchGesture r =
     (cancelActiveGestures r)\<lparr>m_currentScale := 1, m_currentFingerCount := 0,
        m_currentSwipeAxis := Axis_None\<rparr>"

definition end_pinch_signal :: "recognizer \<Rightarrow> nat \<Rightarrow> gesture_signal" where
  "end_pinch_signal r g =
     (if minimumScaleDeltaReached (pinch_heap r g) (m_currentScale r) then Triggered (Pinch g)
      else Cancelled (Pinch g))"

definition endPinchGesture :: "recognizer \<Rightarrow> recognizer" where
  "endPinchGesture r =
     (let r = gesture_emit (map (end_pinch_signal r) (m_activePinchGestures r)) r
      in r\<lparr>m_activeSwipeGestures := [], m_activePinchGestures := [], m_currentScale := 1,
           m_currentFingerCount := 0, m_currentSwipeAxis := Axis_None\<rparr>)"

end
