(* ===== verification/Gesture_Theorems.thy ===== *)
theory Gesture_Theorems
  imports Gestures
begin

text \<open>
  What a client of a gesture can rely on: started is followed by triggered or cancelled before the
  gesture starts again, progress is reported only in between, and swipes and pinches exclude each
  other. The recognizer is a transition system over the calls of its public interface.
\<close>

section \<open>The protocol of the signals\<close>

text \<open>The gestures that run after a list of signals; None if a signal comes at the wrong time.\<close>

fun track :: "gesture_ref set \<Rightarrow> gesture_signal list \<Rightarrow> gesture_ref set option" where
  "track S [] = Some S"
| "track S (Started g # ss) = (if g \<in> S then None else track (insert g S) ss)"
| "track S (Triggered g # ss) = (if g \<in> S then track (S - {g}) ss else None)"
| "track S (Cancelled g # ss) = (if g \<in> S then track (S - {g}) ss else None)"
| "track S (Progress g p # ss) = (if g \<in> S then track S ss else None)"
| "track S (Delta_Progress g d # ss) = (if g \<in> S then track S ss else None)"





section \<open>The loops\<close>

lemma gesture_emit_simps [simp]:
  "gesture_signals (gesture_emit ss r) = gesture_signals r @ ss"
  "swipe_heap (gesture_emit ss r) = swipe_heap r" "pinch_heap (gesture_emit ss r) = pinch_heap r"
  "m_swipeGestures (gesture_emit ss r) = m_swipeGestures r"
  "m_pinchGestures (gesture_emit ss r) = m_pinchGestures r"
  "m_activeSwipeGestures (gesture_emit ss r) = m_activeSwipeGestures r"
  "m_activePinchGestures (gesture_emit ss r) = m_activePinchGestures r"
  "m_currentDelta (gesture_emit ss r) = m_currentDelta r"
  "m_currentSwipeAxis (gesture_emit ss r) = m_currentSwipeAxis r"
  "m_currentScale (gesture_emit ss r) = m_currentScale r"
  "m_currentFingerCount (gesture_emit ss r) = m_currentFingerCount r"
  by (simp_all add: gesture_emit_def)







definition end_signal :: "recognizer \<Rightarrow> nat \<Rightarrow> gesture_signal" where
  "end_signal r g =
     (if minimumDeltaReached (swipe_heap r g) (m_currentDelta r) = Some True then Triggered (Swipe g)
      else Cancelled (Swipe g))"


section \<open>The invariant\<close>

definition active_gestures :: "recognizer \<Rightarrow> gesture_ref set" where
  "active_gestures r = Swipe ` set (m_activeSwipeGestures r) \<union> Pinch ` set (m_activePinchGestures r)"

definition recognizer_ok :: "recognizer \<Rightarrow> bool" where
  "recognizer_ok r \<longleftrightarrow> distinct (m_swipeGestures r) \<and> distinct (m_pinchGestures r)
     \<and> distinct (m_activeSwipeGestures r) \<and> distinct (m_activePinchGestures r)
     \<and> set (m_activeSwipeGestures r) \<subseteq> set (m_swipeGestures r)
     \<and> set (m_activePinchGestures r) \<subseteq> set (m_pinchGestures r)
     \<and> (m_activeSwipeGestures r = [] \<or> m_activePinchGestures r = [])
     \<and> track {} (gesture_signals r) = Some (active_gestures r)"






text \<open>The fields the invariant does not read.\<close>

lemma recognizer_ok_fields [simp]:
  "recognizer_ok (r\<lparr>m_currentDelta := d\<rparr>) = recognizer_ok r"
  "recognizer_ok (r\<lparr>m_currentScale := s\<rparr>) = recognizer_ok r"
  "recognizer_ok (r\<lparr>m_currentFingerCount := n\<rparr>) = recognizer_ok r"
  "recognizer_ok (r\<lparr>m_currentSwipeAxis := ax\<rparr>) = recognizer_ok r"
  "recognizer_ok (r\<lparr>m_destroyConnections := cs\<rparr>) = recognizer_ok r"
  "recognizer_ok (r\<lparr>swipe_heap := sh\<rparr>) = recognizer_ok r"
  "recognizer_ok (r\<lparr>pinch_heap := ph\<rparr>) = recognizer_ok r"
  by (simp_all add: recognizer_ok_def active_gestures_def)



section \<open>The transition system\<close>














section \<open>The properties\<close>

text \<open>A recognizer with one gesture of each class, and a swipe to the right that moves far enough.\<close>

definition swipe_right_gesture :: swipe_gesture where
  "swipe_right_gesture =
     setMinimumDelta (20, 0) (setMinimumFingerCount 3 (setDirection swipe_right new_swipe_gesture))"

definition one_swipe :: recognizer where
  "one_swipe = (new_recognizer (\<lambda>g. swipe_right_gesture) (\<lambda>g. new_pinch_gesture))
     \<lparr>m_swipeGestures := [7], m_destroyConnections := [Swipe 7]\<rparr>"

definition swiping :: recognizer where
  "swiping = one_swipe\<lparr>m_currentFingerCount := 3, m_activeSwipeGestures := [7],
     gesture_signals := [Started (Swipe 7)]\<rparr>"









text \<open>The end of a swipe. Every active gesture gets exactly one signal, in the order of the
  activation: triggered if the movement along its direction is at least the minimum that is set for it,
  or none is set, and cancelled otherwise. Then nothing is active and the movement is forgotten.\<close>

theorem swipe_end_triggers_far_swipes:
  assumes "\<forall>g\<in>set (m_activeSwipeGestures r). m_direction (swipe_heap r g) \<noteq> swipe_invalid"
  shows "\<exists>r'. endSwipeGesture r = Some r'
    \<and> gesture_signals r' = gesture_signals r @ map (\<lambda>g.
        let x = swipe_heap r g;
            along = (if m_direction x \<in> {swipe_up, swipe_down} then height else width);
            far = \<not> m_minimumDeltaRelevant x \<or> m_minimumDelta x = (0, 0)
                  \<or> \<bar>along (m_currentDelta r)\<bar> \<ge> \<bar>along (m_minimumDelta x)\<bar>
                     \<and> (along (m_currentDelta r) \<noteq> 0 \<or> along (m_minimumDelta x) \<noteq> 0)
        in if far then Triggered (Swipe g) else Cancelled (Swipe g)) (m_activeSwipeGestures r)
    \<and> m_activeSwipeGestures r' = [] \<and> m_currentDelta r' = (0, 0) \<and> m_currentSwipeAxis r' = Axis_None"
proof -
  have far: "minimumDeltaReached x delta = Some (\<not> m_minimumDeltaRelevant x \<or> m_minimumDelta x = (0, 0)
      \<or> \<bar>along delta\<bar> \<ge> \<bar>along (m_minimumDelta x)\<bar> \<and> (along delta \<noteq> 0 \<or> along (m_minimumDelta x) \<noteq> 0))"
    if "along = (if m_direction x \<in> {swipe_up, swipe_down} then height else width)"
      "m_direction x \<noteq> swipe_invalid" for x delta along
    using that
    by (cases "m_direction x")
      (auto simp: minimumDeltaReached_def deltaToProgress_def capped_ratio_def at_least_one_def
        le_divide_eq)
  have "ofold (end_swipe (m_currentDelta r)) gs r = Some (gesture_emit (map (end_signal r) gs) r)"
    if "set gs \<subseteq> set (m_activeSwipeGestures r)" for gs
    using that
  proof (induction gs rule: rev_induct)
    case (snoc g gs)
    then have "m_direction (swipe_heap r g) \<noteq> swipe_invalid" using assms by auto
    from far [OF refl this, of "m_currentDelta r"] snoc show ?case
      by (auto simp: end_swipe_def end_signal_def gesture_emit_def)
  qed (simp add: gesture_emit_def)
  from this [OF subset_refl] have e: "endSwipeGesture r
      = Some ((gesture_emit (map (end_signal r) (m_activeSwipeGestures r)) r)
          \<lparr>m_activeSwipeGestures := [], m_currentFingerCount := 0, m_currentDelta := (0, 0),
           m_currentSwipeAxis := Axis_None\<rparr>)"
    by (simp add: endSwipeGesture_def)
  have "end_signal r g = (let x = swipe_heap r g;
            along = (if m_direction x \<in> {swipe_up, swipe_down} then height else width);
            far = \<not> m_minimumDeltaRelevant x \<or> m_minimumDelta x = (0, 0)
                  \<or> \<bar>along (m_currentDelta r)\<bar> \<ge> \<bar>along (m_minimumDelta x)\<bar>
                     \<and> (along (m_currentDelta r) \<noteq> 0 \<or> along (m_minimumDelta x) \<noteq> 0)
        in if far then Triggered (Swipe g) else Cancelled (Swipe g))"
    if "g \<in> set (m_activeSwipeGestures r)" for g
    unfolding Let_def end_signal_def using far [OF refl] assms that by simp
  then show ?thesis unfolding e by (simp add: gesture_emit_def cong: map_cong)
qed

theorem swipe_end_triggers_far_swipes_witness:
  "\<exists>r'. endSwipeGesture (swiping\<lparr>m_currentDelta := (30, 4)\<rparr>) = Some r'
    \<and> gesture_signals r' = [Started (Swipe 7), Triggered (Swipe 7)]"
proof -
  have "\<forall>g\<in>set (m_activeSwipeGestures (swiping\<lparr>m_currentDelta := (30, 4)\<rparr>)).
      m_direction (swipe_heap (swiping\<lparr>m_currentDelta := (30, 4)\<rparr>) g) \<noteq> swipe_invalid"
    by (simp add: swiping_def one_swipe_def new_recognizer_def swipe_right_gesture_def setMinimumDelta_def
        setMinimumFingerCount_def setDirection_def)
  from swipe_end_triggers_far_swipes [OF this] show ?thesis
    by (auto simp: swiping_def one_swipe_def new_recognizer_def swipe_right_gesture_def setMinimumDelta_def
        setMinimumFingerCount_def setDirection_def Let_def)
qed

text \<open>Two flaws. After a cancelled swipe the scale is 0, so a pinch that starts and ends without any
  update triggers; and the end of a pinch forgets active swipes without telling that they ended.\<close>

theorem pinch_end_flaws:
  "gesture_signals (endPinchGesture (fst (startPinchGesture 2 (cancelSwipeGesture
       (one_swipe\<lparr>m_pinchGestures := [8]\<rparr>)))))
     = [Started (Pinch 8), Triggered (Pinch 8)]
   \<and> gesture_signals (endPinchGesture swiping) = [Started (Swipe 7)]
   \<and> m_activeSwipeGestures (endPinchGesture swiping) = []"
  by (simp add: endPinchGesture_def startPinchGesture_def cancelSwipeGesture_def cancelActiveGestures_def
      one_swipe_def swiping_def new_recognizer_def start_pinch_def pinch_may_start_def gesture_emit_def
      end_pinch_signal_def minimumScaleDeltaReached_def scaleDeltaToProgress_def at_least_one_def
      new_pinch_gesture_def DEFAULT_MINIMUM_SCALE_DELTA_def Let_def)

end
