(* ===== verification/Net_Types.thy ===== *)
theory Net_Types
  imports Win_Types
begin

text \<open>
  The vocabulary of the X11 protocol layer (como/win/x11/net): the atoms of atoms_p.h, the flag
  enumerations of net.h, the plain structures of geo.h, the array of rarray.h, and the transport:
  what the code writes to the X server (a list of requests) and how it reads the replies
  (info_p.h and the readers at the start of root_info.cpp).

  A C++ int is an integer in the range of 32 bits; where the code converts it to uint32_t and back
  the conversion is written out. A char pointer is an optional list of bytes without a zero byte
  (None is the null pointer). The X server is not part of the program: it is a parameter, the
  function from property requests to replies; a reply that does not come is None.
\<close>

section \<open>Integers\<close>

type_synonym u32 = "32 word"
type_synonym byte = "8 word"

definition to_u32 :: "int \<Rightarrow> u32" where
  "to_u32 i = word_of_int i"

definition to_int :: "u32 \<Rightarrow> int" where
  "to_int w = sint w"

definition int_range :: "int \<Rightarrow> bool" where
  "int_range i \<longleftrightarrow> - (2 ^ 31) \<le> i \<and> i < 2 ^ 31"

lemma to_int_range [simp]: "int_range (to_int w)"
  using sint_range_size [of w] by (simp add: to_int_def int_range_def word_size)

lemma to_int_to_u32 [simp]: "int_range i \<Longrightarrow> to_int (to_u32 i) = i"
  by (simp add: to_int_def to_u32_def int_range_def sint_word_ariths signed_take_bit_int_eq_self
      sint_sbintrunc')

lemma to_u32_to_int [simp]: "to_u32 (to_int w) = w"
  by (simp add: to_int_def to_u32_def)

lemma int_range_zero [simp]: "int_range 0" "int_range (- 1)"
  by (simp_all add: int_range_def)

section \<open>Atoms (atoms_p.h)\<close>

text \<open>KwsAtom is an enumeration whose values index the table of the atoms the server gave.\<close>

type_synonym kws_atom = int
type_synonym atom_table = "kws_atom \<Rightarrow> u32"

abbreviation UTF8_STRING :: kws_atom where "UTF8_STRING \<equiv> 0"
abbreviation NET_SUPPORTED :: kws_atom where "NET_SUPPORTED \<equiv> 1"
abbreviation NET_SUPPORTING_WM_CHECK :: kws_atom where "NET_SUPPORTING_WM_CHECK \<equiv> 2"
abbreviation NET_CLIENT_LIST :: kws_atom where "NET_CLIENT_LIST \<equiv> 3"
abbreviation NET_CLIENT_LIST_STACKING :: kws_atom where "NET_CLIENT_LIST_STACKING \<equiv> 4"
abbreviation NET_NUMBER_OF_DESKTOPS :: kws_atom where "NET_NUMBER_OF_DESKTOPS \<equiv> 5"
abbreviation NET_DESKTOP_GEOMETRY :: kws_atom where "NET_DESKTOP_GEOMETRY \<equiv> 6"
abbreviation NET_DESKTOP_VIEWPORT :: kws_atom where "NET_DESKTOP_VIEWPORT \<equiv> 7"
abbreviation NET_CURRENT_DESKTOP :: kws_atom where "NET_CURRENT_DESKTOP \<equiv> 8"
abbreviation NET_DESKTOP_NAMES :: kws_atom where "NET_DESKTOP_NAMES \<equiv> 9"
abbreviation NET_ACTIVE_WINDOW :: kws_atom where "NET_ACTIVE_WINDOW \<equiv> 10"
abbreviation NET_WORKAREA :: kws_atom where "NET_WORKAREA \<equiv> 11"
abbreviation NET_VIRTUAL_ROOTS :: kws_atom where "NET_VIRTUAL_ROOTS \<equiv> 12"
abbreviation NET_DESKTOP_LAYOUT :: kws_atom where "NET_DESKTOP_LAYOUT \<equiv> 13"
abbreviation NET_SHOWING_DESKTOP :: kws_atom where "NET_SHOWING_DESKTOP \<equiv> 14"
abbreviation NET_CLOSE_WINDOW :: kws_atom where "NET_CLOSE_WINDOW \<equiv> 15"
abbreviation NET_RESTACK_WINDOW :: kws_atom where "NET_RESTACK_WINDOW \<equiv> 16"
abbreviation NET_WM_MOVERESIZE :: kws_atom where "NET_WM_MOVERESIZE \<equiv> 17"
abbreviation NET_MOVERESIZE_WINDOW :: kws_atom where "NET_MOVERESIZE_WINDOW \<equiv> 18"
abbreviation NET_WM_NAME :: kws_atom where "NET_WM_NAME \<equiv> 19"
abbreviation NET_WM_VISIBLE_NAME :: kws_atom where "NET_WM_VISIBLE_NAME \<equiv> 20"
abbreviation NET_WM_ICON_NAME :: kws_atom where "NET_WM_ICON_NAME \<equiv> 21"
abbreviation NET_WM_VISIBLE_ICON_NAME :: kws_atom where "NET_WM_VISIBLE_ICON_NAME \<equiv> 22"
abbreviation NET_WM_DESKTOP :: kws_atom where "NET_WM_DESKTOP \<equiv> 23"
abbreviation NET_WM_WINDOW_TYPE :: kws_atom where "NET_WM_WINDOW_TYPE \<equiv> 24"
abbreviation NET_WM_STATE :: kws_atom where "NET_WM_STATE \<equiv> 25"
abbreviation NET_WM_STRUT :: kws_atom where "NET_WM_STRUT \<equiv> 26"
abbreviation NET_WM_STRUT_PARTIAL :: kws_atom where "NET_WM_STRUT_PARTIAL \<equiv> 27"
abbreviation NET_WM_ICON_GEOMETRY :: kws_atom where "NET_WM_ICON_GEOMETRY \<equiv> 28"
abbreviation NET_WM_ICON :: kws_atom where "NET_WM_ICON \<equiv> 29"
abbreviation NET_WM_PID :: kws_atom where "NET_WM_PID \<equiv> 30"
abbreviation NET_WM_USER_TIME :: kws_atom where "NET_WM_USER_TIME \<equiv> 31"
abbreviation NET_WM_HANDLED_ICONS :: kws_atom where "NET_WM_HANDLED_ICONS \<equiv> 32"
abbreviation NET_STARTUP_ID :: kws_atom where "NET_STARTUP_ID \<equiv> 33"
abbreviation NET_WM_ALLOWED_ACTIONS :: kws_atom where "NET_WM_ALLOWED_ACTIONS \<equiv> 34"
abbreviation WM_WINDOW_ROLE :: kws_atom where "WM_WINDOW_ROLE \<equiv> 35"
abbreviation NET_FRAME_EXTENTS :: kws_atom where "NET_FRAME_EXTENTS \<equiv> 36"
abbreviation NET_WM_WINDOW_OPACITY :: kws_atom where "NET_WM_WINDOW_OPACITY \<equiv> 37"
abbreviation NET_WM_FULLSCREEN_MONITORS :: kws_atom where "NET_WM_FULLSCREEN_MONITORS \<equiv> 38"
abbreviation NET_WM_OPAQUE_REGION :: kws_atom where "NET_WM_OPAQUE_REGION \<equiv> 39"
abbreviation KDE_NET_WM_DESKTOP_FILE :: kws_atom where "KDE_NET_WM_DESKTOP_FILE \<equiv> 40"
abbreviation WM_STATE :: kws_atom where "WM_STATE \<equiv> 41"
abbreviation NET_WM_WINDOW_TYPE_NORMAL :: kws_atom where "NET_WM_WINDOW_TYPE_NORMAL \<equiv> 42"
abbreviation NET_WM_WINDOW_TYPE_DESKTOP :: kws_atom where "NET_WM_WINDOW_TYPE_DESKTOP \<equiv> 43"
abbreviation NET_WM_WINDOW_TYPE_DOCK :: kws_atom where "NET_WM_WINDOW_TYPE_DOCK \<equiv> 44"
abbreviation NET_WM_WINDOW_TYPE_TOOLBAR :: kws_atom where "NET_WM_WINDOW_TYPE_TOOLBAR \<equiv> 45"
abbreviation NET_WM_WINDOW_TYPE_MENU :: kws_atom where "NET_WM_WINDOW_TYPE_MENU \<equiv> 46"
abbreviation NET_WM_WINDOW_TYPE_DIALOG :: kws_atom where "NET_WM_WINDOW_TYPE_DIALOG \<equiv> 47"
abbreviation NET_WM_WINDOW_TYPE_UTILITY :: kws_atom where "NET_WM_WINDOW_TYPE_UTILITY \<equiv> 48"
abbreviation NET_WM_WINDOW_TYPE_SPLASH :: kws_atom where "NET_WM_WINDOW_TYPE_SPLASH \<equiv> 49"
abbreviation NET_WM_WINDOW_TYPE_DROPDOWN_MENU :: kws_atom where "NET_WM_WINDOW_TYPE_DROPDOWN_MENU \<equiv> 50"
abbreviation NET_WM_WINDOW_TYPE_POPUP_MENU :: kws_atom where "NET_WM_WINDOW_TYPE_POPUP_MENU \<equiv> 51"
abbreviation NET_WM_WINDOW_TYPE_TOOLTIP :: kws_atom where "NET_WM_WINDOW_TYPE_TOOLTIP \<equiv> 52"
abbreviation NET_WM_WINDOW_TYPE_NOTIFICATION :: kws_atom where "NET_WM_WINDOW_TYPE_NOTIFICATION \<equiv> 53"
abbreviation NET_WM_WINDOW_TYPE_COMBO :: kws_atom where "NET_WM_WINDOW_TYPE_COMBO \<equiv> 54"
abbreviation NET_WM_WINDOW_TYPE_DND :: kws_atom where "NET_WM_WINDOW_TYPE_DND \<equiv> 55"
abbreviation NET_WM_STATE_MODAL :: kws_atom where "NET_WM_STATE_MODAL \<equiv> 56"
abbreviation NET_WM_STATE_STICKY :: kws_atom where "NET_WM_STATE_STICKY \<equiv> 57"
abbreviation NET_WM_STATE_MAXIMIZED_VERT :: kws_atom where "NET_WM_STATE_MAXIMIZED_VERT \<equiv> 58"
abbreviation NET_WM_STATE_MAXIMIZED_HORZ :: kws_atom where "NET_WM_STATE_MAXIMIZED_HORZ \<equiv> 59"
abbreviation NET_WM_STATE_SHADED :: kws_atom where "NET_WM_STATE_SHADED \<equiv> 60"
abbreviation NET_WM_STATE_SKIP_TASKBAR :: kws_atom where "NET_WM_STATE_SKIP_TASKBAR \<equiv> 61"
abbreviation NET_WM_STATE_SKIP_PAGER :: kws_atom where "NET_WM_STATE_SKIP_PAGER \<equiv> 62"
abbreviation NET_WM_STATE_HIDDEN :: kws_atom where "NET_WM_STATE_HIDDEN \<equiv> 63"
abbreviation NET_WM_STATE_FULLSCREEN :: kws_atom where "NET_WM_STATE_FULLSCREEN \<equiv> 64"
abbreviation NET_WM_STATE_ABOVE :: kws_atom where "NET_WM_STATE_ABOVE \<equiv> 65"
abbreviation NET_WM_STATE_BELOW :: kws_atom where "NET_WM_STATE_BELOW \<equiv> 66"
abbreviation NET_WM_STATE_DEMANDS_ATTENTION :: kws_atom where "NET_WM_STATE_DEMANDS_ATTENTION \<equiv> 67"
abbreviation NET_WM_STATE_FOCUSED :: kws_atom where "NET_WM_STATE_FOCUSED \<equiv> 68"
abbreviation KDE_NET_WM_STATE_SKIP_SWITCHER :: kws_atom where "KDE_NET_WM_STATE_SKIP_SWITCHER \<equiv> 69"
abbreviation NET_WM_ACTION_MOVE :: kws_atom where "NET_WM_ACTION_MOVE \<equiv> 70"
abbreviation NET_WM_ACTION_RESIZE :: kws_atom where "NET_WM_ACTION_RESIZE \<equiv> 71"
abbreviation NET_WM_ACTION_MINIMIZE :: kws_atom where "NET_WM_ACTION_MINIMIZE \<equiv> 72"
abbreviation NET_WM_ACTION_SHADE :: kws_atom where "NET_WM_ACTION_SHADE \<equiv> 73"
abbreviation NET_WM_ACTION_STICK :: kws_atom where "NET_WM_ACTION_STICK \<equiv> 74"
abbreviation NET_WM_ACTION_MAXIMIZE_VERT :: kws_atom where "NET_WM_ACTION_MAXIMIZE_VERT \<equiv> 75"
abbreviation NET_WM_ACTION_MAXIMIZE_HORZ :: kws_atom where "NET_WM_ACTION_MAXIMIZE_HORZ \<equiv> 76"
abbreviation NET_WM_ACTION_FULLSCREEN :: kws_atom where "NET_WM_ACTION_FULLSCREEN \<equiv> 77"
abbreviation NET_WM_ACTION_CHANGE_DESKTOP :: kws_atom where "NET_WM_ACTION_CHANGE_DESKTOP \<equiv> 78"
abbreviation NET_WM_ACTION_CLOSE :: kws_atom where "NET_WM_ACTION_CLOSE \<equiv> 79"
abbreviation KDE_NET_WM_FRAME_STRUT :: kws_atom where "KDE_NET_WM_FRAME_STRUT \<equiv> 80"
abbreviation KDE_NET_WM_WINDOW_TYPE_OVERRIDE :: kws_atom where "KDE_NET_WM_WINDOW_TYPE_OVERRIDE \<equiv> 81"
abbreviation KDE_NET_WM_WINDOW_TYPE_TOPMENU :: kws_atom where "KDE_NET_WM_WINDOW_TYPE_TOPMENU \<equiv> 82"
abbreviation KDE_NET_WM_WINDOW_TYPE_ON_SCREEN_DISPLAY :: kws_atom where "KDE_NET_WM_WINDOW_TYPE_ON_SCREEN_DISPLAY \<equiv> 83"
abbreviation KDE_NET_WM_WINDOW_TYPE_CRITICAL_NOTIFICATION :: kws_atom where "KDE_NET_WM_WINDOW_TYPE_CRITICAL_NOTIFICATION \<equiv> 84"
abbreviation KDE_NET_WM_WINDOW_TYPE_APPLET_POPUP :: kws_atom where "KDE_NET_WM_WINDOW_TYPE_APPLET_POPUP \<equiv> 85"
abbreviation KDE_NET_WM_TEMPORARY_RULES :: kws_atom where "KDE_NET_WM_TEMPORARY_RULES \<equiv> 86"
abbreviation NET_WM_FRAME_OVERLAP :: kws_atom where "NET_WM_FRAME_OVERLAP \<equiv> 87"
abbreviation KDE_NET_WM_APPMENU_SERVICE_NAME :: kws_atom where "KDE_NET_WM_APPMENU_SERVICE_NAME \<equiv> 88"
abbreviation KDE_NET_WM_APPMENU_OBJECT_PATH :: kws_atom where "KDE_NET_WM_APPMENU_OBJECT_PATH \<equiv> 89"
abbreviation NET_WM_STATE_STAYS_ON_TOP :: kws_atom where "NET_WM_STATE_STAYS_ON_TOP \<equiv> 90"
abbreviation GTK_FRAME_EXTENTS :: kws_atom where "GTK_FRAME_EXTENTS \<equiv> 91"
abbreviation GTK_APPLICATION_ID :: kws_atom where "GTK_APPLICATION_ID \<equiv> 92"
abbreviation GTK_SHOW_WINDOW_MENU :: kws_atom where "GTK_SHOW_WINDOW_MENU \<equiv> 93"
abbreviation WM_PROTOCOLS :: kws_atom where "WM_PROTOCOLS \<equiv> 94"
abbreviation WM_TAKE_FOCUS :: kws_atom where "WM_TAKE_FOCUS \<equiv> 95"
abbreviation WM_DELETE_WINDOW :: kws_atom where "WM_DELETE_WINDOW \<equiv> 96"
abbreviation NET_WM_PING :: kws_atom where "NET_WM_PING \<equiv> 97"
abbreviation NET_WM_SYNC_REQUEST :: kws_atom where "NET_WM_SYNC_REQUEST \<equiv> 98"
abbreviation NET_WM_CONTEXT_HELP :: kws_atom where "NET_WM_CONTEXT_HELP \<equiv> 99"
abbreviation NET_WM_FULL_PLACEMENT :: kws_atom where "NET_WM_FULL_PLACEMENT \<equiv> 100"
abbreviation NET_WM_BYPASS_COMPOSITOR :: kws_atom where "NET_WM_BYPASS_COMPOSITOR \<equiv> 101"
abbreviation KDE_NET_WM_ACTIVITIES :: kws_atom where "KDE_NET_WM_ACTIVITIES \<equiv> 102"
abbreviation KDE_NET_WM_BLOCK_COMPOSITING :: kws_atom where "KDE_NET_WM_BLOCK_COMPOSITING \<equiv> 103"
abbreviation KDE_NET_WM_SHADOW :: kws_atom where "KDE_NET_WM_SHADOW \<equiv> 104"

abbreviation KwsAtomCount :: kws_atom where "KwsAtomCount \<equiv> 105"

text \<open>The atoms the X protocol itself defines (xcb/xproto.h).\<close>

abbreviation XCB_ATOM_ATOM :: u32 where "XCB_ATOM_ATOM \<equiv> 4"
abbreviation XCB_ATOM_CARDINAL :: u32 where "XCB_ATOM_CARDINAL \<equiv> 6"
abbreviation XCB_ATOM_STRING :: u32 where "XCB_ATOM_STRING \<equiv> 31"
abbreviation XCB_ATOM_WINDOW :: u32 where "XCB_ATOM_WINDOW \<equiv> 33"
abbreviation XCB_ATOM_WM_HINTS :: u32 where "XCB_ATOM_WM_HINTS \<equiv> 35"
abbreviation XCB_ATOM_WM_CLIENT_MACHINE :: u32 where "XCB_ATOM_WM_CLIENT_MACHINE \<equiv> 36"
abbreviation XCB_ATOM_WM_CLASS :: u32 where "XCB_ATOM_WM_CLASS \<equiv> 67"
abbreviation XCB_ATOM_WM_TRANSIENT_FOR :: u32 where "XCB_ATOM_WM_TRANSIENT_FOR \<equiv> 68"

text \<open>The server gives different names different atoms, none of them the null atom or one of the
  predefined ones (which are the atoms up to 68).\<close>

definition interned :: "atom_table \<Rightarrow> bool" where
  "interned atoms \<longleftrightarrow> inj_on atoms {0..<KwsAtomCount} \<and> (\<forall>a\<in>{0..<KwsAtomCount}. 68 < atoms a)"

lemma interned_eq [simp]:
  "interned atoms \<Longrightarrow> 0 \<le> a \<Longrightarrow> a < KwsAtomCount \<Longrightarrow> 0 \<le> b \<Longrightarrow> b < KwsAtomCount
   \<Longrightarrow> atoms a = atoms b \<longleftrightarrow> a = b"
  by (auto simp: interned_def inj_on_def)

lemma interned_nonzero [simp]:
  "interned atoms \<Longrightarrow> 0 \<le> a \<Longrightarrow> a < KwsAtomCount \<Longrightarrow> atoms a \<noteq> 0"
  by (auto simp: interned_def dest: bspec [where x = a])

section \<open>Flags (net.h)\<close>

text \<open>enum Property; WMAllProperties is the constant of all bits.\<close>

definition Supported :: flag where "Supported = push_bit 0 1"
definition ClientList :: flag where "ClientList = push_bit 1 1"
definition ClientListStacking :: flag where "ClientListStacking = push_bit 2 1"
definition NumberOfDesktops :: flag where "NumberOfDesktops = push_bit 3 1"
definition DesktopGeometry :: flag where "DesktopGeometry = push_bit 4 1"
definition DesktopViewport :: flag where "DesktopViewport = push_bit 5 1"
definition CurrentDesktop :: flag where "CurrentDesktop = push_bit 6 1"
definition DesktopNames :: flag where "DesktopNames = push_bit 7 1"
definition ActiveWindow :: flag where "ActiveWindow = push_bit 8 1"
definition WorkArea :: flag where "WorkArea = push_bit 9 1"
definition SupportingWMCheck :: flag where "SupportingWMCheck = push_bit 10 1"
definition VirtualRoots :: flag where "VirtualRoots = push_bit 11 1"
definition CloseWindow :: flag where "CloseWindow = push_bit 13 1"
definition WMMoveResize :: flag where "WMMoveResize = push_bit 14 1"
definition WMName :: flag where "WMName = push_bit 15 1"
definition WMVisibleName :: flag where "WMVisibleName = push_bit 16 1"
definition WMDesktop :: flag where "WMDesktop = push_bit 17 1"
definition WMWindowType :: flag where "WMWindowType = push_bit 18 1"
definition WMState :: flag where "WMState = push_bit 19 1"
definition WMStrut :: flag where "WMStrut = push_bit 20 1"
definition WMIconGeometry :: flag where "WMIconGeometry = push_bit 21 1"
definition WMIcon :: flag where "WMIcon = push_bit 22 1"
definition WMPid :: flag where "WMPid = push_bit 23 1"
definition WMHandledIcons :: flag where "WMHandledIcons = push_bit 24 1"
definition WMPing :: flag where "WMPing = push_bit 25 1"
definition XAWMState :: flag where "XAWMState = push_bit 27 1"
definition WMFrameExtents :: flag where "WMFrameExtents = push_bit 28 1"
definition WMIconName :: flag where "WMIconName = push_bit 29 1"
definition WMVisibleIconName :: flag where "WMVisibleIconName = push_bit 30 1"
definition WMGeometry :: flag where "WMGeometry = push_bit 31 1"
definition WMAllProperties :: flag where "WMAllProperties = NOT 0"

text \<open>enum Property2.\<close>

definition WM2UserTime :: flag where "WM2UserTime = push_bit 0 1"
definition WM2StartupId :: flag where "WM2StartupId = push_bit 1 1"
definition WM2TransientFor :: flag where "WM2TransientFor = push_bit 2 1"
definition WM2GroupLeader :: flag where "WM2GroupLeader = push_bit 3 1"
definition WM2AllowedActions :: flag where "WM2AllowedActions = push_bit 4 1"
definition WM2RestackWindow :: flag where "WM2RestackWindow = push_bit 5 1"
definition WM2MoveResizeWindow :: flag where "WM2MoveResizeWindow = push_bit 6 1"
definition WM2ExtendedStrut :: flag where "WM2ExtendedStrut = push_bit 7 1"
definition WM2KDETemporaryRules :: flag where "WM2KDETemporaryRules = push_bit 8 1"
definition WM2WindowClass :: flag where "WM2WindowClass = push_bit 9 1"
definition WM2WindowRole :: flag where "WM2WindowRole = push_bit 10 1"
definition WM2ClientMachine :: flag where "WM2ClientMachine = push_bit 11 1"
definition WM2ShowingDesktop :: flag where "WM2ShowingDesktop = push_bit 12 1"
definition WM2Opacity :: flag where "WM2Opacity = push_bit 13 1"
definition WM2DesktopLayout :: flag where "WM2DesktopLayout = push_bit 14 1"
definition WM2FullPlacement :: flag where "WM2FullPlacement = push_bit 15 1"
definition WM2FullscreenMonitors :: flag where "WM2FullscreenMonitors = push_bit 16 1"
definition WM2FrameOverlap :: flag where "WM2FrameOverlap = push_bit 17 1"
definition WM2Activities :: flag where "WM2Activities = push_bit 18 1"
definition WM2BlockCompositing :: flag where "WM2BlockCompositing = push_bit 19 1"
definition WM2KDEShadow :: flag where "WM2KDEShadow = push_bit 20 1"
definition WM2Urgency :: flag where "WM2Urgency = push_bit 21 1"
definition WM2Input :: flag where "WM2Input = push_bit 22 1"
definition WM2Protocols :: flag where "WM2Protocols = push_bit 23 1"
definition WM2InitialMappingState :: flag where "WM2InitialMappingState = push_bit 24 1"
definition WM2IconPixmap :: flag where "WM2IconPixmap = push_bit 25 1"
definition WM2OpaqueRegion :: flag where "WM2OpaqueRegion = push_bit 25 1"
definition WM2DesktopFileName :: flag where "WM2DesktopFileName = push_bit 26 1"
definition WM2GTKFrameExtents :: flag where "WM2GTKFrameExtents = push_bit 27 1"
definition WM2AppMenuServiceName :: flag where "WM2AppMenuServiceName = push_bit 28 1"
definition WM2AppMenuObjectPath :: flag where "WM2AppMenuObjectPath = push_bit 29 1"
definition WM2GTKApplicationId :: flag where "WM2GTKApplicationId = push_bit 30 1"
definition WM2GTKShowWindowMenu :: flag where "WM2GTKShowWindowMenu = push_bit 31 1"
definition WM2AllProperties :: flag where "WM2AllProperties = NOT 0"

text \<open>enum State.\<close>

definition Modal :: flag where "Modal = push_bit 0 1"
definition Sticky :: flag where "Sticky = push_bit 1 1"
definition MaxVert :: flag where "MaxVert = push_bit 2 1"
definition MaxHoriz :: flag where "MaxHoriz = push_bit 3 1"
definition Shaded :: flag where "Shaded = push_bit 4 1"
definition SkipTaskbar :: flag where "SkipTaskbar = push_bit 5 1"
definition KeepAbove :: flag where "KeepAbove = push_bit 6 1"
definition SkipPager :: flag where "SkipPager = push_bit 7 1"
definition Hidden :: flag where "Hidden = push_bit 8 1"
definition FullScreen :: flag where "FullScreen = push_bit 9 1"
definition KeepBelow :: flag where "KeepBelow = push_bit 10 1"
definition DemandsAttention :: flag where "DemandsAttention = push_bit 11 1"
definition SkipSwitcher :: flag where "SkipSwitcher = push_bit 12 1"
definition Focused :: flag where "Focused = push_bit 13 1"
definition Max_state :: flag where "Max_state = flag_or MaxVert MaxHoriz"

text \<open>enum Action.\<close>

definition ActionMove :: flag where "ActionMove = push_bit 0 1"
definition ActionResize :: flag where "ActionResize = push_bit 1 1"
definition ActionMinimize :: flag where "ActionMinimize = push_bit 2 1"
definition ActionShade :: flag where "ActionShade = push_bit 3 1"
definition ActionStick :: flag where "ActionStick = push_bit 4 1"
definition ActionMaxVert :: flag where "ActionMaxVert = push_bit 5 1"
definition ActionMaxHoriz :: flag where "ActionMaxHoriz = push_bit 6 1"
definition ActionFullScreen :: flag where "ActionFullScreen = push_bit 7 1"
definition ActionChangeDesktop :: flag where "ActionChangeDesktop = push_bit 8 1"
definition ActionClose :: flag where "ActionClose = push_bit 9 1"
definition ActionMax :: flag where "ActionMax = flag_or ActionMaxVert ActionMaxHoriz"

text \<open>enum Protocol.\<close>

definition TakeFocusProtocol :: flag where "TakeFocusProtocol = push_bit 0 1"
definition DeleteWindowProtocol :: flag where "DeleteWindowProtocol = push_bit 1 1"
definition PingProtocol :: flag where "PingProtocol = push_bit 2 1"
definition SyncRequestProtocol :: flag where "SyncRequestProtocol = push_bit 3 1"
definition ContextHelpProtocol :: flag where "ContextHelpProtocol = push_bit 4 1"
definition NoProtocol :: flag where "NoProtocol = 0"

lemmas property_flags =
  Supported_def ClientList_def ClientListStacking_def NumberOfDesktops_def DesktopGeometry_def
  DesktopViewport_def CurrentDesktop_def DesktopNames_def ActiveWindow_def WorkArea_def
  SupportingWMCheck_def VirtualRoots_def CloseWindow_def WMMoveResize_def WMName_def
  WMVisibleName_def WMDesktop_def WMWindowType_def WMState_def WMStrut_def WMIconGeometry_def
  WMIcon_def WMPid_def WMHandledIcons_def WMPing_def XAWMState_def WMFrameExtents_def
  WMIconName_def WMVisibleIconName_def WMGeometry_def

lemmas property2_flags =
  WM2UserTime_def WM2StartupId_def WM2TransientFor_def WM2GroupLeader_def
  WM2AllowedActions_def WM2RestackWindow_def WM2MoveResizeWindow_def WM2ExtendedStrut_def
  WM2KDETemporaryRules_def WM2WindowClass_def WM2WindowRole_def WM2ClientMachine_def
  WM2ShowingDesktop_def WM2Opacity_def WM2DesktopLayout_def WM2FullPlacement_def
  WM2FullscreenMonitors_def WM2FrameOverlap_def WM2Activities_def WM2BlockCompositing_def
  WM2KDEShadow_def WM2Urgency_def WM2Input_def WM2Protocols_def WM2InitialMappingState_def
  WM2IconPixmap_def WM2OpaqueRegion_def WM2DesktopFileName_def WM2GTKFrameExtents_def
  WM2AppMenuServiceName_def WM2AppMenuObjectPath_def WM2GTKApplicationId_def
  WM2GTKShowWindowMenu_def

lemmas state_flags =
  Modal_def Sticky_def MaxVert_def MaxHoriz_def Shaded_def SkipTaskbar_def KeepAbove_def
  SkipPager_def Hidden_def FullScreen_def KeepBelow_def DemandsAttention_def SkipSwitcher_def
  Focused_def

lemmas action_flags =
  ActionMove_def ActionResize_def ActionMinimize_def ActionShade_def ActionStick_def
  ActionMaxVert_def ActionMaxHoriz_def ActionFullScreen_def ActionChangeDesktop_def
  ActionClose_def

lemmas protocol_flags =
  TakeFocusProtocol_def DeleteWindowProtocol_def PingProtocol_def SyncRequestProtocol_def
  ContextHelpProtocol_def

text \<open>The test of a set of flags in a condition, and the operators that assign.\<close>

abbreviation has :: "flag \<Rightarrow> flag \<Rightarrow> bool" where
  "has v f \<equiv> flags_any_of v f"

abbreviation without :: "flag \<Rightarrow> flag \<Rightarrow> flag" where
  "without v f \<equiv> flag_and v (flag_not f)"

lemma has_push_bit [simp]: "has v (push_bit n 1) \<longleftrightarrow> bit v n"
  using flags_any_push_bit [of v n] by (simp add: flag_defs)

lemma has_zero [simp]: "\<not> has 0 f" "\<not> has v 0"
  by (simp_all add: flag_defs)

lemma has_or [simp]: "has (flag_or v w) f \<longleftrightarrow> has v f \<or> has w f"
proof -
  have "(v OR w) AND f = (v AND f) OR (w AND f)"
    by (rule bit_word_eqI) (auto simp: bit_simps)
  then show ?thesis by (auto simp: flag_defs or_eq_0_iff)
qed

lemma has_or_right: "has v (flag_or f g) \<longleftrightarrow> has v f \<or> has v g"
  using has_or [of f g v] by (simp add: flag_defs and.commute)

datatype net_role = Role_Client | Role_WindowManager

datatype net_mapping_state = Mapping_Visible | Mapping_Withdrawn | Mapping_Iconic

definition OnAllDesktops :: int where "OnAllDesktops = -1"

text \<open>enum RequestSource, Orientation and DesktopLayoutCorner by their values.\<close>

definition FromUnknown :: int where "FromUnknown = 0"
definition FromApplication :: int where "FromApplication = 1"
definition FromTool :: int where "FromTool = 2"
definition OrientationHorizontal :: int where "OrientationHorizontal = 0"
definition OrientationVertical :: int where "OrientationVertical = 1"
definition DesktopLayoutCornerTopLeft :: int where "DesktopLayoutCornerTopLeft = 0"

section \<open>Structures (geo.h)\<close>

record net_point =
  pt_x :: int
  pt_y :: int

record net_size =
  sz_width :: int
  sz_height :: int

record net_rect =
  rect_pos :: net_point
  rect_size :: net_size

record net_strut =
  strut_left :: int
  strut_right :: int
  strut_top :: int
  strut_bottom :: int

record net_extended_strut =
  left_width :: int
  left_start :: int
  left_end :: int
  right_width :: int
  right_start :: int
  right_end :: int
  top_width :: int
  top_start :: int
  top_end :: int
  bottom_width :: int
  bottom_start :: int
  bottom_end :: int

record net_icon =
  icon_size :: net_size
  icon_data :: "u32 list option"

record net_fullscreen_monitors =
  fm_top :: int
  fm_bottom :: int
  fm_left :: int
  fm_right :: int

definition point_default :: net_point where
  "point_default = \<lparr>pt_x = 0, pt_y = 0\<rparr>"

definition size_default :: net_size where
  "size_default = \<lparr>sz_width = 0, sz_height = 0\<rparr>"

definition rect_default :: net_rect where
  "rect_default = \<lparr>rect_pos = point_default, rect_size = size_default\<rparr>"

definition strut_default :: net_strut where
  "strut_default = \<lparr>strut_left = 0, strut_right = 0, strut_top = 0, strut_bottom = 0\<rparr>"

definition extended_strut_default :: net_extended_strut where
  "extended_strut_default =
     \<lparr>left_width = 0, left_start = 0, left_end = 0, right_width = 0, right_start = 0, right_end = 0,
      top_width = 0, top_start = 0, top_end = 0, bottom_width = 0, bottom_start = 0,
      bottom_end = 0\<rparr>"

definition icon_default :: net_icon where
  "icon_default = \<lparr>icon_size = size_default, icon_data = None\<rparr>"

definition fullscreen_monitors_default :: net_fullscreen_monitors where
  "fullscreen_monitors_default = \<lparr>fm_top = -1, fm_bottom = 0, fm_left = 0, fm_right = 0\<rparr>"

definition fullscreen_monitors_isSet :: "net_fullscreen_monitors \<Rightarrow> bool" where
  "fullscreen_monitors_isSet m \<longleftrightarrow> fm_top m \<noteq> -1"

section \<open>The growing array (rarray.h)\<close>

text \<open>An access to an index at or behind the size makes the array longer, filled with zeroed
  elements (the argument z); the capacity is not observable.\<close>

definition rarray_grow :: "'a \<Rightarrow> nat \<Rightarrow> 'a list \<Rightarrow> 'a list" where
  "rarray_grow z i d = d @ replicate (Suc i - length d) z"

definition rarray_get :: "'a \<Rightarrow> 'a list \<Rightarrow> nat \<Rightarrow> 'a \<times> 'a list" where
  "rarray_get z d i = (let d' = rarray_grow z i d in (d' ! i, d'))"

definition rarray_set :: "'a \<Rightarrow> 'a list \<Rightarrow> nat \<Rightarrow> 'a \<Rightarrow> 'a list" where
  "rarray_set z d i x = (rarray_grow z i d)[i := x]"

definition rarray_reset :: "'a list \<Rightarrow> 'a list" where
  "rarray_reset d = []"

lemma length_rarray_grow [simp]: "length (rarray_grow z i d) = max (length d) (Suc i)"
  by (simp add: rarray_grow_def max_def)

lemma rarray_grow_inside [simp]: "i < length d \<Longrightarrow> rarray_grow z i d = d"
  by (simp add: rarray_grow_def)

lemma rarray_set_append [simp]: "rarray_set z d (length d) x = d @ [x]"
  by (simp add: rarray_set_def rarray_grow_def)

lemma rarray_set_inside [simp]: "i < length d \<Longrightarrow> rarray_set z d i x = d[i := x]"
  by (simp add: rarray_set_def)

section \<open>Strings\<close>

text \<open>nstrdup copies up to the first zero byte; a model string has none. nstrndup copies at most l
  bytes, up to the first zero byte, and gives the null pointer for length 0.\<close>

type_synonym cstring = "byte list option"

definition c_str :: "byte list \<Rightarrow> byte list" where
  "c_str s = takeWhile (\<lambda>b. b \<noteq> 0) s"

definition nstrdup :: "cstring \<Rightarrow> cstring" where
  "nstrdup s1 = map_option c_str s1"

definition nstrndup :: "byte list \<Rightarrow> nat \<Rightarrow> cstring" where
  "nstrndup s1 l = (if l = 0 then None else Some (c_str (take l s1)))"

lemma c_str_no_zero [simp]: "0 \<notin> set (c_str s)"
  by (auto simp: c_str_def dest: set_takeWhileD)

lemma c_str_id [simp]: "0 \<notin> set s \<Longrightarrow> c_str s = s"
  by (auto simp: c_str_def takeWhile_eq_all_conv)

section \<open>The transport\<close>

datatype property_data =
  No_Data | Bytes "byte list" | Shorts "16 word list" | Longs "u32 list"

text \<open>format and value_len of a reply.\<close>

fun data_format :: "property_data \<Rightarrow> nat" where
  "data_format No_Data = 0"
| "data_format (Bytes _) = 8"
| "data_format (Shorts _) = 16"
| "data_format (Longs _) = 32"

fun value_len :: "property_data \<Rightarrow> nat" where
  "value_len No_Data = 0"
| "value_len (Bytes bs) = length bs"
| "value_len (Shorts ss) = length ss"
| "value_len (Longs ls) = length ls"

record x_reply =
  reply_type :: u32
  reply_data :: property_data

text \<open>What is asked of the server: the window, the property, the type, and the part wanted. A cookie
  stands for the request it was got for.\<close>

record x_request =
  rq_window :: u32
  rq_property :: u32
  rq_type :: u32
  rq_offset :: u32
  rq_length :: u32

type_synonym x_server = "x_request \<Rightarrow> x_reply option"

definition xcb_get_property :: "u32 \<Rightarrow> u32 \<Rightarrow> u32 \<Rightarrow> u32 \<Rightarrow> u32 \<Rightarrow> x_request" where
  "xcb_get_property window property ty offset len =
     \<lparr>rq_window = window, rq_property = property, rq_type = ty, rq_offset = offset,
      rq_length = len\<rparr>"

definition MAX_PROP_SIZE :: u32 where "MAX_PROP_SIZE = 100000"

text \<open>What the code sends: property changes (always in replace mode), deletions, and client messages
  of format 32 with five data words, sent to a destination with an event mask.\<close>

datatype x_out =
  Change_Property u32 u32 u32 property_data
| Delete_Property u32 u32
| Send_Message u32 u32 u32 u32 "u32 list"

definition netwm_sendevent_mask :: u32 where
  "netwm_sendevent_mask = flag_or (push_bit 20 1) (push_bit 19 1)"

definition send_client_message :: "u32 \<Rightarrow> u32 \<Rightarrow> u32 \<Rightarrow> u32 \<Rightarrow> u32 list \<Rightarrow> x_out" where
  "send_client_message m destination window message data =
     Send_Message m destination window message data"

section \<open>Reading replies (info_p.h, root_info.cpp)\<close>

text \<open>get_value_reply for uint32_t: the value, and whether there was one.\<close>

definition get_value_reply :: "x_reply option \<Rightarrow> u32 \<Rightarrow> u32 \<Rightarrow> u32 \<times> bool" where
  "get_value_reply reply ty def =
     (case reply of
        None \<Rightarrow> (def, False)
      | Some r \<Rightarrow>
          if reply_type r = ty \<and> value_len (reply_data r) = 1 \<and> data_format (reply_data r) = 32
          then (case reply_data r of Longs ls \<Rightarrow> (hd ls, True) | _ \<Rightarrow> (def, False))
          else (def, False))"

definition get_array_reply :: "x_reply option \<Rightarrow> u32 \<Rightarrow> u32 list" where
  "get_array_reply reply ty =
     (case reply of
        None \<Rightarrow> []
      | Some r \<Rightarrow>
          if reply_type r = ty \<and> value_len (reply_data r) > 0 \<and> data_format (reply_data r) = 32
          then (case reply_data r of Longs ls \<Rightarrow> ls | _ \<Rightarrow> [])
          else [])"

text \<open>A trailing zero byte is not part of the string.\<close>

definition drop_trailing_zero :: "byte list \<Rightarrow> byte list" where
  "drop_trailing_zero bs = (if last bs \<noteq> 0 then bs else take (length bs - 1) bs)"

definition get_string_reply :: "x_reply option \<Rightarrow> u32 \<Rightarrow> byte list" where
  "get_string_reply reply ty =
     (case reply of
        None \<Rightarrow> []
      | Some r \<Rightarrow>
          if reply_type r = ty \<and> data_format (reply_data r) = 8 \<and> value_len (reply_data r) > 0
          then (case reply_data r of Bytes bs \<Rightarrow> drop_trailing_zero bs | _ \<Rightarrow> [])
          else [])"

text \<open>QByteArray::split: the parts between the separators, one more than there are separators.\<close>

fun split_at_zero :: "byte list \<Rightarrow> byte list list" where
  "split_at_zero [] = [[]]"
| "split_at_zero (b # bs) =
     (if b = 0 then [] # split_at_zero bs
      else case split_at_zero bs of [] \<Rightarrow> [[b]] | p # ps \<Rightarrow> (b # p) # ps)"

definition get_stringlist_reply :: "x_reply option \<Rightarrow> u32 \<Rightarrow> byte list list" where
  "get_stringlist_reply reply ty =
     (case reply of
        None \<Rightarrow> []
      | Some r \<Rightarrow>
          if reply_type r = ty \<and> data_format (reply_data r) = 8 \<and> value_len (reply_data r) > 0
          then (case reply_data r of Bytes bs \<Rightarrow> split_at_zero (drop_trailing_zero bs) | _ \<Rightarrow> [])
          else [])"

text \<open>The simple cases of these readers.\<close>

lemma get_value_reply_single [simp]:
  "get_value_reply (Some \<lparr>reply_type = ty, reply_data = Longs [v]\<rparr>) ty def = (v, True)"
  by (simp add: get_value_reply_def)

lemma get_value_reply_none [simp]: "get_value_reply None ty def = (def, False)"
  by (simp add: get_value_reply_def)

lemma get_array_reply_longs [simp]:
  "get_array_reply (Some \<lparr>reply_type = ty, reply_data = Longs vs\<rparr>) ty = vs"
  by (simp add: get_array_reply_def)

lemma get_array_reply_none [simp]: "get_array_reply None ty = []"
  by (simp add: get_array_reply_def)

lemma get_string_reply_none [simp]: "get_string_reply None ty = []"
  by (simp add: get_string_reply_def)

lemma get_string_reply_bytes [simp]:
  "0 \<notin> set bs \<Longrightarrow> get_string_reply (Some \<lparr>reply_type = ty, reply_data = Bytes bs\<rparr>) ty = bs"
  by (cases bs rule: rev_cases) (auto simp: get_string_reply_def drop_trailing_zero_def)

lemma nstrndup_all [simp]:
  "0 \<notin> set bs \<Longrightarrow> nstrndup bs (length bs) = (if bs = [] then None else Some bs)"
  by (simp add: nstrndup_def)

section \<open>The requests and replies of one update\<close>

text \<open>Both infos update in two passes over their properties: first the cookies of the requests are
  collected, then the replies are taken in the order of the cookies. The state of the second pass is
  the list of the cookies not yet taken and the object; to take a cookie there is none of does not
  give a reply.\<close>

definition ask :: "bool \<Rightarrow> x_request \<Rightarrow> x_request list" where
  "ask wanted r = (if wanted then [r] else [])"

definition fetch :: "x_server \<Rightarrow> x_request list \<Rightarrow> x_reply option \<times> x_request list" where
  "fetch serve cookies = (case cookies of [] \<Rightarrow> (None, []) | r # rs \<Rightarrow> (serve r, rs))"

definition on_reply ::
    "x_server \<Rightarrow> bool \<Rightarrow> (x_reply option \<Rightarrow> 'p \<Rightarrow> 'p) \<Rightarrow> x_request list \<times> 'p \<Rightarrow> x_request list \<times> 'p" where
  "on_reply serve wanted store s =
     (case s of (cookies, p) \<Rightarrow>
        if wanted then let (reply, cookies) = fetch serve cookies in (cookies, store reply p)
        else (cookies, p))"

definition on_two_replies ::
    "x_server \<Rightarrow> bool \<Rightarrow> (x_reply option \<Rightarrow> x_reply option \<Rightarrow> 'p \<Rightarrow> 'p)
     \<Rightarrow> x_request list \<times> 'p \<Rightarrow> x_request list \<times> 'p" where
  "on_two_replies serve wanted store s =
     (case s of (cookies, p) \<Rightarrow>
        if wanted then
          let (reply1, cookies) = fetch serve cookies;
              (reply2, cookies) = fetch serve cookies
          in (cookies, store reply1 reply2 p)
        else (cookies, p))"

text \<open>A change of the object under a condition, and what the two readers do when the cookie of their
  own request is the next one.\<close>

definition guarded :: "bool \<Rightarrow> ('p \<Rightarrow> 'p) \<Rightarrow> 'p \<Rightarrow> 'p" where
  "guarded wanted f p = (if wanted then f p else p)"

lemma on_reply_ask:
  "on_reply serve b store (ask b r @ cookies, p) = (cookies, guarded b (store (serve r)) p)"
  by (simp add: on_reply_def ask_def fetch_def guarded_def)

lemma on_reply_ask_last:
  "on_reply serve b store (ask b r, p) = ([], guarded b (store (serve r)) p)"
  using on_reply_ask [of serve b store r "[]" p] by simp

lemma on_two_replies_ask:
  "on_two_replies serve b store (ask b r1 @ ask b r2 @ cookies, p)
     = (cookies, guarded b (store (serve r1) (serve r2)) p)"
  by (simp add: on_two_replies_def ask_def fetch_def guarded_def)

text \<open>What a condition leaves alone: a field that the change leaves alone, and an invariant.\<close>

lemma guarded_field: "(\<And>p. g (f p) = g p) \<Longrightarrow> g (guarded b f p) = g p"
  by (simp add: guarded_def)

lemma guarded_field_if: "g (guarded b f p) = (if b then g (f p) else g p)"
  by (simp add: guarded_def)

lemma guarded_invariant [intro]: "P p \<Longrightarrow> (\<And>p. P p \<Longrightarrow> P (f p)) \<Longrightarrow> P (guarded b f p)"
  by (simp add: guarded_def)

lemma on_reply_invariant:
  "P (snd s) \<Longrightarrow> (\<And>r p. P p \<Longrightarrow> P (store r p)) \<Longrightarrow> P (snd (on_reply serve b store s))"
  by (auto simp: on_reply_def fetch_def split: prod.splits list.splits)

lemma on_two_replies_invariant:
  "P (snd s) \<Longrightarrow> (\<And>r1 r2 p. P p \<Longrightarrow> P (store r1 r2 p)) \<Longrightarrow> P (snd (on_two_replies serve b store s))"
  by (auto simp: on_two_replies_def fetch_def split: prod.splits list.splits)

end
