(* ===== verification/Win_Info.thy ===== *)
theory Win_Info
  imports Net_Types
begin

text \<open>
  The state of como/win/x11/net/win_info.cpp and how it follows the properties of its window on the
  X server: the private struct, the decoding of each property, update with its two passes, the
  constructor, and the queries that compute something.

  None is a run that leaves the memory it owns: the only place is the copy of icon data. What the
  struct holds for memory management (the reference count, the connection) is not modelled.
\<close>

section \<open>State\<close>

record win_info =
  wi_atoms :: atom_table
  wi_role :: net_role
  wi_window :: u32
  wi_root :: u32
  wi_mapping_state :: net_mapping_state
  wi_mapping_state_dirty :: bool
  wi_icons :: "net_icon list"
  wi_icon_count :: nat
  wi_icon_sizes :: "int list option"
  wi_icon_geom :: net_rect
  wi_win_geom :: net_rect
  wi_state :: flag
  wi_extended_strut :: net_extended_strut
  wi_strut :: net_strut
  wi_frame_strut :: net_strut
  wi_frame_overlap :: net_strut
  wi_gtk_frame_extents :: net_strut
  wi_types :: "win_type list"
  wi_name :: cstring
  wi_visible_name :: cstring
  wi_icon_name :: cstring
  wi_visible_icon_name :: cstring
  wi_desktop :: int
  wi_pid :: int
  wi_handled_icons :: bool
  wi_user_time :: u32
  wi_startup_id :: cstring
  wi_opacity :: "64 word"
  wi_transient_for :: u32
  wi_window_group :: u32
  wi_icon_pixmap :: u32
  wi_icon_mask :: u32
  wi_allowed_actions :: flag
  wi_class_class :: cstring
  wi_class_name :: cstring
  wi_window_role :: cstring
  wi_client_machine :: cstring
  wi_desktop_file :: cstring
  wi_appmenu_object_path :: cstring
  wi_appmenu_service_name :: cstring
  wi_gtk_application_id :: cstring
  wi_properties :: flag
  wi_properties2 :: flag
  wi_fullscreen_monitors :: net_fullscreen_monitors
  wi_has_net_support :: bool
  wi_blockCompositing :: bool
  wi_urgency :: bool
  wi_input :: bool
  wi_initialMappingState :: net_mapping_state
  wi_protocols :: flag
  wi_opaqueRegion :: "net_rect list"

section \<open>Decoding the properties\<close>

definition mapping_state_of :: "u32 \<Rightarrow> net_mapping_state" where
  "mapping_state_of v =
     (if v = 3 then Mapping_Iconic else if v = 1 then Mapping_Visible else Mapping_Withdrawn)"

definition store_wm_state :: "x_reply option \<Rightarrow> win_info \<Rightarrow> win_info" where
  "store_wm_state reply p =
     (let p = p\<lparr>wi_mapping_state := Mapping_Withdrawn\<rparr>;
          (state, success) = get_value_reply reply (wi_atoms p WM_STATE) 0
      in if success
         then p\<lparr>wi_mapping_state := mapping_state_of state, wi_mapping_state_dirty := False\<rparr>
         else p)"

definition state_of_atom :: "atom_table \<Rightarrow> u32 \<Rightarrow> flag" where
  "state_of_atom atoms state =
     (if state = atoms NET_WM_STATE_MODAL then Modal
      else if state = atoms NET_WM_STATE_STICKY then Sticky
      else if state = atoms NET_WM_STATE_MAXIMIZED_VERT then MaxVert
      else if state = atoms NET_WM_STATE_MAXIMIZED_HORZ then MaxHoriz
      else if state = atoms NET_WM_STATE_SHADED then Shaded
      else if state = atoms NET_WM_STATE_SKIP_TASKBAR then SkipTaskbar
      else if state = atoms NET_WM_STATE_SKIP_PAGER then SkipPager
      else if state = atoms KDE_NET_WM_STATE_SKIP_SWITCHER then SkipSwitcher
      else if state = atoms NET_WM_STATE_HIDDEN then Hidden
      else if state = atoms NET_WM_STATE_FULLSCREEN then FullScreen
      else if state = atoms NET_WM_STATE_ABOVE then KeepAbove
      else if state = atoms NET_WM_STATE_BELOW then KeepBelow
      else if state = atoms NET_WM_STATE_DEMANDS_ATTENTION then DemandsAttention
      else if state = atoms NET_WM_STATE_STAYS_ON_TOP then KeepAbove
      else if state = atoms NET_WM_STATE_FOCUSED then Focused
      else 0)"

definition collect_flags :: "(u32 \<Rightarrow> flag) \<Rightarrow> u32 list \<Rightarrow> flag" where
  "collect_flags f atoms = fold (\<lambda>a acc. flag_or acc (f a)) atoms 0"

definition store_state :: "x_reply option \<Rightarrow> win_info \<Rightarrow> win_info" where
  "store_state reply p =
     p\<lparr>wi_state :=
         collect_flags (state_of_atom (wi_atoms p)) (get_array_reply reply XCB_ATOM_ATOM)\<rparr>"

definition store_desktop :: "x_reply option \<Rightarrow> win_info \<Rightarrow> win_info" where
  "store_desktop reply p =
     (let p = p\<lparr>wi_desktop := 0\<rparr>;
          (desktop, success) = get_value_reply reply XCB_ATOM_CARDINAL 0
      in if success
         then p\<lparr>wi_desktop := (if desktop \<noteq> 0xffffffff then to_int (desktop + 1) else OnAllDesktops)\<rparr>
         else p)"

text \<open>The strings: null, or the bytes of the reply if there are any.\<close>

definition string_of_reply :: "x_reply option \<Rightarrow> u32 \<Rightarrow> cstring" where
  "string_of_reply reply ty =
     (let str = get_string_reply reply ty
      in if length str > 0 then nstrndup str (length str) else None)"

definition store_name :: "x_reply option \<Rightarrow> win_info \<Rightarrow> win_info" where
  "store_name reply p = p\<lparr>wi_name := string_of_reply reply (wi_atoms p UTF8_STRING)\<rparr>"

definition store_visible_name :: "x_reply option \<Rightarrow> win_info \<Rightarrow> win_info" where
  "store_visible_name reply p =
     p\<lparr>wi_visible_name := string_of_reply reply (wi_atoms p UTF8_STRING)\<rparr>"

definition store_icon_name :: "x_reply option \<Rightarrow> win_info \<Rightarrow> win_info" where
  "store_icon_name reply p = p\<lparr>wi_icon_name := string_of_reply reply (wi_atoms p UTF8_STRING)\<rparr>"

definition store_visible_icon_name :: "x_reply option \<Rightarrow> win_info \<Rightarrow> win_info" where
  "store_visible_icon_name reply p =
     p\<lparr>wi_visible_icon_name := string_of_reply reply (wi_atoms p UTF8_STRING)\<rparr>"

definition type_of_atom :: "atom_table \<Rightarrow> u32 \<Rightarrow> win_type option" where
  "type_of_atom atoms ty =
     (if ty = atoms NET_WM_WINDOW_TYPE_NORMAL then Some wt_normal
      else if ty = atoms NET_WM_WINDOW_TYPE_DESKTOP then Some wt_desktop
      else if ty = atoms NET_WM_WINDOW_TYPE_DOCK then Some wt_dock
      else if ty = atoms NET_WM_WINDOW_TYPE_TOOLBAR then Some wt_toolbar
      else if ty = atoms NET_WM_WINDOW_TYPE_MENU then Some wt_menu
      else if ty = atoms NET_WM_WINDOW_TYPE_DIALOG then Some wt_dialog
      else if ty = atoms NET_WM_WINDOW_TYPE_UTILITY then Some wt_utility
      else if ty = atoms NET_WM_WINDOW_TYPE_SPLASH then Some wt_splash
      else if ty = atoms NET_WM_WINDOW_TYPE_DROPDOWN_MENU then Some wt_dropdown_menu
      else if ty = atoms NET_WM_WINDOW_TYPE_POPUP_MENU then Some wt_popup_menu
      else if ty = atoms NET_WM_WINDOW_TYPE_TOOLTIP then Some wt_tooltip
      else if ty = atoms NET_WM_WINDOW_TYPE_NOTIFICATION then Some wt_notification
      else if ty = atoms NET_WM_WINDOW_TYPE_COMBO then Some wt_combo_box
      else if ty = atoms NET_WM_WINDOW_TYPE_DND then Some wt_dnd_icon
      else if ty = atoms KDE_NET_WM_WINDOW_TYPE_OVERRIDE then Some wt_override
      else if ty = atoms KDE_NET_WM_WINDOW_TYPE_TOPMENU then Some wt_top_menu
      else if ty = atoms KDE_NET_WM_WINDOW_TYPE_ON_SCREEN_DISPLAY then Some wt_on_screen_display
      else if ty = atoms KDE_NET_WM_WINDOW_TYPE_CRITICAL_NOTIFICATION
      then Some wt_critical_notification
      else if ty = atoms KDE_NET_WM_WINDOW_TYPE_APPLET_POPUP then Some wt_applet_popup
      else None)"

text \<open>The known types are stored one after the other, over the unknown type at the start; the zeroed
  element of the array is the normal type.\<close>

fun store_types_loop :: "atom_table \<Rightarrow> u32 list \<Rightarrow> nat \<Rightarrow> win_type list \<Rightarrow> win_type list" where
  "store_types_loop atoms [] pos types = types"
| "store_types_loop atoms (ty # tys) pos types =
     (case type_of_atom atoms ty of
        None \<Rightarrow> store_types_loop atoms tys pos types
      | Some t \<Rightarrow> store_types_loop atoms tys (Suc pos) (rarray_set wt_normal types pos t))"

definition store_window_type :: "x_reply option \<Rightarrow> win_info \<Rightarrow> win_info" where
  "store_window_type reply p =
     (let p = p\<lparr>wi_types := rarray_set wt_normal (rarray_reset (wi_types p)) 0 wt_unknown,
               wi_has_net_support := False\<rparr>;
          types = get_array_reply reply XCB_ATOM_ATOM
      in if types \<noteq> []
         then p\<lparr>wi_has_net_support := True,
                wi_types := store_types_loop (wi_atoms p) types 0 (wi_types p)\<rparr>
         else p)"

text \<open>The four numbers of a strut, the twelve of an extended one, the four monitors, the rectangle: read
  when the reply has exactly as many, otherwise the default.\<close>

definition strut_of_array :: "u32 list \<Rightarrow> net_strut" where
  "strut_of_array data =
     (if length data = 4
      then \<lparr>strut_left = to_int (data ! 0), strut_right = to_int (data ! 1),
            strut_top = to_int (data ! 2), strut_bottom = to_int (data ! 3)\<rparr>
      else strut_default)"

definition store_strut :: "x_reply option \<Rightarrow> win_info \<Rightarrow> win_info" where
  "store_strut reply p =
     p\<lparr>wi_strut := strut_of_array (get_array_reply reply XCB_ATOM_CARDINAL)\<rparr>"

definition store_extended_strut :: "x_reply option \<Rightarrow> win_info \<Rightarrow> win_info" where
  "store_extended_strut reply p =
     (let data = get_array_reply reply XCB_ATOM_CARDINAL
      in p\<lparr>wi_extended_strut :=
             (if length data = 12
              then \<lparr>left_width = to_int (data ! 0), left_start = to_int (data ! 4),
                    left_end = to_int (data ! 5), right_width = to_int (data ! 1),
                    right_start = to_int (data ! 6), right_end = to_int (data ! 7),
                    top_width = to_int (data ! 2), top_start = to_int (data ! 8),
                    top_end = to_int (data ! 9), bottom_width = to_int (data ! 3),
                    bottom_start = to_int (data ! 10), bottom_end = to_int (data ! 11)\<rparr>
              else extended_strut_default)\<rparr>)"

definition store_fullscreen_monitors :: "x_reply option \<Rightarrow> win_info \<Rightarrow> win_info" where
  "store_fullscreen_monitors reply p =
     (let data = get_array_reply reply XCB_ATOM_CARDINAL
      in p\<lparr>wi_fullscreen_monitors :=
             (if length data = 4
              then \<lparr>fm_top = to_int (data ! 0), fm_bottom = to_int (data ! 1),
                    fm_left = to_int (data ! 2), fm_right = to_int (data ! 3)\<rparr>
              else fullscreen_monitors_default)\<rparr>)"

definition store_icon_geometry :: "x_reply option \<Rightarrow> win_info \<Rightarrow> win_info" where
  "store_icon_geometry reply p =
     (let data = get_array_reply reply XCB_ATOM_CARDINAL
      in p\<lparr>wi_icon_geom :=
             (if length data = 4
              then \<lparr>rect_pos = \<lparr>pt_x = to_int (data ! 0), pt_y = to_int (data ! 1)\<rparr>,
                    rect_size = \<lparr>sz_width = to_int (data ! 2), sz_height = to_int (data ! 3)\<rparr>\<rparr>
              else rect_default)\<rparr>)"

text \<open>readIcon: i counts icons, j is the index of the next word, both of 32 bits, and the product of
  width and height wraps. A copy that would read behind the end of the data is None, as is a loop
  that does not end.\<close>

partial_function (option) read_icon_loop ::
    "u32 list \<Rightarrow> nat \<Rightarrow> u32 \<Rightarrow> net_icon list \<Rightarrow> nat \<Rightarrow> (net_icon list \<times> nat) option" where
  "read_icon_loop data i j icons icon_count =
     (if j < of_nat (length data) - 2 then
        let width = data ! unat j;
            height = data ! unat (j + 1);
            j = j + 2;
            sz = width * height * 4
        in if j + width * height > of_nat (length data) then Some (icons, icon_count)
           else if unat j + unat sz div 4 > length data then None
           else read_icon_loop data (Suc i) (j + width * height)
                  (rarray_set icon_default icons i
                     \<lparr>icon_size = \<lparr>sz_width = to_int width, sz_height = to_int height\<rparr>,
                      icon_data = Some (take (unat sz div 4) (drop (unat j) data))\<rparr>)
                  (Suc icon_count)
      else Some (icons, icon_count))"

definition readIcon :: "x_reply option \<Rightarrow> net_icon list \<Rightarrow> (net_icon list \<times> nat) option" where
  "readIcon reply icons =
     (let icons = rarray_reset icons
      in case reply of
           None \<Rightarrow> Some (icons, 0)
         | Some r \<Rightarrow>
             if value_len (reply_data r) < 3 \<or> data_format (reply_data r) \<noteq> 32
                \<or> reply_type r \<noteq> XCB_ATOM_CARDINAL
             then Some (icons, 0)
             else case reply_data r of
                    Longs data \<Rightarrow> read_icon_loop data 0 0 icons 0
                  | _ \<Rightarrow> Some (icons, 0))"

definition store_icon :: "x_reply option \<Rightarrow> win_info \<Rightarrow> win_info option" where
  "store_icon reply p =
     do {
       (icons, icon_count) \<leftarrow> readIcon reply (wi_icons p);
       Some (p\<lparr>wi_icons := icons, wi_icon_count := icon_count, wi_icon_sizes := None\<rparr>)
     }"

text \<open>The frame extents have two properties: the second is used when the first is empty.\<close>

definition store_frame_extents :: "x_reply option \<Rightarrow> x_reply option \<Rightarrow> win_info \<Rightarrow> win_info" where
  "store_frame_extents reply1 reply2 p =
     (let data = get_array_reply reply1 XCB_ATOM_CARDINAL;
          data = (if data = [] then get_array_reply reply2 XCB_ATOM_CARDINAL else data)
      in p\<lparr>wi_frame_strut := strut_of_array data\<rparr>)"

definition store_frame_overlap :: "x_reply option \<Rightarrow> win_info \<Rightarrow> win_info" where
  "store_frame_overlap reply p =
     p\<lparr>wi_frame_overlap := strut_of_array (get_array_reply reply XCB_ATOM_CARDINAL)\<rparr>"

definition store_block_compositing :: "x_reply option \<Rightarrow> x_reply option \<Rightarrow> win_info \<Rightarrow> win_info" where
  "store_block_compositing reply1 reply2 p =
     (let p = p\<lparr>wi_blockCompositing := False\<rparr>;
          (data, success) = get_value_reply reply1 XCB_ATOM_CARDINAL 0;
          p = (if success then p\<lparr>wi_blockCompositing := data \<noteq> 0\<rparr> else p);
          (data, success) = get_value_reply reply2 XCB_ATOM_CARDINAL 0
      in if success then
           (if data = 1 then p\<lparr>wi_blockCompositing := True\<rparr>
            else if data = 2 then p\<lparr>wi_blockCompositing := False\<rparr>
            else p)
         else p)"

definition store_pid :: "x_reply option \<Rightarrow> win_info \<Rightarrow> win_info" where
  "store_pid reply p = p\<lparr>wi_pid := to_int (fst (get_value_reply reply XCB_ATOM_CARDINAL 0))\<rparr>"

definition store_startup_id :: "x_reply option \<Rightarrow> win_info \<Rightarrow> win_info" where
  "store_startup_id reply p = p\<lparr>wi_startup_id := string_of_reply reply (wi_atoms p UTF8_STRING)\<rparr>"

definition store_opacity :: "x_reply option \<Rightarrow> win_info \<Rightarrow> win_info" where
  "store_opacity reply p =
     p\<lparr>wi_opacity := ucast (fst (get_value_reply reply XCB_ATOM_CARDINAL 0xffffffff))\<rparr>"

definition action_of_atom :: "atom_table \<Rightarrow> u32 \<Rightarrow> flag" where
  "action_of_atom atoms action =
     (if action = atoms NET_WM_ACTION_MOVE then ActionMove
      else if action = atoms NET_WM_ACTION_RESIZE then ActionResize
      else if action = atoms NET_WM_ACTION_MINIMIZE then ActionMinimize
      else if action = atoms NET_WM_ACTION_SHADE then ActionShade
      else if action = atoms NET_WM_ACTION_STICK then ActionStick
      else if action = atoms NET_WM_ACTION_MAXIMIZE_VERT then ActionMaxVert
      else if action = atoms NET_WM_ACTION_MAXIMIZE_HORZ then ActionMaxHoriz
      else if action = atoms NET_WM_ACTION_FULLSCREEN then ActionFullScreen
      else if action = atoms NET_WM_ACTION_CHANGE_DESKTOP then ActionChangeDesktop
      else if action = atoms NET_WM_ACTION_CLOSE then ActionClose
      else 0)"

definition store_allowed_actions :: "x_reply option \<Rightarrow> win_info \<Rightarrow> win_info" where
  "store_allowed_actions reply p =
     p\<lparr>wi_allowed_actions :=
         collect_flags (action_of_atom (wi_atoms p)) (get_array_reply reply XCB_ATOM_ATOM)\<rparr>"

definition store_user_time :: "x_reply option \<Rightarrow> win_info \<Rightarrow> win_info" where
  "store_user_time reply p =
     (let p = p\<lparr>wi_user_time := -1\<rparr>;
          (val, success) = get_value_reply reply XCB_ATOM_CARDINAL 0
      in if success then p\<lparr>wi_user_time := val\<rparr> else p)"

definition store_transient_for :: "x_reply option \<Rightarrow> win_info \<Rightarrow> win_info" where
  "store_transient_for reply p =
     p\<lparr>wi_transient_for := fst (get_value_reply reply XCB_ATOM_WINDOW 0)\<rparr>"

text \<open>The nine words of WM_HINTS: flags, input, initial state, icon pixmap, icon window, the two
  coordinates of the icon, icon mask, window group.\<close>

definition store_wm_hints :: "x_reply option \<Rightarrow> win_info \<Rightarrow> win_info" where
  "store_wm_hints reply p =
     (case reply of
        None \<Rightarrow> p
      | Some r \<Rightarrow>
          if data_format (reply_data r) = 32 \<and> value_len (reply_data r) = 9
             \<and> reply_type r = XCB_ATOM_WM_HINTS
          then case reply_data r of
                 Longs hints \<Rightarrow>
                   (let fl = hints ! 0;
                        p = (if bit fl 0 then p\<lparr>wi_input := hints ! 1 \<noteq> 0\<rparr> else p);
                        p = (if bit fl 1
                             then p\<lparr>wi_initialMappingState := mapping_state_of (hints ! 2)\<rparr> else p);
                        p = (if bit fl 2 then p\<lparr>wi_icon_pixmap := hints ! 3\<rparr> else p);
                        p = (if bit fl 5 then p\<lparr>wi_icon_mask := hints ! 7\<rparr> else p);
                        p = (if bit fl 6 then p\<lparr>wi_window_group := hints ! 8\<rparr> else p)
                    in p\<lparr>wi_urgency := bit fl 8\<rparr>)
               | _ \<Rightarrow> p
          else p)"

definition store_window_class :: "x_reply option \<Rightarrow> win_info \<Rightarrow> win_info" where
  "store_window_class reply p =
     (let p = p\<lparr>wi_class_name := None, wi_class_class := None\<rparr>
      in case get_stringlist_reply reply XCB_ATOM_STRING of
           [n, c] \<Rightarrow> p\<lparr>wi_class_name := nstrdup (Some n), wi_class_class := nstrdup (Some c)\<rparr>
         | [n] \<Rightarrow> p\<lparr>wi_class_name := nstrdup (Some n), wi_class_class := nstrdup (Some n)\<rparr>
         | _ \<Rightarrow> p)"

definition store_window_role :: "x_reply option \<Rightarrow> win_info \<Rightarrow> win_info" where
  "store_window_role reply p = p\<lparr>wi_window_role := string_of_reply reply XCB_ATOM_STRING\<rparr>"

definition store_client_machine :: "x_reply option \<Rightarrow> win_info \<Rightarrow> win_info" where
  "store_client_machine reply p = p\<lparr>wi_client_machine := string_of_reply reply XCB_ATOM_STRING\<rparr>"

definition protocol_of_atom :: "atom_table \<Rightarrow> u32 \<Rightarrow> flag" where
  "protocol_of_atom atoms a =
     (if a = atoms WM_TAKE_FOCUS then TakeFocusProtocol
      else if a = atoms WM_DELETE_WINDOW then DeleteWindowProtocol
      else if a = atoms NET_WM_PING then PingProtocol
      else if a = atoms NET_WM_SYNC_REQUEST then SyncRequestProtocol
      else if a = atoms NET_WM_CONTEXT_HELP then ContextHelpProtocol
      else 0)"

definition store_protocols :: "x_reply option \<Rightarrow> win_info \<Rightarrow> win_info" where
  "store_protocols reply p =
     p\<lparr>wi_protocols :=
         collect_flags (protocol_of_atom (wi_atoms p)) (get_array_reply reply XCB_ATOM_ATOM)\<rparr>"

text \<open>Four numbers at a time; what is left at the end is ignored.\<close>

fun rects_of_array :: "u32 list \<Rightarrow> net_rect list" where
  "rects_of_array (x # y # w # h # rest) =
     \<lparr>rect_pos = \<lparr>pt_x = to_int x, pt_y = to_int y\<rparr>,
      rect_size = \<lparr>sz_width = to_int w, sz_height = to_int h\<rparr>\<rparr> # rects_of_array rest"
| "rects_of_array _ = []"

definition store_opaque_region :: "x_reply option \<Rightarrow> win_info \<Rightarrow> win_info" where
  "store_opaque_region reply p =
     p\<lparr>wi_opaqueRegion := rects_of_array (get_array_reply reply XCB_ATOM_CARDINAL)\<rparr>"

definition store_desktop_file :: "x_reply option \<Rightarrow> win_info \<Rightarrow> win_info" where
  "store_desktop_file reply p =
     p\<lparr>wi_desktop_file := string_of_reply reply (wi_atoms p UTF8_STRING)\<rparr>"

definition store_gtk_application_id :: "x_reply option \<Rightarrow> win_info \<Rightarrow> win_info" where
  "store_gtk_application_id reply p =
     p\<lparr>wi_gtk_application_id := string_of_reply reply (wi_atoms p UTF8_STRING)\<rparr>"

definition store_gtk_frame_extents :: "x_reply option \<Rightarrow> win_info \<Rightarrow> win_info" where
  "store_gtk_frame_extents reply p =
     p\<lparr>wi_gtk_frame_extents := strut_of_array (get_array_reply reply XCB_ATOM_CARDINAL)\<rparr>"

definition store_appmenu_object_path :: "x_reply option \<Rightarrow> win_info \<Rightarrow> win_info" where
  "store_appmenu_object_path reply p =
     p\<lparr>wi_appmenu_object_path := string_of_reply reply XCB_ATOM_STRING\<rparr>"

definition store_appmenu_service_name :: "x_reply option \<Rightarrow> win_info \<Rightarrow> win_info" where
  "store_appmenu_service_name reply p =
     p\<lparr>wi_appmenu_service_name := string_of_reply reply XCB_ATOM_STRING\<rparr>"

end
