(* ===== verification/Win_Info_Update.thy ===== *)
theory Win_Info_Update
  imports Win_Info
begin

text \<open>
  win_info::update, the constructor, updateWMState, and the queries of a window info that compute
  something. update first sends the requests for all dirty properties, then takes the replies; the
  properties an info was not created for are never read, except WM_STATE.

  The last section shows that the two passes agree: the update does the same as one that reads each
  property directly, as long as the activities are not asked for, whose reply is never taken.
\<close>

section \<open>The requests\<close>

definition wm_property :: "win_info \<Rightarrow> kws_atom \<Rightarrow> u32 \<Rightarrow> u32 \<Rightarrow> x_request" where
  "wm_property p a ty len = xcb_get_property (wi_window p) (wi_atoms p a) ty 0 len"

definition requests_before_icon :: "win_info \<Rightarrow> flag \<Rightarrow> flag \<Rightarrow> x_request list" where
  "requests_before_icon p dirty dirty2 =
     (let utf8 = wi_atoms p UTF8_STRING
      in ask (has dirty XAWMState) (wm_property p WM_STATE (wi_atoms p WM_STATE) 1)
       @ ask (has dirty WMState) (wm_property p NET_WM_STATE XCB_ATOM_ATOM 2048)
       @ ask (has dirty WMDesktop) (wm_property p NET_WM_DESKTOP XCB_ATOM_CARDINAL 1)
       @ ask (has dirty WMName) (wm_property p NET_WM_NAME utf8 MAX_PROP_SIZE)
       @ ask (has dirty WMVisibleName) (wm_property p NET_WM_VISIBLE_NAME utf8 MAX_PROP_SIZE)
       @ ask (has dirty WMIconName) (wm_property p NET_WM_ICON_NAME utf8 MAX_PROP_SIZE)
       @ ask (has dirty WMVisibleIconName)
           (wm_property p NET_WM_VISIBLE_ICON_NAME utf8 MAX_PROP_SIZE)
       @ ask (has dirty WMWindowType) (wm_property p NET_WM_WINDOW_TYPE XCB_ATOM_ATOM 2048)
       @ ask (has dirty WMStrut) (wm_property p NET_WM_STRUT XCB_ATOM_CARDINAL 4)
       @ ask (has dirty2 WM2ExtendedStrut)
           (wm_property p NET_WM_STRUT_PARTIAL XCB_ATOM_CARDINAL 12)
       @ ask (has dirty2 WM2FullscreenMonitors)
           (wm_property p NET_WM_FULLSCREEN_MONITORS XCB_ATOM_CARDINAL 4)
       @ ask (has dirty WMIconGeometry) (wm_property p NET_WM_ICON_GEOMETRY XCB_ATOM_CARDINAL 4))"

definition icon_request :: "win_info \<Rightarrow> x_request" where
  "icon_request p = wm_property p NET_WM_ICON XCB_ATOM_CARDINAL 0xffffffff"

definition requests_after_icon :: "win_info \<Rightarrow> flag \<Rightarrow> flag \<Rightarrow> x_request list" where
  "requests_after_icon p dirty dirty2 =
     ask (has dirty WMFrameExtents) (wm_property p NET_FRAME_EXTENTS XCB_ATOM_CARDINAL 4)
     @ ask (has dirty WMFrameExtents) (wm_property p KDE_NET_WM_FRAME_STRUT XCB_ATOM_CARDINAL 4)
     @ ask (has dirty2 WM2FrameOverlap) (wm_property p NET_WM_FRAME_OVERLAP XCB_ATOM_CARDINAL 4)
     @ ask (has dirty2 WM2Activities)
         (wm_property p KDE_NET_WM_ACTIVITIES XCB_ATOM_STRING MAX_PROP_SIZE)
     @ ask (has dirty2 WM2BlockCompositing)
         (wm_property p KDE_NET_WM_BLOCK_COMPOSITING XCB_ATOM_CARDINAL 1)
     @ ask (has dirty2 WM2BlockCompositing)
         (wm_property p NET_WM_BYPASS_COMPOSITOR XCB_ATOM_CARDINAL 1)
     @ ask (has dirty WMPid) (wm_property p NET_WM_PID XCB_ATOM_CARDINAL 1)
     @ ask (has dirty2 WM2StartupId)
         (wm_property p NET_STARTUP_ID (wi_atoms p UTF8_STRING) MAX_PROP_SIZE)
     @ ask (has dirty2 WM2Opacity) (wm_property p NET_WM_WINDOW_OPACITY XCB_ATOM_CARDINAL 1)
     @ ask (has dirty2 WM2AllowedActions)
         (wm_property p NET_WM_ALLOWED_ACTIONS XCB_ATOM_ATOM 2048)
     @ ask (has dirty2 WM2UserTime) (wm_property p NET_WM_USER_TIME XCB_ATOM_CARDINAL 1)
     @ ask (has dirty2 WM2TransientFor)
         (xcb_get_property (wi_window p) XCB_ATOM_WM_TRANSIENT_FOR XCB_ATOM_WINDOW 0 1)"

text \<open>The mask of the properties that WM_HINTS holds.\<close>

definition wm_hints_mask :: flag where
  "wm_hints_mask =
     flag_or (flag_or (flag_or (flag_or WM2GroupLeader WM2Urgency) WM2Input) WM2InitialMappingState)
       WM2IconPixmap"

definition requests_of_client :: "win_info \<Rightarrow> flag \<Rightarrow> x_request list" where
  "requests_of_client p dirty2 =
     (let utf8 = wi_atoms p UTF8_STRING
      in ask (has dirty2 wm_hints_mask)
           (xcb_get_property (wi_window p) XCB_ATOM_WM_HINTS XCB_ATOM_WM_HINTS 0 9)
       @ ask (has dirty2 WM2WindowClass)
           (xcb_get_property (wi_window p) XCB_ATOM_WM_CLASS XCB_ATOM_STRING 0 MAX_PROP_SIZE)
       @ ask (has dirty2 WM2WindowRole)
           (wm_property p WM_WINDOW_ROLE XCB_ATOM_STRING MAX_PROP_SIZE)
       @ ask (has dirty2 WM2ClientMachine)
           (xcb_get_property (wi_window p) XCB_ATOM_WM_CLIENT_MACHINE XCB_ATOM_STRING 0
              MAX_PROP_SIZE)
       @ ask (has dirty2 WM2Protocols) (wm_property p WM_PROTOCOLS XCB_ATOM_ATOM 2048)
       @ ask (has dirty2 WM2OpaqueRegion)
           (wm_property p NET_WM_OPAQUE_REGION XCB_ATOM_CARDINAL MAX_PROP_SIZE)
       @ ask (has dirty2 WM2DesktopFileName)
           (wm_property p KDE_NET_WM_DESKTOP_FILE utf8 MAX_PROP_SIZE)
       @ ask (has dirty2 WM2GTKApplicationId) (wm_property p GTK_APPLICATION_ID utf8 MAX_PROP_SIZE)
       @ ask (has dirty2 WM2GTKFrameExtents) (wm_property p GTK_FRAME_EXTENTS XCB_ATOM_CARDINAL 4)
       @ ask (has dirty2 WM2AppMenuObjectPath)
           (wm_property p KDE_NET_WM_APPMENU_OBJECT_PATH XCB_ATOM_STRING MAX_PROP_SIZE)
       @ ask (has dirty2 WM2AppMenuServiceName)
           (wm_property p KDE_NET_WM_APPMENU_SERVICE_NAME XCB_ATOM_STRING MAX_PROP_SIZE))"

section \<open>The replies\<close>

type_synonym reading = "x_request list \<times> win_info"

definition read_before_icon :: "x_server \<Rightarrow> flag \<Rightarrow> flag \<Rightarrow> reading \<Rightarrow> reading" where
  "read_before_icon serve dirty dirty2 s =
     (let s = on_reply serve (has dirty XAWMState) store_wm_state s;
          s = on_reply serve (has dirty WMState) store_state s;
          s = on_reply serve (has dirty WMDesktop) store_desktop s;
          s = on_reply serve (has dirty WMName) store_name s;
          s = on_reply serve (has dirty WMVisibleName) store_visible_name s;
          s = on_reply serve (has dirty WMIconName) store_icon_name s;
          s = on_reply serve (has dirty WMVisibleIconName) store_visible_icon_name s;
          s = on_reply serve (has dirty WMWindowType) store_window_type s;
          s = on_reply serve (has dirty WMStrut) store_strut s;
          s = on_reply serve (has dirty2 WM2ExtendedStrut) store_extended_strut s;
          s = on_reply serve (has dirty2 WM2FullscreenMonitors) store_fullscreen_monitors s
      in on_reply serve (has dirty WMIconGeometry) store_icon_geometry s)"

definition read_icon :: "x_server \<Rightarrow> flag \<Rightarrow> reading \<Rightarrow> reading option" where
  "read_icon serve dirty s =
     (case s of (cookies, p) \<Rightarrow>
        if has dirty WMIcon then
          let (reply, cookies) = fetch serve cookies
          in map_option (\<lambda>p. (cookies, p)) (store_icon reply p)
        else Some (cookies, p))"

definition read_after_icon :: "x_server \<Rightarrow> flag \<Rightarrow> flag \<Rightarrow> reading \<Rightarrow> reading" where
  "read_after_icon serve dirty dirty2 s =
     (let s = on_two_replies serve (has dirty WMFrameExtents) store_frame_extents s;
          s = on_reply serve (has dirty2 WM2FrameOverlap) store_frame_overlap s;
          s = on_two_replies serve (has dirty2 WM2BlockCompositing) store_block_compositing s;
          s = on_reply serve (has dirty WMPid) store_pid s;
          s = on_reply serve (has dirty2 WM2StartupId) store_startup_id s;
          s = on_reply serve (has dirty2 WM2Opacity) store_opacity s;
          s = on_reply serve (has dirty2 WM2AllowedActions) store_allowed_actions s;
          s = on_reply serve (has dirty2 WM2UserTime) store_user_time s
      in on_reply serve (has dirty2 WM2TransientFor) store_transient_for s)"

definition read_of_client :: "x_server \<Rightarrow> flag \<Rightarrow> reading \<Rightarrow> reading" where
  "read_of_client serve dirty2 s =
     (let s = on_reply serve (has dirty2 wm_hints_mask) store_wm_hints s;
          s = on_reply serve (has dirty2 WM2WindowClass) store_window_class s;
          s = on_reply serve (has dirty2 WM2WindowRole) store_window_role s;
          s = on_reply serve (has dirty2 WM2ClientMachine) store_client_machine s;
          s = on_reply serve (has dirty2 WM2Protocols) store_protocols s;
          s = on_reply serve (has dirty2 WM2OpaqueRegion) store_opaque_region s;
          s = on_reply serve (has dirty2 WM2DesktopFileName) store_desktop_file s;
          s = on_reply serve (has dirty2 WM2GTKApplicationId) store_gtk_application_id s;
          s = on_reply serve (has dirty2 WM2GTKFrameExtents) store_gtk_frame_extents s;
          s = on_reply serve (has dirty2 WM2AppMenuObjectPath) store_appmenu_object_path s
      in on_reply serve (has dirty2 WM2AppMenuServiceName) store_appmenu_service_name s)"

text \<open>What is dirty: what the info was created for, and WM_STATE whenever it changed.\<close>

definition dirty_of :: "win_info \<Rightarrow> flag \<Rightarrow> flag" where
  "dirty_of p dirtyProperties =
     (let dirty = flag_and dirtyProperties (wi_properties p)
      in if has dirtyProperties XAWMState then flag_or dirty XAWMState else dirty)"

definition update :: "x_server \<Rightarrow> flag \<Rightarrow> flag \<Rightarrow> win_info \<Rightarrow> win_info option" where
  "update serve dirtyProperties dirtyProperties2 p =
     (let dirty = dirty_of p dirtyProperties;
          dirty2 = flag_and dirtyProperties2 (wi_properties2 p);
          cookies = requests_before_icon p dirty dirty2 @ ask (has dirty WMIcon) (icon_request p)
            @ requests_after_icon p dirty dirty2 @ requests_of_client p dirty2
      in do {
        s \<leftarrow> read_icon serve dirty (read_before_icon serve dirty dirty2 (cookies, p));
        Some (snd (read_of_client serve dirty2 (read_after_icon serve dirty dirty2 s)))
      })"

definition updateWMState :: "x_server \<Rightarrow> win_info \<Rightarrow> win_info option" where
  "updateWMState serve p = update serve XAWMState 0 p"

text \<open>The constructor.\<close>

definition win_info_init ::
    "atom_table \<Rightarrow> u32 \<Rightarrow> u32 \<Rightarrow> flag \<Rightarrow> flag \<Rightarrow> net_role \<Rightarrow> win_info" where
  "win_info_init atoms window rootWindow properties properties2 role =
     \<lparr>wi_atoms = atoms, wi_role = role, wi_window = window, wi_root = rootWindow,
      wi_mapping_state = Mapping_Withdrawn, wi_mapping_state_dirty = True,
      wi_icons = [], wi_icon_count = 0, wi_icon_sizes = None,
      wi_icon_geom = rect_default, wi_win_geom = rect_default, wi_state = 0,
      wi_extended_strut = extended_strut_default, wi_strut = strut_default,
      wi_frame_strut = strut_default, wi_frame_overlap = strut_default,
      wi_gtk_frame_extents = strut_default, wi_types = rarray_set wt_normal [] 0 wt_unknown,
      wi_name = None, wi_visible_name = None, wi_icon_name = None, wi_visible_icon_name = None,
      wi_desktop = 0, wi_pid = 0, wi_handled_icons = False, wi_user_time = -1,
      wi_startup_id = None, wi_opacity = 0xffffffff, wi_transient_for = 0, wi_window_group = 0,
      wi_icon_pixmap = 0, wi_icon_mask = 0, wi_allowed_actions = 0, wi_class_class = None,
      wi_class_name = None, wi_window_role = None, wi_client_machine = None,
      wi_desktop_file = None, wi_appmenu_object_path = None, wi_appmenu_service_name = None,
      wi_gtk_application_id = None, wi_properties = properties, wi_properties2 = properties2,
      wi_fullscreen_monitors = fullscreen_monitors_default, wi_has_net_support = False,
      wi_blockCompositing = False, wi_urgency = False, wi_input = True,
      wi_initialMappingState = Mapping_Withdrawn, wi_protocols = NoProtocol,
      wi_opaqueRegion = []\<rparr>"

definition win_info_new ::
    "x_server \<Rightarrow> atom_table \<Rightarrow> u32 \<Rightarrow> u32 \<Rightarrow> flag \<Rightarrow> flag \<Rightarrow> net_role \<Rightarrow> win_info option" where
  "win_info_new serve atoms window rootWindow properties properties2 role =
     update serve properties properties2
       (win_info_init atoms window rootWindow properties properties2 role)"

section \<open>Queries\<close>

fun first_supported :: "win_type list \<Rightarrow> flag \<Rightarrow> win_type" where
  "first_supported [] supported_types = wt_unknown"
| "first_supported (t # ts) supported_types =
     (if type_matches_mask t supported_types then t else first_supported ts supported_types)"

definition windowType :: "win_info \<Rightarrow> flag \<Rightarrow> win_type" where
  "windowType p supported_types = first_supported (wi_types p) supported_types"

definition hasWindowType :: "win_info \<Rightarrow> bool" where
  "hasWindowType p \<longleftrightarrow> length (wi_types p) > 0"

definition supportsProtocol :: "win_info \<Rightarrow> flag \<Rightarrow> bool" where
  "supportsProtocol p protocol \<longleftrightarrow>
     flag_and (wi_protocols p) protocol = protocol \<and> (protocol \<noteq> 0 \<or> wi_protocols p = 0)"

text \<open>iconInternal: the largest icon, or one that is not smaller than asked for. The loops run over the
  whole array, not only over the icons counted.\<close>

fun largest_icon :: "net_icon \<Rightarrow> net_icon list \<Rightarrow> net_icon" where
  "largest_icon result [] = result"
| "largest_icon result (i # is) =
     largest_icon
       (if sz_width (icon_size i) \<ge> sz_width (icon_size result)
           \<and> sz_height (icon_size i) \<ge> sz_height (icon_size result) then i else result) is"

fun closest_icon :: "int \<Rightarrow> int \<Rightarrow> net_icon \<Rightarrow> net_icon list \<Rightarrow> net_icon" where
  "closest_icon width height result [] = result"
| "closest_icon width height result (i # is) =
     closest_icon width height
       (if (sz_width (icon_size i) \<ge> width \<and> sz_width (icon_size i) < sz_width (icon_size result))
           \<and> (sz_height (icon_size i) \<ge> height
              \<and> sz_height (icon_size i) < sz_height (icon_size result)) then i else result) is"

definition iconInternal :: "net_icon list \<Rightarrow> nat \<Rightarrow> int \<Rightarrow> int \<Rightarrow> net_icon" where
  "iconInternal icons icon_count width height =
     (if icon_count = 0 then icon_default
      else let result = largest_icon (hd icons) (tl icons)
           in if width = -1 \<and> height = -1 then result else closest_icon width height result icons)"

definition win_info_icon :: "win_info \<Rightarrow> int \<Rightarrow> int \<Rightarrow> net_icon" where
  "win_info_icon p width height = iconInternal (wi_icons p) (wi_icon_count p) width height"

text \<open>iconSizes keeps what it computed: the sizes of the icons and two zeros.\<close>

definition iconSizes :: "win_info \<Rightarrow> int list \<times> win_info" where
  "iconSizes p =
     (let p = (if wi_icon_sizes p = None
               then p\<lparr>wi_icon_sizes := Some
                        (concat (map (\<lambda>i. [sz_width (icon_size i), sz_height (icon_size i)])
                           (take (wi_icon_count p) (wi_icons p))) @ [0, 0])\<rparr>
               else p)
      in (the (wi_icon_sizes p), p))"

text \<open>kdeGeometry: the geometry is asked for when it is not known. The answers of the server are the
  size of the window and its position on the root window.\<close>

definition kdeGeometry ::
    "net_size option \<Rightarrow> net_point option \<Rightarrow> win_info \<Rightarrow> net_rect \<times> net_rect \<times> win_info" where
  "kdeGeometry geometry translated p =
     (let p = (if sz_width (rect_size (wi_win_geom p)) = 0 \<or> sz_height (rect_size (wi_win_geom p)) = 0
               then case (geometry, translated) of
                      (Some g, Some t) \<Rightarrow> p\<lparr>wi_win_geom := \<lparr>rect_pos = t, rect_size = g\<rparr>\<rparr>
                    | _ \<Rightarrow> p
               else p);
          window = wi_win_geom p;
          fs = wi_frame_strut p;
          frame = \<lparr>rect_pos = \<lparr>pt_x = pt_x (rect_pos window) - strut_left fs,
                              pt_y = pt_y (rect_pos window) - strut_top fs\<rparr>,
                   rect_size =
                     \<lparr>sz_width = sz_width (rect_size window) + strut_left fs + strut_right fs,
                      sz_height = sz_height (rect_size window) + strut_top fs + strut_bottom fs\<rparr>\<rparr>
      in (frame, window, p))"

section \<open>The two passes agree\<close>

definition direct_before_icon :: "x_server \<Rightarrow> flag \<Rightarrow> flag \<Rightarrow> win_info \<Rightarrow> win_info \<Rightarrow> win_info" where
  "direct_before_icon serve dirty dirty2 q p =
     (let utf8 = wi_atoms q UTF8_STRING;
          get = (\<lambda>a ty len. serve (wm_property q a ty len));
          p = guarded (has dirty XAWMState) (store_wm_state (get WM_STATE (wi_atoms q WM_STATE) 1)) p;
          p = guarded (has dirty WMState) (store_state (get NET_WM_STATE XCB_ATOM_ATOM 2048)) p;
          p = guarded (has dirty WMDesktop)
                (store_desktop (get NET_WM_DESKTOP XCB_ATOM_CARDINAL 1)) p;
          p = guarded (has dirty WMName) (store_name (get NET_WM_NAME utf8 MAX_PROP_SIZE)) p;
          p = guarded (has dirty WMVisibleName)
                (store_visible_name (get NET_WM_VISIBLE_NAME utf8 MAX_PROP_SIZE)) p;
          p = guarded (has dirty WMIconName)
                (store_icon_name (get NET_WM_ICON_NAME utf8 MAX_PROP_SIZE)) p;
          p = guarded (has dirty WMVisibleIconName)
                (store_visible_icon_name (get NET_WM_VISIBLE_ICON_NAME utf8 MAX_PROP_SIZE)) p;
          p = guarded (has dirty WMWindowType)
                (store_window_type (get NET_WM_WINDOW_TYPE XCB_ATOM_ATOM 2048)) p;
          p = guarded (has dirty WMStrut) (store_strut (get NET_WM_STRUT XCB_ATOM_CARDINAL 4)) p;
          p = guarded (has dirty2 WM2ExtendedStrut)
                (store_extended_strut (get NET_WM_STRUT_PARTIAL XCB_ATOM_CARDINAL 12)) p;
          p = guarded (has dirty2 WM2FullscreenMonitors)
                (store_fullscreen_monitors (get NET_WM_FULLSCREEN_MONITORS XCB_ATOM_CARDINAL 4)) p
      in guarded (has dirty WMIconGeometry)
           (store_icon_geometry (get NET_WM_ICON_GEOMETRY XCB_ATOM_CARDINAL 4)) p)"

definition direct_icon :: "x_server \<Rightarrow> flag \<Rightarrow> win_info \<Rightarrow> win_info \<Rightarrow> win_info option" where
  "direct_icon serve dirty q p =
     (if has dirty WMIcon then store_icon (serve (icon_request q)) p else Some p)"

definition direct_after_icon :: "x_server \<Rightarrow> flag \<Rightarrow> flag \<Rightarrow> win_info \<Rightarrow> win_info \<Rightarrow> win_info" where
  "direct_after_icon serve dirty dirty2 q p =
     (let get = (\<lambda>a ty len. serve (wm_property q a ty len));
          p = guarded (has dirty WMFrameExtents)
                (store_frame_extents (get NET_FRAME_EXTENTS XCB_ATOM_CARDINAL 4)
                   (get KDE_NET_WM_FRAME_STRUT XCB_ATOM_CARDINAL 4)) p;
          p = guarded (has dirty2 WM2FrameOverlap)
                (store_frame_overlap (get NET_WM_FRAME_OVERLAP XCB_ATOM_CARDINAL 4)) p;
          p = guarded (has dirty2 WM2BlockCompositing)
                (store_block_compositing (get KDE_NET_WM_BLOCK_COMPOSITING XCB_ATOM_CARDINAL 1)
                   (get NET_WM_BYPASS_COMPOSITOR XCB_ATOM_CARDINAL 1)) p;
          p = guarded (has dirty WMPid) (store_pid (get NET_WM_PID XCB_ATOM_CARDINAL 1)) p;
          p = guarded (has dirty2 WM2StartupId)
                (store_startup_id (get NET_STARTUP_ID (wi_atoms q UTF8_STRING) MAX_PROP_SIZE)) p;
          p = guarded (has dirty2 WM2Opacity)
                (store_opacity (get NET_WM_WINDOW_OPACITY XCB_ATOM_CARDINAL 1)) p;
          p = guarded (has dirty2 WM2AllowedActions)
                (store_allowed_actions (get NET_WM_ALLOWED_ACTIONS XCB_ATOM_ATOM 2048)) p;
          p = guarded (has dirty2 WM2UserTime)
                (store_user_time (get NET_WM_USER_TIME XCB_ATOM_CARDINAL 1)) p
      in guarded (has dirty2 WM2TransientFor)
           (store_transient_for
              (serve (xcb_get_property (wi_window q) XCB_ATOM_WM_TRANSIENT_FOR XCB_ATOM_WINDOW 0 1)))
           p)"

definition direct_of_client :: "x_server \<Rightarrow> flag \<Rightarrow> win_info \<Rightarrow> win_info \<Rightarrow> win_info" where
  "direct_of_client serve dirty2 q p =
     (let utf8 = wi_atoms q UTF8_STRING;
          get = (\<lambda>a ty len. serve (wm_property q a ty len));
          predefined = (\<lambda>a ty len. serve (xcb_get_property (wi_window q) a ty 0 len));
          p = guarded (has dirty2 wm_hints_mask)
                (store_wm_hints (predefined XCB_ATOM_WM_HINTS XCB_ATOM_WM_HINTS 9)) p;
          p = guarded (has dirty2 WM2WindowClass)
                (store_window_class (predefined XCB_ATOM_WM_CLASS XCB_ATOM_STRING MAX_PROP_SIZE)) p;
          p = guarded (has dirty2 WM2WindowRole)
                (store_window_role (get WM_WINDOW_ROLE XCB_ATOM_STRING MAX_PROP_SIZE)) p;
          p = guarded (has dirty2 WM2ClientMachine)
                (store_client_machine
                   (predefined XCB_ATOM_WM_CLIENT_MACHINE XCB_ATOM_STRING MAX_PROP_SIZE)) p;
          p = guarded (has dirty2 WM2Protocols)
                (store_protocols (get WM_PROTOCOLS XCB_ATOM_ATOM 2048)) p;
          p = guarded (has dirty2 WM2OpaqueRegion)
                (store_opaque_region (get NET_WM_OPAQUE_REGION XCB_ATOM_CARDINAL MAX_PROP_SIZE)) p;
          p = guarded (has dirty2 WM2DesktopFileName)
                (store_desktop_file (get KDE_NET_WM_DESKTOP_FILE utf8 MAX_PROP_SIZE)) p;
          p = guarded (has dirty2 WM2GTKApplicationId)
                (store_gtk_application_id (get GTK_APPLICATION_ID utf8 MAX_PROP_SIZE)) p;
          p = guarded (has dirty2 WM2GTKFrameExtents)
                (store_gtk_frame_extents (get GTK_FRAME_EXTENTS XCB_ATOM_CARDINAL 4)) p;
          p = guarded (has dirty2 WM2AppMenuObjectPath)
                (store_appmenu_object_path
                   (get KDE_NET_WM_APPMENU_OBJECT_PATH XCB_ATOM_STRING MAX_PROP_SIZE)) p
      in guarded (has dirty2 WM2AppMenuServiceName)
           (store_appmenu_service_name
              (get KDE_NET_WM_APPMENU_SERVICE_NAME XCB_ATOM_STRING MAX_PROP_SIZE)) p)"

text \<open>The reading of each property by itself, without cookies.\<close>

definition direct_update :: "x_server \<Rightarrow> flag \<Rightarrow> flag \<Rightarrow> win_info \<Rightarrow> win_info option" where
  "direct_update serve dirtyProperties dirtyProperties2 p =
     (let dirty = dirty_of p dirtyProperties;
          dirty2 = flag_and dirtyProperties2 (wi_properties2 p)
      in map_option (\<lambda>q. direct_of_client serve dirty2 p (direct_after_icon serve dirty dirty2 p q))
           (direct_icon serve dirty p (direct_before_icon serve dirty dirty2 p p)))"

lemma read_before_icon_direct:
  "read_before_icon serve dirty dirty2 (requests_before_icon q dirty dirty2 @ cookies, p)
     = (cookies, direct_before_icon serve dirty dirty2 q p)"
  by (simp only: read_before_icon_def requests_before_icon_def direct_before_icon_def Let_def
      append_assoc on_reply_ask)

lemma read_icon_direct:
  "read_icon serve dirty (ask (has dirty WMIcon) (icon_request q) @ cookies, p)
     = map_option (\<lambda>p. (cookies, p)) (direct_icon serve dirty q p)"
  by (cases "has dirty WMIcon") (simp_all add: read_icon_def direct_icon_def ask_def fetch_def)

lemma read_after_icon_direct:
  assumes "\<not> has dirty2 WM2Activities"
  shows "read_after_icon serve dirty dirty2 (requests_after_icon q dirty dirty2 @ cookies, p)
     = (cookies, direct_after_icon serve dirty dirty2 q p)"
proof -
  have "ask (has dirty2 WM2Activities) r = []" for r
    using assms by (simp add: ask_def)
  then show ?thesis
    by (simp only: read_after_icon_def requests_after_icon_def direct_after_icon_def Let_def
        append_assoc append_Nil on_reply_ask on_two_replies_ask)
qed

lemma read_of_client_direct:
  "read_of_client serve dirty2 (requests_of_client q dirty2, p)
     = ([], direct_of_client serve dirty2 q p)"
  by (simp only: read_of_client_def requests_of_client_def direct_of_client_def Let_def
      append_assoc on_reply_ask on_reply_ask_last)

lemma update_direct:
  assumes "\<not> has (flag_and dirtyProperties2 (wi_properties2 p)) WM2Activities"
  shows "update serve dirtyProperties dirtyProperties2 p
     = direct_update serve dirtyProperties dirtyProperties2 p"
  unfolding update_def direct_update_def Let_def
  by (simp only: read_before_icon_direct read_icon_direct)
    (cases "direct_icon serve (dirty_of p dirtyProperties) p
       (direct_before_icon serve (dirty_of p dirtyProperties)
         (flag_and dirtyProperties2 (wi_properties2 p)) p p)";
      simp add: read_after_icon_direct [OF assms] read_of_client_direct)

end
