(* ===== verification/Win_Info_Set.thy ===== *)
theory Win_Info_Set
  imports Win_Info_Update
begin

text \<open>
  The operations of como/win/x11/net/win_info.cpp that write: the setters of a client and of the
  window manager with what they send to the X server, and the handling of events. Last comes the
  window manager's side of a state change, changeState of como/win/x11/win_info.h.

  None is a failed assert (most setters belong to one role), the use of a null string, or the copy
  of icon data that is not there.
\<close>

type_synonym effect = "(win_info \<times> x_out list) option"

definition change_property :: "win_info \<Rightarrow> kws_atom \<Rightarrow> u32 \<Rightarrow> property_data \<Rightarrow> x_out" where
  "change_property p a ty data = Change_Property (wi_window p) (wi_atoms p a) ty data"

definition delete_property :: "win_info \<Rightarrow> kws_atom \<Rightarrow> x_out" where
  "delete_property p a = Delete_Property (wi_window p) (wi_atoms p a)"

section \<open>Icons\<close>

text \<open>The pixels of an icon: width times height words, which must be there.\<close>

definition icon_pixels :: "net_icon \<Rightarrow> u32 list option" where
  "icon_pixels i =
     (let sz = sz_width (icon_size i) * sz_height (icon_size i)
      in if sz < 0 \<or> \<not> int_range sz then None
         else if sz = 0 then Some []
         else case icon_data i of
                None \<Rightarrow> None
              | Some d \<Rightarrow> if length d < nat sz then None else Some (take (nat sz) d))"

definition icon_words :: "net_icon \<Rightarrow> u32 list option" where
  "icon_words i =
     map_option (\<lambda>d. to_u32 (sz_width (icon_size i)) # to_u32 (sz_height (icon_size i)) # d)
       (icon_pixels i)"

definition setIconInternal :: "u32 \<Rightarrow> net_icon \<Rightarrow> bool \<Rightarrow> win_info \<Rightarrow> effect" where
  "setIconInternal property icon replace p =
     (if wi_role p \<noteq> Role_Client then None
      else
        let icons = (if replace then map (\<lambda>i. icon_default) (wi_icons p) else wi_icons p);
            icon_count = (if replace then 0 else wi_icon_count p);
            icons = rarray_set icon_default icons icon_count icon
        in do {
          pixels \<leftarrow> icon_pixels icon;
          let icons = icons[icon_count := icon\<lparr>icon_data := Some pixels\<rparr>];
          words \<leftarrow> those (map icon_words (take (Suc icon_count) icons));
          Some (p\<lparr>wi_icons := icons, wi_icon_count := Suc icon_count, wi_icon_sizes := None\<rparr>,
                [Change_Property (wi_window p) property XCB_ATOM_CARDINAL (Longs (concat words))])
        })"

definition setIcon :: "net_icon \<Rightarrow> bool \<Rightarrow> win_info \<Rightarrow> effect" where
  "setIcon icon replace p = setIconInternal (wi_atoms p NET_WM_ICON) icon replace p"

text \<open>The argument scale is the compound multiplication with the device pixel ratio.\<close>

definition setIconGeometry :: "(int \<Rightarrow> int) \<Rightarrow> net_rect \<Rightarrow> win_info \<Rightarrow> effect" where
  "setIconGeometry scale geometry p =
     (if wi_role p \<noteq> Role_Client then None
      else
        let x = scale (pt_x (rect_pos geometry)); y = scale (pt_y (rect_pos geometry));
            w = scale (sz_width (rect_size geometry)); h = scale (sz_height (rect_size geometry));
            p = p\<lparr>wi_icon_geom := \<lparr>rect_pos = \<lparr>pt_x = x, pt_y = y\<rparr>,
                                   rect_size = \<lparr>sz_width = w, sz_height = h\<rparr>\<rparr>\<rparr>
        in Some (p,
             [if w = 0 then delete_property p NET_WM_ICON_GEOMETRY
              else change_property p NET_WM_ICON_GEOMETRY XCB_ATOM_CARDINAL
                     (Longs [to_u32 x, to_u32 y, to_u32 w, to_u32 h])]))"

section \<open>Struts and frames\<close>

definition setExtendedStrut :: "net_extended_strut \<Rightarrow> win_info \<Rightarrow> effect" where
  "setExtendedStrut es p =
     (if wi_role p \<noteq> Role_Client then None
      else
        let p = p\<lparr>wi_extended_strut := es\<rparr>
        in Some (p,
             [change_property p NET_WM_STRUT_PARTIAL XCB_ATOM_CARDINAL
                (Longs [to_u32 (left_width es), to_u32 (right_width es), to_u32 (top_width es),
                        to_u32 (bottom_width es), to_u32 (left_start es), to_u32 (left_end es),
                        to_u32 (right_start es), to_u32 (right_end es), to_u32 (top_start es),
                        to_u32 (top_end es), to_u32 (bottom_start es), to_u32 (bottom_end es)])]))"

definition strut_words :: "net_strut \<Rightarrow> u32 list" where
  "strut_words s =
     [to_u32 (strut_left s), to_u32 (strut_right s), to_u32 (strut_top s), to_u32 (strut_bottom s)]"

definition setStrut :: "net_strut \<Rightarrow> win_info \<Rightarrow> effect" where
  "setStrut strut p =
     (if wi_role p \<noteq> Role_Client then None
      else
        let p = p\<lparr>wi_strut := strut\<rparr>
        in Some (p, [change_property p NET_WM_STRUT XCB_ATOM_CARDINAL (Longs (strut_words strut))]))"

definition setFrameExtents :: "net_strut \<Rightarrow> win_info \<Rightarrow> win_info \<times> x_out list" where
  "setFrameExtents strut p =
     (let p = p\<lparr>wi_frame_strut := strut\<rparr>; d = Longs (strut_words strut)
      in (p, [change_property p NET_FRAME_EXTENTS XCB_ATOM_CARDINAL d,
              change_property p KDE_NET_WM_FRAME_STRUT XCB_ATOM_CARDINAL d]))"

definition setFrameOverlap :: "net_strut \<Rightarrow> win_info \<Rightarrow> win_info \<times> x_out list" where
  "setFrameOverlap strut p =
     (let strut = (if strut_left strut \<noteq> -1 \<or> strut_top strut \<noteq> -1 \<or> strut_right strut \<noteq> -1
                      \<or> strut_bottom strut \<noteq> -1
                   then \<lparr>strut_left = max 0 (strut_left strut),
                         strut_right = max 0 (strut_right strut),
                         strut_top = max 0 (strut_top strut),
                         strut_bottom = max 0 (strut_bottom strut)\<rparr>
                   else strut);
          p = p\<lparr>wi_frame_overlap := strut\<rparr>
      in (p, [change_property p NET_WM_FRAME_OVERLAP XCB_ATOM_CARDINAL (Longs (strut_words strut))]))"

definition setGtkFrameExtents :: "net_strut \<Rightarrow> win_info \<Rightarrow> win_info \<times> x_out list" where
  "setGtkFrameExtents strut p =
     (let p = p\<lparr>wi_gtk_frame_extents := strut\<rparr>
      in (p, [change_property p GTK_FRAME_EXTENTS XCB_ATOM_CARDINAL (Longs (strut_words strut))]))"

text \<open>A client asks for the topology, the window manager sets it.\<close>

definition monitor_words :: "net_fullscreen_monitors \<Rightarrow> u32 list" where
  "monitor_words m = [to_u32 (fm_top m), to_u32 (fm_bottom m), to_u32 (fm_left m), to_u32 (fm_right m)]"

definition setFullscreenMonitors :: "net_fullscreen_monitors \<Rightarrow> win_info \<Rightarrow> win_info \<times> x_out list" where
  "setFullscreenMonitors topology p =
     (if wi_role p = Role_Client then
        (p, [send_client_message netwm_sendevent_mask (wi_root p) (wi_window p)
               (wi_atoms p NET_WM_FULLSCREEN_MONITORS) (monitor_words topology @ [1])])
      else
        let p = p\<lparr>wi_fullscreen_monitors := topology\<rparr>
        in (p, [change_property p NET_WM_FULLSCREEN_MONITORS XCB_ATOM_CARDINAL
                  (Longs (monitor_words topology))]))"

section \<open>The window state\<close>

definition state_message :: "win_info \<Rightarrow> u32 \<Rightarrow> u32 \<Rightarrow> u32 \<Rightarrow> x_out" where
  "state_message p action a1 a2 =
     Send_Message netwm_sendevent_mask (wi_root p) (wi_window p) (wi_atoms p NET_WM_STATE)
       [action, a1, a2, 0, 0]"

definition on_off :: "flag \<Rightarrow> flag \<Rightarrow> u32" where
  "on_off state f = (if has state f then 1 else 0)"

text \<open>One message for a flag that is to change.\<close>

definition flag_messages :: "win_info \<Rightarrow> flag \<Rightarrow> flag \<Rightarrow> flag \<Rightarrow> kws_atom \<Rightarrow> x_out list" where
  "flag_messages p state msk f a =
     (if has msk f \<and> flag_and (wi_state p) f \<noteq> flag_and state f
      then [state_message p (on_off state f) (wi_atoms p a) 0] else [])"

definition max_messages :: "win_info \<Rightarrow> flag \<Rightarrow> flag \<Rightarrow> x_out list" where
  "max_messages p state msk =
     (if has msk Max_state
         \<and> flag_and (flag_and (wi_state p) msk) Max_state \<noteq> flag_and state Max_state
      then
        let wishstate = flag_or (without (wi_state p) msk) (flag_and state msk);
            horiz = wi_atoms p NET_WM_STATE_MAXIMIZED_HORZ;
            vert = wi_atoms p NET_WM_STATE_MAXIMIZED_VERT
        in if flag_and wishstate MaxHoriz \<noteq> flag_and (wi_state p) MaxHoriz
              \<and> flag_and wishstate MaxVert \<noteq> flag_and (wi_state p) MaxVert
           then if flag_and wishstate Max_state = Max_state then [state_message p 1 horiz vert]
                else if flag_and wishstate Max_state = 0 then [state_message p 0 horiz vert]
                else [state_message p (on_off wishstate MaxHoriz) horiz 0,
                      state_message p (on_off wishstate MaxVert) vert 0]
           else if flag_and wishstate MaxVert \<noteq> flag_and (wi_state p) MaxVert
           then [state_message p (on_off wishstate MaxVert) vert 0]
           else if flag_and wishstate MaxHoriz \<noteq> flag_and (wi_state p) MaxHoriz
           then [state_message p (on_off wishstate MaxHoriz) horiz 0]
           else []
      else [])"

text \<open>What a client sends, and the atoms the window manager (or the owner of a withdrawn window)
  writes.\<close>

definition client_state_messages :: "win_info \<Rightarrow> flag \<Rightarrow> flag \<Rightarrow> x_out list" where
  "client_state_messages p state msk =
     flag_messages p state msk Modal NET_WM_STATE_MODAL
     @ flag_messages p state msk Sticky NET_WM_STATE_STICKY
     @ max_messages p state msk
     @ flag_messages p state msk Shaded NET_WM_STATE_SHADED
     @ flag_messages p state msk SkipTaskbar NET_WM_STATE_SKIP_TASKBAR
     @ flag_messages p state msk SkipPager NET_WM_STATE_SKIP_PAGER
     @ flag_messages p state msk SkipSwitcher KDE_NET_WM_STATE_SKIP_SWITCHER
     @ flag_messages p state msk Hidden NET_WM_STATE_HIDDEN
     @ flag_messages p state msk FullScreen NET_WM_STATE_FULLSCREEN
     @ flag_messages p state msk KeepAbove NET_WM_STATE_ABOVE
     @ flag_messages p state msk KeepAbove NET_WM_STATE_STAYS_ON_TOP
     @ flag_messages p state msk KeepBelow NET_WM_STATE_BELOW
     @ flag_messages p state msk DemandsAttention NET_WM_STATE_DEMANDS_ATTENTION"

definition atom_if :: "atom_table \<Rightarrow> flag \<Rightarrow> flag \<Rightarrow> kws_atom \<Rightarrow> u32 list" where
  "atom_if atoms s f a = (if has s f then [atoms a] else [])"

definition state_atoms :: "atom_table \<Rightarrow> flag \<Rightarrow> u32 list" where
  "state_atoms atoms s =
     atom_if atoms s Modal NET_WM_STATE_MODAL
     @ atom_if atoms s MaxVert NET_WM_STATE_MAXIMIZED_VERT
     @ atom_if atoms s MaxHoriz NET_WM_STATE_MAXIMIZED_HORZ
     @ atom_if atoms s Shaded NET_WM_STATE_SHADED
     @ atom_if atoms s Hidden NET_WM_STATE_HIDDEN
     @ atom_if atoms s FullScreen NET_WM_STATE_FULLSCREEN
     @ atom_if atoms s DemandsAttention NET_WM_STATE_DEMANDS_ATTENTION
     @ atom_if atoms s Focused NET_WM_STATE_FOCUSED
     @ atom_if atoms s KeepAbove NET_WM_STATE_ABOVE
     @ atom_if atoms s KeepAbove NET_WM_STATE_STAYS_ON_TOP
     @ atom_if atoms s KeepBelow NET_WM_STATE_BELOW
     @ atom_if atoms s Sticky NET_WM_STATE_STICKY
     @ atom_if atoms s SkipTaskbar NET_WM_STATE_SKIP_TASKBAR
     @ atom_if atoms s SkipPager NET_WM_STATE_SKIP_PAGER
     @ atom_if atoms s SkipSwitcher KDE_NET_WM_STATE_SKIP_SWITCHER"

text \<open>The current state is needed, so it is read even when the info does not follow it.\<close>

definition refresh_state :: "x_server \<Rightarrow> win_info \<Rightarrow> win_info option" where
  "refresh_state serve p =
     do {
       p \<leftarrow> (if wi_mapping_state_dirty p then updateWMState serve p else Some p);
       if \<not> has (wi_properties p) WMState then
         do {
           p \<leftarrow> update serve WMState 0 (p\<lparr>wi_properties := flag_or (wi_properties p) WMState\<rparr>);
           Some (p\<lparr>wi_properties := without (wi_properties p) WMState\<rparr>)
         }
       else Some p
     }"

definition setState :: "x_server \<Rightarrow> flag \<Rightarrow> flag \<Rightarrow> win_info \<Rightarrow> effect" where
  "setState serve state msk p =
     do {
       p \<leftarrow> refresh_state serve p;
       Some (if wi_role p = Role_Client \<and> wi_mapping_state p \<noteq> Mapping_Withdrawn
             then (p, client_state_messages p state msk)
             else
               let p = p\<lparr>wi_state := flag_or (without (wi_state p) msk) state\<rparr>
               in (p, [change_property p NET_WM_STATE XCB_ATOM_ATOM
                         (Longs (state_atoms (wi_atoms p) (wi_state p)))]))
     }"

section \<open>The window type\<close>

text \<open>The atoms of each type: of the arrays in the code, the first len elements.\<close>

fun window_type_atoms :: "win_type \<Rightarrow> kws_atom list" where
  "window_type_atoms wt_override = [KDE_NET_WM_WINDOW_TYPE_OVERRIDE, NET_WM_WINDOW_TYPE_NORMAL]"
| "window_type_atoms wt_dialog = [NET_WM_WINDOW_TYPE_DIALOG]"
| "window_type_atoms wt_menu = [NET_WM_WINDOW_TYPE_MENU]"
| "window_type_atoms wt_top_menu = [KDE_NET_WM_WINDOW_TYPE_TOPMENU, NET_WM_WINDOW_TYPE_DOCK]"
| "window_type_atoms wt_toolbar = [NET_WM_WINDOW_TYPE_TOOLBAR]"
| "window_type_atoms wt_dock = [NET_WM_WINDOW_TYPE_DOCK]"
| "window_type_atoms wt_desktop = [NET_WM_WINDOW_TYPE_DESKTOP]"
| "window_type_atoms wt_utility = [NET_WM_WINDOW_TYPE_UTILITY, NET_WM_WINDOW_TYPE_DIALOG]"
| "window_type_atoms wt_splash = [NET_WM_WINDOW_TYPE_SPLASH, NET_WM_WINDOW_TYPE_DOCK]"
| "window_type_atoms wt_dropdown_menu = [NET_WM_WINDOW_TYPE_DROPDOWN_MENU]"
| "window_type_atoms wt_popup_menu = [NET_WM_WINDOW_TYPE_POPUP_MENU]"
| "window_type_atoms wt_tooltip = [NET_WM_WINDOW_TYPE_TOOLTIP]"
| "window_type_atoms wt_notification = [NET_WM_WINDOW_TYPE_NOTIFICATION]"
| "window_type_atoms wt_combo_box = [NET_WM_WINDOW_TYPE_COMBO]"
| "window_type_atoms wt_dnd_icon = [NET_WM_WINDOW_TYPE_DND]"
| "window_type_atoms wt_on_screen_display =
     [KDE_NET_WM_WINDOW_TYPE_ON_SCREEN_DISPLAY, NET_WM_WINDOW_TYPE_NOTIFICATION]"
| "window_type_atoms wt_critical_notification =
     [KDE_NET_WM_WINDOW_TYPE_CRITICAL_NOTIFICATION, NET_WM_WINDOW_TYPE_NOTIFICATION]"
| "window_type_atoms wt_applet_popup = [KDE_NET_WM_WINDOW_TYPE_APPLET_POPUP]"
| "window_type_atoms wt_normal = [NET_WM_WINDOW_TYPE_NORMAL]"
| "window_type_atoms wt_unknown = [NET_WM_WINDOW_TYPE_NORMAL]"

definition setWindowType :: "win_type \<Rightarrow> win_info \<Rightarrow> effect" where
  "setWindowType ty p =
     (if wi_role p \<noteq> Role_Client then None
      else Some (p, [change_property p NET_WM_WINDOW_TYPE XCB_ATOM_ATOM
                       (Longs (map (wi_atoms p) (window_type_atoms ty)))]))"

section \<open>Strings\<close>

text \<open>The four names: an empty one deletes the property, a null one is read through the null pointer.\<close>

definition name_output :: "win_info \<Rightarrow> kws_atom \<Rightarrow> byte list \<Rightarrow> x_out" where
  "name_output p a s =
     (if s \<noteq> [] then change_property p a (wi_atoms p UTF8_STRING) (Bytes s)
      else delete_property p a)"

definition win_setName :: "cstring \<Rightarrow> win_info \<Rightarrow> effect" where
  "win_setName name p =
     (if wi_role p \<noteq> Role_Client then None
      else do {
        s \<leftarrow> nstrdup name;
        let p = p\<lparr>wi_name := Some s\<rparr>;
        Some (p, [name_output p NET_WM_NAME s])
      })"

definition setVisibleName :: "cstring \<Rightarrow> win_info \<Rightarrow> effect" where
  "setVisibleName visibleName p =
     (if wi_role p \<noteq> Role_WindowManager then None
      else do {
        s \<leftarrow> nstrdup visibleName;
        let p = p\<lparr>wi_visible_name := Some s\<rparr>;
        Some (p, [name_output p NET_WM_VISIBLE_NAME s])
      })"

definition setIconName :: "cstring \<Rightarrow> win_info \<Rightarrow> effect" where
  "setIconName iconName p =
     (if wi_role p \<noteq> Role_Client then None
      else do {
        s \<leftarrow> nstrdup iconName;
        let p = p\<lparr>wi_icon_name := Some s\<rparr>;
        Some (p, [name_output p NET_WM_ICON_NAME s])
      })"

definition setVisibleIconName :: "cstring \<Rightarrow> win_info \<Rightarrow> effect" where
  "setVisibleIconName visibleIconName p =
     (if wi_role p \<noteq> Role_WindowManager then None
      else do {
        s \<leftarrow> nstrdup visibleIconName;
        let p = p\<lparr>wi_visible_icon_name := Some s\<rparr>;
        Some (p, [name_output p NET_WM_VISIBLE_ICON_NAME s])
      })"

definition setStartupId :: "cstring \<Rightarrow> win_info \<Rightarrow> effect" where
  "setStartupId startupId p =
     (if wi_role p \<noteq> Role_Client then None
      else do {
        s \<leftarrow> nstrdup startupId;
        let p = p\<lparr>wi_startup_id := Some s\<rparr>;
        Some (p, [change_property p NET_STARTUP_ID (wi_atoms p UTF8_STRING) (Bytes s)])
      })"

definition setAppMenuObjectPath :: "cstring \<Rightarrow> win_info \<Rightarrow> effect" where
  "setAppMenuObjectPath name p =
     (if wi_role p \<noteq> Role_Client then None
      else do {
        s \<leftarrow> nstrdup name;
        let p = p\<lparr>wi_appmenu_object_path := Some s\<rparr>;
        Some (p, [change_property p KDE_NET_WM_APPMENU_OBJECT_PATH XCB_ATOM_STRING (Bytes s)])
      })"

definition setAppMenuServiceName :: "cstring \<Rightarrow> win_info \<Rightarrow> effect" where
  "setAppMenuServiceName name p =
     (if wi_role p \<noteq> Role_Client then None
      else do {
        s \<leftarrow> nstrdup name;
        let p = p\<lparr>wi_appmenu_service_name := Some s\<rparr>;
        Some (p, [change_property p KDE_NET_WM_APPMENU_SERVICE_NAME XCB_ATOM_STRING (Bytes s)])
      })"

definition setDesktopFileName :: "cstring \<Rightarrow> win_info \<Rightarrow> effect" where
  "setDesktopFileName name p =
     (if wi_role p \<noteq> Role_Client then None
      else do {
        s \<leftarrow> nstrdup name;
        let p = p\<lparr>wi_desktop_file := Some s\<rparr>;
        Some (p, [change_property p KDE_NET_WM_DESKTOP_FILE (wi_atoms p UTF8_STRING) (Bytes s)])
      })"

section \<open>Numbers and the other flags\<close>

definition setDesktop :: "x_server \<Rightarrow> int \<Rightarrow> win_info \<Rightarrow> effect" where
  "setDesktop serve desktop p =
     do {
       p \<leftarrow> (if wi_mapping_state_dirty p then updateWMState serve p else Some p);
       let p = p\<lparr>wi_desktop := desktop\<rparr>;
       Some (p,
         [if desktop = 0 then delete_property p NET_WM_DESKTOP
          else change_property p NET_WM_DESKTOP XCB_ATOM_CARDINAL
                 (Longs [if desktop = OnAllDesktops then 0xffffffff else to_u32 (desktop - 1)])])
     }"

definition setPid :: "int \<Rightarrow> win_info \<Rightarrow> effect" where
  "setPid pid p =
     (if wi_role p \<noteq> Role_Client then None
      else
        let p = p\<lparr>wi_pid := pid\<rparr>
        in Some (p, [change_property p NET_WM_PID XCB_ATOM_CARDINAL (Longs [to_u32 pid])]))"

definition setHandledIcons :: "bool \<Rightarrow> win_info \<Rightarrow> effect" where
  "setHandledIcons handled p =
     (if wi_role p \<noteq> Role_Client then None
      else
        let p = p\<lparr>wi_handled_icons := handled\<rparr>
        in Some (p, [change_property p NET_WM_HANDLED_ICONS XCB_ATOM_CARDINAL
                       (Longs [if handled then 1 else 0])]))"

text \<open>The opacity is a long of 64 bits whose first four bytes are sent; on a machine with the low byte
  first these are its lower half.\<close>

definition setOpacity :: "64 word \<Rightarrow> win_info \<Rightarrow> win_info \<times> x_out list" where
  "setOpacity opacity p =
     (let p = p\<lparr>wi_opacity := opacity\<rparr>
      in (p, [change_property p NET_WM_WINDOW_OPACITY XCB_ATOM_CARDINAL (Longs [ucast opacity])]))"

definition action_atoms :: "atom_table \<Rightarrow> flag \<Rightarrow> u32 list" where
  "action_atoms atoms a =
     atom_if atoms a ActionMove NET_WM_ACTION_MOVE
     @ atom_if atoms a ActionResize NET_WM_ACTION_RESIZE
     @ atom_if atoms a ActionMinimize NET_WM_ACTION_MINIMIZE
     @ atom_if atoms a ActionShade NET_WM_ACTION_SHADE
     @ atom_if atoms a ActionStick NET_WM_ACTION_STICK
     @ atom_if atoms a ActionMaxVert NET_WM_ACTION_MAXIMIZE_VERT
     @ atom_if atoms a ActionMaxHoriz NET_WM_ACTION_MAXIMIZE_HORZ
     @ atom_if atoms a ActionFullScreen NET_WM_ACTION_FULLSCREEN
     @ atom_if atoms a ActionChangeDesktop NET_WM_ACTION_CHANGE_DESKTOP
     @ atom_if atoms a ActionClose NET_WM_ACTION_CLOSE"

definition setAllowedActions :: "flag \<Rightarrow> win_info \<Rightarrow> win_info \<times> x_out list" where
  "setAllowedActions actions p =
     (let p = p\<lparr>wi_allowed_actions := actions\<rparr>
      in (p, [change_property p NET_WM_ALLOWED_ACTIONS XCB_ATOM_ATOM
                (Longs (action_atoms (wi_atoms p) actions))]))"

definition setUserTime :: "u32 \<Rightarrow> win_info \<Rightarrow> effect" where
  "setUserTime time p =
     (if wi_role p \<noteq> Role_Client then None
      else
        let p = p\<lparr>wi_user_time := time\<rparr>
        in Some (p, [change_property p NET_WM_USER_TIME XCB_ATOM_CARDINAL (Longs [time])]))"

definition setBlockingCompositing :: "bool \<Rightarrow> win_info \<Rightarrow> effect" where
  "setBlockingCompositing active p =
     (if wi_role p \<noteq> Role_Client then None
      else
        let p = p\<lparr>wi_blockCompositing := active\<rparr>
        in Some (p,
             if active
             then [change_property p KDE_NET_WM_BLOCK_COMPOSITING XCB_ATOM_CARDINAL (Longs [1]),
                   change_property p NET_WM_BYPASS_COMPOSITOR XCB_ATOM_CARDINAL (Longs [1])]
             else [delete_property p KDE_NET_WM_BLOCK_COMPOSITING,
                   delete_property p NET_WM_BYPASS_COMPOSITOR]))"

section \<open>Events\<close>

text \<open>An event by its type without the bit of sent events. A client message has the format, the
  window, the type and the data words.\<close>

datatype x_event =
  Client_Message nat u32 u32 "u32 list"
| Property_Notify u32
| Configure_Notify int int int int
| Other_Event

text \<open>The virtual functions a derived class implements, as the calls that were made.\<close>

datatype win_info_call =
  Change_State flag flag
| Change_Desktop int
| Change_Fullscreen_Monitors net_fullscreen_monitors

text \<open>The flags of the two atoms of a state message, and the state it asks for: the action is 1 to
  set, 2 to toggle, anything else clears.\<close>

definition message_mask :: "atom_table \<Rightarrow> u32 list \<Rightarrow> flag" where
  "message_mask atoms data =
     flag_or (state_of_atom atoms (data ! 1)) (state_of_atom atoms (data ! 2))"

definition message_state :: "u32 \<Rightarrow> flag \<Rightarrow> flag \<Rightarrow> flag" where
  "message_state action current msk =
     (if action = 1 then msk
      else if action = 2 then flag_xor (flag_and current msk) msk
      else 0)"

definition client_message_call ::
    "win_info \<Rightarrow> u32 \<Rightarrow> u32 list \<Rightarrow> flag \<times> flag \<times> win_info_call list" where
  "client_message_call p ty data =
     (if ty = wi_atoms p NET_WM_STATE then
        let msk = message_mask (wi_atoms p) data
        in (WMState, 0, [Change_State (message_state (data ! 0) (wi_state p) msk) msk])
      else if ty = wi_atoms p NET_WM_DESKTOP then
        (WMDesktop, 0,
         [Change_Desktop (if data ! 0 = to_u32 OnAllDesktops then OnAllDesktops
                          else to_int (data ! 0 + 1))])
      else if ty = wi_atoms p NET_WM_FULLSCREEN_MONITORS then
        (0, WM2FullscreenMonitors,
         [Change_Fullscreen_Monitors
            \<lparr>fm_top = to_int (data ! 0), fm_bottom = to_int (data ! 1), fm_left = to_int (data ! 2),
             fm_right = to_int (data ! 3)\<rparr>])
      else (0, 0, []))"

text \<open>What a property of the window makes dirty.\<close>

definition property_dirty :: "atom_table \<Rightarrow> u32 \<Rightarrow> flag \<times> flag" where
  "property_dirty atoms a =
     (if a = atoms NET_WM_NAME then (WMName, 0)
      else if a = atoms NET_WM_VISIBLE_NAME then (WMVisibleName, 0)
      else if a = atoms NET_WM_DESKTOP then (WMDesktop, 0)
      else if a = atoms NET_WM_WINDOW_TYPE then (WMWindowType, 0)
      else if a = atoms NET_WM_STATE then (WMState, 0)
      else if a = atoms NET_WM_STRUT then (WMStrut, 0)
      else if a = atoms NET_WM_STRUT_PARTIAL then (0, WM2ExtendedStrut)
      else if a = atoms NET_WM_ICON_GEOMETRY then (WMIconGeometry, 0)
      else if a = atoms NET_WM_ICON then (WMIcon, 0)
      else if a = atoms NET_WM_PID then (WMPid, 0)
      else if a = atoms NET_WM_HANDLED_ICONS then (WMHandledIcons, 0)
      else if a = atoms NET_STARTUP_ID then (0, WM2StartupId)
      else if a = atoms NET_WM_WINDOW_OPACITY then (0, WM2Opacity)
      else if a = atoms NET_WM_ALLOWED_ACTIONS then (0, WM2AllowedActions)
      else if a = atoms WM_STATE then (XAWMState, 0)
      else if a = atoms NET_FRAME_EXTENTS then (WMFrameExtents, 0)
      else if a = atoms KDE_NET_WM_FRAME_STRUT then (WMFrameExtents, 0)
      else if a = atoms NET_WM_FRAME_OVERLAP then (0, WM2FrameOverlap)
      else if a = atoms NET_WM_ICON_NAME then (WMIconName, 0)
      else if a = atoms NET_WM_VISIBLE_ICON_NAME then (WMVisibleIconName, 0)
      else if a = atoms NET_WM_USER_TIME then (0, WM2UserTime)
      else if a = XCB_ATOM_WM_HINTS then (0, wm_hints_mask)
      else if a = XCB_ATOM_WM_TRANSIENT_FOR then (0, WM2TransientFor)
      else if a = XCB_ATOM_WM_CLASS then (0, WM2WindowClass)
      else if a = atoms WM_WINDOW_ROLE then (0, WM2WindowRole)
      else if a = XCB_ATOM_WM_CLIENT_MACHINE then (0, WM2ClientMachine)
      else if a = atoms KDE_NET_WM_ACTIVITIES then (0, WM2Activities)
      else if a = atoms KDE_NET_WM_BLOCK_COMPOSITING \<or> a = atoms NET_WM_BYPASS_COMPOSITOR
      then (0, WM2BlockCompositing)
      else if a = atoms KDE_NET_WM_SHADOW then (0, WM2KDEShadow)
      else if a = atoms WM_PROTOCOLS then (0, WM2Protocols)
      else if a = atoms NET_WM_OPAQUE_REGION then (0, WM2OpaqueRegion)
      else if a = atoms KDE_NET_WM_DESKTOP_FILE then (0, WM2DesktopFileName)
      else if a = atoms GTK_APPLICATION_ID then (0, WM2GTKApplicationId)
      else if a = atoms NET_WM_FULLSCREEN_MONITORS then (0, WM2FullscreenMonitors)
      else if a = atoms GTK_FRAME_EXTENTS then (0, WM2GTKFrameExtents)
      else if a = atoms GTK_SHOW_WINDOW_MENU then (0, WM2GTKShowWindowMenu)
      else if a = atoms KDE_NET_WM_APPMENU_SERVICE_NAME then (0, WM2AppMenuServiceName)
      else if a = atoms KDE_NET_WM_APPMENU_OBJECT_PATH then (0, WM2AppMenuObjectPath)
      else (0, 0))"

text \<open>event: the dirty flags it reports, the call it makes, and the info after the update.\<close>

definition event ::
    "x_server \<Rightarrow> x_event \<Rightarrow> win_info \<Rightarrow> (flag \<times> flag \<times> win_info_call list \<times> win_info) option" where
  "event serve ev p =
     (case ev of
        Client_Message format window ty data \<Rightarrow>
          if format = 32 then
            let (dirty, dirty2, calls) = client_message_call p ty data
            in Some (dirty, dirty2, calls, p)
          else Some (0, 0, [], p)
      | Property_Notify a \<Rightarrow>
          (let (dirty, dirty2) = property_dirty (wi_atoms p) a
           in map_option (\<lambda>p. (dirty, dirty2, [], p)) (update serve dirty dirty2 p))
      | Configure_Notify x y width height \<Rightarrow>
          Some (WMGeometry, 0, [],
            p\<lparr>wi_win_geom := \<lparr>rect_pos = \<lparr>pt_x = x, pt_y = y\<rparr>,
                              rect_size = \<lparr>sz_width = width, sz_height = height\<rparr>\<rparr>\<rparr>)
      | Other_Event \<Rightarrow> Some (0, 0, [], p))"

section \<open>The window manager's side (x11/win_info.h)\<close>

text \<open>changeState as the sequence of operations it starts on the window; the maximize mode is the one
  the window has when it is asked for.\<close>

datatype state_action =
  Set_FullScreen bool
| Set_Maximize bool bool
| Set_Keep_Above bool
| Set_Keep_Below bool
| Set_Skip_Taskbar bool
| Set_Skip_Pager bool
| Set_Skip_Switcher bool
| Set_Demands_Attention bool
| Set_Modal bool

definition action_if :: "flag \<Rightarrow> flag \<Rightarrow> flag \<Rightarrow> (bool \<Rightarrow> state_action) \<Rightarrow> state_action list" where
  "action_if state msk f act = (if has msk f then [act (has state f)] else [])"

definition changeState :: "flag \<Rightarrow> flag \<Rightarrow> flag \<Rightarrow> state_action list" where
  "changeState maximizeMode state msk =
     (let msk = without msk Sticky;
          msk = without msk Hidden;
          state = flag_and state msk
      in (if has msk FullScreen \<and> \<not> has state FullScreen then [Set_FullScreen False] else [])
       @ (if flag_and msk Max_state = Max_state
          then [Set_Maximize (has state MaxVert) (has state MaxHoriz)]
          else if has msk MaxVert
          then [Set_Maximize (has state MaxVert) (has maximizeMode maximize_horizontal)]
          else if has msk MaxHoriz
          then [Set_Maximize (has maximizeMode maximize_vertical) (has state MaxHoriz)]
          else [])
       @ action_if state msk KeepAbove Set_Keep_Above
       @ action_if state msk KeepBelow Set_Keep_Below
       @ action_if state msk SkipTaskbar Set_Skip_Taskbar
       @ action_if state msk SkipPager Set_Skip_Pager
       @ action_if state msk SkipSwitcher Set_Skip_Switcher
       @ action_if state msk DemandsAttention Set_Demands_Attention
       @ action_if state msk Modal Set_Modal
       @ (if has msk FullScreen \<and> has state FullScreen then [Set_FullScreen True] else []))"

end
