(* ===== verification/Win_Info_Props.thy ===== *)
theory Win_Info_Props
  imports Win_Info_Set
begin

text \<open>
  The lemmas on the window info of the X11 protocol layer: flags collected from lists of atoms,
  what one property decodes to after it was encoded, the messages of a state change, the copying of
  icons, and the invariant of the types.
\<close>

section \<open>Flags and lists of atoms\<close>

lemma collect_flags_simps [simp]:
  "collect_flags f [] = 0"
  "collect_flags f [a] = f a"
  by (simp_all add: collect_flags_def flag_defs)

lemma fold_flag_or: "fold (\<lambda>a acc. flag_or acc (f a)) xs acc = flag_or acc (collect_flags f xs)"
proof (induction xs arbitrary: acc)
  case Nil
  then show ?case by (simp add: flag_defs)
next
  case (Cons x xs)
  have "collect_flags f (x # xs) = flag_or (f x) (collect_flags f xs)"
    using Cons.IH [of "flag_or 0 (f x)"] by (simp add: collect_flags_def flag_defs)
  then show ?case
    using Cons.IH [of "flag_or acc (f x)"] by (simp add: flag_defs or.assoc)
qed

lemma collect_flags_append [simp]:
  "collect_flags f (xs @ ys) = flag_or (collect_flags f xs) (collect_flags f ys)"
  by (metis collect_flags_def fold_append fold_flag_or o_apply)

lemma flag_and_push_bit: "flag_and s (push_bit n 1) = (if bit s n then push_bit n 1 else 0)"
  by (rule bit_word_eqI) (auto simp: flag_defs bit_simps)

lemma collect_atom_if:
  assumes "f (atoms a) = push_bit n 1"
  shows "collect_flags f (atom_if atoms s (push_bit n 1) a) = flag_and s (push_bit n 1)"
proof (cases "bit s n")
  case True
  then show ?thesis
    using assms by (simp only: atom_if_def has_push_bit if_True collect_flags_simps flag_and_push_bit)
next
  case False
  then show ?thesis
    by (simp only: atom_if_def has_push_bit if_False collect_flags_simps flag_and_push_bit)
qed

lemma flag_and_or: "flag_or (flag_and s f) (flag_and s g) = flag_and s (flag_or f g)"
  by (rule bit_word_eqI) (auto simp: flag_defs bit_simps)

lemma flag_or_assoc: "flag_or (flag_or a b) c = flag_or a (flag_or b c)"
  by (simp add: flag_defs or.assoc)

section \<open>States and actions\<close>

text \<open>The states that have an atom, and the actions.\<close>

definition all_states :: flag where
  "all_states = flag_or Modal (flag_or MaxVert (flag_or MaxHoriz (flag_or Shaded (flag_or Hidden
     (flag_or FullScreen (flag_or DemandsAttention (flag_or Focused (flag_or KeepAbove
     (flag_or KeepBelow (flag_or Sticky (flag_or SkipTaskbar (flag_or SkipPager SkipSwitcher))))))))))))"

definition all_actions :: flag where
  "all_actions = flag_or ActionMove (flag_or ActionResize (flag_or ActionMinimize
     (flag_or ActionShade (flag_or ActionStick (flag_or ActionMaxVert (flag_or ActionMaxHoriz
     (flag_or ActionFullScreen (flag_or ActionChangeDesktop ActionClose))))))))"

lemma state_of_atom_simps [simp]:
  assumes "interned atoms"
  shows "state_of_atom atoms (atoms NET_WM_STATE_MODAL) = Modal"
    "state_of_atom atoms (atoms NET_WM_STATE_STICKY) = Sticky"
    "state_of_atom atoms (atoms NET_WM_STATE_MAXIMIZED_VERT) = MaxVert"
    "state_of_atom atoms (atoms NET_WM_STATE_MAXIMIZED_HORZ) = MaxHoriz"
    "state_of_atom atoms (atoms NET_WM_STATE_SHADED) = Shaded"
    "state_of_atom atoms (atoms NET_WM_STATE_SKIP_TASKBAR) = SkipTaskbar"
    "state_of_atom atoms (atoms NET_WM_STATE_SKIP_PAGER) = SkipPager"
    "state_of_atom atoms (atoms KDE_NET_WM_STATE_SKIP_SWITCHER) = SkipSwitcher"
    "state_of_atom atoms (atoms NET_WM_STATE_HIDDEN) = Hidden"
    "state_of_atom atoms (atoms NET_WM_STATE_FULLSCREEN) = FullScreen"
    "state_of_atom atoms (atoms NET_WM_STATE_ABOVE) = KeepAbove"
    "state_of_atom atoms (atoms NET_WM_STATE_BELOW) = KeepBelow"
    "state_of_atom atoms (atoms NET_WM_STATE_DEMANDS_ATTENTION) = DemandsAttention"
    "state_of_atom atoms (atoms NET_WM_STATE_STAYS_ON_TOP) = KeepAbove"
    "state_of_atom atoms (atoms NET_WM_STATE_FOCUSED) = Focused"
  using assms by (simp_all add: state_of_atom_def)

lemma state_of_atom_zero [simp]: "interned atoms \<Longrightarrow> state_of_atom atoms 0 = 0"
  by (simp add: state_of_atom_def interned_nonzero [symmetric])

lemma collect_state_if [simp]:
  assumes "interned atoms"
  shows "collect_flags (state_of_atom atoms) (atom_if atoms s Modal NET_WM_STATE_MODAL) = flag_and s Modal"
    "collect_flags (state_of_atom atoms) (atom_if atoms s Sticky NET_WM_STATE_STICKY) = flag_and s Sticky"
    "collect_flags (state_of_atom atoms) (atom_if atoms s MaxVert NET_WM_STATE_MAXIMIZED_VERT) = flag_and s MaxVert"
    "collect_flags (state_of_atom atoms) (atom_if atoms s MaxHoriz NET_WM_STATE_MAXIMIZED_HORZ) = flag_and s MaxHoriz"
    "collect_flags (state_of_atom atoms) (atom_if atoms s Shaded NET_WM_STATE_SHADED) = flag_and s Shaded"
    "collect_flags (state_of_atom atoms) (atom_if atoms s SkipTaskbar NET_WM_STATE_SKIP_TASKBAR) = flag_and s SkipTaskbar"
    "collect_flags (state_of_atom atoms) (atom_if atoms s SkipPager NET_WM_STATE_SKIP_PAGER) = flag_and s SkipPager"
    "collect_flags (state_of_atom atoms) (atom_if atoms s SkipSwitcher KDE_NET_WM_STATE_SKIP_SWITCHER) = flag_and s SkipSwitcher"
    "collect_flags (state_of_atom atoms) (atom_if atoms s Hidden NET_WM_STATE_HIDDEN) = flag_and s Hidden"
    "collect_flags (state_of_atom atoms) (atom_if atoms s FullScreen NET_WM_STATE_FULLSCREEN) = flag_and s FullScreen"
    "collect_flags (state_of_atom atoms) (atom_if atoms s KeepAbove NET_WM_STATE_ABOVE) = flag_and s KeepAbove"
    "collect_flags (state_of_atom atoms) (atom_if atoms s KeepBelow NET_WM_STATE_BELOW) = flag_and s KeepBelow"
    "collect_flags (state_of_atom atoms) (atom_if atoms s DemandsAttention NET_WM_STATE_DEMANDS_ATTENTION) = flag_and s DemandsAttention"
    "collect_flags (state_of_atom atoms) (atom_if atoms s KeepAbove NET_WM_STATE_STAYS_ON_TOP) = flag_and s KeepAbove"
    "collect_flags (state_of_atom atoms) (atom_if atoms s Focused NET_WM_STATE_FOCUSED) = flag_and s Focused"
  unfolding state_flags
  by (rule collect_atom_if, simp add: assms state_flags [symmetric], simp add: assms state_flags)+

text \<open>What is written as atoms is read back, for the states that have atoms.\<close>

lemma state_atoms_roundtrip:
  assumes "interned atoms"
  shows "collect_flags (state_of_atom atoms) (state_atoms atoms s) = flag_and s all_states"
proof -
  have twice: "flag_or KeepAbove (flag_or KeepAbove r) = flag_or KeepAbove r" for r
    by (simp add: flag_defs or.assoc [symmetric])
  show ?thesis
    by (simp only: state_atoms_def collect_flags_append collect_state_if [OF assms]
        flag_and_or twice all_states_def)
qed

lemma action_atoms_roundtrip:
  assumes "interned atoms"
  shows "collect_flags (action_of_atom atoms) (action_atoms atoms s) = flag_and s all_actions"
proof -
  have each: "collect_flags (action_of_atom atoms) (atom_if atoms s ActionMove NET_WM_ACTION_MOVE)
        = flag_and s ActionMove"
      "collect_flags (action_of_atom atoms) (atom_if atoms s ActionResize NET_WM_ACTION_RESIZE)
        = flag_and s ActionResize"
      "collect_flags (action_of_atom atoms) (atom_if atoms s ActionMinimize NET_WM_ACTION_MINIMIZE)
        = flag_and s ActionMinimize"
      "collect_flags (action_of_atom atoms) (atom_if atoms s ActionShade NET_WM_ACTION_SHADE)
        = flag_and s ActionShade"
      "collect_flags (action_of_atom atoms) (atom_if atoms s ActionStick NET_WM_ACTION_STICK)
        = flag_and s ActionStick"
      "collect_flags (action_of_atom atoms)
         (atom_if atoms s ActionMaxVert NET_WM_ACTION_MAXIMIZE_VERT) = flag_and s ActionMaxVert"
      "collect_flags (action_of_atom atoms)
         (atom_if atoms s ActionMaxHoriz NET_WM_ACTION_MAXIMIZE_HORZ) = flag_and s ActionMaxHoriz"
      "collect_flags (action_of_atom atoms)
         (atom_if atoms s ActionFullScreen NET_WM_ACTION_FULLSCREEN) = flag_and s ActionFullScreen"
      "collect_flags (action_of_atom atoms)
         (atom_if atoms s ActionChangeDesktop NET_WM_ACTION_CHANGE_DESKTOP)
        = flag_and s ActionChangeDesktop"
      "collect_flags (action_of_atom atoms) (atom_if atoms s ActionClose NET_WM_ACTION_CLOSE)
        = flag_and s ActionClose"
    unfolding action_flags
    by (rule collect_atom_if, simp add: assms action_of_atom_def action_flags)+
  show ?thesis
    by (simp only: action_atoms_def collect_flags_append each flag_and_or all_actions_def)
qed

section \<open>The messages of a state change\<close>

lemma flag_and_eq_bit:
  "flag_and x (push_bit n 1) = flag_and y (push_bit n 1) \<longleftrightarrow> bit x n = bit y n"
proof
  assume "flag_and x (push_bit n 1) = flag_and y (push_bit n 1)"
  then have "has x (push_bit n 1) \<longleftrightarrow> has y (push_bit n 1)" by (simp only: flags_any_of_def)
  then show "bit x n = bit y n" by (simp only: has_push_bit)
next
  assume "bit x n = bit y n"
  then show "flag_and x (push_bit n 1) = flag_and y (push_bit n 1)"
    by (simp only: flag_and_push_bit)
qed

lemma flag_and_or_eq_bits:
  "flag_and x (flag_or (push_bit m 1) (push_bit n 1)) = flag_and y (flag_or (push_bit m 1) (push_bit n 1))
   \<longleftrightarrow> bit x m = bit y m \<and> bit x n = bit y n"
proof
  assume eq: "flag_and x (flag_or (push_bit m 1) (push_bit n 1))
      = flag_and y (flag_or (push_bit m 1) (push_bit n 1))"
  have "flag_and (flag_and z (flag_or (push_bit m 1) (push_bit n 1))) (push_bit k 1)
      = flag_and z (push_bit k 1)" if "k = m \<or> k = n" for z k
    using that by (intro bit_word_eqI) (auto simp: flag_defs bit_simps)
  with eq show "bit x m = bit y m \<and> bit x n = bit y n"
    by (metis flag_and_eq_bit)
next
  assume "bit x m = bit y m \<and> bit x n = bit y n"
  then show "flag_and x (flag_or (push_bit m 1) (push_bit n 1))
      = flag_and y (flag_or (push_bit m 1) (push_bit n 1))"
    by (intro bit_word_eqI) (auto simp: flag_defs bit_simps)
qed

text \<open>A receiver that keeps the states as a set of flags and does what each message asks for.\<close>

definition obey :: "win_info \<Rightarrow> x_out \<Rightarrow> flag \<Rightarrow> flag" where
  "obey q out s =
     (case out of
        Send_Message _ _ _ ty data \<Rightarrow>
          (case client_message_call (q\<lparr>wi_state := s\<rparr>) ty data of
             (_, _, [Change_State state msk]) \<Rightarrow> flag_or (without s msk) (flag_and state msk)
           | _ \<Rightarrow> s)
      | _ \<Rightarrow> s)"

lemma obey_state_message:
  assumes "wi_atoms p = wi_atoms q"
  shows "obey q (state_message p action a1 a2) s =
    (let msk = flag_or (state_of_atom (wi_atoms q) a1) (state_of_atom (wi_atoms q) a2)
     in flag_or (without s msk) (flag_and (message_state action s msk) msk))"
  using assms by (simp add: obey_def state_message_def client_message_call_def message_mask_def Let_def)

lemma bit_set_flags:
  "bit (flag_or (without s m) (flag_and (message_state (if b then 1 else 0) s m) m)) k
     \<longleftrightarrow> (if bit m k then b else bit s k)"
  by (auto simp: message_state_def flag_defs bit_simps dest: bit_imp_le_length)

lemma bit_set_clear:
  "bit (flag_or (without s m) (flag_and (message_state 1 s m) m)) k \<longleftrightarrow> bit m k \<or> bit s k"
  "bit (flag_or (without s m) (flag_and (message_state 0 s m) m)) k \<longleftrightarrow> \<not> bit m k \<and> bit s k"
  using bit_set_flags [of s m True k] bit_set_flags [of s m False k] by simp_all

lemma bit_single: "bit (flag_or (push_bit n 1) 0) k \<longleftrightarrow> k = n \<and> n < 32"
  by (auto simp: flag_defs bit_simps)

lemma flag_messages_bit:
  assumes "wi_atoms p = wi_atoms q" "interned (wi_atoms q)"
    and "state_of_atom (wi_atoms q) (wi_atoms q a) = push_bit n 1" "n < 32"
  shows "bit (fold (obey q) (flag_messages p state msk (push_bit n 1) a) s) k \<longleftrightarrow>
    (if k = n \<and> bit msk n \<and> bit (wi_state p) n \<noteq> bit state n then bit state n else bit s k)"
proof (cases "bit msk n \<and> bit (wi_state p) n \<noteq> bit state n")
  case True
  have "fold (obey q) (flag_messages p state msk (push_bit n 1) a) s
      = flag_or (without s (flag_or (push_bit n 1) 0))
          (flag_and (message_state (if bit state n then 1 else 0) s (flag_or (push_bit n 1) 0))
             (flag_or (push_bit n 1) 0))"
    using True assms
    by (simp only: flag_messages_def has_push_bit flag_and_eq_bit simp_thms if_True fold.simps
        obey_state_message Let_def on_off_def state_of_atom_zero id_apply o_apply)
  then show ?thesis
    using True assms(4) by (simp only: bit_set_flags bit_single) auto
next
  case False
  then have "flag_messages p state msk (push_bit n 1) a = []"
    by (simp only: flag_messages_def has_push_bit flag_and_eq_bit) auto
  then show ?thesis using False by auto
qed

lemma bit_two: "m < 32 \<Longrightarrow> n < 32 \<Longrightarrow>
    bit (flag_or (push_bit m 1) (push_bit n 1)) k \<longleftrightarrow> k = m \<or> k = n"
  by (auto simp: flag_defs bit_simps)

lemma fold_one: "fold f [x] s = f x s" "fold f [] s = s"
  by simp_all

lemma fold_two: "fold f [x, y] s = f y (f x s)"
  by simp

lemma obey_on_off:
  assumes "wi_atoms p = wi_atoms q"
  shows "obey q (state_message p (on_off w f) a1 a2) s =
    (let msk = flag_or (state_of_atom (wi_atoms q) a1) (state_of_atom (wi_atoms q) a2)
     in flag_or (without s msk) (flag_and (message_state (if has w f then 1 else 0) s msk) msk))"
  unfolding on_off_def by (rule obey_state_message [OF assms])

lemma max_messages_bit:
  assumes "wi_atoms p = wi_atoms q" "interned (wi_atoms q)"
  shows "bit (fold (obey q) (max_messages p state msk) s) k \<longleftrightarrow>
    (if (k = 2 \<or> k = 3) \<and> bit msk k \<and> bit (wi_state p) k \<noteq> bit state k then bit state k
     else bit s k)"
proof -
  let ?w = "flag_or (without (wi_state p) msk) (flag_and state msk)"
  have wish: "bit ?w n = (if bit msk n then bit state n else bit (wi_state p) n)" if "n < 32" for n
    using that by (auto simp: flag_defs bit_simps)
  have outer: "(has msk Max_state
      \<and> flag_and (flag_and (wi_state p) msk) Max_state \<noteq> flag_and state Max_state)
    \<longleftrightarrow> (bit msk 2 \<or> bit msk 3)
      \<and> (bit (flag_and (wi_state p) msk) 2 \<noteq> bit state 2
         \<or> bit (flag_and (wi_state p) msk) 3 \<noteq> bit state 3)"
    by (simp only: Max_state_def MaxVert_def MaxHoriz_def flag_and_or_eq_bits has_or_right
        has_push_bit de_Morgan_conj)
  have masked: "bit (flag_and (wi_state p) msk) n \<longleftrightarrow> bit (wi_state p) n \<and> bit msk n" for n
    by (simp add: flag_defs bit_simps)
  have both: "flag_and ?w Max_state = Max_state \<longleftrightarrow> bit ?w 2 \<and> bit ?w 3"
    using flag_and_or_eq_bits [of ?w 2 3 "- 1"]
    by (simp add: Max_state_def MaxVert_def MaxHoriz_def flag_defs)
  have neither: "flag_and ?w Max_state = 0 \<longleftrightarrow> \<not> bit ?w 2 \<and> \<not> bit ?w 3"
    using flag_and_or_eq_bits [of ?w 2 3 0]
    by (simp add: Max_state_def MaxVert_def MaxHoriz_def flag_defs)
  have hv: "state_of_atom (wi_atoms q) (wi_atoms q NET_WM_STATE_MAXIMIZED_HORZ) = push_bit 3 1"
      "state_of_atom (wi_atoms q) (wi_atoms q NET_WM_STATE_MAXIMIZED_VERT) = push_bit 2 1"
    using assms(2) by (simp_all add: MaxHoriz_def MaxVert_def)
  have single: "obey q (state_message p (on_off ?w (push_bit n 1)) a 0) s' =
      flag_or (without s' (flag_or (push_bit n 1) 0))
        (flag_and (message_state (if bit ?w n then 1 else 0) s' (flag_or (push_bit n 1) 0))
           (flag_or (push_bit n 1) 0))"
    if "state_of_atom (wi_atoms q) a = push_bit n 1" for n a s'
    by (simp only: obey_on_off [OF assms(1)] that state_of_atom_zero [OF assms(2)] Let_def
        has_push_bit)
  have pair: "obey q (state_message p (if b then 1 else 0) (wi_atoms q NET_WM_STATE_MAXIMIZED_HORZ)
        (wi_atoms q NET_WM_STATE_MAXIMIZED_VERT)) s' =
      flag_or (without s' (flag_or (push_bit 3 1) (push_bit 2 1)))
        (flag_and (message_state (if b then 1 else 0) s' (flag_or (push_bit 3 1) (push_bit 2 1)))
           (flag_or (push_bit 3 1) (push_bit 2 1)))" for b s'
    by (simp only: obey_state_message [OF assms(1)] hv Let_def)
  have eqs: "flag_and ?w MaxHoriz \<noteq> flag_and (wi_state p) MaxHoriz \<longleftrightarrow> bit ?w 3 \<noteq> bit (wi_state p) 3"
      "flag_and ?w MaxVert \<noteq> flag_and (wi_state p) MaxVert \<longleftrightarrow> bit ?w 2 \<noteq> bit (wi_state p) 2"
    by (simp_all only: MaxHoriz_def MaxVert_def flag_and_eq_bit)
  have set_two: "bit (flag_or (push_bit 3 1) (push_bit 2 (1 :: flag))) k \<longleftrightarrow> k = 3 \<or> k = 2" for k
    by (rule bit_two) simp_all
  have set_one: "bit (flag_or (push_bit 2 1) (0 :: flag)) k \<longleftrightarrow> k = 2"
      "bit (flag_or (push_bit 3 1) (0 :: flag)) k \<longleftrightarrow> k = 3" for k
    by (simp_all only: bit_single) simp_all
  have w2: "bit ?w 2 = (if bit msk 2 then bit state 2 else bit (wi_state p) 2)"
    and w3: "bit ?w 3 = (if bit msk 3 then bit state 3 else bit (wi_state p) 3)"
    by (rule wish, simp)+
  have messages: "max_messages p state msk =
     (if (bit msk 2 \<and> bit (wi_state p) 2 \<noteq> bit state 2) \<and> bit msk 3 \<and> bit (wi_state p) 3 \<noteq> bit state 3
      then if bit state 2 = bit state 3
           then [state_message p (if bit state 3 then 1 else 0) (wi_atoms p NET_WM_STATE_MAXIMIZED_HORZ)
                  (wi_atoms p NET_WM_STATE_MAXIMIZED_VERT)]
           else [state_message p (on_off ?w MaxHoriz) (wi_atoms p NET_WM_STATE_MAXIMIZED_HORZ) 0,
                 state_message p (on_off ?w MaxVert) (wi_atoms p NET_WM_STATE_MAXIMIZED_VERT) 0]
      else if bit msk 2 \<and> bit (wi_state p) 2 \<noteq> bit state 2
      then [state_message p (on_off ?w MaxVert) (wi_atoms p NET_WM_STATE_MAXIMIZED_VERT) 0]
      else if bit msk 3 \<and> bit (wi_state p) 3 \<noteq> bit state 3
      then [state_message p (on_off ?w MaxHoriz) (wi_atoms p NET_WM_STATE_MAXIMIZED_HORZ) 0]
      else [])"
    unfolding max_messages_def Let_def outer masked eqs both neither w2 w3
    by (cases "bit msk 2"; cases "bit msk 3"; cases "bit (wi_state p) 2"; cases "bit (wi_state p) 3";
        cases "bit state 2"; cases "bit state 3"; simp only: simp_thms if_True if_False)
  have one: "bit (obey q (state_message p (on_off ?w MaxVert) (wi_atoms p NET_WM_STATE_MAXIMIZED_VERT) 0) s') j
        \<longleftrightarrow> (if j = 2 then bit ?w 2 else bit s' j)"
      "bit (obey q (state_message p (on_off ?w MaxHoriz) (wi_atoms p NET_WM_STATE_MAXIMIZED_HORZ) 0) s') j
        \<longleftrightarrow> (if j = 3 then bit ?w 3 else bit s' j)" for s' j
    by (simp_all only: MaxVert_def MaxHoriz_def assms(1) single [OF hv(1)] single [OF hv(2)]
        bit_set_flags set_one)
  have two: "bit (obey q (state_message p (if b then 1 else 0) (wi_atoms p NET_WM_STATE_MAXIMIZED_HORZ)
        (wi_atoms p NET_WM_STATE_MAXIMIZED_VERT)) s) j \<longleftrightarrow> (if j = 3 \<or> j = 2 then b else bit s j)" for b j
    by (simp only: assms(1) pair bit_set_flags set_two)
  note two = two [of True, unfolded if_True] two [of False, unfolded if_False]
  show ?thesis
    unfolding messages
    by (auto simp: fold_one fold_two one two w2 w3 split: if_splits simp del: fold.simps)
qed

text \<open>The bits a call is to change.\<close>

definition changes :: "win_info \<Rightarrow> flag \<Rightarrow> flag \<Rightarrow> nat \<Rightarrow> bool" where
  "changes p state msk n \<longleftrightarrow> bit msk n \<and> bit (wi_state p) n \<noteq> bit state n"

lemma flag_messages_bits:
  assumes "wi_atoms p = wi_atoms q" "interned (wi_atoms q)"
  shows "bit (fold (obey q) (flag_messages p state msk Modal NET_WM_STATE_MODAL) s) k \<longleftrightarrow> (if k = 0 \<and> changes p state msk 0 then bit state 0 else bit s k)"
    "bit (fold (obey q) (flag_messages p state msk Sticky NET_WM_STATE_STICKY) s) k \<longleftrightarrow> (if k = 1 \<and> changes p state msk 1 then bit state 1 else bit s k)"
    "bit (fold (obey q) (flag_messages p state msk Shaded NET_WM_STATE_SHADED) s) k \<longleftrightarrow> (if k = 4 \<and> changes p state msk 4 then bit state 4 else bit s k)"
    "bit (fold (obey q) (flag_messages p state msk SkipTaskbar NET_WM_STATE_SKIP_TASKBAR) s) k \<longleftrightarrow> (if k = 5 \<and> changes p state msk 5 then bit state 5 else bit s k)"
    "bit (fold (obey q) (flag_messages p state msk SkipPager NET_WM_STATE_SKIP_PAGER) s) k \<longleftrightarrow> (if k = 7 \<and> changes p state msk 7 then bit state 7 else bit s k)"
    "bit (fold (obey q) (flag_messages p state msk SkipSwitcher KDE_NET_WM_STATE_SKIP_SWITCHER) s) k \<longleftrightarrow> (if k = 12 \<and> changes p state msk 12 then bit state 12 else bit s k)"
    "bit (fold (obey q) (flag_messages p state msk Hidden NET_WM_STATE_HIDDEN) s) k \<longleftrightarrow> (if k = 8 \<and> changes p state msk 8 then bit state 8 else bit s k)"
    "bit (fold (obey q) (flag_messages p state msk FullScreen NET_WM_STATE_FULLSCREEN) s) k \<longleftrightarrow> (if k = 9 \<and> changes p state msk 9 then bit state 9 else bit s k)"
    "bit (fold (obey q) (flag_messages p state msk KeepAbove NET_WM_STATE_ABOVE) s) k \<longleftrightarrow> (if k = 6 \<and> changes p state msk 6 then bit state 6 else bit s k)"
    "bit (fold (obey q) (flag_messages p state msk KeepAbove NET_WM_STATE_STAYS_ON_TOP) s) k \<longleftrightarrow> (if k = 6 \<and> changes p state msk 6 then bit state 6 else bit s k)"
    "bit (fold (obey q) (flag_messages p state msk KeepBelow NET_WM_STATE_BELOW) s) k \<longleftrightarrow> (if k = 10 \<and> changes p state msk 10 then bit state 10 else bit s k)"
    "bit (fold (obey q) (flag_messages p state msk DemandsAttention NET_WM_STATE_DEMANDS_ATTENTION) s) k \<longleftrightarrow> (if k = 11 \<and> changes p state msk 11 then bit state 11 else bit s k)"
  unfolding state_flags changes_def
  by (rule flag_messages_bit [OF assms], simp add: assms state_flags, simp)+

lemma bit_flag_or: "bit (flag_or v w) k \<longleftrightarrow> bit v k \<or> bit w k"
  by (simp add: flag_defs bit_simps)

lemma bit_flag: "bit (push_bit n (1 :: flag)) k \<longleftrightarrow> k = n \<and> n < 32"
  by (auto simp: bit_simps)

lemma without_bit: "bit (without v w) k \<longleftrightarrow> bit v k \<and> \<not> bit w k"
  by (auto simp: flag_defs bit_simps dest: bit_imp_le_length)

text \<open>The states a client can ask for.\<close>

definition settable_states :: flag where
  "settable_states = without all_states Focused"

lemma bit_settable:
  "bit settable_states k \<longleftrightarrow>
     k = 0 \<or> k = 1 \<or> k = 2 \<or> k = 3 \<or> k = 4 \<or> k = 5 \<or> k = 6 \<or> k = 7 \<or> k = 8 \<or> k = 9 \<or> k = 10
     \<or> k = 11 \<or> k = 12"
  unfolding settable_states_def all_states_def state_flags without_bit bit_flag_or bit_flag
  by auto

lemma client_state_messages_lead:
  assumes "wi_atoms p = wi_atoms q" "interned (wi_atoms q)"
  shows "fold (obey q) (client_state_messages p state msk) (wi_state p)
    = flag_or (without (wi_state p) (flag_and msk settable_states))
        (flag_and state (flag_and msk settable_states))"
proof (rule bit_word_eqI)
  fix k :: nat
  assume k: "k < LENGTH(32)"
  have max: "bit (fold (obey q) (max_messages p state msk) s) k \<longleftrightarrow>
      (if k = 2 \<and> changes p state msk 2 then bit state 2
       else if k = 3 \<and> changes p state msk 3 then bit state 3 else bit s k)" for s
    by (auto simp: max_messages_bit [OF assms] changes_def)
  have "bit (fold (obey q) (client_state_messages p state msk) (wi_state p)) k
      \<longleftrightarrow> (if bit settable_states k \<and> changes p state msk k then bit state k else bit (wi_state p) k)"
    unfolding client_state_messages_def
    by (simp only: fold_append o_apply flag_messages_bits [OF assms] max bit_settable)
      (auto split: if_splits)
  also have "\<dots> \<longleftrightarrow> bit (flag_or (without (wi_state p) (flag_and msk settable_states))
        (flag_and state (flag_and msk settable_states))) k"
    using k by (auto simp: flag_defs bit_simps changes_def)
  finally show "bit (fold (obey q) (client_state_messages p state msk) (wi_state p)) k
      \<longleftrightarrow> bit (flag_or (without (wi_state p) (flag_and msk settable_states))
        (flag_and state (flag_and msk settable_states))) k" .
qed

section \<open>Icons\<close>

text \<open>An icon with at least one pixel and as many words as pixels.\<close>

definition icon_ok :: "net_icon \<Rightarrow> bool" where
  "icon_ok i \<longleftrightarrow>
     0 < sz_width (icon_size i) \<and> 0 < sz_height (icon_size i)
     \<and> int_range (sz_width (icon_size i)) \<and> int_range (sz_height (icon_size i))
     \<and> int_range (sz_width (icon_size i) * sz_height (icon_size i))
     \<and> (\<exists>d. icon_data i = Some d
          \<and> int (length d) = sz_width (icon_size i) * sz_height (icon_size i))"

lemma icon_pixels_ok: "icon_ok i \<Longrightarrow> icon_pixels i = icon_data i"
  by (auto simp: icon_ok_def icon_pixels_def Let_def)

lemma icon_words_ok:
  assumes "icon_ok i"
  obtains d where "icon_data i = Some d"
    "int (length d) = sz_width (icon_size i) * sz_height (icon_size i)" "0 < length d"
    "icon_words i = Some (to_u32 (sz_width (icon_size i)) # to_u32 (sz_height (icon_size i)) # d)"
proof -
  obtain d where d: "icon_data i = Some d"
      "int (length d) = sz_width (icon_size i) * sz_height (icon_size i)"
    using assms by (auto simp: icon_ok_def)
  moreover have "0 < sz_width (icon_size i) * sz_height (icon_size i)"
    using assms by (simp add: icon_ok_def)
  ultimately show thesis
    by (intro that [of d]) (auto simp: icon_words_def icon_pixels_ok [OF assms])
qed

text \<open>The words of a list of icons.\<close>

fun icons_words :: "net_icon list \<Rightarrow> u32 list" where
  "icons_words [] = []"
| "icons_words (i # is) =
     to_u32 (sz_width (icon_size i)) # to_u32 (sz_height (icon_size i)) # the (icon_data i)
       @ icons_words is"

lemma those_icon_words:
  "\<forall>i\<in>set is. icon_ok i \<Longrightarrow> map_option concat (those (map icon_words is)) = Some (icons_words is)"
proof (induction "is")
  case Nil
  then show ?case by simp
next
  case (Cons i "is")
  then obtain d where "icon_data i = Some d"
      "icon_words i = Some (to_u32 (sz_width (icon_size i)) # to_u32 (sz_height (icon_size i)) # d)"
    by (auto elim: icon_words_ok)
  then show ?case using Cons by auto
qed

lemma product_of_nat:
  assumes "int n = w * h"
  shows "to_u32 w * to_u32 h = of_nat n"
proof -
  have "to_u32 w * to_u32 h = word_of_int (w * h)"
    by (simp add: to_u32_def)
  then show ?thesis by (simp only: assms [symmetric] of_int_of_nat_eq)
qed

lemma unat_u32: "k < 2 ^ 32 \<Longrightarrow> unat (of_nat k :: u32) = k"
  by (simp add: unat_of_nat)

lemma read_icon_loop_words:
  assumes "\<forall>i\<in>set is. icon_ok i"
    and "length (pre @ icons_words is) < 2 ^ 30" "2 < length (pre @ icons_words is)"
  shows "read_icon_loop (pre @ icons_words is) (length acc) (of_nat (length pre)) acc c
    = Some (acc @ is, c + length is)"
  using assms
proof (induction "is" arbitrary: pre acc c)
  case Nil
  have "(2 :: u32) \<le> of_nat (length pre)"
    using Nil by (simp add: word_le_nat_alt unat_u32)
  then have "\<not> (of_nat (length pre) :: u32) < of_nat (length pre) - 2"
    by (metis leD word_sub_le)
  then show ?case
    by (subst read_icon_loop.simps) simp
next
  case (Cons i "is")
  obtain d where d: "icon_data i = Some d"
      "int (length d) = sz_width (icon_size i) * sz_height (icon_size i)" "0 < length d"
    using Cons.prems(1) by (auto elim: icon_words_ok [of i])
  let ?w = "to_u32 (sz_width (icon_size i))" and ?h = "to_u32 (sz_height (icon_size i))"
  let ?data = "pre @ ?w # ?h # d @ icons_words is"
  let ?n = "length pre"
  have len: "length ?data < 2 ^ 30" "?n + 2 + length d \<le> length ?data"
    using Cons.prems(2) d(1) by simp_all
  have nat: "unat (of_nat k :: u32) = k" if "k < 2 ^ 32" for k
    using that by (rule unat_u32)
  have go: "(of_nat ?n :: u32) < of_nat (length ?data) - 2"
  proof -
    obtain L where L: "length ?data = L" by simp
    have "(2 :: u32) \<le> of_nat L"
      using len L by (simp add: word_le_nat_alt nat)
    then have "unat (of_nat L - 2 :: u32) = L - 2"
      using len L by (simp add: unat_sub nat)
    moreover have "?n < L - 2"
      using len d(3) unfolding L by linarith
    moreover have "L < 2 ^ 32"
      using len unfolding L by simp
    ultimately show ?thesis
      unfolding L by (simp add: word_less_nat_alt nat)
  qed
  have j: "of_nat ?n + 1 = (of_nat (?n + 1) :: u32)" "of_nat ?n + 2 = (of_nat (?n + 2) :: u32)"
    by simp_all
  have u: "unat (of_nat ?n :: u32) = ?n" "unat (of_nat (?n + 1) :: u32) = ?n + 1"
      "unat (of_nat (?n + 2) :: u32) = ?n + 2"
    by (rule nat, use len in simp)+
  have at: "?data ! unat (of_nat ?n :: u32) = ?w" "?data ! unat (of_nat ?n + 1 :: u32) = ?h"
    unfolding j u by (simp_all add: nth_append)
  have area: "?w * ?h = of_nat (length d)"
    using product_of_nat [OF d(2)] .
  have sz: "unat (?w * ?h * 4) div 4 = length d"
  proof -
    have "?w * ?h * 4 = of_nat (length d * 4)" by (simp add: area)
    moreover have "unat (of_nat (length d * 4) :: u32) = length d * 4"
      using len by (intro nat) simp
    ultimately show ?thesis by simp
  qed
  have next_j: "of_nat ?n + 2 + ?w * ?h = (of_nat (length (pre @ ?w # ?h # d)) :: u32)"
    by (simp add: area)
  have fits: "\<not> of_nat ?n + 2 + ?w * ?h > of_nat (length ?data)"
  proof -
    obtain k L where k: "length (pre @ ?w # ?h # d) = k" and L: "length ?data = L" by simp
    have "k \<le> L" "L < 2 ^ 32" using len k L by (auto simp: k [symmetric])
    then show ?thesis
      unfolding next_j k L by (simp add: word_less_nat_alt nat not_less)
  qed
  have inside: "\<not> unat (of_nat ?n + 2 :: u32) + unat (?w * ?h * 4) div 4 > length ?data"
    unfolding sz j(2) u using len by linarith
  have pixels: "take (unat (?w * ?h * 4) div 4) (drop (unat (of_nat ?n + 2 :: u32)) ?data) = d"
    unfolding sz j(2) u by simp
  have icon: "\<lparr>icon_size = \<lparr>sz_width = to_int ?w, sz_height = to_int ?h\<rparr>, icon_data = Some d\<rparr> = i"
    using Cons.prems(1) d(1) by (simp add: icon_ok_def)
  have "read_icon_loop ?data (length acc) (of_nat ?n) acc c
      = read_icon_loop ?data (Suc (length acc)) (of_nat ?n + 2 + ?w * ?h) (acc @ [i]) (Suc c)"
    by (subst read_icon_loop.simps)
      (simp only: Let_def at go fits inside pixels icon if_True if_False rarray_set_append)
  also have "\<dots> = read_icon_loop ((pre @ ?w # ?h # d) @ icons_words is) (length (acc @ [i]))
      (of_nat (length (pre @ ?w # ?h # d))) (acc @ [i]) (Suc c)"
    by (simp only: next_j) simp
  also have "\<dots> = Some ((acc @ [i]) @ is, Suc c + length is)"
    using Cons.prems len d(1) by (intro Cons.IH) simp_all
  finally show ?case by (simp add: d(1))
qed

text \<open>A reader gets the icons that were written.\<close>

lemma readIcon_words:
  assumes "is \<noteq> []" "\<forall>i\<in>set is. icon_ok i" "length (icons_words is) < 2 ^ 30"
  shows "readIcon (Some \<lparr>reply_type = XCB_ATOM_CARDINAL, reply_data = Longs (icons_words is)\<rparr>) old
    = Some (is, length is)"
proof -
  obtain i is' where i: "is = i # is'" using assms(1) by (cases "is") auto
  then obtain d where "icon_data i = Some d" "0 < length d"
    using assms(2) by (auto elim: icon_words_ok [of i])
  then have "2 < length (icons_words is)" using i by simp
  then show ?thesis
    using read_icon_loop_words [of "is" "[]" "[]" 0] assms
    by (simp add: readIcon_def rarray_reset_def)
qed

section \<open>The update of one property\<close>

lemma guarded_simps: "guarded True f p = f p" "guarded False f p = p"
  by (simp_all add: guarded_def)

lemma has_push_push: "has (push_bit n 1) (push_bit m 1) \<longleftrightarrow> n = m \<and> n < 32"
  by (auto simp only: has_push_bit bit_flag)

lemma flag_and_zero: "flag_and 0 w = 0"
  by (simp add: flag_defs)

lemma flag_and_single: "has q (push_bit n 1) \<Longrightarrow> flag_and (push_bit n 1) q = push_bit n 1"
  by (metis flag_and_def flag_and_push_bit has_push_bit and.commute)

lemmas flag_eval = property_flags property2_flags has_push_push has_zero flag_and_zero if_True if_False
  simp_thms rel_simps less_numeral_simps zero_less_numeral

lemmas direct_eval = update_direct direct_update_def Let_def dirty_of_def direct_before_icon_def
  direct_icon_def direct_after_icon_def direct_of_client_def guarded_simps wm_hints_mask_def
  has_or_right flag_and_single option.map

lemma update_state:
  "has (wi_properties q) WMState \<Longrightarrow>
   update serve WMState 0 q = Some (store_state (serve (wm_property q NET_WM_STATE XCB_ATOM_ATOM 2048)) q)"
  by (simp only: direct_eval flag_eval cong: if_cong)

lemma update_desktop:
  "has (wi_properties q) WMDesktop \<Longrightarrow>
   update serve WMDesktop 0 q = Some (store_desktop (serve (wm_property q NET_WM_DESKTOP XCB_ATOM_CARDINAL 1)) q)"
  by (simp only: direct_eval flag_eval cong: if_cong)

lemma update_name:
  "has (wi_properties q) WMName \<Longrightarrow>
   update serve WMName 0 q = Some (store_name (serve (wm_property q NET_WM_NAME (wi_atoms q UTF8_STRING) MAX_PROP_SIZE)) q)"
  by (simp only: direct_eval flag_eval cong: if_cong)

lemma update_visible_name:
  "has (wi_properties q) WMVisibleName \<Longrightarrow>
   update serve WMVisibleName 0 q = Some (store_visible_name (serve (wm_property q NET_WM_VISIBLE_NAME (wi_atoms q UTF8_STRING) MAX_PROP_SIZE)) q)"
  by (simp only: direct_eval flag_eval cong: if_cong)

lemma update_window_type:
  "has (wi_properties q) WMWindowType \<Longrightarrow>
   update serve WMWindowType 0 q = Some (store_window_type (serve (wm_property q NET_WM_WINDOW_TYPE XCB_ATOM_ATOM 2048)) q)"
  by (simp only: direct_eval flag_eval cong: if_cong)

lemma update_strut:
  "has (wi_properties q) WMStrut \<Longrightarrow>
   update serve WMStrut 0 q = Some (store_strut (serve (wm_property q NET_WM_STRUT XCB_ATOM_CARDINAL 4)) q)"
  by (simp only: direct_eval flag_eval cong: if_cong)

lemma update_pid:
  "has (wi_properties q) WMPid \<Longrightarrow>
   update serve WMPid 0 q = Some (store_pid (serve (wm_property q NET_WM_PID XCB_ATOM_CARDINAL 1)) q)"
  by (simp only: direct_eval flag_eval cong: if_cong)

lemma update_extended_strut:
  "has (wi_properties2 q) WM2ExtendedStrut \<Longrightarrow>
   update serve 0 WM2ExtendedStrut q = Some (store_extended_strut (serve (wm_property q NET_WM_STRUT_PARTIAL XCB_ATOM_CARDINAL 12)) q)"
  by (simp only: direct_eval flag_eval cong: if_cong)

lemma update_fullscreen_monitors:
  "has (wi_properties2 q) WM2FullscreenMonitors \<Longrightarrow>
   update serve 0 WM2FullscreenMonitors q = Some (store_fullscreen_monitors (serve (wm_property q NET_WM_FULLSCREEN_MONITORS XCB_ATOM_CARDINAL 4)) q)"
  by (simp only: direct_eval flag_eval cong: if_cong)

lemma update_frame_overlap:
  "has (wi_properties2 q) WM2FrameOverlap \<Longrightarrow>
   update serve 0 WM2FrameOverlap q = Some (store_frame_overlap (serve (wm_property q NET_WM_FRAME_OVERLAP XCB_ATOM_CARDINAL 4)) q)"
  by (simp only: direct_eval flag_eval cong: if_cong)

lemma update_allowed_actions:
  "has (wi_properties2 q) WM2AllowedActions \<Longrightarrow>
   update serve 0 WM2AllowedActions q = Some (store_allowed_actions (serve (wm_property q NET_WM_ALLOWED_ACTIONS XCB_ATOM_ATOM 2048)) q)"
  by (simp only: direct_eval flag_eval cong: if_cong)

lemma update_user_time:
  "has (wi_properties2 q) WM2UserTime \<Longrightarrow>
   update serve 0 WM2UserTime q = Some (store_user_time (serve (wm_property q NET_WM_USER_TIME XCB_ATOM_CARDINAL 1)) q)"
  by (simp only: direct_eval flag_eval cong: if_cong)

lemma update_opacity:
  "has (wi_properties2 q) WM2Opacity \<Longrightarrow>
   update serve 0 WM2Opacity q = Some (store_opacity (serve (wm_property q NET_WM_WINDOW_OPACITY XCB_ATOM_CARDINAL 1)) q)"
  by (simp only: direct_eval flag_eval cong: if_cong)

lemma update_icon:
  "has (wi_properties q) WMIcon \<Longrightarrow> update serve WMIcon 0 q = store_icon (serve (icon_request q)) q"
  by (simp only: direct_eval flag_eval option.map_ident cong: if_cong)

lemma update_frame_extents:
  "has (wi_properties q) WMFrameExtents \<Longrightarrow>
   update serve WMFrameExtents 0 q
     = Some (store_frame_extents (serve (wm_property q NET_FRAME_EXTENTS XCB_ATOM_CARDINAL 4))
         (serve (wm_property q KDE_NET_WM_FRAME_STRUT XCB_ATOM_CARDINAL 4)) q)"
  by (simp only: direct_eval flag_eval cong: if_cong)

section \<open>Types\<close>

text \<open>The fields hold what their C++ types promise: numbers of 32 bits, strings without zero bytes,
  flags of the enumeration, at least one window type, and pixels for each icon that is counted.\<close>

definition cstring_ok :: "cstring \<Rightarrow> bool" where
  "cstring_ok s \<longleftrightarrow> (\<forall>bs. s = Some bs \<longrightarrow> 0 \<notin> set bs)"

definition strut_ok :: "net_strut \<Rightarrow> bool" where
  "strut_ok s \<longleftrightarrow> int_range (strut_left s) \<and> int_range (strut_right s) \<and> int_range (strut_top s)
     \<and> int_range (strut_bottom s)"

definition rect_ok :: "net_rect \<Rightarrow> bool" where
  "rect_ok r \<longleftrightarrow> int_range (pt_x (rect_pos r)) \<and> int_range (pt_y (rect_pos r))
     \<and> int_range (sz_width (rect_size r)) \<and> int_range (sz_height (rect_size r))"

definition extended_strut_ok :: "net_extended_strut \<Rightarrow> bool" where
  "extended_strut_ok s \<longleftrightarrow>
     int_range (left_width s) \<and> int_range (left_start s) \<and> int_range (left_end s)
     \<and> int_range (right_width s) \<and> int_range (right_start s) \<and> int_range (right_end s)
     \<and> int_range (top_width s) \<and> int_range (top_start s) \<and> int_range (top_end s)
     \<and> int_range (bottom_width s) \<and> int_range (bottom_start s) \<and> int_range (bottom_end s)"

definition monitors_ok :: "net_fullscreen_monitors \<Rightarrow> bool" where
  "monitors_ok m \<longleftrightarrow> int_range (fm_top m) \<and> int_range (fm_bottom m) \<and> int_range (fm_left m)
     \<and> int_range (fm_right m)"

definition icons_ok :: "net_icon list \<Rightarrow> nat \<Rightarrow> bool" where
  "icons_ok icons icon_count \<longleftrightarrow> icon_count \<le> length icons
     \<and> (\<forall>i\<in>set (take icon_count icons). icon_data i \<noteq> None
          \<and> int_range (sz_width (icon_size i)) \<and> int_range (sz_height (icon_size i)))"

definition all_protocols :: flag where
  "all_protocols = flag_or TakeFocusProtocol (flag_or DeleteWindowProtocol (flag_or PingProtocol
     (flag_or SyncRequestProtocol ContextHelpProtocol)))"

definition within :: "flag \<Rightarrow> flag \<Rightarrow> bool" where
  "within f a \<longleftrightarrow> flag_and f a = f"

definition win_info_strings :: "win_info \<Rightarrow> cstring list" where
  "win_info_strings p =
     [wi_name p, wi_visible_name p, wi_icon_name p, wi_visible_icon_name p, wi_startup_id p,
      wi_class_class p, wi_class_name p, wi_window_role p, wi_client_machine p, wi_desktop_file p,
      wi_appmenu_object_path p, wi_appmenu_service_name p, wi_gtk_application_id p]"

definition win_info_ok :: "win_info \<Rightarrow> bool" where
  "win_info_ok p \<longleftrightarrow>
     rect_ok (wi_icon_geom p) \<and> rect_ok (wi_win_geom p) \<and> list_all rect_ok (wi_opaqueRegion p)
     \<and> strut_ok (wi_strut p) \<and> strut_ok (wi_frame_strut p) \<and> strut_ok (wi_frame_overlap p)
     \<and> strut_ok (wi_gtk_frame_extents p) \<and> extended_strut_ok (wi_extended_strut p)
     \<and> monitors_ok (wi_fullscreen_monitors p)
     \<and> int_range (wi_desktop p) \<and> int_range (wi_pid p)
     \<and> within (wi_state p) all_states \<and> within (wi_allowed_actions p) all_actions
     \<and> within (wi_protocols p) all_protocols
     \<and> wi_types p \<noteq> [] \<and> icons_ok (wi_icons p) (wi_icon_count p)
     \<and> list_all cstring_ok (win_info_strings p)"

section \<open>The server answers with what was written\<close>

definition fits :: "property_data \<Rightarrow> u32 \<Rightarrow> bool" where
  "fits data len \<longleftrightarrow> data_format data * value_len data \<le> 32 * unat len"

definition answers :: "x_server \<Rightarrow> x_out list \<Rightarrow> bool" where
  "answers serve out \<longleftrightarrow>
     (\<forall>w a ty data len. Change_Property w a ty data \<in> set out \<and> fits data len
        \<longrightarrow> serve (xcb_get_property w a ty 0 len) = Some \<lparr>reply_type = ty, reply_data = data\<rparr>)
     \<and> (\<forall>w a ty len. Delete_Property w a \<in> set out
          \<longrightarrow> serve (xcb_get_property w a ty 0 len) = Some \<lparr>reply_type = 0, reply_data = No_Data\<rparr>)"

text \<open>A server for the examples: it answers with the last change of a property.\<close>

definition serve_outputs :: "x_out list \<Rightarrow> x_server" where
  "serve_outputs out r =
     Some (fold (\<lambda>o1 reply.
        case o1 of
          Change_Property w a ty data \<Rightarrow>
            if w = rq_window r \<and> a = rq_property r \<and> ty = rq_type r
            then \<lparr>reply_type = ty, reply_data = data\<rparr> else reply
        | Delete_Property w a \<Rightarrow>
            if w = rq_window r \<and> a = rq_property r then \<lparr>reply_type = 0, reply_data = No_Data\<rparr> else reply
        | _ \<Rightarrow> reply) out \<lparr>reply_type = 0, reply_data = No_Data\<rparr>)"

text \<open>A table of atoms for the examples.\<close>

definition example_atoms :: atom_table where
  "example_atoms a = word_of_int (100 + a)"

lemma interned_example_atoms: "interned example_atoms"
proof -
  have u: "unat (word_of_int (100 + a) :: u32) = nat (100 + a)" if "0 \<le> a" "a < KwsAtomCount" for a
  proof -
    have "word_of_int (100 + a) = (of_nat (nat (100 + a)) :: u32)"
      using that by (simp add: of_nat_nat)
    moreover have "nat (100 + a) < 2 ^ 32" using that by simp
    ultimately show ?thesis by (simp only: unat_u32)
  qed
  have "inj_on (\<lambda>a. word_of_int (100 + a) :: u32) {0..<KwsAtomCount}"
  proof (rule inj_onI)
    fix a b
    assume ab: "a \<in> {0..<KwsAtomCount}" "b \<in> {0..<KwsAtomCount}"
      and eq: "(word_of_int (100 + a) :: u32) = word_of_int (100 + b)"
    have "nat (100 + a) = nat (100 + b)"
      using u [of a] u [of b] ab unfolding eq by simp
    then show "a = b" using ab by (simp add: eq_nat_nat_iff)
  qed
  moreover have "68 < (word_of_int (100 + a) :: u32)" if "0 \<le> a" "a < KwsAtomCount" for a
    using u [OF that] that by (simp add: word_less_nat_alt)
  ultimately show ?thesis
    by (simp add: interned_def inj_on_def example_atoms_def)
qed

end
