(* ===== verification/Win_Info_Typing.thy ===== *)
theory Win_Info_Typing
  imports Win_Info_Props
begin

text \<open>
  Whatever the X server replies, a window info keeps the types of its fields: one lemma for each
  property that is stored, from which update and event follow by the two passes.
\<close>

section \<open>Values\<close>

lemma strut_of_array_ok [simp]: "strut_ok (strut_of_array data)"
  by (simp add: strut_of_array_def strut_ok_def strut_default_def)

lemma string_of_reply_ok [simp]: "cstring_ok (string_of_reply reply ty)"
  by (auto simp: string_of_reply_def cstring_ok_def nstrndup_def Let_def)

lemma nstrdup_ok [simp]: "cstring_ok (nstrdup s)" "cstring_ok None"
  by (auto simp: nstrdup_def cstring_ok_def)

lemma within_or: "within f a \<Longrightarrow> within g a \<Longrightarrow> within (flag_or f g) a"
  unfolding within_def flag_and_def flag_or_def by (metis bit.conj_disj_distrib2)

lemma within_zero [simp]: "within 0 a"
  by (simp add: within_def flag_defs)

lemma within_collect: "(\<And>a. within (f a) m) \<Longrightarrow> within (collect_flags f as) m"
proof (induction "as")
  case Nil
  then show ?case by simp
next
  case (Cons a "as")
  then show ?case
    using collect_flags_append [of f "[a]" "as"] by (simp add: within_or)
qed

lemma within_states: "within (state_of_atom atoms a) all_states"
proof -
  have "within f all_states" if "f \<in> {Modal, Sticky, MaxVert, MaxHoriz, Shaded, SkipTaskbar, SkipPager,
      SkipSwitcher, Hidden, FullScreen, KeepAbove, KeepBelow, DemandsAttention, Focused, 0}" for f
    using that by (auto simp: within_def all_states_def state_flags flag_defs)
  then show ?thesis by (simp add: state_of_atom_def)
qed

lemma within_actions: "within (action_of_atom atoms a) all_actions"
proof -
  have "within f all_actions" if "f \<in> {ActionMove, ActionResize, ActionMinimize, ActionShade,
      ActionStick, ActionMaxVert, ActionMaxHoriz, ActionFullScreen, ActionChangeDesktop, ActionClose,
      0}" for f
    using that by (auto simp: within_def all_actions_def action_flags flag_defs)
  then show ?thesis by (simp add: action_of_atom_def)
qed

lemma within_protocols: "within (protocol_of_atom atoms a) all_protocols"
proof -
  have "within f all_protocols" if "f \<in> {TakeFocusProtocol, DeleteWindowProtocol, PingProtocol,
      SyncRequestProtocol, ContextHelpProtocol, 0}" for f
    using that by (auto simp: within_def all_protocols_def protocol_flags flag_defs)
  then show ?thesis by (simp add: protocol_of_atom_def)
qed

lemma rects_of_array_ok [simp]: "list_all rect_ok (rects_of_array ws)"
  by (induction ws rule: rects_of_array.induct) (simp_all add: rect_ok_def)

lemma store_types_loop_nonempty:
  "types \<noteq> [] \<Longrightarrow> store_types_loop atoms tys pos types \<noteq> []"
proof (induction atoms tys pos types rule: store_types_loop.induct)
  case (1 atoms pos types)
  then show ?case by simp
next
  case (2 atoms ty tys pos types)
  moreover have "rarray_set wt_normal types pos t \<noteq> []" for t
    by (simp add: rarray_set_def rarray_grow_def)
  ultimately show ?case by (auto split: option.splits)
qed

lemma icons_ok_append:
  assumes "icons_ok icons (length icons)"
  shows "icons_ok (icons @ [\<lparr>icon_size = \<lparr>sz_width = to_int w, sz_height = to_int h\<rparr>,
    icon_data = Some d\<rparr>]) (Suc (length icons))"
  using assms by (auto simp: icons_ok_def)

lemma read_icon_loop_ok:
  assumes "read_icon_loop data i j icons c = Some r"
  shows "i = length icons \<and> c = length icons \<and> icons_ok icons c
     \<longrightarrow> snd r = length (fst r) \<and> icons_ok (fst r) (snd r)"
  using assms
proof (induction data i j icons c r rule: read_icon_loop.raw_induct [rotated, consumes 1, case_names step])
  case (step loop data i j icons c r)
  let ?w = "data ! unat j" and ?h = "data ! unat (j + 1)"
  let ?icon = "\<lparr>icon_size = \<lparr>sz_width = to_int ?w, sz_height = to_int ?h\<rparr>,
    icon_data = Some (take (unat (?w * ?h * 4) div 4) (drop (unat (j + 2)) data))\<rparr>"
  have "r = (icons, c)
      \<or> loop data (Suc i) (j + 2 + ?w * ?h) (rarray_set icon_default icons i ?icon) (Suc c) = Some r"
    using step(2) unfolding Let_def by (simp split: if_split_asm)
  then show ?case
  proof (elim disjE, goal_cases)
    case 1
    then show ?case by auto
  next
    case 2
    note IH = step.IH [OF 2]
    show ?case
    proof (intro impI)
      assume pre: "i = length icons \<and> c = length icons \<and> icons_ok icons c"
      then have set: "rarray_set icon_default icons i ?icon = icons @ [?icon]" by simp
      have "icons_ok (icons @ [?icon]) (Suc (length icons))"
        by (rule icons_ok_append) (use pre in auto)
      with IH pre set show "snd r = length (fst r) \<and> icons_ok (fst r) (snd r)" by auto
    qed
  qed
qed

lemma readIcon_ok:
  assumes "readIcon reply old = Some (icons, c)"
  shows "c = length icons \<and> icons_ok icons c"
proof -
  have empty: "icons_ok [] 0" by (simp add: icons_ok_def)
  have "(icons = [] \<and> c = 0) \<or> (\<exists>data. read_icon_loop data 0 0 [] 0 = Some (icons, c))"
    using assms unfolding readIcon_def rarray_reset_def Let_def
    by (cases reply) (auto split: property_data.splits if_split_asm)
  then show ?thesis
  proof (elim disjE exE)
    fix data
    assume "read_icon_loop data 0 0 [] 0 = Some (icons, c)"
    from read_icon_loop_ok [OF this] empty show ?thesis by auto
  qed (simp add: empty)
qed

section \<open>The stores\<close>

lemmas types_defs = win_info_ok_def win_info_strings_def

named_theorems store_types "stores keep the types"

lemmas value_types = types_defs Let_def case_prod_unfold OnAllDesktops_def rarray_reset_def
  rarray_set_def rarray_grow_def extended_strut_ok_def extended_strut_default_def monitors_ok_def
  fullscreen_monitors_default_def rect_ok_def rect_default_def point_default_def size_default_def
  store_types_loop_nonempty within_collect within_states within_actions within_protocols

lemma store_wm_state_type [store_types]: "win_info_ok p \<Longrightarrow> win_info_ok (store_wm_state r p)"
  by (simp add: value_types store_wm_state_def)

lemma store_state_type [store_types]: "win_info_ok p \<Longrightarrow> win_info_ok (store_state r p)"
  by (simp add: value_types store_state_def)

lemma store_desktop_type [store_types]: "win_info_ok p \<Longrightarrow> win_info_ok (store_desktop r p)"
  by (simp add: value_types store_desktop_def)

lemma store_name_type [store_types]: "win_info_ok p \<Longrightarrow> win_info_ok (store_name r p)"
  by (simp add: value_types store_name_def)

lemma store_visible_name_type [store_types]: "win_info_ok p \<Longrightarrow> win_info_ok (store_visible_name r p)"
  by (simp add: value_types store_visible_name_def)

lemma store_icon_name_type [store_types]: "win_info_ok p \<Longrightarrow> win_info_ok (store_icon_name r p)"
  by (simp add: value_types store_icon_name_def)

lemma store_visible_icon_name_type [store_types]: "win_info_ok p \<Longrightarrow> win_info_ok (store_visible_icon_name r p)"
  by (simp add: value_types store_visible_icon_name_def)

lemma store_window_type_type [store_types]: "win_info_ok p \<Longrightarrow> win_info_ok (store_window_type r p)"
  by (simp add: value_types store_window_type_def)

lemma store_strut_type [store_types]: "win_info_ok p \<Longrightarrow> win_info_ok (store_strut r p)"
  by (simp add: value_types store_strut_def)

lemma store_extended_strut_type [store_types]: "win_info_ok p \<Longrightarrow> win_info_ok (store_extended_strut r p)"
  by (simp add: value_types store_extended_strut_def)

lemma store_fullscreen_monitors_type [store_types]: "win_info_ok p \<Longrightarrow> win_info_ok (store_fullscreen_monitors r p)"
  by (simp add: value_types store_fullscreen_monitors_def)

lemma store_icon_geometry_type [store_types]: "win_info_ok p \<Longrightarrow> win_info_ok (store_icon_geometry r p)"
  by (simp add: value_types store_icon_geometry_def)

lemma store_frame_extents_type [store_types]: "win_info_ok p \<Longrightarrow> win_info_ok (store_frame_extents r r' p)"
  by (simp add: value_types store_frame_extents_def)

lemma store_frame_overlap_type [store_types]: "win_info_ok p \<Longrightarrow> win_info_ok (store_frame_overlap r p)"
  by (simp add: value_types store_frame_overlap_def)

lemma store_block_compositing_type [store_types]: "win_info_ok p \<Longrightarrow> win_info_ok (store_block_compositing r r' p)"
  by (simp add: value_types store_block_compositing_def)

lemma store_pid_type [store_types]: "win_info_ok p \<Longrightarrow> win_info_ok (store_pid r p)"
  by (simp add: value_types store_pid_def)

lemma store_startup_id_type [store_types]: "win_info_ok p \<Longrightarrow> win_info_ok (store_startup_id r p)"
  by (simp add: value_types store_startup_id_def)

lemma store_opacity_type [store_types]: "win_info_ok p \<Longrightarrow> win_info_ok (store_opacity r p)"
  by (simp add: value_types store_opacity_def)

lemma store_allowed_actions_type [store_types]: "win_info_ok p \<Longrightarrow> win_info_ok (store_allowed_actions r p)"
  by (simp add: value_types store_allowed_actions_def)

lemma store_user_time_type [store_types]: "win_info_ok p \<Longrightarrow> win_info_ok (store_user_time r p)"
  by (simp add: value_types store_user_time_def)

lemma store_transient_for_type [store_types]: "win_info_ok p \<Longrightarrow> win_info_ok (store_transient_for r p)"
  by (simp add: value_types store_transient_for_def)

lemma store_window_role_type [store_types]: "win_info_ok p \<Longrightarrow> win_info_ok (store_window_role r p)"
  by (simp add: value_types store_window_role_def)

lemma store_client_machine_type [store_types]: "win_info_ok p \<Longrightarrow> win_info_ok (store_client_machine r p)"
  by (simp add: value_types store_client_machine_def)

lemma store_protocols_type [store_types]: "win_info_ok p \<Longrightarrow> win_info_ok (store_protocols r p)"
  by (simp add: value_types store_protocols_def)

lemma store_opaque_region_type [store_types]: "win_info_ok p \<Longrightarrow> win_info_ok (store_opaque_region r p)"
  by (simp add: value_types store_opaque_region_def)

lemma store_desktop_file_type [store_types]: "win_info_ok p \<Longrightarrow> win_info_ok (store_desktop_file r p)"
  by (simp add: value_types store_desktop_file_def)

lemma store_gtk_application_id_type [store_types]: "win_info_ok p \<Longrightarrow> win_info_ok (store_gtk_application_id r p)"
  by (simp add: value_types store_gtk_application_id_def)

lemma store_gtk_frame_extents_type [store_types]: "win_info_ok p \<Longrightarrow> win_info_ok (store_gtk_frame_extents r p)"
  by (simp add: value_types store_gtk_frame_extents_def)

lemma store_appmenu_object_path_type [store_types]: "win_info_ok p \<Longrightarrow> win_info_ok (store_appmenu_object_path r p)"
  by (simp add: value_types store_appmenu_object_path_def)

lemma store_appmenu_service_name_type [store_types]: "win_info_ok p \<Longrightarrow> win_info_ok (store_appmenu_service_name r p)"
  by (simp add: value_types store_appmenu_service_name_def)

lemma store_wm_hints_type [store_types]: "win_info_ok p \<Longrightarrow> win_info_ok (store_wm_hints r p)"
  by (simp add: types_defs store_wm_hints_def Let_def split: option.split property_data.split)

lemma store_window_class_type [store_types]: "win_info_ok p \<Longrightarrow> win_info_ok (store_window_class r p)"
  by (simp add: types_defs store_window_class_def Let_def split: list.split)

lemma store_icon_type: "win_info_ok p \<Longrightarrow> store_icon r p = Some q \<Longrightarrow> win_info_ok q"
  using readIcon_ok [of r "wi_icons p"]
  by (auto simp: types_defs store_icon_def split: Option.bind_splits prod.splits)

section \<open>Update\<close>

lemma read_types:
  assumes "win_info_ok (snd s)"
  shows "win_info_ok (snd (read_before_icon serve dirty dirty2 s))"
    and "win_info_ok (snd (read_after_icon serve dirty dirty2 s))"
    and "win_info_ok (snd (read_of_client serve dirty2 s))"
  unfolding read_before_icon_def read_after_icon_def read_of_client_def Let_def
  using assms by (simp_all add: on_reply_invariant on_two_replies_invariant store_types)

lemma read_icon_type:
  assumes "win_info_ok (snd s)" "read_icon serve dirty s = Some s'"
  shows "win_info_ok (snd s')"
  using assms by (auto simp: read_icon_def store_icon_type split: prod.splits if_splits)

lemma update_types:
  assumes "win_info_ok p" "update serve dirty dirty2 p = Some q"
  shows "win_info_ok q"
proof -
  let ?d = "dirty_of p dirty" and ?d2 = "flag_and dirty2 (wi_properties2 p)"
  obtain cookies s where s: "read_icon serve ?d (read_before_icon serve ?d ?d2 (cookies, p)) = Some s"
      "q = snd (read_of_client serve ?d2 (read_after_icon serve ?d ?d2 s))"
    using assms(2) by (auto simp: update_def Let_def split: Option.bind_splits)
  have "win_info_ok (snd (cookies, p))" using assms(1) by simp
  then have "win_info_ok (snd s)"
    by (rule read_icon_type [OF read_types(1) s(1)])
  then show ?thesis
    unfolding s(2) by (intro read_types)
qed

lemma init_types: "win_info_ok (win_info_init atoms window rootWindow properties properties2 role)"
  by (simp add: types_defs win_info_init_def rect_ok_def rect_default_def point_default_def
      size_default_def strut_ok_def strut_default_def extended_strut_ok_def
      extended_strut_default_def monitors_ok_def fullscreen_monitors_default_def icons_ok_def
      rarray_set_def rarray_grow_def NoProtocol_def)

text \<open>The numbers of a configure event are of 16 bits.\<close>

definition event_ok :: "x_event \<Rightarrow> bool" where
  "event_ok ev \<longleftrightarrow>
     (case ev of Configure_Notify x y w h \<Rightarrow> int_range x \<and> int_range y \<and> int_range w \<and> int_range h
      | _ \<Rightarrow> True)"

lemma event_types:
  assumes "win_info_ok p" "event_ok ev" "event serve ev p = Some (dirty, dirty2, calls, q)"
  shows "win_info_ok q"
proof (cases ev)
  case (Property_Notify a)
  then show ?thesis
    using assms by (auto simp: event_def split: prod.splits elim: update_types)
qed (use assms in \<open>auto simp: event_def event_ok_def types_defs rect_ok_def split: if_splits prod.splits\<close>)

section \<open>What an update leaves alone\<close>

text \<open>The identity of an info: its table of atoms, its role, its windows, and what it follows.\<close>

definition identity :: "win_info \<Rightarrow> atom_table \<times> net_role \<times> u32 \<times> u32 \<times> flag \<times> flag" where
  "identity p = (wi_atoms p, wi_role p, wi_window p, wi_root p, wi_properties p, wi_properties2 p)"

named_theorems store_identity "stores keep the identity"

lemma store_wm_state_identity [store_identity]: "identity (store_wm_state r p) = identity p"
  by (simp add: identity_def store_wm_state_def Let_def case_prod_unfold)

lemma store_state_identity [store_identity]: "identity (store_state r p) = identity p"
  by (simp add: identity_def store_state_def Let_def case_prod_unfold)

lemma store_desktop_identity [store_identity]: "identity (store_desktop r p) = identity p"
  by (simp add: identity_def store_desktop_def Let_def case_prod_unfold)

lemma store_name_identity [store_identity]: "identity (store_name r p) = identity p"
  by (simp add: identity_def store_name_def Let_def case_prod_unfold)

lemma store_visible_name_identity [store_identity]: "identity (store_visible_name r p) = identity p"
  by (simp add: identity_def store_visible_name_def Let_def case_prod_unfold)

lemma store_icon_name_identity [store_identity]: "identity (store_icon_name r p) = identity p"
  by (simp add: identity_def store_icon_name_def Let_def case_prod_unfold)

lemma store_visible_icon_name_identity [store_identity]: "identity (store_visible_icon_name r p) = identity p"
  by (simp add: identity_def store_visible_icon_name_def Let_def case_prod_unfold)

lemma store_window_type_identity [store_identity]: "identity (store_window_type r p) = identity p"
  by (simp add: identity_def store_window_type_def Let_def case_prod_unfold)

lemma store_strut_identity [store_identity]: "identity (store_strut r p) = identity p"
  by (simp add: identity_def store_strut_def Let_def case_prod_unfold)

lemma store_extended_strut_identity [store_identity]: "identity (store_extended_strut r p) = identity p"
  by (simp add: identity_def store_extended_strut_def Let_def case_prod_unfold)

lemma store_fullscreen_monitors_identity [store_identity]: "identity (store_fullscreen_monitors r p) = identity p"
  by (simp add: identity_def store_fullscreen_monitors_def Let_def case_prod_unfold)

lemma store_icon_geometry_identity [store_identity]: "identity (store_icon_geometry r p) = identity p"
  by (simp add: identity_def store_icon_geometry_def Let_def case_prod_unfold)

lemma store_frame_extents_identity [store_identity]: "identity (store_frame_extents r r' p) = identity p"
  by (simp add: identity_def store_frame_extents_def Let_def case_prod_unfold)

lemma store_frame_overlap_identity [store_identity]: "identity (store_frame_overlap r p) = identity p"
  by (simp add: identity_def store_frame_overlap_def Let_def case_prod_unfold)

lemma store_block_compositing_identity [store_identity]: "identity (store_block_compositing r r' p) = identity p"
  by (simp add: identity_def store_block_compositing_def Let_def case_prod_unfold)

lemma store_pid_identity [store_identity]: "identity (store_pid r p) = identity p"
  by (simp add: identity_def store_pid_def Let_def case_prod_unfold)

lemma store_startup_id_identity [store_identity]: "identity (store_startup_id r p) = identity p"
  by (simp add: identity_def store_startup_id_def Let_def case_prod_unfold)

lemma store_opacity_identity [store_identity]: "identity (store_opacity r p) = identity p"
  by (simp add: identity_def store_opacity_def Let_def case_prod_unfold)

lemma store_allowed_actions_identity [store_identity]: "identity (store_allowed_actions r p) = identity p"
  by (simp add: identity_def store_allowed_actions_def Let_def case_prod_unfold)

lemma store_user_time_identity [store_identity]: "identity (store_user_time r p) = identity p"
  by (simp add: identity_def store_user_time_def Let_def case_prod_unfold)

lemma store_transient_for_identity [store_identity]: "identity (store_transient_for r p) = identity p"
  by (simp add: identity_def store_transient_for_def Let_def case_prod_unfold)

lemma store_window_role_identity [store_identity]: "identity (store_window_role r p) = identity p"
  by (simp add: identity_def store_window_role_def Let_def case_prod_unfold)

lemma store_client_machine_identity [store_identity]: "identity (store_client_machine r p) = identity p"
  by (simp add: identity_def store_client_machine_def Let_def case_prod_unfold)

lemma store_protocols_identity [store_identity]: "identity (store_protocols r p) = identity p"
  by (simp add: identity_def store_protocols_def Let_def case_prod_unfold)

lemma store_opaque_region_identity [store_identity]: "identity (store_opaque_region r p) = identity p"
  by (simp add: identity_def store_opaque_region_def Let_def case_prod_unfold)

lemma store_desktop_file_identity [store_identity]: "identity (store_desktop_file r p) = identity p"
  by (simp add: identity_def store_desktop_file_def Let_def case_prod_unfold)

lemma store_gtk_application_id_identity [store_identity]: "identity (store_gtk_application_id r p) = identity p"
  by (simp add: identity_def store_gtk_application_id_def Let_def case_prod_unfold)

lemma store_gtk_frame_extents_identity [store_identity]: "identity (store_gtk_frame_extents r p) = identity p"
  by (simp add: identity_def store_gtk_frame_extents_def Let_def case_prod_unfold)

lemma store_appmenu_object_path_identity [store_identity]: "identity (store_appmenu_object_path r p) = identity p"
  by (simp add: identity_def store_appmenu_object_path_def Let_def case_prod_unfold)

lemma store_appmenu_service_name_identity [store_identity]: "identity (store_appmenu_service_name r p) = identity p"
  by (simp add: identity_def store_appmenu_service_name_def Let_def case_prod_unfold)

lemma store_wm_hints_identity [store_identity]: "identity (store_wm_hints r p) = identity p"
  by (simp add: identity_def store_wm_hints_def Let_def split: option.split property_data.split)

lemma store_window_class_identity [store_identity]: "identity (store_window_class r p) = identity p"
  by (simp add: identity_def store_window_class_def Let_def split: list.split)

lemma store_icon_identity: "store_icon r p = Some q \<Longrightarrow> identity q = identity p"
  by (auto simp: identity_def store_icon_def split: Option.bind_splits)

lemma read_icon_identity:
  "read_icon serve dirty s = Some s' \<Longrightarrow> identity (snd s') = identity (snd s)"
  by (cases s) (auto simp: read_icon_def store_icon_identity split: prod.splits if_splits)

lemma read_identity:
  "identity (snd (read_before_icon serve dirty dirty2 s)) = identity (snd s)"
  "identity (snd (read_after_icon serve dirty dirty2 s)) = identity (snd s)"
  "identity (snd (read_of_client serve dirty2 s)) = identity (snd s)"
proof -
  have reply: "identity (snd (on_reply serve b f s)) = identity (snd s)"
    if "\<And>r p. identity (f r p) = identity p" for b f s
    using on_reply_invariant [of "\<lambda>p. identity p = identity (snd s)" s f serve b] that by simp
  have replies: "identity (snd (on_two_replies serve b f s)) = identity (snd s)"
    if "\<And>r r' p. identity (f r r' p) = identity p" for b f s
    using on_two_replies_invariant [of "\<lambda>p. identity p = identity (snd s)" s f serve b] that by simp
  show "identity (snd (read_before_icon serve dirty dirty2 s)) = identity (snd s)"
    "identity (snd (read_after_icon serve dirty dirty2 s)) = identity (snd s)"
    "identity (snd (read_of_client serve dirty2 s)) = identity (snd s)"
    unfolding read_before_icon_def read_after_icon_def read_of_client_def Let_def
    by (simp_all add: reply replies store_identity)
qed

lemma update_identity:
  assumes "update serve dirty dirty2 p = Some q"
  shows "identity q = identity p"
proof -
  let ?d = "dirty_of p dirty" and ?d2 = "flag_and dirty2 (wi_properties2 p)"
  obtain cookies s where s: "read_icon serve ?d (read_before_icon serve ?d ?d2 (cookies, p)) = Some s"
      "q = snd (read_of_client serve ?d2 (read_after_icon serve ?d ?d2 s))"
    using assms by (auto simp: update_def Let_def split: Option.bind_splits)
  have "identity (snd s) = identity (snd (read_before_icon serve ?d ?d2 (cookies, p)))"
    using s(1) by (rule read_icon_identity)
  then show ?thesis
    unfolding s(2) by (simp add: read_identity)
qed

lemma without_added: "\<not> has v (push_bit n 1) \<Longrightarrow> without (flag_or v (push_bit n 1)) (push_bit n 1) = v"
proof (rule bit_word_eqI)
  fix k assume "\<not> has v (push_bit n 1)" "k < LENGTH(32)"
  then show "bit (without (flag_or v (push_bit n 1)) (push_bit n 1)) k = bit v k"
    by (simp only: without_bit bit_flag_or bit_flag has_push_bit) auto
qed

lemma refresh_state_identity:
  assumes "refresh_state serve p = Some q"
  shows "identity q = identity p"
proof -
  obtain p1 where p1: "(if wi_mapping_state_dirty p then updateWMState serve p else Some p) = Some p1"
    and q: "(if \<not> has (wi_properties p1) WMState then
         do { p2 \<leftarrow> update serve WMState 0 (p1\<lparr>wi_properties := flag_or (wi_properties p1) WMState\<rparr>);
              Some (p2\<lparr>wi_properties := without (wi_properties p2) WMState\<rparr>) }
       else Some p1) = Some q"
    using assms unfolding refresh_state_def by (cases "wi_mapping_state_dirty p") (auto split: Option.bind_splits)
  have 1: "identity p1 = identity p"
    using p1 by (auto simp: updateWMState_def update_identity split: if_splits)
  have "identity q = identity p1"
  proof (cases "has (wi_properties p1) WMState")
    case False
    then obtain p2 where
      p2: "update serve WMState 0 (p1\<lparr>wi_properties := flag_or (wi_properties p1) WMState\<rparr>) = Some p2"
      and q: "q = p2\<lparr>wi_properties := without (wi_properties p2) WMState\<rparr>"
      using q by (auto split: Option.bind_splits)
    have "without (flag_or (wi_properties p1) WMState) WMState = wi_properties p1"
      using False unfolding WMState_def by (rule without_added)
    with update_identity [OF p2] q show ?thesis by (simp add: identity_def)
  qed (use q in simp)
  with 1 show ?thesis by simp
qed

end
