(* ===== verification/Win_Info_Theorems.thy ===== *)
theory Win_Info_Theorems
  imports Win_Info_Typing
begin

text \<open>
  The properties of the window info: what it reads is what was written, by the window manager or by a
  client; the messages of a client lead the window manager to the state the client asked for; the
  types of the fields; and where the code departs from this.

  The X server appears only in the hypothesis that a property which was written is answered with the
  written type and data when it is asked for, and that one which was deleted is not there.
\<close>

section \<open>The same window\<close>

definition same_window :: "win_info \<Rightarrow> win_info \<Rightarrow> bool" where
  "same_window q p \<longleftrightarrow> wi_window q = wi_window p \<and> wi_atoms q = wi_atoms p"

lemma answers_change:
  assumes "answers serve out" "change_property p a ty data \<in> set out" "same_window q p" "fits data len"
  shows "serve (wm_property q a ty len) = Some \<lparr>reply_type = ty, reply_data = data\<rparr>"
  using assms unfolding answers_def change_property_def wm_property_def same_window_def by metis

lemma answers_delete:
  assumes "answers serve out" "delete_property p a \<in> set out" "same_window q p"
  shows "serve (wm_property q a ty len) = Some \<lparr>reply_type = 0, reply_data = No_Data\<rparr>"
  using assms unfolding answers_def delete_property_def wm_property_def same_window_def by metis

definition example_info :: "net_role \<Rightarrow> win_info" where
  "example_info role = (win_info_init example_atoms 7 1 (-1) (without (-1) WM2Activities) role)
     \<lparr>wi_mapping_state := Mapping_Visible, wi_mapping_state_dirty := False\<rparr>"

lemma example_interned: "interned (wi_atoms (example_info role))"
  by (simp add: interned_example_atoms example_info_def win_info_init_def)

section \<open>Round trips\<close>

lemma length_atom_if: "length (atom_if atoms s f a) \<le> 1"
  by (simp add: atom_if_def)

lemma state_atoms_length: "length (state_atoms atoms s) \<le> 15"
proof -
  have "length (state_atoms atoms s) \<le> 1 + (1 + (1 + (1 + (1 + (1 + (1 + (1 + (1 + (1 + (1 + (1 + (1 + (1 + (1))))))))))))))"
    unfolding state_atoms_def length_append by (intro add_mono length_atom_if)
  then show ?thesis by simp
qed

lemma action_atoms_length: "length (action_atoms atoms s) \<le> 10"
proof -
  have "length (action_atoms atoms s) \<le> 1 + (1 + (1 + (1 + (1 + (1 + (1 + (1 + (1 + (1)))))))))"
    unfolding action_atoms_def length_append by (intro add_mono length_atom_if)
  then show ?thesis by simp
qed

text \<open>C37. The states the window manager sets are what a client reads, and so are the allowed actions:
  all states that have an atom, and no others. The new state is the old one outside the mask, together
  with the wished state.\<close>

theorem state_survives_the_server:
  assumes "same_window q p" "interned (wi_atoms p)" "wi_role p = Role_WindowManager"
    and "has (wi_properties q) WMState" "has (wi_properties2 q) WM2AllowedActions"
    and "setState serve0 state msk p = Some (p', out)" "answers serve out"
    and "setAllowedActions actions p = (p'', out')" "answers serve' out'"
  shows "(\<exists>p0. refresh_state serve0 p = Some p0 \<and> wi_state p' = flag_or (without (wi_state p0) msk) state)
    \<and> map_option wi_state (update serve WMState 0 q) = Some (flag_and (wi_state p') all_states)
    \<and> map_option wi_allowed_actions (update serve' 0 WM2AllowedActions q)
        = Some (flag_and actions all_actions)"
proof -
  obtain p0 where p0: "refresh_state serve0 p = Some p0"
    using assms(6) by (auto simp: setState_def split: Option.bind_splits)
  have atoms: "wi_atoms q = wi_atoms p" "wi_atoms p0 = wi_atoms p" "same_window q p0"
      "wi_role p0 = Role_WindowManager"
    using refresh_state_identity [OF p0] assms(1,3) by (auto simp: same_window_def identity_def)
  let ?s = "flag_or (without (wi_state p0) msk) state"
  have p': "p' = p0\<lparr>wi_state := ?s\<rparr>"
    and out: "out = [change_property p0 NET_WM_STATE XCB_ATOM_ATOM (Longs (state_atoms (wi_atoms p0) ?s))]"
    using assms(6) p0 atoms(4) by (auto simp: setState_def Let_def change_property_def)
  have 1: "serve (wm_property q NET_WM_STATE XCB_ATOM_ATOM 2048)
      = Some \<lparr>reply_type = XCB_ATOM_ATOM, reply_data = Longs (state_atoms (wi_atoms p0) ?s)\<rparr>"
    by (rule answers_change [OF assms(7) _ atoms(3)])
      (use state_atoms_length [of "wi_atoms p0" ?s] in \<open>simp_all add: out fits_def\<close>)
  have out': "out' = [change_property p NET_WM_ALLOWED_ACTIONS XCB_ATOM_ATOM
      (Longs (action_atoms (wi_atoms p) actions))]"
    using assms(8) by (auto simp: setAllowedActions_def Let_def change_property_def)
  have 2: "serve' (wm_property q NET_WM_ALLOWED_ACTIONS XCB_ATOM_ATOM 2048)
      = Some \<lparr>reply_type = XCB_ATOM_ATOM, reply_data = Longs (action_atoms (wi_atoms p) actions)\<rparr>"
    by (rule answers_change [OF assms(9) _ assms(1)])
      (use action_atoms_length [of "wi_atoms p" actions] in \<open>simp_all add: out' fits_def\<close>)
  show ?thesis
    using assms(2) atoms
    by (simp add: p' p0 update_state [OF assms(4)] 1 update_allowed_actions [OF assms(5)] 2 store_state_def
        store_allowed_actions_def state_atoms_roundtrip action_atoms_roundtrip)
qed

lemma example_properties:
  "f \<noteq> 0 \<Longrightarrow> has (wi_properties (example_info role)) f"
  by (simp add: example_info_def win_info_init_def flag_defs)

lemma example_properties2:
  "has (wi_properties2 (example_info role)) WM2AllowedActions"
  "has (wi_properties2 (example_info role)) WM2ExtendedStrut"
  "has (wi_properties2 (example_info role)) WM2UserTime"
  by (simp_all add: example_info_def win_info_init_def flag_defs property2_flags)

lemma example_same_window: "same_window (example_info role) (example_info role')"
  by (simp add: same_window_def example_info_def win_info_init_def)

lemma example_refresh: "refresh_state serve (example_info role) = Some (example_info role)"
  by (simp add: refresh_state_def example_info_def win_info_init_def flag_defs property_flags)

lemma answers_single:
  "answers (serve_outputs [change_property p a ty data]) [change_property p a ty data]"
  by (simp add: answers_def serve_outputs_def change_property_def xcb_get_property_def)

lemma state_survives_the_server_witness:
  "map_option wi_state
     (update (serve_outputs [change_property (example_info Role_WindowManager) NET_WM_STATE XCB_ATOM_ATOM
         (Longs (state_atoms (wi_atoms (example_info Role_WindowManager)) (flag_or (without 0 Modal) Modal)))])
       WMState 0 (example_info Role_Client)) = Some Modal"
proof -
  let ?p = "example_info Role_WindowManager"
  have role: "wi_role ?p = Role_WindowManager" "wi_state ?p = 0"
    by (simp_all add: example_info_def win_info_init_def)
  let ?p' = "?p\<lparr>wi_state := flag_or (without (wi_state ?p) Modal) Modal\<rparr>"
  have set: "setState (\<lambda>r. None) Modal Modal ?p
      = Some (?p', [change_property ?p NET_WM_STATE XCB_ATOM_ATOM
          (Longs (state_atoms (wi_atoms ?p) (flag_or (without 0 Modal) Modal)))])"
    by (simp add: setState_def example_refresh role Let_def change_property_def)
  have act: "setAllowedActions 0 ?p = (?p\<lparr>wi_allowed_actions := 0\<rparr>,
      [change_property ?p NET_WM_ALLOWED_ACTIONS XCB_ATOM_ATOM (Longs (action_atoms (wi_atoms ?p) 0))])"
    by (simp add: setAllowedActions_def Let_def change_property_def)
  have "WMState \<noteq> 0" by (simp add: property_flags)
  from state_survives_the_server [OF example_same_window example_interned role(1)
      example_properties [OF this] example_properties2(1) set answers_single act answers_single]
  have "map_option wi_state (update (serve_outputs [change_property ?p NET_WM_STATE XCB_ATOM_ATOM
         (Longs (state_atoms (wi_atoms ?p) (flag_or (without 0 Modal) Modal)))])
       WMState 0 (example_info Role_Client)) = Some (flag_and (wi_state ?p') all_states)"
    by blast
  moreover have "flag_and (wi_state ?p') all_states = Modal"
    by (simp add: role flag_defs all_states_def state_flags)
  ultimately show ?thesis by simp
qed

lemma strut_of_words [simp]: "strut_ok s \<Longrightarrow> strut_of_array (strut_words s) = s"
  by (simp add: strut_of_array_def strut_words_def strut_ok_def)

lemma strut_roundtrip:
  assumes "same_window q p" "has (wi_properties q) WMStrut" "strut_ok s"
    and "setStrut s p = Some (p', out)" "answers serve out"
  shows "map_option wi_strut (update serve WMStrut 0 q) = Some s"
proof -
  have "serve (wm_property q NET_WM_STRUT XCB_ATOM_CARDINAL 4)
      = Some \<lparr>reply_type = XCB_ATOM_CARDINAL, reply_data = Longs (strut_words s)\<rparr>"
    by (rule answers_change [OF assms(5) _ assms(1)])
      (use assms(4) in \<open>auto simp: setStrut_def change_property_def fits_def strut_words_def
         split: if_splits\<close>)
  then show ?thesis
    by (simp add: update_strut [OF assms(2)] store_strut_def assms(3))
qed

lemma extended_strut_roundtrip:
  assumes "same_window q p" "has (wi_properties2 q) WM2ExtendedStrut" "extended_strut_ok es"
    and "setExtendedStrut es p = Some (p', out)" "answers serve out"
  shows "map_option wi_extended_strut (update serve 0 WM2ExtendedStrut q) = Some es"
proof -
  have "serve (wm_property q NET_WM_STRUT_PARTIAL XCB_ATOM_CARDINAL 12)
      = Some \<lparr>reply_type = XCB_ATOM_CARDINAL,
              reply_data = Longs [to_u32 (left_width es), to_u32 (right_width es), to_u32 (top_width es),
                        to_u32 (bottom_width es), to_u32 (left_start es), to_u32 (left_end es),
                        to_u32 (right_start es), to_u32 (right_end es), to_u32 (top_start es),
                        to_u32 (top_end es), to_u32 (bottom_start es), to_u32 (bottom_end es)]\<rparr>"
    by (rule answers_change [OF assms(5) _ assms(1)])
      (use assms(4) in \<open>auto simp: setExtendedStrut_def change_property_def fits_def split: if_splits\<close>)
  then show ?thesis
    using assms(3)
    by (simp add: update_extended_strut [OF assms(2)] store_extended_strut_def extended_strut_ok_def Let_def)
qed

lemma frame_extents_roundtrip:
  assumes "same_window q p" "has (wi_properties q) WMFrameExtents" "strut_ok s"
    and "setFrameExtents s p = (p', out)" "answers serve out"
  shows "map_option wi_frame_strut (update serve WMFrameExtents 0 q) = Some s"
proof -
  have "serve (wm_property q NET_FRAME_EXTENTS XCB_ATOM_CARDINAL 4)
      = Some \<lparr>reply_type = XCB_ATOM_CARDINAL, reply_data = Longs (strut_words s)\<rparr>"
    by (rule answers_change [OF assms(5) _ assms(1)])
      (use assms(4) in \<open>auto simp: setFrameExtents_def Let_def change_property_def fits_def strut_words_def\<close>)
  moreover have "strut_words s \<noteq> []" by (simp add: strut_words_def)
  ultimately show ?thesis
    by (simp add: update_frame_extents [OF assms(2)] store_frame_extents_def Let_def assms(3))
qed

lemma single_value:
  assumes "answers serve out" "change_property p a XCB_ATOM_CARDINAL (Longs [v]) \<in> set out" "same_window q p"
  shows "get_value_reply (serve (wm_property q a XCB_ATOM_CARDINAL 1)) XCB_ATOM_CARDINAL def = (v, True)"
  using answers_change [OF assms, of 1] by (simp add: fits_def)

lemma desktop_word:
  assumes "int_range d" "- 1 \<le> d" "d \<noteq> 0" "d \<noteq> OnAllDesktops"
  shows "to_u32 (d - 1) \<noteq> 0xffffffff" "to_int (to_u32 (d - 1) + 1) = d"
proof -
  have "to_u32 (d - 1) + 1 = to_u32 d" by (simp add: to_u32_def)
  then show again: "to_int (to_u32 (d - 1) + 1) = d" using assms(1) by simp
  show "to_u32 (d - 1) \<noteq> 0xffffffff"
  proof
    assume "to_u32 (d - 1) = 0xffffffff"
    then have "to_u32 (d - 1) + 1 = 0" by simp
    with again have "d = to_int 0" by simp
    then show False using assms(3) by (simp add: to_int_def)
  qed
qed

lemma desktop_roundtrip:
  assumes "same_window q p" "\<not> wi_mapping_state_dirty p" "has (wi_properties q) WMDesktop"
    and "int_range d" "- 1 \<le> d"
    and "setDesktop serve0 d p = Some (p', out)" "answers serve out"
  shows "map_option wi_desktop (update serve WMDesktop 0 q) = Some d"
proof (cases "d = 0")
  case True
  then have "serve (wm_property q NET_WM_DESKTOP XCB_ATOM_CARDINAL 1)
      = Some \<lparr>reply_type = 0, reply_data = No_Data\<rparr>"
    by (intro answers_delete [OF assms(7) _ assms(1)])
      (use assms(2,6) in \<open>auto simp: setDesktop_def Let_def delete_property_def\<close>)
  then show ?thesis
    by (simp add: update_desktop [OF assms(3)] store_desktop_def get_value_reply_def True)
next
  case False
  let ?v = "if d = OnAllDesktops then 0xffffffff else to_u32 (d - 1)"
  have "get_value_reply (serve (wm_property q NET_WM_DESKTOP XCB_ATOM_CARDINAL 1)) XCB_ATOM_CARDINAL 0
      = (?v, True)"
    by (rule single_value [OF assms(7) _ assms(1)])
      (use assms(2,6) False in \<open>auto simp: setDesktop_def Let_def change_property_def\<close>)
  then show ?thesis
    using desktop_word [OF assms(4,5) False]
    by (simp add: update_desktop [OF assms(3)] store_desktop_def)
qed

lemma pid_roundtrip:
  assumes "same_window q p" "has (wi_properties q) WMPid" "int_range n"
    and "setPid n p = Some (p', out)" "answers serve out"
  shows "map_option wi_pid (update serve WMPid 0 q) = Some n"
proof -
  have "get_value_reply (serve (wm_property q NET_WM_PID XCB_ATOM_CARDINAL 1)) XCB_ATOM_CARDINAL 0
      = (to_u32 n, True)"
    by (rule single_value [OF assms(5) _ assms(1)])
      (use assms(4) in \<open>auto simp: setPid_def Let_def change_property_def split: if_splits\<close>)
  then show ?thesis
    by (simp add: update_pid [OF assms(2)] store_pid_def assms(3))
qed

lemma user_time_roundtrip:
  assumes "same_window q p" "has (wi_properties2 q) WM2UserTime"
    and "setUserTime t p = Some (p', out)" "answers serve out"
  shows "map_option wi_user_time (update serve 0 WM2UserTime q) = Some t"
proof -
  have "get_value_reply (serve (wm_property q NET_WM_USER_TIME XCB_ATOM_CARDINAL 1)) XCB_ATOM_CARDINAL 0
      = (t, True)"
    by (rule single_value [OF assms(4) _ assms(1)])
      (use assms(3) in \<open>auto simp: setUserTime_def Let_def change_property_def split: if_splits\<close>)
  then show ?thesis
    by (simp add: update_user_time [OF assms(2)] store_user_time_def)
qed

text \<open>Struts, desktops, process ids and times survive the way through the server: a client that sets
  them and an info of the same window that reads them agree, for all numbers of 32 bits; a desktop of
  0 is no desktop and all desktops are kept apart from the numbered ones.\<close>

theorem numbers_survive_the_server:
  assumes "same_window q p" "\<not> wi_mapping_state_dirty p"
    and "has (wi_properties q) WMStrut" "has (wi_properties2 q) WM2ExtendedStrut"
    and "has (wi_properties q) WMDesktop" "has (wi_properties q) WMPid"
    and "has (wi_properties2 q) WM2UserTime" "has (wi_properties q) WMFrameExtents"
    and "strut_ok s" "extended_strut_ok es" "int_range d" "- 1 \<le> d" "int_range n"
  shows "(\<forall>p' out. setStrut s p = Some (p', out) \<and> answers serve out
        \<longrightarrow> map_option wi_strut (update serve WMStrut 0 q) = Some s)
    \<and> (\<forall>p' out. setExtendedStrut es p = Some (p', out) \<and> answers serve out
        \<longrightarrow> map_option wi_extended_strut (update serve 0 WM2ExtendedStrut q) = Some es)
    \<and> (\<forall>p' out. setFrameExtents s p = (p', out) \<and> answers serve out
        \<longrightarrow> map_option wi_frame_strut (update serve WMFrameExtents 0 q) = Some s)
    \<and> (\<forall>p' out. setDesktop serve0 d p = Some (p', out) \<and> answers serve out
        \<longrightarrow> map_option wi_desktop (update serve WMDesktop 0 q) = Some d)
    \<and> (\<forall>p' out. setPid n p = Some (p', out) \<and> answers serve out
        \<longrightarrow> map_option wi_pid (update serve WMPid 0 q) = Some n)
    \<and> (\<forall>p' out. setUserTime t p = Some (p', out) \<and> answers serve out
        \<longrightarrow> map_option wi_user_time (update serve 0 WM2UserTime q) = Some t)"
  using strut_roundtrip [OF assms(1,3,9)] extended_strut_roundtrip [OF assms(1,4,10)]
    frame_extents_roundtrip [OF assms(1,8,9)] desktop_roundtrip [OF assms(1,2,5,11,12)]
    pid_roundtrip [OF assms(1,6,13)] user_time_roundtrip [OF assms(1,7)]
  by (intro conjI allI impI; elim conjE) simp_all

lemma numbers_survive_the_server_witness:
  "map_option wi_desktop
     (update (serve_outputs [change_property (example_info Role_Client) NET_WM_DESKTOP XCB_ATOM_CARDINAL
         (Longs [2])]) WMDesktop 0 (example_info Role_WindowManager)) = Some 3"
proof -
  let ?p = "example_info Role_Client"
  let ?q = "example_info Role_WindowManager"
  have nz: "WMStrut \<noteq> 0" "WMDesktop \<noteq> 0" "WMPid \<noteq> 0" "WMFrameExtents \<noteq> 0"
    by (simp_all add: property_flags)
  have clean: "\<not> wi_mapping_state_dirty ?p" by (simp add: example_info_def)
  have ok: "strut_ok strut_default" "extended_strut_ok extended_strut_default" "int_range 3"
      "- 1 \<le> (3 :: int)" "int_range 0"
    by (simp_all add: strut_ok_def strut_default_def extended_strut_ok_def extended_strut_default_def
        int_range_def)
  have set: "setDesktop (\<lambda>r. None) 3 ?p = Some (?p\<lparr>wi_desktop := 3\<rparr>,
      [change_property ?p NET_WM_DESKTOP XCB_ATOM_CARDINAL (Longs [2])])"
    by (simp add: setDesktop_def clean change_property_def OnAllDesktops_def to_u32_def)
  from numbers_survive_the_server [OF example_same_window clean example_properties [OF nz(1)]
      example_properties2(2) example_properties [OF nz(2)] example_properties [OF nz(3)]
      example_properties2(3) example_properties [OF nz(4)] ok,
      where serve = "serve_outputs [change_property ?p NET_WM_DESKTOP XCB_ATOM_CARDINAL (Longs [2])]"
        and ?serve0.0 = "\<lambda>r. None" and t = 0]
  show ?thesis using set answers_single by blast
qed

lemma window_type_decoded:
  assumes "interned atoms"
  shows "\<exists>ts. store_types_loop atoms (map atoms (window_type_atoms ty)) 0 [wt_unknown]
    = (if ty = wt_unknown then wt_normal else ty) # ts"
  using assms by (cases ty) (simp_all add: type_of_atom_def rarray_set_def rarray_grow_def)

lemma bytes_fit: "length s \<le> 400000 \<Longrightarrow> fits (Bytes s) MAX_PROP_SIZE"
  by (simp add: fits_def MAX_PROP_SIZE_def)

text \<open>A name a client sets is the name others read (the empty name is no name), and of a window type
  that is set, readers that support it find this type and not its fallback; the unknown type is read
  as the normal one.\<close>

theorem name_and_type_survive_the_server:
  assumes "same_window q p" "interned (wi_atoms p)" "wi_role p = Role_Client"
    and "has (wi_properties q) WMName" "has (wi_properties q) WMWindowType"
    and "0 \<notin> set name" "length name \<le> 400000"
    and "win_setName (Some name) p = Some (p', out)" "answers serve out"
    and "setWindowType ty p = Some (p'', out')" "answers serve' out'"
  shows "map_option wi_name (update serve WMName 0 q) = Some (if name = [] then None else Some name)
    \<and> (\<exists>q'. update serve' WMWindowType 0 q = Some q' \<and> wi_has_net_support q'
          \<and> (\<forall>msk. type_matches_mask (if ty = wt_unknown then wt_normal else ty) msk
                \<longrightarrow> windowType q' msk = (if ty = wt_unknown then wt_normal else ty)))"
proof -
  let ?utf8 = "wi_atoms q UTF8_STRING" and ?t = "if ty = wt_unknown then wt_normal else ty"
  have out: "out = [name_output p NET_WM_NAME name]"
    using assms(3,6,8) by (auto simp: win_setName_def nstrdup_def name_output_def change_property_def
        delete_property_def Let_def)
  have "string_of_reply (serve (wm_property q NET_WM_NAME ?utf8 MAX_PROP_SIZE)) ?utf8
      = (if name = [] then None else Some name)"
  proof (cases "name = []")
    case True
    then have "serve (wm_property q NET_WM_NAME ?utf8 MAX_PROP_SIZE)
        = Some \<lparr>reply_type = 0, reply_data = No_Data\<rparr>"
      by (intro answers_delete [OF assms(9) _ assms(1)]) (simp add: out name_output_def)
    then show ?thesis by (simp add: string_of_reply_def get_string_reply_def True)
  next
    case False
    then have "serve (wm_property q NET_WM_NAME ?utf8 MAX_PROP_SIZE)
        = Some \<lparr>reply_type = ?utf8, reply_data = Bytes name\<rparr>"
      using assms(1) by (intro answers_change [OF assms(9) _ assms(1)] bytes_fit assms(7))
        (simp add: out name_output_def same_window_def)
    then show ?thesis
      using False assms(6) by (simp add: string_of_reply_def Let_def)
  qed
  moreover have "out' = [change_property p NET_WM_WINDOW_TYPE XCB_ATOM_ATOM
      (Longs (map (wi_atoms p) (window_type_atoms ty)))]"
    using assms(3,10) by (auto simp: setWindowType_def)
  then have reply: "serve' (wm_property q NET_WM_WINDOW_TYPE XCB_ATOM_ATOM 2048)
      = Some \<lparr>reply_type = XCB_ATOM_ATOM, reply_data = Longs (map (wi_atoms p) (window_type_atoms ty))\<rparr>"
    by (intro answers_change [OF assms(11) _ assms(1)]) (simp, (cases ty; simp add: fits_def))
  obtain ts where "store_types_loop (wi_atoms p) (map (wi_atoms p) (window_type_atoms ty)) 0 [wt_unknown]
      = ?t # ts"
    using window_type_decoded [OF assms(2)] by blast
  moreover have "window_type_atoms ty \<noteq> []" by (cases ty) simp_all
  moreover have "wi_atoms q = wi_atoms p" using assms(1) by (simp add: same_window_def)
  ultimately show ?thesis
    by (simp add: update_name [OF assms(4)] store_name_def update_window_type [OF assms(5)] reply
        store_window_type_def Let_def rarray_reset_def rarray_set_def rarray_grow_def windowType_def)
qed

lemma name_and_type_survive_the_server_witness:
  "map_option wi_name
     (update (serve_outputs [change_property (example_info Role_Client) NET_WM_NAME
         (wi_atoms (example_info Role_Client) UTF8_STRING) (Bytes [104, 105])])
       WMName 0 (example_info Role_WindowManager)) = Some (Some [104, 105])"
proof -
  let ?p = "example_info Role_Client"
  have role: "wi_role ?p = Role_Client" by (simp add: example_info_def win_info_init_def)
  have nz: "WMName \<noteq> 0" "WMWindowType \<noteq> 0" by (simp_all add: property_flags)
  have name: "0 \<notin> set [104, 105 :: byte]" "length [104, 105 :: byte] \<le> 400000" by simp_all
  have set: "win_setName (Some [104, 105]) ?p = Some (?p\<lparr>wi_name := Some [104, 105]\<rparr>,
      [change_property ?p NET_WM_NAME (wi_atoms ?p UTF8_STRING) (Bytes [104, 105])])"
    by (simp add: win_setName_def role nstrdup_def c_str_def name_output_def change_property_def)
  have ty: "setWindowType wt_dock ?p = Some (?p, [change_property ?p NET_WM_WINDOW_TYPE XCB_ATOM_ATOM
      (Longs (map (wi_atoms ?p) (window_type_atoms wt_dock)))])"
    by (simp add: setWindowType_def role)
  from name_and_type_survive_the_server [OF example_same_window example_interned role
      example_properties [OF nz(1)] example_properties [OF nz(2)] name set answers_single ty answers_single]
  show ?thesis by simp
qed

lemma take_rarray_set:
  assumes "n \<le> length xs"
  shows "take (Suc n) ((rarray_set z xs n x)[n := y]) = take n xs @ [y]"
proof (cases "n = length xs")
  case False
  then have "n < length xs" using assms by simp
  then show ?thesis
    by (simp add: take_update_swap take_Suc_conv_app_nth list_update_append)
qed simp

text \<open>C40. The icons of a client are what others read: after setIcon, a reader gets exactly the icons the
  client counts, the new one at the end (or alone, when it replaces the others), with all pixels.\<close>

theorem icons_survive_the_server:
  assumes "same_window q p" "has (wi_properties q) WMIcon"
    and "icon_ok icon" "wi_icon_count p \<le> length (wi_icons p)"
    and "replace \<or> (\<forall>i\<in>set (take (wi_icon_count p) (wi_icons p)). icon_ok i)"
    and "setIcon icon replace p = Some (p', out)" "answers serve out"
    and "length (icons_words (take (wi_icon_count p') (wi_icons p'))) < 2 ^ 30"
  shows "take (wi_icon_count p') (wi_icons p')
        = (if replace then [] else take (wi_icon_count p) (wi_icons p)) @ [icon]
    \<and> map_option (\<lambda>q'. (wi_icons q', wi_icon_count q')) (update serve WMIcon 0 q)
        = Some (take (wi_icon_count p') (wi_icons p'), wi_icon_count p')"
proof -
  let ?base = "if replace then map (\<lambda>i. icon_default) (wi_icons p) else wi_icons p"
  let ?n = "if replace then 0 else wi_icon_count p"
  let ?is = "(if replace then [] else take (wi_icon_count p) (wi_icons p)) @ [icon]"
  obtain d where d: "icon_data icon = Some d" "icon_pixels icon = Some d"
    using assms(3) by (auto simp: icon_pixels_ok elim: icon_words_ok)
  then have same: "icon\<lparr>icon_data := Some d\<rparr> = icon" by simp
  have n: "?n \<le> length ?base" using assms(4) by simp
  have "take (Suc ?n) ((rarray_set icon_default ?base ?n icon)[?n := icon]) = take ?n ?base @ [icon]"
    by (rule take_rarray_set [OF n])
  then have icons: "take (Suc ?n) ((rarray_set icon_default ?base ?n icon)[?n := icon]) = ?is"
    by (simp split: if_splits)
  have ok: "\<forall>i\<in>set ?is. icon_ok i" using assms(3,5) by auto
  have p': "wi_icons p' = (rarray_set icon_default ?base ?n icon)[?n := icon]"
      "wi_icon_count p' = Suc ?n"
    and out: "out = [change_property p NET_WM_ICON XCB_ATOM_CARDINAL (Longs (icons_words ?is))]"
    using assms(6) those_icon_words [OF ok]
    unfolding setIcon_def setIconInternal_def
    by (auto simp: Let_def d same icons change_property_def split: if_split_asm Option.bind_split_asm)
  have taken: "take (wi_icon_count p') (wi_icons p') = ?is"
    unfolding p' by (rule icons)
  have "wi_icon_count p' = length ?is"
    unfolding p' using assms(4) by simp
  moreover have "serve (icon_request q)
      = Some \<lparr>reply_type = XCB_ATOM_CARDINAL, reply_data = Longs (icons_words ?is)\<rparr>"
    unfolding icon_request_def
    by (rule answers_change [OF assms(7) _ assms(1)])
      (use assms(8) in \<open>simp_all add: out fits_def taken\<close>)
  moreover have "readIcon (Some \<lparr>reply_type = XCB_ATOM_CARDINAL, reply_data = Longs (icons_words ?is)\<rparr>) old
      = Some (?is, length ?is)" for old
    using assms(8) ok unfolding taken by (intro readIcon_words) simp_all
  ultimately show ?thesis
    unfolding taken by (simp add: update_icon [OF assms(2)] store_icon_def)
qed

definition example_icon :: net_icon where
  "example_icon = \<lparr>icon_size = \<lparr>sz_width = 1, sz_height = 1\<rparr>, icon_data = Some [5]\<rparr>"

lemma icons_survive_the_server_witness:
  "map_option (\<lambda>q'. (wi_icons q', wi_icon_count q'))
     (update (serve_outputs [change_property (example_info Role_Client) NET_WM_ICON XCB_ATOM_CARDINAL
         (Longs [1, 1, 5])]) WMIcon 0 (example_info Role_WindowManager)) = Some ([example_icon], 1)"
proof -
  let ?p = "example_info Role_Client"
  have p: "wi_role ?p = Role_Client" "wi_icons ?p = []" "wi_icon_count ?p = 0"
    by (simp_all add: example_info_def win_info_init_def)
  have icon: "icon_ok example_icon" by (simp add: icon_ok_def example_icon_def int_range_def)
  have "WMIcon \<noteq> 0" by (simp add: property_flags)
  note follows = example_properties [OF this]
  have same: "example_icon\<lparr>icon_data := Some [5]\<rparr> = example_icon" "icon_pixels example_icon = Some [5]"
      "icon_words example_icon = Some [1, 1, 5]" "icons_words [example_icon] = [1, 1, 5]"
      "the (icon_data example_icon) = [5]"
    by (simp_all add: example_icon_def icon_pixels_def icon_words_def to_u32_def int_range_def)
  have set: "setIcon example_icon True ?p
      = Some (?p\<lparr>wi_icons := [example_icon], wi_icon_count := 1, wi_icon_sizes := None\<rparr>,
          [change_property ?p NET_WM_ICON XCB_ATOM_CARDINAL (Longs [1, 1, 5])])"
    by (simp add: setIcon_def setIconInternal_def p same rarray_set_def rarray_grow_def
        change_property_def)
  show ?thesis
    using icons_survive_the_server [OF example_same_window follows icon _ _ set answers_single]
    by (simp add: p same)
qed



section \<open>Types and cookies\<close>



text \<open>The cookies are in the order of the replies: an update that does not ask for the activities does
  the same as one that reads every dirty property directly.\<close>

theorem update_reads_each_property:
  assumes "\<not> has (flag_and dirty2 (wi_properties2 p)) WM2Activities"
  shows "update serve dirty dirty2 p = direct_update serve dirty dirty2 p"
  using assms by (rule update_direct)

lemma update_reads_each_property_witness:
  "update serve dirty dirty2 (example_info role) = direct_update serve dirty dirty2 (example_info role)"
proof -
  have "\<not> has (flag_and dirty2 (wi_properties2 (example_info role))) WM2Activities"
    by (simp add: example_info_def win_info_init_def flag_defs and.assoc)
  then show ?thesis by (rule update_reads_each_property)
qed

text \<open>The request for the activities is sent and its reply is never taken, so every reply after it goes
  to the wrong property: an update of the activities and of the blocking of compositing takes the
  activities for the first property of the blocking and the first for the second.\<close>

theorem activities_shift_the_replies:
  "update serve 0 (flag_or WM2Activities WM2BlockCompositing)
     (p\<lparr>wi_properties2 := flag_or WM2Activities WM2BlockCompositing\<rparr>)
   = Some (store_block_compositing
       (serve (wm_property p KDE_NET_WM_ACTIVITIES XCB_ATOM_STRING MAX_PROP_SIZE))
       (serve (wm_property p KDE_NET_WM_BLOCK_COMPOSITING XCB_ATOM_CARDINAL 1))
       (p\<lparr>wi_properties2 := flag_or WM2Activities WM2BlockCompositing\<rparr>))"
proof -
  have f: "flag_and v v = v" "dirty_of q 0 = 0" for v q
    by (simp_all add: flag_defs dirty_of_def Let_def)
  have sel: "wi_properties2 (p\<lparr>wi_properties2 := v\<rparr>) = v" "wi_window (p\<lparr>wi_properties2 := v\<rparr>) = wi_window p"
      "wi_atoms (p\<lparr>wi_properties2 := v\<rparr>) = wi_atoms p" for v
    by simp_all
  have none: "on_reply serve False st s = s" "on_two_replies serve False st' s = s" for st st' s
    by (simp_all add: on_reply_def on_two_replies_def case_prod_beta)
  have two: "on_two_replies serve True store (r1 # r2 # cookies, p)
      = (cookies, store (serve r1) (serve r2) p)" for store r1 r2 cookies p
    by (simp add: on_two_replies_def fetch_def)
  show ?thesis
    by (simp only: update_def Let_def sel f requests_before_icon_def requests_after_icon_def
        requests_of_client_def read_before_icon_def read_after_icon_def read_of_client_def read_icon_def
        has_or property_flags property2_flags has_push_push has_zero wm_hints_mask_def has_or_right
        rel_simps less_numeral_simps zero_less_numeral simp_thms ask_def if_True if_False append_Nil
        append_Cons none two bind.bind_lunit prod.case snd_conv wm_property_def)
qed

text \<open>The check of the icon data is made in 32 bits: an icon whose width and height have the product
  0xfffffffe passes it, and the copy of its pixels then runs out of the data.\<close>

theorem icon_size_overflow_reads_outside:
  assumes "w * h = 0xfffffffe" "length rest < 1000"
  shows "readIcon (Some \<lparr>reply_type = XCB_ATOM_CARDINAL, reply_data = Longs (w # h # x # rest)\<rparr>) icons = None"
proof -
  let ?data = "w # h # x # rest"
  obtain L where L: "length ?data = L" "3 \<le> L" "L < 2000" using assms(2) by simp
  have "unat (of_nat L :: u32) = L" using L by (intro unat_u32) simp
  then have "(0 :: u32) < of_nat L - 2"
    using L by (simp add: word_less_nat_alt unat_sub word_le_nat_alt)
  moreover have "(0 :: u32) + 2 + w * h = 0" "unat (w * h * 4) div 4 = 1073741822"
    by (simp_all add: assms(1))
  ultimately have "read_icon_loop ?data 0 0 [] 0 = None"
    using L by (subst read_icon_loop.simps) (simp add: Let_def L(1) [simplified])
  then show ?thesis
    by (simp add: readIcon_def rarray_reset_def)
qed

lemma icon_size_overflow_reads_outside_witness:
  "readIcon (Some \<lparr>reply_type = XCB_ATOM_CARDINAL, reply_data = Longs [2, 0x7fffffff, 0]\<rparr>) [] = None"
  by (rule icon_size_overflow_reads_outside) simp_all

section \<open>The window manager's side\<close>

lemma has_without: "n \<noteq> k \<Longrightarrow> has (without m (push_bit k 1)) (push_bit n 1) \<longleftrightarrow> has m (push_bit n 1)"
  by (simp only: has_push_bit without_bit bit_flag) auto

lemma has_and: "has (flag_and v w) (push_bit n 1) \<longleftrightarrow> has v (push_bit n 1) \<and> has w (push_bit n 1)"
  by (simp only: has_push_bit flag_and_def bit_and_iff)

lemma without_or: "without (without (flag_or m (flag_or a b)) a) b = without (without m a) b"
  by (rule bit_word_eqI) (auto simp: flag_defs bit_simps)

definition one_if :: "bool \<Rightarrow> 'a \<Rightarrow> 'a list" where
  "one_if b x = (if b then [x] else [])"

lemma one_if_simps [simp]:
  "set (one_if b x) = {y. b \<and> y = x}" "distinct (one_if b x)"
  "one_if True x = [x]" "one_if False x = []"
  by (cases b; simp add: one_if_def)+

text \<open>The operations with the flags of the mask; m is the part for the maximization.\<close>

definition max_part :: "flag \<Rightarrow> flag \<Rightarrow> flag \<Rightarrow> state_action list" where
  "max_part mm state msk =
     (if flag_and msk Max_state = Max_state then [Set_Maximize (has state MaxVert) (has state MaxHoriz)]
      else if has msk MaxVert then [Set_Maximize (has state MaxVert) (has mm maximize_horizontal)]
      else if has msk MaxHoriz then [Set_Maximize (has mm maximize_vertical) (has state MaxHoriz)]
      else [])"

lemma max_part_shape: "\<exists>b x y. max_part mm state msk = one_if b (Set_Maximize x y)"
proof -
  have "max_part mm state msk = [] \<or> (\<exists>x y. max_part mm state msk = [Set_Maximize x y])"
    by (auto simp: max_part_def)
  then show ?thesis by (metis one_if_simps(3,4))
qed

lemma changeState_list:
  "\<exists>b x y. changeState mm state msk =
     one_if (has msk FullScreen \<and> \<not> has state FullScreen) (Set_FullScreen False)
     @ one_if b (Set_Maximize x y)
     @ one_if (has msk KeepAbove) (Set_Keep_Above (has state KeepAbove))
     @ one_if (has msk KeepBelow) (Set_Keep_Below (has state KeepBelow))
     @ one_if (has msk SkipTaskbar) (Set_Skip_Taskbar (has state SkipTaskbar))
     @ one_if (has msk SkipPager) (Set_Skip_Pager (has state SkipPager))
     @ one_if (has msk SkipSwitcher) (Set_Skip_Switcher (has state SkipSwitcher))
     @ one_if (has msk DemandsAttention) (Set_Demands_Attention (has state DemandsAttention))
     @ one_if (has msk Modal) (Set_Modal (has state Modal))
     @ one_if (has msk FullScreen \<and> has state FullScreen) (Set_FullScreen True)"
proof -
  let ?m = "without (without msk Sticky) Hidden"
  have h: "has ?m FullScreen = has msk FullScreen" "has ?m KeepAbove = has msk KeepAbove"
    "has ?m KeepBelow = has msk KeepBelow" "has ?m SkipTaskbar = has msk SkipTaskbar"
    "has ?m SkipPager = has msk SkipPager" "has ?m SkipSwitcher = has msk SkipSwitcher"
    "has ?m DemandsAttention = has msk DemandsAttention" "has ?m Modal = has msk Modal"
    unfolding state_flags by (simp_all only: has_without rel_simps zero_neq_one one_neq_zero simp_thms)
  have s: "has (flag_and state ?m) f = (has state f \<and> has ?m f)"
    if "f \<in> {FullScreen, KeepAbove, KeepBelow, SkipTaskbar, SkipPager, SkipSwitcher, DemandsAttention, Modal}"
    for f
    using that unfolding state_flags by (elim insertE emptyE) (simp_all only: has_and)
  have act: "action_if (flag_and state ?m) ?m f act = one_if (has ?m f) (act (has state f))"
    if "f \<in> {FullScreen, KeepAbove, KeepBelow, SkipTaskbar, SkipPager, SkipSwitcher, DemandsAttention, Modal}"
    for f act
    using s [OF that] by (simp add: action_if_def one_if_def)
  obtain b x y where max: "max_part mm (flag_and state ?m) ?m = one_if b (Set_Maximize x y)"
    using max_part_shape by blast
  have "changeState mm state msk =
     one_if (has msk FullScreen \<and> \<not> has state FullScreen) (Set_FullScreen False)
     @ max_part mm (flag_and state ?m) ?m
     @ one_if (has msk KeepAbove) (Set_Keep_Above (has state KeepAbove))
     @ one_if (has msk KeepBelow) (Set_Keep_Below (has state KeepBelow))
     @ one_if (has msk SkipTaskbar) (Set_Skip_Taskbar (has state SkipTaskbar))
     @ one_if (has msk SkipPager) (Set_Skip_Pager (has state SkipPager))
     @ one_if (has msk SkipSwitcher) (Set_Skip_Switcher (has state SkipSwitcher))
     @ one_if (has msk DemandsAttention) (Set_Demands_Attention (has state DemandsAttention))
     @ one_if (has msk Modal) (Set_Modal (has state Modal))
     @ one_if (has msk FullScreen \<and> has state FullScreen) (Set_FullScreen True)"
    unfolding changeState_def Let_def max_part_def [symmetric]
    using s [of FullScreen]
    by (simp only: act h insert_iff simp_thms) (auto simp: one_if_def)
  then show ?thesis unfolding max by blast
qed

text \<open>A state change is carried out exactly for the flags of its mask: each operation of the window
  manager is started at most once and with the wished value, the sticky and hidden states start none,
  full screen is left before everything else and entered after everything else.\<close>

theorem changeState_follows_the_mask:
  fixes mm state msk :: flag
  shows "(\<forall>b. Set_Keep_Above b \<in> set (changeState mm state msk) \<longleftrightarrow> has msk KeepAbove \<and> b = has state KeepAbove)
    \<and> (\<forall>b. Set_Keep_Below b \<in> set (changeState mm state msk) \<longleftrightarrow> has msk KeepBelow \<and> b = has state KeepBelow)
    \<and> (\<forall>b. Set_Modal b \<in> set (changeState mm state msk) \<longleftrightarrow> has msk Modal \<and> b = has state Modal)
    \<and> (\<forall>b. Set_FullScreen b \<in> set (changeState mm state msk) \<longleftrightarrow> has msk FullScreen \<and> b = has state FullScreen)
    \<and> distinct (changeState mm state msk)
    \<and> (Set_FullScreen True \<in> set (changeState mm state msk) \<longrightarrow> last (changeState mm state msk) = Set_FullScreen True)
    \<and> (Set_FullScreen False \<in> set (changeState mm state msk) \<longrightarrow> hd (changeState mm state msk) = Set_FullScreen False)
    \<and> changeState mm state (flag_or msk (flag_or Sticky Hidden)) = changeState mm state msk"
proof -
  define actions where "actions = changeState mm state msk"
  obtain b x y where list: "actions =
     one_if (has msk FullScreen \<and> \<not> has state FullScreen) (Set_FullScreen False)
     @ one_if b (Set_Maximize x y)
     @ one_if (has msk KeepAbove) (Set_Keep_Above (has state KeepAbove))
     @ one_if (has msk KeepBelow) (Set_Keep_Below (has state KeepBelow))
     @ one_if (has msk SkipTaskbar) (Set_Skip_Taskbar (has state SkipTaskbar))
     @ one_if (has msk SkipPager) (Set_Skip_Pager (has state SkipPager))
     @ one_if (has msk SkipSwitcher) (Set_Skip_Switcher (has state SkipSwitcher))
     @ one_if (has msk DemandsAttention) (Set_Demands_Attention (has state DemandsAttention))
     @ one_if (has msk Modal) (Set_Modal (has state Modal))
     @ one_if (has msk FullScreen \<and> has state FullScreen) (Set_FullScreen True)"
    using changeState_list unfolding actions_def by blast
  have members: "(\<forall>b. Set_Keep_Above b \<in> set actions \<longleftrightarrow> has msk KeepAbove \<and> b = has state KeepAbove)
    \<and> (\<forall>b. Set_Keep_Below b \<in> set actions \<longleftrightarrow> has msk KeepBelow \<and> b = has state KeepBelow)
    \<and> (\<forall>b. Set_Modal b \<in> set actions \<longleftrightarrow> has msk Modal \<and> b = has state Modal)
    \<and> (\<forall>b. Set_FullScreen b \<in> set actions \<longleftrightarrow> has msk FullScreen \<and> b = has state FullScreen)"
    unfolding list by auto
  moreover have "distinct actions" unfolding list by auto
  moreover have "Set_FullScreen True \<in> set actions \<longrightarrow> last actions = Set_FullScreen True"
    using members unfolding list by auto
  moreover have "Set_FullScreen False \<in> set actions \<longrightarrow> hd actions = Set_FullScreen False"
    using members unfolding list by auto
  moreover have "changeState mm state (flag_or msk (flag_or Sticky Hidden)) = actions"
    unfolding actions_def changeState_def without_or Let_def ..
  ultimately show ?thesis unfolding actions_def by (elim conjE, intro conjI)
qed

lemma changeState_follows_the_mask_witness:
  "last (changeState 0 FullScreen (flag_or FullScreen Modal)) = Set_FullScreen True"
proof -
  have "has (flag_or FullScreen Modal) FullScreen" "has FullScreen FullScreen"
    by (simp_all add: flag_defs state_flags)
  then show ?thesis
    using changeState_follows_the_mask [of 0 FullScreen "flag_or FullScreen Modal"] by blast
qed

end
