(* ===== verification/Root_Info.thy ===== *)
theory Root_Info
  imports Win_Info
begin

text \<open>
  The state of como/win/x11/net/root_info.cpp and the operations that write: what the window manager
  keeps in the properties of the root window and what a client asks for with messages to it.

  None is a failed assert (an operation of the window manager called by a client), the allocation of
  an array of negative length, or the use of a null string. An array of windows is None where the
  pointer is null.
\<close>

record root_info =
  ri_atoms :: atom_table
  ri_role :: net_role
  ri_rootSize :: net_size
  ri_root :: u32
  ri_supportwindow :: u32
  ri_name :: cstring
  ri_viewport :: "net_point list"
  ri_workarea :: "net_rect list"
  ri_geometry :: net_size
  ri_active :: u32
  ri_clients :: "u32 list option"
  ri_stacking :: "u32 list option"
  ri_virtual_roots :: "u32 list option"
  ri_desktop_names :: "cstring list"
  ri_number_of_desktops :: int
  ri_current_desktop :: int
  ri_clients_count :: nat
  ri_stacking_count :: nat
  ri_virtual_roots_count :: nat
  ri_showing_desktop :: bool
  ri_desktop_layout_orientation :: int
  ri_desktop_layout_corner :: int
  ri_desktop_layout_columns :: int
  ri_desktop_layout_rows :: int
  ri_properties :: flag
  ri_properties2 :: flag
  ri_windowTypes :: flag
  ri_states :: flag
  ri_actions :: flag
  ri_clientProperties :: flag
  ri_clientProperties2 :: flag

type_synonym root_effect = "(root_info \<times> x_out list) option"

definition root_change :: "root_info \<Rightarrow> kws_atom \<Rightarrow> u32 \<Rightarrow> property_data \<Rightarrow> x_out" where
  "root_change p a ty data = Change_Property (ri_root p) (ri_atoms p a) ty data"

text \<open>The messages to the root window, about the root window itself or another one.\<close>

definition root_message :: "root_info \<Rightarrow> u32 \<Rightarrow> kws_atom \<Rightarrow> u32 list \<Rightarrow> x_out" where
  "root_message p window a data =
     send_client_message netwm_sendevent_mask (ri_root p) window (ri_atoms p a) data"

section \<open>Lists of windows\<close>

definition nwindup :: "u32 list \<Rightarrow> u32 list option" where
  "nwindup ws = (if ws = [] then None else Some ws)"

definition setClientList :: "u32 list \<Rightarrow> root_info \<Rightarrow> root_effect" where
  "setClientList windows p =
     (if ri_role p \<noteq> Role_WindowManager then None
      else
        let p = p\<lparr>ri_clients_count := length windows, ri_clients := nwindup windows\<rparr>
        in Some (p, [root_change p NET_CLIENT_LIST XCB_ATOM_WINDOW (Longs windows)]))"

definition setClientListStacking :: "u32 list \<Rightarrow> root_info \<Rightarrow> root_effect" where
  "setClientListStacking windows p =
     (if ri_role p \<noteq> Role_WindowManager then None
      else
        let p = p\<lparr>ri_stacking_count := length windows, ri_stacking := nwindup windows\<rparr>
        in Some (p, [root_change p NET_CLIENT_LIST_STACKING XCB_ATOM_WINDOW (Longs windows)]))"

definition setVirtualRoots :: "u32 list \<Rightarrow> root_info \<Rightarrow> root_effect" where
  "setVirtualRoots windows p =
     (if ri_role p \<noteq> Role_WindowManager then None
      else
        let p = p\<lparr>ri_virtual_roots_count := length windows, ri_virtual_roots := nwindup windows\<rparr>
        in Some (p, [root_change p NET_VIRTUAL_ROOTS XCB_ATOM_WINDOW (Longs windows)]))"

section \<open>Desktops\<close>

definition setNumberOfDesktops :: "int \<Rightarrow> root_info \<Rightarrow> root_info \<times> x_out list" where
  "setNumberOfDesktops numberOfDesktops p =
     (if ri_role p = Role_WindowManager then
        let p = p\<lparr>ri_number_of_desktops := numberOfDesktops\<rparr>
        in (p, [root_change p NET_NUMBER_OF_DESKTOPS XCB_ATOM_CARDINAL (Longs [to_u32 numberOfDesktops])])
      else (p, [root_message p (ri_root p) NET_NUMBER_OF_DESKTOPS [to_u32 numberOfDesktops, 0, 0, 0, 0]]))"

definition setCurrentDesktop :: "int \<Rightarrow> root_info \<Rightarrow> root_info \<times> x_out list" where
  "setCurrentDesktop desktop p =
     (if ri_role p = Role_WindowManager then
        let p = p\<lparr>ri_current_desktop := desktop\<rparr>
        in (p, [root_change p NET_CURRENT_DESKTOP XCB_ATOM_CARDINAL (Longs [to_u32 (desktop - 1)])])
      else (p, [root_message p (ri_root p) NET_CURRENT_DESKTOP [to_u32 (desktop - 1), 0, 0, 0, 0]]))"

text \<open>The names are written one after the other, each with its zero byte; the array grows to the number
  of desktops.\<close>

definition name_bytes :: "cstring \<Rightarrow> byte list" where
  "name_bytes s = (case s of None \<Rightarrow> [0] | Some bs \<Rightarrow> bs @ [0])"

definition setDesktopName :: "int \<Rightarrow> cstring \<Rightarrow> root_info \<Rightarrow> root_info \<times> x_out list" where
  "setDesktopName desktop desktopName p =
     (if desktop < 1 then (p, [])
      else
        let names = rarray_set None (ri_desktop_names p) (nat (desktop - 1)) (nstrdup desktopName);
            num = (if ri_number_of_desktops p > int (length names) then nat (ri_number_of_desktops p)
                   else length names);
            names = (if num = 0 then names else rarray_grow None (num - 1) names);
            p = p\<lparr>ri_desktop_names := names\<rparr>
        in (p, [root_change p NET_DESKTOP_NAMES (ri_atoms p UTF8_STRING)
                  (Bytes (concat (map name_bytes (take num names))))]))"

definition setDesktopGeometry :: "net_size \<Rightarrow> root_info \<Rightarrow> root_info \<times> x_out list" where
  "setDesktopGeometry geometry p =
     (let data = [to_u32 (sz_width geometry), to_u32 (sz_height geometry)]
      in if ri_role p = Role_WindowManager then
           let p = p\<lparr>ri_geometry := geometry\<rparr>
           in (p, [root_change p NET_DESKTOP_GEOMETRY XCB_ATOM_CARDINAL (Longs data)])
         else (p, [root_message p (ri_root p) NET_DESKTOP_GEOMETRY (data @ [0, 0, 0])]))"

text \<open>The first n elements of an array that grows when it is too short.\<close>

definition grown :: "'a \<Rightarrow> nat \<Rightarrow> 'a list \<Rightarrow> 'a list" where
  "grown z n d = (if n = 0 then d else rarray_grow z (n - 1) d)"

definition point_words :: "net_point \<Rightarrow> u32 list" where
  "point_words pt = [to_u32 (pt_x pt), to_u32 (pt_y pt)]"

definition setDesktopViewport :: "int \<Rightarrow> net_point \<Rightarrow> root_info \<Rightarrow> root_effect" where
  "setDesktopViewport desktop viewport p =
     (if desktop < 1 then Some (p, [])
      else if ri_role p = Role_WindowManager then
        if ri_number_of_desktops p < 0 then None
        else
          let n = nat (ri_number_of_desktops p);
              vs = grown point_default n
                     (rarray_set point_default (ri_viewport p) (nat (desktop - 1)) viewport);
              p = p\<lparr>ri_viewport := vs\<rparr>
          in Some (p, [root_change p NET_DESKTOP_VIEWPORT XCB_ATOM_CARDINAL
                         (Longs (concat (map point_words (take n vs))))])
      else Some (p, [root_message p (ri_root p) NET_DESKTOP_VIEWPORT (point_words viewport @ [0, 0, 0])]))"

definition rect_words :: "net_rect \<Rightarrow> u32 list" where
  "rect_words r = [to_u32 (pt_x (rect_pos r)), to_u32 (pt_y (rect_pos r)),
     to_u32 (sz_width (rect_size r)), to_u32 (sz_height (rect_size r))]"

definition setWorkArea :: "int \<Rightarrow> net_rect \<Rightarrow> root_info \<Rightarrow> root_effect" where
  "setWorkArea desktop workarea p =
     (if ri_role p \<noteq> Role_WindowManager then None
      else if desktop < 1 then Some (p, [])
      else if ri_number_of_desktops p < 0 then None
      else
        let n = nat (ri_number_of_desktops p);
            was = grown rect_default n
                    (rarray_set rect_default (ri_workarea p) (nat (desktop - 1)) workarea);
            p = p\<lparr>ri_workarea := was\<rparr>
        in Some (p, [root_change p NET_WORKAREA XCB_ATOM_CARDINAL
                       (Longs (concat (map rect_words (take n was))))]))"

definition setDesktopLayout :: "int \<Rightarrow> int \<Rightarrow> int \<Rightarrow> int \<Rightarrow> root_info \<Rightarrow> root_info \<times> x_out list" where
  "setDesktopLayout orientation columns rows corner p =
     (let p = p\<lparr>ri_desktop_layout_orientation := orientation, ri_desktop_layout_columns := columns,
               ri_desktop_layout_rows := rows, ri_desktop_layout_corner := corner\<rparr>
      in (p, [root_change p NET_DESKTOP_LAYOUT XCB_ATOM_CARDINAL
                (Longs [to_u32 orientation, to_u32 columns, to_u32 rows, to_u32 corner])]))"

definition setShowingDesktop :: "bool \<Rightarrow> root_info \<Rightarrow> root_info \<times> x_out list" where
  "setShowingDesktop showing p =
     (let d = (if showing then 1 else 0)
      in if ri_role p = Role_WindowManager then
           let p = p\<lparr>ri_showing_desktop := showing\<rparr>
           in (p, [root_change p NET_SHOWING_DESKTOP XCB_ATOM_CARDINAL (Longs [d])])
         else (p, [root_message p (ri_root p) NET_SHOWING_DESKTOP [d, 0, 0, 0, 0]]))"

section \<open>Requests\<close>

definition setActiveWindow_from ::
    "u32 \<Rightarrow> int \<Rightarrow> u32 \<Rightarrow> u32 \<Rightarrow> root_info \<Rightarrow> root_info \<times> x_out list" where
  "setActiveWindow_from window src timestamp active_window p =
     (let p = p\<lparr>ri_active := window\<rparr>
      in if ri_role p = Role_WindowManager
         then (p, [root_change p NET_ACTIVE_WINDOW XCB_ATOM_WINDOW (Longs [window])])
         else (p, [root_message p window NET_ACTIVE_WINDOW [to_u32 src, timestamp, active_window, 0, 0]]))"

text \<open>The time of the last user action comes from Qt.\<close>

definition setActiveWindow :: "u32 \<Rightarrow> u32 \<Rightarrow> root_info \<Rightarrow> root_info \<times> x_out list" where
  "setActiveWindow appUserTime window p = setActiveWindow_from window FromUnknown appUserTime 0 p"

definition closeWindowRequest :: "u32 \<Rightarrow> root_info \<Rightarrow> x_out list" where
  "closeWindowRequest window p = [root_message p window NET_CLOSE_WINDOW [0, 0, 0, 0, 0]]"

definition moveResizeRequest :: "u32 \<Rightarrow> int \<Rightarrow> int \<Rightarrow> int \<Rightarrow> byte \<Rightarrow> int \<Rightarrow> root_info \<Rightarrow> x_out list" where
  "moveResizeRequest window x_root y_root direction button source p =
     [root_message p window NET_WM_MOVERESIZE
        [to_u32 x_root, to_u32 y_root, to_u32 direction, ucast button, to_u32 source]]"

definition moveResizeWindowRequest ::
    "u32 \<Rightarrow> int \<Rightarrow> int \<Rightarrow> int \<Rightarrow> int \<Rightarrow> int \<Rightarrow> root_info \<Rightarrow> x_out list" where
  "moveResizeWindowRequest window fl x y width height p =
     [root_message p window NET_MOVERESIZE_WINDOW
        [to_u32 fl, to_u32 x, to_u32 y, to_u32 width, to_u32 height]]"

definition showWindowMenuRequest :: "u32 \<Rightarrow> int \<Rightarrow> int \<Rightarrow> int \<Rightarrow> root_info \<Rightarrow> x_out list" where
  "showWindowMenuRequest window device_id x_root y_root p =
     [root_message p window GTK_SHOW_WINDOW_MENU
        [to_u32 device_id, to_u32 x_root, to_u32 y_root, 0, 0]]"

definition restackRequest :: "u32 \<Rightarrow> int \<Rightarrow> u32 \<Rightarrow> int \<Rightarrow> u32 \<Rightarrow> root_info \<Rightarrow> x_out list" where
  "restackRequest window src sibling detail timestamp p =
     [root_message p window NET_RESTACK_WINDOW [to_u32 src, sibling, to_u32 detail, timestamp, 0]]"

text \<open>The ping goes to the window itself, without an event mask.\<close>

definition sendPing :: "u32 \<Rightarrow> u32 \<Rightarrow> root_info \<Rightarrow> x_out list option" where
  "sendPing window timestamp p =
     (if ri_role p \<noteq> Role_WindowManager then None
      else Some [send_client_message 0 window window (ri_atoms p WM_PROTOCOLS)
                   [ri_atoms p NET_WM_PING, timestamp, window, 0, 0]])"

section \<open>What is supported\<close>

definition support :: "bool \<Rightarrow> u32 \<Rightarrow> u32 list" where
  "support b a = (if b then [a] else [])"

definition supported_root_atoms :: "root_info \<Rightarrow> u32 list" where
  "supported_root_atoms p =
     support (has (ri_properties p) ClientList) (ri_atoms p NET_CLIENT_LIST)
     @ support (has (ri_properties p) ClientListStacking) (ri_atoms p NET_CLIENT_LIST_STACKING)
     @ support (has (ri_properties p) NumberOfDesktops) (ri_atoms p NET_NUMBER_OF_DESKTOPS)
     @ support (has (ri_properties p) DesktopGeometry) (ri_atoms p NET_DESKTOP_GEOMETRY)
     @ support (has (ri_properties p) DesktopViewport) (ri_atoms p NET_DESKTOP_VIEWPORT)
     @ support (has (ri_properties p) CurrentDesktop) (ri_atoms p NET_CURRENT_DESKTOP)
     @ support (has (ri_properties p) DesktopNames) (ri_atoms p NET_DESKTOP_NAMES)
     @ support (has (ri_properties p) ActiveWindow) (ri_atoms p NET_ACTIVE_WINDOW)
     @ support (has (ri_properties p) WorkArea) (ri_atoms p NET_WORKAREA)
     @ support (has (ri_properties p) VirtualRoots) (ri_atoms p NET_VIRTUAL_ROOTS)
     @ support (has (ri_properties2 p) WM2DesktopLayout) (ri_atoms p NET_DESKTOP_LAYOUT)
     @ support (has (ri_properties p) CloseWindow) (ri_atoms p NET_CLOSE_WINDOW)
     @ support (has (ri_properties2 p) WM2RestackWindow) (ri_atoms p NET_RESTACK_WINDOW)
     @ support (has (ri_properties2 p) WM2ShowingDesktop) (ri_atoms p NET_SHOWING_DESKTOP)
     @ support (has (ri_properties p) WMMoveResize) (ri_atoms p NET_WM_MOVERESIZE)
     @ support (has (ri_properties2 p) WM2MoveResizeWindow) (ri_atoms p NET_MOVERESIZE_WINDOW)
     @ support (has (ri_properties p) WMName) (ri_atoms p NET_WM_NAME)
     @ support (has (ri_properties p) WMVisibleName) (ri_atoms p NET_WM_VISIBLE_NAME)
     @ support (has (ri_properties p) WMIconName) (ri_atoms p NET_WM_ICON_NAME)
     @ support (has (ri_properties p) WMVisibleIconName) (ri_atoms p NET_WM_VISIBLE_ICON_NAME)
     @ support (has (ri_properties p) WMDesktop) (ri_atoms p NET_WM_DESKTOP)
     @ support (has (ri_properties p) WMWindowType) (ri_atoms p NET_WM_WINDOW_TYPE)"

definition supported_type_atoms :: "root_info \<Rightarrow> u32 list" where
  "supported_type_atoms p =
     support (has (ri_windowTypes p) mask_normal) (ri_atoms p NET_WM_WINDOW_TYPE_NORMAL)
     @ support (has (ri_windowTypes p) mask_desktop) (ri_atoms p NET_WM_WINDOW_TYPE_DESKTOP)
     @ support (has (ri_windowTypes p) mask_dock) (ri_atoms p NET_WM_WINDOW_TYPE_DOCK)
     @ support (has (ri_windowTypes p) mask_toolbar) (ri_atoms p NET_WM_WINDOW_TYPE_TOOLBAR)
     @ support (has (ri_windowTypes p) mask_menu) (ri_atoms p NET_WM_WINDOW_TYPE_MENU)
     @ support (has (ri_windowTypes p) mask_dialog) (ri_atoms p NET_WM_WINDOW_TYPE_DIALOG)
     @ support (has (ri_windowTypes p) mask_utility) (ri_atoms p NET_WM_WINDOW_TYPE_UTILITY)
     @ support (has (ri_windowTypes p) mask_splash) (ri_atoms p NET_WM_WINDOW_TYPE_SPLASH)
     @ support (has (ri_windowTypes p) mask_dropdown_menu) (ri_atoms p NET_WM_WINDOW_TYPE_DROPDOWN_MENU)
     @ support (has (ri_windowTypes p) mask_popup_menu) (ri_atoms p NET_WM_WINDOW_TYPE_POPUP_MENU)
     @ support (has (ri_windowTypes p) mask_tooltip) (ri_atoms p NET_WM_WINDOW_TYPE_TOOLTIP)
     @ support (has (ri_windowTypes p) mask_notification) (ri_atoms p NET_WM_WINDOW_TYPE_NOTIFICATION)
     @ support (has (ri_windowTypes p) mask_combo_box) (ri_atoms p NET_WM_WINDOW_TYPE_COMBO)
     @ support (has (ri_windowTypes p) mask_dnd_icon) (ri_atoms p NET_WM_WINDOW_TYPE_DND)
     @ support (has (ri_windowTypes p) mask_override) (ri_atoms p KDE_NET_WM_WINDOW_TYPE_OVERRIDE)
     @ support (has (ri_windowTypes p) mask_top_menu) (ri_atoms p KDE_NET_WM_WINDOW_TYPE_TOPMENU)
     @ support (has (ri_windowTypes p) mask_on_screen_display) (ri_atoms p KDE_NET_WM_WINDOW_TYPE_ON_SCREEN_DISPLAY)
     @ support (has (ri_windowTypes p) mask_critical_notification) (ri_atoms p KDE_NET_WM_WINDOW_TYPE_CRITICAL_NOTIFICATION)
     @ support (has (ri_windowTypes p) mask_applet_popup) (ri_atoms p KDE_NET_WM_WINDOW_TYPE_APPLET_POPUP)"

definition supported_state_atoms :: "root_info \<Rightarrow> u32 list" where
  "supported_state_atoms p =
     support (has (ri_states p) Modal) (ri_atoms p NET_WM_STATE_MODAL)
     @ support (has (ri_states p) Sticky) (ri_atoms p NET_WM_STATE_STICKY)
     @ support (has (ri_states p) MaxVert) (ri_atoms p NET_WM_STATE_MAXIMIZED_VERT)
     @ support (has (ri_states p) MaxHoriz) (ri_atoms p NET_WM_STATE_MAXIMIZED_HORZ)
     @ support (has (ri_states p) Shaded) (ri_atoms p NET_WM_STATE_SHADED)
     @ support (has (ri_states p) SkipTaskbar) (ri_atoms p NET_WM_STATE_SKIP_TASKBAR)
     @ support (has (ri_states p) SkipPager) (ri_atoms p NET_WM_STATE_SKIP_PAGER)
     @ support (has (ri_states p) SkipSwitcher) (ri_atoms p KDE_NET_WM_STATE_SKIP_SWITCHER)
     @ support (has (ri_states p) Hidden) (ri_atoms p NET_WM_STATE_HIDDEN)
     @ support (has (ri_states p) FullScreen) (ri_atoms p NET_WM_STATE_FULLSCREEN)
     @ support (has (ri_states p) KeepAbove) (ri_atoms p NET_WM_STATE_ABOVE)
     @ support (has (ri_states p) KeepAbove) (ri_atoms p NET_WM_STATE_STAYS_ON_TOP)
     @ support (has (ri_states p) KeepBelow) (ri_atoms p NET_WM_STATE_BELOW)
     @ support (has (ri_states p) DemandsAttention) (ri_atoms p NET_WM_STATE_DEMANDS_ATTENTION)
     @ support (has (ri_states p) Focused) (ri_atoms p NET_WM_STATE_FOCUSED)"

definition supported_window_atoms :: "root_info \<Rightarrow> u32 list" where
  "supported_window_atoms p =
     support (has (ri_properties p) WMStrut) (ri_atoms p NET_WM_STRUT)
     @ support (has (ri_properties2 p) WM2ExtendedStrut) (ri_atoms p NET_WM_STRUT_PARTIAL)
     @ support (has (ri_properties p) WMIconGeometry) (ri_atoms p NET_WM_ICON_GEOMETRY)
     @ support (has (ri_properties p) WMIcon) (ri_atoms p NET_WM_ICON)
     @ support (has (ri_properties p) WMPid) (ri_atoms p NET_WM_PID)
     @ support (has (ri_properties p) WMHandledIcons) (ri_atoms p NET_WM_HANDLED_ICONS)
     @ support (has (ri_properties p) WMPing) (ri_atoms p NET_WM_PING)
     @ support (has (ri_properties2 p) WM2UserTime) (ri_atoms p NET_WM_USER_TIME)
     @ support (has (ri_properties2 p) WM2StartupId) (ri_atoms p NET_STARTUP_ID)
     @ support (has (ri_properties2 p) WM2Opacity) (ri_atoms p NET_WM_WINDOW_OPACITY)
     @ support (has (ri_properties2 p) WM2FullscreenMonitors) (ri_atoms p NET_WM_FULLSCREEN_MONITORS)
     @ support (has (ri_properties2 p) WM2AllowedActions) (ri_atoms p NET_WM_ALLOWED_ACTIONS)"

definition supported_action_atoms :: "root_info \<Rightarrow> u32 list" where
  "supported_action_atoms p =
     support (has (ri_actions p) ActionMove) (ri_atoms p NET_WM_ACTION_MOVE)
     @ support (has (ri_actions p) ActionResize) (ri_atoms p NET_WM_ACTION_RESIZE)
     @ support (has (ri_actions p) ActionMinimize) (ri_atoms p NET_WM_ACTION_MINIMIZE)
     @ support (has (ri_actions p) ActionShade) (ri_atoms p NET_WM_ACTION_SHADE)
     @ support (has (ri_actions p) ActionStick) (ri_atoms p NET_WM_ACTION_STICK)
     @ support (has (ri_actions p) ActionMaxVert) (ri_atoms p NET_WM_ACTION_MAXIMIZE_VERT)
     @ support (has (ri_actions p) ActionMaxHoriz) (ri_atoms p NET_WM_ACTION_MAXIMIZE_HORZ)
     @ support (has (ri_actions p) ActionFullScreen) (ri_atoms p NET_WM_ACTION_FULLSCREEN)
     @ support (has (ri_actions p) ActionChangeDesktop) (ri_atoms p NET_WM_ACTION_CHANGE_DESKTOP)
     @ support (has (ri_actions p) ActionClose) (ri_atoms p NET_WM_ACTION_CLOSE)"

definition supported_extension_atoms :: "root_info \<Rightarrow> u32 list" where
  "supported_extension_atoms p =
     support (has (ri_properties p) WMFrameExtents) (ri_atoms p NET_FRAME_EXTENTS)
     @ support (has (ri_properties p) WMFrameExtents) (ri_atoms p KDE_NET_WM_FRAME_STRUT)
     @ support (has (ri_properties2 p) WM2FrameOverlap) (ri_atoms p NET_WM_FRAME_OVERLAP)
     @ support (has (ri_properties2 p) WM2KDETemporaryRules) (ri_atoms p KDE_NET_WM_TEMPORARY_RULES)
     @ support (has (ri_properties2 p) WM2FullPlacement) (ri_atoms p NET_WM_FULL_PLACEMENT)
     @ support (has (ri_properties2 p) WM2Activities) (ri_atoms p KDE_NET_WM_ACTIVITIES)
     @ support (has (ri_properties2 p) WM2BlockCompositing) (ri_atoms p KDE_NET_WM_BLOCK_COMPOSITING)
     @ support (has (ri_properties2 p) WM2BlockCompositing) (ri_atoms p NET_WM_BYPASS_COMPOSITOR)
     @ support (has (ri_properties2 p) WM2KDEShadow) (ri_atoms p KDE_NET_WM_SHADOW)
     @ support (has (ri_properties2 p) WM2OpaqueRegion) (ri_atoms p NET_WM_OPAQUE_REGION)
     @ support (has (ri_properties2 p) WM2GTKFrameExtents) (ri_atoms p GTK_FRAME_EXTENTS)
     @ support (has (ri_properties2 p) WM2GTKShowWindowMenu) (ri_atoms p GTK_SHOW_WINDOW_MENU)"

definition supported_atoms :: "root_info \<Rightarrow> u32 list" where
  "supported_atoms p =
     [ri_atoms p NET_SUPPORTED, ri_atoms p NET_SUPPORTING_WM_CHECK]
     @ supported_root_atoms p
     @ (if has (ri_properties p) WMWindowType then supported_type_atoms p else [])
     @ support (has (ri_properties p) WMState) (ri_atoms p NET_WM_STATE)
     @ (if has (ri_properties p) WMState then supported_state_atoms p else [])
     @ supported_window_atoms p
     @ (if has (ri_properties2 p) WM2AllowedActions then supported_action_atoms p else [])
     @ supported_extension_atoms p"

definition setSupported :: "root_info \<Rightarrow> x_out list option" where
  "setSupported p =
     (if ri_role p \<noteq> Role_WindowManager then None
      else do {
        n \<leftarrow> ri_name p;
        Some [root_change p NET_SUPPORTED XCB_ATOM_ATOM (Longs (supported_atoms p)),
              root_change p NET_SUPPORTING_WM_CHECK XCB_ATOM_WINDOW (Longs [ri_supportwindow p]),
              Change_Property (ri_supportwindow p) (ri_atoms p NET_SUPPORTING_WM_CHECK) XCB_ATOM_WINDOW
                (Longs [ri_supportwindow p]),
              Change_Property (ri_supportwindow p) (ri_atoms p NET_WM_NAME) (ri_atoms p UTF8_STRING)
                (Bytes n)]
      })"

definition add_properties :: "flag \<Rightarrow> root_info \<Rightarrow> root_info" where
  "add_properties f p = p\<lparr>ri_properties := flag_or (ri_properties p) f\<rparr>"

definition add_properties2 :: "flag \<Rightarrow> root_info \<Rightarrow> root_info" where
  "add_properties2 f p = p\<lparr>ri_properties2 := flag_or (ri_properties2 p) f\<rparr>"

definition add_types :: "flag \<Rightarrow> root_info \<Rightarrow> root_info" where
  "add_types f p = p\<lparr>ri_windowTypes := flag_or (ri_windowTypes p) f\<rparr>"

definition add_states :: "flag \<Rightarrow> root_info \<Rightarrow> root_info" where
  "add_states f p = p\<lparr>ri_states := flag_or (ri_states p) f\<rparr>"

definition add_actions :: "flag \<Rightarrow> root_info \<Rightarrow> root_info" where
  "add_actions f p = p\<lparr>ri_actions := flag_or (ri_actions p) f\<rparr>"

definition support_window_property :: "u32 \<Rightarrow> root_info \<Rightarrow> root_info" where
  "support_window_property atom p =
     (if atom = ri_atoms p NET_WM_STRUT then add_properties WMStrut p
      else if atom = ri_atoms p NET_WM_STRUT_PARTIAL then add_properties2 WM2ExtendedStrut p
      else if atom = ri_atoms p NET_WM_ICON_GEOMETRY then add_properties WMIconGeometry p
      else if atom = ri_atoms p NET_WM_ICON then add_properties WMIcon p
      else if atom = ri_atoms p NET_WM_PID then add_properties WMPid p
      else if atom = ri_atoms p NET_WM_HANDLED_ICONS then add_properties WMHandledIcons p
      else if atom = ri_atoms p NET_WM_PING then add_properties WMPing p
      else if atom = ri_atoms p NET_WM_USER_TIME then add_properties2 WM2UserTime p
      else if atom = ri_atoms p NET_STARTUP_ID then add_properties2 WM2StartupId p
      else if atom = ri_atoms p NET_WM_WINDOW_OPACITY then add_properties2 WM2Opacity p
      else if atom = ri_atoms p NET_WM_FULLSCREEN_MONITORS then add_properties2 WM2FullscreenMonitors p
      else if atom = ri_atoms p NET_WM_ALLOWED_ACTIONS then add_properties2 WM2AllowedActions p
      else if atom = ri_atoms p NET_WM_ACTION_MOVE then add_actions ActionMove p
      else if atom = ri_atoms p NET_WM_ACTION_RESIZE then add_actions ActionResize p
      else if atom = ri_atoms p NET_WM_ACTION_MINIMIZE then add_actions ActionMinimize p
      else if atom = ri_atoms p NET_WM_ACTION_SHADE then add_actions ActionShade p
      else if atom = ri_atoms p NET_WM_ACTION_STICK then add_actions ActionStick p
      else if atom = ri_atoms p NET_WM_ACTION_MAXIMIZE_VERT then add_actions ActionMaxVert p
      else if atom = ri_atoms p NET_WM_ACTION_MAXIMIZE_HORZ then add_actions ActionMaxHoriz p
      else if atom = ri_atoms p NET_WM_ACTION_FULLSCREEN then add_actions ActionFullScreen p
      else if atom = ri_atoms p NET_WM_ACTION_CHANGE_DESKTOP then add_actions ActionChangeDesktop p
      else if atom = ri_atoms p NET_WM_ACTION_CLOSE then add_actions ActionClose p
      else if atom = ri_atoms p NET_FRAME_EXTENTS then add_properties WMFrameExtents p
      else if atom = ri_atoms p KDE_NET_WM_FRAME_STRUT then add_properties WMFrameExtents p
      else if atom = ri_atoms p NET_WM_FRAME_OVERLAP then add_properties2 WM2FrameOverlap p
      else if atom = ri_atoms p KDE_NET_WM_TEMPORARY_RULES then add_properties2 WM2KDETemporaryRules p
      else if atom = ri_atoms p NET_WM_FULL_PLACEMENT then add_properties2 WM2FullPlacement p
      else if atom = ri_atoms p KDE_NET_WM_ACTIVITIES then add_properties2 WM2Activities p
      else if atom = ri_atoms p KDE_NET_WM_BLOCK_COMPOSITING \<or> atom = ri_atoms p NET_WM_BYPASS_COMPOSITOR then add_properties2 WM2BlockCompositing p
      else if atom = ri_atoms p KDE_NET_WM_SHADOW then add_properties2 WM2KDEShadow p
      else if atom = ri_atoms p NET_WM_OPAQUE_REGION then add_properties2 WM2OpaqueRegion p
      else if atom = ri_atoms p GTK_FRAME_EXTENTS then add_properties2 WM2GTKFrameExtents p
      else if atom = ri_atoms p GTK_SHOW_WINDOW_MENU then add_properties2 WM2GTKShowWindowMenu p
      else if atom = ri_atoms p KDE_NET_WM_APPMENU_OBJECT_PATH then add_properties2 WM2AppMenuObjectPath p
      else if atom = ri_atoms p KDE_NET_WM_APPMENU_SERVICE_NAME then add_properties2 WM2AppMenuServiceName p
      else p)"

definition support_type_or_state :: "u32 \<Rightarrow> root_info \<Rightarrow> root_info" where
  "support_type_or_state atom p =
     (if atom = ri_atoms p NET_WM_WINDOW_TYPE_NORMAL then add_types mask_normal p
      else if atom = ri_atoms p NET_WM_WINDOW_TYPE_DESKTOP then add_types mask_desktop p
      else if atom = ri_atoms p NET_WM_WINDOW_TYPE_DOCK then add_types mask_dock p
      else if atom = ri_atoms p NET_WM_WINDOW_TYPE_TOOLBAR then add_types mask_toolbar p
      else if atom = ri_atoms p NET_WM_WINDOW_TYPE_MENU then add_types mask_menu p
      else if atom = ri_atoms p NET_WM_WINDOW_TYPE_DIALOG then add_types mask_dialog p
      else if atom = ri_atoms p NET_WM_WINDOW_TYPE_UTILITY then add_types mask_utility p
      else if atom = ri_atoms p NET_WM_WINDOW_TYPE_SPLASH then add_types mask_splash p
      else if atom = ri_atoms p NET_WM_WINDOW_TYPE_DROPDOWN_MENU then add_types mask_dropdown_menu p
      else if atom = ri_atoms p NET_WM_WINDOW_TYPE_POPUP_MENU then add_types mask_popup_menu p
      else if atom = ri_atoms p NET_WM_WINDOW_TYPE_TOOLTIP then add_types mask_tooltip p
      else if atom = ri_atoms p NET_WM_WINDOW_TYPE_NOTIFICATION then add_types mask_notification p
      else if atom = ri_atoms p NET_WM_WINDOW_TYPE_COMBO then add_types mask_combo_box p
      else if atom = ri_atoms p NET_WM_WINDOW_TYPE_DND then add_types mask_dnd_icon p
      else if atom = ri_atoms p KDE_NET_WM_WINDOW_TYPE_OVERRIDE then add_types mask_override p
      else if atom = ri_atoms p KDE_NET_WM_WINDOW_TYPE_TOPMENU then add_types mask_top_menu p
      else if atom = ri_atoms p KDE_NET_WM_WINDOW_TYPE_ON_SCREEN_DISPLAY then add_types mask_on_screen_display p
      else if atom = ri_atoms p KDE_NET_WM_WINDOW_TYPE_CRITICAL_NOTIFICATION then add_types mask_critical_notification p
      else if atom = ri_atoms p KDE_NET_WM_WINDOW_TYPE_APPLET_POPUP then add_types mask_applet_popup p
      else if atom = ri_atoms p NET_WM_STATE then add_properties WMState p
      else if atom = ri_atoms p NET_WM_STATE_MODAL then add_states Modal p
      else if atom = ri_atoms p NET_WM_STATE_STICKY then add_states Sticky p
      else if atom = ri_atoms p NET_WM_STATE_MAXIMIZED_VERT then add_states MaxVert p
      else if atom = ri_atoms p NET_WM_STATE_MAXIMIZED_HORZ then add_states MaxHoriz p
      else if atom = ri_atoms p NET_WM_STATE_SHADED then add_states Shaded p
      else if atom = ri_atoms p NET_WM_STATE_SKIP_TASKBAR then add_states SkipTaskbar p
      else if atom = ri_atoms p NET_WM_STATE_SKIP_PAGER then add_states SkipPager p
      else if atom = ri_atoms p KDE_NET_WM_STATE_SKIP_SWITCHER then add_states SkipSwitcher p
      else if atom = ri_atoms p NET_WM_STATE_HIDDEN then add_states Hidden p
      else if atom = ri_atoms p NET_WM_STATE_FULLSCREEN then add_states FullScreen p
      else if atom = ri_atoms p NET_WM_STATE_ABOVE then add_states KeepAbove p
      else if atom = ri_atoms p NET_WM_STATE_BELOW then add_states KeepBelow p
      else if atom = ri_atoms p NET_WM_STATE_DEMANDS_ATTENTION then add_states DemandsAttention p
      else if atom = ri_atoms p NET_WM_STATE_STAYS_ON_TOP then add_states KeepAbove p
      else if atom = ri_atoms p NET_WM_STATE_FOCUSED then add_states Focused p
      else support_window_property atom p)"

definition updateSupportedProperties :: "u32 \<Rightarrow> root_info \<Rightarrow> root_info" where
  "updateSupportedProperties atom p =
     (if atom = ri_atoms p NET_SUPPORTED then add_properties Supported p
      else if atom = ri_atoms p NET_SUPPORTING_WM_CHECK then add_properties SupportingWMCheck p
      else if atom = ri_atoms p NET_CLIENT_LIST then add_properties ClientList p
      else if atom = ri_atoms p NET_CLIENT_LIST_STACKING then add_properties ClientListStacking p
      else if atom = ri_atoms p NET_NUMBER_OF_DESKTOPS then add_properties NumberOfDesktops p
      else if atom = ri_atoms p NET_DESKTOP_GEOMETRY then add_properties DesktopGeometry p
      else if atom = ri_atoms p NET_DESKTOP_VIEWPORT then add_properties DesktopViewport p
      else if atom = ri_atoms p NET_CURRENT_DESKTOP then add_properties CurrentDesktop p
      else if atom = ri_atoms p NET_DESKTOP_NAMES then add_properties DesktopNames p
      else if atom = ri_atoms p NET_ACTIVE_WINDOW then add_properties ActiveWindow p
      else if atom = ri_atoms p NET_WORKAREA then add_properties WorkArea p
      else if atom = ri_atoms p NET_VIRTUAL_ROOTS then add_properties VirtualRoots p
      else if atom = ri_atoms p NET_DESKTOP_LAYOUT then add_properties2 WM2DesktopLayout p
      else if atom = ri_atoms p NET_CLOSE_WINDOW then add_properties CloseWindow p
      else if atom = ri_atoms p NET_RESTACK_WINDOW then add_properties2 WM2RestackWindow p
      else if atom = ri_atoms p NET_SHOWING_DESKTOP then add_properties2 WM2ShowingDesktop p
      else if atom = ri_atoms p NET_WM_MOVERESIZE then add_properties WMMoveResize p
      else if atom = ri_atoms p NET_MOVERESIZE_WINDOW then add_properties2 WM2MoveResizeWindow p
      else if atom = ri_atoms p NET_WM_NAME then add_properties WMName p
      else if atom = ri_atoms p NET_WM_VISIBLE_NAME then add_properties WMVisibleName p
      else if atom = ri_atoms p NET_WM_ICON_NAME then add_properties WMIconName p
      else if atom = ri_atoms p NET_WM_VISIBLE_ICON_NAME then add_properties WMVisibleIconName p
      else if atom = ri_atoms p NET_WM_DESKTOP then add_properties WMDesktop p
      else if atom = ri_atoms p NET_WM_WINDOW_TYPE then add_properties WMWindowType p
      else support_type_or_state atom p)"

text \<open>The setters of a single flag write everything again when the flag changes; one for each set of
  flags, by its reader and its writer.\<close>

definition set_supported_flag ::
    "(root_info \<Rightarrow> flag) \<Rightarrow> (flag \<Rightarrow> root_info \<Rightarrow> root_info) \<Rightarrow> flag \<Rightarrow> bool \<Rightarrow> root_info \<Rightarrow> root_effect" where
  "set_supported_flag get put f on p =
     (if ri_role p \<noteq> Role_WindowManager then None
      else if on \<and> \<not> has (get p) f then
        let p = put (flag_or (get p) f) p in map_option (\<lambda>out. (p, out)) (setSupported p)
      else if \<not> on \<and> has (get p) f then
        let p = put (without (get p) f) p in map_option (\<lambda>out. (p, out)) (setSupported p)
      else Some (p, []))"

definition setSupported_property :: "flag \<Rightarrow> bool \<Rightarrow> root_info \<Rightarrow> root_effect" where
  "setSupported_property = set_supported_flag ri_properties (\<lambda>v p. p\<lparr>ri_properties := v\<rparr>)"

definition setSupported_property2 :: "flag \<Rightarrow> bool \<Rightarrow> root_info \<Rightarrow> root_effect" where
  "setSupported_property2 = set_supported_flag ri_properties2 (\<lambda>v p. p\<lparr>ri_properties2 := v\<rparr>)"

definition setSupported_type :: "flag \<Rightarrow> bool \<Rightarrow> root_info \<Rightarrow> root_effect" where
  "setSupported_type = set_supported_flag ri_windowTypes (\<lambda>v p. p\<lparr>ri_windowTypes := v\<rparr>)"

definition setSupported_state :: "flag \<Rightarrow> bool \<Rightarrow> root_info \<Rightarrow> root_effect" where
  "setSupported_state = set_supported_flag ri_states (\<lambda>v p. p\<lparr>ri_states := v\<rparr>)"

definition setSupported_action :: "flag \<Rightarrow> bool \<Rightarrow> root_info \<Rightarrow> root_effect" where
  "setSupported_action = set_supported_flag ri_actions (\<lambda>v p. p\<lparr>ri_actions := v\<rparr>)"

section \<open>Queries\<close>

definition passedProperties :: "root_info \<Rightarrow> flag" where
  "passedProperties p =
     (if ri_role p = Role_WindowManager then ri_properties p else ri_clientProperties p)"

definition passedProperties2 :: "root_info \<Rightarrow> flag" where
  "passedProperties2 p =
     (if ri_role p = Role_WindowManager then ri_properties2 p else ri_clientProperties2 p)"

definition passedStates :: "root_info \<Rightarrow> flag" where
  "passedStates p = (if ri_role p = Role_WindowManager then ri_states p else 0)"

definition passedWindowTypes :: "root_info \<Rightarrow> flag" where
  "passedWindowTypes p = (if ri_role p = Role_WindowManager then ri_windowTypes p else 0)"

definition passedActions :: "root_info \<Rightarrow> flag" where
  "passedActions p = (if ri_role p = Role_WindowManager then ri_actions p else 0)"

definition desktopGeometry :: "root_info \<Rightarrow> net_size" where
  "desktopGeometry p = (if sz_width (ri_geometry p) \<noteq> 0 then ri_geometry p else ri_rootSize p)"

text \<open>The next three read an array that grows when it is too short.\<close>

definition desktopViewport :: "int \<Rightarrow> root_info \<Rightarrow> net_point \<times> root_info" where
  "desktopViewport desktop p =
     (if desktop < 1 then (point_default, p)
      else let (pt, vs) = rarray_get point_default (ri_viewport p) (nat (desktop - 1))
           in (pt, p\<lparr>ri_viewport := vs\<rparr>))"

definition workArea :: "int \<Rightarrow> root_info \<Rightarrow> net_rect \<times> root_info" where
  "workArea desktop p =
     (if desktop < 1 then (rect_default, p)
      else let (r, was) = rarray_get rect_default (ri_workarea p) (nat (desktop - 1))
           in (r, p\<lparr>ri_workarea := was\<rparr>))"

definition desktopName :: "int \<Rightarrow> root_info \<Rightarrow> cstring \<times> root_info" where
  "desktopName desktop p =
     (if desktop < 1 then (None, p)
      else let (n, names) = rarray_get None (ri_desktop_names p) (nat (desktop - 1))
           in (n, p\<lparr>ri_desktop_names := names\<rparr>))"

end
