(* ===== verification/Root_Info_Update.thy ===== *)
theory Root_Info_Update
  imports Root_Info Win_Info_Set
begin

text \<open>
  root_info::update, the constructors with activate, and event of como/win/x11/net/root_info.cpp.

  update sends the requests for all dirty properties and then takes the replies, like the one of a
  window; only what the object was created for is read, which for the window manager is what clients
  may change: the desktop names and the layout. The virtual functions are calls in the order made.

  None is undefined behaviour: four times the number of desktops that does not fit an int, a display
  without a screen, and the null name of setSupported.
\<close>

datatype root_call =
  Add_Client u32
| Remove_Client u32
| Change_Number_Of_Desktops int
| Change_Desktop_Geometry int net_size
| Change_Desktop_Viewport int net_point
| Change_Current_Desktop int
| Change_Active_Window u32 int u32 u32
| Move_Resize u32 int int u32 byte int
| Move_Resize_Window u32 int int int int int
| Close_Window u32
| Restack_Window u32 int u32 int u32
| Got_Ping u32 u32
| Change_Showing_Desktop bool
| Show_Window_Menu u32 int int int

section \<open>The requests\<close>

definition root_property :: "root_info \<Rightarrow> kws_atom \<Rightarrow> u32 \<Rightarrow> u32 \<Rightarrow> x_request" where
  "root_property p a ty len = xcb_get_property (ri_root p) (ri_atoms p a) ty 0 len"

definition root_requests_before :: "root_info \<Rightarrow> flag \<Rightarrow> x_request list" where
  "root_requests_before p dirty =
     ask (has dirty Supported) (root_property p NET_SUPPORTED XCB_ATOM_ATOM MAX_PROP_SIZE)
     @ ask (has dirty ClientList) (root_property p NET_CLIENT_LIST XCB_ATOM_WINDOW MAX_PROP_SIZE)
     @ ask (has dirty ClientListStacking)
         (root_property p NET_CLIENT_LIST_STACKING XCB_ATOM_WINDOW MAX_PROP_SIZE)
     @ ask (has dirty NumberOfDesktops) (root_property p NET_NUMBER_OF_DESKTOPS XCB_ATOM_CARDINAL 1)
     @ ask (has dirty DesktopGeometry) (root_property p NET_DESKTOP_GEOMETRY XCB_ATOM_CARDINAL 2)
     @ ask (has dirty DesktopViewport)
         (root_property p NET_DESKTOP_VIEWPORT XCB_ATOM_CARDINAL MAX_PROP_SIZE)
     @ ask (has dirty CurrentDesktop) (root_property p NET_CURRENT_DESKTOP XCB_ATOM_CARDINAL 1)
     @ ask (has dirty DesktopNames)
         (root_property p NET_DESKTOP_NAMES (ri_atoms p UTF8_STRING) MAX_PROP_SIZE)
     @ ask (has dirty ActiveWindow) (root_property p NET_ACTIVE_WINDOW XCB_ATOM_WINDOW 1)"

definition workarea_request :: "root_info \<Rightarrow> x_request" where
  "workarea_request p = root_property p NET_WORKAREA XCB_ATOM_CARDINAL MAX_PROP_SIZE"

definition root_requests_after :: "root_info \<Rightarrow> flag \<Rightarrow> flag \<Rightarrow> x_request list" where
  "root_requests_after p dirty dirty2 =
     ask (has dirty SupportingWMCheck) (root_property p NET_SUPPORTING_WM_CHECK XCB_ATOM_WINDOW 1)
     @ ask (has dirty VirtualRoots) (root_property p NET_VIRTUAL_ROOTS XCB_ATOM_WINDOW 1)
     @ ask (has dirty2 WM2DesktopLayout)
         (root_property p NET_DESKTOP_LAYOUT XCB_ATOM_CARDINAL MAX_PROP_SIZE)
     @ ask (has dirty2 WM2ShowingDesktop)
         (root_property p NET_SHOWING_DESKTOP XCB_ATOM_CARDINAL 1)"

section \<open>What is done with a reply\<close>

definition store_supported :: "x_reply option \<Rightarrow> root_info \<Rightarrow> root_info" where
  "store_supported reply p =
     (let p = p\<lparr>ri_properties := 0, ri_properties2 := 0, ri_windowTypes := 0, ri_states := 0,
               ri_actions := 0\<rparr>
      in fold updateSupportedProperties (get_array_reply reply XCB_ATOM_ATOM) p)"

text \<open>The walk over the old and the new list of clients, both sorted: what is gone and what is new.\<close>

fun client_diff :: "u32 list \<Rightarrow> u32 list \<Rightarrow> u32 list \<times> u32 list" where
  "client_diff [] news = ([], news)"
| "client_diff olds [] = (olds, [])"
| "client_diff (old # olds) (new # news) =
     (if old < new then apfst ((#) old) (client_diff olds (new # news))
      else if new < old then apsnd ((#) new) (client_diff (old # olds) news)
      else client_diff olds news)"

definition store_clients ::
    "x_reply option \<Rightarrow> root_info \<times> root_call list \<Rightarrow> root_info \<times> root_call list" where
  "store_clients reply s =
     (case s of (p, calls) \<Rightarrow>
        let clients = sort (get_array_reply reply XCB_ATOM_WINDOW);
            (clientsToRemove, clientsToAdd) =
              (case ri_clients p of
                 None \<Rightarrow> ([], clients)
               | Some olds \<Rightarrow> if ri_role p = Role_Client then client_diff olds clients else ([], []));
            p = p\<lparr>ri_clients := None\<rparr>;
            p = (if clients \<noteq> []
                 then p\<lparr>ri_clients_count := length clients, ri_clients := Some clients\<rparr> else p)
        in (p, calls @ map Remove_Client clientsToRemove @ map Add_Client clientsToAdd))"

definition store_stacking :: "x_reply option \<Rightarrow> root_info \<Rightarrow> root_info" where
  "store_stacking reply p =
     (let wins = get_array_reply reply XCB_ATOM_WINDOW
      in p\<lparr>ri_stacking_count := length wins, ri_stacking := nwindup wins\<rparr>)"

definition store_number_of_desktops :: "x_reply option \<Rightarrow> root_info \<Rightarrow> root_info" where
  "store_number_of_desktops reply p =
     p\<lparr>ri_number_of_desktops := to_int (fst (get_value_reply reply XCB_ATOM_CARDINAL 0))\<rparr>"

definition store_desktop_geometry :: "x_reply option \<Rightarrow> root_info \<Rightarrow> root_info" where
  "store_desktop_geometry reply p =
     (let p = p\<lparr>ri_geometry := ri_rootSize p\<rparr>
      in case get_array_reply reply XCB_ATOM_CARDINAL of
           [w, h] \<Rightarrow> p\<lparr>ri_geometry := \<lparr>sz_width = to_int w, sz_height = to_int h\<rparr>\<rparr>
         | _ \<Rightarrow> p)"

fun put_points :: "nat \<Rightarrow> u32 list \<Rightarrow> net_point list \<Rightarrow> net_point list" where
  "put_points d (x # y # data) ps =
     put_points (Suc d) data
       (rarray_set point_default ps d \<lparr>pt_x = to_int x, pt_y = to_int y\<rparr>)"
| "put_points d _ ps = ps"

definition store_viewport :: "x_reply option \<Rightarrow> root_info \<Rightarrow> root_info" where
  "store_viewport reply p =
     p\<lparr>ri_viewport := put_points 0 (get_array_reply reply XCB_ATOM_CARDINAL)
                       (map (\<lambda>_. point_default) (ri_viewport p))\<rparr>"

definition store_current_desktop :: "x_reply option \<Rightarrow> root_info \<Rightarrow> root_info" where
  "store_current_desktop reply p =
     p\<lparr>ri_current_desktop := to_int (fst (get_value_reply reply XCB_ATOM_CARDINAL 0) + 1)\<rparr>"

fun put_names :: "nat \<Rightarrow> byte list list \<Rightarrow> cstring list \<Rightarrow> cstring list" where
  "put_names i [] names = names"
| "put_names i (n # ns) names =
     put_names (Suc i) ns (rarray_set None names i (nstrndup n (length n)))"

definition store_desktop_names :: "x_reply option \<Rightarrow> root_info \<Rightarrow> root_info" where
  "store_desktop_names reply p =
     p\<lparr>ri_desktop_names := put_names 0 (get_stringlist_reply reply (ri_atoms p UTF8_STRING))
                            (rarray_reset (ri_desktop_names p))\<rparr>"

definition store_active :: "x_reply option \<Rightarrow> root_info \<Rightarrow> root_info" where
  "store_active reply p = p\<lparr>ri_active := fst (get_value_reply reply XCB_ATOM_WINDOW 0)\<rparr>"

fun put_rects :: "nat \<Rightarrow> u32 list \<Rightarrow> net_rect list \<Rightarrow> net_rect list" where
  "put_rects i (x # y # w # h # data) rs =
     put_rects (Suc i) data
       (rarray_set rect_default rs i
          \<lparr>rect_pos = \<lparr>pt_x = to_int x, pt_y = to_int y\<rparr>,
           rect_size = \<lparr>sz_width = to_int w, sz_height = to_int h\<rparr>\<rparr>)"
| "put_rects i _ rs = rs"

text \<open>The number of values expected is an int product.\<close>

definition store_workarea :: "x_reply option \<Rightarrow> root_info \<Rightarrow> root_info option" where
  "store_workarea reply p =
     (let p = p\<lparr>ri_workarea := rarray_reset (ri_workarea p)\<rparr>;
          data = get_array_reply reply XCB_ATOM_CARDINAL;
          expected = ri_number_of_desktops p * 4
      in if \<not> int_range expected then None
         else if int (length data) = expected
         then Some (p\<lparr>ri_workarea := put_rects 0 data (ri_workarea p)\<rparr>)
         else Some p)"

definition store_supporting_wm_check :: "x_reply option \<Rightarrow> root_info \<Rightarrow> root_info" where
  "store_supporting_wm_check reply p =
     p\<lparr>ri_name := None, ri_supportwindow := fst (get_value_reply reply XCB_ATOM_WINDOW 0)\<rparr>"

text \<open>The virtual roots are read as numbers, though they are asked for, and written, as windows.\<close>

definition store_virtual_roots :: "x_reply option \<Rightarrow> root_info \<Rightarrow> root_info" where
  "store_virtual_roots reply p =
     (let wins = get_array_reply reply XCB_ATOM_CARDINAL
      in p\<lparr>ri_virtual_roots_count := length wins, ri_virtual_roots := nwindup wins\<rparr>)"

definition store_desktop_layout :: "x_reply option \<Rightarrow> root_info \<Rightarrow> root_info" where
  "store_desktop_layout reply p =
     (let p = p\<lparr>ri_desktop_layout_orientation := OrientationHorizontal,
               ri_desktop_layout_corner := DesktopLayoutCornerTopLeft,
               ri_desktop_layout_columns := 0, ri_desktop_layout_rows := 0\<rparr>;
          data = get_array_reply reply XCB_ATOM_CARDINAL;
          p = (if length data \<ge> 4 \<and> data ! 3 \<le> 3
               then p\<lparr>ri_desktop_layout_corner := uint (data ! 3)\<rparr> else p)
      in if length data \<ge> 3 then
           let p = (if data ! 0 \<le> 1
                    then p\<lparr>ri_desktop_layout_orientation := uint (data ! 0)\<rparr> else p)
           in p\<lparr>ri_desktop_layout_columns := to_int (data ! 1),
                ri_desktop_layout_rows := to_int (data ! 2)\<rparr>
         else p)"

definition store_showing_desktop :: "x_reply option \<Rightarrow> root_info \<Rightarrow> root_info" where
  "store_showing_desktop reply p =
     p\<lparr>ri_showing_desktop := (fst (get_value_reply reply XCB_ATOM_CARDINAL 0) \<noteq> 0)\<rparr>"

text \<open>The request for the name of the window manager goes to the window found on the way.\<close>

definition read_wm_name :: "x_server \<Rightarrow> flag \<Rightarrow> root_info \<Rightarrow> root_info" where
  "read_wm_name serve dirty p =
     (if has dirty SupportingWMCheck \<and> ri_supportwindow p \<noteq> 0 then
        let utf8 = ri_atoms p UTF8_STRING;
            ba = get_string_reply
              (serve (xcb_get_property (ri_supportwindow p) (ri_atoms p NET_WM_NAME) utf8 0 MAX_PROP_SIZE))
              utf8
        in if length ba > 0 then p\<lparr>ri_name := nstrndup ba (length ba)\<rparr> else p
      else p)"

section \<open>Update\<close>

type_synonym root_reading = "x_request list \<times> root_info \<times> root_call list"

definition on_root_reply ::
    "x_server \<Rightarrow> bool \<Rightarrow> (x_reply option \<Rightarrow> root_info \<Rightarrow> root_info) \<Rightarrow> root_reading \<Rightarrow> root_reading" where
  "on_root_reply serve wanted store = on_reply serve wanted (\<lambda>reply. apfst (store reply))"

definition root_read_before :: "x_server \<Rightarrow> flag \<Rightarrow> root_reading \<Rightarrow> root_reading" where
  "root_read_before serve dirty s =
     (let s = on_root_reply serve (has dirty Supported) store_supported s;
          s = on_reply serve (has dirty ClientList) store_clients s;
          s = on_root_reply serve (has dirty ClientListStacking) store_stacking s;
          s = on_root_reply serve (has dirty NumberOfDesktops) store_number_of_desktops s;
          s = on_root_reply serve (has dirty DesktopGeometry) store_desktop_geometry s;
          s = on_root_reply serve (has dirty DesktopViewport) store_viewport s;
          s = on_root_reply serve (has dirty CurrentDesktop) store_current_desktop s;
          s = on_root_reply serve (has dirty DesktopNames) store_desktop_names s
      in on_root_reply serve (has dirty ActiveWindow) store_active s)"

definition root_read_workarea :: "x_server \<Rightarrow> flag \<Rightarrow> root_reading \<Rightarrow> root_reading option" where
  "root_read_workarea serve dirty s =
     (case s of (cookies, p, calls) \<Rightarrow>
        if has dirty WorkArea then
          let (reply, cookies) = fetch serve cookies
          in map_option (\<lambda>p. (cookies, p, calls)) (store_workarea reply p)
        else Some s)"

definition root_read_after :: "x_server \<Rightarrow> flag \<Rightarrow> flag \<Rightarrow> root_reading \<Rightarrow> root_reading" where
  "root_read_after serve dirty dirty2 s =
     (let s = on_root_reply serve (has dirty SupportingWMCheck) store_supporting_wm_check s;
          s = on_root_reply serve (has dirty VirtualRoots) store_virtual_roots s;
          s = on_root_reply serve (has dirty2 WM2DesktopLayout) store_desktop_layout s
      in on_root_reply serve (has dirty2 WM2ShowingDesktop) store_showing_desktop s)"

definition root_update ::
    "x_server \<Rightarrow> flag \<Rightarrow> flag \<Rightarrow> root_info \<Rightarrow> (root_info \<times> root_call list) option" where
  "root_update serve properties properties2 p =
     (let dirty = flag_and properties (ri_clientProperties p);
          dirty2 = flag_and properties2 (ri_clientProperties2 p);
          cookies = root_requests_before p dirty @ ask (has dirty WorkArea) (workarea_request p)
            @ root_requests_after p dirty dirty2
      in do {
        s \<leftarrow> root_read_workarea serve dirty (root_read_before serve dirty (cookies, p, []));
        Some (apfst (read_wm_name serve dirty) (snd (root_read_after serve dirty dirty2 s)))
      })"

section \<open>Construction\<close>

definition activate ::
    "x_server \<Rightarrow> root_info \<Rightarrow> (x_out list \<times> root_info \<times> root_call list) option" where
  "activate serve p =
     (if ri_role p = Role_WindowManager then do {
        out \<leftarrow> setSupported p;
        s \<leftarrow> root_update serve (ri_clientProperties p) (ri_clientProperties2 p) p;
        Some (out, s)
      }
      else map_option (Pair []) (root_update serve (ri_clientProperties p) (ri_clientProperties2 p) p))"

text \<open>The screens of the display with their root windows and sizes; a screen number out of range, or
  -1, is the first one.\<close>

definition root_screen :: "(u32 \<times> net_size) list \<Rightarrow> int \<Rightarrow> (u32 \<times> net_size) option" where
  "root_screen screens screen =
     (if screens = [] then None
      else if screen \<noteq> -1 \<and> screen < int (length screens) then Some (screens ! nat screen)
      else Some (hd screens))"

definition root_info_blank :: "atom_table \<Rightarrow> net_role \<Rightarrow> u32 \<Rightarrow> root_info" where
  "root_info_blank atoms role root =
     \<lparr>ri_atoms = atoms, ri_role = role, ri_rootSize = size_default, ri_root = root,
      ri_supportwindow = 0, ri_name = None, ri_viewport = [], ri_workarea = [],
      ri_geometry = size_default, ri_active = 0, ri_clients = None, ri_stacking = None,
      ri_virtual_roots = None, ri_desktop_names = [], ri_number_of_desktops = 0,
      ri_current_desktop = 0, ri_clients_count = 0, ri_stacking_count = 0,
      ri_virtual_roots_count = 0, ri_showing_desktop = False,
      ri_desktop_layout_orientation = OrientationHorizontal,
      ri_desktop_layout_corner = DesktopLayoutCornerTopLeft, ri_desktop_layout_columns = 0,
      ri_desktop_layout_rows = 0, ri_properties = 0, ri_properties2 = 0, ri_windowTypes = 0,
      ri_states = 0, ri_actions = 0, ri_clientProperties = 0, ri_clientProperties2 = 0\<rparr>"

text \<open>The window manager's object. The defaults of setDefaultProperties are all overwritten.\<close>

definition root_info_of_manager ::
    "atom_table \<Rightarrow> (u32 \<times> net_size) list \<Rightarrow> u32 \<Rightarrow> cstring \<Rightarrow> flag \<Rightarrow> flag \<Rightarrow> flag \<Rightarrow> flag \<Rightarrow> flag \<Rightarrow> int
     \<Rightarrow> root_info option" where
  "root_info_of_manager atoms screens supportWindow wmName properties windowTypes states properties2
     actions screen =
     map_option
       (\<lambda>(root, _). (root_info_blank atoms Role_WindowManager root)
          \<lparr>ri_name := nstrdup wmName, ri_supportwindow := supportWindow,
           ri_properties := flag_or properties (flag_or Supported SupportingWMCheck),
           ri_properties2 := properties2, ri_windowTypes := windowTypes, ri_states := states,
           ri_actions := actions, ri_clientProperties := flag_or DesktopNames WMPing,
           ri_clientProperties2 := WM2DesktopLayout\<rparr>)
       (root_screen screens screen)"

definition root_info_of_client ::
    "atom_table \<Rightarrow> (u32 \<times> net_size) list \<Rightarrow> flag \<Rightarrow> flag \<Rightarrow> int \<Rightarrow> root_info option" where
  "root_info_of_client atoms screens properties properties2 screen =
     map_option
       (\<lambda>(root, sz). (root_info_blank atoms Role_Client root)
          \<lparr>ri_rootSize := sz, ri_clientProperties := properties,
           ri_clientProperties2 := properties2\<rparr>)
       (root_screen screens screen)"

section \<open>Events\<close>

text \<open>The source of a request that is not one of the known ones leaves the defaults.\<close>

definition known_source :: "u32 \<Rightarrow> bool" where
  "known_source v \<longleftrightarrow> uint v \<ge> FromUnknown \<and> uint v \<le> FromTool"

definition root_message_call ::
    "root_info \<Rightarrow> u32 \<Rightarrow> u32 \<Rightarrow> u32 list \<Rightarrow> flag \<times> flag \<times> root_call list" where
  "root_message_call p window ty data =
     (if ty = ri_atoms p NET_NUMBER_OF_DESKTOPS then
        (NumberOfDesktops, 0, [Change_Number_Of_Desktops (to_int (data ! 0))])
      else if ty = ri_atoms p NET_DESKTOP_GEOMETRY then
        (DesktopGeometry, 0,
         [Change_Desktop_Geometry (-1)
            \<lparr>sz_width = to_int (data ! 0), sz_height = to_int (data ! 1)\<rparr>])
      else if ty = ri_atoms p NET_DESKTOP_VIEWPORT then
        (DesktopViewport, 0,
         [Change_Desktop_Viewport (ri_current_desktop p)
            \<lparr>pt_x = to_int (data ! 0), pt_y = to_int (data ! 1)\<rparr>])
      else if ty = ri_atoms p NET_CURRENT_DESKTOP then
        (CurrentDesktop, 0, [Change_Current_Desktop (to_int (data ! 0 + 1))])
      else if ty = ri_atoms p NET_ACTIVE_WINDOW then
        (ActiveWindow, 0,
         [if known_source (data ! 0)
          then Change_Active_Window window (uint (data ! 0)) (data ! 1) (data ! 2)
          else Change_Active_Window window FromUnknown 0 0])
      else if ty = ri_atoms p NET_WM_MOVERESIZE then
        (0, 0,
         [Move_Resize window (to_int (data ! 0)) (to_int (data ! 1)) (data ! 2) (ucast (data ! 3))
            (to_int (data ! 4))])
      else if ty = ri_atoms p NET_MOVERESIZE_WINDOW then
        (0, 0,
         [Move_Resize_Window window (to_int (data ! 0)) (to_int (data ! 1)) (to_int (data ! 2))
            (to_int (data ! 3)) (to_int (data ! 4))])
      else if ty = ri_atoms p NET_CLOSE_WINDOW then (0, 0, [Close_Window window])
      else if ty = ri_atoms p NET_RESTACK_WINDOW then
        (0, 0,
         [if known_source (data ! 0)
          then Restack_Window window (uint (data ! 0)) (data ! 1) (to_int (data ! 2)) (data ! 3)
          else Restack_Window window FromUnknown (data ! 1) (to_int (data ! 2)) 0])
      else if ty = ri_atoms p WM_PROTOCOLS \<and> data ! 0 = ri_atoms p NET_WM_PING then
        (WMPing, 0, [Got_Ping (data ! 2) (data ! 1)])
      else if ty = ri_atoms p NET_SHOWING_DESKTOP then
        (0, WM2ShowingDesktop, [Change_Showing_Desktop (data ! 0 \<noteq> 0)])
      else if ty = ri_atoms p GTK_SHOW_WINDOW_MENU then
        (0, 0,
         [Show_Window_Menu window (to_int (data ! 0)) (to_int (data ! 1)) (to_int (data ! 2))])
      else (0, 0, []))"

definition root_property_dirty :: "root_info \<Rightarrow> u32 \<Rightarrow> flag \<times> flag" where
  "root_property_dirty p a =
     (if a = ri_atoms p NET_CLIENT_LIST then (ClientList, 0)
      else if a = ri_atoms p NET_CLIENT_LIST_STACKING then (ClientListStacking, 0)
      else if a = ri_atoms p NET_DESKTOP_NAMES then (DesktopNames, 0)
      else if a = ri_atoms p NET_WORKAREA then (WorkArea, 0)
      else if a = ri_atoms p NET_NUMBER_OF_DESKTOPS then (NumberOfDesktops, 0)
      else if a = ri_atoms p NET_DESKTOP_GEOMETRY then (DesktopGeometry, 0)
      else if a = ri_atoms p NET_DESKTOP_VIEWPORT then (DesktopViewport, 0)
      else if a = ri_atoms p NET_CURRENT_DESKTOP then (CurrentDesktop, 0)
      else if a = ri_atoms p NET_ACTIVE_WINDOW then (ActiveWindow, 0)
      else if a = ri_atoms p NET_SHOWING_DESKTOP then (0, WM2ShowingDesktop)
      else if a = ri_atoms p NET_SUPPORTED then (Supported, 0)
      else if a = ri_atoms p NET_SUPPORTING_WM_CHECK then (SupportingWMCheck, 0)
      else if a = ri_atoms p NET_VIRTUAL_ROOTS then (VirtualRoots, 0)
      else if a = ri_atoms p NET_DESKTOP_LAYOUT then (0, WM2DesktopLayout)
      else (0, 0))"

text \<open>The dirty flags reported, the object after the event, and the calls made.\<close>

definition root_event ::
    "x_server \<Rightarrow> x_event \<Rightarrow> root_info \<Rightarrow> (flag \<times> flag \<times> root_info \<times> root_call list) option" where
  "root_event serve ev p =
     (case ev of
        Client_Message format window ty data \<Rightarrow>
          if ri_role p = Role_WindowManager \<and> format = 32 then
            let (dirty, dirty2, calls) = root_message_call p window ty data
            in Some (dirty, dirty2, p, calls)
          else Some (0, 0, p, [])
      | Property_Notify a \<Rightarrow>
          (let (dirty, dirty2) = root_property_dirty p a
           in map_option (\<lambda>s. (dirty, dirty2, s)) (root_update serve dirty dirty2 p))
      | _ \<Rightarrow> Some (0, 0, p, []))"

end
