(* ===== verification/Root_Info_Props.thy ===== *)
theory Root_Info_Props
  imports Root_Info_Update Win_Info_Props
begin

text \<open>
  Lemmas about the root window's properties: what a client makes of the list of supported atoms,
  the difference of two lists of clients, and the replies of an update that reads a single property.
\<close>

section \<open>What is supported\<close>

text \<open>The flags that have an atom, as they are announced for the root window, for windows and as
  extensions, and the window types.\<close>

definition root_announced :: flag where
  "root_announced =
     flag_or ClientList (flag_or ClientListStacking (flag_or NumberOfDesktops (flag_or
     DesktopGeometry (flag_or DesktopViewport (flag_or CurrentDesktop (flag_or DesktopNames
     (flag_or ActiveWindow (flag_or WorkArea (flag_or VirtualRoots (flag_or CloseWindow
     (flag_or WMMoveResize (flag_or WMName (flag_or WMVisibleName (flag_or WMIconName
     (flag_or WMVisibleIconName (flag_or WMDesktop WMWindowType))))))))))))))))"

definition root_announced2 :: flag where
  "root_announced2 =
     flag_or WM2DesktopLayout (flag_or WM2RestackWindow (flag_or WM2ShowingDesktop
     WM2MoveResizeWindow))"

definition window_announced :: flag where
  "window_announced =
     flag_or WMStrut (flag_or WMIconGeometry (flag_or WMIcon (flag_or WMPid (flag_or
     WMHandledIcons WMPing))))"

definition window_announced2 :: flag where
  "window_announced2 =
     flag_or WM2ExtendedStrut (flag_or WM2UserTime (flag_or WM2StartupId (flag_or WM2Opacity
     (flag_or WM2FullscreenMonitors WM2AllowedActions))))"

definition extension_announced :: flag where
  "extension_announced =
     WMFrameExtents"

definition extension_announced2 :: flag where
  "extension_announced2 =
     flag_or WM2FrameOverlap (flag_or WM2KDETemporaryRules (flag_or WM2FullPlacement
     (flag_or WM2Activities (flag_or WM2BlockCompositing (flag_or WM2KDEShadow (flag_or
     WM2OpaqueRegion (flag_or WM2GTKFrameExtents WM2GTKShowWindowMenu)))))))"

definition all_types :: flag where
  "all_types =
     flag_or mask_normal (flag_or mask_desktop (flag_or mask_dock (flag_or mask_toolbar
     (flag_or mask_menu (flag_or mask_dialog (flag_or mask_utility (flag_or mask_splash
     (flag_or mask_dropdown_menu (flag_or mask_popup_menu (flag_or mask_tooltip (flag_or
     mask_notification (flag_or mask_combo_box (flag_or mask_dnd_icon (flag_or mask_override
     (flag_or mask_top_menu (flag_or mask_on_screen_display (flag_or
     mask_critical_notification mask_applet_popup)))))))))))))))))"

definition announced_states :: flag where
  "announced_states =
     flag_or Modal (flag_or Sticky (flag_or MaxVert (flag_or MaxHoriz (flag_or Shaded
     (flag_or SkipTaskbar (flag_or SkipPager (flag_or SkipSwitcher (flag_or Hidden (flag_or
     FullScreen (flag_or KeepAbove (flag_or KeepBelow (flag_or DemandsAttention
     Focused))))))))))))"

lemma ri_atoms_add [simp]:
  "ri_atoms (add_properties f p) = ri_atoms p" "ri_atoms (add_properties2 f p) = ri_atoms p"
  "ri_atoms (add_types f p) = ri_atoms p" "ri_atoms (add_states f p) = ri_atoms p"
  "ri_atoms (add_actions f p) = ri_atoms p"
  by (simp_all add: add_properties_def add_properties2_def add_types_def add_states_def
      add_actions_def)

text \<open>Each atom stands for one flag: first the atoms that the last, the second and the first of the
  three parts of the reader know, then the way through the parts before.\<close>

lemma window_announcement:
  assumes "interned A" "ri_atoms p = A"
  shows "support_window_property (A NET_WM_STRUT) p = add_properties WMStrut p"
    "support_window_property (A NET_WM_STRUT_PARTIAL) p = add_properties2 WM2ExtendedStrut p"
    "support_window_property (A NET_WM_ICON_GEOMETRY) p = add_properties WMIconGeometry p"
    "support_window_property (A NET_WM_ICON) p = add_properties WMIcon p"
    "support_window_property (A NET_WM_PID) p = add_properties WMPid p"
    "support_window_property (A NET_WM_HANDLED_ICONS) p = add_properties WMHandledIcons p"
    "support_window_property (A NET_WM_PING) p = add_properties WMPing p"
    "support_window_property (A NET_WM_USER_TIME) p = add_properties2 WM2UserTime p"
    "support_window_property (A NET_STARTUP_ID) p = add_properties2 WM2StartupId p"
    "support_window_property (A NET_WM_WINDOW_OPACITY) p = add_properties2 WM2Opacity p"
    "support_window_property (A NET_WM_FULLSCREEN_MONITORS) p = add_properties2 WM2FullscreenMonitors p"
    "support_window_property (A NET_WM_ALLOWED_ACTIONS) p = add_properties2 WM2AllowedActions p"
    "support_window_property (A NET_WM_ACTION_MOVE) p = add_actions ActionMove p"
    "support_window_property (A NET_WM_ACTION_RESIZE) p = add_actions ActionResize p"
    "support_window_property (A NET_WM_ACTION_MINIMIZE) p = add_actions ActionMinimize p"
    "support_window_property (A NET_WM_ACTION_SHADE) p = add_actions ActionShade p"
    "support_window_property (A NET_WM_ACTION_STICK) p = add_actions ActionStick p"
    "support_window_property (A NET_WM_ACTION_MAXIMIZE_VERT) p = add_actions ActionMaxVert p"
    "support_window_property (A NET_WM_ACTION_MAXIMIZE_HORZ) p = add_actions ActionMaxHoriz p"
    "support_window_property (A NET_WM_ACTION_FULLSCREEN) p = add_actions ActionFullScreen p"
    "support_window_property (A NET_WM_ACTION_CHANGE_DESKTOP) p = add_actions ActionChangeDesktop p"
    "support_window_property (A NET_WM_ACTION_CLOSE) p = add_actions ActionClose p"
    "support_window_property (A NET_FRAME_EXTENTS) p = add_properties WMFrameExtents p"
    "support_window_property (A KDE_NET_WM_FRAME_STRUT) p = add_properties WMFrameExtents p"
    "support_window_property (A NET_WM_FRAME_OVERLAP) p = add_properties2 WM2FrameOverlap p"
    "support_window_property (A KDE_NET_WM_TEMPORARY_RULES) p = add_properties2 WM2KDETemporaryRules p"
    "support_window_property (A NET_WM_FULL_PLACEMENT) p = add_properties2 WM2FullPlacement p"
    "support_window_property (A KDE_NET_WM_ACTIVITIES) p = add_properties2 WM2Activities p"
    "support_window_property (A KDE_NET_WM_BLOCK_COMPOSITING) p = add_properties2 WM2BlockCompositing p"
    "support_window_property (A NET_WM_BYPASS_COMPOSITOR) p = add_properties2 WM2BlockCompositing p"
    "support_window_property (A KDE_NET_WM_SHADOW) p = add_properties2 WM2KDEShadow p"
    "support_window_property (A NET_WM_OPAQUE_REGION) p = add_properties2 WM2OpaqueRegion p"
    "support_window_property (A GTK_FRAME_EXTENTS) p = add_properties2 WM2GTKFrameExtents p"
    "support_window_property (A GTK_SHOW_WINDOW_MENU) p = add_properties2 WM2GTKShowWindowMenu p"
    "support_window_property (A KDE_NET_WM_APPMENU_OBJECT_PATH) p = add_properties2 WM2AppMenuObjectPath p"
    "support_window_property (A KDE_NET_WM_APPMENU_SERVICE_NAME) p = add_properties2 WM2AppMenuServiceName p"
  by (simp_all add: support_window_property_def assms)

lemma type_announcement:
  assumes "interned A" "ri_atoms p = A"
  shows "support_type_or_state (A NET_WM_WINDOW_TYPE_NORMAL) p = add_types mask_normal p"
    "support_type_or_state (A NET_WM_WINDOW_TYPE_DESKTOP) p = add_types mask_desktop p"
    "support_type_or_state (A NET_WM_WINDOW_TYPE_DOCK) p = add_types mask_dock p"
    "support_type_or_state (A NET_WM_WINDOW_TYPE_TOOLBAR) p = add_types mask_toolbar p"
    "support_type_or_state (A NET_WM_WINDOW_TYPE_MENU) p = add_types mask_menu p"
    "support_type_or_state (A NET_WM_WINDOW_TYPE_DIALOG) p = add_types mask_dialog p"
    "support_type_or_state (A NET_WM_WINDOW_TYPE_UTILITY) p = add_types mask_utility p"
    "support_type_or_state (A NET_WM_WINDOW_TYPE_SPLASH) p = add_types mask_splash p"
    "support_type_or_state (A NET_WM_WINDOW_TYPE_DROPDOWN_MENU) p = add_types mask_dropdown_menu p"
    "support_type_or_state (A NET_WM_WINDOW_TYPE_POPUP_MENU) p = add_types mask_popup_menu p"
    "support_type_or_state (A NET_WM_WINDOW_TYPE_TOOLTIP) p = add_types mask_tooltip p"
    "support_type_or_state (A NET_WM_WINDOW_TYPE_NOTIFICATION) p = add_types mask_notification p"
    "support_type_or_state (A NET_WM_WINDOW_TYPE_COMBO) p = add_types mask_combo_box p"
    "support_type_or_state (A NET_WM_WINDOW_TYPE_DND) p = add_types mask_dnd_icon p"
    "support_type_or_state (A KDE_NET_WM_WINDOW_TYPE_OVERRIDE) p = add_types mask_override p"
    "support_type_or_state (A KDE_NET_WM_WINDOW_TYPE_TOPMENU) p = add_types mask_top_menu p"
    "support_type_or_state (A KDE_NET_WM_WINDOW_TYPE_ON_SCREEN_DISPLAY) p = add_types mask_on_screen_display p"
    "support_type_or_state (A KDE_NET_WM_WINDOW_TYPE_CRITICAL_NOTIFICATION) p = add_types mask_critical_notification p"
    "support_type_or_state (A KDE_NET_WM_WINDOW_TYPE_APPLET_POPUP) p = add_types mask_applet_popup p"
    "support_type_or_state (A NET_WM_STATE) p = add_properties WMState p"
    "support_type_or_state (A NET_WM_STATE_MODAL) p = add_states Modal p"
    "support_type_or_state (A NET_WM_STATE_STICKY) p = add_states Sticky p"
    "support_type_or_state (A NET_WM_STATE_MAXIMIZED_VERT) p = add_states MaxVert p"
    "support_type_or_state (A NET_WM_STATE_MAXIMIZED_HORZ) p = add_states MaxHoriz p"
    "support_type_or_state (A NET_WM_STATE_SHADED) p = add_states Shaded p"
    "support_type_or_state (A NET_WM_STATE_SKIP_TASKBAR) p = add_states SkipTaskbar p"
    "support_type_or_state (A NET_WM_STATE_SKIP_PAGER) p = add_states SkipPager p"
    "support_type_or_state (A KDE_NET_WM_STATE_SKIP_SWITCHER) p = add_states SkipSwitcher p"
    "support_type_or_state (A NET_WM_STATE_HIDDEN) p = add_states Hidden p"
    "support_type_or_state (A NET_WM_STATE_FULLSCREEN) p = add_states FullScreen p"
    "support_type_or_state (A NET_WM_STATE_ABOVE) p = add_states KeepAbove p"
    "support_type_or_state (A NET_WM_STATE_BELOW) p = add_states KeepBelow p"
    "support_type_or_state (A NET_WM_STATE_DEMANDS_ATTENTION) p = add_states DemandsAttention p"
    "support_type_or_state (A NET_WM_STATE_STAYS_ON_TOP) p = add_states KeepAbove p"
    "support_type_or_state (A NET_WM_STATE_FOCUSED) p = add_states Focused p"
  by (simp_all add: support_type_or_state_def assms)

lemma not_a_root_announcement:
  assumes "interned A" "ri_atoms p = A" "0 \<le> a" "a < KwsAtomCount"
    and "a \<notin> {
         NET_SUPPORTED, NET_SUPPORTING_WM_CHECK, NET_CLIENT_LIST,
         NET_CLIENT_LIST_STACKING, NET_NUMBER_OF_DESKTOPS, NET_DESKTOP_GEOMETRY,
         NET_DESKTOP_VIEWPORT, NET_CURRENT_DESKTOP, NET_DESKTOP_NAMES, NET_ACTIVE_WINDOW,
         NET_WORKAREA, NET_VIRTUAL_ROOTS, NET_DESKTOP_LAYOUT, NET_CLOSE_WINDOW,
         NET_RESTACK_WINDOW, NET_SHOWING_DESKTOP, NET_WM_MOVERESIZE,
         NET_MOVERESIZE_WINDOW, NET_WM_NAME, NET_WM_VISIBLE_NAME, NET_WM_ICON_NAME,
         NET_WM_VISIBLE_ICON_NAME, NET_WM_DESKTOP, NET_WM_WINDOW_TYPE}"
  shows "updateSupportedProperties (A a) p = support_type_or_state (A a) p"
  using assms by (simp add: updateSupportedProperties_def)

lemma not_a_type_announcement:
  assumes "interned A" "ri_atoms p = A" "0 \<le> a" "a < KwsAtomCount"
    and "a \<notin> {
         NET_WM_WINDOW_TYPE_NORMAL, NET_WM_WINDOW_TYPE_DESKTOP, NET_WM_WINDOW_TYPE_DOCK,
         NET_WM_WINDOW_TYPE_TOOLBAR, NET_WM_WINDOW_TYPE_MENU, NET_WM_WINDOW_TYPE_DIALOG,
         NET_WM_WINDOW_TYPE_UTILITY, NET_WM_WINDOW_TYPE_SPLASH,
         NET_WM_WINDOW_TYPE_DROPDOWN_MENU, NET_WM_WINDOW_TYPE_POPUP_MENU,
         NET_WM_WINDOW_TYPE_TOOLTIP, NET_WM_WINDOW_TYPE_NOTIFICATION,
         NET_WM_WINDOW_TYPE_COMBO, NET_WM_WINDOW_TYPE_DND,
         KDE_NET_WM_WINDOW_TYPE_OVERRIDE, KDE_NET_WM_WINDOW_TYPE_TOPMENU,
         KDE_NET_WM_WINDOW_TYPE_ON_SCREEN_DISPLAY,
         KDE_NET_WM_WINDOW_TYPE_CRITICAL_NOTIFICATION,
         KDE_NET_WM_WINDOW_TYPE_APPLET_POPUP, NET_WM_STATE, NET_WM_STATE_MODAL,
         NET_WM_STATE_STICKY, NET_WM_STATE_MAXIMIZED_VERT, NET_WM_STATE_MAXIMIZED_HORZ,
         NET_WM_STATE_SHADED, NET_WM_STATE_SKIP_TASKBAR, NET_WM_STATE_SKIP_PAGER,
         KDE_NET_WM_STATE_SKIP_SWITCHER, NET_WM_STATE_HIDDEN, NET_WM_STATE_FULLSCREEN,
         NET_WM_STATE_ABOVE, NET_WM_STATE_BELOW, NET_WM_STATE_DEMANDS_ATTENTION,
         NET_WM_STATE_STAYS_ON_TOP, NET_WM_STATE_FOCUSED}"
  shows "support_type_or_state (A a) p = support_window_property (A a) p"
  using assms by (simp add: support_type_or_state_def)

lemma root_announcement:
  assumes "interned A" "ri_atoms p = A"
  shows "guarded b (updateSupportedProperties (A NET_SUPPORTED)) p = guarded b (add_properties Supported) p"
    "guarded b (updateSupportedProperties (A NET_SUPPORTING_WM_CHECK)) p = guarded b (add_properties SupportingWMCheck) p"
    "guarded b (updateSupportedProperties (A NET_CLIENT_LIST)) p = guarded b (add_properties ClientList) p"
    "guarded b (updateSupportedProperties (A NET_CLIENT_LIST_STACKING)) p = guarded b (add_properties ClientListStacking) p"
    "guarded b (updateSupportedProperties (A NET_NUMBER_OF_DESKTOPS)) p = guarded b (add_properties NumberOfDesktops) p"
    "guarded b (updateSupportedProperties (A NET_DESKTOP_GEOMETRY)) p = guarded b (add_properties DesktopGeometry) p"
    "guarded b (updateSupportedProperties (A NET_DESKTOP_VIEWPORT)) p = guarded b (add_properties DesktopViewport) p"
    "guarded b (updateSupportedProperties (A NET_CURRENT_DESKTOP)) p = guarded b (add_properties CurrentDesktop) p"
    "guarded b (updateSupportedProperties (A NET_DESKTOP_NAMES)) p = guarded b (add_properties DesktopNames) p"
    "guarded b (updateSupportedProperties (A NET_ACTIVE_WINDOW)) p = guarded b (add_properties ActiveWindow) p"
    "guarded b (updateSupportedProperties (A NET_WORKAREA)) p = guarded b (add_properties WorkArea) p"
    "guarded b (updateSupportedProperties (A NET_VIRTUAL_ROOTS)) p = guarded b (add_properties VirtualRoots) p"
    "guarded b (updateSupportedProperties (A NET_DESKTOP_LAYOUT)) p = guarded b (add_properties2 WM2DesktopLayout) p"
    "guarded b (updateSupportedProperties (A NET_CLOSE_WINDOW)) p = guarded b (add_properties CloseWindow) p"
    "guarded b (updateSupportedProperties (A NET_RESTACK_WINDOW)) p = guarded b (add_properties2 WM2RestackWindow) p"
    "guarded b (updateSupportedProperties (A NET_SHOWING_DESKTOP)) p = guarded b (add_properties2 WM2ShowingDesktop) p"
    "guarded b (updateSupportedProperties (A NET_WM_MOVERESIZE)) p = guarded b (add_properties WMMoveResize) p"
    "guarded b (updateSupportedProperties (A NET_MOVERESIZE_WINDOW)) p = guarded b (add_properties2 WM2MoveResizeWindow) p"
    "guarded b (updateSupportedProperties (A NET_WM_NAME)) p = guarded b (add_properties WMName) p"
    "guarded b (updateSupportedProperties (A NET_WM_VISIBLE_NAME)) p = guarded b (add_properties WMVisibleName) p"
    "guarded b (updateSupportedProperties (A NET_WM_ICON_NAME)) p = guarded b (add_properties WMIconName) p"
    "guarded b (updateSupportedProperties (A NET_WM_VISIBLE_ICON_NAME)) p = guarded b (add_properties WMVisibleIconName) p"
    "guarded b (updateSupportedProperties (A NET_WM_DESKTOP)) p = guarded b (add_properties WMDesktop) p"
    "guarded b (updateSupportedProperties (A NET_WM_WINDOW_TYPE)) p = guarded b (add_properties WMWindowType) p"
  by (simp_all add: guarded_def updateSupportedProperties_def assms)

lemma type_announcement_passed:
  assumes "interned A" "ri_atoms p = A"
  shows "guarded b (updateSupportedProperties (A NET_WM_WINDOW_TYPE_NORMAL)) p = guarded b (add_types mask_normal) p"
    "guarded b (updateSupportedProperties (A NET_WM_WINDOW_TYPE_DESKTOP)) p = guarded b (add_types mask_desktop) p"
    "guarded b (updateSupportedProperties (A NET_WM_WINDOW_TYPE_DOCK)) p = guarded b (add_types mask_dock) p"
    "guarded b (updateSupportedProperties (A NET_WM_WINDOW_TYPE_TOOLBAR)) p = guarded b (add_types mask_toolbar) p"
    "guarded b (updateSupportedProperties (A NET_WM_WINDOW_TYPE_MENU)) p = guarded b (add_types mask_menu) p"
    "guarded b (updateSupportedProperties (A NET_WM_WINDOW_TYPE_DIALOG)) p = guarded b (add_types mask_dialog) p"
    "guarded b (updateSupportedProperties (A NET_WM_WINDOW_TYPE_UTILITY)) p = guarded b (add_types mask_utility) p"
    "guarded b (updateSupportedProperties (A NET_WM_WINDOW_TYPE_SPLASH)) p = guarded b (add_types mask_splash) p"
    "guarded b (updateSupportedProperties (A NET_WM_WINDOW_TYPE_DROPDOWN_MENU)) p = guarded b (add_types mask_dropdown_menu) p"
    "guarded b (updateSupportedProperties (A NET_WM_WINDOW_TYPE_POPUP_MENU)) p = guarded b (add_types mask_popup_menu) p"
    "guarded b (updateSupportedProperties (A NET_WM_WINDOW_TYPE_TOOLTIP)) p = guarded b (add_types mask_tooltip) p"
    "guarded b (updateSupportedProperties (A NET_WM_WINDOW_TYPE_NOTIFICATION)) p = guarded b (add_types mask_notification) p"
    "guarded b (updateSupportedProperties (A NET_WM_WINDOW_TYPE_COMBO)) p = guarded b (add_types mask_combo_box) p"
    "guarded b (updateSupportedProperties (A NET_WM_WINDOW_TYPE_DND)) p = guarded b (add_types mask_dnd_icon) p"
    "guarded b (updateSupportedProperties (A KDE_NET_WM_WINDOW_TYPE_OVERRIDE)) p = guarded b (add_types mask_override) p"
    "guarded b (updateSupportedProperties (A KDE_NET_WM_WINDOW_TYPE_TOPMENU)) p = guarded b (add_types mask_top_menu) p"
    "guarded b (updateSupportedProperties (A KDE_NET_WM_WINDOW_TYPE_ON_SCREEN_DISPLAY)) p = guarded b (add_types mask_on_screen_display) p"
    "guarded b (updateSupportedProperties (A KDE_NET_WM_WINDOW_TYPE_CRITICAL_NOTIFICATION)) p = guarded b (add_types mask_critical_notification) p"
    "guarded b (updateSupportedProperties (A KDE_NET_WM_WINDOW_TYPE_APPLET_POPUP)) p = guarded b (add_types mask_applet_popup) p"
    "guarded b (updateSupportedProperties (A NET_WM_STATE)) p = guarded b (add_properties WMState) p"
    "guarded b (updateSupportedProperties (A NET_WM_STATE_MODAL)) p = guarded b (add_states Modal) p"
    "guarded b (updateSupportedProperties (A NET_WM_STATE_STICKY)) p = guarded b (add_states Sticky) p"
    "guarded b (updateSupportedProperties (A NET_WM_STATE_MAXIMIZED_VERT)) p = guarded b (add_states MaxVert) p"
    "guarded b (updateSupportedProperties (A NET_WM_STATE_MAXIMIZED_HORZ)) p = guarded b (add_states MaxHoriz) p"
    "guarded b (updateSupportedProperties (A NET_WM_STATE_SHADED)) p = guarded b (add_states Shaded) p"
    "guarded b (updateSupportedProperties (A NET_WM_STATE_SKIP_TASKBAR)) p = guarded b (add_states SkipTaskbar) p"
    "guarded b (updateSupportedProperties (A NET_WM_STATE_SKIP_PAGER)) p = guarded b (add_states SkipPager) p"
    "guarded b (updateSupportedProperties (A KDE_NET_WM_STATE_SKIP_SWITCHER)) p = guarded b (add_states SkipSwitcher) p"
    "guarded b (updateSupportedProperties (A NET_WM_STATE_HIDDEN)) p = guarded b (add_states Hidden) p"
    "guarded b (updateSupportedProperties (A NET_WM_STATE_FULLSCREEN)) p = guarded b (add_states FullScreen) p"
    "guarded b (updateSupportedProperties (A NET_WM_STATE_ABOVE)) p = guarded b (add_states KeepAbove) p"
    "guarded b (updateSupportedProperties (A NET_WM_STATE_BELOW)) p = guarded b (add_states KeepBelow) p"
    "guarded b (updateSupportedProperties (A NET_WM_STATE_DEMANDS_ATTENTION)) p = guarded b (add_states DemandsAttention) p"
    "guarded b (updateSupportedProperties (A NET_WM_STATE_STAYS_ON_TOP)) p = guarded b (add_states KeepAbove) p"
    "guarded b (updateSupportedProperties (A NET_WM_STATE_FOCUSED)) p = guarded b (add_states Focused) p"
  by (simp_all add: guarded_def not_a_root_announcement type_announcement assms)

lemma window_announcement_passed:
  assumes "interned A" "ri_atoms p = A"
  shows "guarded b (updateSupportedProperties (A NET_WM_STRUT)) p = guarded b (add_properties WMStrut) p"
    "guarded b (updateSupportedProperties (A NET_WM_STRUT_PARTIAL)) p = guarded b (add_properties2 WM2ExtendedStrut) p"
    "guarded b (updateSupportedProperties (A NET_WM_ICON_GEOMETRY)) p = guarded b (add_properties WMIconGeometry) p"
    "guarded b (updateSupportedProperties (A NET_WM_ICON)) p = guarded b (add_properties WMIcon) p"
    "guarded b (updateSupportedProperties (A NET_WM_PID)) p = guarded b (add_properties WMPid) p"
    "guarded b (updateSupportedProperties (A NET_WM_HANDLED_ICONS)) p = guarded b (add_properties WMHandledIcons) p"
    "guarded b (updateSupportedProperties (A NET_WM_PING)) p = guarded b (add_properties WMPing) p"
    "guarded b (updateSupportedProperties (A NET_WM_USER_TIME)) p = guarded b (add_properties2 WM2UserTime) p"
    "guarded b (updateSupportedProperties (A NET_STARTUP_ID)) p = guarded b (add_properties2 WM2StartupId) p"
    "guarded b (updateSupportedProperties (A NET_WM_WINDOW_OPACITY)) p = guarded b (add_properties2 WM2Opacity) p"
    "guarded b (updateSupportedProperties (A NET_WM_FULLSCREEN_MONITORS)) p = guarded b (add_properties2 WM2FullscreenMonitors) p"
    "guarded b (updateSupportedProperties (A NET_WM_ALLOWED_ACTIONS)) p = guarded b (add_properties2 WM2AllowedActions) p"
    "guarded b (updateSupportedProperties (A NET_WM_ACTION_MOVE)) p = guarded b (add_actions ActionMove) p"
    "guarded b (updateSupportedProperties (A NET_WM_ACTION_RESIZE)) p = guarded b (add_actions ActionResize) p"
    "guarded b (updateSupportedProperties (A NET_WM_ACTION_MINIMIZE)) p = guarded b (add_actions ActionMinimize) p"
    "guarded b (updateSupportedProperties (A NET_WM_ACTION_SHADE)) p = guarded b (add_actions ActionShade) p"
    "guarded b (updateSupportedProperties (A NET_WM_ACTION_STICK)) p = guarded b (add_actions ActionStick) p"
    "guarded b (updateSupportedProperties (A NET_WM_ACTION_MAXIMIZE_VERT)) p = guarded b (add_actions ActionMaxVert) p"
    "guarded b (updateSupportedProperties (A NET_WM_ACTION_MAXIMIZE_HORZ)) p = guarded b (add_actions ActionMaxHoriz) p"
    "guarded b (updateSupportedProperties (A NET_WM_ACTION_FULLSCREEN)) p = guarded b (add_actions ActionFullScreen) p"
    "guarded b (updateSupportedProperties (A NET_WM_ACTION_CHANGE_DESKTOP)) p = guarded b (add_actions ActionChangeDesktop) p"
    "guarded b (updateSupportedProperties (A NET_WM_ACTION_CLOSE)) p = guarded b (add_actions ActionClose) p"
    "guarded b (updateSupportedProperties (A NET_FRAME_EXTENTS)) p = guarded b (add_properties WMFrameExtents) p"
    "guarded b (updateSupportedProperties (A KDE_NET_WM_FRAME_STRUT)) p = guarded b (add_properties WMFrameExtents) p"
    "guarded b (updateSupportedProperties (A NET_WM_FRAME_OVERLAP)) p = guarded b (add_properties2 WM2FrameOverlap) p"
    "guarded b (updateSupportedProperties (A KDE_NET_WM_TEMPORARY_RULES)) p = guarded b (add_properties2 WM2KDETemporaryRules) p"
    "guarded b (updateSupportedProperties (A NET_WM_FULL_PLACEMENT)) p = guarded b (add_properties2 WM2FullPlacement) p"
    "guarded b (updateSupportedProperties (A KDE_NET_WM_ACTIVITIES)) p = guarded b (add_properties2 WM2Activities) p"
    "guarded b (updateSupportedProperties (A KDE_NET_WM_BLOCK_COMPOSITING)) p = guarded b (add_properties2 WM2BlockCompositing) p"
    "guarded b (updateSupportedProperties (A NET_WM_BYPASS_COMPOSITOR)) p = guarded b (add_properties2 WM2BlockCompositing) p"
    "guarded b (updateSupportedProperties (A KDE_NET_WM_SHADOW)) p = guarded b (add_properties2 WM2KDEShadow) p"
    "guarded b (updateSupportedProperties (A NET_WM_OPAQUE_REGION)) p = guarded b (add_properties2 WM2OpaqueRegion) p"
    "guarded b (updateSupportedProperties (A GTK_FRAME_EXTENTS)) p = guarded b (add_properties2 WM2GTKFrameExtents) p"
    "guarded b (updateSupportedProperties (A GTK_SHOW_WINDOW_MENU)) p = guarded b (add_properties2 WM2GTKShowWindowMenu) p"
    "guarded b (updateSupportedProperties (A KDE_NET_WM_APPMENU_OBJECT_PATH)) p = guarded b (add_properties2 WM2AppMenuObjectPath) p"
    "guarded b (updateSupportedProperties (A KDE_NET_WM_APPMENU_SERVICE_NAME)) p = guarded b (add_properties2 WM2AppMenuServiceName) p"
  by (simp_all add: guarded_def not_a_root_announcement not_a_type_announcement
      window_announcement assms)

lemmas announcements = root_announcement type_announcement_passed window_announcement_passed

text \<open>Additions under a condition, joined and in a fixed order.\<close>

lemma fold_support:
  "fold f (support b a @ xs) p = fold f xs (guarded b (f a) p)"
  "fold f (support b a) p = guarded b (f a) p"
  by (simp_all add: support_def guarded_def)

lemma flag_or_zero [simp]: "flag_or v 0 = v" "flag_or 0 v = v"
  by (simp_all add: flag_defs)

lemma add_zero:
  "add_properties 0 p = p" "add_properties2 0 p = p" "add_types 0 p = p" "add_states 0 p = p"
  "add_actions 0 p = p"
  by (simp_all add: add_properties_def add_properties2_def add_types_def add_states_def
      add_actions_def)

lemma guarded_add:
  "guarded b (add_properties f) p = add_properties (if b then f else 0) p"
  "guarded b (add_properties2 f) p = add_properties2 (if b then f else 0) p"
  "guarded b (add_types f) p = add_types (if b then f else 0) p"
  "guarded b (add_states f) p = add_states (if b then f else 0) p"
  "guarded b (add_actions f) p = add_actions (if b then f else 0) p"
  by (simp_all add: guarded_def add_zero)

lemma add_add:
  "add_properties g (add_properties f p) = add_properties (flag_or f g) p"
  "add_properties2 g (add_properties2 f p) = add_properties2 (flag_or f g) p"
  "add_properties2 g (add_properties2 f (add_properties h p)) = add_properties2 (flag_or f g) (add_properties h p)"
  "add_properties g (add_properties2 f p) = add_properties2 f (add_properties g p)"
  "add_types g (add_types f p) = add_types (flag_or f g) p"
  "add_states g (add_states f p) = add_states (flag_or f g) p"
  "add_actions g (add_actions f p) = add_actions (flag_or f g) p"
  by (simp_all add: add_properties_def add_properties2_def add_types_def add_states_def
      add_actions_def flag_or_assoc)

lemma flag_if_single: "(if has w (push_bit n 1) then push_bit n 1 else 0) = flag_and w (push_bit n 1)"
  by (simp only: flag_and_push_bit has_push_bit)

lemma flag_and_idem: "flag_or (flag_and v w) (flag_or (flag_and v w) x) = flag_or (flag_and v w) x"
    "flag_or (flag_and v w) (flag_and v w) = flag_and v w"
    "flag_or w (flag_or w x) = flag_or w x" "flag_or w w = w"
  by (simp_all add: flag_defs or.assoc [symmetric])

text \<open>The parts of the list, one by one.\<close>

lemmas reading_steps = fold_support guarded_add ri_atoms_add add_add flag_if_single flag_and_or flag_or_assoc

lemma root_atoms_read:
  assumes "interned A" "ri_atoms p = A" "ri_atoms q = A"
  shows "fold updateSupportedProperties (supported_root_atoms p @ xs) q
    = fold updateSupportedProperties xs
        (add_properties2 (flag_and (ri_properties2 p) root_announced2)
          (add_properties (flag_and (ri_properties p) root_announced) q))"
  unfolding supported_root_atoms_def append_assoc assms(2)
  by (simp only: reading_steps assms(3) announcements [OF assms(1)] property_flags property2_flags
      root_announced_def root_announced2_def)

lemma window_atoms_read:
  assumes "interned A" "ri_atoms p = A" "ri_atoms q = A"
  shows "fold updateSupportedProperties (supported_window_atoms p @ xs) q
    = fold updateSupportedProperties xs
        (add_properties2 (flag_and (ri_properties2 p) window_announced2)
          (add_properties (flag_and (ri_properties p) window_announced) q))"
  unfolding supported_window_atoms_def append_assoc assms(2)
  by (simp only: reading_steps assms(3) announcements [OF assms(1)] property_flags property2_flags
      window_announced_def window_announced2_def)

lemma extension_atoms_read:
  assumes "interned A" "ri_atoms p = A" "ri_atoms q = A"
  shows "fold updateSupportedProperties (supported_extension_atoms p) q
    = add_properties2 (flag_and (ri_properties2 p) extension_announced2)
        (add_properties (flag_and (ri_properties p) extension_announced) q)"
  unfolding supported_extension_atoms_def append_assoc assms(2)
  by (simp only: reading_steps assms(3) announcements [OF assms(1)] property_flags property2_flags
      extension_announced_def extension_announced2_def flag_and_idem)

lemma state_atoms_read:
  assumes "interned A" "ri_atoms p = A" "ri_atoms q = A"
  shows "fold updateSupportedProperties (supported_state_atoms p @ xs) q
    = fold updateSupportedProperties xs (add_states (flag_and (ri_states p) announced_states) q)"
  unfolding supported_state_atoms_def append_assoc assms(2)
  by (simp only: reading_steps assms(3) announcements [OF assms(1)] state_flags announced_states_def
      flag_and_idem)

lemma action_atoms_read:
  assumes "interned A" "ri_atoms p = A" "ri_atoms q = A"
  shows "fold updateSupportedProperties (supported_action_atoms p @ xs) q
    = fold updateSupportedProperties xs (add_actions (flag_and (ri_actions p) all_actions) q)"
  unfolding supported_action_atoms_def append_assoc assms(2)
  by (simp only: reading_steps assms(3) announcements [OF assms(1)] action_flags all_actions_def)

lemma type_atoms_read:
  assumes "interned A" "ri_atoms p = A" "ri_atoms q = A"
  shows "fold updateSupportedProperties (supported_type_atoms p @ xs) q
    = fold updateSupportedProperties xs (add_types (flag_and (ri_windowTypes p) all_types) q)"
  unfolding supported_type_atoms_def append_assoc assms(2)
  by (simp only: reading_steps assms(3) announcements [OF assms(1)] mask_defs all_types_def)

text \<open>The whole list.\<close>

lemma announced_states_eq: "announced_states = all_states"
  by (simp add: announced_states_def all_states_def flag_defs state_flags)

definition announced_sets :: "root_info \<Rightarrow> flag \<times> flag \<times> flag \<times> flag \<times> flag" where
  "announced_sets p =
     (flag_or (flag_or Supported SupportingWMCheck)
        (flag_and (ri_properties p)
           (flag_or root_announced (flag_or WMState (flag_or window_announced extension_announced)))),
      flag_and (ri_properties2 p)
        (flag_or root_announced2 (flag_or window_announced2 extension_announced2)),
      if has (ri_properties p) WMWindowType then flag_and (ri_windowTypes p) all_types else 0,
      if has (ri_properties p) WMState then flag_and (ri_states p) all_states else 0,
      if has (ri_properties2 p) WM2AllowedActions then flag_and (ri_actions p) all_actions else 0)"

definition supported_sets :: "root_info \<Rightarrow> flag \<times> flag \<times> flag \<times> flag \<times> flag" where
  "supported_sets p =
     (ri_properties p, ri_properties2 p, ri_windowTypes p, ri_states p, ri_actions p)"

lemma fold_nothing: "fold f [] q = q"
  by simp

lemma fold_if: "fold f ((if b then xs else []) @ ys) q = fold f ys (if b then fold f xs q else q)"
  by simp

lemmas supported_folds =
  root_atoms_read window_atoms_read extension_atoms_read
  type_atoms_read [where xs = "[]", unfolded append_Nil2 fold_nothing]
  state_atoms_read [where xs = "[]", unfolded append_Nil2 fold_nothing]
  action_atoms_read [where xs = "[]", unfolded append_Nil2 fold_nothing]

lemma ri_atoms_if: "ri_atoms (if b then p else q) = (if b then ri_atoms p else ri_atoms q)"
  by simp

lemma if_add:
  "(if b then add_types f p else p) = add_types (if b then f else 0) p"
  "(if b then add_states f p else p) = add_states (if b then f else 0) p"
  "(if b then add_actions f p else p) = add_actions (if b then f else 0) p"
  by (simp_all add: add_zero)

lemma supported_sets_add:
  "supported_sets (add_properties f p) = (case supported_sets p of (a, r) \<Rightarrow> (flag_or a f, r))"
  "supported_sets (add_properties2 f p) = (case supported_sets p of (a, b, r) \<Rightarrow> (a, flag_or b f, r))"
  "supported_sets (add_types f p) = (case supported_sets p of (a, b, c, r) \<Rightarrow> (a, b, flag_or c f, r))"
  "supported_sets (add_states f p) =
     (case supported_sets p of (a, b, c, d, r) \<Rightarrow> (a, b, c, flag_or d f, r))"
  "supported_sets (add_actions f p) =
     (case supported_sets p of (a, b, c, d, r) \<Rightarrow> (a, b, c, d, flag_or r f))"
  by (simp_all add: supported_sets_def add_properties_def add_properties2_def add_types_def
      add_states_def add_actions_def)

lemma supported_atoms_read:
  assumes "interned A" "ri_atoms p = A" "ri_atoms q = A" "supported_sets q = (0, 0, 0, 0, 0)"
  shows "supported_sets (fold updateSupportedProperties (supported_atoms p) q) = announced_sets p"
proof -
  have first: "fold updateSupportedProperties ([A NET_SUPPORTED, A NET_SUPPORTING_WM_CHECK] @ xs) q
      = fold updateSupportedProperties xs (add_properties (flag_or Supported SupportingWMCheck) q)" for xs
    using root_announcement(1,2) [OF assms(1), where b = True] assms(3)
    by (simp add: guarded_def add_add)
  have state: "fold updateSupportedProperties (support b (A NET_WM_STATE) @ xs) s
      = fold updateSupportedProperties xs (add_properties (if b then WMState else 0) s)"
    if "ri_atoms s = A" for b xs s
    unfolding fold_support by (simp only: announcements [OF assms(1) that] guarded_add)
  have single: "(if has w WMState then WMState else 0) = flag_and w WMState" for w
    unfolding property_flags by (rule flag_if_single)
  show ?thesis
    unfolding supported_atoms_def assms(2) first
    by (simp only: fold_if state supported_folds [OF assms(1,2)] assms(3) ri_atoms_add if_add
        supported_sets_add assms(4) split_beta fst_conv snd_conv single flag_or_zero announced_sets_def
        flag_and_or flag_or_assoc announced_states_eq)
qed

section \<open>Updates of a single property\<close>

lemma ask_simps: "ask True r = [r]" "ask False r = []"
  by (simp_all add: ask_def)

lemma on_reply_simps:
  "on_reply serve False store s = s"
  "on_reply serve True store ([r], p) = ([], store (serve r) p)"
  by (simp_all add: on_reply_def fetch_def split: prod.splits)

lemma root_read_workarea_simps:
  "\<not> has dirty WorkArea \<Longrightarrow> root_read_workarea serve dirty s = Some s"
  by (cases s) (simp add: root_read_workarea_def)

lemma read_wm_name_simps: "\<not> has dirty SupportingWMCheck \<Longrightarrow> read_wm_name serve dirty p = p"
  by (simp add: read_wm_name_def)

lemmas root_eval = root_update_def Let_def root_requests_before_def root_requests_after_def
  root_read_before_def root_read_after_def on_root_reply_def root_read_workarea_def read_wm_name_def

lemmas root_steps = ask_simps on_reply_simps append_Nil append_Nil2 apfst_conv snd_conv fst_conv
  bind.bind_lunit option.case prod.case not_False_eq_True simp_thms

lemma root_update_supported:
  "has (ri_clientProperties p) Supported \<Longrightarrow> root_update serve Supported 0 p
   = Some (store_supported (serve (root_property p NET_SUPPORTED XCB_ATOM_ATOM MAX_PROP_SIZE)) p, [])"
  by (simp only: root_eval flag_eval flag_and_single root_steps cong: if_cong)

lemma root_update_clients:
  "has (ri_clientProperties p) ClientList \<Longrightarrow> root_update serve ClientList 0 p
   = Some (store_clients (serve (root_property p NET_CLIENT_LIST XCB_ATOM_WINDOW MAX_PROP_SIZE)) (p, []))"
  by (cases "store_clients
      (serve (root_property p NET_CLIENT_LIST XCB_ATOM_WINDOW MAX_PROP_SIZE)) (p, [])")
    (simp only: root_eval flag_eval flag_and_single root_steps cong: if_cong)

lemma root_update_desktop_names:
  "has (ri_clientProperties p) DesktopNames \<Longrightarrow> root_update serve DesktopNames 0 p
   = Some (store_desktop_names
       (serve (root_property p NET_DESKTOP_NAMES (ri_atoms p UTF8_STRING) MAX_PROP_SIZE)) p, [])"
  by (simp only: root_eval flag_eval flag_and_single root_steps cong: if_cong)

lemma root_update_workarea:
  "has (ri_clientProperties p) WorkArea \<Longrightarrow> root_update serve WorkArea 0 p
   = map_option (\<lambda>p. (p, [])) (store_workarea (serve (workarea_request p)) p)"
  by (cases "store_workarea (serve (workarea_request p)) p")
    (simp_all only: root_eval flag_eval flag_and_single root_steps fetch_def list.case option.map
      bind.bind_lzero cong: if_cong)

lemma root_update_virtual_roots:
  "has (ri_clientProperties p) VirtualRoots \<Longrightarrow> root_update serve VirtualRoots 0 p
   = Some (store_virtual_roots (serve (root_property p NET_VIRTUAL_ROOTS XCB_ATOM_WINDOW 1)) p, [])"
  by (simp only: root_eval flag_eval flag_and_single root_steps cong: if_cong)

lemma root_update_desktop_layout:
  "has (ri_clientProperties2 p) WM2DesktopLayout \<Longrightarrow> root_update serve 0 WM2DesktopLayout p
   = Some (store_desktop_layout
       (serve (root_property p NET_DESKTOP_LAYOUT XCB_ATOM_CARDINAL MAX_PROP_SIZE)) p, [])"
  by (simp only: root_eval flag_eval flag_and_single root_steps cong: if_cong)

section \<open>What the server answers\<close>

definition same_root :: "root_info \<Rightarrow> root_info \<Rightarrow> bool" where
  "same_root q p \<longleftrightarrow> ri_root q = ri_root p \<and> ri_atoms q = ri_atoms p"

lemma answers_root_change:
  assumes "answers serve out" "root_change p a ty data \<in> set out" "same_root q p" "fits data len"
  shows "serve (root_property q a ty len) = Some \<lparr>reply_type = ty, reply_data = data\<rparr>"
  using assms unfolding answers_def root_change_def root_property_def same_root_def by metis

section \<open>The lists of clients\<close>

lemma client_diff_filter:
  assumes "sorted olds" "distinct olds" "sorted news" "distinct news"
  shows "client_diff olds news
    = (filter (\<lambda>w. w \<notin> set news) olds, filter (\<lambda>w. w \<notin> set olds) news)"
  using assms
proof (induction olds news rule: client_diff.induct)
  case (3 old olds new news)
  consider "old < new" | "new < old" | "old = new" by (rule linorder_less_linear [THEN disjE]) auto
  then show ?case
  proof cases
    case 1
    then have "old \<notin> set (new # news)" using "3.prems" by auto
    moreover have "filter (\<lambda>w. w \<notin> set (old # olds)) (new # news) = filter (\<lambda>w. w \<notin> set olds) (new # news)"
      using calculation by (intro filter_cong) auto
    ultimately show ?thesis using "3.IH"(1) "3.prems" 1 by simp
  next
    case 2
    then have "new \<notin> set (old # olds)" using "3.prems" by auto
    moreover have "filter (\<lambda>w. w \<notin> set (new # news)) (old # olds) = filter (\<lambda>w. w \<notin> set news) (old # olds)"
      using calculation by (intro filter_cong) auto
    moreover have "\<not> old < new" using 2 by simp
    ultimately show ?thesis using "3.IH"(2) "3.prems" 2 by (simp add: less_not_sym)
  next
    case 3
    then have "old \<notin> set news" "old \<notin> set olds" using "3.prems" by auto
    moreover have "filter (\<lambda>w. w \<notin> set (old # news)) olds = filter (\<lambda>w. w \<notin> set news) olds"
        "filter (\<lambda>w. w \<notin> set (old # olds)) news = filter (\<lambda>w. w \<notin> set olds) news"
      using calculation by (auto intro!: filter_cong)
    ultimately show ?thesis using "3.IH"(3) "3.prems" 3 by simp
  qed
qed auto

end
