(* ===== verification/Root_Info_Theorems.thy ===== *)
theory Root_Info_Theorems
  imports Root_Info_Props
begin

text \<open>
  The properties of the root window info: what the window manager announces is what a client finds
  supported, the requests of a client reach the window manager's handlers, a client that listens to
  the changes of the client list knows the clients, and what goes through the server unchanged.
\<close>

section \<open>What is supported\<close>

lemma length_support: "length (support b a) \<le> 1"
  by (simp add: support_def)

lemma length_if: "length xs \<le> n \<Longrightarrow> length (if b then xs else []) \<le> n"
  by simp

lemma supported_lengths:
  "length (supported_root_atoms p) \<le> 22" "length (supported_type_atoms p) \<le> 19"
  "length (supported_state_atoms p) \<le> 15" "length (supported_window_atoms p) \<le> 12"
  "length (supported_action_atoms p) \<le> 10" "length (supported_extension_atoms p) \<le> 12"
proof -
  have "length (supported_root_atoms p) \<le> 1 + (1 + (1 + (1 + (1 + (1 + (1 + (1 + (1 + (1 + (1 + (1 + (1 + (1 + (1 + (1 + (1 + (1 + (1 + (1 + (1 + (1)))))))))))))))))))))"
    unfolding supported_root_atoms_def length_append by (intro add_mono length_support)
  then show "length (supported_root_atoms p) \<le> 22" by simp
  have "length (supported_type_atoms p) \<le> 1 + (1 + (1 + (1 + (1 + (1 + (1 + (1 + (1 + (1 + (1 + (1 + (1 + (1 + (1 + (1 + (1 + (1 + (1))))))))))))))))))"
    unfolding supported_type_atoms_def length_append by (intro add_mono length_support)
  then show "length (supported_type_atoms p) \<le> 19" by simp
  have "length (supported_state_atoms p) \<le> 1 + (1 + (1 + (1 + (1 + (1 + (1 + (1 + (1 + (1 + (1 + (1 + (1 + (1 + (1))))))))))))))"
    unfolding supported_state_atoms_def length_append by (intro add_mono length_support)
  then show "length (supported_state_atoms p) \<le> 15" by simp
  have "length (supported_window_atoms p) \<le> 1 + (1 + (1 + (1 + (1 + (1 + (1 + (1 + (1 + (1 + (1 + (1)))))))))))"
    unfolding supported_window_atoms_def length_append by (intro add_mono length_support)
  then show "length (supported_window_atoms p) \<le> 12" by simp
  have "length (supported_action_atoms p) \<le> 1 + (1 + (1 + (1 + (1 + (1 + (1 + (1 + (1 + (1)))))))))"
    unfolding supported_action_atoms_def length_append by (intro add_mono length_support)
  then show "length (supported_action_atoms p) \<le> 10" by simp
  have "length (supported_extension_atoms p) \<le> 1 + (1 + (1 + (1 + (1 + (1 + (1 + (1 + (1 + (1 + (1 + (1)))))))))))"
    unfolding supported_extension_atoms_def length_append by (intro add_mono length_support)
  then show "length (supported_extension_atoms p) \<le> 12" by simp
qed

lemma supported_atoms_length: "length (supported_atoms p) \<le> 93"
proof -
  have "length (supported_atoms p) \<le> 2 + (22 + (19 + (1 + (15 + (12 + (10 + 12))))))"
    unfolding supported_atoms_def length_append
    by (intro add_mono length_if supported_lengths length_support) simp
  then show ?thesis by simp
qed

text \<open>The list of supported atoms that setSupported collects fits the array it is collected in, which
  has a place for each atom, whatever the flags are.\<close>

theorem supported_atoms_fit_the_array: "int (length (supported_atoms p)) \<le> KwsAtomCount"
  using supported_atoms_length [of p] by simp

text \<open>C36. What the window manager supports is what a client finds supported: after setSupported, a client
  that reads the list has every announced flag the window manager has, and no other, in all five sets;
  the window types, states and actions only if the window manager supports their property at all.\<close>

theorem supported_sets_survive_the_server:
  assumes "same_root c m" "interned (ri_atoms m)" "has (ri_clientProperties c) Supported"
    and "setSupported m = Some out" "answers serve out"
  shows "map_option (\<lambda>(c', _). supported_sets c') (root_update serve Supported 0 c)
    = Some (announced_sets m)"
proof -
  have "root_change m NET_SUPPORTED XCB_ATOM_ATOM (Longs (supported_atoms m)) \<in> set out"
    using assms(4) by (auto simp: setSupported_def split: if_splits Option.bind_splits)
  then have reply: "serve (root_property c NET_SUPPORTED XCB_ATOM_ATOM MAX_PROP_SIZE)
      = Some \<lparr>reply_type = XCB_ATOM_ATOM, reply_data = Longs (supported_atoms m)\<rparr>"
    by (rule answers_root_change [OF assms(5) _ assms(1)])
      (use supported_atoms_length [of m] in \<open>simp add: fits_def MAX_PROP_SIZE_def\<close>)
  have "supported_sets (store_supported (Some \<lparr>reply_type = XCB_ATOM_ATOM,
      reply_data = Longs (supported_atoms m)\<rparr>) c) = announced_sets m"
    unfolding store_supported_def Let_def get_array_reply_longs
    using assms(1) by (intro supported_atoms_read [OF assms(2) refl])
      (simp_all add: same_root_def supported_sets_def)
  then show ?thesis by (simp add: root_update_supported [OF assms(3)] reply)
qed

definition example_manager :: root_info where
  "example_manager = (root_info_blank example_atoms Role_WindowManager 1)
     \<lparr>ri_name := Some [75], ri_supportwindow := 9, ri_properties := ClientList,
      ri_number_of_desktops := 2, ri_current_desktop := 1\<rparr>"

definition example_client :: root_info where
  "example_client = (root_info_blank example_atoms Role_Client 1)
     \<lparr>ri_clientProperties := NOT 0, ri_clientProperties2 := NOT 0, ri_number_of_desktops := 2\<rparr>"

lemma example_roots:
  "same_root example_client example_manager" "interned (ri_atoms example_manager)"
  "ri_role example_client = Role_Client" "ri_role example_manager = Role_WindowManager"
  "has (ri_clientProperties example_client) (push_bit 2 1)"
  by (simp_all add: same_root_def example_client_def example_manager_def root_info_blank_def
      interned_example_atoms flag_defs)

lemma example_set_supported:
  "setSupported example_manager = Some
     [root_change example_manager NET_SUPPORTED XCB_ATOM_ATOM (Longs (supported_atoms example_manager)),
      Change_Property 1 102 XCB_ATOM_WINDOW (Longs [9]), Change_Property 9 102 XCB_ATOM_WINDOW (Longs [9]),
      Change_Property 9 119 100 (Bytes [75])]"
  by (simp add: setSupported_def root_change_def example_manager_def root_info_blank_def
      example_atoms_def)

lemma example_answers:
  "answers (serve_outputs (the (setSupported example_manager))) (the (setSupported example_manager))"
  unfolding example_set_supported
  by (auto simp: answers_def serve_outputs_def xcb_get_property_def root_change_def example_manager_def
      root_info_blank_def example_atoms_def)

lemma supported_sets_survive_the_server_witness:
  "map_option (\<lambda>(c', _). ri_properties c')
     (root_update (serve_outputs (the (setSupported example_manager))) Supported 0 example_client)
   = Some (flag_or (flag_or Supported SupportingWMCheck) ClientList)"
proof -
  have has: "has (ri_clientProperties example_client) Supported"
    by (simp add: example_client_def flag_defs property_flags)
  have some: "setSupported example_manager = Some (the (setSupported example_manager))"
    by (simp add: example_set_supported)
  have "fst (announced_sets example_manager) = flag_or (flag_or Supported SupportingWMCheck) ClientList"
    by (simp add: announced_sets_def example_manager_def flag_defs property_flags root_announced_def
        window_announced_def extension_announced_def)
  with supported_sets_survive_the_server [OF example_roots(1,2) has some example_answers]
  show ?thesis
    by (cases "root_update (serve_outputs (the (setSupported example_manager))) Supported 0 example_client")
      (auto simp: supported_sets_def prod_eq_iff)
qed

section \<open>Requests\<close>

text \<open>The operation by which a client asks for each of the calls.\<close>

fun request_for :: "root_call \<Rightarrow> root_info \<Rightarrow> x_out list" where
  "request_for (Change_Number_Of_Desktops n) c = snd (setNumberOfDesktops n c)"
| "request_for (Change_Desktop_Geometry d g) c = snd (setDesktopGeometry g c)"
| "request_for (Change_Desktop_Viewport d v) c = (case setDesktopViewport d v c of Some (_, out) \<Rightarrow> out | None \<Rightarrow> [])"
| "request_for (Change_Current_Desktop d) c = snd (setCurrentDesktop d c)"
| "request_for (Change_Active_Window w src time active) c = snd (setActiveWindow_from w src time active c)"
| "request_for (Move_Resize w x y direction button src) c =
     moveResizeRequest w x y (to_int direction) button src c"
| "request_for (Move_Resize_Window w fl x y width height) c = moveResizeWindowRequest w fl x y width height c"
| "request_for (Close_Window w) c = closeWindowRequest w c"
| "request_for (Restack_Window w src sibling detail time) c = restackRequest w src sibling detail time c"
| "request_for (Change_Showing_Desktop b) c = snd (setShowingDesktop b c)"
| "request_for (Show_Window_Menu w device x y) c = showWindowMenuRequest w device x y c"
| "request_for _ c = []"

text \<open>The arguments a request can carry: numbers of 32 bits and a source that is not made up. The
  geometry is for all desktops and the viewport for the current one.\<close>

fun request_ok :: "root_info \<Rightarrow> root_call \<Rightarrow> bool" where
  "request_ok m (Change_Number_Of_Desktops n) \<longleftrightarrow> int_range n"
| "request_ok m (Change_Desktop_Geometry d g) \<longleftrightarrow>
     d = -1 \<and> int_range (sz_width g) \<and> int_range (sz_height g)"
| "request_ok m (Change_Desktop_Viewport d v) \<longleftrightarrow>
     d = ri_current_desktop m \<and> d \<ge> 1 \<and> int_range (pt_x v) \<and> int_range (pt_y v)"
| "request_ok m (Change_Current_Desktop d) \<longleftrightarrow> int_range d"
| "request_ok m (Change_Active_Window w src time active) \<longleftrightarrow> FromUnknown \<le> src \<and> src \<le> FromTool"
| "request_ok m (Move_Resize w x y direction button src) \<longleftrightarrow> int_range x \<and> int_range y \<and> int_range src"
| "request_ok m (Move_Resize_Window w fl x y width height) \<longleftrightarrow>
     int_range fl \<and> int_range x \<and> int_range y \<and> int_range width \<and> int_range height"
| "request_ok m (Close_Window w) \<longleftrightarrow> True"
| "request_ok m (Restack_Window w src sibling detail time) \<longleftrightarrow>
     FromUnknown \<le> src \<and> src \<le> FromTool \<and> int_range detail"
| "request_ok m (Change_Showing_Desktop b) \<longleftrightarrow> True"
| "request_ok m (Show_Window_Menu w device x y) \<longleftrightarrow> int_range device \<and> int_range x \<and> int_range y"
| "request_ok m _ \<longleftrightarrow> False"

text \<open>What the window manager does when the messages to the root window arrive.\<close>

definition heard :: "x_server \<Rightarrow> root_info \<Rightarrow> x_out \<Rightarrow> root_call list" where
  "heard serve m out =
     (case out of
        Send_Message msk destination window ty data \<Rightarrow>
          if destination = ri_root m
          then (case root_event serve (Client_Message 32 window ty data) m of
                  Some (_, _, _, calls) \<Rightarrow> calls | None \<Rightarrow> [])
          else []
      | _ \<Rightarrow> [])"

lemma source_word:
  assumes "FromUnknown \<le> src" "src \<le> FromTool"
  shows "known_source (to_u32 src)" "uint (to_u32 src) = src"
proof -
  have "src \<in> {0, 1, 2}" using assms by (auto simp: FromUnknown_def FromTool_def)
  then show "known_source (to_u32 src)" "uint (to_u32 src) = src"
    by (auto simp: known_source_def to_u32_def FromUnknown_def FromTool_def)
qed

lemma heard_message:
  assumes "same_root c m" "ri_role m = Role_WindowManager"
  shows "heard serve m (root_message c window a data)
    = snd (snd (root_message_call m window (ri_atoms m a) data))"
  using assms
  by (simp add: heard_def root_message_def send_client_message_def root_event_def same_root_def
      split: prod.splits)

lemma root_message_active: "root_message (c\<lparr>ri_active := w\<rparr>) = root_message c"
  by (simp add: root_message_def fun_eq_iff)

lemma ucast_byte: "ucast (ucast b :: u32) = (b :: byte)"
  by (rule bit_word_eqI) (simp add: bit_simps)

lemma desktop_back: "int_range d \<Longrightarrow> to_int (to_u32 (d - 1) + 1) = d"
proof -
  have "to_u32 (d - 1) + 1 = to_u32 d" by (simp add: to_u32_def)
  then show "int_range d \<Longrightarrow> ?thesis" by simp
qed

lemma client_requests_hold:
  assumes "same_root c m" "interned (ri_atoms m)" "ri_role c = Role_Client"
    and "ri_role m = Role_WindowManager" "request_ok m call"
  shows "concat (map (heard serve m) (request_for call c)) = [call]"
  using assms(5)
  by (cases call)
    (auto simp: setNumberOfDesktops_def setDesktopGeometry_def setDesktopViewport_def setCurrentDesktop_def
      setActiveWindow_from_def moveResizeRequest_def moveResizeWindowRequest_def closeWindowRequest_def
      restackRequest_def setShowingDesktop_def showWindowMenuRequest_def assms(2-4) Let_def point_words_def
      heard_message [OF assms(1,4)] root_message_call_def source_word desktop_back root_message_active
      ucast_byte)

text \<open>C33. The requests of a client reach the window manager: the message each operation of a client
  sends is decoded by the window manager's event function to the one call it asks for, with the same
  arguments, for all arguments the message can carry.\<close>

theorem client_requests_reach_the_manager:
  assumes "same_root c m" "interned (ri_atoms m)" "ri_role c = Role_Client"
    and "ri_role m = Role_WindowManager" "request_ok m call"
  shows "concat (map (heard serve m) (request_for call c)) = [call]"
  using assms by (rule client_requests_hold)

lemma client_requests_reach_the_manager_witness:
  "concat (map (heard (\<lambda>r. None) example_manager)
     (request_for (Change_Active_Window 7 FromTool 1000 8) example_client))
   = [Change_Active_Window 7 FromTool 1000 8]"
  by (rule client_requests_reach_the_manager [OF example_roots(1-4)])
    (simp add: FromUnknown_def FromTool_def)

section \<open>The list of clients\<close>

fun listen :: "root_call \<Rightarrow> u32 set \<Rightarrow> u32 set" where
  "listen (Add_Client w) known = insert w known"
| "listen (Remove_Client w) known = known - {w}"
| "listen _ known = known"

text \<open>A client through several updates of the list, with what a listener makes of its calls.\<close>

fun follow_clients :: "x_server list \<Rightarrow> root_info \<Rightarrow> u32 set \<Rightarrow> (root_info \<times> u32 set) option" where
  "follow_clients [] c known = Some (c, known)"
| "follow_clients (serve # serves) c known =
     (case root_update serve ClientList 0 c of
        None \<Rightarrow> None
      | Some (c', calls) \<Rightarrow> follow_clients serves c' (fold listen calls known))"

definition listed :: "root_info \<Rightarrow> x_server \<Rightarrow> u32 list" where
  "listed c serve = get_array_reply
     (serve (root_property c NET_CLIENT_LIST XCB_ATOM_WINDOW MAX_PROP_SIZE)) XCB_ATOM_WINDOW"

lemma fold_listen_remove: "fold listen (map Remove_Client ws) known = known - set ws"
  by (induction ws arbitrary: known) auto

lemma fold_listen_add: "fold listen (map Add_Client ws) known = known \<union> set ws"
  by (induction ws arbitrary: known) auto

text \<open>The list is sorted, and the listener knows exactly what is on it.\<close>

definition clients_known :: "root_info \<Rightarrow> u32 set \<Rightarrow> bool" where
  "clients_known c known \<longleftrightarrow>
     (case ri_clients c of
        None \<Rightarrow> known = {}
      | Some ws \<Rightarrow> known = set ws \<and> sorted ws \<and> distinct ws)"

lemma sort_empty: "sort xs = [] \<longleftrightarrow> xs = []"
  by (metis length_0_conv length_sort)

lemma store_clients_known:
  assumes "clients_known c known" "ri_role c = Role_Client"
    and "distinct (get_array_reply reply XCB_ATOM_WINDOW)"
    and "store_clients reply (c, []) = (c', calls)"
  shows "clients_known c' (fold listen calls known)"
    "fold listen calls known = set (get_array_reply reply XCB_ATOM_WINDOW)"
    "c' = c\<lparr>ri_clients_count := ri_clients_count c', ri_clients := ri_clients c'\<rparr>"
proof -
  let ?new = "sort (get_array_reply reply XCB_ATOM_WINDOW)"
  have new: "sorted ?new" "distinct ?new" "set ?new = set (get_array_reply reply XCB_ATOM_WINDOW)"
    using assms(3) by simp_all
  show heard: "fold listen calls known = set (get_array_reply reply XCB_ATOM_WINDOW)"
    using assms new
    by (auto simp: store_clients_def Let_def clients_known_def client_diff_filter fold_listen_remove
        fold_listen_add sort_empty split: option.splits if_splits)
  show "clients_known c' (fold listen calls known)"
    unfolding heard using assms(4) new
    by (auto simp: store_clients_def Let_def clients_known_def sort_empty
        split: option.splits if_splits prod.splits)
  show "c' = c\<lparr>ri_clients_count := ri_clients_count c', ri_clients := ri_clients c'\<rparr>"
    using assms(4)
    by (cases c) (auto simp: store_clients_def Let_def split: option.splits if_splits prod.splits)
qed

lemma follow_clients_known:
  assumes "ri_role c = Role_Client" "has (ri_clientProperties c) ClientList" "clients_known c known"
    and "\<forall>serve\<in>set serves. distinct (listed c serve)" "serves \<noteq> []"
  shows "map_option snd (follow_clients serves c known) = Some (set (listed c (last serves)))"
  using assms
proof (induction serves arbitrary: c known)
  case (Cons serve serves)
  obtain c' calls where st: "store_clients
      (serve (root_property c NET_CLIENT_LIST XCB_ATOM_WINDOW MAX_PROP_SIZE)) (c, []) = (c', calls)"
    by (cases "store_clients
      (serve (root_property c NET_CLIENT_LIST XCB_ATOM_WINDOW MAX_PROP_SIZE)) (c, [])")
  have d: "distinct (listed c serve)" using Cons.prems(4) by simp
  note step = store_clients_known [OF Cons.prems(3,1) d [unfolded listed_def] st]
  have same: "ri_role c' = ri_role c" "ri_clientProperties c' = ri_clientProperties c"
      "listed c' = listed c"
    by (subst step(3), simp add: listed_def root_property_def fun_eq_iff)+
  have upd: "root_update serve ClientList 0 c = Some (c', calls)"
    by (simp add: root_update_clients [OF Cons.prems(2)] st)
  show ?case
  proof (cases "serves = []")
    case True
    then show ?thesis using step(2) by (simp add: upd listed_def)
  next
    case False
    then show ?thesis
      using Cons.IH [OF _ _ step(1)] Cons.prems by (simp add: upd same)
  qed
qed simp

text \<open>C35. A client that listens knows the clients: however often the list is read again, with replies
  in any order and of any kind, what it hears of added and removed clients leaves it with exactly the
  clients of the last list.\<close>

theorem listener_knows_the_clients:
  assumes "ri_role c = Role_Client" "has (ri_clientProperties c) ClientList" "ri_clients c = None"
    and "\<forall>serve\<in>set serves. distinct (listed c serve)" "serves \<noteq> []"
  shows "map_option snd (follow_clients serves c {}) = Some (set (listed c (last serves)))"
  using assms by (intro follow_clients_known) (simp_all add: clients_known_def)

lemma listener_knows_the_clients_witness:
  "map_option snd (follow_clients
     [\<lambda>r. Some \<lparr>reply_type = XCB_ATOM_WINDOW, reply_data = Longs [5, 3]\<rparr>, \<lambda>r. None,
      \<lambda>r. Some \<lparr>reply_type = XCB_ATOM_WINDOW, reply_data = Longs [8, 5]\<rparr>] example_client {})
   = Some {8, 5}"
proof -
  let ?serves = "[\<lambda>r. Some \<lparr>reply_type = XCB_ATOM_WINDOW, reply_data = Longs [5, 3]\<rparr>, \<lambda>r. None,
      \<lambda>r. Some \<lparr>reply_type = XCB_ATOM_WINDOW, reply_data = Longs [8, 5]\<rparr>]"
  have "has (ri_clientProperties example_client) ClientList" "ri_clients example_client = None"
    by (simp_all add: example_client_def root_info_blank_def flag_defs property_flags)
  from listener_knows_the_clients [OF example_roots(3) this, of ?serves]
  show ?thesis by (simp add: listed_def)
qed

section \<open>Desktops\<close>

lemma split_at_zero_append: "0 \<notin> set bs \<Longrightarrow> split_at_zero (bs @ 0 # rest) = bs # split_at_zero rest"
  by (induction bs) auto

lemma split_at_zero_last: "0 \<notin> set bs \<Longrightarrow> split_at_zero bs = [bs]"
  by (induction bs) auto

lemma drop_trailing_zero_append: "drop_trailing_zero (xs @ [0]) = xs"
  by (simp add: drop_trailing_zero_def)

text \<open>The bytes of a name; a null name is written as an empty one.\<close>

definition name_text :: "cstring \<Rightarrow> byte list" where
  "name_text s = (case s of None \<Rightarrow> [] | Some bs \<Rightarrow> bs)"

lemma name_bytes_text: "name_bytes s = name_text s @ [0]"
  by (simp add: name_bytes_def name_text_def split: option.split)

lemma split_names:
  assumes "\<forall>s\<in>set names. 0 \<notin> set (name_text s)" "names \<noteq> []"
  shows "split_at_zero (drop_trailing_zero (concat (map name_bytes names))) = map name_text names"
  using assms
proof (induction names)
  case (Cons s names)
  show ?case
  proof (cases names rule: rev_cases)
    case Nil
    with Cons.prems show ?thesis
      by (simp add: name_bytes_text drop_trailing_zero_append split_at_zero_last)
  next
    case (snoc front l)
    have "drop_trailing_zero (concat (map name_bytes (s # names)))
        = name_text s @ 0 # drop_trailing_zero (concat (map name_bytes names))"
      using drop_trailing_zero_append [of "name_text s @ 0 # concat (map name_bytes front) @ name_text l"]
        drop_trailing_zero_append [of "concat (map name_bytes front) @ name_text l"]
      by (simp add: snoc name_bytes_text)
    with Cons snoc show ?thesis by (simp add: split_at_zero_append)
  qed
qed simp

text \<open>What is read of a name: an empty name and a null name are both null.\<close>

definition read_name :: "cstring \<Rightarrow> cstring" where
  "read_name s = (if name_text s = [] then None else Some (name_text s))"

lemma put_names_read:
  assumes "\<forall>s\<in>set names. 0 \<notin> set (name_text s)"
  shows "put_names (length ds) (map name_text names) ds = ds @ map read_name names"
  using assms
proof (induction names arbitrary: ds)
  case (Cons s names)
  then have "nstrndup (name_text s) (length (name_text s)) = read_name s"
    by (simp add: read_name_def)
  with Cons.IH [of "ds @ [read_name s]"] Cons.prems show ?case by simp
qed simp

lemma setDesktopName_writes:
  assumes "setDesktopName d n m = (m', out)" "d \<ge> 1"
  shows "out = [root_change m' NET_DESKTOP_NAMES (ri_atoms m UTF8_STRING)
      (Bytes (concat (map name_bytes (ri_desktop_names m'))))]"
    "ri_desktop_names m' \<noteq> []" "same_root m' m"
proof -
  have grow: "take num (rarray_grow None (num - 1) names) = rarray_grow None (num - 1) names"
    if "num \<noteq> 0" "length names \<le> num" for num and names :: "cstring list"
    using that by (simp add: rarray_grow_def)
  have ne: "rarray_set None names i x \<noteq> []" for names i and x :: cstring
    by (simp add: rarray_set_def rarray_grow_def)
  show "same_root m' m" "ri_desktop_names m' \<noteq> []"
    and "out = [root_change m' NET_DESKTOP_NAMES (ri_atoms m UTF8_STRING)
      (Bytes (concat (map name_bytes (ri_desktop_names m'))))]"
    using assms grow ne
    by (auto simp: setDesktopName_def Let_def same_root_def root_change_def rarray_grow_def
        split: if_splits)
qed

text \<open>The desktop names survive the way through the server, whoever sets one of them: the names are
  told apart again, also where some are empty, which are read as no name.\<close>

theorem desktop_names_survive_the_server:
  assumes "same_root c m" "has (ri_clientProperties c) DesktopNames"
    and "setDesktopName d n m = (m', out)" "d \<ge> 1" "answers serve out"
    and "\<forall>s\<in>set (ri_desktop_names m'). 0 \<notin> set (name_text s)"
    and "length (concat (map name_bytes (ri_desktop_names m'))) \<le> 400000"
  shows "map_option (\<lambda>(c', _). ri_desktop_names c') (root_update serve DesktopNames 0 c)
    = Some (map read_name (ri_desktop_names m'))"
proof -
  let ?names = "ri_desktop_names m'"
  note w = setDesktopName_writes [OF assms(3,4)]
  have "same_root c m'" and utf8: "ri_atoms c UTF8_STRING = ri_atoms m UTF8_STRING"
    using w(3) assms(1) by (simp_all add: same_root_def)
  then have reply: "serve (root_property c NET_DESKTOP_NAMES (ri_atoms m UTF8_STRING) MAX_PROP_SIZE)
      = Some \<lparr>reply_type = ri_atoms m UTF8_STRING, reply_data = Bytes (concat (map name_bytes ?names))\<rparr>"
    using assms(7)
    by (intro answers_root_change [OF assms(5)]) (simp_all add: w(1) fits_def MAX_PROP_SIZE_def)
  have ne: "concat (map name_bytes ?names) \<noteq> []"
    using w(2) by (cases ?names) (simp_all add: name_bytes_text)
  have "put_names 0 (map name_text ?names) [] = map read_name ?names"
    using put_names_read [of ?names "[]"] assms(6) by simp
  then show ?thesis
    using ne split_names [OF assms(6) w(2)]
    by (simp add: root_update_desktop_names [OF assms(2)] utf8 reply store_desktop_names_def
        get_stringlist_reply_def rarray_reset_def)
qed

lemma desktop_names_survive_the_server_witness:
  "map_option (\<lambda>(c', _). ri_desktop_names c')
     (root_update (serve_outputs [Change_Property 1 109 100 (Bytes [0, 65, 0])]) DesktopNames 0 example_client)
   = Some [None, Some [65]]"
proof -
  have set: "setDesktopName 2 (Some [65]) example_manager
      = (example_manager\<lparr>ri_desktop_names := [None, Some [65]]\<rparr>, [Change_Property 1 109 100 (Bytes [0, 65, 0])])"
    by (simp add: setDesktopName_def Let_def example_manager_def root_info_blank_def rarray_set_def
        rarray_grow_def nstrdup_def c_str_def name_bytes_def root_change_def example_atoms_def)
  have has: "has (ri_clientProperties example_client) DesktopNames"
    by (simp add: example_client_def flag_defs property_flags)
  have answers: "answers (serve_outputs [Change_Property 1 109 100 (Bytes [0, 65, 0])])
      [Change_Property 1 109 100 (Bytes [0, 65, 0])]"
    by (simp add: answers_def serve_outputs_def xcb_get_property_def)
  show ?thesis
    using desktop_names_survive_the_server [OF example_roots(1) has set _ answers]
    by (simp add: name_text_def name_bytes_def read_name_def)
qed

lemma rect_of_words:
  "\<lparr>rect_pos = \<lparr>pt_x = pt_x (rect_pos r), pt_y = pt_y (rect_pos r)\<rparr>,
    rect_size = \<lparr>sz_width = sz_width (rect_size r), sz_height = sz_height (rect_size r)\<rparr>\<rparr> = r"
  by (intro net_rect.equality) simp_all

lemma put_rects_read:
  assumes "\<forall>r\<in>set rs. rect_ok r"
  shows "put_rects (length ds) (concat (map rect_words rs)) ds = ds @ rs"
  using assms
proof (induction rs arbitrary: ds)
  case (Cons r rs)
  then show ?case
    using Cons.IH [of "ds @ [r]"] by (simp add: rect_words_def rect_ok_def rect_of_words)
qed simp

lemma length_rect_words: "length (concat (map rect_words rs)) = 4 * length rs"
  by (induction rs) (simp_all add: rect_words_def)

lemma length_grown: "n \<le> length (grown z n ds)"
  by (simp add: grown_def)

text \<open>The work areas survive the way through the server: a client that knows the number of desktops
  reads for each of them the area the window manager holds.\<close>

theorem work_areas_survive_the_server:
  assumes "same_root c m" "has (ri_clientProperties c) WorkArea"
    and "ri_number_of_desktops c = ri_number_of_desktops m" "ri_number_of_desktops m \<le> 25000"
    and "setWorkArea d r m = Some (m', out)" "d \<ge> 1" "answers serve out"
    and "\<forall>r\<in>set (ri_workarea m'). rect_ok r"
  shows "map_option (\<lambda>(c', _). ri_workarea c') (root_update serve WorkArea 0 c)
    = Some (take (nat (ri_number_of_desktops m)) (ri_workarea m'))"
proof -
  let ?n = "nat (ri_number_of_desktops m)" and ?areas = "take (nat (ri_number_of_desktops m)) (ri_workarea m')"
  have out: "out = [root_change m' NET_WORKAREA XCB_ATOM_CARDINAL (Longs (concat (map rect_words ?areas)))]"
    and n: "0 \<le> ri_number_of_desktops m" "length ?areas = ?n" and same: "same_root c m'"
    using assms(1,5,6)
    by (auto simp: min_absorb2 length_grown setWorkArea_def Let_def same_root_def root_change_def split: if_splits)
  have reply: "serve (workarea_request c)
      = Some \<lparr>reply_type = XCB_ATOM_CARDINAL, reply_data = Longs (concat (map rect_words ?areas))\<rparr>"
    unfolding workarea_request_def
    using n assms(4) by (intro answers_root_change [OF assms(7) _ same])
      (simp_all add: out fits_def MAX_PROP_SIZE_def length_rect_words)
  have "put_rects 0 (concat (map rect_words ?areas)) [] = ?areas"
    using put_rects_read [of ?areas "[]"] assms(8) by (auto dest: in_set_takeD)
  moreover have "int_range (ri_number_of_desktops m * 4)"
    using n(1) assms(4) by (simp add: int_range_def)
  ultimately show ?thesis
    using n by (simp add: root_update_workarea [OF assms(2)] reply store_workarea_def Let_def assms(3)
        length_rect_words rarray_reset_def option.map_comp comp_def)
qed

definition example_area :: net_rect where
  "example_area = \<lparr>rect_pos = \<lparr>pt_x = -5, pt_y = 0\<rparr>, rect_size = \<lparr>sz_width = 800, sz_height = 600\<rparr>\<rparr>"

lemma work_areas_survive_the_server_witness:
  "map_option (\<lambda>(c', _). ri_workarea c')
     (root_update (serve_outputs [Change_Property 1 111 XCB_ATOM_CARDINAL
        (Longs [0, 0, 0, 0, to_u32 (-5), 0, 800, 600])]) WorkArea 0 example_client)
   = Some [rect_default, example_area]"
proof -
  let ?out = "[Change_Property 1 111 XCB_ATOM_CARDINAL (Longs [0, 0, 0, 0, to_u32 (-5), 0, 800, 600])]"
  have set: "setWorkArea 2 example_area example_manager
      = Some (example_manager\<lparr>ri_workarea := [rect_default, example_area]\<rparr>, ?out)"
    by (simp add: setWorkArea_def Let_def example_manager_def root_info_blank_def rarray_set_def
        rarray_grow_def grown_def rect_words_def example_area_def rect_default_def point_default_def
        size_default_def root_change_def example_atoms_def to_u32_def)
  have has: "has (ri_clientProperties example_client) WorkArea"
    by (simp add: example_client_def flag_defs property_flags)
  have answers: "answers (serve_outputs ?out) ?out"
    by (simp add: answers_def serve_outputs_def xcb_get_property_def)
  show ?thesis
    using work_areas_survive_the_server [OF example_roots(1) has _ _ set _ answers]
    by (simp add: example_client_def example_manager_def rect_ok_def example_area_def rect_default_def
        point_default_def size_default_def int_range_def)
qed

text \<open>The virtual roots are lost on the way: whatever windows the window manager sets, and whatever
  the server does with them, a client that reads them finds none, because it reads as numbers what is
  written, and asked for, as windows.\<close>

theorem virtual_roots_are_lost:
  assumes "same_root c m" "has (ri_clientProperties c) VirtualRoots"
    and "setVirtualRoots windows m = Some (m', out)"
    and "\<And>r reply. serve r = Some reply \<Longrightarrow> reply_type reply \<noteq> 0
      \<Longrightarrow> \<exists>data. Change_Property (rq_window r) (rq_property r) (reply_type reply) data \<in> set out"
  shows "map_option (\<lambda>(c', _). ri_virtual_roots c') (root_update serve VirtualRoots 0 c) = Some None"
proof -
  let ?reply = "serve (root_property c NET_VIRTUAL_ROOTS XCB_ATOM_WINDOW 1)"
  have "get_array_reply ?reply XCB_ATOM_CARDINAL = []"
  proof (cases ?reply)
    case (Some reply)
    have "reply_type reply = 0 \<or> reply_type reply = XCB_ATOM_WINDOW"
      using assms(3) assms(4) [OF Some]
      by (auto simp: setVirtualRoots_def Let_def root_change_def split: if_splits)
    then show ?thesis by (auto simp: Some get_array_reply_def)
  qed simp
  then show ?thesis
    by (simp add: root_update_virtual_roots [OF assms(2)] store_virtual_roots_def nwindup_def)
qed

lemma virtual_roots_are_lost_witness:
  "map_option (\<lambda>(c', _). ri_virtual_roots c')
     (root_update (\<lambda>r. if rq_window r = 1 \<and> rq_property r = 112
                        then Some \<lparr>reply_type = XCB_ATOM_WINDOW, reply_data = Longs [70]\<rparr> else None)
        VirtualRoots 0 example_client) = Some None"
proof -
  have has: "has (ri_clientProperties example_client) VirtualRoots"
    by (simp add: example_client_def flag_defs property_flags)
  have set: "setVirtualRoots [70] example_manager
      = Some (example_manager\<lparr>ri_virtual_roots_count := 1, ri_virtual_roots := Some [70]\<rparr>,
          [Change_Property 1 112 XCB_ATOM_WINDOW (Longs [70])])"
    by (simp add: setVirtualRoots_def Let_def example_manager_def root_info_blank_def nwindup_def
        root_change_def example_atoms_def)
  show ?thesis
    by (rule virtual_roots_are_lost [OF example_roots(1) has set]) (auto split: if_splits)
qed

end
