(* ===== verification/Root_Manager.thy ===== *)
theory Root_Manager
  imports Root_Info_Theorems Focus_Stealing_Theorems Subspace_Theorems
begin

text \<open>
  The window manager's side of the root window (como/win/x11/netinfo.h): what it does with the calls
  that need no more than the subspaces and the activation of windows, and what becomes of the request
  of a client from one end to the other.
\<close>

section \<open>The calls about subspaces\<close>

definition changeNumberOfDesktops ::
    "(nat \<Rightarrow> string) \<Rightarrow> (nat \<Rightarrow> string) \<Rightarrow> int \<Rightarrow> manager \<Rightarrow> manager option" where
  "changeNumberOfDesktops uuid i18n n mgr = subspace_manager_set_count uuid i18n (uint_of_int n) mgr"

definition changeCurrentDesktop :: "int \<Rightarrow> manager \<Rightarrow> manager" where
  "changeCurrentDesktop d mgr = fst (subspaces_set_current_x11id mgr (uint_of_int d))"

text \<open>The other calls do not change the subspaces.\<close>

definition subspace_call ::
    "(nat \<Rightarrow> string) \<Rightarrow> (nat \<Rightarrow> string) \<Rightarrow> root_call \<Rightarrow> manager \<Rightarrow> manager option" where
  "subspace_call uuid i18n call mgr =
     (case call of
        Change_Number_Of_Desktops n \<Rightarrow> changeNumberOfDesktops uuid i18n n mgr
      | Change_Current_Desktop d \<Rightarrow> Some (changeCurrentDesktop d mgr)
      | _ \<Rightarrow> Some mgr)"

section \<open>The request for activation\<close>

definition find_controlled_window :: "space \<Rightarrow> u32 \<Rightarrow> wid option" where
  "find_controlled_window sp w =
     find (\<lambda>v. win_class (win sp v) = X11_Window \<and> win_control (win sp v) \<noteq> None
               \<and> xcb_client (win sp v) = unat w) (windows sp)"

text \<open>What is done with the window: nothing, activation, activation whatever the focus policy, or a
  demand for attention.\<close>

datatype activation = No_Activation | Activation wid | Force_Activation wid | Attention wid

text \<open>The result of the comparison of times is passed on as a time.\<close>

definition requestor_allowed :: "focus_env \<Rightarrow> space \<Rightarrow> u32 \<Rightarrow> timestamp \<Rightarrow> bool option" where
  "requestor_allowed env sp active_window time =
     (if active_window = 0 then Some False
      else case find_controlled_window sp active_window of
             None \<Rightarrow> Some False
           | Some c2 \<Rightarrow> do {
               user_time \<leftarrow> userTime env sp c2;
               allow_window_activation env sp c2
                 (to_u32 (timestampCompare time (if user_time > 0 then time else user_time))) False True
             })"

definition changeActiveWindow ::
    "focus_env \<Rightarrow> space \<Rightarrow> u32 \<Rightarrow> int \<Rightarrow> timestamp \<Rightarrow> u32 \<Rightarrow> activation option" where
  "changeActiveWindow env sp w src time active_window =
     (case find_controlled_window sp w of
        None \<Rightarrow> Some No_Activation
      | Some c \<Rightarrow> do {
          time \<leftarrow> (if time = 0 then userTime env sp c else Some time);
          let src = (if src \<noteq> FromApplication \<and> src \<noteq> FromTool then FromTool else src);
          if src = FromTool then Some (Force_Activation c)
          else if most_recently_activated_window sp = Some c then Some No_Activation
          else do {
            allowed \<leftarrow> allow_window_activation env sp c time False True;
            if allowed then Some (Activation c)
            else do {
              asked \<leftarrow> requestor_allowed env sp active_window time;
              Some (if asked then Activation c else Attention c)
            }
          }
        })"

section \<open>From the client to the subspaces\<close>

definition after_request ::
    "(nat \<Rightarrow> string) \<Rightarrow> (nat \<Rightarrow> string) \<Rightarrow> x_server \<Rightarrow> root_info \<Rightarrow> x_out list \<Rightarrow> manager \<Rightarrow> manager option" where
  "after_request uuid i18n serve m out mgr =
     ofold (subspace_call uuid i18n) (concat (map (heard serve m) out)) mgr"

lemma set_current_numbered:
  assumes "manager_inv mgr" "1 \<le> d" "d \<le> length (subspaces mgr)"
  shows "current (fst (subspaces_set_current_x11id mgr d)) = Some (subspaces mgr ! (d - 1))"
proof -
  have "subspaces_get_for_x11id mgr d = Some (subspaces mgr ! (d - 1))"
    using assms(2,3)
    by (simp add: subspaces_get_for_x11id_def)
  then show ?thesis
    using assms(2,3)
    by (auto simp: subspaces_set_current_x11id_def subspaces_set_current_def Let_def)
qed

text \<open>C38. A pager works: the message of a client that asks for a desktop, decoded by the window manager and
  handled, makes the subspace of that number the current one, and the message that asks for a number of
  desktops leaves that many subspaces.\<close>

theorem pager_requests_take_effect:
  assumes "same_root c m" "interned (ri_atoms m)" "ri_role c = Role_Client"
    and "ri_role m = Role_WindowManager" "manager_inv mgr"
    and "1 \<le> d" "d \<le> int (length (subspaces mgr))" "1 \<le> n" "n \<le> int max_count"
  shows "map_option current (after_request uuid i18n serve m (snd (setCurrentDesktop d c)) mgr)
      = Some (Some (subspaces mgr ! nat (d - 1)))
    \<and> map_option (length \<circ> subspaces)
        (after_request uuid i18n serve m (snd (setNumberOfDesktops n c)) mgr) = Some (nat n)"
proof -
  have "length (subspaces mgr) \<le> max_count"
    using assms(5) by (simp add: manager_inv_def manager_ready_def)
  then have small: "int_range d" "int_range n" "uint_of_int d = nat d" "uint_of_int n = nat n"
    using assms(6-9) by (simp_all add: int_range_def max_count_def uint_of_int_small)
  have d: "concat (map (heard serve m) (snd (setCurrentDesktop d c))) = [Change_Current_Desktop d]"
    using client_requests_hold [OF assms(1-4), of "Change_Current_Desktop d"] small(1) by simp
  have n: "concat (map (heard serve m) (snd (setNumberOfDesktops n c))) = [Change_Number_Of_Desktops n]"
    using client_requests_hold [OF assms(1-4), of "Change_Number_Of_Desktops n"] small(2) by simp
  have "current (changeCurrentDesktop d mgr) = Some (subspaces mgr ! nat (d - 1))"
    using set_current_numbered [OF assms(5), of "nat d"] assms(6,7)
    by (simp add: changeCurrentDesktop_def small nat_diff_distrib)
  moreover have "0 < nat n" "nat n \<le> max_count" using assms(8,9) by simp_all
  then obtain mgr' where "subspace_manager_set_count uuid i18n (nat n) mgr = Some mgr'"
      "length (subspaces mgr') = nat n"
    using set_count_result [OF assms(5)] by metis
  ultimately show ?thesis
    by (simp add: after_request_def d n subspace_call_def changeNumberOfDesktops_def small)
qed

lemma pager_requests_take_effect_witness:
  "map_option current (after_request (\<lambda>p. ''u'') (\<lambda>k. ''Desktop'') (\<lambda>r. None) example_manager
     (snd (setCurrentDesktop 3 example_client)) three_desktops) = Some (Some 3)"
  using pager_requests_take_effect [OF example_roots(1-4) three_desktops_inv, of 3 1
      "\<lambda>p. ''u''" "\<lambda>k. ''Desktop''" "\<lambda>r. None"]
  by (simp add: three_desktops_fields max_count_def)

text \<open>The second chance of a request for activation, when the window that makes the request has a
  user time, does not look at the time of the request: whatever that is, it is asked whether the window
  may be activated at time zero, because the result of a comparison of times is passed on as a time.\<close>

theorem requestor_is_asked_at_time_zero:
  assumes "active_window \<noteq> 0" "find_controlled_window sp active_window = Some c2"
    and "userTime env sp c2 = Some user_time" "user_time \<noteq> 0"
  shows "requestor_allowed env sp active_window time = allow_window_activation env sp c2 0 False True"
  using assms word_gt_0 [of user_time]
  by (simp add: requestor_allowed_def timestampCompare_def to_u32_def)

lemma requestor_is_asked_at_time_zero_witness:
  "requestor_allowed quiet_env busy_space 13 500 = requestor_allowed quiet_env busy_space 13 70"
proof -
  have f: "find_controlled_window busy_space 13 = Some 3"
    by (simp add: find_controlled_window_def busy_space_def plain_space_def)
  have u: "userTime quiet_env busy_space 3 = Some 100"
    by (simp add: userTime_def x11_user_time_def busy_facts no_time_def)
  show ?thesis
    using requestor_is_asked_at_time_zero [OF _ f u, of 500] requestor_is_asked_at_time_zero [OF _ f u, of 70]
    by simp
qed

end
