(* ===== verification/Geometry.thy ===== *)
theory Geometry
  imports Windows Rule_Book Complex_Main "HOL-Library.Signed_Division"
begin

text \<open>
  Points, sizes, margins and rectangles as the window manager uses them (the value types of Qt, with
  their documented behaviour: a rectangle holds its four edge coordinates, the right and bottom ones
  belong to it), the geometry of a window (window_geometry.h), the desktop around the windows, and
  the functions of geo.h, geo_move.h, screen.h, window_area.h and of base/output_helpers.h.

  Coordinates are mathematical integers: the sums of screen coordinates stay far below 2 ^ 31.
\<close>

section \<open>Rectangles\<close>

type_synonym point = "int \<times> int"
type_synonym extent = "int \<times> int"

record rect =
  x1 :: int
  y1 :: int
  x2 :: int
  y2 :: int

record margins =
  m_left :: int
  m_top :: int
  m_right :: int
  m_bottom :: int

definition null_rect :: rect where
  "null_rect = \<lparr>x1 = 0, y1 = 0, x2 = -1, y2 = -1\<rparr>"

definition mk_rect :: "int \<Rightarrow> int \<Rightarrow> int \<Rightarrow> int \<Rightarrow> rect" where
  "mk_rect x y width height = \<lparr>x1 = x, y1 = y, x2 = x + width - 1, y2 = y + height - 1\<rparr>"

definition rect_width :: "rect \<Rightarrow> int" where
  "rect_width r = x2 r - x1 r + 1"

definition rect_height :: "rect \<Rightarrow> int" where
  "rect_height r = y2 r - y1 r + 1"

definition rect_extent :: "rect \<Rightarrow> extent" where
  "rect_extent r = (rect_width r, rect_height r)"

definition top_left :: "rect \<Rightarrow> point" where
  "top_left r = (x1 r, y1 r)"

definition rect_null :: "rect \<Rightarrow> bool" where
  "rect_null r \<longleftrightarrow> x2 r = x1 r - 1 \<and> y2 r = y1 r - 1"

definition rect_valid :: "rect \<Rightarrow> bool" where
  "rect_valid r \<longleftrightarrow> x1 r \<le> x2 r \<and> y1 r \<le> y2 r"

definition extent_valid :: "extent \<Rightarrow> bool" where
  "extent_valid s \<longleftrightarrow> fst s \<ge> 0 \<and> snd s \<ge> 0"

definition rect_center :: "rect \<Rightarrow> point" where
  "rect_center r = ((x1 r + x2 r) sdiv 2, (y1 r + y2 r) sdiv 2)"

definition move_left :: "int \<Rightarrow> rect \<Rightarrow> rect" where
  "move_left x r = r\<lparr>x1 := x, x2 := x2 r + (x - x1 r)\<rparr>"

definition move_top :: "int \<Rightarrow> rect \<Rightarrow> rect" where
  "move_top y r = r\<lparr>y1 := y, y2 := y2 r + (y - y1 r)\<rparr>"

definition move_right :: "int \<Rightarrow> rect \<Rightarrow> rect" where
  "move_right x r = r\<lparr>x1 := x1 r + (x - x2 r), x2 := x\<rparr>"

definition move_bottom :: "int \<Rightarrow> rect \<Rightarrow> rect" where
  "move_bottom y r = r\<lparr>y1 := y1 r + (y - y2 r), y2 := y\<rparr>"

definition move_top_left :: "point \<Rightarrow> rect \<Rightarrow> rect" where
  "move_top_left p r = move_top (snd p) (move_left (fst p) r)"

definition move_center :: "point \<Rightarrow> rect \<Rightarrow> rect" where
  "move_center p r =
     (let w = x2 r - x1 r; h = y2 r - y1 r; x = fst p - w sdiv 2; y = snd p - h sdiv 2
      in \<lparr>x1 = x, y1 = y, x2 = x + w, y2 = y + h\<rparr>)"

definition translated :: "point \<Rightarrow> rect \<Rightarrow> rect" where
  "translated p r = \<lparr>x1 = x1 r + fst p, y1 = y1 r + snd p, x2 = x2 r + fst p, y2 = y2 r + snd p\<rparr>"

definition adjusted :: "int \<Rightarrow> int \<Rightarrow> int \<Rightarrow> int \<Rightarrow> rect \<Rightarrow> rect" where
  "adjusted dx1 dy1 dx2 dy2 r =
     \<lparr>x1 = x1 r + dx1, y1 = y1 r + dy1, x2 = x2 r + dx2, y2 = y2 r + dy2\<rparr>"

definition set_extent :: "extent \<Rightarrow> rect \<Rightarrow> rect" where
  "set_extent s r = r\<lparr>x2 := x1 r + fst s - 1, y2 := y1 r + snd s - 1\<rparr>"

definition set_left :: "int \<Rightarrow> rect \<Rightarrow> rect" where "set_left x r = r\<lparr>x1 := x\<rparr>"
definition set_top :: "int \<Rightarrow> rect \<Rightarrow> rect" where "set_top y r = r\<lparr>y1 := y\<rparr>"
definition set_right :: "int \<Rightarrow> rect \<Rightarrow> rect" where "set_right x r = r\<lparr>x2 := x\<rparr>"
definition set_bottom :: "int \<Rightarrow> rect \<Rightarrow> rect" where "set_bottom y r = r\<lparr>y2 := y\<rparr>"

text \<open>The edges in order; a rectangle with swapped edges covers what is between them.\<close>

definition span :: "int \<Rightarrow> int \<Rightarrow> int \<times> int" where
  "span a b = (if b < a - 1 then (b + 1, a - 1) else (a, b))"

definition contains_point :: "rect \<Rightarrow> point \<Rightarrow> bool" where
  "contains_point r p \<longleftrightarrow>
     (let (l, r') = span (x1 r) (x2 r); (t, b) = span (y1 r) (y2 r)
      in l \<le> fst p \<and> fst p \<le> r' \<and> t \<le> snd p \<and> snd p \<le> b)"

definition contains_rect :: "rect \<Rightarrow> rect \<Rightarrow> bool" where
  "contains_rect a b \<longleftrightarrow>
     \<not> rect_null a \<and> \<not> rect_null b
     \<and> (let (l1, r1) = span (x1 a) (x2 a); (l2, r2) = span (x1 b) (x2 b);
            (t1, b1) = span (y1 a) (y2 a); (t2, b2) = span (y1 b) (y2 b)
        in l1 \<le> l2 \<and> r2 \<le> r1 \<and> t1 \<le> t2 \<and> b2 \<le> b1)"

definition intersects :: "rect \<Rightarrow> rect \<Rightarrow> bool" where
  "intersects a b \<longleftrightarrow>
     \<not> rect_null a \<and> \<not> rect_null b
     \<and> (let (l1, r1) = span (x1 a) (x2 a); (l2, r2) = span (x1 b) (x2 b);
            (t1, b1) = span (y1 a) (y2 a); (t2, b2) = span (y1 b) (y2 b)
        in l1 \<le> r2 \<and> l2 \<le> r1 \<and> t1 \<le> b2 \<and> t2 \<le> b1)"

definition intersected :: "rect \<Rightarrow> rect \<Rightarrow> rect" where
  "intersected a b =
     (if \<not> intersects a b then null_rect
      else let (l1, r1) = span (x1 a) (x2 a); (l2, r2) = span (x1 b) (x2 b);
               (t1, b1) = span (y1 a) (y2 a); (t2, b2) = span (y1 b) (y2 b)
           in \<lparr>x1 = max l1 l2, y1 = max t1 t2, x2 = min r1 r2, y2 = min b1 b2\<rparr>)"

definition united :: "rect \<Rightarrow> rect \<Rightarrow> rect" where
  "united a b =
     (if rect_null a then b else if rect_null b then a
      else let (l1, r1) = span (x1 a) (x2 a); (l2, r2) = span (x1 b) (x2 b);
               (t1, b1) = span (y1 a) (y2 a); (t2, b2) = span (y1 b) (y2 b)
           in \<lparr>x1 = min l1 l2, y1 = min t1 t2, x2 = max r1 r2, y2 = max b1 b2\<rparr>)"

definition add_margins :: "margins \<Rightarrow> rect \<Rightarrow> rect" where
  "add_margins m r = adjusted (- m_left m) (- m_top m) (m_right m) (m_bottom m) r"

definition remove_margins :: "margins \<Rightarrow> rect \<Rightarrow> rect" where
  "remove_margins m r = adjusted (m_left m) (m_top m) (- m_right m) (- m_bottom m) r"

definition expanded_to :: "extent \<Rightarrow> extent \<Rightarrow> extent" where
  "expanded_to t s = (max (fst s) (fst t), max (snd s) (snd t))"

definition bounded_to :: "extent \<Rightarrow> extent \<Rightarrow> extent" where
  "bounded_to t s = (min (fst s) (fst t), min (snd s) (snd t))"

definition manhattan_length :: "point \<Rightarrow> int" where
  "manhattan_length p = abs (fst p) + abs (snd p)"

lemmas rect_defs = rect_width_def rect_height_def move_left_def move_top_def move_right_def
  move_bottom_def move_top_left_def top_left_def set_extent_def mk_rect_def adjusted_def
  rect_extent_def translated_def set_left_def set_top_def set_right_def set_bottom_def

section \<open>The geometry of a window (window_geometry.h)\<close>

datatype pending_geometry = pending_none | pending_normal | pending_forced

text \<open>position of types.h; its values are flags of the sides.\<close>

datatype contact =
  at_center | at_left | at_right | at_top | at_bottom | at_top_left | at_top_right | at_bottom_left
| at_bottom_right

datatype cursor = Arrow_Cursor | Size_All_Cursor | Size_Cursor contact

text \<open>move_resize_op (structs.h); \<open>mr_delayed\<close> says that the timer of a delayed start runs.\<close>

record move_op =
  mr_enabled :: bool
  mr_unrestricted :: bool
  mr_offset :: point
  mr_inverted_offset :: point
  mr_initial :: rect
  mr_geometry :: rect
  mr_contact :: contact
  mr_button_down :: bool
  mr_cursor :: cursor
  mr_start_screen :: nat
  mr_delayed :: bool

datatype plasma_role = role_normal | role_applet_popup | role_other

text \<open>The window is a toplevel of the Wayland class. \<open>g_margins\<close> is what frame_margins returns
  from the decoration, \<open>g_max_mode\<close> what maximizeMode() returns, \<open>g_rules\<close> the rules of the window,
  \<open>g_min_hint\<close> and \<open>g_max_hint\<close> the sizes the client asks for, \<open>g_layer\<close> and \<open>g_plasma\<close> its layer
  surface and the role of its Plasma surface, \<open>g_strut\<close> what hasStrut() returns.\<close>

record win_geo =
  g_frame :: rect
  g_block :: int
  g_pending :: pending_geometry
  g_update_frame :: rect
  g_update_max :: flag
  g_update_fullscreen :: bool
  g_restore :: rect
  g_margins :: margins
  g_client_extents :: margins
  g_in_content_deco :: bool
  g_max_mode :: flag
  g_min_hint :: extent
  g_max_hint :: extent
  g_increments :: extent
  g_layer :: bool
  g_plasma :: "plasma_role option"
  g_strut :: bool
  g_rules :: "rid list"
  g_quicktiling :: flag
  g_electric :: flag
  g_electric_maximizing :: bool
  g_move :: move_op

text \<open>quicktiles and strut_area (types.h).\<close>

definition quick_none :: flag where "quick_none = 0"
definition quick_left :: flag where "quick_left = 0x1"
definition quick_right :: flag where "quick_right = 0x2"
definition quick_top :: flag where "quick_top = 0x4"
definition quick_bottom :: flag where "quick_bottom = 0x8"
definition quick_horizontal :: flag where "quick_horizontal = flag_or quick_left quick_right"
definition quick_vertical :: flag where "quick_vertical = flag_or quick_top quick_bottom"
definition quick_maximize :: flag where
  "quick_maximize = flag_or (flag_or quick_left quick_right) (flag_or quick_top quick_bottom)"

definition strut_top :: flag where "strut_top = push_bit 0 1"
definition strut_right :: flag where "strut_right = push_bit 1 1"
definition strut_bottom :: flag where "strut_bottom = push_bit 2 1"
definition strut_left :: flag where "strut_left = push_bit 3 1"

datatype area_option =
  area_placement | area_movement | area_maximize | area_maximize_full | area_fullscreen
| area_work | area_full | area_screen

text \<open>The desktop: the windows and their geometries, the outputs by their geometries, the areas of the
  subspaces (space_areas.h), the rules, and the options the geometry code reads. \<open>dk_synced\<close> says
  whether a window with the geometry to come takes its frame at once or has to agree with its client
  first, when the frame comes with the answer; \<open>dk_decorate\<close> is
  what handle_update_no_border makes of the geometry. The ratio is a rational number.\<close>

datatype geo_signal = Quicktiling_Changed wid | Outline_Shown rect rect | Outline_Hidden
  | Elevated wid bool | Electric_Timer wid | Move_Started wid | Move_Stepped wid rect | Move_Finished wid
  | Sync_Asked wid rect | Edges_Checked point | Desktop_Switching bool | Cursor_Changed wid cursor
  | Output_Changed wid | Current_Output_Changed

record desk =
  dk_space :: space
  dk_geo :: "wid \<Rightarrow> win_geo"
  dk_outputs :: "rect list"
  dk_topology :: extent
  dk_current_output :: "nat option"
  dk_follows_mouse :: bool
  dk_cursor :: point
  dk_focus_mouse :: point
  dk_moving :: "wid option"
  dk_block_focus :: int
  dk_work :: "rect list"
  dk_screen :: "rect list list"
  dk_struts :: "(rect \<times> flag) list list"
  dk_old_struts :: "(rect \<times> flag) list list"
  dk_old_display :: extent
  dk_old_screens :: "rect list"
  dk_random :: point
  dk_rulings :: ruling_heap
  dk_placement :: placement
  dk_border_snap :: int
  dk_window_snap :: int
  dk_center_snap :: int
  dk_snap_overlapping :: bool
  dk_electric_tiling :: bool
  dk_electric_maximize :: bool
  dk_electric_ratio :: rat
  dk_borderless_maximized :: bool
  dk_decorate :: "wid \<Rightarrow> bool \<Rightarrow> win_geo \<Rightarrow> win_geo"
  dk_synced :: "wid \<Rightarrow> win_geo \<Rightarrow> bool"
  dk_signals :: "geo_signal list"

abbreviation geo :: "desk \<Rightarrow> wid \<Rightarrow> win_geo" where
  "geo d w \<equiv> dk_geo d w"

abbreviation dwin :: "desk \<Rightarrow> wid \<Rightarrow> window" where
  "dwin d w \<equiv> heap (dk_space d) w"

definition update_geo :: "wid \<Rightarrow> (win_geo \<Rightarrow> win_geo) \<Rightarrow> desk \<Rightarrow> desk" where
  "update_geo w f d = d\<lparr>dk_geo := (dk_geo d)(w := f (dk_geo d w))\<rparr>"

lemma geo_update_geo [simp]: "geo (update_geo w f d) v = (if v = w then f (geo d w) else geo d v)"
  by (simp add: update_geo_def)

definition geo_emit :: "geo_signal \<Rightarrow> desk \<Rightarrow> desk" where
  "geo_emit s d = d\<lparr>dk_signals := dk_signals d @ [s]\<rparr>"

lemma desk_update_geo [simp]:
  "dk_space (update_geo w f d) = dk_space d" "dk_outputs (update_geo w f d) = dk_outputs d"
  "dk_rulings (update_geo w f d) = dk_rulings d" "dk_synced (update_geo w f d) = dk_synced d"
  "dk_topology (update_geo w f d) = dk_topology d" "dk_work (update_geo w f d) = dk_work d"
  "dk_screen (update_geo w f d) = dk_screen d" "dk_cursor (update_geo w f d) = dk_cursor d"
  "dk_current_output (update_geo w f d) = dk_current_output d"
  "dk_follows_mouse (update_geo w f d) = dk_follows_mouse d"
  by (simp_all add: update_geo_def)

section \<open>Frames and contents (geo.h)\<close>

text \<open>A window is not null, and the two windows are of the same class in one run, so that they are
  compared.\<close>

definition is_irrelevant :: "space \<Rightarrow> wid \<Rightarrow> wid \<Rightarrow> int \<Rightarrow> bool" where
  "is_irrelevant sp window regarding subsp =
     (if win_control (win sp window) = None then True
      else if win_class (win sp window) = win_class (win sp regarding) \<and> window = regarding then True
      else if \<not> shown (win sp window) then True
      else if \<not> on_subspace sp window subsp then True
      else is_desktop (win sp window))"

definition client_to_frame_rect :: "win_geo \<Rightarrow> rect \<Rightarrow> rect" where
  "client_to_frame_rect g content = remove_margins (g_client_extents g) (add_margins (g_margins g) content)"

definition frame_to_client_rect :: "win_geo \<Rightarrow> rect \<Rightarrow> rect" where
  "frame_to_client_rect g frame = add_margins (g_client_extents g) (remove_margins (g_margins g) frame)"

definition client_to_frame_pos :: "win_geo \<Rightarrow> point \<Rightarrow> point" where
  "client_to_frame_pos g p = top_left (client_to_frame_rect g (mk_rect (fst p) (snd p) (-1) (-1)))"

definition client_to_frame_size :: "win_geo \<Rightarrow> extent \<Rightarrow> extent" where
  "client_to_frame_size g s = rect_extent (client_to_frame_rect g (mk_rect 0 0 (fst s) (snd s)))"

definition frame_to_client_pos :: "win_geo \<Rightarrow> point \<Rightarrow> point" where
  "frame_to_client_pos g p = top_left (frame_to_client_rect g (mk_rect (fst p) (snd p) (-1) (-1)))"

definition frame_to_client_size :: "win_geo \<Rightarrow> extent \<Rightarrow> extent" where
  "frame_to_client_size g s = rect_extent (frame_to_client_rect g (mk_rect 0 0 (fst s) (snd s)))"

definition frame_relative_client_rect :: "win_geo \<Rightarrow> rect" where
  "frame_relative_client_rect g =
     translated (- x1 (g_frame g), - y1 (g_frame g)) (frame_to_client_rect g (g_frame g))"

definition frame_to_render_rect :: "win_geo \<Rightarrow> rect \<Rightarrow> rect" where
  "frame_to_render_rect g frame =
     add_margins (g_client_extents g)
       (if g_in_content_deco g then frame else remove_margins (g_margins g) frame)"

definition pending_frame_geometry :: "win_geo \<Rightarrow> rect" where
  "pending_frame_geometry g = (if g_pending g = pending_none then g_frame g else g_update_frame g)"

text \<open>minSize and maxSize of the window, and adjusted_frame_size of control.h, which does not look at the
  mode. The second overflow check sets the width again.\<close>

definition INT_MAX :: int where "INT_MAX = 2 ^ 31 - 1"

definition min_size_of :: "desk \<Rightarrow> wid \<Rightarrow> extent" where
  "min_size_of d w = checkMinSize (dk_rulings d) (g_rules (geo d w)) (g_min_hint (geo d w))"

definition max_size_of :: "desk \<Rightarrow> wid \<Rightarrow> extent" where
  "max_size_of d w = checkMaxSize (dk_rulings d) (g_rules (geo d w)) (g_max_hint (geo d w))"

definition adjusted_frame_size :: "desk \<Rightarrow> wid \<Rightarrow> extent \<Rightarrow> extent" where
  "adjusted_frame_size d w frame_size =
     (let m = g_margins (geo d w);
          bw = m_left m + m_right m; bh = m_top m + m_bottom m;
          min_size = (fst (min_size_of d w) + bw, snd (min_size_of d w) + bh);
          max_size = max_size_of d w;
          max_size = (if INT_MAX - bw \<ge> fst max_size then (fst max_size + bw, snd max_size) else max_size);
          max_size = (if INT_MAX - bh \<ge> snd max_size then (snd max_size + bh, snd max_size) else max_size)
      in bounded_to max_size (expanded_to min_size frame_size))"

section \<open>What the rules and the client let the user do (wayland/window.h)\<close>

definition position_ruled :: "desk \<Rightarrow> wid \<Rightarrow> bool" where
  "position_ruled d w \<longleftrightarrow>
     checkPosition (dk_rulings d) (g_rules (geo d w)) invalid_point False \<noteq> invalid_point"

definition isMovable :: "desk \<Rightarrow> wid \<Rightarrow> bool" where
  "isMovable d w =
     (if win_control (dwin d w) = None then False
      else if g_layer (geo d w) then False
      else if g_update_fullscreen (geo d w) then False
      else if position_ruled d w then False
      else case g_plasma (geo d w) of Some role \<Rightarrow> role = role_normal | None \<Rightarrow> True)"

definition isMovableAcrossScreens :: "desk \<Rightarrow> wid \<Rightarrow> bool" where
  "isMovableAcrossScreens d w =
     (if win_control (dwin d w) = None then False
      else if g_layer (geo d w) then False
      else if is_special_window (dwin d w) \<and> \<not> is_splash (dwin d w) \<and> \<not> is_toolbar (dwin d w)
              \<and> \<not> is_applet_popup (dwin d w) then False
      else if position_ruled d w then False
      else case g_plasma (geo d w) of Some role \<Rightarrow> role = role_normal | None \<Rightarrow> True)"

definition isResizable :: "desk \<Rightarrow> wid \<Rightarrow> bool" where
  "isResizable d w =
     (if win_control (dwin d w) = None then False
      else if g_layer (geo d w) then False
      else if g_update_fullscreen (geo d w) then False
      else if size_is_valid (checkSize (dk_rulings d) (g_rules (geo d w)) (-1, -1) False) then False
      else case g_plasma (geo d w) of
             Some role \<Rightarrow> role = role_normal \<or> role = role_applet_popup
           | None \<Rightarrow> fst (min_size_of d w) < fst (max_size_of d w)
                     \<or> snd (min_size_of d w) < snd (max_size_of d w))"

definition isMaximizable :: "desk \<Rightarrow> wid \<Rightarrow> bool" where
  "isMaximizable d w =
     (if \<not> isResizable d w then False
      else checkMaximize (dk_rulings d) (g_rules (geo d w)) maximize_restore False = maximize_restore
           \<and> checkMaximize (dk_rulings d) (g_rules (geo d w)) maximize_full False = maximize_full)"

section \<open>The new frame of a window\<close>

definition ruled_geometry :: "desk \<Rightarrow> wid \<Rightarrow> rect \<Rightarrow> rect" where
  "ruled_geometry d w r =
     (let q = checkGeometry (dk_rulings d) (g_rules (geo d w))
                \<lparr>rect_pos = top_left r, rect_size = rect_extent r\<rparr> False
      in mk_rect (fst (rect_pos q)) (snd (rect_pos q)) (fst (rect_size q)) (snd (rect_size q)))"

text \<open>setFrameGeometry: the rules have their say, the frame is stored for the update, and unless
  updates are blocked the window is asked to take it.\<close>

definition setFrameGeometry :: "wid \<Rightarrow> rect \<Rightarrow> desk \<Rightarrow> desk" where
  "setFrameGeometry w r d =
     (let frame_geo = (if win_control (dwin d w) = None then r else ruled_geometry d w r);
          d = update_geo w (\<lambda>g. g\<lparr>g_update_frame := frame_geo\<rparr>) d
      in if g_block (geo d w) \<noteq> 0 then update_geo w (\<lambda>g. g\<lparr>g_pending := pending_normal\<rparr>) d
         else
           let d = update_geo w (\<lambda>g. g\<lparr>g_pending := pending_none\<rparr>) d
           in if dk_synced d w (geo d w) then update_geo w (\<lambda>g. g\<lparr>g_frame := frame_geo\<rparr>) d else d)"

definition block_geometry_updates :: "wid \<Rightarrow> bool \<Rightarrow> desk \<Rightarrow> desk" where
  "block_geometry_updates w b d =
     (if b then update_geo w (\<lambda>g. g\<lparr>g_block := g_block g + 1\<rparr>) d
      else
        let d = update_geo w (\<lambda>g. g\<lparr>g_block := g_block g - 1\<rparr>) d
        in if g_block (geo d w) = 0 \<and> g_pending (geo d w) \<noteq> pending_none
           then setFrameGeometry w (g_update_frame (geo d w)) d else d)"

text \<open>move of move.h, None where its assertion fails.\<close>

definition win_move :: "wid \<Rightarrow> point \<Rightarrow> desk \<Rightarrow> desk option" where
  "win_move w p d =
     (if g_pending (geo d w) \<noteq> pending_none \<and> g_block (geo d w) = 0 then None
      else
        let old = pending_frame_geometry (geo d w)
        in Some (if top_left old = p then d else setFrameGeometry w (move_top_left p old) d))"

section \<open>Outputs (base/output_helpers.h, screen.h)\<close>

definition get_intersecting_outputs :: "rect list \<Rightarrow> rect \<Rightarrow> rect list" where
  "get_intersecting_outputs outputs r = filter (\<lambda>o1. intersects o1 r) outputs"

definition corner_distance :: "rect \<Rightarrow> point \<Rightarrow> int" where
  "corner_distance r p =
     (let distance = manhattan_length (x1 r - fst p, y1 r - snd p);
          distance = min distance (manhattan_length (x2 r - fst p, y1 r - snd p));
          distance = min distance (manhattan_length (x2 r - fst p, y2 r - snd p))
      in min distance (manhattan_length (x1 r - fst p, y2 r - snd p)))"

fun nearest_output_loop :: "rect list \<Rightarrow> nat \<Rightarrow> point \<Rightarrow> nat option \<Rightarrow> int \<Rightarrow> nat option" where
  "nearest_output_loop [] i p best min_distance = best"
| "nearest_output_loop (r # rs) i p best min_distance =
     (if contains_point r p then Some i
      else let distance = corner_distance r p
           in if distance < min_distance then nearest_output_loop rs (Suc i) p (Some i) distance
              else nearest_output_loop rs (Suc i) p best min_distance)"

definition get_nearest_output :: "rect list \<Rightarrow> point \<Rightarrow> nat option" where
  "get_nearest_output outputs p = nearest_output_loop outputs 0 p None INT_MAX"

definition on_screen :: "desk \<Rightarrow> wid \<Rightarrow> nat option \<Rightarrow> bool" where
  "on_screen d w out =
     (case out of None \<Rightarrow> False | Some i \<Rightarrow> intersects (dk_outputs d ! i) (g_frame (geo d w)))"

definition get_current_output :: "desk \<Rightarrow> nat option" where
  "get_current_output d =
     (if dk_follows_mouse d then get_nearest_output (dk_outputs d) (dk_cursor d)
      else
        let cur = dk_current_output d
        in case active (dk_space d) of
             None \<Rightarrow> cur
           | Some a \<Rightarrow> if on_screen d a cur then cur else central_output (dwin d a))"

section \<open>Areas (window_area.h, geo_move.h)\<close>

definition in_update_window_area :: "desk \<Rightarrow> bool" where
  "in_update_window_area d \<longleftrightarrow> dk_old_struts d \<noteq> []"

definition area_subspace :: "desk \<Rightarrow> int \<Rightarrow> nat" where
  "area_subspace d subsp =
     (if subsp = x11_desktop_number_on_all \<or> subsp = 0
      then subspaces_get_current_x11id (subspace_manager (dk_space d)) else nat subsp)"

definition space_window_area_output :: "desk \<Rightarrow> area_option \<Rightarrow> nat option \<Rightarrow> int \<Rightarrow> rect" where
  "space_window_area_output d opt out subsp =
     (let sub = area_subspace d subsp;
          out = (if out = None then get_current_output d else out);
          output_geo = (case out of None \<Rightarrow> null_rect | Some i \<Rightarrow> dk_outputs d ! i);
          output_index = (case out of None \<Rightarrow> 0 | Some i \<Rightarrow> i);
          areas = dk_screen d ! sub;
          sarea = (if dk_screen d \<noteq> [] \<and> output_index < length areas then areas ! output_index
                   else output_geo);
          all = mk_rect 0 0 (fst (dk_topology d)) (snd (dk_topology d));
          work = dk_work d ! sub;
          warea = (if rect_null work then all else work)
      in case opt of
           area_maximize \<Rightarrow> sarea
         | area_placement \<Rightarrow> sarea
         | area_maximize_full \<Rightarrow> output_geo
         | area_fullscreen \<Rightarrow> output_geo
         | area_movement \<Rightarrow> output_geo
         | area_screen \<Rightarrow> output_geo
         | area_work \<Rightarrow> warea
         | area_full \<Rightarrow> all)"

definition space_window_area_point :: "desk \<Rightarrow> area_option \<Rightarrow> point \<Rightarrow> int \<Rightarrow> rect" where
  "space_window_area_point d opt p subsp =
     space_window_area_output d opt (get_nearest_output (dk_outputs d) p) subsp"

definition space_window_area :: "desk \<Rightarrow> area_option \<Rightarrow> wid \<Rightarrow> rect" where
  "space_window_area d opt w =
     space_window_area_point d opt (rect_center (pending_frame_geometry (geo d w)))
       (get_subspace (dk_space d) w)"

text \<open>The struts of a subspace on some sides, one after the other. The code joins them in a region,
  whose rectangles cover the same points.\<close>

definition struts_of :: "desk \<Rightarrow> int \<Rightarrow> flag \<Rightarrow> (rect \<times> flag) list list \<Rightarrow> rect list" where
  "struts_of d subsp areas struts =
     map fst (filter (\<lambda>(_, area). flags_any (flag_and areas area)) (struts ! area_subspace d subsp))"

definition restricted_move_area :: "desk \<Rightarrow> int \<Rightarrow> flag \<Rightarrow> rect list" where
  "restricted_move_area d subsp areas = struts_of d subsp areas (dk_struts d)"

definition previous_restricted_move_area :: "desk \<Rightarrow> int \<Rightarrow> flag \<Rightarrow> rect list" where
  "previous_restricted_move_area d subsp areas = struts_of d subsp areas (dk_old_struts d)"

section \<open>Basic facts\<close>

lemma frame_client_inverse:
  "frame_to_client_rect g (client_to_frame_rect g r) = r"
  "client_to_frame_rect g (frame_to_client_rect g r) = r"
  by (simp_all add: frame_to_client_rect_def client_to_frame_rect_def add_margins_def
      remove_margins_def adjusted_def)

lemma move_top_left_simps [simp]:
  "x1 (move_top_left p r) = fst p" "y1 (move_top_left p r) = snd p"
  "rect_width (move_top_left p r) = rect_width r" "rect_height (move_top_left p r) = rect_height r"
  by (simp_all add: rect_defs)

lemma span_valid [simp]: "a \<le> b \<Longrightarrow> span a b = (a, b)"
  by (simp add: span_def)

lemma half_bounds: "0 \<le> n \<Longrightarrow> 0 \<le> (n :: int) sdiv 2 \<and> n sdiv 2 \<le> n \<and> n sdiv 2 = n div 2"
  by (cases "n = 0") (auto simp: signed_divide_int_def sgn_if div_le_dividend)

end
