(* ===== verification/Smart_Placement.thy ===== *)
theory Smart_Placement
  imports Geometry
begin

text \<open>
  The smart placement of placement.h: the windows the new one may be in the way of, the overlap with
  them at a position, the next columns and rows to try, and the search over the positions.
\<close>

section \<open>The windows in the way\<close>

text \<open>\<open>ob_right\<close> and \<open>ob_bottom\<close> are one past the frame; \<open>ob_weight\<close> is what a pixel of overlap
  with the window costs.\<close>

record obstacle =
  ob_left :: int
  ob_top :: int
  ob_right :: int
  ob_bottom :: int
  ob_weight :: int

definition overlap_weight :: "window \<Rightarrow> int" where
  "overlap_weight v =
     (case win_control v of
        None \<Rightarrow> 1
      | Some c \<Rightarrow> if keep_above c then 16 else if keep_below c \<and> \<not> is_dock v then 0 else 1)"

definition obstacle_of :: "desk \<Rightarrow> wid \<Rightarrow> obstacle" where
  "obstacle_of d v =
     (let frame = g_update_frame (geo d v)
      in \<lparr>ob_left = x1 frame, ob_top = y1 frame, ob_right = x1 frame + rect_width frame,
          ob_bottom = y1 frame + rect_height frame, ob_weight = overlap_weight (dwin d v)\<rparr>)"

definition placement_subspace :: "desk \<Rightarrow> wid \<Rightarrow> int" where
  "placement_subspace d w =
     (if get_subspace (dk_space d) w = 0 \<or> on_all_subspaces (dk_space d) w
      then int (subspaces_get_current_x11id (subspace_manager (dk_space d)))
      else get_subspace (dk_space d) w)"

definition obstacles :: "desk \<Rightarrow> wid \<Rightarrow> obstacle list" where
  "obstacles d w =
     map (obstacle_of d)
       (filter (\<lambda>v. \<not> is_irrelevant (dk_space d) v w (placement_subspace d w)) (stack (dk_space d)))"

section \<open>A position and the next ones\<close>

text \<open>The overlap of a window of \<open>cw\<close> + 1 and \<open>ch\<close> + 1 pixels at a position with one other.\<close>

definition overlap_with :: "int \<Rightarrow> int \<Rightarrow> int \<Rightarrow> int \<Rightarrow> obstacle \<Rightarrow> int" where
  "overlap_with cw ch x y b =
     (if x < ob_right b \<and> x + cw > ob_left b \<and> y < ob_bottom b \<and> y + ch > ob_top b
      then ob_weight b * (min (x + cw) (ob_right b) - max x (ob_left b))
                       * (min (y + ch) (ob_bottom b) - max y (ob_top b))
      else 0)"

definition overlap_none :: int where "overlap_none = 0"
definition h_wrong :: int where "h_wrong = -1"
definition w_wrong :: int where "w_wrong = -2"

definition smart_overlap :: "rect \<Rightarrow> int \<Rightarrow> int \<Rightarrow> obstacle list \<Rightarrow> int \<Rightarrow> int \<Rightarrow> int" where
  "smart_overlap area cw ch obs x y =
     (if y + ch > y2 area \<and> ch < rect_height area then h_wrong
      else if x + cw > x2 area then w_wrong
      else fold (\<lambda>b overlap. overlap + overlap_with cw ch x y b) obs overlap_none)"

definition nearer :: "int \<Rightarrow> int \<Rightarrow> int \<Rightarrow> int" where
  "nearer pos candidate possible = (if candidate > pos \<and> possible > candidate then candidate else possible)"

definition next_column :: "rect \<Rightarrow> int \<Rightarrow> int \<Rightarrow> obstacle list \<Rightarrow> int \<Rightarrow> int \<Rightarrow> int" where
  "next_column area cw ch obs x y =
     fold (\<lambda>b possible. if y < ob_bottom b \<and> ob_top b < ch + y
                        then nearer x (ob_left b - cw) (nearer x (ob_right b) possible) else possible)
       obs (if x2 area - cw > x then x2 area - cw else x2 area)"

definition next_row :: "rect \<Rightarrow> int \<Rightarrow> obstacle list \<Rightarrow> int \<Rightarrow> int" where
  "next_row area ch obs y =
     fold (\<lambda>b possible. nearer y (ob_top b - ch) (nearer y (ob_bottom b) possible))
       obs (if y2 area - ch > y then y2 area - ch else y2 area)"

section \<open>The search\<close>

text \<open>The state of the loop: the position, whether it is the first pass, the smallest overlap so far
  and the best position.\<close>

definition smart_record :: "int \<Rightarrow> int \<Rightarrow> int \<Rightarrow> bool \<Rightarrow> int \<Rightarrow> point \<Rightarrow> int \<times> point" where
  "smart_record overlap x y first_pass min_overlap best =
     (if first_pass then (overlap, best)
      else if overlap \<ge> overlap_none \<and> overlap < min_overlap then (overlap, (x, y))
      else (min_overlap, best))"

definition smart_next :: "rect \<Rightarrow> int \<Rightarrow> int \<Rightarrow> obstacle list \<Rightarrow> int \<Rightarrow> int \<Rightarrow> int \<Rightarrow> point" where
  "smart_next area cw ch obs overlap x y =
     (if overlap > overlap_none then (next_column area cw ch obs x y, y)
      else if overlap = w_wrong then (x1 area, next_row area ch obs y)
      else (x, y))"

partial_function (option) smart_loop ::
    "rect \<Rightarrow> int \<Rightarrow> int \<Rightarrow> obstacle list \<Rightarrow> point \<Rightarrow> bool \<Rightarrow> int \<Rightarrow> point \<Rightarrow> point option" where
  "smart_loop area cw ch obs p first_pass min_overlap best =
     (let overlap = smart_overlap area cw ch obs (fst p) (snd p)
      in if overlap = overlap_none then Some p
         else
           let (min_overlap, best) = smart_record overlap (fst p) (snd p) first_pass min_overlap best;
               p = smart_next area cw ch obs overlap (fst p) (snd p)
           in if overlap \<noteq> h_wrong \<and> snd p < y2 area
              then smart_loop area cw ch obs p False min_overlap best
              else Some best)"

declare smart_loop.simps [code]

definition smart_position :: "rect \<Rightarrow> extent \<Rightarrow> obstacle list \<Rightarrow> point option" where
  "smart_position area s obs =
     (let ch = snd s - 1; cw = fst s - 1
      in map_option (\<lambda>best. if ch \<ge> rect_height area then (fst best, y1 area) else best)
           (smart_loop area cw ch obs (top_left area) True 0 (top_left area)))"

definition place_smart :: "wid \<Rightarrow> rect \<Rightarrow> desk \<Rightarrow> desk option" where
  "place_smart w area d =
     (let s = rect_extent (g_update_frame (geo d w))
      in if \<not> rect_valid area then None
         else if \<not> extent_valid s then Some d
         else case smart_position area s (obstacles d w) of
                None \<Rightarrow> None
              | Some p \<Rightarrow> win_move w p d)"

section \<open>What one step does\<close>

lemma smart_overlap_cases:
  "smart_overlap area cw ch obs x y =
     (if y + ch > y2 area \<and> ch < rect_height area then -1
      else if x + cw > x2 area then -2
      else sum_list (map (overlap_with cw ch x y) obs))"
proof -
  have "fold (\<lambda>b s. s + overlap_with cw ch x y b) obs a = a + sum_list (map (overlap_with cw ch x y) obs)"
    for a
    by (induction obs arbitrary: a) auto
  then show ?thesis
    by (simp add: smart_overlap_def h_wrong_def w_wrong_def overlap_none_def)
qed

text \<open>A window at a position is blocked when it overlaps another that counts.\<close>

definition blocked_by :: "int \<Rightarrow> int \<Rightarrow> int \<Rightarrow> int \<Rightarrow> obstacle \<Rightarrow> bool" where
  "blocked_by cw ch x y b \<longleftrightarrow>
     ob_weight b > 0 \<and> x < ob_right b \<and> x + cw > ob_left b \<and> y < ob_bottom b \<and> y + ch > ob_top b"

definition obstacle_proper :: "obstacle \<Rightarrow> bool" where
  "obstacle_proper b \<longleftrightarrow> ob_left b < ob_right b \<and> ob_top b < ob_bottom b \<and> ob_weight b \<ge> 0"

lemma overlap_with_nonneg:
  assumes "0 \<le> cw" "0 \<le> ch" "obstacle_proper b"
  shows "0 \<le> overlap_with cw ch x y b"
proof (cases "x < ob_right b \<and> x + cw > ob_left b \<and> y < ob_bottom b \<and> y + ch > ob_top b")
  case True
  then have "0 \<le> min (x + cw) (ob_right b) - max x (ob_left b)"
    and "0 \<le> min (y + ch) (ob_bottom b) - max y (ob_top b)"
    using assms by (auto simp: obstacle_proper_def)
  then show ?thesis
    using True assms by (simp add: overlap_with_def obstacle_proper_def)
qed (auto simp: overlap_with_def)

lemma overlap_with_zero:
  assumes "0 < cw" "0 < ch" "obstacle_proper b"
  shows "overlap_with cw ch x y b = 0 \<longleftrightarrow> \<not> blocked_by cw ch x y b"
proof (cases "x < ob_right b \<and> x + cw > ob_left b \<and> y < ob_bottom b \<and> y + ch > ob_top b")
  case True
  then have "0 < min (x + cw) (ob_right b) - max x (ob_left b)"
    and "0 < min (y + ch) (ob_bottom b) - max y (ob_top b)"
    using assms by (auto simp: obstacle_proper_def)
  then show ?thesis
    using True assms by (auto simp: overlap_with_def blocked_by_def obstacle_proper_def)
qed (auto simp: overlap_with_def blocked_by_def)

lemma overlap_with_thin:
  assumes "cw = 0 \<or> ch = 0" "obstacle_proper b"
  shows "overlap_with cw ch x y b = 0"
  using assms by (auto simp: overlap_with_def obstacle_proper_def min_def max_def)

lemma sum_nonneg_zero:
  assumes "\<forall>b \<in> set bs. 0 \<le> f b"
  shows "sum_list (map f bs) \<ge> (0 :: int)" "sum_list (map f bs) = 0 \<longleftrightarrow> (\<forall>b \<in> set bs. f b = 0)"
proof -
  show nn: "sum_list (map f bs) \<ge> 0"
    using assms by (induction bs) auto
  show "sum_list (map f bs) = 0 \<longleftrightarrow> (\<forall>b \<in> set bs. f b = 0)"
    using assms
  proof (induction bs)
    case (Cons b bs)
    have "0 \<le> sum_list (map f bs)" "0 \<le> f b"
      using Cons.prems by (induction bs) auto
    then show ?case using Cons by auto
  qed simp
qed

text \<open>The candidates for the next position.\<close>

lemma nearer_le: "nearer p c q \<le> q"
  by (simp add: nearer_def)

lemma nearer_le_candidate: "c > p \<Longrightarrow> nearer p c q \<le> c"
  by (simp add: nearer_def)

lemma nearer_gt: "q > p \<Longrightarrow> nearer p c q > p"
  by (simp add: nearer_def)

text \<open>A fold that only lowers its value, and keeps it over a bound.\<close>

lemma fold_lowers: "(\<And>b q. f b q \<le> (q :: int)) \<Longrightarrow> fold f bs q \<le> q"
proof (induction bs arbitrary: q)
  case (Cons b bs)
  have "fold f bs (f b q) \<le> f b q" using Cons by blast
  also have "\<dots> \<le> q" using Cons.prems by blast
  finally show ?case by simp
qed simp

lemma fold_keeps_over: "(\<And>b q. p < q \<Longrightarrow> p < f b q) \<Longrightarrow> (p :: int) < q \<Longrightarrow> p < fold f bs q"
  by (induction bs arbitrary: q) auto

lemma fold_lowers_to:
  assumes "\<And>b q. f b q \<le> (q :: int)" "b \<in> set bs" "\<And>q. f b q \<le> c"
  shows "fold f bs q \<le> c"
  using assms(2)
proof (induction bs arbitrary: q)
  case (Cons e bs)
  show ?case
  proof (cases "e = b")
    case True
    have "fold f bs (f b q) \<le> f b q" using assms(1) by (rule fold_lowers)
    also have "\<dots> \<le> c" by (rule assms(3))
    finally show ?thesis using True by simp
  qed (use Cons in simp)
qed simp

lemma next_row_bounds:
  assumes "y < y2 area" "0 \<le> ch"
  shows "y < next_row area ch obs y" "next_row area ch obs y \<le> y2 area"
    and "y2 area - ch > y \<Longrightarrow> next_row area ch obs y \<le> y2 area - ch"
    and "b \<in> set obs \<Longrightarrow> y < ob_bottom b \<Longrightarrow> next_row area ch obs y \<le> ob_bottom b"
proof -
  let ?step = "\<lambda>b possible. nearer y (ob_top b - ch) (nearer y (ob_bottom b) possible)"
  have low: "?step b q \<le> q" for b q
    using nearer_le order_trans by blast
  have over: "y < q \<Longrightarrow> y < ?step b q" for b q
    by (intro nearer_gt)
  show "y < next_row area ch obs y"
    unfolding next_row_def using over by (rule fold_keeps_over) (use assms in \<open>auto split: if_splits\<close>)
  have "fold ?step obs q \<le> q" for q using low by (rule fold_lowers)
  from this [of "if y2 area - ch > y then y2 area - ch else y2 area"]
  show "next_row area ch obs y \<le> y2 area" "y2 area - ch > y \<Longrightarrow> next_row area ch obs y \<le> y2 area - ch"
    using assms by (auto simp: next_row_def split: if_splits)
  show "next_row area ch obs y \<le> ob_bottom b" if b: "b \<in> set obs" "y < ob_bottom b"
    unfolding next_row_def using low b(1)
  proof (rule fold_lowers_to)
    show "?step b q \<le> ob_bottom b" for q
      using nearer_le nearer_le_candidate [OF b(2)] order_trans by blast
  qed
qed

lemma next_column_bounds:
  assumes "x < x2 area" "0 \<le> cw"
  shows "x < next_column area cw ch obs x y" "next_column area cw ch obs x y \<le> x2 area"
    and "b \<in> set obs \<Longrightarrow> y < ob_bottom b \<Longrightarrow> ob_top b < y + ch \<Longrightarrow> x < ob_right b
         \<Longrightarrow> next_column area cw ch obs x y \<le> ob_right b"
proof -
  let ?step = "\<lambda>b possible. if y < ob_bottom b \<and> ob_top b < ch + y
                 then nearer x (ob_left b - cw) (nearer x (ob_right b) possible) else possible"
  have low2: "nearer x (ob_left b - cw) (nearer x (ob_right b) q) \<le> q" for b q
    using nearer_le order_trans by blast
  have low: "?step b q \<le> q" for b q by (simp add: low2)
  have over: "x < q \<Longrightarrow> x < ?step b q" for b q
    by (auto intro: nearer_gt)
  show "x < next_column area cw ch obs x y"
    unfolding next_column_def using over by (rule fold_keeps_over) (use assms in \<open>auto split: if_splits\<close>)
  have "fold ?step obs q \<le> q" for q using low by (rule fold_lowers)
  from this [of "if x2 area - cw > x then x2 area - cw else x2 area"]
  show "next_column area cw ch obs x y \<le> x2 area"
    using assms by (auto simp: next_column_def split: if_splits)
  show "next_column area cw ch obs x y \<le> ob_right b"
    if b: "b \<in> set obs" "y < ob_bottom b" "ob_top b < y + ch" "x < ob_right b"
    unfolding next_column_def using low b(1)
  proof (rule fold_lowers_to)
    show "?step b q \<le> ob_right b" for q
      using nearer_le nearer_le_candidate [OF b(4)] order_trans b by (simp add: add.commute) blast
  qed
qed

end
