(* ===== verification/Smart_Placement_Props.thy ===== *)
theory Smart_Placement_Props
  imports Smart_Placement
begin

text \<open>
  The search of the smart placement: it ends for every window of at least one pixel, it finds a free
  position whenever the area has one, and it keeps a window that fits inside the area.
\<close>

definition search_ok :: "rect \<Rightarrow> int \<Rightarrow> int \<Rightarrow> obstacle list \<Rightarrow> bool" where
  "search_ok area cw ch obs \<longleftrightarrow>
     rect_valid area \<and> 0 \<le> cw \<and> 0 \<le> ch \<and> (\<forall>b \<in> set obs. obstacle_proper b)"

definition inside_area :: "rect \<Rightarrow> int \<Rightarrow> int \<Rightarrow> point \<Rightarrow> bool" where
  "inside_area area cw ch p \<longleftrightarrow>
     x1 area \<le> fst p \<and> fst p + cw \<le> x2 area \<and> y1 area \<le> snd p \<and> snd p + ch \<le> y2 area"

definition unobstructed :: "int \<Rightarrow> int \<Rightarrow> obstacle list \<Rightarrow> point \<Rightarrow> bool" where
  "unobstructed cw ch obs p \<longleftrightarrow> (\<forall>b \<in> set obs. overlap_with cw ch (fst p) (snd p) b = 0)"

section \<open>The overlap at a position\<close>

lemma overlap_sum:
  assumes "search_ok area cw ch obs"
  shows "0 \<le> sum_list (map (overlap_with cw ch x y) obs)"
    and "sum_list (map (overlap_with cw ch x y) obs) = 0 \<longleftrightarrow> unobstructed cw ch obs (x, y)"
  using sum_nonneg_zero [of obs "overlap_with cw ch x y"] overlap_with_nonneg assms
  by (auto simp: search_ok_def unobstructed_def)

lemma smart_overlap_zero:
  assumes "search_ok area cw ch obs" "smart_overlap area cw ch obs x y = 0"
  shows "x + cw \<le> x2 area" "ch < rect_height area \<Longrightarrow> y + ch \<le> y2 area" "unobstructed cw ch obs (x, y)"
  using assms overlap_sum(2) [OF assms(1)] by (auto simp: smart_overlap_cases split: if_splits)

lemma smart_overlap_pos:
  assumes "search_ok area cw ch obs" "0 < smart_overlap area cw ch obs x y"
  shows "x + cw \<le> x2 area" "ch < rect_height area \<Longrightarrow> y + ch \<le> y2 area"
    and "\<exists>b \<in> set obs. blocked_by cw ch x y b" "0 < cw" "0 < ch"
proof -
  have r: "x + cw \<le> x2 area" "ch < rect_height area \<Longrightarrow> y + ch \<le> y2 area"
      "0 < sum_list (map (overlap_with cw ch x y) obs)"
    using assms(2) by (auto simp: smart_overlap_cases split: if_splits)
  then show "x + cw \<le> x2 area" "ch < rect_height area \<Longrightarrow> y + ch \<le> y2 area" by auto
  obtain b where b: "b \<in> set obs" "overlap_with cw ch x y b \<noteq> 0"
    using r(3) overlap_sum(2) [OF assms(1), of x y] by (auto simp: unobstructed_def)
  then have pos: "cw \<noteq> 0 \<and> ch \<noteq> 0"
    using overlap_with_thin [of cw ch b] assms(1) by (auto simp: search_ok_def)
  then show cw: "0 < cw" and ch: "0 < ch" using assms(1) by (auto simp: search_ok_def)
  then show "\<exists>b \<in> set obs. blocked_by cw ch x y b"
    using b overlap_with_zero [OF cw ch] assms(1) by (auto simp: search_ok_def)
qed

lemma smart_overlap_neg:
  assumes "search_ok area cw ch obs" "smart_overlap area cw ch obs x y < 0"
  shows "smart_overlap area cw ch obs x y = h_wrong \<and> y + ch > y2 area \<and> ch < rect_height area
         \<or> smart_overlap area cw ch obs x y = w_wrong \<and> x + cw > x2 area"
  using assms overlap_sum(1) [OF assms(1), of x y]
  by (auto simp: smart_overlap_cases h_wrong_def w_wrong_def split: if_splits)

section \<open>The search ends\<close>

lemma next_row_last: "y2 area \<le> y \<Longrightarrow> y2 area \<le> next_row area ch obs y"
proof -
  assume last: "y2 area \<le> y"
  have "y2 area - 1 < next_row area ch obs y"
    unfolding next_row_def
  proof (rule fold_keeps_over)
    show "y2 area - 1 < q \<Longrightarrow> y2 area - 1 < nearer y (ob_top b - ch) (nearer y (ob_bottom b) q)"
      for b q using last by (auto simp: nearer_def)
  qed (use last in auto)
  then show ?thesis by simp
qed

definition search_order :: "rect \<Rightarrow> (point \<times> point) set" where
  "search_order area = measures [\<lambda>p. nat (y2 area - snd p), \<lambda>p. nat (x2 area - fst p)]"

lemma search_step_decreases:
  assumes "search_ok area cw ch obs" "smart_overlap area cw ch obs (fst p) (snd p) \<noteq> 0"
    and "smart_overlap area cw ch obs (fst p) (snd p) \<noteq> h_wrong"
    and "snd (smart_next area cw ch obs (smart_overlap area cw ch obs (fst p) (snd p)) (fst p) (snd p)) < y2 area"
  shows "(smart_next area cw ch obs (smart_overlap area cw ch obs (fst p) (snd p)) (fst p) (snd p), p)
           \<in> search_order area"
proof -
  let ?o = "smart_overlap area cw ch obs (fst p) (snd p)"
  consider (pos) "0 < ?o" | (neg) "?o = w_wrong"
    using smart_overlap_neg [OF assms(1), of "fst p" "snd p"] assms(2,3) by linarith
  then show ?thesis
  proof cases
    case pos
    note o = smart_overlap_pos [OF assms(1) pos]
    have "fst p < x2 area" "0 \<le> cw" using o by auto
    from next_column_bounds(1,2) [OF this, of ch obs "snd p"]
    show ?thesis using pos by (simp add: smart_next_def overlap_none_def search_order_def)
  next
    case neg
    have "snd p < y2 area"
      using assms(4) neg next_row_last [of area "snd p" ch obs]
      by (cases "y2 area \<le> snd p") (simp_all add: smart_next_def overlap_none_def w_wrong_def)
    moreover have "0 \<le> ch" using assms(1) by (simp add: search_ok_def)
    ultimately show ?thesis
      using next_row_bounds(1,2) [of "snd p" area ch obs] neg
      by (simp add: smart_next_def overlap_none_def w_wrong_def search_order_def)
  qed
qed

text \<open>The induction every result about the search uses.\<close>

lemma search_induct [consumes 1, case_names step]:
  assumes ok: "search_ok area cw ch obs"
    and step: "\<And>p first_pass m best overlap.
      overlap = smart_overlap area cw ch obs (fst p) (snd p) \<Longrightarrow>
      (overlap \<noteq> 0 \<Longrightarrow> overlap \<noteq> h_wrong \<Longrightarrow>
       snd (smart_next area cw ch obs overlap (fst p) (snd p)) < y2 area \<Longrightarrow>
       P (smart_next area cw ch obs overlap (fst p) (snd p)) False
         (fst (smart_record overlap (fst p) (snd p) first_pass m best))
         (snd (smart_record overlap (fst p) (snd p) first_pass m best))) \<Longrightarrow>
      P p first_pass m best"
  shows "P p first_pass m best"
proof -
  have "wf (search_order area)" by (simp add: search_order_def)
  then show ?thesis
  proof (induction p arbitrary: first_pass m best rule: wf_induct_rule)
    case (less p)
    show ?case
      by (rule step [OF refl], rule less, rule search_step_decreases [OF ok])
  qed
qed

lemma smart_loop_unfold:
  "overlap = smart_overlap area cw ch obs (fst p) (snd p) \<Longrightarrow>
   smart_loop area cw ch obs p first_pass m best =
     (if overlap = 0 then Some p
      else if overlap \<noteq> h_wrong \<and> snd (smart_next area cw ch obs overlap (fst p) (snd p)) < y2 area
      then smart_loop area cw ch obs (smart_next area cw ch obs overlap (fst p) (snd p)) False
             (fst (smart_record overlap (fst p) (snd p) first_pass m best))
             (snd (smart_record overlap (fst p) (snd p) first_pass m best))
      else Some (snd (smart_record overlap (fst p) (snd p) first_pass m best)))"
  by (subst smart_loop.simps) (simp add: Let_def overlap_none_def split_beta)

lemma smart_loop_returns:
  assumes "search_ok area cw ch obs"
  shows "\<exists>r. smart_loop area cw ch obs p first_pass m best = Some r"
  using assms
proof (induction p first_pass m best rule: search_induct)
  case (step p first_pass m best overlap)
  then show ?case by (simp add: smart_loop_unfold [OF step(1)])
qed

section \<open>The result stays in the area\<close>

lemma smart_loop_inside:
  assumes "search_ok area cw ch obs" "ch < rect_height area"
    and "x1 area \<le> fst p" "y1 area \<le> snd p" "inside_area area cw ch best"
    and "smart_loop area cw ch obs p first_pass m best = Some r"
  shows "inside_area area cw ch r"
  using assms
proof (induction p first_pass m best rule: search_induct)
  case (step p first_pass m best overlap)
  note ok = assms(1) and fits = assms(2)
  let ?next = "smart_next area cw ch obs overlap (fst p) (snd p)"
  let ?best = "snd (smart_record overlap (fst p) (snd p) first_pass m best)"
  have here: "inside_area area cw ch p" if "0 \<le> overlap"
    using that step.hyps step.prems(2,3) smart_overlap_zero(1,2) [OF ok, of "fst p" "snd p"]
      smart_overlap_pos(1,2) [OF ok, of "fst p" "snd p"] fits
    by (cases "overlap = 0") (auto simp: inside_area_def)
  have best: "inside_area area cw ch ?best"
    using step.prems(4) here by (auto simp: smart_record_def overlap_none_def)
  show ?case
  proof (cases "overlap = 0")
    case True
    then show ?thesis using step.prems(5) here by (simp add: smart_loop_unfold [OF step.hyps])
  next
    case False
    show ?thesis
    proof (cases "overlap \<noteq> h_wrong \<and> snd ?next < y2 area")
      case True
      from search_step_decreases [OF ok, of p] True False step.hyps
      have dec: "(?next, p) \<in> search_order area" by simp
      have "x1 area \<le> fst ?next" "y1 area \<le> snd ?next"
        using smart_overlap_neg [OF ok, of "fst p" "snd p"] dec step.hyps step.prems(2,3) False True
          smart_overlap_pos(1,4) [OF ok, of "fst p" "snd p"]
          next_column_bounds(1) [of "fst p" area cw ch obs "snd p"]
        by (auto simp: smart_next_def overlap_none_def search_order_def w_wrong_def split: if_splits)
      with step.IH [OF False] True best step.prems(5) False fits show ?thesis
          by (simp add: smart_loop_unfold [OF step.hyps])
    next
      case exit: False
      then have "r = ?best"
        using step.prems(5) False by (auto simp: smart_loop_unfold [OF step.hyps] split: if_splits)
      then show ?thesis using best by simp
    qed
  qed
qed

section \<open>A free position is found\<close>

definition free_position :: "rect \<Rightarrow> int \<Rightarrow> int \<Rightarrow> obstacle list \<Rightarrow> point \<Rightarrow> bool" where
  "free_position area cw ch obs p \<longleftrightarrow> inside_area area cw ch p \<and> unobstructed cw ch obs p"

text \<open>No free position comes before \<open>p\<close> in the order of the search.\<close>

definition none_before :: "rect \<Rightarrow> int \<Rightarrow> int \<Rightarrow> obstacle list \<Rightarrow> point \<Rightarrow> bool" where
  "none_before area cw ch obs p \<longleftrightarrow>
     (\<forall>q. free_position area cw ch obs q \<longrightarrow> snd p < snd q \<or> snd p = snd q \<and> fst p \<le> fst q)"

lemma none_beforeD:
  "none_before area cw ch obs (x, y) \<Longrightarrow> free_position area cw ch obs q
   \<Longrightarrow> y < snd q \<or> y = snd q \<and> x \<le> fst q"
  by (simp add: none_before_def)

lemma blocked_not_free:
  assumes "search_ok area cw ch obs" "b \<in> set obs" "blocked_by cw ch x y b" "0 < cw" "0 < ch"
  shows "\<not> unobstructed cw ch obs (x, y)"
  using assms overlap_with_zero [of cw ch b x y] by (auto simp: search_ok_def unobstructed_def)

lemma column_step_skips_none:
  assumes ok: "search_ok area cw ch obs" and none: "none_before area cw ch obs (x, y)"
    and pos: "0 < smart_overlap area cw ch obs x y"
  shows "none_before area cw ch obs (next_column area cw ch obs x y, y)"
proof -
  note o = smart_overlap_pos [OF ok pos]
  obtain b where b: "b \<in> set obs" "blocked_by cw ch x y b" using o(3) by blast
  have z: "next_column area cw ch obs x y \<le> ob_right b"
    using next_column_bounds(3) [of x area cw b obs y ch] b o by (auto simp: blocked_by_def)
  have "next_column area cw ch obs x y \<le> qx" if "x \<le> qx" "unobstructed cw ch obs (qx, y)" for qx
  proof (rule ccontr)
    assume "\<not> next_column area cw ch obs x y \<le> qx"
    then have "blocked_by cw ch qx y b" using b(2) z that(1) by (auto simp: blocked_by_def)
    then show False using blocked_not_free [OF ok b(1)] o(4,5) that(2) by blast
  qed
  then show ?thesis using none by (fastforce simp: none_before_def free_position_def)
qed

lemma row_step_skips_none:
  assumes ok: "search_ok area cw ch obs" and none: "none_before area cw ch obs (x, y)"
    and wide: "x + cw > x2 area" and top: "y1 area \<le> y"
    and some: "free_position area cw ch obs q"
  shows "next_row area ch obs y \<le> snd q" "0 < ch"
proof -
  have in_q: "inside_area area cw ch q" and un_q: "unobstructed cw ch obs q"
    using some by (auto simp: free_position_def)
  have below: "y < snd q"
    using none_beforeD [OF none some] wide in_q by (auto simp: inside_area_def)
  have "inside_area area cw ch (fst q, y)"
    using in_q below top by (simp add: inside_area_def)
  moreover have "\<not> free_position area cw ch obs (fst q, y)"
    using none_beforeD [OF none, of "(fst q, y)"] wide in_q by (auto simp: inside_area_def)
  ultimately obtain b where b: "b \<in> set obs" "overlap_with cw ch (fst q) y b \<noteq> 0"
    by (auto simp: free_position_def unobstructed_def)
  then have "cw \<noteq> 0 \<and> ch \<noteq> 0"
    using overlap_with_thin [of cw ch b] ok by (auto simp: search_ok_def)
  then have cw: "0 < cw" and ch: "0 < ch" using ok by (auto simp: search_ok_def)
  show "0 < ch" by (rule ch)
  have blk: "blocked_by cw ch (fst q) y b"
    using b overlap_with_zero [OF cw ch] ok by (auto simp: search_ok_def)
  have "y < y2 area" using below in_q ch by (simp add: inside_area_def)
  then have z: "next_row area ch obs y \<le> ob_bottom b"
    using next_row_bounds(4) [of y area ch b obs] ch b(1) blk by (auto simp: blocked_by_def)
  show "next_row area ch obs y \<le> snd q"
  proof (rule ccontr)
    assume "\<not> next_row area ch obs y \<le> snd q"
    then have "blocked_by cw ch (fst q) (snd q) b"
      using blk z below by (auto simp: blocked_by_def)
    then show False using blocked_not_free [OF ok b(1) _ cw ch] un_q by fastforce
  qed
qed

lemma smart_loop_finds:
  assumes "search_ok area cw ch obs" "free_position area cw ch obs q"
    and "x1 area \<le> fst p" "y1 area \<le> snd p" "none_before area cw ch obs p"
  shows "\<exists>r. smart_loop area cw ch obs p first_pass m best = Some r \<and> free_position area cw ch obs r"
  using assms
proof (induction p first_pass m best rule: search_induct)
  case (step p first_pass m best overlap)
  note ok = assms(1) and free = assms(2)
  let ?next = "smart_next area cw ch obs overlap (fst p) (snd p)"
  have none: "none_before area cw ch obs (fst p, snd p)" using step.prems by simp
  have in_q: "inside_area area cw ch q" using free by (simp add: free_position_def)
  have low: "ch < rect_height area"
    using in_q by (simp add: inside_area_def rect_height_def)
  consider (hit) "overlap = 0" | (col) "0 < overlap" | (row) "overlap = w_wrong" "fst p + cw > x2 area"
    | (bottom) "snd p + ch > y2 area"
    using smart_overlap_neg [OF ok, of "fst p" "snd p"] step.hyps by linarith
  then show ?case
  proof cases
    case hit
    then have "free_position area cw ch obs p"
      using smart_overlap_zero [OF ok, of "fst p" "snd p"] step.hyps step.prems(2,3) low
      by (simp add: free_position_def inside_area_def)
    then show ?thesis using hit by (simp add: smart_loop_unfold [OF step.hyps])
  next
    case col
    note o = smart_overlap_pos [OF ok col [unfolded step.hyps]]
    have next_p: "?next = (next_column area cw ch obs (fst p) (snd p), snd p)"
      using col by (simp add: smart_next_def overlap_none_def)
    have "fst p < fst ?next"
      using next_column_bounds(1) [of "fst p" area cw ch obs "snd p"] o(1,4) next_p by simp
    moreover have "none_before area cw ch obs ?next"
      using column_step_skips_none [OF ok none] col step.hyps next_p by simp
    moreover have "snd ?next < y2 area"
      using none_beforeD [OF none free] in_q o(5) next_p by (auto simp: inside_area_def)
    ultimately show ?thesis
      using step.IH col step.prems(2,3) free next_p
      by (simp add: smart_loop_unfold [OF step.hyps] h_wrong_def)
  next
    case row
    have next_p: "?next = (x1 area, next_row area ch obs (snd p))"
      using row by (simp add: smart_next_def overlap_none_def w_wrong_def)
    have rows: "next_row area ch obs (snd p) \<le> snd q'" if "free_position area cw ch obs q'" for q'
      using row_step_skips_none(1) [OF ok none row(2) step.prems(3) that] .
    have "0 < ch" using row_step_skips_none(2) [OF ok none row(2) step.prems(3) free] .
    then have cont: "snd ?next < y2 area"
      using rows [OF free] in_q next_p by (simp add: inside_area_def)
    moreover have "none_before area cw ch obs ?next"
      using rows next_p by (fastforce simp: none_before_def free_position_def inside_area_def)
    moreover have "y1 area \<le> snd ?next"
      using search_step_decreases [OF ok, of p] row step.hyps step.prems(3) cont next_p
      by (simp add: search_order_def w_wrong_def h_wrong_def) linarith
    ultimately show ?thesis
      using step.IH row free next_p
      by (simp add: smart_loop_unfold [OF step.hyps] h_wrong_def w_wrong_def)
  next
    case bottom
    then show ?thesis
      using none_beforeD [OF none free] in_q by (auto simp: inside_area_def)
  qed
qed

section \<open>A search that does not end\<close>

text \<open>An overlap below both marks of a wrong position moves the search neither on nor out.\<close>

lemma smart_loop_stuck:
  assumes "smart_overlap area cw ch obs (fst p) (snd p) < w_wrong" "snd p < y2 area"
  shows "smart_loop area cw ch obs p first_pass m best = None"
proof -
  have "smart_loop a c h o1 q f n b = Some r \<Longrightarrow>
        \<not> (smart_overlap a c h o1 (fst q) (snd q) < w_wrong \<and> snd q < y2 a)"
    for a c h o1 q f n b r
  proof (induction a c h o1 q f n b r rule: smart_loop.raw_induct [rotated, consumes 1, case_names step])
    case (step f' a c h o1 q f n b r)
    show ?case
    proof
      assume stuck: "smart_overlap a c h o1 (fst q) (snd q) < w_wrong \<and> snd q < y2 a"
      then have "smart_next a c h o1 (smart_overlap a c h o1 (fst q) (snd q)) (fst q) (snd q) = q"
        by (simp add: smart_next_def overlap_none_def w_wrong_def)
      then have "f' a c h o1 q False
                   (fst (smart_record (smart_overlap a c h o1 (fst q) (snd q)) (fst q) (snd q) f n b))
                   (snd (smart_record (smart_overlap a c h o1 (fst q) (snd q)) (fst q) (snd q) f n b)) = Some r"
        using step(2) stuck by (simp add: Let_def overlap_none_def w_wrong_def h_wrong_def split_beta)
      from step(1) [OF this] stuck show False by blast
    qed
  qed
  then show ?thesis
    using assms by (cases "smart_loop area cw ch obs p first_pass m best") blast+
qed

lemma overlap_of_nothing:
  assumes "obstacle_proper b" "0 \<le> ch"
  shows "overlap_with (-1) ch x y b \<le> 0"
proof (cases "x < ob_right b \<and> x + -1 > ob_left b \<and> y < ob_bottom b \<and> y + ch > ob_top b")
  case True
  then have h: "min (x + -1) (ob_right b) - max x (ob_left b) = -1" by simp
  have "0 \<le> ob_weight b * (min (y + ch) (ob_bottom b) - max y (ob_top b))"
    using True assms by (intro mult_nonneg_nonneg) (auto simp: obstacle_proper_def)
  then show ?thesis unfolding overlap_with_def h using True by simp
qed (auto simp: overlap_with_def)

lemma sum_nonpos: "\<forall>c \<in> set bs. f c \<le> (0 :: int) \<Longrightarrow> sum_list (map f bs) \<le> 0"
  by (induction bs) auto

lemma sum_below:
  assumes "b \<in> set bs" "\<forall>c \<in> set bs. f c \<le> (0 :: int)"
  shows "sum_list (map f bs) \<le> f b"
  using assms
proof (induction bs)
  case (Cons c cs)
  then show ?case using sum_nonpos [of cs f] by fastforce
qed simp

end
