(* ===== verification/Maximize.thy ===== *)
theory Maximize
  imports Smart_Placement
begin

text \<open>
  Maximizing and restoring a window: maximize.h, with apply_restore_geometry of the Wayland window.
  None is where an assertion fails or the search of the smart placement does not end.
\<close>

section \<open>The geometry that is kept\<close>

definition is_move :: "win_geo \<Rightarrow> bool" where
  "is_move g \<longleftrightarrow> mr_enabled (g_move g) \<and> mr_contact (g_move g) = at_center"

definition is_resize :: "win_geo \<Rightarrow> bool" where
  "is_resize g \<longleftrightarrow> mr_enabled (g_move g) \<and> mr_contact (g_move g) \<noteq> at_center"

definition update_no_border :: "wid \<Rightarrow> desk \<Rightarrow> desk" where
  "update_no_border w d =
     (if dk_borderless_maximized d
      then update_geo w (dk_decorate d w (g_update_max (geo d w) = maximize_full)) d else d)"

definition set_restore_geometry :: "wid \<Rightarrow> rect \<Rightarrow> desk \<Rightarrow> desk" where
  "set_restore_geometry w r d =
     (if g_update_fullscreen (geo d w) then d
      else if g_quicktiling (geo d w) \<noteq> quick_none then d
      else if is_move (geo d w) then d
      else update_geo w (\<lambda>g. g\<lparr>g_restore := r\<rparr>) d)"

definition get_maximizing_area :: "desk \<Rightarrow> wid \<Rightarrow> rect" where
  "get_maximizing_area d w =
     (if g_electric_maximizing (geo d w)
      then space_window_area_point d area_maximize (dk_cursor d) (get_subspace (dk_space d) w)
      else space_window_area d area_maximize w)"

text \<open>A temporary placement gives a restore geometry that is not valid its coordinates; the last two
  moves are to the coordinates the rectangle has.\<close>

definition rectify_restore_geometry :: "wid \<Rightarrow> rect \<Rightarrow> desk \<Rightarrow> (rect \<times> desk) option" where
  "rectify_restore_geometry w restore_geo d =
     (if rect_valid restore_geo then Some (restore_geo, d)
      else
        let area = get_maximizing_area d w;
            width = (if rect_width restore_geo > 0 then rect_width restore_geo
                     else rect_width area * 2 sdiv 3);
            height = (if rect_height restore_geo > 0 then rect_height restore_geo
                      else rect_height area * 2 sdiv 3);
            d = block_geometry_updates w True d;
            old_frame_geo = g_update_frame (geo d w);
            d = setFrameGeometry w (mk_rect 0 0 width height) d
        in case place_smart w area d of
             None \<Rightarrow> None
           | Some d \<Rightarrow>
               let restore_geo = g_update_frame (geo d w);
                   d = setFrameGeometry w old_frame_geo d;
                   restore_geo = (if rect_width restore_geo > 0
                                  then move_left (x1 restore_geo) restore_geo else restore_geo);
                   restore_geo = (if rect_height restore_geo > 0
                                  then move_top (y1 restore_geo) restore_geo else restore_geo)
               in Some (restore_geo, block_geometry_updates w False d))"

definition apply_restore_geometry :: "wid \<Rightarrow> rect \<Rightarrow> desk \<Rightarrow> desk option" where
  "apply_restore_geometry w restore_geo d =
     (case rectify_restore_geometry w restore_geo d of
        None \<Rightarrow> None
      | Some (rectified_geo, d) \<Rightarrow>
          let rectified_geo = (if \<not> rect_valid restore_geo then set_extent (-1, -1) rectified_geo
                               else rectified_geo)
          in Some (setFrameGeometry w rectified_geo d))"

section \<open>The modes\<close>

definition final_restore_geometry :: "flag \<Rightarrow> rect \<Rightarrow> rect \<Rightarrow> rect" where
  "final_restore_geometry old_mode restore_geo frame =
     (let r = (if flags_any (flag_and old_mode maximize_vertical)
               then set_bottom (y2 restore_geo) (set_top (y1 restore_geo) frame) else frame)
      in if flags_any (flag_and old_mode maximize_horizontal)
         then set_right (x2 restore_geo) (set_left (x1 restore_geo) r) else r)"

definition maximize_restore_win :: "wid \<Rightarrow> desk \<Rightarrow> desk option" where
  "maximize_restore_win w d =
     (let final_restore_geo = final_restore_geometry (g_update_max (geo d w)) (g_restore (geo d w))
                                (g_update_frame (geo d w));
          d = block_geometry_updates w True d
      in case apply_restore_geometry w final_restore_geo d of
           None \<Rightarrow> None
         | Some d \<Rightarrow>
             let d = update_geo w (\<lambda>g. g\<lparr>g_update_max := maximize_restore\<rparr>) d;
                 d = update_no_border w d;
                 d = set_restore_geometry w null_rect d
             in Some (block_geometry_updates w False d))"

definition ruled_position :: "desk \<Rightarrow> wid \<Rightarrow> point \<Rightarrow> point" where
  "ruled_position d w p = checkPosition (dk_rulings d) (g_rules (geo d w)) p False"

definition frame_of :: "point \<Rightarrow> extent \<Rightarrow> rect" where
  "frame_of p s = mk_rect (fst p) (snd p) (fst s) (snd s)"

definition maximize_vertically :: "wid \<Rightarrow> desk \<Rightarrow> desk" where
  "maximize_vertically w d =
     (let old_frame_geo = g_update_frame (geo d w);
          area = get_maximizing_area d w;
          pos = ruled_position d w (x1 old_frame_geo, y1 area);
          s = adjusted_frame_size d w (rect_width old_frame_geo, rect_height area);
          d = block_geometry_updates w True d;
          d = setFrameGeometry w (frame_of pos s) d;
          d = update_geo w (\<lambda>g. g\<lparr>g_update_max := flag_or (g_update_max g) maximize_vertical\<rparr>) d;
          d = update_no_border w d;
          d = set_restore_geometry w old_frame_geo d
      in block_geometry_updates w False d)"

definition maximize_horizontally :: "wid \<Rightarrow> desk \<Rightarrow> desk" where
  "maximize_horizontally w d =
     (let old_frame_geo = g_update_frame (geo d w);
          area = get_maximizing_area d w;
          pos = ruled_position d w (x1 area, y1 old_frame_geo);
          s = adjusted_frame_size d w (rect_width area, rect_height old_frame_geo);
          d = block_geometry_updates w True d;
          d = setFrameGeometry w (frame_of pos s) d;
          d = update_geo w (\<lambda>g. g\<lparr>g_update_max := flag_or (g_update_max g) maximize_horizontal\<rparr>) d;
          d = update_no_border w d;
          d = set_restore_geometry w old_frame_geo d
      in block_geometry_updates w False d)"

abbreviation has_flag :: "flag \<Rightarrow> flag \<Rightarrow> bool" where
  "has_flag mode f \<equiv> flags_any (flag_and mode f)"

definition update_maximized_impl :: "wid \<Rightarrow> flag \<Rightarrow> desk \<Rightarrow> desk option" where
  "update_maximized_impl w mode d =
     (if g_update_max (geo d w) = mode then None
      else if mode = maximize_restore then maximize_restore_win w d
      else
        let old_frame_geo = g_update_frame (geo d w);
            old_mode = g_update_max (geo d w);
            vertical = (\<lambda>d.
              if has_flag mode maximize_vertical
              then map_option (maximize_vertically w)
                     (if has_flag old_mode maximize_horizontal \<and> \<not> has_flag mode maximize_horizontal
                      then maximize_restore_win w d else Some d)
              else Some d);
            horizontal = (\<lambda>d.
              if has_flag mode maximize_horizontal
              then map_option (maximize_horizontally w)
                     (if has_flag old_mode maximize_vertical \<and> \<not> has_flag mode maximize_vertical
                      then maximize_restore_win w d else Some d)
              else Some d)
        in map_option (set_restore_geometry w old_frame_geo) (Option.bind (vertical d) horizontal))"

text \<open>The same mode again: the sizes are brought up to date and the restore geometry kept.\<close>

definition refresh_maximized :: "wid \<Rightarrow> flag \<Rightarrow> desk \<Rightarrow> desk" where
  "refresh_maximized w mode d =
     (let restore_geo = g_restore (geo d w);
          d = (if has_flag mode maximize_vertical then maximize_vertically w d else d);
          d = (if has_flag mode maximize_horizontal then maximize_horizontally w d else d)
      in set_restore_geometry w restore_geo d)"

text \<open>What follows the change of the mode: the quick tiling of the window.\<close>

definition maximized_quicktiling :: "wid \<Rightarrow> flag \<Rightarrow> desk \<Rightarrow> desk" where
  "maximized_quicktiling w mode d =
     (let old_quicktiling = g_quicktiling (geo d w);
          new_quicktiling = (if mode = maximize_full then quick_maximize else quick_none);
          d = update_geo w (\<lambda>g. g\<lparr>g_quicktiling := new_quicktiling\<rparr>) d
      in if old_quicktiling \<noteq> new_quicktiling
         then let frame_geo = g_update_frame (geo d w)
              in setFrameGeometry w frame_geo (geo_emit (Quicktiling_Changed w) d)
         else d)"

definition update_maximized :: "wid \<Rightarrow> flag \<Rightarrow> desk \<Rightarrow> desk option" where
  "update_maximized w mode d =
     (if \<not> isResizable d w \<or> is_toolbar (dwin d w) then Some d
      else
        let mode = checkMaximize (dk_rulings d) (g_rules (geo d w)) mode False;
            d = block_geometry_updates w True d;
            old_mode = g_update_max (geo d w)
        in if mode = old_mode
           then Some (block_geometry_updates w False (refresh_maximized w mode d))
           else
             let restored =
                   (if old_mode \<noteq> maximize_restore \<and> mode \<noteq> maximize_restore
                    then let restore_geo = g_restore (geo d w)
                         in map_option (update_geo w (\<lambda>g. g\<lparr>g_restore := restore_geo\<rparr>))
                              (update_maximized_impl w maximize_restore d)
                    else Some d)
             in map_option (\<lambda>d. block_geometry_updates w False (maximized_quicktiling w mode d))
                  (Option.bind restored (update_maximized_impl w mode)))"

definition set_maximize :: "wid \<Rightarrow> bool \<Rightarrow> bool \<Rightarrow> desk \<Rightarrow> desk option" where
  "set_maximize w vertically horizontally d =
     (let mode = maximize_restore;
          mode = (if vertically then flag_or mode maximize_vertical else mode);
          mode = (if horizontally then flag_or mode maximize_horizontal else mode)
      in update_maximized w mode d)"

end
