(* ===== verification/Placement.thy ===== *)
theory Placement
  imports Maximize Transient
begin

text \<open>
  The placement policies of placement.h, keep_in_area of move.h and the resizing of geo_change.h they
  use. None is where an assertion fails or the smart placement does not end.
\<close>

section \<open>Resizing to an area (geo_change.h, move.h)\<close>

definition constrain_and_adjust_size :: "desk \<Rightarrow> wid \<Rightarrow> extent \<Rightarrow> extent" where
  "constrain_and_adjust_size d w s =
     (let area = space_window_area d area_work w
      in adjusted_frame_size d w (min (fst s) (rect_width area), min (snd s) (rect_height area)))"

definition constrained_resize :: "wid \<Rightarrow> extent \<Rightarrow> desk \<Rightarrow> desk" where
  "constrained_resize w s d =
     setFrameGeometry w (frame_of (top_left (g_update_frame (geo d w))) (constrain_and_adjust_size d w s)) d"

text \<open>The area keep_in_area takes when 100 pixels of the window are enough: each edge is stored before the
  next one is computed.\<close>

definition partial_area :: "point \<Rightarrow> extent \<Rightarrow> rect \<Rightarrow> rect" where
  "partial_area pos s area =
     (let area = set_left (min (fst pos - fst s + 100) (x1 area)) area;
          area = set_top (min (y1 area - snd s + 100) (y1 area)) area;
          area = set_right (max (x2 area + fst s - 100) (x2 area)) area
      in set_bottom (max (y2 area + snd s - 100) (y2 area)) area)"

definition kept_position :: "rect \<Rightarrow> point \<Rightarrow> extent \<Rightarrow> point" where
  "kept_position area pos s =
     (let tx = (if fst pos + fst s > x2 area \<and> fst s \<le> rect_width area
                then x2 area - fst s + 1 else fst pos);
          ty = (if snd pos + snd s > y2 area \<and> snd s \<le> rect_height area
                then y2 area - snd s + 1 else snd pos)
      in if \<not> contains_point area pos
         then (if tx < x1 area then x1 area else tx, if ty < y1 area then y1 area else ty)
         else (tx, ty))"

definition keep_in_area :: "wid \<Rightarrow> rect \<Rightarrow> bool \<Rightarrow> desk \<Rightarrow> desk option" where
  "keep_in_area w area partial d =
     (let frame_geo = pending_frame_geometry (geo d w);
          pos = top_left frame_geo;
          s = rect_extent frame_geo;
          resize = \<not> partial \<and> (rect_width area < fst s \<or> rect_height area < snd s);
          d' = (if resize
                then constrained_resize w (min (rect_width area) (fst s), min (rect_height area) (snd s)) d
                else d);
          pos = (if resize then top_left (g_update_frame (geo d' w)) else pos);
          s = (if resize then rect_extent (g_update_frame (geo d' w)) else s);
          area = (if partial then partial_area pos s area else area);
          t = kept_position area pos s
      in if t \<noteq> pos then win_move w t d' else Some d')"

section \<open>The policies (placement.h)\<close>

definition place_at_random :: "wid \<Rightarrow> rect \<Rightarrow> desk \<Rightarrow> desk option" where
  "place_at_random w area d =
     (if \<not> rect_valid area then None
      else
        let step = 24;
            s = rect_extent (g_update_frame (geo d w));
            px = max (fst (dk_random d)) (x1 area);
            py = max (snd (dk_random d)) (y1 area);
            px = px + step;
            py = py + 2 * step;
            px = (if px > rect_width area sdiv 2 then x1 area + step else px);
            py = (if py > rect_height area sdiv 2 then y1 area + step else py);
            x_out = px + fst s > x2 area;
            y_out = py + snd s > y2 area;
            tx = (if x_out then max (x2 area - fst s) 0 else px);
            ty = (if y_out then max (y2 area - snd s) 0 else py);
            px = (if x_out then x1 area else px);
            py = (if y_out then y1 area else py)
        in win_move w (tx, ty) (d\<lparr>dk_random := (px, py)\<rparr>))"

definition centered_position :: "rect \<Rightarrow> extent \<Rightarrow> point" where
  "centered_position area s =
     (x1 area + (rect_width area - fst s) sdiv 2, y1 area + (rect_height area - snd s) sdiv 2)"

definition place_centered :: "wid \<Rightarrow> rect \<Rightarrow> desk \<Rightarrow> desk option" where
  "place_centered w area d =
     (if \<not> rect_valid area then None
      else win_move w (centered_position area (rect_extent (g_update_frame (geo d w)))) d)"

definition place_zero_cornered :: "wid \<Rightarrow> rect \<Rightarrow> desk \<Rightarrow> desk option" where
  "place_zero_cornered w area d = (if \<not> rect_valid area then None else win_move w (top_left area) d)"

definition place_on_screen_display :: "wid \<Rightarrow> rect \<Rightarrow> desk \<Rightarrow> desk option" where
  "place_on_screen_display w area d =
     (if \<not> rect_valid area then None
      else
        let s = rect_extent (g_update_frame (geo d w));
            x = x1 area + (rect_width area - fst s) sdiv 2;
            y = y1 area + 2 * rect_height area sdiv 3 - snd s sdiv 2
        in win_move w (x, y) d)"

definition place_under_mouse :: "wid \<Rightarrow> rect \<Rightarrow> desk \<Rightarrow> desk option" where
  "place_under_mouse w area d =
     (if \<not> rect_valid area then None
      else
        let frame = move_center (dk_cursor d) (g_update_frame (geo d w))
        in Option.bind (win_move w (top_left frame) d) (keep_in_area w area False))"

text \<open>The snap of the borders at the end of place_with_policy.\<close>

definition snapped_corner :: "win_geo \<Rightarrow> rect \<Rightarrow> point" where
  "snapped_corner g win_area =
     (let frame = g_update_frame g;
          m = g_margins g;
          x = x1 frame;
          x = (if \<not> has_flag (g_max_mode g) maximize_horizontal
               then let x = (if x2 frame = x2 win_area then x + m_right m else x)
                    in if x1 frame = x1 win_area then x - m_left m else x
               else x);
          y = (if \<not> has_flag (g_max_mode g) maximize_vertical \<and> y2 frame = y2 win_area
               then y1 frame + m_bottom m else y1 frame)
      in (x, y))"

definition snap_borders :: "wid \<Rightarrow> desk \<Rightarrow> desk option" where
  "snap_borders w d =
     (if dk_border_snap d \<noteq> 0
      then win_move w (snapped_corner (geo d w) (space_window_area d area_full w)) d
      else Some d)"

text \<open>place_with_policy for the policies that call no other policy. The policy is resolved.\<close>

definition place_plain :: "wid \<Rightarrow> rect \<Rightarrow> placement \<Rightarrow> desk \<Rightarrow> desk option" where
  "place_plain w area policy d =
     (case policy of
        placement_random \<Rightarrow> place_at_random w area d
      | placement_centered \<Rightarrow> place_centered w area d
      | placement_zero_cornered \<Rightarrow> place_zero_cornered w area d
      | placement_under_mouse \<Rightarrow> place_under_mouse w area d
      | _ \<Rightarrow> place_smart w area d)"

definition place_and_snap :: "wid \<Rightarrow> rect \<Rightarrow> placement \<Rightarrow> desk \<Rightarrow> desk option" where
  "place_and_snap w area policy d = Option.bind (place_plain w area policy d) (snap_borders w)"

definition place_maximizing :: "wid \<Rightarrow> rect \<Rightarrow> desk \<Rightarrow> desk option" where
  "place_maximizing w area d =
     (if \<not> rect_valid area then None
      else if isMaximizable d w \<and> fst (max_size_of d w) \<ge> rect_width area
              \<and> snd (max_size_of d w) \<ge> rect_height area
      then if space_window_area d area_maximize w = area
           then update_maximized w maximize_full d
           else Some (setFrameGeometry w area d)
      else place_and_snap w area placement_smart
             (constrained_resize w (bounded_to (rect_extent area) (max_size_of d w)) d))"

text \<open>The search for the lead to place on: the one found, the last one and their number, or None when
  there are two on the current subspace.\<close>

fun place_on_loop :: "desk \<Rightarrow> bool \<Rightarrow> wid list \<Rightarrow> wid option \<times> wid option \<times> nat \<Rightarrow> (wid option \<times> wid option \<times> nat) option" where
  "place_on_loop d many [] found = Some found"
| "place_on_loop d many (l0 # ls) (place_on, place_on2, mains_count) =
     (if many \<and> is_special_window (dwin d l0)
      then place_on_loop d many ls (place_on, place_on2, mains_count)
      else if on_current_subspace (dk_space d) l0
      then if place_on = None then place_on_loop d many ls (Some l0, Some l0, mains_count + 1)
           else None
      else place_on_loop d many ls (place_on, Some l0, mains_count + 1))"

definition main_window_to_place_on :: "desk \<Rightarrow> wid \<Rightarrow> wid option" where
  "main_window_to_place_on d w =
     (let ls = leads (dwin d w)
      in case place_on_loop d (length ls > 1) ls (None, None, 0) of
           None \<Rightarrow> None
         | Some (place_on, place_on2, mains_count) \<Rightarrow>
             (case place_on of
                Some l0 \<Rightarrow> if is_desktop (dwin d l0) then None else Some l0
              | None \<Rightarrow> if mains_count \<noteq> 1 then None
                        else case place_on2 of
                               None \<Rightarrow> None
                             | Some l0 \<Rightarrow> if is_desktop (dwin d l0) then None else Some l0))"

definition place_on_main_window :: "wid \<Rightarrow> rect \<Rightarrow> desk \<Rightarrow> desk option" where
  "place_on_main_window w area d =
     (if \<not> rect_valid area then None
      else case main_window_to_place_on d w of
             None \<Rightarrow> place_and_snap w area placement_centered d
           | Some place_on \<Rightarrow>
               let frame = move_center (rect_center (g_update_frame (geo d place_on)))
                             (g_update_frame (geo d w))
               in Option.bind (win_move w (top_left frame) d)
                    (\<lambda>d. keep_in_area w (space_window_area d area_placement w) False d))"

definition resolve_policy :: "desk \<Rightarrow> placement \<Rightarrow> placement" where
  "resolve_policy d policy =
     (let policy = (if policy = placement_unknown then placement_global_default else policy)
      in if policy = placement_global_default then dk_placement d else policy)"

definition place_with_policy :: "wid \<Rightarrow> rect \<Rightarrow> placement \<Rightarrow> desk \<Rightarrow> desk option" where
  "place_with_policy w area policy d =
     (let policy = resolve_policy d policy
      in if policy = placement_no_placement then Some d
         else Option.bind
                (case policy of
                   placement_on_main_window \<Rightarrow> place_on_main_window w area d
                 | placement_maximizing \<Rightarrow> place_maximizing w area d
                 | _ \<Rightarrow> place_plain w area policy d)
                (snap_borders w))"

text \<open>The calls of the two policies that fall back on another one are calls of place_with_policy.\<close>

lemma place_and_snap_policy:
  "place_and_snap w area placement_centered d = place_with_policy w area placement_centered d"
  "place_and_snap w area placement_smart d = place_with_policy w area placement_smart d"
  by (simp_all add: place_and_snap_def place_with_policy_def resolve_policy_def)

definition place_utility :: "wid \<Rightarrow> rect \<Rightarrow> desk \<Rightarrow> desk option" where
  "place_utility w area d = place_with_policy w area placement_global_default d"

definition place_dialog :: "wid \<Rightarrow> rect \<Rightarrow> desk \<Rightarrow> desk option" where
  "place_dialog w area d =
     Option.bind (if dk_placement d = placement_maximizing then place_maximizing w area d else Some d)
       (place_on_main_window w area)"

definition ruled_placement :: "desk \<Rightarrow> wid \<Rightarrow> placement" where
  "ruled_placement d w = checkPlacement (dk_rulings d) (g_rules (geo d w)) placement_global_default"

definition get_placement_policy :: "desk \<Rightarrow> wid \<Rightarrow> placement" where
  "get_placement_policy d w =
     (if ruled_placement d w \<noteq> placement_global_default then ruled_placement d w else dk_placement d)"

definition place_in_area :: "wid \<Rightarrow> rect \<Rightarrow> desk \<Rightarrow> desk option" where
  "place_in_area w area d =
     (if ruled_placement d w \<noteq> placement_global_default
      then place_with_policy w area (ruled_placement d w) d
      else if is_utility (dwin d w) then place_utility w area d
      else if is_dialog (dwin d w) then place_dialog w area d
      else if is_splash (dwin d w) then place_on_main_window w area d
      else if is_on_screen_display (dwin d w) \<or> is_notification (dwin d w)
              \<or> is_critical_notification (dwin d w)
      then place_on_screen_display w area d
      else if lead (heap (dk_space d)) w \<noteq> None \<and> surface_client (dwin d w) \<noteq> None
      then place_dialog w area d
      else place_with_policy w area (dk_placement d) d)"

text \<open>unclutter_subspace: from the last window to the first.\<close>

definition uncluttered :: "desk \<Rightarrow> wid \<Rightarrow> bool" where
  "uncluttered d w \<longleftrightarrow>
     (case win_control (dwin d w) of
        None \<Rightarrow> False
      | Some c \<Rightarrow> on_current_subspace (dk_space d) w \<and> \<not> ctl_minimized c
                  \<and> \<not> on_all_subspaces (dk_space d) w \<and> isMovable d w)"

definition unclutter_subspace :: "desk \<Rightarrow> desk option" where
  "unclutter_subspace d =
     foldr (\<lambda>w r. Option.bind r (\<lambda>d. if uncluttered d w
                                   then place_smart w (space_window_area d area_placement w) d
                                   else Some d))
       (windows (dk_space d)) (Some d)"

end
