(* ===== verification/Example_Desk.thy ===== *)
theory Example_Desk
  imports Placement Example_Space Example_Rules
begin

text \<open>
  A desk to apply the properties of the geometry to: two outputs of 1000 by 800 pixels side by side,
  windows of type normal without rules on all subspaces, in the order of a list, at given frames.
\<close>

definition zero_margins :: margins where
  "zero_margins = \<lparr>m_left = 0, m_top = 0, m_right = 0, m_bottom = 0\<rparr>"

definition plain_move :: move_op where
  "plain_move = \<lparr>mr_enabled = False, mr_unrestricted = False, mr_offset = (0, 0),
     mr_inverted_offset = (0, 0), mr_initial = null_rect, mr_geometry = null_rect,
     mr_contact = at_center, mr_button_down = False,
     mr_cursor = Arrow_Cursor, mr_start_screen = 0, mr_delayed = False\<rparr>"

definition plain_geo :: "rect \<Rightarrow> win_geo" where
  "plain_geo r = \<lparr>g_frame = r, g_block = 0, g_pending = pending_none, g_update_frame = r,
     g_update_max = maximize_restore, g_update_fullscreen = False, g_restore = null_rect,
     g_margins = zero_margins, g_client_extents = zero_margins, g_in_content_deco = False,
     g_max_mode = maximize_restore, g_min_hint = (10, 10), g_max_hint = (5000, 5000),
     g_increments = (1, 1), g_layer = False, g_plasma = None, g_strut = False, g_rules = [],
     g_quicktiling = quick_none, g_electric = quick_none, g_electric_maximizing = False,
     g_move = plain_move\<rparr>"

definition two_outputs :: "rect list" where
  "two_outputs = [mk_rect 0 0 1000 800, mk_rect 1000 0 1000 800]"

definition plain_desk :: "wid list \<Rightarrow> (wid \<Rightarrow> rect) \<Rightarrow> desk" where
  "plain_desk ws frames =
     \<lparr>dk_space = (plain_space (\<lambda>_. plain_window) ws)\<lparr>stack := ws\<rparr>, dk_geo = (\<lambda>w. plain_geo (frames w)),
      dk_outputs = two_outputs, dk_topology = (2000, 800), dk_current_output = Some 0,
      dk_follows_mouse = False, dk_cursor = (5, 5), dk_focus_mouse = (0, 0), dk_moving = None, dk_block_focus = 0,
      dk_work = replicate 4 null_rect, dk_screen = [], dk_struts = replicate 4 [], dk_old_struts = [],
      dk_old_display = (2000, 800), dk_old_screens = two_outputs, dk_random = (24, 48),
      dk_rulings = (\<lambda>r. quiet_ruling plain_qt), dk_placement = placement_smart, dk_border_snap = 10, dk_window_snap = 10,
      dk_center_snap = 0, dk_snap_overlapping = False, dk_electric_tiling = True,
      dk_electric_maximize = True, dk_electric_ratio = 1 / 4, dk_borderless_maximized = False,
      dk_decorate = (\<lambda>w b g. g), dk_synced = (\<lambda>w g. True), dk_signals = []\<rparr>"

lemma plain_geo_fields [simp]:
  "g_frame (plain_geo r) = r" "g_block (plain_geo r) = 0" "g_pending (plain_geo r) = pending_none"
  "g_update_frame (plain_geo r) = r" "g_update_max (plain_geo r) = maximize_restore"
  "g_update_fullscreen (plain_geo r) = False" "g_restore (plain_geo r) = null_rect"
  "g_margins (plain_geo r) = zero_margins" "g_max_mode (plain_geo r) = maximize_restore"
  "g_min_hint (plain_geo r) = (10, 10)" "g_max_hint (plain_geo r) = (5000, 5000)"
  "g_layer (plain_geo r) = False" "g_plasma (plain_geo r) = None" "g_strut (plain_geo r) = False"
  "g_rules (plain_geo r) = []" "g_quicktiling (plain_geo r) = quick_none"
  "g_electric (plain_geo r) = quick_none" "g_electric_maximizing (plain_geo r) = False"
  "g_move (plain_geo r) = plain_move" "g_increments (plain_geo r) = (1, 1)"
  by (simp_all add: plain_geo_def)

lemma plain_desk_fields [simp]:
  "dk_geo (plain_desk ws frames) w = plain_geo (frames w)"
  "stack (dk_space (plain_desk ws frames)) = ws" "windows (dk_space (plain_desk ws frames)) = ws"
  "heap (dk_space (plain_desk ws frames)) w = plain_window"
  "active (dk_space (plain_desk ws frames)) = None"
  "subspace_manager (dk_space (plain_desk ws frames)) = three_desktops"
  "dk_outputs (plain_desk ws frames) = two_outputs" "dk_screen (plain_desk ws frames) = []"
  "dk_work (plain_desk ws frames) = replicate 4 null_rect" "dk_topology (plain_desk ws frames) = (2000, 800)"
  "dk_follows_mouse (plain_desk ws frames) = False" "dk_current_output (plain_desk ws frames) = Some 0"
  "dk_struts (plain_desk ws frames) = replicate 4 []" "dk_old_struts (plain_desk ws frames) = []"
  "dk_borderless_maximized (plain_desk ws frames) = False"
  "dk_border_snap (plain_desk ws frames) = 10" "dk_window_snap (plain_desk ws frames) = 10"
  "dk_center_snap (plain_desk ws frames) = 0" "dk_snap_overlapping (plain_desk ws frames) = False"
  by (simp_all add: plain_desk_def)

lemma plain_relevant [simp]:
  "is_irrelevant (dk_space (plain_desk ws frames)) v w s \<longleftrightarrow> v = w"
  by (auto simp: is_irrelevant_def on_subspace_def on_subspace_ptr_def on_all_subspaces_def is_desktop_def)

lemma plain_weight [simp]: "overlap_weight plain_window = 1"
  by (simp add: overlap_weight_def plain_control_def)

lemma plain_obstacle [simp]:
  "obstacle_of (plain_desk ws frames) v =
     \<lparr>ob_left = x1 (frames v), ob_top = y1 (frames v), ob_right = x1 (frames v) + rect_width (frames v),
      ob_bottom = y1 (frames v) + rect_height (frames v), ob_weight = 1\<rparr>"
  by (simp add: obstacle_of_def Let_def)

end
