(* ===== verification/Placement_Theorems.thy ===== *)
theory Placement_Theorems
  imports Smart_Placement_Props Example_Desk
begin

text \<open>
  The properties of the placement of windows, with witnesses on the desk of Example_Desk.
\<close>

section \<open>Smart placement\<close>

text \<open>A position is free for a window when the frame there is in the area and, without its last column
  and row, meets no window that counts.\<close>

definition free_for :: "desk \<Rightarrow> wid \<Rightarrow> rect \<Rightarrow> point \<Rightarrow> bool" where
  "free_for d w area p \<longleftrightarrow>
     (let frame = move_top_left p (g_update_frame (geo d w))
      in contains_rect area frame
         \<and> (\<forall>v \<in> set (stack (dk_space d)).
              \<not> is_irrelevant (dk_space d) v w (placement_subspace d w) \<longrightarrow> overlap_weight (dwin d v) \<noteq> 0 \<longrightarrow>
              \<not> intersects (adjusted 0 0 (-1) (-1) frame) (g_update_frame (geo d v))))"

lemma overlap_weight_nonneg: "0 \<le> overlap_weight v"
  by (auto simp: overlap_weight_def split: option.splits)

lemma is_irrelevant_self: "is_irrelevant sp w w s"
  by (simp add: is_irrelevant_def)

lemma obstacles_proper:
  assumes "\<forall>v \<in> set (stack (dk_space d)) - {w}. rect_valid (g_update_frame (geo d v))"
  shows "\<forall>b \<in> set (obstacles d w). obstacle_proper b"
  using assms overlap_weight_nonneg is_irrelevant_self
  by (auto simp: obstacles_def obstacle_of_def Let_def obstacle_proper_def rect_valid_def rect_width_def
      rect_height_def)

lemma moved_rect:
  "move_top_left p r = \<lparr>x1 = fst p, y1 = snd p, x2 = fst p + (rect_width r - 1), y2 = snd p + (rect_height r - 1)\<rparr>"
  by (cases r) (simp add: rect_defs)

lemma contains_rect_inside:
  assumes "rect_valid area" "1 \<le> rect_width r" "1 \<le> rect_height r"
  shows "contains_rect area (move_top_left p r)
         \<longleftrightarrow> inside_area area (rect_width r - 1) (rect_height r - 1) p"
  using assms by (auto simp: contains_rect_def moved_rect inside_area_def rect_null_def rect_valid_def)

lemma blocked_intersects:
  assumes "2 \<le> rect_width r" "2 \<le> rect_height r" "rect_valid (g_update_frame (geo d v))"
  shows "blocked_by (rect_width r - 1) (rect_height r - 1) (fst p) (snd p) (obstacle_of d v)
         \<longleftrightarrow> overlap_weight (dwin d v) \<noteq> 0
             \<and> intersects (adjusted 0 0 (-1) (-1) (move_top_left p r)) (g_update_frame (geo d v))"
  using assms overlap_weight_nonneg [of "dwin d v"]
  by (auto simp: blocked_by_def obstacle_of_def Let_def intersects_def adjusted_def moved_rect rect_null_def
      rect_valid_def rect_width_def rect_height_def)

lemma free_for_position:
  assumes "rect_valid area" "2 \<le> rect_width (g_update_frame (geo d w))"
    and "2 \<le> rect_height (g_update_frame (geo d w))"
    and "\<forall>v \<in> set (stack (dk_space d)) - {w}. rect_valid (g_update_frame (geo d v))"
  shows "free_for d w area p \<longleftrightarrow>
         free_position area (rect_width (g_update_frame (geo d w)) - 1)
           (rect_height (g_update_frame (geo d w)) - 1) (obstacles d w) p"
proof -
  let ?r = "g_update_frame (geo d w)"
  have "unobstructed (rect_width ?r - 1) (rect_height ?r - 1) (obstacles d w) p \<longleftrightarrow>
        (\<forall>b \<in> set (obstacles d w). \<not> blocked_by (rect_width ?r - 1) (rect_height ?r - 1) (fst p) (snd p) b)"
    using assms(2,3) obstacles_proper [OF assms(4)] overlap_with_zero
    by (auto simp: unobstructed_def)
  moreover have "rect_valid (g_update_frame (geo d v))"
    if "v \<in> set (stack (dk_space d))" "\<not> is_irrelevant (dk_space d) v w (placement_subspace d w)" for v
    using that assms(4) is_irrelevant_self [of "dk_space d" w] by (cases "v = w") auto
  ultimately show ?thesis
    using blocked_intersects [OF assms(2,3)] assms(1-3) contains_rect_inside [of area ?r p]
    by (auto simp: free_for_def free_position_def obstacles_def Let_def)
qed

lemma smart_position_finds:
  assumes ok: "search_ok area (fst s - 1) (snd s - 1) obs"
    and free: "free_position area (fst s - 1) (snd s - 1) obs p"
  shows "\<exists>q. smart_position area s obs = Some q \<and> free_position area (fst s - 1) (snd s - 1) obs q"
proof -
  have none: "none_before area (fst s - 1) (snd s - 1) obs (top_left area)"
    by (auto simp: none_before_def free_position_def inside_area_def top_left_def)
  have low: "\<not> snd s - 1 \<ge> rect_height area"
    using free by (auto simp: free_position_def inside_area_def rect_height_def)
  show ?thesis
    using smart_loop_finds [OF ok free, of "top_left area" True 0 "top_left area"] none low
    by (auto simp: smart_position_def top_left_def)
qed

lemma place_smart_at:
  assumes "rect_valid area" "1 \<le> rect_width (g_update_frame (geo d w))"
    and "1 \<le> rect_height (g_update_frame (geo d w))"
    and "smart_position area (rect_extent (g_update_frame (geo d w))) (obstacles d w) = Some q"
  shows "place_smart w area d = win_move w q d"
  using assms by (simp add: place_smart_def extent_valid_def rect_extent_def)

text \<open>C4. The smart placement finds room where there is room: when the area has a position at which the
  window, without its last column and row, meets no other window that counts (shown, on the subspace,
  not the desktop and not one that is kept below), then the window is moved to such a position. The
  search goes over the columns and rows where other windows end or begin; no free position is between
  them and the ones before.\<close>

theorem smart_placement_finds_room:
  assumes "rect_valid area"
    and "2 \<le> rect_width (g_update_frame (geo d w))" "2 \<le> rect_height (g_update_frame (geo d w))"
    and "\<forall>v \<in> set (stack (dk_space d)) - {w}. rect_valid (g_update_frame (geo d v))"
    and "free_for d w area p"
  shows "\<exists>q. free_for d w area q \<and> place_smart w area d = win_move w q d"
proof -
  let ?s = "rect_extent (g_update_frame (geo d w))"
  have s: "fst ?s = rect_width (g_update_frame (geo d w))" "snd ?s = rect_height (g_update_frame (geo d w))"
    by (simp_all add: rect_extent_def)
  have "search_ok area (fst ?s - 1) (snd ?s - 1) (obstacles d w)"
    using assms obstacles_proper [OF assms(4)] by (simp add: search_ok_def s)
  moreover have "free_position area (fst ?s - 1) (snd ?s - 1) (obstacles d w) p"
    using assms free_for_position [OF assms(1-4)] by (simp add: s)
  ultimately obtain q where q: "smart_position area ?s (obstacles d w) = Some q"
      "free_position area (fst ?s - 1) (snd ?s - 1) (obstacles d w) q"
    using smart_position_finds by blast
  have "place_smart w area d = win_move w q d"
    using place_smart_at [OF assms(1) _ _ q(1)] assms(2,3) by simp
  moreover have "free_for d w area q"
    using free_for_position [OF assms(1-4)] q(2) by (simp add: s)
  ultimately show ?thesis by blast
qed

text \<open>Window 1 has the left half of an area, window 2 is to be placed.\<close>

definition half_covered :: desk where
  "half_covered = plain_desk [1, 2] (\<lambda>w. if w = 1 then mk_rect 0 0 500 800 else mk_rect 0 0 400 300)"

theorem smart_placement_finds_room_witness:
  "\<exists>q. free_for half_covered 2 (mk_rect 0 0 1000 800) q
       \<and> place_smart 2 (mk_rect 0 0 1000 800) half_covered = win_move 2 q half_covered"
proof (rule smart_placement_finds_room)
  show "free_for half_covered 2 (mk_rect 0 0 1000 800) (600, 100)"
    by (simp add: free_for_def half_covered_def contains_rect_def intersects_def rect_null_def rect_defs)
qed (simp_all add: half_covered_def rect_valid_def rect_defs)



text \<open>C26. The search does not always end: for a window without width, which passes the check of its size,
  a window that covers the corner of the area from two pixels to its left, for three rows or more,
  gives a negative overlap that is none of the marks, and the loop goes on at the same position for
  ever.\<close>

theorem smart_placement_hangs_without_width:
  assumes "rect_valid area" "rect_width (g_update_frame (geo d w)) = 0"
    and "4 \<le> rect_height (g_update_frame (geo d w))"
    and "rect_height (g_update_frame (geo d w)) \<le> rect_height area"
    and "\<forall>u \<in> set (stack (dk_space d)) - {w}. rect_valid (g_update_frame (geo d u))"
    and "v \<in> set (stack (dk_space d))" "\<not> is_irrelevant (dk_space d) v w (placement_subspace d w)"
    and "overlap_weight (dwin d v) \<noteq> 0"
    and "x1 (g_update_frame (geo d v)) < x1 area - 1" "x1 area \<le> x2 (g_update_frame (geo d v))"
    and "y1 (g_update_frame (geo d v)) \<le> y1 area" "y1 area + 2 \<le> y2 (g_update_frame (geo d v))"
  shows "place_smart w area d = None"
proof -
  let ?f = "g_update_frame (geo d w)" and ?x = "x1 area" and ?y = "y1 area"
  let ?ch = "rect_height ?f - 1" and ?b = "obstacle_of d v"
  have proper: "\<forall>b \<in> set (obstacles d w). obstacle_proper b" by (rule obstacles_proper [OF assms(5)])
  have ch: "0 \<le> ?ch" using assms(3) by simp
  have b: "?b \<in> set (obstacles d w)" using assms(6,7) by (auto simp: obstacles_def)
  have wt: "1 \<le> overlap_weight (dwin d v)" using assms(8) overlap_weight_nonneg [of "dwin d v"] by simp
  let ?h = "min (?y + ?ch) (ob_bottom ?b) - max ?y (ob_top ?b)"
  have h: "3 \<le> ?h"
    using assms(3,11,12) by (auto simp: obstacle_of_def Let_def rect_height_def)
  have e: "overlap_with (-1) ?ch ?x ?y ?b = - (overlap_weight (dwin d v) * ?h)"
    using assms(3,9-12) by (simp add: overlap_with_def obstacle_of_def Let_def rect_width_def rect_height_def)
  have "3 \<le> overlap_weight (dwin d v) * ?h"
    using mult_mono [OF wt h] wt by simp
  moreover have "\<forall>c \<in> set (obstacles d w). overlap_with (-1) ?ch ?x ?y c \<le> 0"
    using overlap_of_nothing [OF _ ch] proper by blast
  ultimately have "sum_list (map (overlap_with (-1) ?ch ?x ?y) (obstacles d w)) \<le> -3"
    using sum_below [OF b] e by fastforce
  then have low: "smart_overlap area (-1) ?ch (obstacles d w) ?x ?y < w_wrong"
    using assms(1,4) by (auto simp: smart_overlap_cases w_wrong_def rect_valid_def rect_height_def)
  have "?y < y2 area" using assms(3,4) by (simp add: rect_height_def)
  with low have "smart_loop area (-1) ?ch (obstacles d w) (top_left area) True 0 (top_left area) = None"
    by (intro smart_loop_stuck) (simp_all add: top_left_def)
  then show ?thesis
    using assms(1-3) by (simp add: place_smart_def smart_position_def extent_valid_def rect_extent_def)
qed

definition no_width :: desk where
  "no_width = plain_desk [1, 2] (\<lambda>w. if w = 1 then mk_rect (-10) 0 500 800 else mk_rect 0 0 0 300)"

theorem smart_placement_hangs_without_width_witness:
  "place_smart 2 (mk_rect 0 0 1000 800) no_width = None"
  by (rule smart_placement_hangs_without_width [where v = 1])
    (auto simp: no_width_def rect_valid_def rect_defs)

section \<open>Keeping a window in an area\<close>

text \<open>A window that is kept in an area, and that is no larger than the area, ends with its frame
  inside; a window that was inside stays where it is.\<close>

theorem kept_position_inside:
  assumes "rect_valid area" "rect_valid r" "rect_width r \<le> rect_width area"
    and "rect_height r \<le> rect_height area"
  shows "contains_rect area (move_top_left (kept_position area (top_left r) (rect_extent r)) r)
         \<and> (contains_rect area r \<longrightarrow> kept_position area (top_left r) (rect_extent r) = top_left r)"
proof -
  have dims: "1 \<le> rect_width r" "1 \<le> rect_height r"
    using assms(2) by (auto simp: rect_valid_def rect_width_def rect_height_def)
  have "inside_area area (rect_width r - 1) (rect_height r - 1)
          (kept_position area (top_left r) (rect_extent r))"
    using assms by (auto simp: kept_position_def inside_area_def rect_extent_def top_left_def Let_def
        rect_valid_def contains_point_def rect_width_def rect_height_def)
  moreover have "contains_rect area r \<longrightarrow> kept_position area (top_left r) (rect_extent r) = top_left r"
    using assms by (auto simp: kept_position_def contains_rect_def contains_point_def rect_extent_def
        top_left_def Let_def rect_null_def rect_valid_def rect_width_def rect_height_def)
  ultimately show ?thesis using contains_rect_inside [OF assms(1) dims] by blast
qed

theorem kept_position_inside_witness:
  "contains_rect (mk_rect 0 0 1000 800)
     (move_top_left (kept_position (mk_rect 0 0 1000 800) (900, -20) (300, 200)) (mk_rect 900 (-20) 300 200))"
proof -
  have r: "top_left (mk_rect 900 (-20) 300 200) = (900, -20)"
      "rect_extent (mk_rect 900 (-20) 300 200) = (300, 200)"
    by (simp_all add: rect_defs)
  show ?thesis
    using kept_position_inside [of "mk_rect 0 0 1000 800" "mk_rect 900 (-20) 300 200", unfolded r]
    by (simp add: rect_valid_def mk_rect_def rect_width_def rect_height_def)
qed

text \<open>With the area widened for a part of the window, a window however far to the left of the area is not
  brought back: the left edge of the widened area is taken from the position of the window.\<close>

lemma partial_area_keeps_left:
  assumes "100 \<le> rect_width r"
  shows "fst (kept_position (partial_area (top_left r) (rect_extent r) area) (top_left r) (rect_extent r))
           \<le> x1 r"
proof -
  let ?a = "partial_area (top_left r) (rect_extent r) area"
  have "x1 ?a \<le> x1 r"
    using assms by (auto simp: partial_area_def top_left_def rect_extent_def set_left_def set_right_def
        set_top_def set_bottom_def)
  then show ?thesis
    by (auto simp: kept_position_def top_left_def Let_def)
qed

end
