(* ===== verification/Geo_Restrict.thy ===== *)
theory Geo_Restrict
  imports Placement
begin

text \<open>
  Where a window may be (geo_restrict.h up to check_workspace_position) and the rectangle of a quick
  tile (geo_electric.h).
\<close>

section \<open>Quick tiles (geo_electric.h)\<close>

definition left_half :: "rect \<Rightarrow> rect" where
  "left_half r = set_right (x1 r + rect_width r sdiv 2 - 1) r"

definition right_half :: "rect \<Rightarrow> rect" where
  "right_half r = set_left (x2 r - (rect_width r - rect_width r sdiv 2) + 1) r"

definition top_half :: "rect \<Rightarrow> rect" where
  "top_half r = set_bottom (y1 r + rect_height r sdiv 2 - 1) r"

definition bottom_half :: "rect \<Rightarrow> rect" where
  "bottom_half r = set_top (y2 r - (rect_height r - rect_height r sdiv 2) + 1) r"

definition tile_of :: "flag \<Rightarrow> rect \<Rightarrow> rect" where
  "tile_of electric area =
     (let r = (if has_flag electric quick_left then left_half area
               else if has_flag electric quick_right then right_half area else area)
      in if has_flag electric quick_top then top_half r
         else if has_flag electric quick_bottom then bottom_half r else r)"

definition electric_border_maximize_geometry :: "desk \<Rightarrow> wid \<Rightarrow> point \<Rightarrow> int \<Rightarrow> rect" where
  "electric_border_maximize_geometry d w pos subsp =
     (if g_electric (geo d w) = quick_maximize
      then if g_max_mode (geo d w) = maximize_full then g_restore (geo d w)
           else space_window_area_point d area_maximize pos subsp
      else tile_of (g_electric (geo d w)) (space_window_area_point d area_maximize pos subsp))"

section \<open>The edges of the area a window touched\<close>

definition check_offscreen_position :: "rect \<Rightarrow> rect \<Rightarrow> rect" where
  "check_offscreen_position frame area =
     (let r = (if x1 frame > x2 area then move_left (x2 area - rect_width area sdiv 4) frame
               else if x2 frame < x1 area then move_right (x1 area + rect_width area sdiv 4) frame
               else frame)
      in if y1 r > y2 area then move_top (y2 area - rect_height area sdiv 4) r
         else if y2 r < y1 area then move_bottom (y1 area + rect_height area sdiv 4) r
         else r)"

text \<open>The limits of the four sides; the right and bottom ones are one past the last pixel.\<close>

record limits =
  lim_left :: int
  lim_top :: int
  lim_right :: int
  lim_bottom :: int

definition screen_limits :: "rect \<Rightarrow> limits" where
  "screen_limits area =
     \<lparr>lim_left = x1 area, lim_top = y1 area, lim_right = x1 area + rect_width area,
      lim_bottom = y1 area + rect_height area\<rparr>"

definition met_by :: "rect \<Rightarrow> rect list \<Rightarrow> rect list" where
  "met_by band rs = filter rect_valid (map (\<lambda>r. intersected r band) rs)"

definition strut_limits :: "(flag \<Rightarrow> rect list) \<Rightarrow> rect \<Rightarrow> rect \<Rightarrow> limits" where
  "strut_limits struts frame area =
     (let tall = mk_rect (x1 frame) (y1 area) (rect_width frame) (rect_height area);
          wide = mk_rect (x1 area) (y1 frame) (rect_width area) (rect_height frame);
          l = screen_limits area
      in \<lparr>lim_left = fold (\<lambda>r m. max m (x1 r + rect_width r)) (met_by wide (struts strut_left)) (lim_left l),
          lim_top = fold (\<lambda>r m. max m (y1 r + rect_height r)) (met_by tall (struts strut_top)) (lim_top l),
          lim_right = fold (\<lambda>r m. min m (x1 r)) (met_by wide (struts strut_right)) (lim_right l),
          lim_bottom = fold (\<lambda>r m. min m (y1 r)) (met_by tall (struts strut_bottom)) (lim_bottom l)\<rparr>)"

text \<open>The screen the window was on before the outputs changed: the one nearest to its centre.\<close>

definition old_screen_distance :: "rect \<Rightarrow> point \<Rightarrow> int" where
  "old_screen_distance r p =
     (if contains_point r p then 0
      else manhattan_length (fst (rect_center r) - fst p, snd (rect_center r) - snd p))"

definition old_screen :: "desk \<Rightarrow> point \<Rightarrow> rect" where
  "old_screen d p =
     snd (fold (\<lambda>r (distance, area). if old_screen_distance r p < distance
                                   then (old_screen_distance r p, r) else (distance, area))
            (dk_old_screens d)
            (INT_MAX, mk_rect 0 0 (fst (dk_old_display d)) (snd (dk_old_display d))))"

text \<open>What is kept of one side: whether the window left it and goes back, whether it touched it, and
  the border it shows beyond it.\<close>

record side =
  sd_save :: bool
  sd_keep :: bool
  sd_padding :: int

text \<open>The sides of the code are arrays of four; the second padding is that of the left border.\<close>

definition low_side :: "int \<Rightarrow> int \<Rightarrow> int \<Rightarrow> int \<Rightarrow> int \<Rightarrow> int \<Rightarrow> int \<Rightarrow> side" where
  "low_side old_frame old_client old_max frame client new_max border =
     \<lparr>sd_save = old_frame \<ge> old_max \<and> frame < new_max,
      sd_keep = (if old_frame = old_max then frame \<noteq> new_max
                 else old_client = old_max \<and> client \<noteq> new_max),
      sd_padding = (if old_frame = old_max then 0
                    else if old_client = old_max \<and> client \<noteq> new_max then border else 0)\<rparr>"

definition high_side :: "int \<Rightarrow> int \<Rightarrow> int \<Rightarrow> int \<Rightarrow> int \<Rightarrow> int \<Rightarrow> int \<Rightarrow> side" where
  "high_side old_frame old_client old_max frame client new_max border =
     \<lparr>sd_save = old_frame \<le> old_max - 1 \<and> frame > new_max - 1,
      sd_keep = (if old_frame = old_max - 1 then frame \<noteq> new_max - 1
                 else old_client = old_max - 1 \<and> client \<noteq> new_max - 1),
      sd_padding = (if old_frame = old_max - 1 then 0
                    else if old_client = old_max - 1 \<and> client \<noteq> new_max - 1 then border else 0)\<rparr>"

definition favour_neither :: "side \<Rightarrow> side \<Rightarrow> side \<times> side" where
  "favour_neither a b =
     (if sd_keep a \<and> sd_keep b
      then (a\<lparr>sd_keep := False, sd_padding := 0\<rparr>, b\<lparr>sd_keep := False, sd_padding := 0\<rparr>)
      else (a, b))"

definition on_many :: "rect list \<Rightarrow> rect \<Rightarrow> bool" where
  "on_many outputs r \<longleftrightarrow> length (get_intersecting_outputs outputs r) > 1"

definition to_low_side ::
    "rect list \<Rightarrow> side \<Rightarrow> int \<Rightarrow> (int \<Rightarrow> rect \<Rightarrow> rect) \<Rightarrow> (rect \<Rightarrow> int) \<Rightarrow> rect \<Rightarrow> rect" where
  "to_low_side outputs s bound move_to edge frame =
     (let r = (if sd_save s \<or> sd_keep s then move_to (bound - sd_padding s) frame else frame)
      in if sd_padding s \<noteq> 0 \<and> on_many outputs r then move_to (edge r + sd_padding s) r else r)"

definition to_high_side ::
    "rect list \<Rightarrow> side \<Rightarrow> int \<Rightarrow> (int \<Rightarrow> rect \<Rightarrow> rect) \<Rightarrow> (rect \<Rightarrow> int) \<Rightarrow> rect \<Rightarrow> rect" where
  "to_high_side outputs s bound move_to edge frame =
     (let r = (if sd_save s \<or> sd_keep s then move_to (bound + sd_padding s) frame else frame)
      in if sd_padding s \<noteq> 0 \<and> on_many outputs r then move_to (edge r - sd_padding s) r else r)"

text \<open>The low edge cut off when the window still reaches over it.\<close>

definition cut_low_edge ::
    "rect list \<Rightarrow> int \<Rightarrow> int \<Rightarrow> int \<Rightarrow> int \<Rightarrow> int \<Rightarrow> int \<Rightarrow> (int \<Rightarrow> rect \<Rightarrow> rect) \<Rightarrow> (rect \<Rightarrow> int) \<Rightarrow> rect \<Rightarrow> rect" where
  "cut_low_edge outputs old_frame old_client old_max new_max bound border set_edge edge frame =
     (if old_frame \<ge> old_max \<and> edge frame < new_max then set_edge bound frame
      else if old_client \<ge> old_max \<and> edge frame + border < new_max
      then let r = set_edge (bound - border) frame
           in if on_many outputs r then set_edge (edge r + border) r else r
      else frame)"

section \<open>check_workspace_position\<close>

definition client_of :: "margins \<Rightarrow> rect \<Rightarrow> rect" where
  "client_of m r = adjusted (m_left m) (m_top m) (- m_right m) (- m_bottom m) r"

text \<open>The frame a window of neither mode gets.\<close>

definition restricted_frame ::
    "rect list \<Rightarrow> margins \<Rightarrow> limits \<Rightarrow> limits \<Rightarrow> rect \<Rightarrow> rect \<Rightarrow> rect \<Rightarrow> rect \<Rightarrow> rect" where
  "restricted_frame outputs m old_max new_max area old_frame old_client frame =
     (let client = client_of m frame;
          sl = low_side (x1 old_frame) (x1 old_client) (lim_left old_max) (x1 frame) (x1 client)
                 (lim_left new_max) (m_left m);
          st = low_side (y1 old_frame) (y1 old_client) (lim_top old_max) (y1 frame) (y1 client)
                 (lim_top new_max) (m_left m);
          sr = high_side (x2 old_frame) (x2 old_client) (lim_right old_max) (x2 frame) (x2 client)
                 (lim_right new_max) (m_right m);
          sb = high_side (y2 old_frame) (y2 old_client) (lim_bottom old_max) (y2 frame) (y2 client)
                 (lim_bottom new_max) (m_bottom m);
          (sl, sr) = favour_neither sl sr;
          (st, sb) = favour_neither st sb;
          left_bound = max (lim_left new_max) (x1 area);
          top_bound = max (lim_top new_max) (y1 area);
          r = to_low_side outputs sl left_bound move_left x1 frame;
          r = to_low_side outputs st top_bound move_top y1 r;
          r = to_high_side outputs sr (min (lim_right new_max - 1) (x2 area)) move_right x2 r;
          r = cut_low_edge outputs (x1 old_frame) (x1 old_client) (lim_left old_max) (lim_left new_max)
                left_bound (m_left m) set_left x1 r;
          r = to_high_side outputs sb (min (lim_bottom new_max - 1) (y2 area)) move_bottom y2 r;
          r = cut_low_edge outputs (y1 old_frame) (y1 old_client) (lim_top old_max) (lim_top new_max)
                top_bound (m_top m) set_top y1 r
      in check_offscreen_position r area)"

definition old_screen_area :: "desk \<Rightarrow> rect \<Rightarrow> int \<Rightarrow> rect" where
  "old_screen_area d old_frame old_subspace =
     (if in_update_window_area d then old_screen d (rect_center old_frame)
      else space_window_area_point d area_screen (rect_center old_frame) old_subspace)"

definition keep_in_workspace :: "wid \<Rightarrow> rect \<Rightarrow> int \<Rightarrow> rect \<Rightarrow> desk \<Rightarrow> desk" where
  "keep_in_workspace w old_frame old_subspace old_client d =
     (let m = g_margins (geo d w);
          pending = pending_frame_geometry (geo d w);
          subsp = get_subspace (dk_space d) w;
          old_frame = (if \<not> rect_valid old_frame then pending else old_frame);
          old_subspace = (if old_subspace = -2 then subsp else old_subspace);
          old_client = (if \<not> rect_valid old_client then client_of m old_frame else old_client);
          old_area = old_screen_area d old_frame old_subspace;
          area = space_window_area_point d area_screen (rect_center pending) subsp;
          old_struts = (if in_update_window_area d then previous_restricted_move_area d old_subspace
                        else restricted_move_area d old_subspace);
          old_max = strut_limits old_struts old_frame old_area;
          new_max = strut_limits (restricted_move_area d subsp) pending area;
          r = restricted_frame (dk_outputs d) m old_max new_max area old_frame old_client pending
      in setFrameGeometry w (set_extent (adjusted_frame_size d w (rect_extent r)) r) d)"

definition check_workspace_position :: "wid \<Rightarrow> rect \<Rightarrow> int \<Rightarrow> rect \<Rightarrow> desk \<Rightarrow> desk option" where
  "check_workspace_position w old_frame old_subspace old_client d =
     (if win_control (dwin d w) = None then None
      else if is_desktop (dwin d w) then Some d
      else if is_dock (dwin d w) then Some d
      else if is_notification (dwin d w) \<or> is_on_screen_display (dwin d w) then Some d
      else if dk_outputs d = [] then Some d
      else if g_update_fullscreen (geo d w)
      then Some (setFrameGeometry w (space_window_area d area_fullscreen w) d)
      else if g_max_mode (geo d w) \<noteq> maximize_restore
      then
        (case update_maximized w (g_update_max (geo d w)) (block_geometry_updates w True d) of
           None \<Rightarrow> None
         | Some d \<Rightarrow>
             let area = space_window_area d area_screen w;
                 frame = check_offscreen_position (pending_frame_geometry (geo d w)) area
             in Some (block_geometry_updates w False (setFrameGeometry w frame d)))
      else if g_quicktiling (geo d w) \<noteq> quick_none
      then Some (setFrameGeometry w
                   (electric_border_maximize_geometry d w
                      (rect_center (pending_frame_geometry (geo d w))) (get_subspace (dk_space d) w)) d)
      else Some (keep_in_workspace w old_frame old_subspace old_client d))"

end
