(* ===== verification/Snapping.thy ===== *)
theory Snapping
  imports Geo_Restrict
begin

text \<open>
  The snapping of a window that is moved or resized to the borders, to other windows and to the
  centre: adjust_window_position and adjust_window_size of geo_restrict.h.
\<close>

section \<open>Moving: the zones\<close>

text \<open>A zone times the factor, cut to an integer.\<close>

definition scaled_zone :: "int \<Rightarrow> rat \<Rightarrow> int" where
  "scaled_zone z adjust =
     (let q = of_int z * adjust in if q \<ge> 0 then \<lfloor>q\<rfloor> else \<lceil>q\<rceil>)"

definition moved_center :: "desk \<Rightarrow> wid \<Rightarrow> point \<Rightarrow> point" where
  "moved_center d w pos =
     (let c = rect_center (mk_rect 0 0 (rect_width (g_frame (geo d w))) (rect_height (g_frame (geo d w))))
      in (fst pos + fst c, snd pos + snd c))"

text \<open>The area, the directions in which a maximized window is led, and the zones of the borders.\<close>

definition snap_guide :: "desk \<Rightarrow> wid \<Rightarrow> point \<Rightarrow> rect \<times> flag \<times> extent" where
  "snap_guide d w pos =
     (let z = dk_border_snap d; mode = g_max_mode (geo d w); frame = g_frame (geo d w)
      in if mode = maximize_restore then (null_rect, maximize_restore, (z, z))
         else
           let area = space_window_area_point d area_maximize (moved_center d w pos)
                        (get_subspace (dk_space d) w);
               h = has_flag mode maximize_horizontal
                   \<and> (x1 frame = x1 area \<or> x2 frame = x2 area);
               v = has_flag mode maximize_vertical
                   \<and> (y1 frame = y1 area \<or> y2 frame = y2 area)
           in (area,
               flag_or (if h then maximize_horizontal else maximize_restore)
                       (if v then maximize_vertical else maximize_restore),
               (if h then max (z + 2) (rect_width area sdiv 16) else z,
                if v then max (z + 2) (rect_height area sdiv 16) else z)))"

section \<open>Moving: one snap after the other\<close>

text \<open>The new position and the smallest distances so far.\<close>

record snap =
  sn_x :: int
  sn_y :: int
  sn_dx :: int
  sn_dy :: int

text \<open>What does not change: the limits of the desk, the window at the position asked for, whether only
  overlapping windows snap.\<close>

record snap_input =
  si_limits :: limits
  si_pos :: point
  si_extent :: extent
  si_overlapping :: bool

abbreviation si_cx :: "snap_input \<Rightarrow> int" where "si_cx i \<equiv> fst (si_pos i)"
abbreviation si_cy :: "snap_input \<Rightarrow> int" where "si_cy i \<equiv> snd (si_pos i)"
abbreviation si_cw :: "snap_input \<Rightarrow> int" where "si_cw i \<equiv> fst (si_extent i)"
abbreviation si_ch :: "snap_input \<Rightarrow> int" where "si_ch i \<equiv> snd (si_extent i)"
abbreviation si_rx :: "snap_input \<Rightarrow> int" where "si_rx i \<equiv> si_cx i + si_cw i"
abbreviation si_ry :: "snap_input \<Rightarrow> int" where "si_ry i \<equiv> si_cy i + si_ch i"

definition when_overlapping :: "snap_input \<Rightarrow> bool \<Rightarrow> bool" where
  "when_overlapping i c \<longleftrightarrow> (if si_overlapping i then c else True)"

text \<open>The borders of the frame that are cut off at an edge of the screen.\<close>

definition snap_margins :: "rect list \<Rightarrow> win_geo \<Rightarrow> rect \<Rightarrow> margins" where
  "snap_margins outputs g area =
     (let m = g_margins g; frame = g_frame g;
          horiz = has_flag (g_max_mode g) maximize_horizontal;
          vert = has_flag (g_max_mode g) maximize_vertical;
          m = (if m_left m \<noteq> 0
                  \<and> (horiz \<or> on_many outputs (translated (x1 area - (m_left m + x1 frame), 0) frame))
               then m\<lparr>m_left := 0\<rparr> else m);
          m = (if m_right m \<noteq> 0
                  \<and> (horiz \<or> on_many outputs (translated (x2 area + m_right m - x2 frame, 0) frame))
               then m\<lparr>m_right := 0\<rparr> else m);
          m = m\<lparr>m_top := 0\<rparr>
      in if m_bottom m \<noteq> 0
            \<and> (vert \<or> on_many outputs (translated (0, y2 area + m_bottom m - y2 frame) frame))
         then m\<lparr>m_bottom := 0\<rparr> else m)"

text \<open>The distances to the low borders, and to the high ones, keep their sign.\<close>

definition border_snap :: "snap_input \<Rightarrow> margins \<Rightarrow> int \<Rightarrow> int \<Rightarrow> snap \<Rightarrow> snap" where
  "border_snap i m snap_x snap_y s =
     (let xmin = lim_left (si_limits i); xmax = lim_right (si_limits i);
          ymin = lim_top (si_limits i); ymax = lim_bottom (si_limits i);
          s = (if when_overlapping i (si_cx i < xmin) \<and> \<bar>xmin - si_cx i\<bar> < snap_x
               then s\<lparr>sn_dx := xmin - si_cx i, sn_x := xmin - m_left m\<rparr> else s);
          s = (if when_overlapping i (si_rx i > xmax) \<and> \<bar>si_rx i - xmax\<bar> < snap_x
                  \<and> \<bar>xmax - si_rx i\<bar> < sn_dx s
               then s\<lparr>sn_dx := si_rx i - xmax, sn_x := xmax - si_cw i + m_right m\<rparr> else s);
          s = (if when_overlapping i (si_cy i < ymin) \<and> \<bar>ymin - si_cy i\<bar> < snap_y
               then s\<lparr>sn_dy := ymin - si_cy i, sn_y := ymin - m_top m\<rparr> else s)
      in if when_overlapping i (si_ry i > ymax) \<and> \<bar>si_ry i - ymax\<bar> < snap_y
            \<and> \<bar>ymax - si_ry i\<bar> < sn_dy s
         then s\<lparr>sn_dy := si_ry i - ymax, sn_y := ymax - si_ch i + m_bottom m\<rparr> else s)"

text \<open>A snap of one coordinate: the candidate is taken when it is nearer than the zone and than all
  before.\<close>

definition snap_x_to :: "int \<Rightarrow> bool \<Rightarrow> int \<Rightarrow> int \<Rightarrow> snap \<Rightarrow> snap" where
  "snap_x_to zone cond distance x s =
     (if cond \<and> \<bar>distance\<bar> < zone \<and> \<bar>distance\<bar> < sn_dx s
      then s\<lparr>sn_dx := \<bar>distance\<bar>, sn_x := x\<rparr> else s)"

definition snap_y_to :: "int \<Rightarrow> bool \<Rightarrow> int \<Rightarrow> int \<Rightarrow> snap \<Rightarrow> snap" where
  "snap_y_to zone cond distance y s =
     (if cond \<and> \<bar>distance\<bar> < zone \<and> \<bar>distance\<bar> < sn_dy s
      then s\<lparr>sn_dy := \<bar>distance\<bar>, sn_y := y\<rparr> else s)"

text \<open>\<open>ws_left\<close> and the others: the window to snap to, its right and bottom edges one past it.\<close>

record edges =
  ws_left :: int
  ws_top :: int
  ws_right :: int
  ws_bottom :: int

definition ranges_meet :: "int \<Rightarrow> int \<Rightarrow> int \<Rightarrow> int \<Rightarrow> bool" where
  "ranges_meet c r l lr \<longleftrightarrow> c \<le> lr \<and> c \<ge> l \<or> r \<ge> l \<and> r \<le> lr \<or> c \<le> l \<and> r \<ge> lr"

definition window_snap :: "snap_input \<Rightarrow> flag \<Rightarrow> int \<Rightarrow> edges \<Rightarrow> snap \<Rightarrow> snap" where
  "window_snap i guide zone e s =
     (let lx = ws_left e; ly = ws_top e; lrx = ws_right e; lry = ws_bottom e;
          free_h = \<not> has_flag guide maximize_horizontal;
          free_v = \<not> has_flag guide maximize_vertical;
          over = when_overlapping i;
          s = (if free_h \<and> ranges_meet (si_cy i) (si_ry i) ly lry
               then snap_x_to zone (over (si_rx i > lx)) (si_rx i - lx) (lx - si_cw i)
                      (snap_x_to zone (over (si_cx i < lrx)) (lrx - si_cx i) lrx s)
               else s);
          s = (if free_v \<and> ranges_meet (si_cx i) (si_rx i) lx lrx
               then snap_y_to zone (over (si_ry i > ly)) (si_ry i - ly) (ly - si_ch i)
                      (snap_y_to zone (over (si_cy i < lry)) (lry - si_cy i) lry s)
               else s);
          s = (if free_v \<and> (sn_x s = lrx \<or> sn_x s + si_cw i = lx)
               then snap_y_to zone (over (si_cy i < ly)) (si_cy i - ly) ly
                      (snap_y_to zone (over (si_ry i > lry)) (lry - si_ry i) (lry - si_ch i) s)
               else s)
      in if free_h \<and> (sn_y s = lry \<or> sn_y s + si_ch i = ly)
         then snap_x_to zone (over (si_cx i < lx)) (si_cx i - lx) lx
                (snap_x_to zone (over (si_rx i > lrx)) (lrx - si_rx i) (lrx - si_cw i) s)
         else s)"

text \<open>The window compared: the code stores its edges in variables outside of the loop, which keep the
  edges of the last one when a window is not to be compared, and nothing sets them before that.\<close>

definition snaps_to :: "desk \<Rightarrow> wid \<Rightarrow> wid \<Rightarrow> bool" where
  "snaps_to d w v \<longleftrightarrow>
     (case win_control (dwin d v) of
        None \<Rightarrow> False
      | Some c \<Rightarrow>
          \<not> (win_class (dwin d v) = win_class (dwin d w) \<and> v = w)
          \<and> \<not> ctl_minimized c
          \<and> shown (dwin d v)
          \<and> \<not> (\<not> on_subspace (dk_space d) v (get_subspace (dk_space d) w)
                \<and> \<not> on_subspace (dk_space d) w (get_subspace (dk_space d) v))
          \<and> \<not> (is_desktop (dwin d v) \<or> is_splash (dwin d v) \<or> is_applet_popup (dwin d v)))"

definition edges_of :: "rect \<Rightarrow> edges" where
  "edges_of r = \<lparr>ws_left = x1 r, ws_top = y1 r, ws_right = x1 r + rect_width r,
                 ws_bottom = y1 r + rect_height r\<rparr>"

fun snap_loop :: "desk \<Rightarrow> wid \<Rightarrow> snap_input \<Rightarrow> flag \<Rightarrow> int \<Rightarrow> wid list \<Rightarrow> edges \<Rightarrow> snap \<Rightarrow> snap" where
  "snap_loop d w i guide zone [] e s = s"
| "snap_loop d w i guide zone (v # vs) e s =
     (let e = (if snaps_to d w v then edges_of (g_frame (geo d v)) else e)
      in snap_loop d w i guide zone vs e (window_snap i guide zone e s))"

definition center_snap :: "snap_input \<Rightarrow> bool \<Rightarrow> bool \<Rightarrow> int \<Rightarrow> snap \<Rightarrow> snap" where
  "center_snap i border_zone unrestricted zone s =
     (let l = si_limits i;
          mx = (lim_left l + lim_right l) sdiv 2; my = (lim_top l + lim_bottom l) sdiv 2;
          hw = si_cw i sdiv 2; hh = si_ch i sdiv 2;
          diff_x = \<bar>mx - (si_cx i + hw)\<bar>; diff_y = \<bar>my - (si_cy i + hh)\<bar>
      in if diff_x < zone \<and> diff_y < zone \<and> diff_x < sn_dx s \<and> diff_y < sn_dy s
         then s\<lparr>sn_x := mx - hw, sn_y := my - hh\<rparr>
         else if border_zone
         then if (sn_x s = lim_left l \<or> sn_x s = lim_right l - si_cw i)
                 \<and> diff_y < zone \<and> diff_y < sn_dy s
              then s\<lparr>sn_y := my - hh\<rparr>
              else if ((if unrestricted then sn_y s = lim_top l else sn_y s \<le> lim_top l)
                       \<or> sn_y s = lim_bottom l - si_ch i)
                      \<and> diff_x < zone \<and> diff_x < sn_dx s
              then s\<lparr>sn_x := mx - hw\<rparr>
              else s
         else s)"

section \<open>Moving: the whole\<close>

definition snap_area :: "desk \<Rightarrow> wid \<Rightarrow> point \<Rightarrow> rect \<Rightarrow> rect" where
  "snap_area d w pos guide_area =
     (if rect_null guide_area
      then space_window_area_output d area_movement
             (get_nearest_output (dk_outputs d) (moved_center d w pos)) (get_subspace (dk_space d) w)
      else guide_area)"

text \<open>\<open>unset\<close> is what the variables of the edges hold before the loop.\<close>

definition adjust_window_position ::
    "edges \<Rightarrow> desk \<Rightarrow> wid \<Rightarrow> point \<Rightarrow> bool \<Rightarrow> rat \<Rightarrow> point" where
  "adjust_window_position unset d w pos unrestricted adjust =
     (let (guide_area, guide, zone) = snap_guide d w pos
      in if dk_window_snap d = 0 \<and> fst zone = 0 \<and> snd zone = 0 \<and> dk_center_snap d = 0 then pos
         else
           let area = snap_area d w pos guide_area;
               limits = \<lparr>lim_left = x1 area, lim_top = y1 area, lim_right = x2 area + 1,
                         lim_bottom = y2 area + 1\<rparr>;
               i = \<lparr>si_limits = limits, si_pos = pos, si_extent = rect_extent (g_frame (geo d w)),
                    si_overlapping = dk_snap_overlapping d\<rparr>;
               s = \<lparr>sn_x = fst pos, sn_y = snd pos, sn_dx = lim_right limits, sn_dy = lim_bottom limits\<rparr>;
               snap_x = scaled_zone (fst zone) adjust;
               snap_y = scaled_zone (snd zone) adjust;
               s = (if snap_x \<noteq> 0 \<or> snap_y \<noteq> 0
                    then border_snap i (snap_margins (dk_outputs d) (geo d w) area) snap_x snap_y s else s);
               window_zone = scaled_zone (dk_window_snap d) adjust;
               s = (if window_zone \<noteq> 0
                    then snap_loop d w i guide window_zone (windows (dk_space d)) unset s else s);
               center_zone = scaled_zone (dk_center_snap d) adjust;
               s = (if center_zone \<noteq> 0
                    then center_snap i (dk_border_snap d \<noteq> 0) unrestricted center_zone s else s)
           in (sn_x s, sn_y s))"

end
