(* ===== verification/Snap_Resize.thy ===== *)
theory Snap_Resize
  imports Snapping
begin

text \<open>
  Snapping the edges of a window that is resized: adjust_window_size of geo_restrict.h. The mode names
  the corner or side that is dragged; None is the abort for the centre.
\<close>

text \<open>The edges as they are moved and the smallest distances so far.\<close>

record resize_snap =
  rs_left :: int
  rs_top :: int
  rs_right :: int
  rs_bottom :: int
  rs_dx :: int
  rs_dy :: int

text \<open>The limits hold the last pixels here; \<open>ri_left\<close> and \<open>ri_right\<close> are the edges asked for.\<close>

record resize_input =
  ri_limits :: limits
  ri_overlapping :: bool
  ri_left :: int
  ri_right :: int

definition if_over :: "resize_input \<Rightarrow> bool \<Rightarrow> bool" where
  "if_over i c \<longleftrightarrow> (if ri_overlapping i then c else True)"

section \<open>The borders\<close>

definition snap_border_top :: "resize_input \<Rightarrow> resize_snap \<Rightarrow> resize_snap" where
  "snap_border_top i s =
     (let ymin = lim_top (ri_limits i)
      in if if_over i (rs_top s < ymin) \<and> \<bar>ymin - rs_top s\<bar> < rs_dy s
         then s\<lparr>rs_dy := \<bar>ymin - rs_top s\<bar>, rs_top := ymin\<rparr> else s)"

text \<open>The distance stored is that of the top edge.\<close>

definition snap_border_bottom :: "resize_input \<Rightarrow> resize_snap \<Rightarrow> resize_snap" where
  "snap_border_bottom i s =
     (let ymax = lim_bottom (ri_limits i)
      in if if_over i (rs_bottom s > ymax) \<and> \<bar>ymax - rs_bottom s\<bar> < rs_dy s
         then s\<lparr>rs_dy := \<bar>ymax - rs_top s\<bar>, rs_bottom := ymax\<rparr> else s)"

definition snap_border_left :: "resize_input \<Rightarrow> resize_snap \<Rightarrow> resize_snap" where
  "snap_border_left i s =
     (let xmin = lim_left (ri_limits i)
      in if if_over i (rs_left s < xmin) \<and> \<bar>xmin - rs_left s\<bar> < rs_dx s
         then s\<lparr>rs_dx := \<bar>xmin - rs_left s\<bar>, rs_left := xmin\<rparr> else s)"

definition snap_border_right :: "resize_input \<Rightarrow> resize_snap \<Rightarrow> resize_snap" where
  "snap_border_right i s =
     (let xmax = lim_right (ri_limits i)
      in if if_over i (rs_right s > xmax) \<and> \<bar>xmax - rs_right s\<bar> < rs_dx s
         then s\<lparr>rs_dx := \<bar>xmax - rs_right s\<bar>, rs_right := xmax\<rparr> else s)"

definition resize_borders :: "resize_input \<Rightarrow> contact \<Rightarrow> resize_snap \<Rightarrow> resize_snap option" where
  "resize_borders i mode s =
     (case mode of
        at_bottom_right \<Rightarrow> Some (snap_border_right i (snap_border_bottom i s))
      | at_right \<Rightarrow> Some (snap_border_right i s)
      | at_bottom \<Rightarrow> Some (snap_border_bottom i s)
      | at_top_left \<Rightarrow> Some (snap_border_left i (snap_border_top i s))
      | at_left \<Rightarrow> Some (snap_border_left i s)
      | at_top \<Rightarrow> Some (snap_border_top i s)
      | at_top_right \<Rightarrow> Some (snap_border_right i (snap_border_top i s))
      | at_bottom_left \<Rightarrow> Some (snap_border_left i (snap_border_bottom i s))
      | at_center \<Rightarrow> None)"

section \<open>Another window\<close>

definition within_height :: "edges \<Rightarrow> resize_snap \<Rightarrow> bool" where
  "within_height e s \<longleftrightarrow>
     rs_top s \<le> ws_bottom e \<and> rs_top s \<ge> ws_top e
     \<or> rs_bottom s \<ge> ws_top e \<and> rs_bottom s \<le> ws_bottom e
     \<or> rs_top s \<le> ws_top e \<and> rs_bottom s \<ge> ws_bottom e"

definition within_width :: "resize_input \<Rightarrow> edges \<Rightarrow> bool" where
  "within_width i e \<longleftrightarrow> ranges_meet (ri_left i) (ri_right i) (ws_left e) (ws_right e)"

definition snap_window_top :: "resize_input \<Rightarrow> edges \<Rightarrow> resize_snap \<Rightarrow> resize_snap" where
  "snap_window_top i e s =
     (if if_over i (rs_top s < ws_bottom e) \<and> within_width i e \<and> \<bar>ws_bottom e - rs_top s\<bar> < rs_dy s
      then s\<lparr>rs_dy := \<bar>ws_bottom e - rs_top s\<bar>, rs_top := ws_bottom e\<rparr> else s)"

definition snap_window_bottom :: "resize_input \<Rightarrow> edges \<Rightarrow> resize_snap \<Rightarrow> resize_snap" where
  "snap_window_bottom i e s =
     (if if_over i (rs_bottom s > ws_top e) \<and> within_width i e \<and> \<bar>ws_top e - rs_bottom s\<bar> < rs_dy s
      then s\<lparr>rs_dy := \<bar>ws_top e - rs_bottom s\<bar>, rs_bottom := ws_top e\<rparr> else s)"

definition snap_window_left :: "resize_input \<Rightarrow> edges \<Rightarrow> resize_snap \<Rightarrow> resize_snap" where
  "snap_window_left i e s =
     (if if_over i (rs_left s < ws_right e) \<and> within_height e s \<and> \<bar>ws_right e - rs_left s\<bar> < rs_dx s
      then s\<lparr>rs_dx := \<bar>ws_right e - rs_left s\<bar>, rs_left := ws_right e\<rparr> else s)"

definition snap_window_right :: "resize_input \<Rightarrow> edges \<Rightarrow> resize_snap \<Rightarrow> resize_snap" where
  "snap_window_right i e s =
     (if if_over i (rs_right s > ws_left e) \<and> within_height e s \<and> \<bar>ws_left e - rs_right s\<bar> < rs_dx s
      then s\<lparr>rs_dx := \<bar>ws_left e - rs_right s\<bar>, rs_right := ws_left e\<rparr> else s)"

definition beside :: "edges \<Rightarrow> resize_snap \<Rightarrow> bool" where
  "beside e s \<longleftrightarrow> rs_left s = ws_right e \<or> rs_right s = ws_left e"

definition above_or_below :: "edges \<Rightarrow> resize_snap \<Rightarrow> bool" where
  "above_or_below e s \<longleftrightarrow> rs_top s = ws_bottom e \<or> rs_bottom s = ws_top e"

definition snap_window_c_top :: "resize_input \<Rightarrow> edges \<Rightarrow> resize_snap \<Rightarrow> resize_snap" where
  "snap_window_c_top i e s =
     (if if_over i (rs_top s < ws_top e) \<and> beside e s \<and> \<bar>ws_top e - rs_top s\<bar> < rs_dy s
      then s\<lparr>rs_dy := \<bar>ws_top e - rs_top s + 1\<bar>, rs_top := ws_top e + 1\<rparr> else s)"

definition snap_window_c_bottom :: "resize_input \<Rightarrow> edges \<Rightarrow> resize_snap \<Rightarrow> resize_snap" where
  "snap_window_c_bottom i e s =
     (if if_over i (rs_bottom s > ws_bottom e) \<and> beside e s \<and> \<bar>ws_bottom e - rs_bottom s\<bar> < rs_dy s
      then s\<lparr>rs_dy := \<bar>ws_bottom e - rs_bottom s - 1\<bar>, rs_bottom := ws_bottom e - 1\<rparr> else s)"

definition snap_window_c_left :: "resize_input \<Rightarrow> edges \<Rightarrow> resize_snap \<Rightarrow> resize_snap" where
  "snap_window_c_left i e s =
     (if if_over i (rs_left s < ws_left e) \<and> above_or_below e s \<and> \<bar>ws_left e - rs_left s\<bar> < rs_dx s
      then s\<lparr>rs_dx := \<bar>ws_left e - rs_left s + 1\<bar>, rs_left := ws_left e + 1\<rparr> else s)"

definition snap_window_c_right :: "resize_input \<Rightarrow> edges \<Rightarrow> resize_snap \<Rightarrow> resize_snap" where
  "snap_window_c_right i e s =
     (if if_over i (rs_right s > ws_right e) \<and> above_or_below e s \<and> \<bar>ws_right e - rs_right s\<bar> < rs_dx s
      then s\<lparr>rs_dx := \<bar>ws_right e - rs_right s - 1\<bar>, rs_right := ws_right e - 1\<rparr> else s)"

definition resize_to_window ::
    "resize_input \<Rightarrow> contact \<Rightarrow> edges \<Rightarrow> resize_snap \<Rightarrow> resize_snap option" where
  "resize_to_window i mode e s =
     (case mode of
        at_bottom_right \<Rightarrow>
          Some (snap_window_c_right i e (snap_window_c_bottom i e
            (snap_window_right i e (snap_window_bottom i e s))))
      | at_right \<Rightarrow> Some (snap_window_c_right i e (snap_window_right i e s))
      | at_bottom \<Rightarrow> Some (snap_window_c_bottom i e (snap_window_bottom i e s))
      | at_top_left \<Rightarrow>
          Some (snap_window_c_left i e (snap_window_c_top i e
            (snap_window_left i e (snap_window_top i e s))))
      | at_left \<Rightarrow> Some (snap_window_c_left i e (snap_window_left i e s))
      | at_top \<Rightarrow> Some (snap_window_c_top i e (snap_window_top i e s))
      | at_top_right \<Rightarrow>
          Some (snap_window_c_right i e (snap_window_c_top i e
            (snap_window_right i e (snap_window_top i e s))))
      | at_bottom_left \<Rightarrow>
          Some (snap_window_c_left i e (snap_window_c_bottom i e
            (snap_window_left i e (snap_window_bottom i e s))))
      | at_center \<Rightarrow> None)"

text \<open>The code means to leave out the window itself, but compares the type of the window with that of a
  reference to a pointer, so that the test for it is not compiled in for any window.\<close>

definition resizes_to :: "desk \<Rightarrow> wid \<Rightarrow> bool" where
  "resizes_to d v \<longleftrightarrow>
     (case win_control (dwin d v) of
        None \<Rightarrow> False
      | Some c \<Rightarrow>
          on_subspace_ptr (dk_space d) v (current (subspace_manager (dk_space d)))
          \<and> \<not> ctl_minimized c)"

definition outer_edges :: "rect \<Rightarrow> edges" where
  "outer_edges r = \<lparr>ws_left = x1 r - 1, ws_top = y1 r - 1, ws_right = x1 r + rect_width r,
                    ws_bottom = y1 r + rect_height r\<rparr>"

fun resize_loop ::
    "desk \<Rightarrow> resize_input \<Rightarrow> contact \<Rightarrow> wid list \<Rightarrow> resize_snap \<Rightarrow> resize_snap option" where
  "resize_loop d i mode [] s = Some s"
| "resize_loop d i mode (v # vs) s =
     Option.bind (if resizes_to d v then resize_to_window i mode (outer_edges (g_frame (geo d v))) s
                  else Some s)
       (resize_loop d i mode vs)"

section \<open>adjust_window_size\<close>

definition rect_of_snap :: "resize_snap \<Rightarrow> rect" where
  "rect_of_snap s = \<lparr>x1 = rs_left s, y1 = rs_top s, x2 = rs_right s, y2 = rs_bottom s\<rparr>"

text \<open>The area is the one at the centre of a rectangle of the size of the window at the origin.\<close>

definition resize_area :: "desk \<Rightarrow> wid \<Rightarrow> rect" where
  "resize_area d w =
     space_window_area_point d area_movement
       (rect_center (mk_rect 0 0 (rect_width (g_frame (geo d w))) (rect_height (g_frame (geo d w)))))
       (get_subspace (dk_space d) w)"

definition resize_zone :: "int \<Rightarrow> (resize_snap \<Rightarrow> resize_snap option) \<Rightarrow> resize_snap \<Rightarrow> resize_snap option" where
  "resize_zone zone f s = (if zone \<noteq> 0 then f (s\<lparr>rs_dx := zone, rs_dy := zone\<rparr>) else Some s)"

definition adjust_window_size :: "desk \<Rightarrow> wid \<Rightarrow> rect \<Rightarrow> contact \<Rightarrow> rect option" where
  "adjust_window_size d w r mode =
     (if dk_window_snap d = 0 \<and> dk_border_snap d = 0 then Some r
      else
        let area = resize_area d w;
            i = \<lparr>ri_limits = \<lparr>lim_left = x1 area, lim_top = y1 area, lim_right = x2 area, lim_bottom = y2 area\<rparr>,
                 ri_overlapping = dk_snap_overlapping d, ri_left = x1 r, ri_right = x2 r\<rparr>;
            s = \<lparr>rs_left = x1 r, rs_top = y1 r, rs_right = x2 r, rs_bottom = y2 r, rs_dx = x2 area,
                 rs_dy = y2 area\<rparr>
        in map_option rect_of_snap
             (Option.bind (resize_zone (dk_border_snap d) (resize_borders i mode) s)
                (resize_zone (dk_window_snap d)
                   (resize_loop d i mode (windows (dk_space d))))))"

end
