(* ===== verification/Quicktile.thy ===== *)
theory Quicktile
  imports Geo_Restrict
begin

text \<open>
  Quick tiling: quicktile.h and the rest of geo_electric.h. None is where an assertion fails or the
  smart placement does not end. The outline, the elevation of the window and the timer are signals.
\<close>

section \<open>The tile the pointer asks for (geo_electric.h)\<close>

definition sanitize_tiles :: "flag \<Rightarrow> flag" where
  "sanitize_tiles tiles =
     (let tiles = (if flag_and tiles quick_horizontal = quick_horizontal
                   then flag_and tiles (flag_not quick_horizontal) else tiles)
      in if flag_and tiles quick_vertical = quick_vertical
         then flag_and tiles (flag_not quick_vertical) else tiles)"

definition set_electric :: "wid \<Rightarrow> flag \<Rightarrow> desk \<Rightarrow> desk" where
  "set_electric w tiles d =
     update_geo w (\<lambda>g. g\<lparr>g_electric := if tiles \<noteq> quick_maximize then sanitize_tiles tiles else tiles\<rparr>) d"

definition set_electric_maximizing :: "wid \<Rightarrow> bool \<Rightarrow> desk \<Rightarrow> desk" where
  "set_electric_maximizing w maximizing d =
     (let d = update_geo w (\<lambda>g. g\<lparr>g_electric_maximizing := maximizing\<rparr>) d;
          d = (if maximizing
               then geo_emit (Outline_Shown
                      (electric_border_maximize_geometry d w (dk_cursor d) (get_subspace (dk_space d) w))
                      (mr_geometry (g_move (geo d w)))) d
               else geo_emit Outline_Hidden d)
      in geo_emit (Elevated w maximizing) d)"

definition delayed_electric_maximize :: "wid \<Rightarrow> desk \<Rightarrow> desk" where
  "delayed_electric_maximize w d = geo_emit (Electric_Timer w) d"

text \<open>What the timer does when it fires.\<close>

definition electric_timeout :: "wid \<Rightarrow> desk \<Rightarrow> desk" where
  "electric_timeout w d =
     (if is_move (geo d w) then set_electric_maximizing w (g_electric (geo d w) \<noteq> quick_none) d else d)"

section \<open>The zones at the edges of the screen\<close>

definition in_other_screen :: "rect list \<Rightarrow> nat \<Rightarrow> point \<Rightarrow> bool" where
  "in_other_screen outputs i p \<longleftrightarrow>
     list_ex (\<lambda>j. j \<noteq> i \<and> contains_point (outputs ! j) p) [0..<length outputs]"

definition side_zone :: "desk \<Rightarrow> nat \<Rightarrow> rect \<Rightarrow> point \<Rightarrow> flag \<times> bool" where
  "side_zone d i area p =
     (if dk_electric_tiling d
      then if fst p \<le> x1 area + 20
           then (quick_left, in_other_screen (dk_outputs d) i (x1 area - 1, snd p))
           else if fst p \<ge> x1 area + rect_width area - 20
           then (quick_right, in_other_screen (dk_outputs d) i (x2 area + 1, snd p))
           else (quick_none, False)
      else (quick_none, False))"

definition corner_zone :: "rat \<Rightarrow> rect \<Rightarrow> int \<Rightarrow> flag \<Rightarrow> flag" where
  "corner_zone ratio area y mode =
     (if of_int y \<le> of_int (y1 area) + of_int (rect_height area) * ratio then flag_or mode quick_top
      else if of_int y \<ge> of_int (y1 area) + of_int (rect_height area) - of_int (rect_height area) * ratio
      then flag_or mode quick_bottom
      else mode)"

definition zone_of :: "desk \<Rightarrow> wid \<Rightarrow> nat \<Rightarrow> point \<Rightarrow> flag \<times> bool" where
  "zone_of d w i p =
     (let area = space_window_area_point d area_maximize p (get_subspace (dk_space d) w);
          (mode, inner_border) = side_zone d i area p
      in if mode \<noteq> quick_none then (corner_zone (dk_electric_ratio d) area (snd p) mode, inner_border)
         else if dk_electric_maximize d \<and> snd p \<le> y1 area + 5 \<and> isMaximizable d w
         then (quick_maximize, in_other_screen (dk_outputs d) i (fst p, y1 area - 1))
         else (mode, inner_border))"

definition check_quicktile_maximization_zones :: "wid \<Rightarrow> point \<Rightarrow> desk \<Rightarrow> desk" where
  "check_quicktile_maximization_zones w p d =
     (let (mode, inner_border) =
            (case find (\<lambda>i. contains_point (dk_outputs d ! i) p) [0..<length (dk_outputs d)] of
               None \<Rightarrow> (quick_none, False)
             | Some i \<Rightarrow> zone_of d w i p)
      in if mode \<noteq> g_electric (geo d w)
         then let d = set_electric w mode d
              in if inner_border then delayed_electric_maximize w d
                 else set_electric_maximizing w (mode \<noteq> quick_none) d
         else d)"

section \<open>set_quicktile_mode\<close>

definition set_quicktiling :: "wid \<Rightarrow> flag \<Rightarrow> desk \<Rightarrow> desk" where
  "set_quicktiling w tiles d = update_geo w (\<lambda>g. g\<lparr>g_quicktiling := tiles\<rparr>) d"

definition set_restore :: "wid \<Rightarrow> rect \<Rightarrow> desk \<Rightarrow> desk" where
  "set_restore w r d = update_geo w (\<lambda>g. g\<lparr>g_restore := r\<rparr>) d"

definition reference_point :: "bool \<Rightarrow> wid \<Rightarrow> desk \<Rightarrow> point" where
  "reference_point keyboard w d =
     (if keyboard then rect_center (pending_frame_geometry (geo d w)) else dk_cursor d)"

definition tile_at :: "wid \<Rightarrow> point \<Rightarrow> desk \<Rightarrow> desk" where
  "tile_at w p d =
     setFrameGeometry w (electric_border_maximize_geometry d w p (get_subspace (dk_space d) w)) d"

text \<open>The mode maximize.\<close>

definition quicktile_maximize :: "wid \<Rightarrow> rect \<Rightarrow> desk \<Rightarrow> desk option" where
  "quicktile_maximize w old_restore_geo d =
     (let old_quicktiling = g_quicktiling (geo d w);
          d = set_quicktiling w quick_none d;
          r = (if g_max_mode (geo d w) = maximize_full then set_maximize w False False d
               else map_option
                      (\<lambda>d. let area = space_window_area d area_maximize w;
                               frame = pending_frame_geometry (geo d w);
                               d = (if y1 frame \<noteq> y1 area
                                    then setFrameGeometry w (move_top (y1 area) frame) d else d)
                           in set_restore w old_restore_geo d)
                      (set_maximize w True True (set_quicktiling w quick_maximize d)))
      in map_option (\<lambda>d. if old_quicktiling \<noteq> g_quicktiling (geo d w)
                        then geo_emit (Quicktiling_Changed w) d else d) r)"

text \<open>A maximized window is restored first.\<close>

definition quicktile_maximized :: "wid \<Rightarrow> flag \<Rightarrow> bool \<Rightarrow> rect \<Rightarrow> desk \<Rightarrow> desk option" where
  "quicktile_maximized w mode keyboard old_restore_geo d =
     (let r = (if mode \<noteq> quick_none
               then map_option
                      (\<lambda>d. let ref_pos = reference_point keyboard w d;
                               d = tile_at w ref_pos d;
                               d = set_quicktiling w mode d
                           in set_restore w old_restore_geo d)
                      (set_maximize w False False (set_quicktiling w quick_none d))
               else set_maximize w False False (set_quicktiling w mode d))
      in map_option (geo_emit (Quicktiling_Changed w)) r)"

text \<open>The next screen to the side of the tile.\<close>

definition skips_screen :: "flag \<Rightarrow> rect list \<Rightarrow> nat \<Rightarrow> nat \<Rightarrow> nat \<Rightarrow> bool" where
  "skips_screen mode geos old i screen \<longleftrightarrow>
     i = old
     \<or> (y2 (geos ! i) \<le> y1 (geos ! old) \<or> y1 (geos ! i) \<ge> y2 (geos ! old))
     \<or> (let x = fst (rect_center (geos ! i)); side = flag_and mode quick_horizontal
        in if side = quick_left
           then x \<ge> fst (rect_center (geos ! old))
                \<or> old \<noteq> screen \<and> x \<le> fst (rect_center (geos ! screen))
           else if side = quick_right
           then x \<le> fst (rect_center (geos ! old))
                \<or> old \<noteq> screen \<and> x \<ge> fst (rect_center (geos ! screen))
           else False)"

definition next_tile_screen :: "flag \<Rightarrow> rect list \<Rightarrow> nat \<Rightarrow> nat" where
  "next_tile_screen mode geos old =
     fold (\<lambda>i screen. if skips_screen mode geos old i screen then screen else i) [0..<length geos] old"

definition swap_sides :: "flag \<Rightarrow> flag" where
  "swap_sides mode =
     (if has_flag mode quick_horizontal
      then flag_or (flag_and (flag_not mode) quick_horizontal) (flag_and mode quick_vertical) else mode)"

text \<open>The same tile again: the window goes to the next screen, or out of the tile.\<close>

definition quicktile_again :: "wid \<Rightarrow> flag \<Rightarrow> point \<Rightarrow> desk \<Rightarrow> flag \<times> point \<times> desk" where
  "quicktile_again w mode target d =
     (let geos = dk_outputs d;
          old = (case central_output (dwin d w) of None \<Rightarrow> 0 | Some i \<Rightarrow> i);
          screen = next_tile_screen mode geos old;
          moved = translated (x1 (geos ! screen) - x1 (geos ! old), y1 (geos ! screen) - y1 (geos ! old))
                    (g_restore (geo d w));
          mode' = (if screen = old then quick_none else swap_sides mode);
          target = (if screen = old then target else rect_center (geos ! screen));
          d = (if screen = old then d else setFrameGeometry w moved d)
      in (mode', target, set_electric w mode' d))"

definition quicktile_window :: "wid \<Rightarrow> flag \<Rightarrow> bool \<Rightarrow> desk \<Rightarrow> desk option" where
  "quicktile_window w mode keyboard d =
     (let (mode, d) =
            (if mode \<noteq> quick_none
             then
               let target = reference_point keyboard w d;
                   (mode, target, d) =
                     (if g_quicktiling (geo d w) = mode then quicktile_again w mode target d
                      else if g_quicktiling (geo d w) = quick_none \<and> \<not> rect_valid (g_restore (geo d w))
                      then (mode, target, set_restore w (g_frame (geo d w)) d)
                      else (mode, target, d));
                   d = (if mode \<noteq> quick_none then tile_at w target (set_quicktiling w quick_none d) else d)
               in (mode, set_quicktiling w mode d)
             else (mode, d));
          r = (if mode = quick_none
               then let d = set_quicktiling w quick_none d
                    in map_option (set_restore w null_rect)
                         (check_workspace_position w null_rect (-2) null_rect
                            (setFrameGeometry w (g_restore (geo d w)) d))
               else Some d)
      in map_option (geo_emit (Quicktiling_Changed w)) r)"

definition set_quicktile_mode :: "wid \<Rightarrow> flag \<Rightarrow> bool \<Rightarrow> desk \<Rightarrow> desk option" where
  "set_quicktile_mode w mode keyboard d =
     (if \<not> isResizable d w then Some d
      else if is_applet_popup (dwin d w) then Some d
      else
        let d = d\<lparr>dk_focus_mouse := dk_cursor d\<rparr>;
            d = block_geometry_updates w True d;
            d = (if \<not> rect_valid (g_restore (geo d w)) then set_restore w (g_frame (geo d w)) d else d);
            old_restore_geo = g_restore (geo d w);
            tiles = sanitize_tiles mode;
            electric = update_geo w (\<lambda>g. g\<lparr>g_electric := tiles\<rparr>) d;
            r = (if mode = quick_maximize then quicktile_maximize w old_restore_geo d
                 else if g_update_max (geo electric w) \<noteq> maximize_restore
                 then quicktile_maximized w tiles keyboard old_restore_geo electric
                 else quicktile_window w tiles keyboard electric)
        in map_option (block_geometry_updates w False) r)"

end
