(* ===== verification/Snap_Theorems.thy ===== *)
theory Snap_Theorems
  imports Snap_Resize Quicktile Example_Desk
begin

text \<open>
  The properties of quick tiles, of the size a frame is adjusted to and of the snapping, with witnesses
  on the desk of Example_Desk.
\<close>

section \<open>Quick tiles\<close>

lemma tile_flags:
  "tile_of quick_left r = left_half r" "tile_of quick_right r = right_half r"
  "tile_of quick_top r = top_half r" "tile_of quick_bottom r = bottom_half r"
  "tile_of (flag_or quick_left quick_top) r = top_half (left_half r)"
  "tile_of (flag_or quick_left quick_bottom) r = bottom_half (left_half r)"
  "tile_of (flag_or quick_right quick_top) r = top_half (right_half r)"
  "tile_of (flag_or quick_right quick_bottom) r = bottom_half (right_half r)"
  by (simp_all add: tile_of_def flag_defs quick_left_def quick_right_def quick_top_def quick_bottom_def)

text \<open>How many of some tiles of an area a point is in.\<close>

definition tiles_at :: "flag list \<Rightarrow> rect \<Rightarrow> point \<Rightarrow> nat" where
  "tiles_at tiles area p = length (filter (\<lambda>t. contains_point (tile_of t area) p) tiles)"

lemma half_of_int:
  assumes "2 \<le> (n :: int)"
  shows "1 \<le> n sdiv 2" "n sdiv 2 \<le> n - 1"
  using assms half_bounds [of n] by linarith+

text \<open>C23. The quick tiles cut an area into parts: a point of the area is in exactly one of the left and
  right tile, in exactly one of the top and bottom tile and in exactly one of the four tiles in the
  corners, and a point outside the area is in none, whether its size is even or odd.\<close>

theorem quick_tiles_partition:
  assumes "2 \<le> rect_width area" "2 \<le> rect_height area"
  shows "(let inside = (if contains_point area p then 1 else 0)
          in tiles_at [quick_left, quick_right] area p = inside
             \<and> tiles_at [quick_top, quick_bottom] area p = inside
             \<and> tiles_at [flag_or quick_left quick_top, flag_or quick_left quick_bottom,
                         flag_or quick_right quick_top, flag_or quick_right quick_bottom] area p = inside)"
proof -
  obtain a b c e where r: "area = \<lparr>x1 = a, y1 = b, x2 = c, y2 = e\<rparr>" by (cases area) auto
  define hw where "hw = (c - a + 1) sdiv 2"
  define hh where "hh = (e - b + 1) sdiv 2"
  have hw: "1 \<le> hw" "hw \<le> c - a" and hh: "1 \<le> hh" "hh \<le> e - b"
    using assms half_of_int [of "c - a + 1"] half_of_int [of "e - b + 1"]
    by (simp_all add: r rect_width_def rect_height_def hw_def hh_def)
  have halves: "left_half area = \<lparr>x1 = a, y1 = b, x2 = a + hw - 1, y2 = e\<rparr>"
    "right_half area = \<lparr>x1 = a + hw, y1 = b, x2 = c, y2 = e\<rparr>"
    "top_half \<lparr>x1 = x, y1 = b, x2 = z, y2 = e\<rparr> = \<lparr>x1 = x, y1 = b, x2 = z, y2 = b + hh - 1\<rparr>"
    "bottom_half \<lparr>x1 = x, y1 = b, x2 = z, y2 = e\<rparr> = \<lparr>x1 = x, y1 = b + hh, x2 = z, y2 = e\<rparr>"
    for x z
    by (simp_all add: r left_half_def right_half_def top_half_def bottom_half_def hw_def hh_def
        rect_width_def rect_height_def set_left_def set_right_def set_top_def set_bottom_def)
  have c: "contains_point \<lparr>x1 = k, y1 = l, x2 = m, y2 = n\<rparr> p \<longleftrightarrow> k \<le> fst p \<and> fst p \<le> m \<and> l \<le> snd p \<and> snd p \<le> n"
    if "k \<le> m" "l \<le> n" for k l m n
    using that by (simp add: contains_point_def)
  note tiles = tiles_at_def tile_flags halves halves [unfolded r]
  have "tiles_at [quick_left, quick_right] area p = (if contains_point area p then 1 else 0)"
    using hw hh by (auto simp: tiles c r)
  moreover have "tiles_at [quick_top, quick_bottom] area p = (if contains_point area p then 1 else 0)"
    using hw hh by (auto simp: tiles c r)
  moreover have "tiles_at [flag_or quick_left quick_top, flag_or quick_left quick_bottom,
      flag_or quick_right quick_top, flag_or quick_right quick_bottom] area p
      = (if contains_point area p then 1 else 0)"
    using hw hh by (auto simp: tiles c r)
  ultimately show ?thesis by (simp only: Let_def)
qed

theorem quick_tiles_partition_witness:
  "tiles_at [quick_left, quick_right] (mk_rect 0 0 801 600) (400, 30) = 1"
  using quick_tiles_partition [of "mk_rect 0 0 801 600" "(400, 30)"]
  by (simp add: rect_defs contains_point_def)

section \<open>The size of a frame\<close>

text \<open>The largest size a client asks for is not what bounds its frame: the check of the height writes
  the width, so that the frame is never wider than the largest height and the borders above and
  below.\<close>

theorem width_is_bounded_by_the_height:
  assumes "snd (max_size_of d w) \<le> INT_MAX - (m_top (g_margins (geo d w)) + m_bottom (g_margins (geo d w)))"
  shows "fst (adjusted_frame_size d w s)
           \<le> snd (max_size_of d w) + m_top (g_margins (geo d w)) + m_bottom (g_margins (geo d w))"
  using assms by (simp add: adjusted_frame_size_def Let_def bounded_to_def)

definition wide_client :: desk where
  "wide_client = update_geo 1 (\<lambda>g. g\<lparr>g_max_hint := (900, 300)\<rparr>) (plain_desk [1] (\<lambda>_. mk_rect 0 0 800 200))"

theorem width_is_bounded_by_the_height_witness:
  "fst (adjusted_frame_size wide_client 1 (800, 200)) \<le> 300"
  using width_is_bounded_by_the_height [of wide_client 1 "(800, 200)"]
  by (simp add: wide_client_def max_size_of_def checkMaxSize_def check_force_def zero_margins_def INT_MAX_def)

section \<open>Snapping a moved window\<close>

lemma snap_x_to_other [simp]: "sn_y (snap_x_to zone c gap x s) = sn_y s"
  by (simp add: snap_x_to_def)

lemma snap_y_to_other [simp]: "sn_x (snap_y_to zone c gap y s) = sn_x s"
  by (simp add: snap_y_to_def)

lemma snap_x_to_bound:
  "\<bar>sn_x s - p\<bar> \<le> B \<Longrightarrow> \<bar>x - p\<bar> = \<bar>gap\<bar> \<Longrightarrow> zone \<le> B \<Longrightarrow> \<bar>sn_x (snap_x_to zone c gap x s) - p\<bar> \<le> B"
  by (simp add: snap_x_to_def)

lemma snap_y_to_bound:
  "\<bar>sn_y s - p\<bar> \<le> B \<Longrightarrow> \<bar>y - p\<bar> = \<bar>gap\<bar> \<Longrightarrow> zone \<le> B \<Longrightarrow> \<bar>sn_y (snap_y_to zone c gap y s) - p\<bar> \<le> B"
  by (simp add: snap_y_to_def)

definition snap_within :: "snap_input \<Rightarrow> int \<Rightarrow> int \<Rightarrow> snap \<Rightarrow> bool" where
  "snap_within i hb vb s \<longleftrightarrow> \<bar>sn_x s - si_cx i\<bar> \<le> hb \<and> \<bar>sn_y s - si_cy i\<bar> \<le> vb"

lemma snap_within_x:
  "snap_within i hb vb s \<Longrightarrow> \<bar>x - si_cx i\<bar> = \<bar>gap\<bar> \<Longrightarrow> zone \<le> hb
   \<Longrightarrow> snap_within i hb vb (snap_x_to zone c gap x s)"
  by (simp add: snap_within_def snap_x_to_bound)

lemma snap_within_y:
  "snap_within i hb vb s \<Longrightarrow> \<bar>y - si_cy i\<bar> = \<bar>gap\<bar> \<Longrightarrow> zone \<le> vb
   \<Longrightarrow> snap_within i hb vb (snap_y_to zone c gap y s)"
  by (simp add: snap_within_def snap_y_to_bound)

lemma snap_within_if:
  "(c \<Longrightarrow> snap_within i hb vb a) \<Longrightarrow> (\<not> c \<Longrightarrow> snap_within i hb vb b)
   \<Longrightarrow> snap_within i hb vb (if c then a else b)"
  by simp

lemma window_snap_within:
  assumes "snap_within i hb vb s" "zone \<le> hb" "zone \<le> vb"
  shows "snap_within i hb vb (window_snap i guide zone e s)"
  unfolding window_snap_def Let_def
  by (intro snap_within_if snap_within_x snap_within_y assms) auto

lemma snap_loop_within:
  "snap_within i hb vb s \<Longrightarrow> zone \<le> hb \<Longrightarrow> zone \<le> vb
   \<Longrightarrow> snap_within i hb vb (snap_loop d w i guide zone vs e s)"
  by (induction vs arbitrary: e s) (simp_all add: Let_def window_snap_within)

lemma snap_within_set:
  "snap_within i hb vb s \<Longrightarrow> \<bar>x - si_cx i\<bar> \<le> hb \<Longrightarrow> snap_within i hb vb (s\<lparr>sn_dx := a, sn_x := x\<rparr>)"
  "snap_within i hb vb s \<Longrightarrow> \<bar>y - si_cy i\<bar> \<le> vb \<Longrightarrow> snap_within i hb vb (s\<lparr>sn_dy := b, sn_y := y\<rparr>)"
  by (simp_all add: snap_within_def)

lemma near_low: "\<bar>c - p\<bar> < z \<Longrightarrow> z + \<bar>m\<bar> \<le> B \<Longrightarrow> \<bar>c - m - p\<bar> \<le> (B :: int)"
  by linarith

lemma near_high: "\<bar>p + w - c\<bar> < z \<Longrightarrow> z + \<bar>m\<bar> \<le> B \<Longrightarrow> \<bar>c - w + m - p\<bar> \<le> (B :: int)"
  by linarith

lemma border_snap_within:
  assumes "snap_within i hb vb s" "snap_x + max \<bar>m_left m\<bar> \<bar>m_right m\<bar> \<le> hb"
    and "snap_y + max \<bar>m_top m\<bar> \<bar>m_bottom m\<bar> \<le> vb"
  shows "snap_within i hb vb (border_snap i m snap_x snap_y s)"
proof -
  have m: "snap_x + \<bar>m_left m\<bar> \<le> hb" "snap_x + \<bar>m_right m\<bar> \<le> hb"
      "snap_y + \<bar>m_top m\<bar> \<le> vb" "snap_y + \<bar>m_bottom m\<bar> \<le> vb"
    using assms(2,3) by simp_all
  show ?thesis
    unfolding border_snap_def Let_def
    by (intro snap_within_if snap_within_set assms(1); elim conjE)
      (erule near_low near_high, rule m)+
qed

lemma center_snap_within:
  "snap_within i hb vb s \<Longrightarrow> zone \<le> hb \<Longrightarrow> zone \<le> vb
   \<Longrightarrow> snap_within i hb vb (center_snap i bz u zone s)"
  unfolding center_snap_def Let_def
  by (intro snap_within_if) (auto simp: snap_within_def)

lemma snap_margins_smaller:
  "\<bar>m_left (snap_margins os g a)\<bar> \<le> \<bar>m_left (g_margins g)\<bar>"
  "\<bar>m_right (snap_margins os g a)\<bar> \<le> \<bar>m_right (g_margins g)\<bar>"
  "m_top (snap_margins os g a) = 0"
  "\<bar>m_bottom (snap_margins os g a)\<bar> \<le> \<bar>m_bottom (g_margins g)\<bar>"
  by (auto simp: snap_margins_def Let_def)

text \<open>How far a window may be moved along one axis: the zone of the borders and the larger margin of the
  frame, or another zone.\<close>

definition snap_reach :: "int \<Rightarrow> int \<Rightarrow> int \<Rightarrow> int \<Rightarrow> int" where
  "snap_reach zone a b other = max 0 (max (zone + max \<bar>a\<bar> \<bar>b\<bar>) other)"

text \<open>C24. Snapping moves a window no further than its zones: along each axis the new position is away from
  the one asked for by at most the zone of the borders and the margin of the frame that is put beyond
  the border, or the zone of windows, or that of the centre, whatever windows there are and whatever
  the variables that are not set contain.\<close>

theorem snapping_is_bounded:
  "(let zone = snd (snd (snap_guide d w pos));
        m = g_margins (geo d w);
        other = max (scaled_zone (dk_window_snap d) adjust) (scaled_zone (dk_center_snap d) adjust);
        new = adjust_window_position unset d w pos unrestricted adjust
    in \<bar>fst new - fst pos\<bar> \<le> snap_reach (scaled_zone (fst zone) adjust) (m_left m) (m_right m) other
       \<and> \<bar>snd new - snd pos\<bar> \<le> snap_reach (scaled_zone (snd zone) adjust) 0 (m_bottom m) other)"
proof -
  obtain ga guide zone where z: "snap_guide d w pos = (ga, guide, zone)" by (cases "snap_guide d w pos") auto
  let ?m = "g_margins (geo d w)" and ?wz = "scaled_zone (dk_window_snap d) adjust"
  let ?cz = "scaled_zone (dk_center_snap d) adjust"
  let ?hb = "snap_reach (scaled_zone (fst zone) adjust) (m_left ?m) (m_right ?m) (max ?wz ?cz)"
  let ?vb = "snap_reach (scaled_zone (snd zone) adjust) 0 (m_bottom ?m) (max ?wz ?cz)"
  let ?area = "snap_area d w pos ga"
  let ?sm = "snap_margins (dk_outputs d) (geo d w) ?area"
  define i where "i = \<lparr>si_limits = \<lparr>lim_left = x1 ?area, lim_top = y1 ?area, lim_right = x2 ?area + 1,
      lim_bottom = y2 ?area + 1\<rparr>, si_pos = pos, si_extent = rect_extent (g_frame (geo d w)),
      si_overlapping = dk_snap_overlapping d\<rparr>"
  define s0 where "s0 = \<lparr>sn_x = fst pos, sn_y = snd pos, sn_dx = x2 ?area + 1, sn_dy = y2 ?area + 1\<rparr>"
  define s1 where "s1 = (if scaled_zone (fst zone) adjust \<noteq> 0 \<or> scaled_zone (snd zone) adjust \<noteq> 0
      then border_snap i ?sm (scaled_zone (fst zone) adjust) (scaled_zone (snd zone) adjust) s0 else s0)"
  define s2 where "s2 = (if ?wz \<noteq> 0 then snap_loop d w i guide ?wz (windows (dk_space d)) unset s1 else s1)"
  define s3 where "s3 = (if ?cz \<noteq> 0 then center_snap i (dk_border_snap d \<noteq> 0) unrestricted ?cz s2 else s2)"
  have zones: "?wz \<le> ?hb" "?wz \<le> ?vb" "?cz \<le> ?hb" "?cz \<le> ?vb" "0 \<le> ?hb" "0 \<le> ?vb"
    by (simp_all add: snap_reach_def le_max_iff_disj)
  have borders: "scaled_zone (fst zone) adjust + max \<bar>m_left ?sm\<bar> \<bar>m_right ?sm\<bar> \<le> ?hb"
    "scaled_zone (snd zone) adjust + max \<bar>m_top ?sm\<bar> \<bar>m_bottom ?sm\<bar> \<le> ?vb"
    using snap_margins_smaller [of "dk_outputs d" "geo d w" ?area]
    by (simp_all add: snap_reach_def le_max_iff_disj) linarith+
  have "snap_within i ?hb ?vb s0" using zones by (simp add: snap_within_def s0_def i_def)
  then have "snap_within i ?hb ?vb s1" unfolding s1_def
    by (intro snap_within_if border_snap_within borders)
  then have "snap_within i ?hb ?vb s2" unfolding s2_def
    by (intro snap_within_if snap_loop_within zones)
  then have s3: "snap_within i ?hb ?vb s3" unfolding s3_def
    by (intro snap_within_if center_snap_within zones)
  show ?thesis
  proof (cases "dk_window_snap d = 0 \<and> fst zone = 0 \<and> snd zone = 0 \<and> dk_center_snap d = 0")
    case True
    then show ?thesis using zones by (simp add: adjust_window_position_def z)
  next
    case False
    then have "adjust_window_position unset d w pos unrestricted adjust = (sn_x s3, sn_y s3)"
      by (simp only: adjust_window_position_def z Let_def prod.case if_not_P [OF False] if_False limits.simps
          s3_def s2_def s1_def s0_def i_def)
    then show ?thesis using s3 by (simp add: z snap_within_def i_def)
  qed
qed

section \<open>The edges that nothing sets\<close>

lemma snap_margins_zero: "g_margins g = zero_margins \<Longrightarrow> snap_margins os g a = zero_margins"
  by (simp add: snap_margins_def zero_margins_def)

text \<open>Window 2 is moved on the first output; window 3 is far away from it.\<close>

definition moved_desk :: desk where
  "moved_desk = plain_desk [2, 3] (\<lambda>w. if w = 2 then mk_rect 100 300 200 200 else mk_rect 600 50 100 100)"

lemma moved_desk_snap:
  "adjust_window_position e moved_desk 2 (105, 300) False 1 =
     (let i = \<lparr>si_limits = \<lparr>lim_left = 0, lim_top = 0, lim_right = 1000, lim_bottom = 800\<rparr>,
               si_pos = (105, 300), si_extent = (200, 200), si_overlapping = False\<rparr>;
          s = window_snap i maximize_restore 10 \<lparr>ws_left = 600, ws_top = 50, ws_right = 700, ws_bottom = 150\<rparr>
                (window_snap i maximize_restore 10 e \<lparr>sn_x = 105, sn_y = 300, sn_dx = 1000, sn_dy = 800\<rparr>)
      in (sn_x s, sn_y s))"
proof -
  have g: "snap_guide moved_desk 2 (105, 300) = (null_rect, maximize_restore, (10, 10))"
    by (simp add: snap_guide_def moved_desk_def)
  have zone: "scaled_zone 10 1 = 10" "scaled_zone 0 1 = 0" by (simp_all add: scaled_zone_def)
  have center: "moved_center moved_desk 2 (105, 300) = (204, 399)"
    by (simp add: moved_center_def rect_center_def rect_defs signed_divide_int_def moved_desk_def)
  have area: "snap_area moved_desk 2 (105, 300) null_rect = mk_rect 0 0 1000 800"
    unfolding snap_area_def center
    by (simp add: rect_null_def null_rect_def get_nearest_output_def two_outputs_def
        contains_point_def space_window_area_output_def Let_def rect_defs moved_desk_def)
  have m: "snap_margins os (geo moved_desk 2) r = zero_margins" for os r
    by (simp add: snap_margins_zero moved_desk_def)
  have self: "\<not> snaps_to moved_desk 2 2" and other: "snaps_to moved_desk 2 3"
    by (simp_all add: snaps_to_def moved_desk_def plain_control_def is_desktop_def is_splash_def
        is_applet_popup_def on_subspace_def on_subspace_ptr_def on_all_subspaces_def)
  have frame: "rect_extent (g_frame (geo moved_desk 2)) = (200, 200)"
      "edges_of (g_frame (geo moved_desk 3)) = \<lparr>ws_left = 600, ws_top = 50, ws_right = 700, ws_bottom = 150\<rparr>"
    by (simp_all add: moved_desk_def edges_of_def rect_defs)
  have opts: "dk_border_snap moved_desk = 10" "dk_window_snap moved_desk = 10" "dk_center_snap moved_desk = 0"
      "dk_snap_overlapping moved_desk = False" "windows (dk_space moved_desk) = [2, 3]"
    by (simp_all add: moved_desk_def)
  show ?thesis
    by (simp add: adjust_window_position_def g zone area m self other frame opts Let_def border_snap_def
        when_overlapping_def mk_rect_def)
qed

text \<open>Where the oldest window of the space is moved and another exists, its first comparison is with
  edges that no statement has set: on one and the same desk different contents of these variables
  lead to different positions.\<close>

theorem snapping_reads_unset_edges:
  "\<exists>d w pos a b. adjust_window_position a d w pos False 1 \<noteq> adjust_window_position b d w pos False 1"
proof -
  let ?far = "\<lparr>ws_left = 800, ws_top = 800, ws_right = 900, ws_bottom = 900\<rparr>"
  let ?near = "\<lparr>ws_left = 10, ws_top = 300, ws_right = 110, ws_bottom = 600\<rparr>"
  note eval = moved_desk_snap window_snap_def snap_x_to_def snap_y_to_def when_overlapping_def ranges_meet_def
    flag_defs maximize_defs Let_def
  have "adjust_window_position ?far moved_desk 2 (105, 300) False 1 = (105, 300)"
    by (simp add: eval)
  moreover have "adjust_window_position ?near moved_desk 2 (105, 300) False 1 = (110, 300)"
    by (simp add: eval)
  ultimately have "adjust_window_position ?far moved_desk 2 (105, 300) False 1
      \<noteq> adjust_window_position ?near moved_desk 2 (105, 300) False 1" by simp
  then show ?thesis by blast
qed

section \<open>Resizing\<close>

definition drags_left :: "contact \<Rightarrow> bool" where
  "drags_left c \<longleftrightarrow> c = at_left \<or> c = at_top_left \<or> c = at_bottom_left"

definition drags_right :: "contact \<Rightarrow> bool" where
  "drags_right c \<longleftrightarrow> c = at_right \<or> c = at_top_right \<or> c = at_bottom_right"

definition drags_top :: "contact \<Rightarrow> bool" where
  "drags_top c \<longleftrightarrow> c = at_top \<or> c = at_top_left \<or> c = at_top_right"

definition drags_bottom :: "contact \<Rightarrow> bool" where
  "drags_bottom c \<longleftrightarrow> c = at_bottom \<or> c = at_bottom_left \<or> c = at_bottom_right"

definition only_dragged :: "contact \<Rightarrow> rect \<Rightarrow> rect \<Rightarrow> bool" where
  "only_dragged c r r' \<longleftrightarrow>
     (drags_left c \<or> x1 r' = x1 r) \<and> (drags_right c \<or> x2 r' = x2 r)
     \<and> (drags_top c \<or> y1 r' = y1 r) \<and> (drags_bottom c \<or> y2 r' = y2 r)"

lemma snap_border_top_keeps [simp]:
  "rs_left (snap_border_top i s) = rs_left s" "rs_right (snap_border_top i s) = rs_right s"
  "rs_bottom (snap_border_top i s) = rs_bottom s"
  by (simp_all add: snap_border_top_def Let_def)

lemma snap_border_bottom_keeps [simp]:
  "rs_left (snap_border_bottom i s) = rs_left s" "rs_top (snap_border_bottom i s) = rs_top s"
  "rs_right (snap_border_bottom i s) = rs_right s"
  by (simp_all add: snap_border_bottom_def Let_def)

lemma snap_border_left_keeps [simp]:
  "rs_top (snap_border_left i s) = rs_top s" "rs_right (snap_border_left i s) = rs_right s"
  "rs_bottom (snap_border_left i s) = rs_bottom s"
  by (simp_all add: snap_border_left_def Let_def)

lemma snap_border_right_keeps [simp]:
  "rs_left (snap_border_right i s) = rs_left s" "rs_top (snap_border_right i s) = rs_top s"
  "rs_bottom (snap_border_right i s) = rs_bottom s"
  by (simp_all add: snap_border_right_def Let_def)

lemma snap_window_top_keeps [simp]:
  "rs_left (snap_window_top i e s) = rs_left s" "rs_right (snap_window_top i e s) = rs_right s"
  "rs_bottom (snap_window_top i e s) = rs_bottom s"
  by (simp_all add: snap_window_top_def Let_def)

lemma snap_window_bottom_keeps [simp]:
  "rs_left (snap_window_bottom i e s) = rs_left s" "rs_top (snap_window_bottom i e s) = rs_top s"
  "rs_right (snap_window_bottom i e s) = rs_right s"
  by (simp_all add: snap_window_bottom_def Let_def)

lemma snap_window_left_keeps [simp]:
  "rs_top (snap_window_left i e s) = rs_top s" "rs_right (snap_window_left i e s) = rs_right s"
  "rs_bottom (snap_window_left i e s) = rs_bottom s"
  by (simp_all add: snap_window_left_def Let_def)

lemma snap_window_right_keeps [simp]:
  "rs_left (snap_window_right i e s) = rs_left s" "rs_top (snap_window_right i e s) = rs_top s"
  "rs_bottom (snap_window_right i e s) = rs_bottom s"
  by (simp_all add: snap_window_right_def Let_def)

lemma snap_window_c_top_keeps [simp]:
  "rs_left (snap_window_c_top i e s) = rs_left s" "rs_right (snap_window_c_top i e s) = rs_right s"
  "rs_bottom (snap_window_c_top i e s) = rs_bottom s"
  by (simp_all add: snap_window_c_top_def Let_def)

lemma snap_window_c_bottom_keeps [simp]:
  "rs_left (snap_window_c_bottom i e s) = rs_left s" "rs_top (snap_window_c_bottom i e s) = rs_top s"
  "rs_right (snap_window_c_bottom i e s) = rs_right s"
  by (simp_all add: snap_window_c_bottom_def Let_def)

lemma snap_window_c_left_keeps [simp]:
  "rs_top (snap_window_c_left i e s) = rs_top s" "rs_right (snap_window_c_left i e s) = rs_right s"
  "rs_bottom (snap_window_c_left i e s) = rs_bottom s"
  by (simp_all add: snap_window_c_left_def Let_def)

lemma snap_window_c_right_keeps [simp]:
  "rs_left (snap_window_c_right i e s) = rs_left s" "rs_top (snap_window_c_right i e s) = rs_top s"
  "rs_bottom (snap_window_c_right i e s) = rs_bottom s"
  by (simp_all add: snap_window_c_right_def Let_def)

lemmas drags_defs = drags_left_def drags_right_def drags_top_def drags_bottom_def

lemma resize_borders_keeps:
  "resize_borders i c s = Some s' \<Longrightarrow> only_dragged c (rect_of_snap s) (rect_of_snap s')"
  by (cases c) (auto simp: resize_borders_def only_dragged_def drags_defs rect_of_snap_def)

lemma resize_to_window_keeps:
  "resize_to_window i c e s = Some s' \<Longrightarrow> only_dragged c (rect_of_snap s) (rect_of_snap s')"
  by (cases c) (auto simp: resize_to_window_def only_dragged_def drags_defs rect_of_snap_def)

lemma only_dragged_trans: "only_dragged c a b \<Longrightarrow> only_dragged c b e \<Longrightarrow> only_dragged c a e"
  by (auto simp: only_dragged_def)

lemma only_dragged_refl: "only_dragged c a a"
  by (simp add: only_dragged_def)

lemma resize_loop_keeps:
  "resize_loop d i c vs s = Some s' \<Longrightarrow> only_dragged c (rect_of_snap s) (rect_of_snap s')"
proof (induction vs arbitrary: s)
  case (Cons v vs)
  then obtain t where t: "(if resizes_to d v then resize_to_window i c (outer_edges (g_frame (geo d v))) s
      else Some s) = Some t" "resize_loop d i c vs t = Some s'"
    by (auto simp: bind_eq_Some_conv)
  have "only_dragged c (rect_of_snap s) (rect_of_snap t)"
    using t(1) resize_to_window_keeps only_dragged_refl by (auto split: if_splits)
  then show ?case using Cons.IH [OF t(2)] only_dragged_trans by blast
qed (simp add: only_dragged_refl)

lemma resize_zone_keeps:
  assumes "\<And>s s'. f s = Some s' \<Longrightarrow> only_dragged c (rect_of_snap s) (rect_of_snap s')"
    and "resize_zone zone f s = Some s'"
  shows "only_dragged c (rect_of_snap s) (rect_of_snap s')"
  using assms(2) assms(1) [of "s\<lparr>rs_dx := zone, rs_dy := zone\<rparr>" s'] only_dragged_refl
  by (auto simp: resize_zone_def rect_of_snap_def split: if_splits)

text \<open>C25. Snapping while resizing moves no edge that is not dragged: whatever windows and borders are near,
  the edges the contact does not hold stay where they were asked to be.\<close>

theorem resize_moves_only_dragged_edges:
  assumes "adjust_window_size d w r c = Some r'"
  shows "only_dragged c r r'"
proof (cases "dk_window_snap d = 0 \<and> dk_border_snap d = 0")
  case True
  then show ?thesis using assms by (simp add: adjust_window_size_def only_dragged_refl)
next
  case False
  define i where "i = (let area = resize_area d w in
    \<lparr>ri_limits = \<lparr>lim_left = x1 area, lim_top = y1 area, lim_right = x2 area, lim_bottom = y2 area\<rparr>,
     ri_overlapping = dk_snap_overlapping d, ri_left = x1 r, ri_right = x2 r\<rparr>)"
  define s where "s = \<lparr>rs_left = x1 r, rs_top = y1 r, rs_right = x2 r, rs_bottom = y2 r,
    rs_dx = x2 (resize_area d w), rs_dy = y2 (resize_area d w)\<rparr>"
  have s: "rect_of_snap s = r" by (simp add: s_def rect_of_snap_def)
  have e: "adjust_window_size d w r c =
      map_option rect_of_snap (Option.bind (resize_zone (dk_border_snap d) (resize_borders i c) s)
        (resize_zone (dk_window_snap d) (resize_loop d i c (windows (dk_space d)))))"
    by (simp only: adjust_window_size_def if_not_P [OF False] Let_def i_def s_def)
  from assms [unfolded e] obtain t u where t: "resize_zone (dk_border_snap d) (resize_borders i c) s = Some t"
    and u: "resize_zone (dk_window_snap d) (resize_loop d i c (windows (dk_space d))) t = Some u"
    and r': "r' = rect_of_snap u"
    by (auto simp: bind_eq_Some_conv)
  have "only_dragged c (rect_of_snap s) (rect_of_snap t)"
    by (rule resize_zone_keeps [OF resize_borders_keeps t])
  moreover have "only_dragged c (rect_of_snap t) (rect_of_snap u)"
    by (rule resize_zone_keeps [OF resize_loop_keeps u])
  ultimately show ?thesis using only_dragged_trans s r' by blast
qed

text \<open>Window 2 alone on the first output.\<close>

definition resized_desk :: "int \<Rightarrow> desk" where
  "resized_desk x = plain_desk [2] (\<lambda>_. mk_rect x 100 300 300)"

lemma resized_to_window:
  assumes "rs_top s = 100" "rs_bottom s = 399" "\<not> ri_overlapping i"
  shows "resize_to_window i at_right (outer_edges (mk_rect x 100 300 300)) s =
     Some (if \<bar>x - 1 - rs_right s\<bar> < rs_dx s
           then s\<lparr>rs_dx := \<bar>x - 1 - rs_right s\<bar>, rs_right := x - 1\<rparr> else s)"
proof -
  let ?e = "outer_edges (mk_rect x 100 300 300)"
  have e: "ws_left ?e = x - 1" "ws_top ?e = 99" "ws_bottom ?e = 400"
    by (simp_all add: outer_edges_def mk_rect_def rect_height_def)
  have "snap_window_right i ?e s =
      (if \<bar>x - 1 - rs_right s\<bar> < rs_dx s
       then s\<lparr>rs_dx := \<bar>x - 1 - rs_right s\<bar>, rs_right := x - 1\<rparr> else s)" (is "_ = ?s")
    using assms by (simp add: snap_window_right_def if_over_def within_height_def e)
  moreover have "snap_window_c_right i ?e ?s = ?s"
    using assms by (simp add: snap_window_c_right_def above_or_below_def e)
  ultimately show ?thesis by (simp only: resize_to_window_def contact.case)
qed

lemma resized_desk_snap:
  assumes "y1 r = 100" "y2 r = 399"
  shows "adjust_window_size (resized_desk x) 2 r at_right =
     Some (let s = (if \<bar>999 - x2 r\<bar> < 10 then set_right 999 r else r)
           in if \<bar>x - 1 - x2 s\<bar> < 10 then set_right (x - 1) s else s)"
proof -
  have area: "resize_area (resized_desk x) 2 = mk_rect 0 0 1000 800"
    by (simp add: resize_area_def resized_desk_def space_window_area_point_def get_nearest_output_def
        two_outputs_def contains_point_def space_window_area_output_def Let_def rect_defs rect_center_def
        signed_divide_int_def)
  have "resizes_to (resized_desk x) 2"
    by (simp add: resized_desk_def resizes_to_def plain_control_def on_subspace_ptr_def
        on_all_subspaces_def split: option.splits)
  then have loop: "resize_loop (resized_desk x) i at_right [2] s
      = resize_to_window i at_right (outer_edges (mk_rect x 100 300 300)) s" for i s
    by (cases "resize_to_window i at_right (outer_edges (mk_rect x 100 300 300)) s")
      (simp_all add: resized_desk_def)
  have opts: "dk_border_snap (resized_desk x) = 10" "dk_window_snap (resized_desk x) = 10"
      "dk_snap_overlapping (resized_desk x) = False" "windows (dk_space (resized_desk x)) = [2]"
    by (simp_all add: resized_desk_def)
  have edges: "x2 (mk_rect 0 0 1000 800) = 999" by (simp add: mk_rect_def)
  show ?thesis
    using assms
    by (cases r)
      (simp add: adjust_window_size_def area opts edges loop resize_zone_def resize_borders_def
        snap_border_right_def if_over_def Let_def resized_to_window rect_of_snap_def set_right_def
        del: resize_loop.simps)
qed

theorem resize_moves_only_dragged_edges_witness:
  "only_dragged at_right (mk_rect 600 100 395 300) (mk_rect 600 100 400 300)"
  by (rule resize_moves_only_dragged_edges [of "resized_desk 600" 2])
    (simp add: resized_desk_snap rect_defs)

text \<open>The borders a resized window snaps to are those of the output at the origin: on the second
  output a right edge four pixels from the border of its output is left alone, and one four pixels
  from the border of the first output is not.\<close>

theorem resize_snaps_to_the_first_output:
  "adjust_window_size (resized_desk 1200) 2 (mk_rect 1200 100 796 300) at_right
     = Some (mk_rect 1200 100 796 300)
   \<and> adjust_window_size (resized_desk 600) 2 (mk_rect 600 100 396 300) at_right
     = Some (mk_rect 600 100 400 300)"
  by (simp add: resized_desk_snap rect_defs)

text \<open>Nor is the window itself left out of those it snaps to: dragged to less than ten pixels, its right
  edge snaps to its own left edge, and it has no width left.\<close>

theorem resize_snaps_to_the_window_itself:
  "adjust_window_size (resized_desk 200) 2 (mk_rect 200 100 8 300) at_right = Some (mk_rect 200 100 0 300)"
  by (simp add: resized_desk_snap rect_defs)

end
