(* ===== verification/Maximize_Props.thy ===== *)
theory Maximize_Props
  imports Maximize
begin

text \<open>
  Maximizing and restoring: what each operation of Maximize does to the frame, the mode, the restore
  geometry and the quick tiling of a window without rules.
\<close>

section \<open>The windows the results are about\<close>

text \<open>\<open>plain_max d w r\<close>: the window has no rules, is not fullscreen and not being moved, may be resized,
  and the size of \<open>r\<close> agrees with the sizes the client asks for.\<close>

definition plain_max :: "desk \<Rightarrow> wid \<Rightarrow> rect \<Rightarrow> bool" where
  "plain_max d w r \<longleftrightarrow>
     g_rules (geo d w) = [] \<and> \<not> g_update_fullscreen (geo d w) \<and> \<not> is_move (geo d w)
     \<and> \<not> dk_borderless_maximized d \<and> isResizable d w \<and> \<not> is_toolbar (dwin d w)
     \<and> adjusted_frame_size d w (rect_extent r) = rect_extent r \<and> rect_valid r"

text \<open>The frame, the mode, the restore geometry and the quick tiling.\<close>

type_synonym max_view = "rect \<times> flag \<times> rect \<times> flag"

definition max_view :: "desk \<Rightarrow> wid \<Rightarrow> max_view" where
  "max_view d w = (g_update_frame (geo d w), g_update_max (geo d w), g_restore (geo d w), g_quicktiling (geo d w))"

definition keeps_plain :: "(win_geo \<Rightarrow> win_geo) \<Rightarrow> bool" where
  "keeps_plain f \<longleftrightarrow>
     (\<forall>g. g_rules (f g) = g_rules g \<and> g_update_fullscreen (f g) = g_update_fullscreen g
          \<and> g_move (f g) = g_move g \<and> g_margins (f g) = g_margins g \<and> g_min_hint (f g) = g_min_hint g
          \<and> g_max_hint (f g) = g_max_hint g \<and> g_layer (f g) = g_layer g \<and> g_plasma (f g) = g_plasma g)"

lemma size_hints_update:
  assumes "keeps_plain f"
  shows "min_size_of (update_geo w f d) w = min_size_of d w" "max_size_of (update_geo w f d) w = max_size_of d w"
  using assms by (simp_all add: min_size_of_def max_size_of_def keeps_plain_def)

lemma adjusted_update:
  "keeps_plain f \<Longrightarrow> adjusted_frame_size (update_geo w f d) w s = adjusted_frame_size d w s"
  by (simp add: adjusted_frame_size_def size_hints_update) (simp add: keeps_plain_def)

lemma resizable_update: "keeps_plain f \<Longrightarrow> isResizable (update_geo w f d) w = isResizable d w"
  by (simp add: isResizable_def size_hints_update split: option.split) (simp add: keeps_plain_def)

lemma plain_max_update [simp]:
  "keeps_plain f \<Longrightarrow> plain_max (update_geo w f d) w r = plain_max d w r"
  by (simp add: plain_max_def adjusted_update resizable_update is_move_def)
    (simp add: keeps_plain_def update_geo_def)

lemma keeps_plain_fields [simp]:
  "keeps_plain (\<lambda>g. g_frame_update (f0 g) g)"
  "keeps_plain (\<lambda>g. g_block_update (f1 g) g)"
  "keeps_plain (\<lambda>g. g_pending_update (f2 g) g)"
  "keeps_plain (\<lambda>g. g_update_frame_update (f3 g) g)"
  "keeps_plain (\<lambda>g. g_update_max_update (f4 g) g)"
  "keeps_plain (\<lambda>g. g_restore_update (f5 g) g)"
  "keeps_plain (\<lambda>g. g_quicktiling_update (f6 g) g)"
  by (simp_all add: keeps_plain_def)

lemma emit_sizes [simp]:
  "dk_geo (geo_emit s d) = dk_geo d" "dk_space (geo_emit s d) = dk_space d"
  "dk_borderless_maximized (geo_emit s d) = dk_borderless_maximized d"
  "dk_rulings (geo_emit s d) = dk_rulings d"
  by (simp_all add: geo_emit_def)

lemma emit_hints [simp]:
  "min_size_of (geo_emit s d) w = min_size_of d w" "max_size_of (geo_emit s d) w = max_size_of d w"
  by (simp_all add: min_size_of_def max_size_of_def)

lemma plain_max_emit [simp]: "plain_max (geo_emit s d) w r = plain_max d w r"
proof -
  have "adjusted_frame_size (geo_emit s d) w x = adjusted_frame_size d w x" for x
    by (simp add: adjusted_frame_size_def)
  moreover have "isResizable (geo_emit s d) w = isResizable d w"
    by (simp add: isResizable_def split: option.split)
  ultimately show ?thesis by (simp add: plain_max_def)
qed

lemma max_view_emit [simp]: "max_view (geo_emit s d) w = max_view d w"
  by (simp add: max_view_def geo_emit_def)

lemma no_rules_geometry: "g_rules (geo d w) = [] \<Longrightarrow> ruled_geometry d w r = r"
  by (cases r) (simp add: ruled_geometry_def checkGeometry_def checkPosition_def checkSize_def
      check_set_def rect_defs)

lemma adjusted_size_components:
  assumes "adjusted_frame_size d w s = s"
  shows "fst (adjusted_frame_size d w (fst s, h)) = fst s" "snd (adjusted_frame_size d w (k, snd s)) = snd s"
  using assms by (auto simp: adjusted_frame_size_def Let_def bounded_to_def expanded_to_def prod_eq_iff)

section \<open>The operations\<close>

lemma setFrame_plain [simp]: "plain_max d w r \<Longrightarrow> plain_max (setFrameGeometry w s d) w r"
  by (simp add: setFrameGeometry_def Let_def)

lemma setFrame_view:
  assumes "plain_max d w r"
  shows "max_view (setFrameGeometry w s d) w = (s, snd (max_view d w))"
  using assms no_rules_geometry [of d w s] by (simp add: setFrameGeometry_def Let_def max_view_def plain_max_def)

lemma block_plain [simp]: "plain_max d w r \<Longrightarrow> plain_max (block_geometry_updates w b d) w r"
  by (simp add: block_geometry_updates_def Let_def)

lemma block_view:
  assumes "plain_max d w r"
  shows "max_view (block_geometry_updates w b d) w = max_view d w"
proof -
  have e: "max_view (update_geo w (\<lambda>g. g_block_update (f g) g) d) w = max_view d w" for f
    by (simp add: max_view_def)
  have "plain_max (update_geo w (\<lambda>g. g_block_update (f g) g) d) w r" for f using assms by simp
  from setFrame_view [OF this] show ?thesis
    using assms by (simp add: block_geometry_updates_def Let_def e) (simp add: max_view_def)
qed

lemma no_border_off: "plain_max d w r \<Longrightarrow> update_no_border w d = d"
  by (simp add: update_no_border_def plain_max_def)

lemma set_restore_plain [simp]: "plain_max d w r \<Longrightarrow> plain_max (set_restore_geometry w s d) w r"
  by (simp add: set_restore_geometry_def)

lemma set_restore_view:
  assumes "plain_max d w r" "max_view d w = (u, m, rs, q)"
  shows "max_view (set_restore_geometry w s d) w = (u, m, if q = quick_none then s else rs, q)"
  using assms by (auto simp: set_restore_geometry_def plain_max_def max_view_def)

lemma set_mode_view:
  "max_view (update_geo w (\<lambda>g. g\<lparr>g_update_max := f (g_update_max g)\<rparr>) d) w =
     (case max_view d w of (u, m, rs, q) \<Rightarrow> (u, f m, rs, q))"
  by (simp add: max_view_def)

text \<open>The steps that maximize_vertically and maximize_horizontally share.\<close>

lemma maximize_steps:
  fixes s f
  assumes "plain_max d w r" "max_view d w = (u, m, rs, q)"
  defines "d' \<equiv> block_geometry_updates w False (set_restore_geometry w u (update_no_border w
             (update_geo w (\<lambda>g. g\<lparr>g_update_max := flag_or (g_update_max g) f\<rparr>)
               (setFrameGeometry w s (block_geometry_updates w True d)))))"
  shows "plain_max d' w r" "max_view d' w = (s, flag_or m f, if q = quick_none then u else rs, q)"
proof -
  define a where "a = block_geometry_updates w True d"
  define b where "b = setFrameGeometry w s a"
  define c where "c = update_geo w (\<lambda>g. g\<lparr>g_update_max := flag_or (g_update_max g) f\<rparr>) b"
  have a: "plain_max a w r" "max_view a w = (u, m, rs, q)"
    using assms(1,2) block_view [OF assms(1)] by (simp_all add: a_def)
  have b: "plain_max b w r" "max_view b w = (s, m, rs, q)"
    using a setFrame_view [OF a(1)] by (simp_all add: b_def)
  have c: "plain_max c w r" "max_view c w = (s, flag_or m f, rs, q)"
    using b set_mode_view [of w "\<lambda>x. flag_or x f" b] by (simp_all add: c_def)
  have e: "plain_max (set_restore_geometry w u c) w r"
      "max_view (set_restore_geometry w u c) w = (s, flag_or m f, if q = quick_none then u else rs, q)"
    using c set_restore_view [OF c] by simp_all
  show "plain_max d' w r" "max_view d' w = (s, flag_or m f, if q = quick_none then u else rs, q)"
    using e block_view [OF e(1)] no_border_off [OF c(1)]
    by (simp_all add: d'_def a_def [symmetric] b_def [symmetric] c_def [symmetric])
qed

lemma no_rules_position: "plain_max d w r \<Longrightarrow> ruled_position d w p = p"
  by (simp add: ruled_position_def plain_max_def checkPosition_def check_set_def)

lemma maximize_vertically_view:
  assumes "plain_max d w r" "max_view d w = (u, m, rs, q)"
  shows "plain_max (maximize_vertically w d) w r"
    and "\<exists>v. max_view (maximize_vertically w d) w = (v, flag_or m maximize_vertical, if q = quick_none then u else rs, q)
             \<and> (x1 u = x1 r \<and> x2 u = x2 r \<longrightarrow> x1 v = x1 r \<and> x2 v = x2 r)"
proof -
  let ?area = "get_maximizing_area d w"
  let ?s = "frame_of (x1 u, y1 ?area) (adjusted_frame_size d w (rect_width u, rect_height ?area))"
  have u: "g_update_frame (geo d w) = u" using assms(2) by (simp add: max_view_def)
  have e: "maximize_vertically w d =
      block_geometry_updates w False (set_restore_geometry w u (update_no_border w
        (update_geo w (\<lambda>g. g\<lparr>g_update_max := flag_or (g_update_max g) maximize_vertical\<rparr>)
          (setFrameGeometry w ?s (block_geometry_updates w True d)))))"
    using no_rules_position [OF assms(1)] by (simp add: maximize_vertically_def Let_def u)
  have "adjusted_frame_size d w (rect_extent r) = rect_extent r"
    using assms(1) by (simp add: plain_max_def)
  then have same: "rect_width u = rect_width r \<Longrightarrow> fst (adjusted_frame_size d w (rect_width u, h)) = rect_width r" for h
    using adjusted_size_components(1) [of d w "rect_extent r" h] by (simp add: rect_extent_def)
  have edges: "x1 u = x1 r \<and> x2 u = x2 r \<longrightarrow> x1 ?s = x1 r \<and> x2 ?s = x2 r"
    using same by (auto simp: frame_of_def mk_rect_def rect_width_def)
  show "plain_max (maximize_vertically w d) w r"
    unfolding e by (rule maximize_steps(1) [OF assms])
  show "\<exists>v. max_view (maximize_vertically w d) w = (v, flag_or m maximize_vertical, if q = quick_none then u else rs, q)
             \<and> (x1 u = x1 r \<and> x2 u = x2 r \<longrightarrow> x1 v = x1 r \<and> x2 v = x2 r)"
    unfolding e using maximize_steps(2) [OF assms, where s = ?s and f = maximize_vertical] edges by blast
qed

lemma maximize_horizontally_view:
  assumes "plain_max d w r" "max_view d w = (u, m, rs, q)"
  shows "plain_max (maximize_horizontally w d) w r"
    and "\<exists>v. max_view (maximize_horizontally w d) w = (v, flag_or m maximize_horizontal, if q = quick_none then u else rs, q)
             \<and> (y1 u = y1 r \<and> y2 u = y2 r \<longrightarrow> y1 v = y1 r \<and> y2 v = y2 r)"
proof -
  let ?area = "get_maximizing_area d w"
  let ?s = "frame_of (x1 ?area, y1 u) (adjusted_frame_size d w (rect_width ?area, rect_height u))"
  have u: "g_update_frame (geo d w) = u" using assms(2) by (simp add: max_view_def)
  have e: "maximize_horizontally w d =
      block_geometry_updates w False (set_restore_geometry w u (update_no_border w
        (update_geo w (\<lambda>g. g\<lparr>g_update_max := flag_or (g_update_max g) maximize_horizontal\<rparr>)
          (setFrameGeometry w ?s (block_geometry_updates w True d)))))"
    using no_rules_position [OF assms(1)] by (simp add: maximize_horizontally_def Let_def u)
  have "adjusted_frame_size d w (rect_extent r) = rect_extent r"
    using assms(1) by (simp add: plain_max_def)
  then have same: "rect_height u = rect_height r \<Longrightarrow> snd (adjusted_frame_size d w (h, rect_height u)) = rect_height r" for h
    using adjusted_size_components(2) [of d w "rect_extent r" h] by (simp add: rect_extent_def)
  have edges: "y1 u = y1 r \<and> y2 u = y2 r \<longrightarrow> y1 ?s = y1 r \<and> y2 ?s = y2 r"
    using same by (auto simp: frame_of_def mk_rect_def rect_height_def)
  show "plain_max (maximize_horizontally w d) w r"
    unfolding e by (rule maximize_steps(1) [OF assms])
  show "\<exists>v. max_view (maximize_horizontally w d) w = (v, flag_or m maximize_horizontal, if q = quick_none then u else rs, q)
             \<and> (y1 u = y1 r \<and> y2 u = y2 r \<longrightarrow> y1 v = y1 r \<and> y2 v = y2 r)"
    unfolding e using maximize_steps(2) [OF assms, where s = ?s and f = maximize_horizontal] edges by blast
qed

text \<open>Restoring with a restore geometry that makes a valid frame.\<close>

lemma maximize_restore_view:
  assumes "plain_max d w r" "max_view d w = (u, m, rs, q)" "rect_valid (final_restore_geometry m rs u)"
  shows "\<exists>d'. maximize_restore_win w d = Some d' \<and> plain_max d' w r
              \<and> max_view d' w = (final_restore_geometry m rs u, maximize_restore,
                                 if q = quick_none then null_rect else rs, q)"
proof -
  let ?f = "final_restore_geometry m rs u"
  have f: "final_restore_geometry (g_update_max (geo d w)) (g_restore (geo d w)) (g_update_frame (geo d w)) = ?f"
    using assms(2) by (simp add: max_view_def)
  define a where "a = block_geometry_updates w True d"
  define b where "b = setFrameGeometry w ?f a"
  define c where "c = update_geo w (\<lambda>g. g\<lparr>g_update_max := maximize_restore\<rparr>) b"
  have a: "plain_max a w r" "max_view a w = (u, m, rs, q)"
    using assms(1,2) block_view [OF assms(1)] by (simp_all add: a_def)
  have b: "plain_max b w r" "max_view b w = (?f, m, rs, q)"
    using a setFrame_view [OF a(1)] by (simp_all add: b_def)
  have c: "plain_max c w r" "max_view c w = (?f, maximize_restore, rs, q)"
    using b set_mode_view [of w "\<lambda>x. maximize_restore" b] by (simp_all add: c_def)
  have e: "plain_max (set_restore_geometry w null_rect c) w r"
      "max_view (set_restore_geometry w null_rect c) w
         = (?f, maximize_restore, if q = quick_none then null_rect else rs, q)"
    using c set_restore_view [OF c] by simp_all
  have "apply_restore_geometry w ?f a = Some b"
    using assms(3) by (simp add: apply_restore_geometry_def rectify_restore_geometry_def b_def)
  then have "maximize_restore_win w d
      = Some (block_geometry_updates w False (set_restore_geometry w null_rect c))"
    using no_border_off [OF c(1)]
    by (simp add: maximize_restore_win_def f Let_def a_def [symmetric] c_def [symmetric])
  then show ?thesis using e block_view [OF e(1)] by simp
qed

end
