(* ===== verification/Maximize_Theorems.thy ===== *)
theory Maximize_Theorems
  imports Maximize_Props Example_Desk
begin

text \<open>
  Whatever maximizations a window goes through, restoring it gives back the frame it had.
\<close>

section \<open>The invariant of a window that was maximized\<close>




lemma quick_maximize_not_none [simp]: "quick_maximize \<noteq> quick_none"
  by (simp add: quick_maximize_def quick_none_def quick_left_def quick_right_def quick_top_def
      quick_bottom_def flag_defs)




section \<open>The change of the mode\<close>










section \<open>The theorem\<close>





end
