(* ===== verification/Space_Areas.thy ===== *)
theory Space_Areas
  imports Geo_Restrict
begin

text \<open>
  The areas of the subspaces: space_areas.h, space_areas_helpers.h, wayland/space_areas.h and the loop
  over the windows in wayland/space.h. The lists have an entry for 0 that is not used.
\<close>

record space_areas =
  sa_work :: "rect list"
  sa_restrictedmove :: "(rect \<times> flag) list list"
  sa_screen :: "rect list list"

definition strut_invalid :: flag where "strut_invalid = 0"

section \<open>What a panel takes (wayland/space_areas.h)\<close>

definition no_margins :: margins where
  "no_margins = \<lparr>m_left = 0, m_top = 0, m_right = 0, m_bottom = 0\<rparr>"

text \<open>A panel that borders a geometry takes its width at the left and right and its height at the top
  and bottom; in a corner its longer side says which.\<close>

definition panel_margins :: "rect \<Rightarrow> rect \<Rightarrow> margins" where
  "panel_margins frame geometry =
     (if \<not> intersects geometry frame then no_margins
      else
        let l = (x1 frame = x1 geometry); r = (x2 frame = x2 geometry);
            t = (y1 frame = y1 geometry); b = (y2 frame = y2 geometry);
            horizontal = rect_width frame \<ge> rect_height frame
        in \<lparr>m_left = if l \<and> (\<not> t \<and> \<not> b \<or> \<not> horizontal) then rect_width frame else 0,
            m_top = if t \<and> (\<not> l \<and> \<not> r \<or> horizontal) then rect_height frame else 0,
            m_right = if r \<and> (\<not> t \<and> \<not> b \<or> \<not> horizontal) then rect_width frame else 0,
            m_bottom = if b \<and> (\<not> l \<and> \<not> r \<or> horizontal) then rect_height frame else 0\<rparr>)"

definition margins_to_strut_area :: "margins \<Rightarrow> flag" where
  "margins_to_strut_area m =
     (if m_left m \<noteq> 0 then strut_left
      else if m_right m \<noteq> 0 then strut_right
      else if m_top m \<noteq> 0 then strut_top
      else if m_bottom m \<noteq> 0 then strut_bottom
      else strut_invalid)"

text \<open>The areas of one subspace without the panel.\<close>

definition take_from_subspace ::
    "rect \<Rightarrow> rect list \<Rightarrow> rect \<Rightarrow> rect \<times> flag \<Rightarrow> nat \<Rightarrow> space_areas \<Rightarrow> space_areas" where
  "take_from_subspace frame screens_geos work strut sub a =
     a\<lparr>sa_work := (sa_work a)[sub := intersected (sa_work a ! sub) work],
       sa_screen := (sa_screen a)[sub := map2 (\<lambda>area g. intersected area (remove_margins (panel_margins frame g) g))
                                           (sa_screen a ! sub) screens_geos],
       sa_restrictedmove := (sa_restrictedmove a)[sub := sa_restrictedmove a ! sub @ [strut]]\<rparr>"

definition window_space_areas :: "desk \<Rightarrow> rect \<Rightarrow> rect list \<Rightarrow> wid \<Rightarrow> space_areas \<Rightarrow> space_areas" where
  "window_space_areas d desktop_area screens_geos w a =
     (if \<not> g_strut (geo d w) then a
      else
        let frame = g_frame (geo d w);
            n = length (subspaces (subspace_manager (dk_space d)));
            strut = panel_margins frame (case central_output (dwin d w) of
                                           None \<Rightarrow> null_rect | Some i \<Rightarrow> dk_outputs d ! i);
            strut_rect = (frame, margins_to_strut_area strut);
            all = mk_rect 0 0 (fst (dk_topology d)) (snd (dk_topology d));
            work = remove_margins (panel_margins frame all) desktop_area
        in if on_all_subspaces (dk_space d) w
           then fold (take_from_subspace frame screens_geos work strut_rect) [1..<Suc n] a
           else take_from_subspace frame screens_geos work strut_rect
                  (nat (get_subspace (dk_space d) w)) a)"

definition update_space_area_from_windows :: "desk \<Rightarrow> rect \<Rightarrow> rect list \<Rightarrow> space_areas \<Rightarrow> space_areas" where
  "update_space_area_from_windows d desktop_area screens_geos a =
     fold (\<lambda>w a. if win_class (dwin d w) = Wayland_Window
                 then window_space_areas d desktop_area screens_geos w a else a)
       (windows (dk_space d)) a"

section \<open>The new areas (space_areas_helpers.h)\<close>

definition empty_areas :: "nat \<Rightarrow> space_areas" where
  "empty_areas n =
     \<lparr>sa_work = replicate n null_rect, sa_restrictedmove = replicate n [],
      sa_screen = replicate n []\<rparr>"

definition new_space_areas :: "desk \<Rightarrow> space_areas" where
  "new_space_areas d =
     (let screens_geos = dk_outputs d;
          desktops_count = length (subspaces (subspace_manager (dk_space d)));
          desktop_area = fold (\<lambda>g area. united area g) (dk_outputs d) null_rect;
          a = fold (\<lambda>desktop a. a\<lparr>sa_work := (sa_work a)[desktop := desktop_area],
                                  sa_screen := (sa_screen a)[desktop := screens_geos]\<rparr>)
                [1..<Suc desktops_count] (empty_areas (desktops_count + 1))
      in update_space_area_from_windows d desktop_area screens_geos a)"

text \<open>The comparison of the struts is that of their rectangles.\<close>

definition areas_changed :: "desk \<Rightarrow> space_areas \<Rightarrow> bool" where
  "areas_changed d a \<longleftrightarrow>
     dk_screen d = []
     \<or> list_ex (\<lambda>k. dk_work d ! k \<noteq> sa_work a ! k
                    \<or> map fst (dk_struts d ! k) \<noteq> map fst (sa_restrictedmove a ! k)
                    \<or> dk_screen d ! k \<noteq> sa_screen a ! k)
         [1..<Suc (length (subspaces (subspace_manager (dk_space d))))]"

definition check_all_windows :: "desk \<Rightarrow> desk option" where
  "check_all_windows d =
     fold (\<lambda>w r. Option.bind r (\<lambda>d. if win_control (dwin d w) \<noteq> None
                                  then check_workspace_position w null_rect (-2) null_rect d else Some d))
       (windows (dk_space d)) (Some d)"

definition update_space_areas_impl :: "bool \<Rightarrow> desk \<Rightarrow> desk option" where
  "update_space_areas_impl force d =
     (let a = new_space_areas d
      in if force \<or> areas_changed d a
         then map_option (\<lambda>d. d\<lparr>dk_old_struts := []\<rparr>)
                (check_all_windows
                   (d\<lparr>dk_old_struts := dk_struts d, dk_work := sa_work a,
                      dk_struts := sa_restrictedmove a, dk_screen := sa_screen a\<rparr>))
         else Some d)"

definition update_space_areas :: "desk \<Rightarrow> desk option" where
  "update_space_areas d = update_space_areas_impl False d"

definition reset_space_areas :: "nat \<Rightarrow> desk \<Rightarrow> desk option" where
  "reset_space_areas desktop_count d =
     update_space_areas_impl True
       (d\<lparr>dk_work := replicate (desktop_count + 1) null_rect,
          dk_struts := replicate (desktop_count + 1) [], dk_screen := []\<rparr>)"

end
