(* ===== verification/Space_Areas_Theorems.thy ===== *)
theory Space_Areas_Theorems
  imports Space_Areas Example_Desk
begin

text \<open>
  The areas of the screens leave out the panels, with a witness on the desk of Example_Desk.
\<close>

section \<open>Intersections\<close>

lemma contains_intersected:
  "contains_point (intersected a b) p \<Longrightarrow> contains_point a p \<and> contains_point b p"
  by (auto simp: intersected_def intersects_def contains_point_def null_rect_def span_def Let_def
      max_def min_def split: if_splits)

lemma panel_margins_off:
  assumes "panel_margins frame g \<noteq> no_margins" "rect_valid frame"
    and "rect_valid (remove_margins (panel_margins frame g) g)"
    and "contains_point (remove_margins (panel_margins frame g) g) p"
  shows "contains_point g p" "\<not> contains_point frame p"
proof -
  let ?m = "panel_margins frame g"
  have pos: "0 \<le> m_left ?m" "0 \<le> m_right ?m" "0 \<le> m_top ?m" "0 \<le> m_bottom ?m"
    using assms(2) by (auto simp: panel_margins_def no_margins_def Let_def rect_valid_def rect_width_def
        rect_height_def)
  have p: "x1 g + m_left ?m \<le> fst p" "fst p \<le> x2 g - m_right ?m" "y1 g + m_top ?m \<le> snd p"
      "snd p \<le> y2 g - m_bottom ?m"
    using assms(3,4) by (auto simp: remove_margins_def adjusted_def contains_point_def rect_valid_def)
  show "contains_point g p"
    using p pos by (auto simp: contains_point_def span_def)
  show "\<not> contains_point frame p"
    using p assms(1,2)
    by (auto simp: panel_margins_def no_margins_def Let_def contains_point_def rect_valid_def
        rect_width_def rect_height_def split: if_splits)
qed

section \<open>The areas only shrink\<close>

text \<open>The lists have the lengths of the subspaces and of the outputs.\<close>

definition areas_shaped :: "nat \<Rightarrow> nat \<Rightarrow> space_areas \<Rightarrow> bool" where
  "areas_shaped n m a \<longleftrightarrow>
     length (sa_screen a) = Suc n \<and> (\<forall>k. 1 \<le> k \<longrightarrow> k \<le> n \<longrightarrow> length (sa_screen a ! k) = m)"

definition area_at :: "space_areas \<Rightarrow> nat \<Rightarrow> nat \<Rightarrow> rect" where
  "area_at a k i = sa_screen a ! k ! i"

lemma nth_update_if: "xs[i := x] ! j = (if i = j \<and> j < length xs then x else xs ! j)"
  by (cases "i < length xs") (auto simp: nth_list_update not_less list_update_beyond)

lemma take_screen:
  "sa_screen (take_from_subspace frame gs work s sub a) ! k =
     (if sub = k \<and> k < length (sa_screen a)
      then map2 (\<lambda>area g. intersected area (remove_margins (panel_margins frame g) g)) (sa_screen a ! k) gs
      else sa_screen a ! k)"
  by (simp add: take_from_subspace_def nth_update_if)

lemma take_shaped:
  assumes "areas_shaped n (length gs) a"
  shows "areas_shaped n (length gs) (take_from_subspace frame gs work s sub a)"
  using assms by (simp add: areas_shaped_def take_screen) (simp add: take_from_subspace_def)

lemma take_shrinks:
  assumes "areas_shaped n (length gs) a" "1 \<le> k" "k \<le> n" "i < length gs"
    and "contains_point (area_at (take_from_subspace frame gs work s sub a) k i) p"
  shows "contains_point (area_at a k i) p"
    and "sub = k \<Longrightarrow> contains_point (remove_margins (panel_margins frame (gs ! i)) (gs ! i)) p"
proof -
  have len: "k < length (sa_screen a)" "length (sa_screen a ! k) = length gs"
    using assms(1-3) by (auto simp: areas_shaped_def)
  have e: "area_at (take_from_subspace frame gs work s sub a) k i =
      (if sub = k then intersected (area_at a k i) (remove_margins (panel_margins frame (gs ! i)) (gs ! i))
       else area_at a k i)"
    using len assms(4) by (simp add: area_at_def take_screen)
  show "contains_point (area_at a k i) p"
    "sub = k \<Longrightarrow> contains_point (remove_margins (panel_margins frame (gs ! i)) (gs ! i)) p"
    using assms(5) unfolding e by (auto dest: contains_intersected split: if_splits)
qed

lemma fold_take:
  assumes "areas_shaped n (length gs) a" "1 \<le> k" "k \<le> n" "i < length gs"
  shows "areas_shaped n (length gs) (fold (take_from_subspace frame gs work s) subs a)
         \<and> (contains_point (area_at (fold (take_from_subspace frame gs work s) subs a) k i) p
            \<longrightarrow> contains_point (area_at a k i) p
                \<and> (k \<in> set subs \<longrightarrow> contains_point (remove_margins (panel_margins frame (gs ! i)) (gs ! i)) p))"
  using assms(1)
proof (induction subs arbitrary: a)
  case (Cons sub subs)
  let ?a = "take_from_subspace frame gs work s sub a"
  have "areas_shaped n (length gs) ?a" by (rule take_shaped [OF Cons.prems])
  then show ?case
    using Cons.IH [of ?a] take_shrinks [OF Cons.prems assms(2-4), of frame work s sub p] by auto
qed simp

text \<open>Whether the panel of a window counts on a subspace.\<close>

definition panel_on :: "desk \<Rightarrow> wid \<Rightarrow> nat \<Rightarrow> bool" where
  "panel_on d w k \<longleftrightarrow>
     win_class (dwin d w) = Wayland_Window \<and> g_strut (geo d w)
     \<and> (on_all_subspaces (dk_space d) w \<or> get_subspace (dk_space d) w = int k)"

lemma window_step:
  fixes d work
  defines "n \<equiv> length (subspaces (subspace_manager (dk_space d)))"
  assumes "areas_shaped n (length gs) a" "1 \<le> k" "k \<le> n" "i < length gs"
  shows "areas_shaped n (length gs) (window_space_areas d work gs w a)
         \<and> (contains_point (area_at (window_space_areas d work gs w a) k i) p
            \<longrightarrow> contains_point (area_at a k i) p
                \<and> (panel_on d w k \<longrightarrow>
                   contains_point (remove_margins (panel_margins (g_frame (geo d w)) (gs ! i)) (gs ! i)) p))"
proof (cases "g_strut (geo d w)")
  case False
  then show ?thesis using assms(2) by (simp add: window_space_areas_def panel_on_def)
next
  case True
  let ?subs = "if on_all_subspaces (dk_space d) w then [1..<Suc n] else [nat (get_subspace (dk_space d) w)]"
  define wk where "wk = remove_margins (panel_margins (g_frame (geo d w))
      (mk_rect 0 0 (fst (dk_topology d)) (snd (dk_topology d)))) work"
  define s where "s = (g_frame (geo d w), margins_to_strut_area (panel_margins (g_frame (geo d w))
      (case central_output (dwin d w) of None \<Rightarrow> null_rect | Some i \<Rightarrow> dk_outputs d ! i)))"
  have e: "window_space_areas d work gs w a = fold (take_from_subspace (g_frame (geo d w)) gs wk s) ?subs a"
    using True by (simp add: window_space_areas_def Let_def n_def wk_def s_def)
  have "panel_on d w k \<Longrightarrow> k \<in> set ?subs"
    using assms(3,4) by (auto simp: panel_on_def)
  then show ?thesis
    unfolding e using fold_take [OF assms(2-5), of "g_frame (geo d w)" wk s ?subs p] by auto
qed

lemma windows_step:
  fixes d work
  defines "n \<equiv> length (subspaces (subspace_manager (dk_space d)))"
  assumes "areas_shaped n (length gs) a" "1 \<le> k" "k \<le> n" "i < length gs"
  defines "f \<equiv> \<lambda>w a. if win_class (dwin d w) = Wayland_Window then window_space_areas d work gs w a else a"
  shows "contains_point (area_at (fold f ws a) k i) p
         \<Longrightarrow> contains_point (area_at a k i) p
             \<and> (\<forall>w \<in> set ws. panel_on d w k \<longrightarrow>
                  contains_point (remove_margins (panel_margins (g_frame (geo d w)) (gs ! i)) (gs ! i)) p)"
  using assms(2)
proof (induction ws arbitrary: a)
  case (Cons w ws)
  have step: "areas_shaped n (length gs) (f w a)"
      "contains_point (area_at (f w a) k i) p \<longrightarrow> contains_point (area_at a k i) p
         \<and> (panel_on d w k \<longrightarrow>
            contains_point (remove_margins (panel_margins (g_frame (geo d w)) (gs ! i)) (gs ! i)) p)"
    using window_step [of d gs a k i work w p] Cons.prems(2) assms(3-5)
    by (auto simp: f_def n_def panel_on_def)
  then show ?case using Cons.IH [OF _ step(1)] Cons.prems(1) by auto
qed simp

lemma start_shaped:
  fixes d n area
  defines "f \<equiv> \<lambda>desktop a. a\<lparr>sa_work := (sa_work a)[desktop := area],
                               sa_screen := (sa_screen a)[desktop := dk_outputs d]\<rparr>"
  shows "areas_shaped n (length (dk_outputs d)) (fold f [1..<Suc n] (empty_areas (n + 1)))"
    and "1 \<le> k \<Longrightarrow> k \<le> n \<Longrightarrow> sa_screen (fold f [1..<Suc n] (empty_areas (n + 1))) ! k = dk_outputs d"
proof -
  have len: "length (sa_screen (fold f ks a)) = length (sa_screen a)" for ks a
    by (induction ks arbitrary: a) (simp_all add: f_def)
  have at: "k \<in> set ks \<or> sa_screen a ! k = dk_outputs d \<Longrightarrow> k < length (sa_screen a)
      \<Longrightarrow> sa_screen (fold f ks a) ! k = dk_outputs d" for ks a k
    by (induction ks arbitrary: a) (auto simp: f_def nth_update_if)
  have k: "1 \<le> k \<Longrightarrow> k \<le> n \<Longrightarrow> sa_screen (fold f [1..<Suc n] (empty_areas (n + 1))) ! k = dk_outputs d" for k
    by (rule at) (auto simp: empty_areas_def)
  then show "1 \<le> k \<Longrightarrow> k \<le> n \<Longrightarrow> sa_screen (fold f [1..<Suc n] (empty_areas (n + 1))) ! k = dk_outputs d" .
  show "areas_shaped n (length (dk_outputs d)) (fold f [1..<Suc n] (empty_areas (n + 1)))"
    using k by (simp add: areas_shaped_def len empty_areas_def)
qed

section \<open>The theorem\<close>

text \<open>C7. The area of a screen, to which windows are maximized, leaves the panels free: where a panel that
  is always visible borders an output on a subspace, and leaves room there, no point of the area of
  that output and subspace is a point of the panel, and every point is one of the output. This holds
  for the new areas of any desk, whatever other panels there are and in whatever order.\<close>

theorem areas_leave_out_panels:
  assumes "w \<in> set (windows (dk_space d))" "panel_on d w k" "rect_valid (g_frame (geo d w))"
    and "1 \<le> k" "k \<le> length (subspaces (subspace_manager (dk_space d)))" "i < length (dk_outputs d)"
    and "panel_margins (g_frame (geo d w)) (dk_outputs d ! i) \<noteq> no_margins"
    and "rect_valid (remove_margins (panel_margins (g_frame (geo d w)) (dk_outputs d ! i)) (dk_outputs d ! i))"
    and "contains_point (sa_screen (new_space_areas d) ! k ! i) p"
  shows "contains_point (dk_outputs d ! i) p \<and> \<not> contains_point (g_frame (geo d w)) p"
proof -
  let ?n = "length (subspaces (subspace_manager (dk_space d)))"
  let ?area = "fold (\<lambda>g area. united area g) (dk_outputs d) null_rect"
  let ?start = "fold (\<lambda>desktop a. a\<lparr>sa_work := (sa_work a)[desktop := ?area],
      sa_screen := (sa_screen a)[desktop := dk_outputs d]\<rparr>) [1..<Suc ?n] (empty_areas (?n + 1))"
  have e: "new_space_areas d = fold (\<lambda>w a. if win_class (dwin d w) = Wayland_Window
      then window_space_areas d ?area (dk_outputs d) w a else a) (windows (dk_space d)) ?start"
    by (simp only: new_space_areas_def update_space_area_from_windows_def Let_def)
  have shaped: "areas_shaped ?n (length (dk_outputs d)) ?start" by (rule start_shaped(1))
  have "contains_point (remove_margins (panel_margins (g_frame (geo d w)) (dk_outputs d ! i)) (dk_outputs d ! i)) p"
    using windows_step [OF shaped assms(4-6), of ?area "windows (dk_space d)" p] assms(1,2,9)
    by (auto simp: area_at_def e)
  then show ?thesis
    using panel_margins_off [OF assms(7,3,8)] by blast
qed

text \<open>Window 2 is a panel of 40 rows at the bottom of the first output.\<close>

definition panel_desk :: desk where
  "panel_desk =
     (let d = update_geo 2 (\<lambda>g. g\<lparr>g_strut := True\<rparr>) (plain_desk [2] (\<lambda>_. mk_rect 0 760 1000 40))
      in d\<lparr>dk_space := update_window 2 (\<lambda>x. x\<lparr>win_class := Wayland_Window\<rparr>) (dk_space d)\<rparr>)"

theorem areas_leave_out_panels_witness:
  "\<not> contains_point (mk_rect 0 760 1000 40) (500, 700)"
proof -
  have p: "windows (dk_space panel_desk) = [2]" "dk_outputs panel_desk = two_outputs"
      "subspace_manager (dk_space panel_desk) = three_desktops" "g_frame (geo panel_desk 2) = mk_rect 0 760 1000 40"
      "dk_topology panel_desk = (2000, 800)" "central_output (dwin panel_desk 2) = Some 0"
      "panel_on panel_desk 2 2" "g_strut (geo panel_desk 2)" "on_all_subspaces (dk_space panel_desk) 2"
      "win_class (dwin panel_desk 2) = Wayland_Window"
    by (simp_all add: panel_desk_def Let_def update_geo_def update_window_def panel_on_def on_all_subspaces_def)
  have three: "length (subspaces three_desktops) = 3" by code_simp
  have m: "panel_margins (mk_rect 0 760 1000 40) (mk_rect 0 0 1000 800) = \<lparr>m_left = 0, m_top = 0, m_right = 0, m_bottom = 40\<rparr>"
    by (simp add: panel_margins_def intersects_def rect_null_def Let_def rect_defs)
  have "contains_point (sa_screen (new_space_areas panel_desk) ! 2 ! 0) (500, 700)"
    by (simp add: new_space_areas_def update_space_area_from_windows_def window_space_areas_def p three
        Let_def upt_rec empty_areas_def take_screen two_outputs_def m united_def)
      (simp add: intersected_def intersects_def remove_margins_def contains_point_def rect_null_def Let_def rect_defs)
  then have "contains_point (dk_outputs panel_desk ! 0) (500, 700)
      \<and> \<not> contains_point (g_frame (geo panel_desk 2)) (500, 700)"
    by (intro areas_leave_out_panels [where k = 2 and i = 0])
      (simp_all add: p three m two_outputs_def no_margins_def, simp_all add: rect_valid_def remove_margins_def rect_defs)
  then show ?thesis by (simp add: p)
qed

end
