(* ===== verification/Geo_Change.thy ===== *)
theory Geo_Change
  imports Geo_Restrict
begin

text \<open>
  Packing, growing and shrinking a window (geo_change.h): the position next to the area or to the
  nearest other window in a direction.
\<close>

section \<open>The next position in a direction\<close>

text \<open>The windows that count.\<close>

definition pack_windows :: "desk \<Rightarrow> wid \<Rightarrow> wid list" where
  "pack_windows d w =
     filter (\<lambda>v. \<not> is_irrelevant (dk_space d) v w (placement_subspace d w)) (windows (dk_space d))"

definition same_rows :: "rect \<Rightarrow> rect \<Rightarrow> bool" where
  "same_rows a b \<longleftrightarrow> \<not> (y1 a > y2 b \<or> y2 a < y1 b)"

definition same_columns :: "rect \<Rightarrow> rect \<Rightarrow> bool" where
  "same_columns a b \<longleftrightarrow> \<not> (x1 a > x2 b \<or> x2 a < x1 b)"

definition pack_area :: "desk \<Rightarrow> wid \<Rightarrow> rect" where
  "pack_area d w = space_window_area d area_maximize w"

text \<open>The area at a point next to the frame: another screen.\<close>

definition pack_area_at :: "desk \<Rightarrow> wid \<Rightarrow> point \<Rightarrow> rect" where
  "pack_area_at d w p = space_window_area_point d area_maximize p (get_subspace (dk_space d) w)"

definition within_one_output :: "desk \<Rightarrow> rect \<Rightarrow> bool" where
  "within_one_output d r \<longleftrightarrow> length (get_intersecting_outputs (dk_outputs d) r) < 2"

text \<open>The loops over the windows.\<close>

definition nearest_before :: "int \<Rightarrow> (wid \<Rightarrow> int) \<Rightarrow> (wid \<Rightarrow> bool) \<Rightarrow> wid list \<Rightarrow> int \<Rightarrow> int" where
  "nearest_before old edge meets ws start =
     fold (\<lambda>v new. if edge v > new \<and> edge v < old \<and> meets v then edge v else new) ws start"

definition nearest_after :: "int \<Rightarrow> (wid \<Rightarrow> int) \<Rightarrow> (wid \<Rightarrow> bool) \<Rightarrow> wid list \<Rightarrow> int \<Rightarrow> int" where
  "nearest_after old edge meets ws start =
     fold (\<lambda>v new. if edge v < new \<and> edge v > old \<and> meets v then edge v else new) ws start"

text \<open>To the left the code also moves the right edge to the border of the area.\<close>

definition get_pack_position_left :: "desk \<Rightarrow> wid \<Rightarrow> int \<Rightarrow> bool \<Rightarrow> int" where
  "get_pack_position_left d w oldX leftEdge =
     (let frame = g_update_frame (geo d w);
          newX = x1 (pack_area d w);
          newX = (if oldX \<le> newX
                  then x1 (pack_area_at d w (x1 frame - 1, snd (rect_center frame))) else newX);
          right = newX - m_left (g_margins (geo d w));
          newX = (if within_one_output d (move_right right frame) then right else newX)
      in if oldX \<le> newX then oldX
         else nearest_before oldX
                (\<lambda>v. let f = g_update_frame (geo d v) in if leftEdge then x2 f + 1 else x1 f - 1)
                (\<lambda>v. same_rows frame (g_update_frame (geo d v))) (pack_windows d w) newX)"

definition get_pack_position_right :: "desk \<Rightarrow> wid \<Rightarrow> int \<Rightarrow> bool \<Rightarrow> int" where
  "get_pack_position_right d w oldX rightEdge =
     (let frame = g_update_frame (geo d w);
          newX = x2 (pack_area d w);
          newX = (if oldX \<ge> newX
                  then x2 (pack_area_at d w (x2 frame + 1, snd (rect_center frame))) else newX);
          right = newX + m_right (g_margins (geo d w));
          newX = (if within_one_output d (move_right right frame) then right else newX)
      in if oldX \<ge> newX then oldX
         else nearest_after oldX
                (\<lambda>v. let f = g_update_frame (geo d v) in if rightEdge then x1 f - 1 else x2 f + 1)
                (\<lambda>v. same_rows frame (g_update_frame (geo d v))) (pack_windows d w) newX)"

definition get_pack_position_up :: "desk \<Rightarrow> wid \<Rightarrow> int \<Rightarrow> bool \<Rightarrow> int" where
  "get_pack_position_up d w oldY topEdge =
     (let frame = g_update_frame (geo d w);
          newY = y1 (pack_area d w);
          newY = (if oldY \<le> newY
                  then y1 (pack_area_at d w (fst (rect_center frame), y1 frame - 1)) else newY)
      in if oldY \<le> newY then oldY
         else nearest_before oldY
                (\<lambda>v. let f = g_update_frame (geo d v) in if topEdge then y2 f + 1 else y1 f - 1)
                (\<lambda>v. same_columns frame (g_update_frame (geo d v))) (pack_windows d w) newY)"

definition get_pack_position_down :: "desk \<Rightarrow> wid \<Rightarrow> int \<Rightarrow> bool \<Rightarrow> int" where
  "get_pack_position_down d w oldY bottomEdge =
     (let frame = g_update_frame (geo d w);
          newY = y2 (pack_area d w);
          newY = (if oldY \<ge> newY
                  then y2 (pack_area_at d w (fst (rect_center frame), y2 frame + 1)) else newY);
          bottom = newY + m_bottom (g_margins (geo d w));
          newY = (if within_one_output d (move_bottom bottom frame) then bottom else newY)
      in if oldY \<ge> newY then oldY
         else nearest_after oldY
                (\<lambda>v. let f = g_update_frame (geo d v) in if bottomEdge then y1 f - 1 else y2 f + 1)
                (\<lambda>v. same_columns frame (g_update_frame (geo d v))) (pack_windows d w) newY)"

section \<open>Growing and shrinking\<close>

definition remember_mouse :: "desk \<Rightarrow> desk" where
  "remember_mouse d = d\<lparr>dk_focus_mouse := dk_cursor d\<rparr>"

definition grow_horizontal :: "wid \<Rightarrow> desk \<Rightarrow> desk" where
  "grow_horizontal w d =
     (if \<not> isResizable d w then d
      else
        let g = geo d w;
            r = set_right (get_pack_position_right d w (x2 (g_frame g)) True) (g_frame g);
            adjsize = adjusted_frame_size d w (rect_extent r);
            r = (if rect_extent (g_frame g) = adjsize \<and> rect_extent r \<noteq> adjsize
                    \<and> fst (g_increments g) > 1
                 then let grown = get_pack_position_right d w (x2 r + fst (g_increments g) - 1) True;
                          area = space_window_area_point d area_movement
                                   ((x1 (g_frame g) + grown) sdiv 2, snd (rect_center (g_frame g)))
                                   (get_subspace (dk_space d) w)
                      in if x2 area \<ge> grown then set_right grown r else r
                 else r);
            r = set_extent (adjusted_frame_size d w (rect_extent r)) r;
            r = set_extent (adjusted_frame_size d w (rect_extent r)) r
        in setFrameGeometry w r (remember_mouse d))"

definition shrink_horizontal :: "wid \<Rightarrow> desk \<Rightarrow> desk" where
  "shrink_horizontal w d =
     (if \<not> isResizable d w then d
      else
        let frame = g_frame (geo d w);
            r = set_right (get_pack_position_left d w (x2 frame) False) frame
        in if rect_width r \<le> 1 then d
           else
             let r = set_extent (adjusted_frame_size d w (rect_extent r)) r
             in if rect_width r > 20 then setFrameGeometry w r (remember_mouse d) else d)"

definition grow_vertical :: "wid \<Rightarrow> desk \<Rightarrow> desk" where
  "grow_vertical w d =
     (if \<not> isResizable d w then d
      else
        let g = geo d w;
            r = set_bottom (get_pack_position_down d w (y2 (g_frame g)) True) (g_frame g);
            adjsize = adjusted_frame_size d w (rect_extent r);
            r = (if rect_extent (g_frame g) = adjsize \<and> rect_extent r \<noteq> adjsize
                    \<and> snd (g_increments g) > 1
                 then let grown = get_pack_position_down d w (y2 r + snd (g_increments g) - 1) True;
                          area = space_window_area_point d area_movement
                                   (fst (rect_center (g_frame g)), (y1 (g_frame g) + grown) sdiv 2)
                                   (get_subspace (dk_space d) w)
                      in if y2 area \<ge> grown then set_bottom grown r else r
                 else r);
            r = set_extent (adjusted_frame_size d w (rect_extent r)) r
        in setFrameGeometry w r (remember_mouse d))"

definition shrink_vertical :: "wid \<Rightarrow> desk \<Rightarrow> desk" where
  "shrink_vertical w d =
     (if \<not> isResizable d w then d
      else
        let frame = g_frame (geo d w);
            r = set_bottom (get_pack_position_up d w (y2 frame) False) frame
        in if rect_height r \<le> 1 then d
           else
             let r = set_extent (adjusted_frame_size d w (rect_extent r)) r
             in if rect_height r > 20 then setFrameGeometry w r (remember_mouse d) else d)"

section \<open>The position is the nearest one\<close>

lemma nearest_before_bounds:
  assumes "start < old"
  shows "start \<le> nearest_before old edge meets ws start" "nearest_before old edge meets ws start < old"
    and "v \<in> set ws \<Longrightarrow> meets v \<Longrightarrow> edge v < old \<Longrightarrow> edge v \<le> nearest_before old edge meets ws start"
proof -
  have "start \<le> nearest_before old edge meets ws start \<and> nearest_before old edge meets ws start < old
        \<and> (\<forall>v \<in> set ws. meets v \<longrightarrow> edge v < old \<longrightarrow> edge v \<le> nearest_before old edge meets ws start)"
    using assms
  proof (induction ws arbitrary: start)
    case (Cons v ws)
    have "start \<le> (if edge v > start \<and> edge v < old \<and> meets v then edge v else start)" by simp
    then show ?case
      using Cons.IH [of "if edge v > start \<and> edge v < old \<and> meets v then edge v else start"] Cons.prems
      by (auto simp: nearest_before_def split: if_splits intro: order_trans)
  qed (simp add: nearest_before_def)
  then show "start \<le> nearest_before old edge meets ws start" "nearest_before old edge meets ws start < old"
    "v \<in> set ws \<Longrightarrow> meets v \<Longrightarrow> edge v < old \<Longrightarrow> edge v \<le> nearest_before old edge meets ws start"
    by auto
qed

lemma nearest_before_source:
  "nearest_before old edge meets ws start = start
   \<or> (\<exists>v \<in> set ws. meets v \<and> edge v < old \<and> nearest_before old edge meets ws start = edge v)"
proof (induction ws arbitrary: start)
  case (Cons v ws)
  show ?case
    using Cons.IH [of "if edge v > start \<and> edge v < old \<and> meets v then edge v else start"]
    by (auto simp: nearest_before_def split: if_splits)
qed (simp add: nearest_before_def)

end
