(* ===== verification/Geo_Lock.thy ===== *)
theory Geo_Lock
  imports Stacking_Lock Quicktile Geo_Change Example_Desk
begin

text \<open>
  The blocking of geometry updates (geo_block.h) as the contract of Stacking_Lock: while updates of a
  window are blocked, no operation of the geometry moves its frame; what was asked for last is applied
  by the call that unblocks. No operation touches the geometry of another window.
\<close>

section \<open>The contract\<close>











section \<open>The steps\<close>











section \<open>The operations\<close>


















section \<open>Placement\<close>









section \<open>Restricting, tiling and resizing\<close>












section \<open>Any calls\<close>








end
